(* ===== verification/Prelude.thy ===== *)
theory Prelude
  imports Complex_Main "HOL-Library.AList" "HOL-Library.Char_ord" "HOL-Library.List_Lexorder"
begin

section \<open>Shared vocabulary of the model\<close>

text \<open>
  The parts of JavaScript that the frontend's code uses everywhere: strings (as byte lists in
  UTF-8), string searching and replacing, dictionaries (objects and \<open>Map\<close>s as association lists
  in insertion order), \<open>find\<close>, numbers and JSON values. Every component imports this theory.
  The collection \<open>dict\<close> holds the dictionary laws, \<open>text_laws\<close> the string laws.
\<close>

named_theorems dict \<open>laws of association-list dictionaries\<close>
named_theorems text_laws \<open>laws of string searching, splitting and replacing\<close>

type_synonym ms = int \<comment> \<open>milliseconds since the epoch, what \<open>Date.parse\<close> gives\<close>

subsection \<open>Text literals outside ASCII\<close>

text \<open>
  The user-facing texts are Serbian. A theory holds ASCII only, so a literal is written with an
  escape \<open>~x\<close> for each letter outside ASCII, and \<open>sr\<close> expands it to the letter's UTF-8 bytes.
\<close>

fun sr_letter :: "char \<Rightarrow> string" where
  "sr_letter c =
     (if c = CHR ''c'' then [CHR 0xC4, CHR 0x8D]
      else if c = CHR ''q'' then [CHR 0xC4, CHR 0x87]
      else if c = CHR ''s'' then [CHR 0xC5, CHR 0xA1]
      else if c = CHR ''z'' then [CHR 0xC5, CHR 0xBE]
      else if c = CHR ''d'' then [CHR 0xC4, CHR 0x91]
      else if c = CHR ''C'' then [CHR 0xC4, CHR 0x8C]
      else if c = CHR ''S'' then [CHR 0xC5, CHR 0xA0]
      else if c = CHR ''Z'' then [CHR 0xC5, CHR 0xBD]
      else if c = CHR ''>'' then [CHR 0xE2, CHR 0x80, CHR 0xBA]
      else [c])"

fun sr :: "string \<Rightarrow> string" where
  "sr [] = []"
| "sr [c] = [c]"
| "sr (c # d # cs) = (if c = CHR ''~'' then sr_letter d @ sr cs else c # sr (d # cs))"

subsection \<open>Strings\<close>

definition starts_with :: "string \<Rightarrow> string \<Rightarrow> bool" where
  "starts_with p s \<longleftrightarrow> take (length p) s = p"

fun index_of :: "string \<Rightarrow> string \<Rightarrow> nat option" where
  "index_of p [] = (if p = [] then Some 0 else None)"
| "index_of p (c # cs) =
     (if starts_with p (c # cs) then Some 0 else map_option Suc (index_of p cs))"

definition str_includes :: "string \<Rightarrow> string \<Rightarrow> bool" where
  "str_includes p s \<longleftrightarrow> index_of p s \<noteq> None"

text \<open>
  \<open>s.replace(p, r)\<close> with a string pattern: the first occurrence only. In the replacement \<open>$$\<close>
  stands for a dollar sign, \<open>$&\<close> for the match, \<open>$`\<close> and \<open>$'\<close> for what precedes and follows it.
\<close>

fun expand_dollar :: "string \<Rightarrow> string \<Rightarrow> string \<Rightarrow> string \<Rightarrow> string" where
  "expand_dollar found before after [] = []"
| "expand_dollar found before after [c] = [c]"
| "expand_dollar found before after (c # d # cs) =
     (if c = CHR ''$'' then
        (if d = CHR ''$'' then c # expand_dollar found before after cs
         else if d = CHR ''&'' then found @ expand_dollar found before after cs
         else if d = CHR 0x60 then before @ expand_dollar found before after cs
         else if d = CHR 0x27 then after @ expand_dollar found before after cs
         else c # expand_dollar found before after (d # cs))
      else c # expand_dollar found before after (d # cs))"

definition replace_first :: "string \<Rightarrow> string \<Rightarrow> string \<Rightarrow> string" where
  "replace_first p r s =
     (case index_of p s of
        None \<Rightarrow> s
      | Some i \<Rightarrow> let before = take i s; after = drop (i + length p) s
          in before @ expand_dollar p before after r @ after)"

fun split_on :: "char \<Rightarrow> string \<Rightarrow> string list" where
  "split_on sep [] = [[]]"
| "split_on sep (c # cs) =
     (if c = sep then [] # split_on sep cs
      else (case split_on sep cs of [] \<Rightarrow> [[c]] | w # ws \<Rightarrow> (c # w) # ws))"

fun join_with :: "string \<Rightarrow> string list \<Rightarrow> string" where
  "join_with sep [] = []"
| "join_with sep [w] = w"
| "join_with sep (w # v # ws) = w @ sep @ join_with sep (v # ws)"

definition is_space :: "char \<Rightarrow> bool" where
  "is_space c \<longleftrightarrow> c \<in> {CHR '' '', CHR 0x09, CHR 0x0A, CHR 0x0B, CHR 0x0C, CHR 0x0D}"

definition trim_start :: "string \<Rightarrow> string" where
  "trim_start s = dropWhile is_space s"

definition trim :: "string \<Rightarrow> string" where
  "trim s = rev (dropWhile is_space (rev (dropWhile is_space s)))"

definition lower_char :: "char \<Rightarrow> char" where
  "lower_char c = (if CHR ''A'' \<le> c \<and> c \<le> CHR ''Z'' then char_of ((of_char c :: nat) + 32) else c)"

definition to_lower :: "string \<Rightarrow> string" where
  \<comment> \<open>case folding of the ASCII letters, as a regular expression's \<open>i\<close> flag does on an ASCII pattern\<close>
  "to_lower s = map lower_char s"

definition slice :: "nat \<Rightarrow> nat \<Rightarrow> string \<Rightarrow> string" where
  "slice i j s = drop i (take j s)"

definition is_digit :: "char \<Rightarrow> bool" where
  "is_digit c \<longleftrightarrow> CHR ''0'' \<le> c \<and> c \<le> CHR ''9''"

text \<open>
  \<open>s.length\<close> counts UTF-16 code units: a UTF-8 continuation byte counts nothing, the lead byte of
  a four-byte sequence counts two.
\<close>

definition unit_of :: "char \<Rightarrow> nat" where
  "unit_of c = (let n = of_char c :: nat
     in if n < 128 then 1 else if n < 192 then 0 else if n < 240 then 1 else 2)"

definition js_length :: "string \<Rightarrow> nat" where
  "js_length s = sum_list (map unit_of s)"

definition pad_start :: "nat \<Rightarrow> char \<Rightarrow> string \<Rightarrow> string" where
  "pad_start n c s = replicate (n - length s) c @ s"

lemma js_length_simps [simp]:
  "js_length [] = 0" "js_length (c # s) = unit_of c + js_length s"
  "js_length (s @ t) = js_length s + js_length t"
  by (simp_all add: js_length_def)

lemma starts_with_append [simp]: "starts_with p (p @ s)"
  by (simp add: starts_with_def)

lemma starts_withD: "starts_with p s \<Longrightarrow> \<exists>t. s = p @ t"
  unfolding starts_with_def by (metis append_take_drop_id)

lemma starts_with_iff [text_laws]: "starts_with p s \<longleftrightarrow> (\<exists>t. s = p @ t)"
  using starts_withD by (auto simp: starts_with_def)

lemma index_of_SomeD: "index_of p s = Some i \<Longrightarrow> take (length p) (drop i s) = p \<and> i + length p \<le> length s"
proof (induction s arbitrary: i)
  case Nil
  then show ?case by (simp split: if_splits)
next
  case (Cons c cs)
  show ?case
  proof (cases "starts_with p (c # cs)")
    case True
    then have "length p \<le> length (c # cs)"
      unfolding starts_with_def by (metis length_take min.bounded_iff order_refl)
    with Cons True show ?thesis by (auto simp: starts_with_def)
  next
    case False
    with Cons.prems obtain j where "index_of p cs = Some j" "i = Suc j" by auto
    with Cons.IH show ?thesis by simp
  qed
qed

lemma expand_dollar_plain: "CHR ''$'' \<notin> set r \<Longrightarrow> expand_dollar f b a r = r"
  by (induction f b a r rule: expand_dollar.induct) auto

lemma split_on_nonempty [simp]: "split_on sep s \<noteq> []"
  by (induction s) (auto split: list.splits)

lemma join_split [text_laws]: "join_with [sep] (split_on sep s) = s"
proof (induction s)
  case (Cons c cs)
  obtain w ws where "split_on sep cs = w # ws" by (metis split_on_nonempty neq_Nil_conv)
  with Cons show ?case by (cases ws) auto
qed simp

lemma split_on_no_sep [text_laws]: "w \<in> set (split_on sep s) \<Longrightarrow> sep \<notin> set w"
proof (induction s arbitrary: w)
  case (Cons c cs)
  obtain u us where "split_on sep cs = u # us" by (metis split_on_nonempty neq_Nil_conv)
  with Cons show ?case by (auto split: if_splits)
qed simp

subsection \<open>Decimal numerals\<close>

text \<open>\<open>String(n)\<close> of an integer, and reading a run of digits back.\<close>

definition digit :: "nat \<Rightarrow> char" where
  "digit d = char_of (48 + d)"

definition digit_val :: "char \<Rightarrow> nat" where
  "digit_val c = of_char c - 48"

fun show_nat :: "nat \<Rightarrow> string" where
  "show_nat n = (if n < 10 then [digit n] else show_nat (n div 10) @ [digit (n mod 10)])"

declare show_nat.simps [simp del]

definition show_int :: "int \<Rightarrow> string" where
  "show_int i = (if i < 0 then CHR ''-'' # show_nat (nat (- i)) else show_nat (nat i))"

definition read_nat :: "string \<Rightarrow> nat" where
  "read_nat s = foldl (\<lambda>a c. a * 10 + digit_val c) 0 s"

lemma is_digit_digit [simp]: "d < 10 \<Longrightarrow> is_digit (digit d)"
  by (simp add: is_digit_def digit_def less_eq_char_def)

lemma digit_val_digit [simp]: "d < 10 \<Longrightarrow> digit_val (digit d) = d"
  by (simp add: digit_val_def digit_def)

lemma digit_chars:
  "digit 0 = CHR ''0''" "digit 1 = CHR ''1''" "digit 2 = CHR ''2''" "digit 3 = CHR ''3''"
  "digit 4 = CHR ''4''" "digit 5 = CHR ''5''" "digit 6 = CHR ''6''" "digit 7 = CHR ''7''"
  "digit 8 = CHR ''8''" "digit 9 = CHR ''9''"
  "digit (Suc 0) = CHR ''1''"
  by code_simp+

text \<open>Evaluation of digits, numerals and padding on concrete values.\<close>

lemmas text_eval = digit_chars is_digit_def read_nat_def digit_val_def pad_start_def show_nat.simps
  numeral_eq_Suc

lemma show_nat_digits: "c \<in> set (show_nat n) \<Longrightarrow> is_digit c"
  by (induction n rule: show_nat.induct) (subst (asm) (2) show_nat.simps, auto split: if_splits)

lemma show_nat_nonempty [simp]: "show_nat n \<noteq> []"
  by (subst show_nat.simps) simp

lemma read_show_nat [simp]: "read_nat (show_nat n) = n"
proof (induction n rule: show_nat.induct)
  case (1 n)
  show ?case
  proof (cases "n < 10")
    case True
    then show ?thesis by (subst show_nat.simps) (simp add: read_nat_def)
  next
    case False
    with 1 have "read_nat (show_nat (n div 10)) = n div 10" by simp
    with False show ?thesis by (subst show_nat.simps) (simp add: read_nat_def)
  qed
qed

lemma show_nat_inj [simp]: "show_nat m = show_nat n \<longleftrightarrow> m = n"
  by (metis read_show_nat)

lemma not_digit_dash [simp]: "\<not> is_digit CHR ''-''" "\<not> is_digit CHR '':''"
  by (simp_all add: is_digit_def less_eq_char_def)

lemma show_nat_no [simp]: "CHR ''-'' \<notin> set (show_nat n)" "CHR '':'' \<notin> set (show_nat n)"
  using show_nat_digits by fastforce+

lemma show_int_inj [simp]: "show_int i = show_int j \<longleftrightarrow> i = j"
proof -
  have "show_nat n \<noteq> CHR ''-'' # s" for n s by (metis list.set_intros(1) show_nat_no(1))
  from this this [symmetric] show ?thesis by (auto simp: show_int_def)
qed

lemma show_int_no_colon [simp]: "CHR '':'' \<notin> set (show_int i)"
  by (simp add: show_int_def)

lemma append_sep_eq:
  assumes "c \<notin> set xs" and "c \<notin> set ys"
  shows "xs @ c # us = ys @ c # vs \<longleftrightarrow> xs = ys \<and> us = vs"
  using assms
proof (induction xs arbitrary: ys)
  case Nil
  then show ?case by (cases ys) auto
next
  case (Cons x xs)
  then show ?case by (cases ys) auto
qed

subsection \<open>Dictionaries\<close>

text \<open>
  An object used as a dictionary and a \<open>Map\<close> are association lists with distinct keys, in
  insertion order: \<open>AList.update\<close> overwrites in place or appends, \<open>AList.delete\<close> removes.
\<close>

type_synonym ('k, 'v) dict = "('k \<times> 'v) list"

definition dict_wf :: "('k, 'v) dict \<Rightarrow> bool" where
  "dict_wf d \<longleftrightarrow> distinct (map fst d)"

definition dict_of :: "('k \<times> 'v) list \<Rightarrow> ('k, 'v) dict" where
  \<comment> \<open>\<open>new Map(entries)\<close> and \<open>Object.fromEntries(entries)\<close>: later entries overwrite\<close>
  "dict_of kvs = fold (\<lambda>(k, v) d. AList.update k v d) kvs []"

lemma dict_wf_empty [simp]: "dict_wf []"
  by (simp add: dict_wf_def)

lemma dict_wf_update [simp, dict]: "dict_wf d \<Longrightarrow> dict_wf (AList.update k v d)"
  by (simp add: dict_wf_def distinct_update)

lemma dict_wf_delete [simp, dict]: "dict_wf d \<Longrightarrow> dict_wf (AList.delete k d)"
  by (simp add: dict_wf_def distinct_delete)

lemma dict_wf_filter [simp, dict]: "dict_wf d \<Longrightarrow> dict_wf (filter P d)"
  by (induction d) (auto simp: dict_wf_def)

lemma map_of_update [simp, dict]: "map_of (AList.update k v d) = (map_of d)(k \<mapsto> v)"
  by (simp add: update_conv')

lemma map_of_delete [simp, dict]: "map_of (AList.delete k d) = (map_of d)(k := None)"
  by (simp add: delete_conv')

lemma map_of_in [dict]: "dict_wf d \<Longrightarrow> (k, v) \<in> set d \<longleftrightarrow> map_of d k = Some v"
  by (auto simp: dict_wf_def dest: map_of_SomeD)

lemma dict_wf_fold_update:
  "dict_wf d \<Longrightarrow> dict_wf (fold (\<lambda>(k, v) d. AList.update k v d) kvs d)"
  by (induction kvs arbitrary: d) auto

lemma dict_wf_dict_of [simp, dict]: "dict_wf (dict_of kvs)"
  by (simp add: dict_of_def dict_wf_fold_update)

lemma map_of_fold_update:
  "map_of (fold (\<lambda>(k, v) d. AList.update k v d) kvs d) = map_of d ++ map_of (rev kvs)"
proof (induction kvs arbitrary: d)
  case (Cons kv kvs)
  then show ?case by (cases kv) (simp add: map_add_upd_left map_add_def fun_eq_iff split: option.splits)
qed simp

lemma map_of_dict_of [dict]: "map_of (dict_of kvs) = map_of (rev kvs)"
  by (simp add: dict_of_def map_of_fold_update)

lemma update_new: "k \<notin> set (map fst d) \<Longrightarrow> AList.update k v d = d @ [(k, v)]"
  by (induction d) auto

lemma dict_of_wf_id:
  assumes "dict_wf kvs"
  shows "dict_of kvs = kvs"
proof -
  have "distinct (map fst (d @ kvs)) \<Longrightarrow>
    fold (\<lambda>(k, v) d. AList.update k v d) kvs d = d @ kvs" for d
  proof (induction kvs arbitrary: d)
    case (Cons kv kvs)
    then show ?case by (cases kv) (simp add: update_new)
  qed simp
  from this [of "[]"] assms show ?thesis by (simp add: dict_of_def dict_wf_def)
qed

subsection \<open>Searching lists\<close>

text \<open>\<open>xs.find(p)\<close> is the library's \<open>find\<close>; \<open>xs.findIndex(p)\<close> gives None for \<open>-1\<close>.\<close>

fun find_index :: "('a \<Rightarrow> bool) \<Rightarrow> 'a list \<Rightarrow> nat option" where
  "find_index P [] = None"
| "find_index P (x # xs) = (if P x then Some 0 else map_option Suc (find_index P xs))"

lemma find_SomeD: "find P xs = Some x \<Longrightarrow> x \<in> set xs \<and> P x"
  by (induction xs) (auto split: if_splits)

lemma find_index_SomeD: "find_index P xs = Some i \<Longrightarrow> i < length xs \<and> P (xs ! i)"
  by (induction xs arbitrary: i) (auto split: if_splits)

lemma find_index_None_iff: "find_index P xs = None \<longleftrightarrow> (\<forall>x \<in> set xs. \<not> P x)"
  by (induction xs) auto

subsection \<open>Sorting with a comparator\<close>

text \<open>
  \<open>xs.sort(compare)\<close> is stable. \<open>le x y\<close> stands for \<open>compare(x, y) <= 0\<close>.
\<close>

fun insert_by :: "('a \<Rightarrow> 'a \<Rightarrow> bool) \<Rightarrow> 'a \<Rightarrow> 'a list \<Rightarrow> 'a list" where
  "insert_by le x [] = [x]"
| "insert_by le x (y # ys) = (if le x y then x # y # ys else y # insert_by le x ys)"

definition sort_by :: "('a \<Rightarrow> 'a \<Rightarrow> bool) \<Rightarrow> 'a list \<Rightarrow> 'a list" where
  "sort_by le xs = foldr (insert_by le) xs []"

lemma set_insert_by [simp]: "set (insert_by le x ys) = insert x (set ys)"
  by (induction ys) auto

lemma set_sort_by [simp]: "set (sort_by le xs) = set xs"
  unfolding sort_by_def by (induction xs) auto

lemma length_sort_by [simp]: "length (sort_by le xs) = length xs"
proof -
  have "length (insert_by le x ys) = Suc (length ys)" for x and ys :: "'a list" by (induction ys) auto
  then show ?thesis unfolding sort_by_def by (induction xs) auto
qed

lemma distinct_insert_by: "distinct (insert_by le x ys) \<longleftrightarrow> x \<notin> set ys \<and> distinct ys"
  by (induction ys) auto

lemma distinct_sort_by [simp]: "distinct (sort_by le xs) \<longleftrightarrow> distinct xs"
  unfolding sort_by_def
proof (induction xs)
  case (Cons x xs)
  then show ?case using set_sort_by [of le xs] by (simp add: distinct_insert_by sort_by_def)
qed simp

lemma sorted_insert_by:
  fixes key :: "'a \<Rightarrow> 'k :: linorder"
  assumes "\<And>x y. le x y \<Longrightarrow> key x \<le> key y" and "\<And>x y. \<not> le x y \<Longrightarrow> key y \<le> key x"
    and "sorted (map key ys)"
  shows "sorted (map key (insert_by le x ys))"
  using assms(3)
proof (induction ys)
  case (Cons y ys)
  then show ?case using assms(1) [of x y] assms(2) [of x y] by fastforce
qed simp

lemma sorted_sort_by:
  fixes key :: "'a \<Rightarrow> 'k :: linorder"
  assumes "\<And>x y. le x y \<Longrightarrow> key x \<le> key y" and "\<And>x y. \<not> le x y \<Longrightarrow> key y \<le> key x"
  shows "sorted (map key (sort_by le xs))"
  unfolding sort_by_def using sorted_insert_by [of le key, OF assms] by (induction xs) auto

subsection \<open>Numbers and JSON values\<close>

text \<open>
  A number of unknown origin may be NaN or infinite; a finite one is a rational. Where the code
  only ever holds integers the components use \<open>int\<close> or \<open>nat\<close> instead.
\<close>

datatype jsnum = NaN | Infinity bool | Num rat

definition is_finite :: "jsnum \<Rightarrow> bool" where
  "is_finite n \<longleftrightarrow> (case n of Num _ \<Rightarrow> True | _ \<Rightarrow> False)"

definition trunc :: "rat \<Rightarrow> int" where
  \<comment> \<open>\<open>Math.trunc\<close>: towards zero\<close>
  "trunc r = (if 0 \<le> r then \<lfloor>r\<rfloor> else \<lceil>r\<rceil>)"

datatype json =
    JNull
  | JBool bool
  | JNum jsnum
  | JStr string
  | JArr "json list"
  | JObj "(string \<times> json) list"

lemma trunc_of_int [simp]: "trunc (of_int i) = i"
  by (simp add: trunc_def)

lemma trunc_numeral [simp]: "trunc (numeral n) = numeral n"
  by (simp add: trunc_def)

lemma trunc_pos_iff: "0 < trunc r \<longleftrightarrow> 1 \<le> r"
  by (auto simp: trunc_def le_floor_iff zero_less_ceiling)

lemma entries_of_key:
  assumes m: "(k, i) \<in> S" and u: "\<And>j. (k, j) \<in> S \<Longrightarrow> j = i"
  shows "{p \<in> S. fst p = k} = {(k, i)}"
proof (intro set_eqI iffI)
  fix p
  assume p: "p \<in> {p \<in> S. fst p = k}"
  then obtain j where "p = (k, j)" by (cases p) simp
  with p u [of j] show "p \<in> {(k, i)}" by simp
qed (use m in simp)

end
