(* ===== verification/Auth.thy ===== *)
theory Auth
  imports Prelude
begin

section \<open>Accounts, capabilities and the session store\<close>

text \<open>
  Models \<open>types/auth.types.ts\<close>, \<open>auth/capabilities.ts\<close>, \<open>auth/authStore.ts\<close>,
  \<open>auth/CapabilityGuard.tsx\<close>, \<open>auth/ProtectedRoute.tsx\<close>, \<open>auth/schemas.ts\<close>,
  \<open>feature/featureStore.ts\<close> and \<open>query/sessionCacheBoundary.ts\<close>. The two zustand stores are
  records; each store action is a function that returns the new store and, where the code starts
  one, the list of effects (\<open>purgePrivateData\<close>, the feature store's \<open>reset\<close>).
\<close>

subsection \<open>Types\<close>

datatype role = OWNER | ADMIN | EMPLOYEE | CUSTOMER

datatype permission =
    WAITLIST_MANAGE
  | PROFILE_READ | PROFILE_UPDATE | EMPLOYEE_LIST
  | USER_LIST | USER_CREATE | USER_DEACTIVATE
  | USER_DELETE | USER_RESTORE | CUSTOMER_READ | CUSTOMER_CREATE
  | CUSTOMER_UPDATE_LIMITED | CUSTOMER_DEACTIVATE | CUSTOMER_CRM_MANAGE
  | CATALOG_READ | CATALOG_MANAGE | CATALOG_DELETE | CATALOG_RESTORE
  | AUDIT_READ
  | WORKING_HOURS_READ | WORKING_HOURS_MANAGE
  | RESOURCE_READ | RESOURCE_MANAGE
  | STATION_READ | STATION_MAINTENANCE | APPLICATION_PROFILE_MANAGE
  | MACHINE_IDENTITY_MANAGE
  | GAMING_PAYMENT_RECORD | GAMING_FINANCE_MANAGE
  | GAMING_SESSION_READ | GAMING_SESSION_START | GAMING_SESSION_EXTEND
  | GAMING_SESSION_TERMINATE
  | RESERVATION_CREATE | RESERVATION_READ_OWN | RESERVATION_READ_ALL
  | RESERVATION_CHANGE_STATUS
  | ORDER_CREATE | ORDER_READ_OWN | ORDER_READ_ALL | ORDER_CHANGE_STATUS
  | DASHBOARD_SUMMARY | DASHBOARD_OPERATIONAL | METRICS_READ
  | REPORT_READ | REPORT_MANAGE
  | FEATURE_FLAG_MANAGE

record auth_user =
  user_id :: string
  user_name :: string
  user_email :: string
  user_role :: role
  user_active :: bool
  user_avatarUrl :: "string option"
  user_permissions :: "permission list option"

record auth_response =
  resp_token :: string
  resp_expiresAt :: string
  resp_user :: auth_user

record login_request =
  login_email :: string
  login_password :: string

record activate_customer_request =
  act_email :: string
  act_activationSecret :: string
  act_password :: string

record session_info =
  sess_id :: string
  sess_deviceLabel :: string
  sess_userAgentSummary :: string
  sess_createdAt :: string
  sess_lastSeenAt :: string
  sess_expiresAt :: string
  sess_current :: bool

datatype security_event_type =
    ACTIVATION_SUCCESS | ACTIVATION_FAILURE
  | LOGIN_SUCCESS | LOGIN_FAILURE | TOKEN_REFRESH | TOKEN_REUSE
  | SESSION_REVOKED | ALL_SESSIONS_REVOKED | LOGOUT

record security_event_info =
  sev_type :: security_event_type
  sev_deviceLabel :: string
  sev_occurredAt :: string

subsection \<open>Capabilities\<close>

definition profile :: "permission list" where
  "profile = [PROFILE_READ, PROFILE_UPDATE, CATALOG_READ, WORKING_HOURS_READ, EMPLOYEE_LIST,
     RESOURCE_READ]"

fun roleCapabilities :: "role \<Rightarrow> permission list" where
  "roleCapabilities CUSTOMER = profile @ [RESERVATION_CREATE, RESERVATION_READ_OWN,
     RESERVATION_CHANGE_STATUS, ORDER_CREATE, ORDER_READ_OWN, ORDER_CHANGE_STATUS]"
| "roleCapabilities EMPLOYEE = profile @ [RESERVATION_CREATE, RESERVATION_READ_ALL,
     RESERVATION_CHANGE_STATUS, WAITLIST_MANAGE,
     CUSTOMER_READ, CUSTOMER_CREATE, CUSTOMER_UPDATE_LIMITED, CUSTOMER_DEACTIVATE,
     STATION_READ,
     GAMING_PAYMENT_RECORD, GAMING_SESSION_READ, GAMING_SESSION_START, GAMING_SESSION_EXTEND,
     GAMING_SESSION_TERMINATE,
     ORDER_READ_ALL, ORDER_CHANGE_STATUS, DASHBOARD_OPERATIONAL, REPORT_READ]"
| "roleCapabilities ADMIN = profile @ [USER_LIST, USER_CREATE, USER_DEACTIVATE, CATALOG_MANAGE,
     WAITLIST_MANAGE,
     USER_DELETE, USER_RESTORE, CUSTOMER_READ, CUSTOMER_CREATE, CUSTOMER_UPDATE_LIMITED,
     CUSTOMER_DEACTIVATE, CUSTOMER_CRM_MANAGE, CATALOG_DELETE, CATALOG_RESTORE, AUDIT_READ,
     WORKING_HOURS_MANAGE, RESOURCE_MANAGE, STATION_READ, STATION_MAINTENANCE,
     APPLICATION_PROFILE_MANAGE, RESERVATION_CREATE, RESERVATION_READ_ALL, RESERVATION_CHANGE_STATUS,
     MACHINE_IDENTITY_MANAGE, GAMING_FINANCE_MANAGE,
     GAMING_PAYMENT_RECORD, GAMING_SESSION_READ, GAMING_SESSION_START, GAMING_SESSION_EXTEND,
     GAMING_SESSION_TERMINATE,
     ORDER_READ_ALL, ORDER_CHANGE_STATUS, DASHBOARD_SUMMARY,
     DASHBOARD_OPERATIONAL, METRICS_READ, REPORT_READ, REPORT_MANAGE, FEATURE_FLAG_MANAGE]"
| "roleCapabilities OWNER = profile @ [USER_LIST, USER_CREATE, USER_DEACTIVATE, CATALOG_MANAGE,
     WAITLIST_MANAGE,
     USER_DELETE, USER_RESTORE, CUSTOMER_READ, CUSTOMER_CREATE, CUSTOMER_UPDATE_LIMITED,
     CUSTOMER_DEACTIVATE, CUSTOMER_CRM_MANAGE, CATALOG_DELETE, CATALOG_RESTORE, AUDIT_READ,
     WORKING_HOURS_MANAGE, RESOURCE_MANAGE, STATION_READ, STATION_MAINTENANCE,
     APPLICATION_PROFILE_MANAGE, RESERVATION_CREATE, RESERVATION_READ_ALL, RESERVATION_CHANGE_STATUS,
     MACHINE_IDENTITY_MANAGE, GAMING_FINANCE_MANAGE,
     GAMING_PAYMENT_RECORD, GAMING_SESSION_READ, GAMING_SESSION_START, GAMING_SESSION_EXTEND,
     GAMING_SESSION_TERMINATE,
     ORDER_READ_ALL, ORDER_CHANGE_STATUS, DASHBOARD_SUMMARY,
     DASHBOARD_OPERATIONAL, METRICS_READ, REPORT_READ, REPORT_MANAGE, FEATURE_FLAG_MANAGE]"

definition grants :: "auth_user \<Rightarrow> permission list" where
  \<comment> \<open>\<open>user.permissions ?? roleCapabilities[user.role]\<close>\<close>
  "grants u = (case user_permissions u of Some ps \<Rightarrow> ps | None \<Rightarrow> roleCapabilities (user_role u))"

definition hasCapability :: "auth_user option \<Rightarrow> permission \<Rightarrow> bool" where
  "hasCapability user p = (case user of None \<Rightarrow> False | Some u \<Rightarrow> List.member (grants u) p)"

lemma hasCapability_None [simp]: "\<not> hasCapability None p"
  by (simp add: hasCapability_def)

lemma hasCapability_Some [simp]: "hasCapability (Some u) p \<longleftrightarrow> p \<in> set (grants u)"
  by (simp add: hasCapability_def)

datatype guard_result = Outlet | NavigateTo string

definition CapabilityGuard :: "auth_user option \<Rightarrow> permission list \<Rightarrow> guard_result" where
  "CapabilityGuard user anyOf =
     (if \<exists>p \<in> set anyOf. hasCapability user p then Outlet else NavigateTo ''/unauthorized'')"

subsection \<open>The feature store\<close>

datatype feature_flag_key = REPORTS | PWA_OFFLINE | AI_ASSISTANT

record feature_flag_state =
  flag_key :: string \<comment> \<open>as received; it may name no known flag\<close>
  flag_enabled :: bool
  flag_rolloutPercentage :: nat
  flag_owner :: string
  flag_reviewBy :: string
  flag_overridden :: bool
  flag_overrideExpiresAt :: "string option"
  flag_version :: "int option"

type_synonym flags = "feature_flag_key \<Rightarrow> bool"

fun flag_defaults :: flags where
  "flag_defaults REPORTS = True"
| "flag_defaults PWA_OFFLINE = True"
| "flag_defaults AI_ASSISTANT = False"

definition known_flag :: "string \<Rightarrow> feature_flag_key option" where
  "known_flag k = (if k = ''REPORTS'' then Some REPORTS
     else if k = ''PWA_OFFLINE'' then Some PWA_OFFLINE
     else if k = ''AI_ASSISTANT'' then Some AI_ASSISTANT else None)"

record feature_store =
  store_flags :: flags
  store_loaded :: bool

definition feature_initial :: feature_store where
  "feature_initial = \<lparr>store_flags = flag_defaults, store_loaded = False\<rparr>"

definition flag_entries :: "feature_flag_state list \<Rightarrow> (feature_flag_key \<times> bool) list" where
  "flag_entries values = List.map_filter
     (\<lambda>v. map_option (\<lambda>k. (k, flag_enabled v)) (known_flag (flag_key v))) values"

definition feature_apply :: "feature_flag_state list \<Rightarrow> feature_store \<Rightarrow> feature_store" where
  "feature_apply values st = st\<lparr>
     store_flags := (\<lambda>k. case map_of (rev (flag_entries values)) k of
         Some b \<Rightarrow> b | None \<Rightarrow> flag_defaults k),
     store_loaded := True\<rparr>"

definition feature_reset :: "feature_store \<Rightarrow> feature_store" where
  "feature_reset st = st\<lparr>store_flags := flag_defaults, store_loaded := False\<rparr>"

subsection \<open>The session store\<close>

record auth_state =
  as_user :: "auth_user option"
  as_accessToken :: "string option"
  as_isInitializing :: bool

datatype auth_effect = PurgePrivateData string | ResetFeatures

definition auth_initial :: auth_state where
  "auth_initial = \<lparr>as_user = None, as_accessToken = None, as_isInitializing = True\<rparr>"

definition current_id :: "auth_state \<Rightarrow> string option" where
  "current_id st = map_option user_id (as_user st)"

definition setSession :: "string \<Rightarrow> auth_user \<Rightarrow> auth_state \<Rightarrow> auth_state \<times> auth_effect list" where
  "setSession accessToken user st =
     (st\<lparr>as_accessToken := Some accessToken, as_user := Some user, as_isInitializing := False\<rparr>,
      case current_id st of
        Some previous \<Rightarrow>
          if previous \<noteq> '''' \<and> previous \<noteq> user_id user then [PurgePrivateData previous] else []
      | None \<Rightarrow> [])"

definition updateUser :: "auth_user \<Rightarrow> auth_state \<Rightarrow> auth_state" where
  "updateUser user st = st\<lparr>as_user := Some user\<rparr>"

definition clearSession :: "auth_state \<Rightarrow> auth_state \<times> auth_effect list" where
  "clearSession st =
     (st\<lparr>as_accessToken := None, as_user := None, as_isInitializing := False\<rparr>,
      ResetFeatures # (case current_id st of
        Some previous \<Rightarrow> if previous \<noteq> '''' then [PurgePrivateData previous] else []
      | None \<Rightarrow> []))"

definition finishInitialization :: "auth_state \<Rightarrow> auth_state" where
  "finishInitialization st = st\<lparr>as_isInitializing := False\<rparr>"

datatype route_result = CheckingSession | ToLogin string | ShowOutlet

definition ProtectedRoute :: "auth_state \<Rightarrow> string \<Rightarrow> string \<Rightarrow> string \<Rightarrow> route_result" where
  "ProtectedRoute st pathname search hash =
     (if as_isInitializing st then CheckingSession
      else if as_user st = None then ToLogin (pathname @ search @ hash)
      else ShowOutlet)"

text \<open>
  \<open>installSessionCacheBoundary\<close> subscribes to the session store: when the scope (id, role and
  sorted grants) of the user changes, the query cache is cleared. The sort orders the grants'
  names, which \<open>permission_name\<close> stands for.
\<close>

definition cache_scope ::
  "(permission \<Rightarrow> string) \<Rightarrow> auth_user option \<Rightarrow> (string \<times> role \<times> string list option) option" where
  "cache_scope permission_name user = map_option
     (\<lambda>u. (user_id u, user_role u, map_option (\<lambda>ps. sort (map permission_name ps)) (user_permissions u)))
     user"

definition sessionCacheBoundary ::
  "(permission \<Rightarrow> string) \<Rightarrow> auth_state \<Rightarrow> auth_state \<Rightarrow> 'c list \<Rightarrow> 'c list" where
  "sessionCacheBoundary permission_name previous state cache =
     (if cache_scope permission_name (as_user state) \<noteq> cache_scope permission_name (as_user previous)
      then [] else cache)"

subsection \<open>Form schemas\<close>

text \<open>
  \<open>auth/schemas.ts\<close>. What \<open>z.email\<close> accepts is zod's, hence the parameter \<open>is_email\<close>; the
  functions return the parsed value, or None where the schema reports an issue.
\<close>

definition char_within :: "char \<Rightarrow> char \<Rightarrow> char \<Rightarrow> bool" where
  "char_within lo hi c = (lo \<le> c \<and> c \<le> hi)"

definition is_alnum :: "char \<Rightarrow> bool" where
  \<comment> \<open>\<open>[a-zA-Z0-9]\<close>\<close>
  "is_alnum c = (is_digit c \<or> char_within CHR ''A'' CHR ''Z'' c \<or> char_within CHR ''a'' CHR ''z'' c)"

definition upper_char :: "char \<Rightarrow> char" where
  "upper_char c = (if CHR ''a'' \<le> c \<and> c \<le> CHR ''z'' then char_of ((of_char c :: nat) - 32) else c)"

definition loginSchema :: "(string \<Rightarrow> bool) \<Rightarrow> login_request \<Rightarrow> login_request option" where
  "loginSchema is_email r =
     (if is_email (login_email r) \<and> 8 \<le> js_length (login_password r) then Some r else None)"

definition activationSchema ::
  "(string \<Rightarrow> bool) \<Rightarrow> activate_customer_request \<Rightarrow> activate_customer_request option" where
  "activationSchema is_email r =
     (if is_email (act_email r) \<and> js_length (act_email r) \<le> 180
         \<and> length (act_activationSecret r) = 4 \<and> list_all is_alnum (act_activationSecret r)
         \<and> 8 \<le> js_length (act_password r) \<and> js_length (act_password r) \<le> 100
      then Some (r\<lparr>act_activationSecret := map upper_char (act_activationSecret r)\<rparr>) else None)"

definition activationFormSchema ::
  "(string \<Rightarrow> bool) \<Rightarrow> activate_customer_request \<Rightarrow> string \<Rightarrow> activate_customer_request option" where
  "activationFormSchema is_email r confirmPassword =
     (if 1 \<le> js_length confirmPassword \<and> act_password r = confirmPassword
      then activationSchema is_email r else None)"

subsection \<open>Facts the components share\<close>

lemma role_grants_nested:
  "set (roleCapabilities EMPLOYEE) \<subseteq> set (roleCapabilities ADMIN)"
  "set (roleCapabilities ADMIN) = set (roleCapabilities OWNER)"
  by (simp_all add: profile_def)

lemma roleCapabilities_distinct: "distinct (roleCapabilities r)"
  by (cases r) (simp_all add: profile_def)

lemma profile_everywhere: "set profile \<subseteq> set (roleCapabilities r)"
  by (cases r) auto

lemma CapabilityGuard_Outlet_iff:
  "CapabilityGuard user anyOf = Outlet \<longleftrightarrow> (\<exists>p \<in> set anyOf. hasCapability user p)"
  by (simp add: CapabilityGuard_def)

end
