(* ===== verification/Navigation.thy ===== *)
theory Navigation
  imports Auth
begin

section \<open>Navigation, the home page and the route table\<close>

text \<open>
  Models \<open>layout/navigation.ts\<close> and the guarded routes of \<open>App.tsx\<close>. The route table maps each
  path below the shell to the permissions its \<open>CapabilityGuard\<close> asks for (any of them suffices).
  The lemmas show that what the menu offers and where a user is sent after login is what the
  guards let through.
\<close>

subsection \<open>Menu items\<close>

datatype capability_spec = One permission | AnyOf "permission list"

datatype nav_item = NavItem
  (nav_label: string) (nav_to: string) (nav_capability: capability_spec)
  (nav_flag: "feature_flag_key option") (nav_description: "string option")
  (nav_children: "nav_item list option")

definition item :: "string \<Rightarrow> string \<Rightarrow> capability_spec \<Rightarrow> nav_item" where
  "item label to cap = NavItem label to cap None None None"

definition described :: "string \<Rightarrow> string \<Rightarrow> capability_spec \<Rightarrow> string \<Rightarrow> nav_item" where
  "described label to cap desc = NavItem label to cap None (Some desc) None"

definition flagged ::
  "string \<Rightarrow> string \<Rightarrow> capability_spec \<Rightarrow> string \<Rightarrow> feature_flag_key \<Rightarrow> nav_item" where
  "flagged label to cap desc flag = NavItem label to cap (Some flag) (Some desc) None"

definition management :: "nav_item list" where
  "management = [
     item ''Pregled'' ''/dashboard'' (AnyOf [DASHBOARD_SUMMARY, DASHBOARD_OPERATIONAL]),
     item ''Radni ekran'' ''/gaming-sessions'' (One GAMING_SESSION_READ),
     item ''Rezervacije'' ''/calendar'' (One RESERVATION_READ_ALL),
     item (sr ''Narud~zbine'') ''/orders'' (One ORDER_READ_ALL),
     item ''Klijenti'' ''/customers'' (One CUSTOMER_READ),
     item ''Oprema'' ''/equipment'' (One RESOURCE_READ),
     item ''Upravljanje'' ''/management''
       (AnyOf [USER_LIST, CATALOG_MANAGE, WORKING_HOURS_MANAGE, REPORT_READ, AUDIT_READ])]"

definition employee :: "nav_item list" where
  "employee = [
     item ''Radni ekran'' ''/dashboard'' (AnyOf [DASHBOARD_OPERATIONAL, GAMING_SESSION_READ]),
     item ''Rezervacije'' ''/calendar'' (One RESERVATION_READ_ALL),
     item (sr ''Narud~zbine'') ''/orders'' (One ORDER_READ_ALL),
     item ''Klijenti'' ''/customers'' (One CUSTOMER_READ),
     item ''Alati'' ''/tools'' (AnyOf [CATALOG_READ, RESOURCE_READ, STATION_READ, REPORT_READ])]"

definition customer :: "nav_item list" where
  "customer = [
     item (sr ''Po~cetna'') ''/home'' (AnyOf [RESERVATION_READ_OWN, ORDER_READ_OWN]),
     item (sr ''Rezervi~si'') ''/my-reservations?booking=new'' (One RESERVATION_CREATE),
     item ''Moji termini'' ''/my-reservations'' (One RESERVATION_READ_OWN),
     item ''Ponuda'' ''/catalog'' (One CATALOG_READ)]"

definition managementItems :: "nav_item list" where
  "managementItems = [
     NavItem ''Zaposleni'' ''/employees'' (AnyOf [USER_LIST, WORKING_HOURS_MANAGE]) None
       (Some (sr ''Tim, korisni~cki pristup i odsustva zaposlenih.''))
       (Some [item ''Tim i pristup'' ''/employees'' (One USER_LIST),
              item ''Odsustva zaposlenih'' ''/employee-time-off'' (One WORKING_HOURS_MANAGE)]),
     described ''Ponuda i cene'' ''/catalog'' (One CATALOG_MANAGE)
       ''Usluge, proizvodi, slike i dostupnost ponude.'',
     described ''Rad igraonice'' ''/settings'' (One WORKING_HOURS_MANAGE)
       ''Gaming vreme, radno vreme i izuzeci.'',
     flagged (sr ''Izve~staji'') ''/reports'' (One REPORT_READ)
       (sr ''Generisanje, preuzimanje i rasporedi izve~staja.'') REPORTS,
     described ''Evidencija promena'' ''/audit'' (One AUDIT_READ)
       ''Aktivnosti i istorija promena u sistemu.'']"

definition equipmentItems :: "nav_item list" where
  "equipmentItems = [
     described ''Prostor i resursi'' ''/resources'' (One RESOURCE_READ)
       ''Lokacije, zone, tlocrt i dostupnost za izabrani interval.'',
     described ''PC konfiguracija'' ''/stations'' (One STATION_READ)
       (sr ''Pode~savanje ra~cunara, profila aplikacija i Gaming Client-a.'')]"

definition toolItems :: "nav_item list" where
  "toolItems = [
     described ''Ponuda'' ''/catalog'' (One CATALOG_READ) ''Dostupne usluge i proizvodi.'',
     described ''Mapa dostupnosti'' ''/resources'' (One RESOURCE_READ)
       ''Dostupnost mesta za izabrani interval.'',
     described ''Informacije o stanicama'' ''/stations'' (One STATION_READ)
       ''Pregled PC konfiguracije i veze sa klijentom.'',
     flagged (sr ''Izve~staji'') ''/reports'' (One REPORT_READ)
       (sr ''Generisanje i preuzimanje dostupnih izve~staja.'') REPORTS]"

subsection \<open>Filtering by grants and flags\<close>

definition nav_allowed :: "auth_user \<Rightarrow> flags \<Rightarrow> nav_item \<Rightarrow> bool" where
  "nav_allowed user fl v \<longleftrightarrow>
     (case nav_capability v of
        AnyOf ps \<Rightarrow> (\<exists>p \<in> set ps. hasCapability (Some user) p)
      | One p \<Rightarrow> hasCapability (Some user) p)
     \<and> (case nav_flag v of None \<Rightarrow> True | Some k \<Rightarrow> fl k)"

fun permittedItems :: "auth_user \<Rightarrow> flags \<Rightarrow> nav_item list \<Rightarrow> nav_item list" where
  "permittedItems user fl [] = []"
| "permittedItems user fl (NavItem l t c f d ch # vs) =
     (if nav_allowed user fl (NavItem l t c f d ch) then
        (case ch of
           None \<Rightarrow> [NavItem l t c f d None]
         | Some cs \<Rightarrow>
             (case permittedItems user fl cs of
                [] \<Rightarrow> []
              | k # ks \<Rightarrow> [NavItem l (nav_to k) c f d (Some (k # ks))]))
      else []) @ permittedItems user fl vs"

definition with_to :: "string \<Rightarrow> nav_item \<Rightarrow> nav_item" where
  "with_to t v = NavItem (nav_label v) t (nav_capability v) (nav_flag v) (nav_description v) (nav_children v)"

definition primaryItems :: "auth_user \<Rightarrow> nav_item list" where
  "primaryItems user =
     (if user_role user = CUSTOMER then customer
      else if user_role user = EMPLOYEE then
        map (\<lambda>v. if nav_to v = ''/dashboard'' \<and> \<not> hasCapability (Some user) DASHBOARD_OPERATIONAL
                    \<and> \<not> hasCapability (Some user) DASHBOARD_SUMMARY
                 then with_to ''/gaming-sessions'' v else v) employee
      else management)"

definition navigationItems :: "auth_user \<Rightarrow> flags \<Rightarrow> nav_item list" where
  "navigationItems user fl = filter
     (\<lambda>v. if nav_to v = ''/management'' then permittedItems user fl managementItems \<noteq> []
          else if nav_to v = ''/equipment'' then permittedItems user fl equipmentItems \<noteq> []
          else if nav_to v = ''/tools'' then permittedItems user fl toolItems \<noteq> []
          else if str_includes ''booking=new'' (nav_to v) then hasCapability (Some user) RESERVATION_READ_OWN
          else True)
     (permittedItems user fl (primaryItems user))"

definition navigationFor :: "auth_user \<Rightarrow> flags \<Rightarrow> (string \<times> nav_item list) list" where
  "navigationFor user fl =
     (let items = navigationItems user fl
      in if items \<noteq> []
         then [(if user_role user = CUSTOMER then ''Moj prostor'' else ''Radni prostor'', items)]
         else [])"

text \<open>\<open>new URLSearchParams(search).get('booking')\<close> is the argument \<open>booking\<close>.\<close>

definition navigationActive :: "string \<Rightarrow> string \<Rightarrow> string option \<Rightarrow> role option \<Rightarrow> bool" where
  "navigationActive to pathname booking r =
     (if str_includes ''?'' to then pathname = ''/my-reservations'' \<and> booking = Some ''new''
      else if to = ''/my-reservations'' then pathname = to \<and> booking \<noteq> Some ''new''
      else if to = ''/calendar'' then List.member [''/calendar'', ''/reservations'', ''/waitlist''] pathname
      else if to = ''/equipment'' then List.member [''/equipment'', ''/resources'', ''/stations''] pathname
      else if to = ''/management'' then List.member [''/management'', ''/employees'', ''/users'',
          ''/employee-time-off'', ''/settings'', ''/reports'', ''/audit'', ''/catalog''] pathname
      else if to = ''/employees'' then List.member [''/employees'', ''/users''] pathname
      else if to = ''/tools'' then List.member [''/tools'', ''/resources'', ''/stations'', ''/reports'', ''/catalog''] pathname
      else if to = ''/catalog'' \<and> r = Some CUSTOMER then List.member [''/catalog'', ''/my-orders'', ''/resources''] pathname
      else if to = ''/dashboard'' \<and> r = Some EMPLOYEE then List.member [''/dashboard'', ''/gaming-sessions''] pathname
      else to = pathname)"

definition homeForRole :: "role \<Rightarrow> string" where
  "homeForRole r = (if r = CUSTOMER then ''/home'' else ''/dashboard'')"

definition homeForUser :: "auth_user \<Rightarrow> flags \<Rightarrow> string" where
  "homeForUser user fl =
     (let items = concat (map snd (navigationFor user fl)); preferred = homeForRole (user_role user)
      in if user_role user \<noteq> CUSTOMER \<and>
            (hasCapability (Some user) DASHBOARD_OPERATIONAL \<or> hasCapability (Some user) DASHBOARD_SUMMARY)
         then ''/dashboard''
         else case find (\<lambda>v. nav_to v = preferred) items of
           Some v \<Rightarrow> nav_to v
         | None \<Rightarrow>
             (case items of
                v # _ \<Rightarrow> nav_to v
              | [] \<Rightarrow>
                  (case permittedItems user fl (toolItems @ managementItems @ equipmentItems) of
                     v # _ \<Rightarrow> nav_to v
                   | [] \<Rightarrow> if hasCapability (Some user) PROFILE_READ then ''/profile'' else ''/unauthorized'')))"

subsection \<open>The route table of the application\<close>

datatype route_access = Public | Guarded "permission list"

definition AppRoutes :: "(string \<times> route_access) list" where
  "AppRoutes = [
     (''/login'', Public), (''/activate'', Public), (''/unauthorized'', Public),
     (''/management'', Guarded [USER_LIST, CATALOG_MANAGE, WORKING_HOURS_MANAGE, REPORT_READ, AUDIT_READ]),
     (''/equipment'', Guarded [RESOURCE_READ]),
     (''/tools'', Guarded [CATALOG_READ, RESOURCE_READ, STATION_READ, REPORT_READ]),
     (''/sessions'', Guarded [PROFILE_READ]), (''/profile'', Guarded [PROFILE_READ]),
     (''/notification-preferences'', Guarded [PROFILE_READ]),
     (''/catalog'', Guarded [CATALOG_READ]), (''/resources'', Guarded [RESOURCE_READ]),
     (''/stations'', Guarded [STATION_READ]), (''/gaming-sessions'', Guarded [GAMING_SESSION_READ]),
     (''/employees'', Guarded [USER_LIST]), (''/customers'', Guarded [CUSTOMER_READ]),
     (''/settings'', Guarded [WORKING_HOURS_MANAGE]), (''/employee-time-off'', Guarded [WORKING_HOURS_MANAGE]),
     (''/home'', Guarded [RESERVATION_READ_OWN, ORDER_READ_OWN]),
     (''/my-reservations'', Guarded [RESERVATION_READ_OWN]), (''/my-orders'', Guarded [ORDER_READ_OWN]),
     (''/dashboard'', Guarded [DASHBOARD_SUMMARY, DASHBOARD_OPERATIONAL]),
     (''/reservations'', Guarded [RESERVATION_READ_ALL]), (''/calendar'', Guarded [RESERVATION_READ_ALL]),
     (''/orders'', Guarded [ORDER_READ_ALL]), (''/waitlist'', Guarded [RESERVATION_READ_ALL]),
     (''/users'', Guarded [USER_LIST]), (''/audit'', Guarded [AUDIT_READ]), (''/reports'', Guarded [REPORT_READ])]"

definition path_of :: "string \<Rightarrow> string" where
  \<comment> \<open>the pathname a link leads to: what precedes the query string\<close>
  "path_of to = takeWhile (\<lambda>c. c \<noteq> CHR ''?'') to"

definition opens :: "auth_user \<Rightarrow> string \<Rightarrow> bool" where
  \<comment> \<open>the route exists and its guard renders the page for this user\<close>
  "opens user to = (case map_of AppRoutes (path_of to) of
     None \<Rightarrow> False
   | Some Public \<Rightarrow> True
   | Some (Guarded anyOf) \<Rightarrow> CapabilityGuard (Some user) anyOf = Outlet)"

definition HomeRedirect :: "auth_user option \<Rightarrow> flags \<Rightarrow> string" where
  "HomeRedirect user fl = (case user of Some u \<Rightarrow> homeForUser u fl | None \<Rightarrow> ''/login'')"

subsection \<open>Lemmas\<close>

lemma permittedItems_append [simp]:
  "permittedItems u fl (xs @ ys) = permittedItems u fl xs @ permittedItems u fl ys"
  by (induction u fl xs rule: permittedItems.induct) auto

lemma permittedItems_allowed:
  "x \<in> set (permittedItems u fl items) \<Longrightarrow> nav_allowed u fl x"
proof (induction u fl items rule: permittedItems.induct)
  case (2 user fl l t c f d ch vs)
  then show ?case
    by (auto simp: nav_allowed_def split: if_splits option.splits list.splits)
qed simp

lemma permittedItems_leaf:
  "x \<in> set (permittedItems u fl items) \<Longrightarrow> nav_children x = None \<Longrightarrow> x \<in> set items"
proof (induction u fl items rule: permittedItems.induct)
  case (2 user fl l t c f d ch vs)
  then show ?case by (auto split: if_splits option.splits list.splits)
qed simp

lemma permittedItems_child:
  assumes "x \<in> set (permittedItems u fl items)" and "nav_children x = Some cs"
  shows "\<exists>y \<in> set items. \<exists>ds. nav_children y = Some ds \<and> cs = permittedItems u fl ds
    \<and> cs \<noteq> [] \<and> nav_to x = nav_to (hd cs)"
  using assms
proof (induction u fl items rule: permittedItems.induct)
  case (2 user fl l t c f d ch vs)
  show ?case
  proof (cases "x \<in> set (permittedItems user fl vs)")
    case True
    with "2.IH"(2) "2.prems"(2) show ?thesis by auto
  next
    case False
    with "2.prems" obtain ds where ds: "ch = Some ds" by (cases ch) (auto split: if_splits)
    with False "2.prems"(1) obtain k ks where "permittedItems user fl ds = k # ks"
      "x = NavItem l (nav_to k) c f d (Some (k # ks))"
      by (cases "permittedItems user fl ds") (auto split: if_splits)
    with ds "2.prems"(2) show ?thesis by (intro bexI [of _ "NavItem l t c f d ch"]) auto
  qed
qed simp

lemma primaryItems_flat: "v \<in> set (primaryItems u) \<Longrightarrow> nav_children v = None"
  by (auto simp: primaryItems_def customer_def employee_def management_def item_def with_to_def
      split: if_splits)

lemma permitted_flat:
  assumes "x \<in> set (permittedItems u fl items)" and "\<And>v. v \<in> set items \<Longrightarrow> nav_children v = None"
  shows "x \<in> set items \<and> nav_allowed u fl x"
proof (cases "nav_children x")
  case None
  with assms(1) show ?thesis using permittedItems_leaf permittedItems_allowed by blast
next
  case (Some cs)
  with permittedItems_child [OF assms(1) Some] assms(2) show ?thesis by fastforce
qed

lemma navigationItems_from:
  assumes "v \<in> set (navigationItems u fl)"
  shows "v \<in> set (primaryItems u)" and "nav_allowed u fl v"
    and "str_includes ''booking=new'' (nav_to v) \<Longrightarrow> RESERVATION_READ_OWN \<in> set (grants u)"
proof -
  from assms have v: "v \<in> set (permittedItems u fl (primaryItems u))"
    by (simp add: navigationItems_def)
  then have "v \<in> set (primaryItems u) \<and> nav_allowed u fl v"
    by (rule permitted_flat) (rule primaryItems_flat)
  then show "v \<in> set (primaryItems u)" and "nav_allowed u fl v" by auto
  show "RESERVATION_READ_OWN \<in> set (grants u)" if "str_includes ''booking=new'' (nav_to v)"
  proof -
    have "\<not> str_includes ''booking=new'' ''/management''" "\<not> str_includes ''booking=new'' ''/equipment''"
      "\<not> str_includes ''booking=new'' ''/tools''"
      by (simp_all add: str_includes_def starts_with_def)
    with that have "nav_to v \<noteq> ''/management''" "nav_to v \<noteq> ''/equipment''" "nav_to v \<noteq> ''/tools''"
      by auto
    with assms that show ?thesis by (simp add: navigationItems_def)
  qed
qed

lemma opens_at:
  "opens u ''/management'' \<longleftrightarrow> (\<exists>p \<in> set [USER_LIST, CATALOG_MANAGE, WORKING_HOURS_MANAGE, REPORT_READ, AUDIT_READ]. p \<in> set (grants u))"
  "opens u ''/equipment'' \<longleftrightarrow> (\<exists>p \<in> set [RESOURCE_READ]. p \<in> set (grants u))"
  "opens u ''/tools'' \<longleftrightarrow> (\<exists>p \<in> set [CATALOG_READ, RESOURCE_READ, STATION_READ, REPORT_READ]. p \<in> set (grants u))"
  "opens u ''/profile'' \<longleftrightarrow> (\<exists>p \<in> set [PROFILE_READ]. p \<in> set (grants u))"
  "opens u ''/catalog'' \<longleftrightarrow> (\<exists>p \<in> set [CATALOG_READ]. p \<in> set (grants u))"
  "opens u ''/resources'' \<longleftrightarrow> (\<exists>p \<in> set [RESOURCE_READ]. p \<in> set (grants u))"
  "opens u ''/stations'' \<longleftrightarrow> (\<exists>p \<in> set [STATION_READ]. p \<in> set (grants u))"
  "opens u ''/gaming-sessions'' \<longleftrightarrow> (\<exists>p \<in> set [GAMING_SESSION_READ]. p \<in> set (grants u))"
  "opens u ''/employees'' \<longleftrightarrow> (\<exists>p \<in> set [USER_LIST]. p \<in> set (grants u))"
  "opens u ''/customers'' \<longleftrightarrow> (\<exists>p \<in> set [CUSTOMER_READ]. p \<in> set (grants u))"
  "opens u ''/settings'' \<longleftrightarrow> (\<exists>p \<in> set [WORKING_HOURS_MANAGE]. p \<in> set (grants u))"
  "opens u ''/employee-time-off'' \<longleftrightarrow> (\<exists>p \<in> set [WORKING_HOURS_MANAGE]. p \<in> set (grants u))"
  "opens u ''/home'' \<longleftrightarrow> (\<exists>p \<in> set [RESERVATION_READ_OWN, ORDER_READ_OWN]. p \<in> set (grants u))"
  "opens u ''/my-reservations'' \<longleftrightarrow> (\<exists>p \<in> set [RESERVATION_READ_OWN]. p \<in> set (grants u))"
  "opens u ''/my-reservations?booking=new'' \<longleftrightarrow> (\<exists>p \<in> set [RESERVATION_READ_OWN]. p \<in> set (grants u))"
  "opens u ''/dashboard'' \<longleftrightarrow> (\<exists>p \<in> set [DASHBOARD_SUMMARY, DASHBOARD_OPERATIONAL]. p \<in> set (grants u))"
  "opens u ''/calendar'' \<longleftrightarrow> (\<exists>p \<in> set [RESERVATION_READ_ALL]. p \<in> set (grants u))"
  "opens u ''/orders'' \<longleftrightarrow> (\<exists>p \<in> set [ORDER_READ_ALL]. p \<in> set (grants u))"
  "opens u ''/audit'' \<longleftrightarrow> (\<exists>p \<in> set [AUDIT_READ]. p \<in> set (grants u))"
  "opens u ''/reports'' \<longleftrightarrow> (\<exists>p \<in> set [REPORT_READ]. p \<in> set (grants u))"
  "opens u ''/unauthorized''"
  by (simp_all only: opens_def path_of_def AppRoutes_def CapabilityGuard_Outlet_iff) simp_all

lemma primary_opens:
  assumes v: "v \<in> set (primaryItems u)" and a: "nav_allowed u fl v"
    and b: "str_includes ''booking=new'' (nav_to v) \<Longrightarrow> RESERVATION_READ_OWN \<in> set (grants u)"
  shows "opens u (nav_to v)"
proof -
  consider "v \<in> set customer" | "v \<in> set management"
    | e where "e \<in> set employee" "v = (if nav_to e = ''/dashboard'' \<and> DASHBOARD_OPERATIONAL \<notin> set (grants u)
                    \<and> DASHBOARD_SUMMARY \<notin> set (grants u) then with_to ''/gaming-sessions'' e else e)"
    using v by (auto simp: primaryItems_def split: if_splits)
  then show ?thesis
  proof cases
    case 1
    with a b show ?thesis
      by (auto simp: customer_def item_def nav_allowed_def opens_at str_includes_def starts_with_def)
  next
    case 2
    with a show ?thesis
      by (auto simp: management_def item_def nav_allowed_def opens_at)
  next
    case 3
    with a show ?thesis
      by (auto simp: employee_def item_def with_to_def nav_allowed_def opens_at split: if_splits)
  qed
qed

lemma navigationItems_open: "v \<in> set (navigationItems u fl) \<Longrightarrow> opens u (nav_to v)"
  using navigationItems_from primary_opens by blast

lemma first_choice:
  assumes "a \<Longrightarrow> P x" and "\<And>v. f = Some v \<Longrightarrow> P (g v)" and "\<And>v vs. xs = v # vs \<Longrightarrow> P (g v)"
    and "\<And>v vs. ys = v # vs \<Longrightarrow> P (g v)" and "c \<Longrightarrow> P p" and "P q"
  shows "P (if a then x else case f of Some v \<Rightarrow> g v
     | None \<Rightarrow> (case xs of v # _ \<Rightarrow> g v
        | [] \<Rightarrow> (case ys of v # _ \<Rightarrow> g v | [] \<Rightarrow> if c then p else q)))"
  using assms by (auto split: option.split list.split)

lemma hub_items_open:
  assumes x: "x \<in> set (permittedItems u fl (toolItems @ managementItems @ equipmentItems))"
    and cat: "CATALOG_MANAGE \<in> set (grants u) \<Longrightarrow> CATALOG_READ \<in> set (grants u)"
  shows "opens u (nav_to x)"
proof (cases "nav_children x")
  case None
  from permittedItems_leaf [OF x None] permittedItems_allowed [OF x] None cat show ?thesis
    by (auto simp: toolItems_def managementItems_def equipmentItems_def item_def described_def
        flagged_def nav_allowed_def opens_at)
next
  case (Some cs)
  from permittedItems_child [OF x Some] obtain y ds where
    y: "y \<in> set (toolItems @ managementItems @ equipmentItems)" "nav_children y = Some ds"
    and cs: "cs = permittedItems u fl ds" "cs \<noteq> []" "nav_to x = nav_to (hd cs)" by blast
  then have "hd cs \<in> set (permittedItems u fl ds)" by simp
  moreover from y have ds: "ds = [item ''Tim i pristup'' ''/employees'' (One USER_LIST),
              item ''Odsustva zaposlenih'' ''/employee-time-off'' (One WORKING_HOURS_MANAGE)]"
    by (auto simp: toolItems_def managementItems_def equipmentItems_def item_def described_def flagged_def)
  ultimately have "hd cs \<in> set ds \<and> nav_allowed u fl (hd cs)"
    by (intro permitted_flat) (auto simp: item_def)
  with ds cs(3) show ?thesis
    by (auto simp: item_def nav_allowed_def opens_at)
qed

subsection \<open>Properties\<close>

text \<open>
  Property C12: every entry of the main menu leads to a route of \<open>App.tsx\<close> whose capability guard
  renders the page for this user, for every combination of role, grants and feature flags.
\<close>

theorem menu_entries_open:
  assumes "v \<in> set (concat (map snd (navigationFor u fl)))"
  shows "opens u (nav_to v)"
proof -
  from assms have "v \<in> set (navigationItems u fl)"
    by (auto simp: navigationFor_def Let_def split: if_splits)
  then show ?thesis by (rule navigationItems_open)
qed

definition sample_employee :: auth_user where
  "sample_employee = \<lparr>user_id = ''e1'', user_name = ''Ana'', user_email = ''ana@example.com'',
     user_role = EMPLOYEE, user_active = True, user_avatarUrl = None,
     user_permissions = Some [GAMING_SESSION_READ]\<rparr>"

theorem menu_entries_open_witness:
  "item ''Radni ekran'' ''/gaming-sessions'' (AnyOf [DASHBOARD_OPERATIONAL, GAMING_SESSION_READ])
     \<in> set (concat (map snd (navigationFor sample_employee flag_defaults)))
   \<and> opens sample_employee ''/gaming-sessions''"
proof -
  have "item ''Radni ekran'' ''/gaming-sessions'' (AnyOf [DASHBOARD_OPERATIONAL, GAMING_SESSION_READ])
     \<in> set (concat (map snd (navigationFor sample_employee flag_defaults)))" (is "?x \<in> _")
    by (simp add: navigationFor_def navigationItems_def primaryItems_def employee_def item_def with_to_def
        nav_allowed_def sample_employee_def grants_def str_includes_def starts_with_def)
  from this menu_entries_open [OF this] show ?thesis by (simp add: item_def)
qed

text \<open>
  The page a user is sent to after login (\<open>homeForUser\<close>, used by \<open>HomeRedirect\<close>)
  is one the route table lets this user open, provided that whoever may manage the catalog may
  also read it (every default role that grants managing grants reading).
\<close>

theorem home_page_opens:
  assumes "CATALOG_MANAGE \<in> set (grants u) \<Longrightarrow> CATALOG_READ \<in> set (grants u)"
  shows "opens u (HomeRedirect (Some u) fl)"
proof -
  let ?items = "concat (map snd (navigationFor u fl))"
  have items: "opens u (nav_to v)" if "v \<in> set ?items" for v
    using that navigationItems_open by (auto simp: navigationFor_def Let_def split: if_splits)
  have found: "opens u (nav_to v)" if "find Q ?items = Some v" for Q v
    using items find_SomeD [OF that] by blast
  show ?thesis
    unfolding HomeRedirect_def homeForUser_def Let_def option.case
  proof (rule first_choice)
    show "opens u ''/dashboard''" if "user_role u \<noteq> CUSTOMER \<and>
        (hasCapability (Some u) DASHBOARD_OPERATIONAL \<or> hasCapability (Some u) DASHBOARD_SUMMARY)"
      using that by (auto simp: opens_at)
    show "opens u (nav_to v)" if "?items = v # vs" for v vs
      using items that by simp
    show "opens u (nav_to v)"
      if "permittedItems u fl (toolItems @ managementItems @ equipmentItems) = v # vs" for v vs
      using hub_items_open [of v u fl] assms that by (simp del: permittedItems_append)
  qed (simp_all add: opens_at found del: concat.simps)
qed

theorem home_page_opens_witness:
  "CATALOG_MANAGE \<notin> set (grants sample_employee)
   \<and> opens sample_employee (HomeRedirect (Some sample_employee) flag_defaults)"
  using home_page_opens [of sample_employee flag_defaults] by (simp add: grants_def sample_employee_def)

text \<open>
  The proviso is needed: an employee whose only grant is managing the catalog has an empty menu, is
  sent to \<open>/catalog\<close>, and the guard of that route turns them away.
\<close>

lemma home_page_blocked:
  fixes u :: auth_user
  assumes "user_role u = EMPLOYEE" and "user_permissions u = Some [CATALOG_MANAGE]"
  shows "HomeRedirect (Some u) flag_defaults = ''/catalog'' \<and> \<not> opens u ''/catalog''"
  using assms
  by (simp add: HomeRedirect_def homeForUser_def navigationFor_def navigationItems_def primaryItems_def
      employee_def toolItems_def managementItems_def item_def described_def flagged_def with_to_def
      nav_allowed_def grants_def opens_at Let_def)

end
