(* ===== verification/JsDate.thy ===== *)
theory JsDate
  imports Prelude "HOL-Library.Monad_Syntax"
begin

section \<open>Calendar dates and the JavaScript Date object\<close>

text \<open>
  The part of \<open>Date\<close> the frontend uses, as ECMAScript defines it: the proleptic Gregorian calendar
  (\<open>day_from_civil\<close>, \<open>civil_from_day\<close>), \<open>Date.UTC\<close> with its month overflow, \<open>Date.parse\<close>,
  \<open>toISOString\<close>, and the UTC setters. A date is its time value in milliseconds; None is an invalid
  date. Days are counted from 1970-01-01, months from 1.

  \<open>Date.parse\<close> is defined by the standard for ISO strings only; what an engine makes of any other
  string is the parameter \<open>host_parse\<close>.
\<close>

subsection \<open>The Gregorian calendar\<close>

definition leap :: "int \<Rightarrow> bool" where
  "leap y \<longleftrightarrow> 4 dvd y \<and> (\<not> 100 dvd y \<or> 400 dvd y)"

definition days_before_year :: "int \<Rightarrow> int" where
  \<comment> \<open>days from 1970-01-01 to the first of January of year \<open>y\<close>\<close>
  "days_before_year y = 365 * (y - 1970) + ((y - 1) div 4 - 492) - ((y - 1) div 100 - 19) + ((y - 1) div 400 - 4)"

definition month_days :: "int \<Rightarrow> int \<Rightarrow> int" where
  "month_days y m = (if m = 2 then (if leap y then 29 else 28)
     else if m = 4 \<or> m = 6 \<or> m = 9 \<or> m = 11 then 30 else 31)"

definition days_before_month :: "int \<Rightarrow> int \<Rightarrow> int" where
  "days_before_month y m =
     (let l = (if leap y then 1 else 0)
      in if m \<le> 1 then 0 else if m = 2 then 31 else if m = 3 then 59 + l else if m = 4 then 90 + l
      else if m = 5 then 120 + l else if m = 6 then 151 + l else if m = 7 then 181 + l
      else if m = 8 then 212 + l else if m = 9 then 243 + l else if m = 10 then 273 + l
      else if m = 11 then 304 + l else if m = 12 then 334 + l else 365 + l)"

definition day_from_civil :: "int \<Rightarrow> int \<Rightarrow> int \<Rightarrow> int" where
  "day_from_civil y m d = days_before_year y + days_before_month y m + d - 1"

definition year_of_day :: "int \<Rightarrow> int" where
  "year_of_day n =
     (let y = ((n + 719162) * 400) div 146097 + 1
      in if days_before_year (y + 1) \<le> n then y + 1 else if n < days_before_year y then y - 1 else y)"

definition month_of :: "int \<Rightarrow> int \<Rightarrow> int" where
  \<comment> \<open>the month of the day \<open>k\<close> (from 0) of year \<open>y\<close>\<close>
  "month_of y k = (let l = (if leap y then 1 else 0)
     in if k < 31 then 1 else if k < 59 + l then 2 else if k < 90 + l then 3 else if k < 120 + l then 4
     else if k < 151 + l then 5 else if k < 181 + l then 6 else if k < 212 + l then 7
     else if k < 243 + l then 8 else if k < 273 + l then 9 else if k < 304 + l then 10
     else if k < 334 + l then 11 else 12)"

definition civil_from_day :: "int \<Rightarrow> int \<times> int \<times> int" where
  "civil_from_day n =
     (let y = year_of_day n; k = n - days_before_year y; m = month_of y k
      in (y, m, k - days_before_month y m + 1))"

definition valid_civil :: "int \<Rightarrow> int \<Rightarrow> int \<Rightarrow> bool" where
  "valid_civil y m d \<longleftrightarrow> 1 \<le> m \<and> m \<le> 12 \<and> 1 \<le> d \<and> d \<le> month_days y m"

definition weekday :: "int \<Rightarrow> int" where
  \<comment> \<open>\<open>getUTCDay\<close>: Sunday is 0\<close>
  "weekday n = (n + 4) mod 7"

lemma div_bounds:
  fixes a n :: int
  assumes "0 < n"
  shows "n * (a div n) \<le> a" "a < n * (a div n) + n"
  using pos_mod_sign [OF assms, of a] pos_mod_bound [OF assms, of a] mult_div_mod_eq [of n a]
  by linarith+

lemma div_by_const:
  "4 * (a div 4) \<le> a" "a < 4 * (a div 4) + 4" "100 * (a div 100) \<le> a" "a < 100 * (a div 100) + 100"
  "400 * (a div 400) \<le> a" "a < 400 * (a div 400) + 400" for a :: int
  by (rule div_bounds; simp)+

lemma div_step:
  fixes y n :: int
  assumes "0 < n"
  shows "y div n = (y - 1) div n + (if n dvd y then 1 else 0)"
proof (cases "n dvd y")
  case True
  then obtain k where "y = n * k" by auto
  then have "y - 1 = n * (k - 1) + (n - 1)" by (simp add: algebra_simps)
  then have "(y - 1) div n = k - 1" using assms by (intro int_div_pos_eq [where r = "n - 1"]) auto
  with True \<open>y = n * k\<close> assms show ?thesis by simp
next
  case False
  with assms have "0 < y mod n" by (simp add: dvd_eq_mod_eq_0 order_le_neq_trans)
  moreover have "y - 1 = n * (y div n) + (y mod n - 1)" using mult_div_mod_eq [of n y] by linarith
  moreover have "y mod n < n" using assms by simp
  ultimately have "(y - 1) div n = y div n"
    by (intro int_div_pos_eq [where r = "y mod n - 1"]) linarith+
  with False show ?thesis by simp
qed

lemma year_length: "days_before_year (y + 1) = days_before_year y + (if leap y then 366 else 365)"
proof -
  have "400 dvd y \<Longrightarrow> 100 dvd y" by (rule dvd_trans [of _ 400]) simp_all
  moreover have "100 dvd y \<Longrightarrow> 4 dvd y" by (rule dvd_trans [of _ 100]) simp_all
  moreover have "days_before_year (y + 1) = days_before_year y + 365 + (if 4 dvd y then 1 else 0)
      - (if 100 dvd y then 1 else 0) + (if 400 dvd y then 1 else 0)"
    unfolding days_before_year_def
    by (simp add: div_step [of 4 y] div_step [of 100 y] div_step [of 400 y])
  ultimately show ?thesis by (cases "4 dvd y"; cases "100 dvd y"; cases "400 dvd y"; simp add: leap_def)
qed

lemma days_before_year_bounds:
  "146097 * (y - 1) - 400 * 2 \<le> 400 * (days_before_year y + 719162)"
  "400 * (days_before_year y + 719162) \<le> 146097 * (y - 1) + 400"
  unfolding days_before_year_def using div_by_const [of "y - 1"]
  by (simp_all add: algebra_simps)

lemma days_before_year_mono: "x \<le> y \<Longrightarrow> days_before_year x \<le> days_before_year y"
proof (induction y rule: int_ge_induct)
  case (step i)
  then show ?case by (simp add: year_length)
qed simp

lemma days_before_year_strict: "x < y \<Longrightarrow> days_before_year x + 365 \<le> days_before_year y"
  using days_before_year_mono [of "x + 1" y] year_length [of x] by (simp split: if_splits)

lemma year_of_day_bounds:
  "days_before_year (year_of_day n) \<le> n" "n < days_before_year (year_of_day n + 1)"
proof -
  define y where "y = ((n + 719162) * 400) div 146097 + 1"
  have e: "146097 * (y - 1) \<le> (n + 719162) * 400" "(n + 719162) * 400 < 146097 * (y - 1) + 146097"
    using div_bounds [of 146097 "(n + 719162) * 400"] unfolding y_def by simp_all
  have "400 * (days_before_year (y - 1) + 719162) \<le> 146097 * (y - 1 - 1) + 400"
    using days_before_year_bounds(2) [of "y - 1"] by simp
  then have lo: "days_before_year (y - 1) \<le> n" using e by (simp add: algebra_simps)
  have "146097 * (y + 2 - 1) - 400 * 2 \<le> 400 * (days_before_year (y + 2) + 719162)"
    using days_before_year_bounds(1) [of "y + 2"] by simp
  then have hi: "n < days_before_year (y + 2)" using e by (simp add: algebra_simps)
  have y: "year_of_day n = (if days_before_year (y + 1) \<le> n then y + 1
      else if n < days_before_year y then y - 1 else y)"
    by (simp add: year_of_day_def y_def Let_def)
  show "days_before_year (year_of_day n) \<le> n" "n < days_before_year (year_of_day n + 1)"
    unfolding y using lo hi by (auto simp: add.commute)
qed

lemma year_of_day_unique:
  assumes "days_before_year y \<le> n" and "n < days_before_year (y + 1)"
  shows "year_of_day n = y"
proof (rule ccontr)
  assume "year_of_day n \<noteq> y"
  then have "year_of_day n + 1 \<le> y \<or> y + 1 \<le> year_of_day n" by linarith
  with days_before_year_mono [of "year_of_day n + 1" y] days_before_year_mono [of "y + 1" "year_of_day n"]
    year_of_day_bounds [of n] assms show False by linarith
qed

lemma month_of_bounds:
  assumes "0 \<le> k" and "k < (if leap y then 366 else 365)"
  shows "1 \<le> month_of y k" "month_of y k \<le> 12"
    "days_before_month y (month_of y k) \<le> k"
    "k < days_before_month y (month_of y k) + month_days y (month_of y k)"
  using assms by (auto simp: month_of_def days_before_month_def month_days_def Let_def)

lemma month_days_bounds [simp]: "1 \<le> month_days y m" "month_days y m \<le> 31"
  by (simp_all add: month_days_def)

lemma valid_first: "1 \<le> m \<Longrightarrow> m \<le> 12 \<Longrightarrow> valid_civil y m 1"
  by (simp add: valid_civil_def)

lemma valid_civil_months:
  assumes "valid_civil y m d"
  shows "m \<in> {1,2,3,4,5,6,7,8,9,10,11,12}"
proof -
  from assms have "1 \<le> m \<and> m \<le> 12" by (simp add: valid_civil_def)
  then have "m = 1 \<or> m = 2 \<or> m = 3 \<or> m = 4 \<or> m = 5 \<or> m = 6 \<or> m = 7 \<or> m = 8 \<or> m = 9
    \<or> m = 10 \<or> m = 11 \<or> m = 12" by presburger
  then show ?thesis by simp
qed

lemma month_of_unique:
  assumes "valid_civil y m d"
  shows "month_of y (days_before_month y m + d - 1) = m"
proof -
  from assms have "m \<in> {1,2,3,4,5,6,7,8,9,10,11,12}" by (rule valid_civil_months)
  with assms show ?thesis
    by (elim insertE emptyE; cases "leap y";
        simp add: valid_civil_def month_of_def days_before_month_def month_days_def)
qed

lemma days_in_year:
  assumes "valid_civil y m d"
  shows "0 \<le> days_before_month y m + d - 1"
    "days_before_month y m + d - 1 < (if leap y then 366 else 365)"
proof -
  from assms have "m \<in> {1,2,3,4,5,6,7,8,9,10,11,12}" by (rule valid_civil_months)
  with assms show "0 \<le> days_before_month y m + d - 1"
    "days_before_month y m + d - 1 < (if leap y then 366 else 365)"
    by (elim insertE emptyE; cases "leap y";
        simp add: valid_civil_def days_before_month_def month_days_def)+
qed

lemma civil_day_civil:
  assumes "valid_civil y m d"
  shows "civil_from_day (day_from_civil y m d) = (y, m, d)"
proof -
  have "year_of_day (day_from_civil y m d) = y"
    using days_in_year [OF assms] by (intro year_of_day_unique) (auto simp: day_from_civil_def year_length)
  with month_of_unique [OF assms] show ?thesis
    by (simp add: civil_from_day_def day_from_civil_def Let_def algebra_simps)
qed

lemma civil_from_day_valid:
  assumes "civil_from_day n = (y, m, d)"
  shows "valid_civil y m d" "day_from_civil y m d = n"
proof -
  let ?k = "n - days_before_year y"
  from assms have y: "y = year_of_day n" and m: "m = month_of y ?k"
    and d: "d = ?k - days_before_month y m + 1" by (auto simp: civil_from_day_def Let_def)
  have "0 \<le> ?k" "?k < (if leap y then 366 else 365)"
    using year_of_day_bounds [of n] year_length [of y] unfolding y by auto
  from month_of_bounds [OF this] show "valid_civil y m d" unfolding valid_civil_def d m by simp
  show "day_from_civil y m d = n" by (simp add: day_from_civil_def d)
qed

subsection \<open>Time values\<close>

abbreviation msDay :: int where
  "msDay \<equiv> 86400000"

definition day_of :: "ms \<Rightarrow> int" where
  "day_of t = t div msDay"

definition time_in_day :: "ms \<Rightarrow> int" where
  "time_in_day t = t mod msDay"

definition time_clip :: "ms \<Rightarrow> ms option" where
  "time_clip t = (if \<bar>t\<bar> \<le> 8640000000000000 then Some t else None)"

definition make_day :: "int \<Rightarrow> int \<Rightarrow> int \<Rightarrow> int" where
  \<comment> \<open>the month counts from 0 and may lie outside the year, the day may lie outside the month\<close>
  "make_day y month d = day_from_civil (y + month div 12) (month mod 12 + 1) 1 + d - 1"

definition date_UTC :: "int \<Rightarrow> int \<Rightarrow> int \<Rightarrow> int \<Rightarrow> int \<Rightarrow> ms option" where
  "date_UTC y month d h mi =
     time_clip (make_day (if 0 \<le> y \<and> y \<le> 99 then 1900 + y else y) month d * msDay + h * 3600000 + mi * 60000)"

subsection \<open>ISO strings\<close>

definition pad_num :: "nat \<Rightarrow> int \<Rightarrow> string" where
  "pad_num n k = pad_start n CHR ''0'' (show_nat (nat k))"

definition iso_year :: "int \<Rightarrow> string" where
  "iso_year y = (if 0 \<le> y \<and> y \<le> 9999 then pad_num 4 y
     else if y < 0 then CHR ''-'' # pad_num 6 (- y) else CHR ''+'' # pad_num 6 y)"

definition iso_day :: "int \<Rightarrow> string" where
  "iso_day n = (case civil_from_day n of (y, m, d) \<Rightarrow> iso_year y @ ''-'' @ pad_num 2 m @ ''-'' @ pad_num 2 d)"

definition toISOString :: "ms \<Rightarrow> string" where
  "toISOString t =
     (let r = time_in_day t
      in iso_day (day_of t) @ ''T'' @ pad_num 2 (r div 3600000) @ '':'' @ pad_num 2 (r div 60000 mod 60)
         @ '':'' @ pad_num 2 (r div 1000 mod 60) @ ''.'' @ pad_num 3 (r mod 1000) @ ''Z'')"

definition take_digits :: "nat \<Rightarrow> string \<Rightarrow> (int \<times> string) option" where
  "take_digits n s = (if n \<le> length s \<and> list_all is_digit (take n s)
     then Some (int (read_nat (take n s)), drop n s) else None)"

fun lit :: "char \<Rightarrow> string \<Rightarrow> string option" where
  "lit c [] = None"
| "lit c (x # xs) = (if x = c then Some xs else None)"

definition year_part :: "string \<Rightarrow> (int \<times> string) option" where
  "year_part s =
     (case lit CHR ''+'' s of
        Some r \<Rightarrow> take_digits 6 r
      | None \<Rightarrow> (case lit CHR ''-'' s of
          Some r \<Rightarrow> do { (y, r) \<leftarrow> take_digits 6 r; if y = 0 then None else Some (- y, r) }
        | None \<Rightarrow> take_digits 4 s))"

definition date_part :: "string \<Rightarrow> (int \<times> int \<times> int \<times> string) option" where
  "date_part s = do {
     (y, r) \<leftarrow> year_part s;
     case lit CHR ''-'' r of
       None \<Rightarrow> Some (y, 1, 1, r)
     | Some r \<Rightarrow> do {
         (m, r) \<leftarrow> take_digits 2 r;
         case lit CHR ''-'' r of
           None \<Rightarrow> Some (y, m, 1, r)
         | Some r \<Rightarrow> do { (d, r) \<leftarrow> take_digits 2 r; Some (y, m, d, r) } } }"

definition time_part :: "string \<Rightarrow> (int \<times> string) option" where
  "time_part s = do {
     (h, r) \<leftarrow> take_digits 2 s;
     r \<leftarrow> lit CHR '':'' r;
     (mi, r) \<leftarrow> take_digits 2 r;
     (sec, r) \<leftarrow> (case lit CHR '':'' r of None \<Rightarrow> Some (0, r) | Some r \<Rightarrow> take_digits 2 r);
     (frac, r) \<leftarrow> (case lit CHR ''.'' r of None \<Rightarrow> Some (0, r) | Some r \<Rightarrow> take_digits 3 r);
     if h \<le> 23 \<and> mi \<le> 59 \<and> sec \<le> 59 \<or> h = 24 \<and> mi = 0 \<and> sec = 0 \<and> frac = 0
     then Some (h * 3600000 + mi * 60000 + sec * 1000 + frac, r) else None }"

definition zone_part :: "string \<Rightarrow> int option" where
  \<comment> \<open>the offset from UTC; a time with no offset is local, which the host resolves\<close>
  "zone_part s = (if s = ''Z'' then Some 0
     else case s of
       [] \<Rightarrow> None
     | c # r \<Rightarrow> if c = CHR ''+'' \<or> c = CHR ''-'' then do {
           (h, r) \<leftarrow> take_digits 2 r;
           r \<leftarrow> lit CHR '':'' r;
           (mi, r) \<leftarrow> take_digits 2 r;
           if r = [] \<and> h \<le> 23 \<and> mi \<le> 59
           then Some ((if c = CHR ''-'' then -1 else 1) * (h * 3600000 + mi * 60000)) else None }
         else None)"

definition parse_iso :: "string \<Rightarrow> ms option" where
  "parse_iso s = do {
     (y, m, d, r) \<leftarrow> date_part s;
     if \<not> valid_civil y m d then None
     else if r = [] then Some (day_from_civil y m d * msDay)
     else do {
       r \<leftarrow> lit CHR ''T'' r;
       (time, r) \<leftarrow> time_part r;
       offset \<leftarrow> zone_part r;
       Some (day_from_civil y m d * msDay + time - offset) } }"

definition date_parse :: "(string \<Rightarrow> ms option) \<Rightarrow> string \<Rightarrow> ms option" where
  "date_parse host_parse s = (case parse_iso s of Some t \<Rightarrow> time_clip t | None \<Rightarrow> host_parse s)"

subsection \<open>UTC getters and setters\<close>

definition getUTCFullYear :: "ms \<Rightarrow> int" where
  "getUTCFullYear t = fst (civil_from_day (day_of t))"

definition getUTCMonth :: "ms \<Rightarrow> int" where
  "getUTCMonth t = fst (snd (civil_from_day (day_of t))) - 1"

definition getUTCDate :: "ms \<Rightarrow> int" where
  "getUTCDate t = snd (snd (civil_from_day (day_of t)))"

definition getUTCDay :: "ms \<Rightarrow> int" where
  "getUTCDay t = weekday (day_of t)"

definition setUTCDate :: "int \<Rightarrow> ms \<Rightarrow> ms option" where
  "setUTCDate d t = time_clip (make_day (getUTCFullYear t) (getUTCMonth t) d * msDay + time_in_day t)"

definition setUTCMonth :: "int \<Rightarrow> int \<Rightarrow> ms \<Rightarrow> ms option" where
  \<comment> \<open>month and day of month; with one argument the code's day is \<open>getUTCDate\<close>\<close>
  "setUTCMonth month d t = time_clip (make_day (getUTCFullYear t) month d * msDay + time_in_day t)"

definition iso_slice :: "ms \<Rightarrow> string" where
  \<comment> \<open>\<open>toISOString().slice(0, 10)\<close>\<close>
  "iso_slice t = slice 0 10 (toISOString t)"

text \<open>Evaluation on concrete dates: the arithmetic first, then the texts.\<close>

lemmas civil_eval = civil_from_day_def day_from_civil_def year_of_day_def days_before_year_def
  month_of_def days_before_month_def leap_def month_days_def valid_civil_def make_day_def
  date_UTC_def time_clip_def time_in_day_def day_of_def weekday_def
lemmas iso_eval = toISOString_def iso_day_def iso_year_def pad_num_def digit_chars pad_start_def
  show_nat.simps civil_eval
lemmas parse_eval = parse_iso_def date_part_def year_part_def time_part_def zone_part_def
  take_digits_def is_digit_def read_nat_def digit_val_def less_eq_char_def civil_eval

subsection \<open>Round trips\<close>

definition four_digit :: "int \<Rightarrow> bool" where
  \<comment> \<open>the days of the years 0000 to 9999\<close>
  "four_digit n \<longleftrightarrow> -719528 \<le> n \<and> n \<le> 2932896"

lemma four_digit_year:
  assumes "civil_from_day n = (y, m, d)"
  shows "four_digit n \<longleftrightarrow> 0 \<le> y \<and> y \<le> 9999"
proof -
  from assms have y: "y = year_of_day n" by (simp add: civil_from_day_def Let_def)
  have z: "days_before_year 0 = -719528" "days_before_year 10000 = 2932897"
    by (simp_all add: days_before_year_def)
  show ?thesis unfolding four_digit_def y
    using year_of_day_bounds [of n] z days_before_year_mono [of 0 "year_of_day n"]
      days_before_year_mono [of "year_of_day n + 1" 10000] days_before_year_mono [of "year_of_day n + 1" 0]
      days_before_year_mono [of 10000 "year_of_day n"]
    by linarith
qed

lemma read_nat_replicate: "read_nat (replicate k CHR ''0'' @ s) = read_nat s"
proof -
  have "foldl (\<lambda>a c. a * 10 + digit_val c) 0 (replicate k CHR ''0'') = 0"
    by (induction k) (simp_all add: digit_val_def)
  then show ?thesis by (simp add: read_nat_def)
qed

lemma show_nat_length: "k < 10 ^ n \<Longrightarrow> 0 < n \<Longrightarrow> length (show_nat k) \<le> n"
proof (induction n arbitrary: k)
  case (Suc n)
  show ?case
  proof (cases "k < 10")
    case False
    with Suc.prems have "0 < n" by (cases n) auto
    moreover have "k div 10 < 10 ^ n" using Suc.prems(1) by (simp add: less_mult_imp_div_less mult.commute)
    ultimately have "length (show_nat (k div 10)) \<le> n" by (rule Suc.IH [rotated])
    with False show ?thesis by (subst show_nat.simps) simp
  qed (subst show_nat.simps, simp)
qed simp

lemma pad_num_props:
  assumes "0 \<le> k" and "k < 10 ^ n" and "0 < n"
  shows "length (pad_num n k) = n" "list_all is_digit (pad_num n k)" "read_nat (pad_num n k) = nat k"
proof -
  from assms have "nat k < 10 ^ n" by (simp add: nat_less_iff)
  with assms(3) show "length (pad_num n k) = n"
    using show_nat_length [of "nat k" n] by (simp add: pad_num_def pad_start_def)
  have "is_digit CHR ''0''" by (simp add: is_digit_def)
  then show "list_all is_digit (pad_num n k)"
    using show_nat_digits by (auto simp: pad_num_def pad_start_def list_all_iff)
  show "read_nat (pad_num n k) = nat k" by (simp add: pad_num_def pad_start_def read_nat_replicate)
qed

lemma take_digits_pad:
  assumes "0 \<le> k" and "k < 10 ^ n" and "0 < n"
  shows "take_digits n (pad_num n k @ r) = Some (k, r)"
  using pad_num_props [OF assms] assms(1) by (simp add: take_digits_def)

lemma lit_pad: "0 \<le> k \<Longrightarrow> k < 10 ^ n \<Longrightarrow> 0 < n \<Longrightarrow> \<not> is_digit c \<Longrightarrow> lit c (pad_num n k @ r) = None"
  using pad_num_props [of k n] by (cases "pad_num n k") auto

lemma valid_civil_range: "valid_civil y m d \<Longrightarrow> 0 < m \<and> m < 100 \<and> 0 < d \<and> d < 100"
  by (auto simp: valid_civil_def month_days_def split: if_splits)

lemma not_digit_sign [simp]: "\<not> is_digit CHR ''+''"
  by (simp add: is_digit_def less_eq_char_def)

lemma date_part_iso_day:
  assumes "four_digit n" and "civil_from_day n = (y, m, d)"
  shows "date_part (iso_day n @ r) = Some (y, m, d, r)"
proof -
  from four_digit_year [OF assms(2)] assms(1) have y: "0 \<le> y" "y \<le> 9999" by simp_all
  from valid_civil_range [OF civil_from_day_valid(1) [OF assms(2)]] have md: "0 < m" "m < 100" "0 < d" "d < 100" by simp_all
  have "year_part (pad_num 4 y @ t) = Some (y, t)" for t
    using y by (simp add: year_part_def lit_pad take_digits_pad)
  with y md show ?thesis
    by (simp add: iso_day_def assms(2) iso_year_def date_part_def take_digits_pad)
qed

lemma parse_iso_noon:
  assumes "four_digit n"
  shows "parse_iso (iso_day n @ ''T12:00:00Z'') = Some (n * msDay + 43200000)"
proof -
  obtain y m d where c: "civil_from_day n = (y, m, d)" by (metis prod_cases3)
  have "time_part ''12:00:00Z'' = Some (43200000, ''Z'')"
    by (simp add: time_part_def take_digits_def is_digit_def read_nat_def digit_val_def numeral_eq_Suc)
  with date_part_iso_day [OF assms c] civil_from_day_valid [OF c] show ?thesis
    by (simp add: parse_iso_def zone_part_def)
qed

lemma day_of_simps [simp]:
  "day_of (n * msDay + 43200000) = n" "time_in_day (n * msDay + 43200000) = 43200000"
  "day_of (t + k * msDay) = day_of t + k" "time_in_day (t + k * msDay) = time_in_day t"
  by (simp_all add: day_of_def time_in_day_def)

lemma day_time_eq: "day_of t * msDay + time_in_day t = t"
  by (simp add: day_of_def time_in_day_def)

lemma day_of_unique: "0 \<le> r \<Longrightarrow> r < msDay \<Longrightarrow> day_of (n * msDay + r) = n \<and> time_in_day (n * msDay + r) = r"
  by (simp add: day_of_def time_in_day_def)

lemma time_in_day_range: "0 \<le> time_in_day t" "time_in_day t < msDay"
  by (simp_all add: time_in_day_def)

lemma make_day_civil:
  assumes "civil_from_day n = (y, m, d)"
  shows "make_day y (m - 1) k = n - d + k"
proof -
  from civil_from_day_valid [OF assms] have "0 \<le> m - 1" "m - 1 < 12" "day_from_civil y m d = n"
    by (auto simp: valid_civil_def)
  then show ?thesis by (simp add: make_day_def day_from_civil_def)
qed

lemma setUTCDate_add: "setUTCDate (getUTCDate t + k) t = time_clip (t + k * msDay)"
proof -
  obtain y m d where c: "civil_from_day (day_of t) = (y, m, d)" by (metis prod_cases3)
  then have "setUTCDate (getUTCDate t + k) t = time_clip ((day_of t + k) * msDay + time_in_day t)"
    by (simp add: setUTCDate_def getUTCDate_def getUTCFullYear_def getUTCMonth_def make_day_civil)
  moreover have "(day_of t + k) * msDay + time_in_day t = t + k * msDay"
    using day_time_eq [of t] by (simp add: distrib_right)
  ultimately show ?thesis by (simp only:)
qed

lemma time_clip_four_digit:
  assumes "four_digit (day_of t)"
  shows "time_clip t = Some t"
proof -
  from assms have "-719528 * msDay \<le> day_of t * msDay" "day_of t * msDay \<le> 2932896 * msDay"
    unfolding four_digit_def by (simp_all add: mult_right_mono)
  with time_in_day_range [of t] day_time_eq [of t] have "\<bar>t\<bar> \<le> 8640000000000000" by simp
  then show ?thesis by (simp add: time_clip_def)
qed

lemma iso_day_length: "four_digit n \<Longrightarrow> length (iso_day n) = 10"
  using four_digit_year [of n] valid_civil_range [OF civil_from_day_valid(1) [of n]]
  by (cases "civil_from_day n") (auto simp: iso_day_def iso_year_def pad_num_props)

lemma iso_slice_four_digit [simp]: "four_digit (day_of t) \<Longrightarrow> iso_slice t = iso_day (day_of t)"
  using iso_day_length [of "day_of t"] by (simp add: iso_slice_def slice_def toISOString_def Let_def)

lemma iso_day_inj:
  assumes "four_digit a" and "four_digit b" and "iso_day a = iso_day b"
  shows "a = b"
proof -
  obtain y m d where a: "civil_from_day a = (y, m, d)" by (metis prod_cases3)
  obtain y' m' d' where b: "civil_from_day b = (y', m', d')" by (metis prod_cases3)
  from date_part_iso_day [OF assms(1) a, of "[]"] date_part_iso_day [OF assms(2) b, of "[]"] assms(3)
  have "(y, m, d) = (y', m', d')" by simp
  with civil_from_day_valid(2) [OF a] civil_from_day_valid(2) [OF b] show ?thesis by simp
qed

lemma date_parse_noon:
  "four_digit n \<Longrightarrow> date_parse host (iso_day n @ ''T12:00:00Z'') = Some (n * msDay + 43200000)"
  using time_clip_four_digit [of "n * msDay + 43200000"] by (simp add: date_parse_def parse_iso_noon)

text \<open>The instants the standard prints are the instants it reads back.\<close>

lemma time_part_pads:
  assumes "0 \<le> h" "h < 24" "0 \<le> mi" "mi < 60" "0 \<le> s" "s < 60" "0 \<le> f" "f < 1000"
  shows "time_part (pad_num 2 h @ '':'' @ pad_num 2 mi @ '':'' @ pad_num 2 s @ ''.'' @ pad_num 3 f @ z)
    = Some (h * 3600000 + mi * 60000 + s * 1000 + f, z)"
  using assms by (simp add: time_part_def take_digits_pad)

lemma time_part_iso:
  assumes "0 \<le> r" and "r < msDay"
  shows "time_part (pad_num 2 (r div 3600000) @ '':'' @ pad_num 2 (r div 60000 mod 60)
         @ '':'' @ pad_num 2 (r div 1000 mod 60) @ ''.'' @ pad_num 3 (r mod 1000) @ z) = Some (r, z)"
proof -
  have h: "0 \<le> r div 3600000" "r div 3600000 < 24"
    using assms div_bounds [of 3600000 r] by (simp_all add: pos_imp_zdiv_nonneg_iff)
  have m: "0 \<le> k mod 60" "k mod 60 < 60" for k :: int by simp_all
  have f: "0 \<le> r mod 1000" "r mod 1000 < 1000" by simp_all
  have e: "r div 3600000 = r div 1000 div 60 div 60" "r div 60000 = r div 1000 div 60"
    using zdiv_zmult2_eq [of 60 "r div 1000" 60] zdiv_zmult2_eq [of 3600 r 1000]
      zdiv_zmult2_eq [of 60 r 1000] by simp_all
  have split: "r = 1000 * s + f \<Longrightarrow> s = 60 * q + sec \<Longrightarrow> q = 60 * h + mi \<Longrightarrow>
      h * 3600000 + mi * 60000 + sec * 1000 + f = r" for s f q sec h mi :: int by simp
  have sum: "r div 3600000 * 3600000 + r div 60000 mod 60 * 60000 + r div 1000 mod 60 * 1000 + r mod 1000 = r"
    unfolding e by (rule split [of "r div 1000" _ "r div 1000 div 60"]) (rule mult_div_mod_eq [symmetric])+
  show ?thesis
    using time_part_pads [OF h m [of "r div 60000"] m [of "r div 1000"] f, of z] unfolding sum .
qed

lemma parse_iso_toISOString:
  assumes "four_digit (day_of t)"
  shows "parse_iso (toISOString t) = Some t"
proof -
  obtain y m d where c: "civil_from_day (day_of t) = (y, m, d)" by (metis prod_cases3)
  note time_part_iso [OF time_in_day_range, of t "''Z''"]
  with date_part_iso_day [OF assms c] civil_from_day_valid [OF c] day_time_eq [of t] show ?thesis
    by (simp add: parse_iso_def toISOString_def zone_part_def Let_def)
qed

lemma date_parse_toISOString: "four_digit (day_of t) \<Longrightarrow> date_parse host (toISOString t) = Some t"
  by (simp add: date_parse_def parse_iso_toISOString time_clip_four_digit)

end
