(* ===== verification/DateTime.thy ===== *)
theory DateTime
  imports JsDate
begin

section \<open>Business time\<close>

text \<open>
  Models \<open>reservations/dateTime.ts\<close> and \<open>dashboard/dateRange.ts\<close>: the conversions between
  instants (ISO strings in UTC) and wall-clock times of the business zone. What the code takes from
  \<open>Intl\<close> and from the engine is the record \<open>platform\<close>: the zone's offset at an instant, the
  locale's date and time formats, and \<open>Date.parse\<close> outside the ISO format. A thrown error is
  \<open>Inl\<close> its message, or None where the message is the engine's own (\<open>RangeError\<close> of an invalid
  date).

  The main results are that \<open>businessLocalToInstant\<close> only ever returns an instant of the wall-clock
  time asked for, and that its four attempts find one whenever there is one.
\<close>

record platform =
  pf_parse :: "string \<Rightarrow> ms option" \<comment> \<open>\<open>Date.parse\<close> of a string outside the ISO format\<close>
  pf_offset :: "ms \<Rightarrow> int" \<comment> \<open>offset of Europe/Belgrade in milliseconds\<close>
  pf_dateTime :: "string \<Rightarrow> bool \<Rightarrow> ms \<Rightarrow> string" \<comment> \<open>locale, with seconds\<close>
  pf_time :: "ms \<Rightarrow> string"

abbreviation parse :: "platform \<Rightarrow> string \<Rightarrow> ms option" where
  "parse P \<equiv> date_parse (pf_parse P)"

subsection \<open>Wall-clock texts\<close>

definition era_year :: "int \<Rightarrow> int" where
  \<comment> \<open>the \<open>year\<close> part of the formatter counts within the era\<close>
  "era_year y = (if 1 \<le> y then y else 1 - y)"

definition wall_date :: "ms \<Rightarrow> string" where
  "wall_date w = (case civil_from_day (day_of w) of (y, m, d) \<Rightarrow>
     show_nat (nat (era_year y)) @ ''-'' @ pad_num 2 m @ ''-'' @ pad_num 2 d)"

definition wall_clock :: "ms \<Rightarrow> string" where
  "wall_clock w = pad_num 2 (time_in_day w div 3600000) @ '':'' @ pad_num 2 (time_in_day w div 60000 mod 60)"

definition wall_text :: "ms \<Rightarrow> string" where
  "wall_text w = wall_date w @ ''T'' @ wall_clock w"

definition local_ms :: "platform \<Rightarrow> ms \<Rightarrow> ms" where
  "local_ms P t = t + pf_offset P t"

subsection \<open>The conversions\<close>

definition businessInstantToLocal :: "platform \<Rightarrow> string \<Rightarrow> string option" where
  "businessInstantToLocal P value = map_option (\<lambda>t. wall_text (local_ms P t)) (parse P value)"

definition local_match :: "string \<Rightarrow> (int \<times> int \<times> int \<times> int \<times> int) option" where
  \<comment> \<open>\<open>/^(\d{4})-(\d{2})-(\d{2})T(\d{2}):(\d{2})$/\<close>\<close>
  "local_match s = do {
     (y, r) \<leftarrow> take_digits 4 s; r \<leftarrow> lit CHR ''-'' r;
     (m, r) \<leftarrow> take_digits 2 r; r \<leftarrow> lit CHR ''-'' r;
     (d, r) \<leftarrow> take_digits 2 r; r \<leftarrow> lit CHR ''T'' r;
     (h, r) \<leftarrow> take_digits 2 r; r \<leftarrow> lit CHR '':'' r;
     (mi, r) \<leftarrow> take_digits 2 r;
     if r = [] then Some (y, m, d, h, mi) else None }"

definition represented :: "platform \<Rightarrow> ms \<Rightarrow> ms option" where
  "represented P candidate =
     (let w = local_ms P candidate
      in case civil_from_day (day_of w) of (y, m, d) \<Rightarrow>
           date_UTC (era_year y) (m - 1) d (time_in_day w div 3600000) (time_in_day w div 60000 mod 60))"

fun local_search :: "platform \<Rightarrow> string \<Rightarrow> ms \<Rightarrow> nat \<Rightarrow> ms \<Rightarrow> string option" where
  \<comment> \<open>the loop, with the attempts that are left\<close>
  "local_search P value desired 0 candidate = None"
| "local_search P value desired (Suc n) candidate =
     (case represented P candidate of
        None \<Rightarrow> None
      | Some r \<Rightarrow>
          if r = desired
          then (let instant = toISOString candidate
                in if businessInstantToLocal P instant = Some value then Some instant else None)
          else local_search P value desired n (candidate + (desired - r)))"

definition businessLocalToInstant :: "platform \<Rightarrow> string \<Rightarrow> string + string" where
  "businessLocalToInstant P value =
     (case local_match value of
        None \<Rightarrow> Inl ''Datum i vreme nisu validni.''
      | Some (y, m, d, h, mi) \<Rightarrow>
          (case date_UTC y (m - 1) d h mi of
             None \<Rightarrow> Inl (sr ''Izabrano lokalno vreme ne postoji ili datum nije validan. Proverite prelazak na letnje ra~cunanje vremena.'')
           | Some desired \<Rightarrow>
               (case local_search P value desired 4 desired of
                  Some instant \<Rightarrow> Inr instant
                | None \<Rightarrow> Inl (sr ''Izabrano lokalno vreme ne postoji ili datum nije validan. Proverite prelazak na letnje ra~cunanje vremena.''))))"

definition formatBusinessDateTime :: "platform \<Rightarrow> string \<Rightarrow> bool \<Rightarrow> string \<Rightarrow> string option" where
  "formatBusinessDateTime P value includeSeconds locale_name =
     map_option (pf_dateTime P locale_name includeSeconds) (parse P value)"

definition formatBusinessTime :: "platform \<Rightarrow> string \<Rightarrow> string option" where
  "formatBusinessTime P value = map_option (pf_time P) (parse P value)"

definition formatBusinessIntervalEnd :: "platform \<Rightarrow> string \<Rightarrow> string \<Rightarrow> string \<Rightarrow> string option" where
  "formatBusinessIntervalEnd P start end_time locale_name = do {
     a \<leftarrow> businessInstantToLocal P start;
     b \<leftarrow> businessInstantToLocal P end_time;
     if slice 0 10 a = slice 0 10 b then formatBusinessTime P end_time
     else formatBusinessDateTime P end_time False locale_name }"

definition todayInBusinessZone :: "platform \<Rightarrow> ms \<Rightarrow> string" where
  "todayInBusinessZone P now = wall_date (local_ms P now)"

definition dateInBusinessZone :: "platform \<Rightarrow> string \<Rightarrow> string option" where
  "dateInBusinessZone P instant = map_option (\<lambda>t. wall_date (local_ms P t)) (parse P instant)"

definition businessDate :: "platform \<Rightarrow> ms \<Rightarrow> string" where
  "businessDate P value = wall_date (local_ms P value)"

definition currentBusinessMonth :: "platform \<Rightarrow> ms \<Rightarrow> string \<times> string" where
  "currentBusinessMonth P value = (let to = businessDate P value in (slice 0 7 to @ ''-01'', to))"

text \<open>A concrete platform, for the witnesses.\<close>

definition belgrade_2026 :: platform where
  \<comment> \<open>the offsets of 2026: summer time from 2026-03-29T01:00Z to 2026-10-25T01:00Z\<close>
  "belgrade_2026 = \<lparr>pf_parse = (\<lambda>_. None),
     pf_offset = (\<lambda>t. if 1774746000000 \<le> t \<and> t < 1792890000000 then 7200000 else 3600000),
     pf_dateTime = (\<lambda>_ _ _. []), pf_time = (\<lambda>_. [])\<rparr>"

subsection \<open>Wall-clock texts of the years 1000 to 9999\<close>

definition plain_day :: "int \<Rightarrow> bool" where
  \<comment> \<open>the days of the years 1000 to 9999, whose year has four digits with and without padding\<close>
  "plain_day n \<longleftrightarrow> -354285 \<le> n \<and> n \<le> 2932896"

definition floor_minute :: "ms \<Rightarrow> ms" where
  "floor_minute w = w - w mod 60000"

lemma plain_day_year:
  assumes "plain_day n" and "civil_from_day n = (y, m, d)"
  shows "1000 \<le> y" "y \<le> 9999"
proof -
  from assms(2) have y: "y = year_of_day n" by (simp add: civil_from_day_def Let_def)
  have z: "days_before_year 1000 = -354285" "days_before_year 10000 = 2932897"
    by (simp_all add: days_before_year_def)
  from y year_of_day_bounds [of n] have b: "days_before_year y \<le> n" "n < days_before_year (y + 1)" by simp_all
  show "1000 \<le> y"
    using days_before_year_mono [of "y + 1" 1000] z b assms(1) by (fastforce simp: plain_day_def)
  show "y \<le> 9999"
    using days_before_year_mono [of 10000 y] z b assms(1) by (fastforce simp: plain_day_def)
qed

lemma plain_four_digit: "plain_day n \<Longrightarrow> four_digit n"
  by (simp add: plain_day_def four_digit_def)

lemma show_pad_four:
  assumes "1000 \<le> y" and "y \<le> 9999"
  shows "show_nat (nat y) = pad_num 4 y"
proof -
  have "length (show_nat k) = 4" if "1000 \<le> k" "k \<le> 9999" for k
    using that by (subst show_nat.simps, subst show_nat.simps, subst show_nat.simps, subst show_nat.simps)
      (simp add: div_mult2_eq [symmetric] div_less_iff_less_mult)
  from this [of "nat y"] assms show ?thesis by (simp add: pad_num_def pad_start_def)
qed

lemma wall_date_plain: "plain_day (day_of w) \<Longrightarrow> wall_date w = iso_day (day_of w)"
  using plain_day_year [of "day_of w"]
  by (cases "civil_from_day (day_of w)")
    (auto simp: wall_date_def iso_day_def iso_year_def era_year_def show_pad_four)

lemma time_of_minute:
  "day_of (floor_minute w) = day_of w"
  "time_in_day (floor_minute w) = time_in_day w - time_in_day w mod 60000"
proof -
  have "w mod 60000 = time_in_day w mod 60000" by (simp add: time_in_day_def mod_mod_cancel)
  moreover from this have "floor_minute w = day_of w * msDay + (time_in_day w - time_in_day w mod 60000)"
    using day_time_eq [of w] by (simp add: floor_minute_def)
  moreover have "0 \<le> time_in_day w - time_in_day w mod 60000" "time_in_day w - time_in_day w mod 60000 < msDay"
    using time_in_day_range [of w] zmod_le_nonneg_dividend [of "time_in_day w" 60000]
      pos_mod_sign [of 60000 "time_in_day w"] by simp_all
  ultimately show "day_of (floor_minute w) = day_of w"
    "time_in_day (floor_minute w) = time_in_day w - time_in_day w mod 60000"
    using day_of_unique by simp_all
qed

lemma wall_minute:
  "time_in_day (floor_minute w) div 3600000 = time_in_day w div 3600000"
  "time_in_day (floor_minute w) div 60000 = time_in_day w div 60000"
  "time_in_day w div 3600000 * 3600000 + time_in_day w div 60000 mod 60 * 60000 = time_in_day (floor_minute w)"
proof -
  define r where "r = time_in_day w"
  have f: "time_in_day (floor_minute w) = 60000 * (r div 60000)"
    by (simp add: time_of_minute r_def minus_mod_eq_mult_div)
  then show "time_in_day (floor_minute w) div 60000 = time_in_day w div 60000" by (simp add: r_def)
  have e: "x div 3600000 = x div 60000 div 60" for x :: int using zdiv_zmult2_eq [of 60 x 60000] by simp
  have regroup: "q = 60 * a + b \<Longrightarrow> a * 3600000 + b * 60000 = 60000 * q" for a b q :: int by simp
  show "time_in_day (floor_minute w) div 3600000 = time_in_day w div 3600000"
    unfolding e f by (simp add: r_def)
  show "time_in_day w div 3600000 * 3600000 + time_in_day w div 60000 mod 60 * 60000 = time_in_day (floor_minute w)"
    unfolding e f r_def by (rule regroup) (rule mult_div_mod_eq [symmetric])
qed

lemma wall_text_floor: "wall_text (floor_minute w) = wall_text w"
  by (simp add: wall_text_def wall_date_def wall_clock_def time_of_minute(1) wall_minute(1,2))

lemma wall_clock_range: "0 \<le> time_in_day w div 3600000" "time_in_day w div 3600000 < 24"
  using time_in_day_range [of w] div_bounds [of 3600000 "time_in_day w"]
  by (simp_all add: pos_imp_zdiv_nonneg_iff)

lemma local_match_wall_text:
  assumes "plain_day (day_of w)" and "civil_from_day (day_of w) = (y, m, d)"
  shows "local_match (wall_text w) = Some (y, m, d, time_in_day w div 3600000, time_in_day w div 60000 mod 60)"
proof -
  note y = plain_day_year [OF assms]
  from valid_civil_range [OF civil_from_day_valid(1) [OF assms(2)]]
  have md: "0 < m" "m < 100" "0 < d" "d < 100" by simp_all
  have mi: "0 \<le> k mod 60" "k mod 60 < 100" for k :: int
    using pos_mod_bound [of 60 k] by (simp_all del: pos_mod_bound)
  show ?thesis using y md wall_clock_range [of w] mi
    by (simp add: wall_text_def wall_clock_def wall_date_def assms(2) era_year_def show_pad_four
        local_match_def take_digits_pad pad_num_props take_digits_pad [where r = "[]", simplified])
qed

lemma date_UTC_wall:
  assumes "plain_day (day_of w)" and "civil_from_day (day_of w) = (y, m, d)"
  shows "date_UTC y (m - 1) d (time_in_day w div 3600000) (time_in_day w div 60000 mod 60)
    = Some (floor_minute w)"
proof -
  have "day_of w * msDay + time_in_day (floor_minute w) = floor_minute w"
    using day_time_eq [of "floor_minute w"] by (simp add: time_of_minute(1))
  moreover have "time_clip (floor_minute w) = Some (floor_minute w)"
    using plain_four_digit [OF assms(1)] by (intro time_clip_four_digit) (simp add: time_of_minute(1))
  ultimately show ?thesis
    using plain_day_year [OF assms] wall_minute(3) [of w] make_day_civil [OF assms(2), of d]
    by (simp add: date_UTC_def add.assoc)
qed

lemma represented_plain:
  assumes "plain_day (day_of (local_ms P c))"
  shows "represented P c = Some (floor_minute (local_ms P c))"
proof -
  obtain y m d where c: "civil_from_day (day_of (local_ms P c)) = (y, m, d)" by (metis prod_cases3)
  from plain_day_year [OF assms c] date_UTC_wall [OF assms c] show ?thesis
    by (simp add: represented_def c era_year_def)
qed

subsection \<open>The search for the instant\<close>

lemma local_search_numeral:
  "local_search P value desired (numeral k) candidate =
     (case represented P candidate of
        None \<Rightarrow> None
      | Some r \<Rightarrow>
          if r = desired
          then (let instant = toISOString candidate
                in if businessInstantToLocal P instant = Some value then Some instant else None)
          else local_search P value desired (pred_numeral k) (candidate + (desired - r)))"
  by (simp add: numeral_eq_Suc)

lemma local_search_sound:
  "local_search P value desired n c = Some i \<Longrightarrow> businessInstantToLocal P i = Some value"
  by (induction n arbitrary: c) (auto simp: Let_def split: option.splits if_splits)

text \<open>
  Around an instant the zone has at most two offsets, both whole minutes (standard and summer time).
\<close>

definition two_offsets :: "platform \<Rightarrow> ms \<Rightarrow> int \<Rightarrow> int \<Rightarrow> bool" where
  "two_offsets P t a b \<longleftrightarrow> 60000 dvd a \<and> 60000 dvd b \<and> \<bar>a\<bar> \<le> msDay \<and> \<bar>b\<bar> \<le> msDay
     \<and> (\<forall>u. \<bar>u - t\<bar> \<le> 4 * msDay \<longrightarrow> pf_offset P u = a \<or> pf_offset P u = b)"

definition working_day :: "int \<Rightarrow> bool" where
  \<comment> \<open>the years 1001 to 9998, up to a few days\<close>
  "working_day n \<longleftrightarrow> -354281 \<le> n \<and> n \<le> 2932892"

lemma working_plain: "working_day n \<Longrightarrow> \<bar>k - n\<bar> \<le> 4 \<Longrightarrow> plain_day k"
  unfolding working_day_def plain_day_def by linarith

lemma day_of_near:
  assumes "\<bar>u - t\<bar> \<le> k * msDay"
  shows "\<bar>day_of u - day_of t\<bar> \<le> k"
proof -
  from assms have "u \<le> t + k * msDay" "t \<le> u + k * msDay" by linarith+
  then have "day_of u \<le> day_of (t + k * msDay)" "day_of t \<le> day_of (u + k * msDay)"
    unfolding day_of_def by (simp_all add: zdiv_mono1)
  then show ?thesis by simp
qed

lemma floor_minute_id: "60000 dvd w \<Longrightarrow> floor_minute w = w"
  by (simp add: floor_minute_def)

lemma search_found:
  assumes work: "working_day (day_of D)" and D: "60000 dvd D"
    and c: "60000 dvd c" "\<bar>c - D\<bar> \<le> msDay" and off: "\<bar>pf_offset P c\<bar> \<le> msDay" "60000 dvd pf_offset P c"
  shows "local_search P (wall_text D) D (Suc n) c =
    (if local_ms P c = D then Some (toISOString c)
     else local_search P (wall_text D) D n (D - pf_offset P c))"
proof -
  have "\<bar>local_ms P c - D\<bar> \<le> 2 * msDay" using c off by (simp add: local_ms_def)
  from day_of_near [OF this] working_plain [OF work, of "day_of (local_ms P c)"]
  have "plain_day (day_of (local_ms P c))" by linarith
  moreover have "60000 dvd local_ms P c" using c(1) off(2) by (simp add: local_ms_def)
  ultimately have r: "represented P c = Some (local_ms P c)"
    by (simp add: represented_plain floor_minute_id)
  have "\<bar>day_of c - day_of D\<bar> \<le> 1" using day_of_near [of c D 1] c(2) by simp
  with working_plain [OF work, of "day_of c"] have "four_digit (day_of c)"
    by (intro plain_four_digit) linarith
  then have "businessInstantToLocal P (toISOString c) = Some (wall_text (local_ms P c))"
    by (simp add: businessInstantToLocal_def date_parse_toISOString)
  with r show ?thesis by (simp add: local_ms_def)
qed

lemma search_complete:
  assumes two: "two_offsets P D a b" and work: "working_day (day_of D)" and D: "60000 dvd D"
    and sol: "local_ms P u = D" and near: "\<bar>u - D\<bar> \<le> msDay"
  shows "\<exists>v. local_search P (wall_text D) D 4 D = Some (toISOString v) \<and> local_ms P v = D
    \<and> \<bar>v - D\<bar> \<le> msDay"
proof -
  have ab: "60000 dvd a" "60000 dvd b" "\<bar>a\<bar> \<le> msDay" "\<bar>b\<bar> \<le> msDay"
    and off: "\<And>x. \<bar>x - D\<bar> \<le> 4 * msDay \<Longrightarrow> pf_offset P x = a \<or> pf_offset P x = b"
    using two by (simp_all add: two_offsets_def)
  have step: "local_search P (wall_text D) D (Suc n) c =
    (if local_ms P c = D then Some (toISOString c)
     else local_search P (wall_text D) D n (D - pf_offset P c))"
    if "60000 dvd c" "\<bar>c - D\<bar> \<le> msDay" for n c
  proof -
    have "pf_offset P c = a \<or> pf_offset P c = b" using off [of c] that by linarith
    with ab show ?thesis by (intro search_found [OF work D that]) auto
  qed
  let ?c1 = "D - pf_offset P D"
  let ?c2 = "D - pf_offset P ?c1"
  have o0: "pf_offset P D = a \<or> pf_offset P D = b" using off [of D] by simp
  then have c1: "60000 dvd ?c1" "\<bar>?c1 - D\<bar> \<le> msDay" using D ab by auto
  then have o1: "pf_offset P ?c1 = a \<or> pf_offset P ?c1 = b" using off [of ?c1] by linarith
  then have c2: "60000 dvd ?c2" "\<bar>?c2 - D\<bar> \<le> msDay" using D ab by auto
  have ou: "pf_offset P u = a \<or> pf_offset P u = b" using off [of u] near by linarith
  have u: "u = D - pf_offset P u" using sol by (simp add: local_ms_def)
  have found: "local_ms P D = D \<or> local_ms P ?c1 = D \<or> local_ms P ?c2 = D"
  proof (cases "pf_offset P ?c1 = pf_offset P D")
    case False
    with o0 o1 ou have "pf_offset P u = pf_offset P D \<or> pf_offset P u = pf_offset P ?c1" by auto
    with u have "u = ?c1 \<or> u = ?c2" by auto
    with sol show ?thesis by auto
  qed (simp add: local_ms_def)
  show ?thesis
  proof (cases "local_ms P D = D \<or> local_ms P ?c1 = D")
    case True
    with step [of D 3] step [OF c1, of 2] D c1 show ?thesis by (auto simp: numeral_eq_Suc)
  next
    case False
    with found have "local_ms P ?c2 = D" by simp
    with False step [of D 3] step [OF c1, of 2] step [OF c2, of 1] D c2 show ?thesis
      by (auto simp: numeral_eq_Suc)
  qed
qed

lemma businessLocalToInstant_plain:
  assumes "plain_day (day_of w)"
  shows "businessLocalToInstant P (wall_text w) =
    (case local_search P (wall_text w) (floor_minute w) 4 (floor_minute w) of
       Some i \<Rightarrow> Inr i
     | None \<Rightarrow> Inl (sr ''Izabrano lokalno vreme ne postoji ili datum nije validan. Proverite prelazak na letnje ra~cunanje vremena.''))"
proof -
  obtain y m d where c: "civil_from_day (day_of w) = (y, m, d)" by (metis prod_cases3)
  show ?thesis
    by (simp add: businessLocalToInstant_def local_match_wall_text [OF assms c] date_UTC_wall [OF assms c]
        del: local_search.simps)
qed

subsection \<open>Properties\<close>

text \<open>
  Property C5: whatever the zone's offsets are, an instant returned by \<open>businessLocalToInstant\<close> is an
  instant of exactly the wall-clock text that was asked for; a wall-clock time skipped by a change
  to summer time is never silently moved.
\<close>

theorem local_to_instant_sound:
  assumes "businessLocalToInstant P value = Inr instant"
  shows "businessInstantToLocal P instant = Some value"
  using assms local_search_sound
  by (auto simp: businessLocalToInstant_def simp del: local_search.simps split: option.splits)

theorem local_to_instant_sound_witness:
  "businessLocalToInstant belgrade_2026 ''2026-07-01T12:30'' = Inr ''2026-07-01T10:30:00.000Z''
   \<and> businessInstantToLocal belgrade_2026 ''2026-07-01T10:30:00.000Z'' = Some ''2026-07-01T12:30''"
proof -
  have l: "local_ms belgrade_2026 1782909000000 = 1782916200000"
    "local_ms belgrade_2026 1782901800000 = 1782909000000"
    by (simp_all add: local_ms_def belgrade_2026_def)
  have w: "wall_text 1782909000000 = ''2026-07-01T12:30''"
    by (simp add: wall_text_def wall_date_def wall_clock_def era_year_def iso_eval)
  have i: "toISOString 1782901800000 = ''2026-07-01T10:30:00.000Z''"
    by (simp add: iso_eval, simp add: numeral_eq_Suc)
  have d: "day_of 1782916200000 = 20635" "day_of 1782909000000 = 20635" "day_of 1782901800000 = 20635"
    by (simp_all add: day_of_def)
  have r: "represented belgrade_2026 1782909000000 = Some 1782916200000"
    "represented belgrade_2026 1782901800000 = Some 1782909000000"
    using represented_plain [of belgrade_2026 1782909000000] represented_plain [of belgrade_2026 1782901800000]
    by (simp_all add: l d plain_day_def floor_minute_def)
  have "businessInstantToLocal belgrade_2026 ''2026-07-01T10:30:00.000Z'' = Some ''2026-07-01T12:30''"
    using date_parse_toISOString [of 1782901800000 "pf_parse belgrade_2026"]
    by (simp add: businessInstantToLocal_def i l w d four_digit_def)
  then have "local_search belgrade_2026 ''2026-07-01T12:30'' 1782909000000 4 1782909000000 =
      Some ''2026-07-01T10:30:00.000Z''"
    by (simp add: local_search_numeral r i)
  then have "businessLocalToInstant belgrade_2026 ''2026-07-01T12:30'' = Inr ''2026-07-01T10:30:00.000Z''"
    using businessLocalToInstant_plain [of 1782909000000 belgrade_2026]
    by (simp add: w d plain_day_def floor_minute_def)
  with local_to_instant_sound [OF this] show ?thesis by simp
qed

text \<open>
  Property C6: every wall-clock text that some instant shows is converted: where the zone has at
  most two offsets around it (both whole minutes), the four attempts of
  \<open>businessLocalToInstant\<close> reach an instant \<open>v\<close> of the same wall-clock minute, also in the hours
  around a change of the offset.
\<close>

theorem local_to_instant_complete:
  assumes "two_offsets P (floor_minute (local_ms P t)) a b" and "working_day (day_of (local_ms P t))"
    and "\<bar>pf_offset P t\<bar> < msDay" and "pf_offset P (t - t mod 60000) = pf_offset P t"
  shows "\<exists>v. businessLocalToInstant P (wall_text (local_ms P t)) = Inr (toISOString v)
    \<and> local_ms P v = floor_minute (local_ms P t)"
proof -
  let ?w = "local_ms P t"
  let ?D = "floor_minute ?w"
  have dvd: "60000 dvd ?D" by (simp add: floor_minute_def minus_mod_eq_mult_div)
  have "?D = ?w - ?w mod 60000" "0 \<le> ?w mod 60000" "?w mod 60000 < 60000" by (simp_all add: floor_minute_def)
  then have "\<bar>t - ?D\<bar> \<le> 4 * msDay" using assms(3) by (simp add: local_ms_def)
  then have "60000 dvd pf_offset P t" using assms(1) by (auto simp: two_offsets_def)
  then have "local_ms P (t - t mod 60000) = ?D"
    using assms(4) by (auto simp: local_ms_def floor_minute_def elim!: dvdE)
  moreover from this assms(3,4) have "\<bar>(t - t mod 60000) - ?D\<bar> \<le> msDay" by (simp add: local_ms_def)
  moreover have "working_day (day_of ?D)" using assms(2) by (simp add: time_of_minute(1))
  ultimately obtain v where "local_search P (wall_text ?D) ?D 4 ?D = Some (toISOString v)" "local_ms P v = ?D"
    using search_complete [OF assms(1) _ dvd] by blast
  moreover have "plain_day (day_of ?w)" using working_plain [OF assms(2), of "day_of ?w"] by simp
  ultimately show ?thesis by (auto simp: businessLocalToInstant_plain wall_text_floor)
qed


theorem local_to_instant_complete_witness:
  "\<exists>v. businessLocalToInstant belgrade_2026 (wall_text (local_ms belgrade_2026 1792888200000)) = Inr (toISOString v)
    \<and> local_ms belgrade_2026 v = floor_minute (local_ms belgrade_2026 1792888200000)"
proof (rule local_to_instant_complete)
  show "two_offsets belgrade_2026 (floor_minute (local_ms belgrade_2026 1792888200000)) 3600000 7200000"
    by (simp add: two_offsets_def belgrade_2026_def)
qed (simp_all add: belgrade_2026_def local_ms_def working_day_def day_of_def)

end
