(* ===== verification/Http.thy ===== *)
theory Http
  imports Prelude
begin

section \<open>Requests\<close>

text \<open>
  A call of \<open>apiClient.get/post/put/patch/delete\<close> or of \<open>publicClient\<close> is the request it builds.
  A field whose value is \<open>undefined\<close> is not sent, neither as a query parameter nor in a body, so
  \<open>fields\<close> drops it. The \<open>api/*.ts\<close> modules of the components are functions into \<open>http_request\<close>.
\<close>

datatype http_method = GET | POST | PUT | PATCH | DELETE

datatype http_client = ApiClient | PublicClient

record http_request =
  rq_client :: http_client
  rq_method :: http_method
  rq_url :: string
  rq_params :: "(string \<times> json) list"
  rq_body :: "json option"
  rq_headers :: "(string \<times> string) list"

abbreviation jint :: "int \<Rightarrow> json" where
  "jint i \<equiv> JNum (Num (of_int i))"

abbreviation jnat :: "nat \<Rightarrow> json" where
  "jnat n \<equiv> JNum (Num (of_nat n))"

definition fields :: "(string \<times> json option) list \<Rightarrow> (string \<times> json) list" where
  "fields kvs = List.map_filter (\<lambda>(k, v). map_option (Pair k) v) kvs"

definition api_get :: "string \<Rightarrow> (string \<times> json option) list \<Rightarrow> http_request" where
  "api_get url params = \<lparr>rq_client = ApiClient, rq_method = GET, rq_url = url, rq_params = fields params,
     rq_body = None, rq_headers = []\<rparr>"

definition api_send :: "http_method \<Rightarrow> string \<Rightarrow> json option \<Rightarrow> http_request" where
  "api_send method url body = \<lparr>rq_client = ApiClient, rq_method = method, rq_url = url, rq_params = [],
     rq_body = body, rq_headers = []\<rparr>"

definition public_send :: "http_method \<Rightarrow> string \<Rightarrow> json option \<Rightarrow> http_request" where
  "public_send method url body = \<lparr>rq_client = PublicClient, rq_method = method, rq_url = url,
     rq_params = [], rq_body = body, rq_headers = []\<rparr>"

definition with_key :: "string \<Rightarrow> http_request \<Rightarrow> http_request" where
  "with_key key r = r\<lparr>rq_headers := rq_headers r @ [(''Idempotency-Key'', key)]\<rparr>"

definition body :: "(string \<times> json option) list \<Rightarrow> json option" where
  "body kvs = Some (JObj (fields kvs))"

definition sent_key :: "http_request \<Rightarrow> string option" where
  "sent_key r = map_of (rq_headers r) ''Idempotency-Key''"

lemma fields_simps [simp]:
  "fields [] = []" "fields ((k, None) # kvs) = fields kvs"
  "fields ((k, Some v) # kvs) = (k, v) # fields kvs"
  by (simp_all add: fields_def List.map_filter_simps)

lemma map_of_fields:
  "distinct (map fst kvs) \<Longrightarrow> map_of (fields kvs) k = (case map_of kvs k of Some v \<Rightarrow> v | None \<Rightarrow> None)"
proof (induction kvs)
  case (Cons kv kvs)
  obtain k' v where kv: "kv = (k', v)" by (cases kv)
  from Cons.prems kv have "map_of kvs k' = None" by (simp add: map_of_eq_None_iff)
  with Cons kv show ?case by (cases v) auto
qed simp

lemma fields_cong:
  assumes "map fst kvs = map fst kvs'" and "distinct (map fst kvs)" and "fields kvs = fields kvs'"
  shows "kvs = kvs'"
proof -
  have len: "length kvs = length kvs'" using assms(1) by (metis length_map)
  have "snd (kvs ! i) = snd (kvs' ! i)" if i: "i < length kvs" for i
  proof -
    have d: "distinct (map fst kvs')" using assms(1,2) by simp
    have f: "fst (kvs ! i) = fst (kvs' ! i)" using assms(1) i len by (metis nth_map)
    have a: "map_of kvs (fst (kvs ! i)) = Some (snd (kvs ! i))"
      using i assms(2) by (intro map_of_is_SomeI) auto
    have b: "map_of kvs' (fst (kvs' ! i)) = Some (snd (kvs' ! i))"
      using i len d by (intro map_of_is_SomeI) auto
    from map_of_fields [OF assms(2)] map_of_fields [OF d] assms(3) a b f show ?thesis
      by (metis option.case(2))
  qed
  moreover have "fst (kvs ! i) = fst (kvs' ! i)" if "i < length kvs" for i
    using assms(1) that len by (metis nth_map)
  ultimately show ?thesis using len by (intro nth_equalityI) (auto simp: prod_eq_iff)
qed

lemma sent_key_with_key [simp]: "rq_headers r = [] \<Longrightarrow> sent_key (with_key k r) = Some k"
  by (simp add: sent_key_def with_key_def)

lemma send_headers [simp]:
  "rq_headers (api_get u ps) = []" "rq_headers (api_send m u b) = []" "rq_headers (public_send m u b) = []"
  by (simp_all add: api_get_def api_send_def public_send_def)

end
