(* ===== verification/Reservations.thy ===== *)
theory Reservations
  imports Http
begin

section \<open>Reservations\<close>

text \<open>
  The data of \<open>types/reservation.types.ts\<close> and \<open>types/availability.types.ts\<close>, the requests of
  \<open>api/reservationApi.ts\<close> and the labels of \<open>components/ui/statusPresentation.ts\<close>. Statuses carry
  the prefix \<open>R_\<close> because the order statuses share their names.
\<close>

subsection \<open>Types\<close>

datatype reservation_status = R_PENDING | R_CONFIRMED | R_REJECTED | R_CANCELLED | R_COMPLETED

datatype reservation_detail_action = Status_action reservation_status | EDIT | ASSIGN_RESOURCE

record my_reservation_summary =
  mrs_upcomingReservations :: nat
  mrs_todayReservations :: nat
  mrs_completedReservations :: nat
  mrs_today :: string
  mrs_timezone :: string
  mrs_serverTime :: string
  mrs_nextSevenDaysReservations :: nat

record reservation_summary =
  rs_todayReservations :: nat
  rs_upcomingReservations :: nat
  rs_uniqueCustomers :: nat
  rs_cancelledTodayAppointments :: nat
  rs_today :: string
  rs_upcomingThrough :: string
  rs_customersFrom :: string
  rs_customersTo :: string
  rs_timezone :: string

record reservation =
  r_id :: string
  r_serviceName :: "string option"
  r_customerName :: "string option"
  r_employeeName :: "string option"
  r_allowedActions :: "reservation_status list option"
  r_customerId :: "string option"
  r_employeeId :: string
  r_serviceId :: string
  r_locationId :: "string option"
  r_resourceId :: "string option"
  r_recurrenceSeriesId :: "string option"
  r_resourceCode :: "string option"
  r_resourceName :: "string option"
  r_locationName :: "string option"
  r_resourceRequired :: "bool option"
  r_canManage :: "bool option"
  r_readOnly :: "bool option"
  r_canEdit :: "bool option"
  r_startTime :: string
  r_endTime :: string
  r_status :: reservation_status
  r_note :: "string option"
  r_createdAt :: string
  r_updatedAt :: string
  r_version :: int

record reservation_history_item =
  rh_fromStatus :: reservation_status
  rh_toStatus :: reservation_status
  rh_reason :: "string option"
  rh_occurredAt :: string

record reservation_detail =
  rd_id :: string
  rd_customerName :: string
  rd_customerContact :: "string option"
  rd_employeeName :: string
  rd_serviceName :: string
  rd_durationMinutes :: "int option"
  rd_startTime :: string
  rd_endTime :: string
  rd_status :: reservation_status
  rd_note :: "string option"
  rd_createdAt :: string
  rd_updatedAt :: string
  rd_version :: int
  rd_allowedActions :: "reservation_status list"
  rd_history :: "reservation_history_item list"
  rd_serviceId :: "string option"
  rd_locationId :: "string option"
  rd_locationName :: "string option"
  rd_resourceId :: "string option"
  rd_resourceCode :: "string option"
  rd_resourceName :: "string option"
  rd_resourceRequired :: "bool option"
  rd_canManage :: "bool option"
  rd_readOnly :: "bool option"
  rd_canEdit :: "bool option"
  rd_canAssignResource :: "bool option"

datatype reservation_scope = ALL_SCOPE | MANAGEABLE

record update_reservation_input =
  ur_version :: int
  ur_startTime :: "string option"
  ur_resourceId :: "string option"
  ur_note :: "string option"
  ur_durationMinutes :: "int option"

record create_reservation_input =
  cr_areaId :: "string option"
  cr_durationMinutes :: "int option"
  cr_customerId :: "string option"
  cr_employeeId :: "string option"
  cr_serviceId :: string
  cr_resourceId :: "string option"
  cr_locationId :: "string option"
  cr_startTime :: string
  cr_note :: "string option"

datatype plan_interval_status = I_AVAILABLE | I_OCCUPIED | I_CLOSED | I_UNAVAILABLE

record plan_interval =
  pi_startTime :: string
  pi_endTime :: string
  pi_status :: plan_interval_status

record plan_alternative =
  pa_startTime :: string
  pa_endTime :: string
  pa_resourceId :: "string option"
  pa_employeeId :: string

record reservation_booking_plan =
  bp_timezone :: string
  bp_serverTime :: string
  bp_date :: string
  bp_startTime :: "string option"
  bp_endTime :: "string option"
  bp_available :: bool
  bp_reason :: "string option"
  bp_resourceId :: "string option"
  bp_employeeId :: "string option"
  bp_intervals :: "plan_interval list"
  bp_alternatives :: "plan_alternative list"

datatype recurrence_frequency = WEEKLY | MONTHLY

datatype recurrence_conflict_policy = ALL_OR_NOTHING | SKIP_CONFLICTS

record recurrence_input = create_reservation_input +
  ri_frequency :: recurrence_frequency
  ri_interval :: int
  ri_occurrences :: int
  ri_conflictPolicy :: recurrence_conflict_policy

datatype reservation_creation_request = SINGLE create_reservation_input | RECURRING recurrence_input

record recurrence_occurrence =
  ro_startTime :: string
  ro_endTime :: string
  ro_available :: bool
  ro_reason :: "string option"
  ro_resourceId :: "string option"
  ro_resourceCode :: "string option"
  ro_resourceName :: "string option"
  ro_locationId :: "string option"
  ro_locationName :: "string option"

record recurrence_preview =
  rp_timezone :: string
  rp_occurrences :: "recurrence_occurrence list"
  rp_availableCount :: "nat option"
  rp_conflictCount :: "nat option"
  rp_reservationsToCreate :: "nat option"

record calendar_reservation =
  cal_id :: string
  cal_employeeId :: string
  cal_employeeName :: string
  cal_customerName :: string
  cal_serviceName :: string
  cal_startTime :: string
  cal_endTime :: string
  cal_status :: reservation_status
  cal_version :: int
  cal_allowedActions :: "reservation_status list"
  cal_resourceId :: "string option"
  cal_resourceName :: "string option"
  cal_resourceCode :: "string option"
  cal_locationName :: "string option"
  cal_canManage :: "bool option"
  cal_readOnly :: "bool option"

datatype booking_slot_status =
    S_AVAILABLE | OCCUPIED_RESERVATION | OCCUPIED_RESOURCE | OCCUPIED_SESSION | S_UNAVAILABLE

record availability_slot =
  sl_status :: "booking_slot_status option"
  sl_reason :: "string option"
  sl_employeeId :: "string option"
  sl_employeeName :: "string option"
  sl_startTime :: string
  sl_endTime :: string
  sl_resourceId :: "string option"
  sl_resourceCode :: "string option"
  sl_resourceName :: "string option"
  sl_locationId :: "string option"
  sl_locationName :: "string option"

record employee_availability =
  ea_employeeId :: string
  ea_employeeName :: string
  ea_slots :: "availability_slot list"

record availability_response =
  ar_serverTime :: "string option"
  ar_timezone :: string
  ar_serviceId :: string
  ar_serviceName :: string
  ar_durationMinutes :: int
  ar_slotIncrementMinutes :: int
  ar_from :: string
  ar_to :: string
  ar_employees :: "employee_availability list"
  ar_resourceId :: "string option"
  ar_resourceName :: "string option"
  ar_resourceRequired :: "bool option"

subsection \<open>Wire names\<close>

fun reservation_status_text :: "reservation_status \<Rightarrow> string" where
  "reservation_status_text R_PENDING = ''PENDING''"
| "reservation_status_text R_CONFIRMED = ''CONFIRMED''"
| "reservation_status_text R_REJECTED = ''REJECTED''"
| "reservation_status_text R_CANCELLED = ''CANCELLED''"
| "reservation_status_text R_COMPLETED = ''COMPLETED''"

fun scope_text :: "reservation_scope \<Rightarrow> string" where
  "scope_text ALL_SCOPE = ''ALL''"
| "scope_text MANAGEABLE = ''MANAGEABLE''"

fun frequency_text :: "recurrence_frequency \<Rightarrow> string" where
  "frequency_text WEEKLY = ''WEEKLY''"
| "frequency_text MONTHLY = ''MONTHLY''"

fun policy_text :: "recurrence_conflict_policy \<Rightarrow> string" where
  "policy_text ALL_OR_NOTHING = ''ALL_OR_NOTHING''"
| "policy_text SKIP_CONFLICTS = ''SKIP_CONFLICTS''"

fun reservationLabels :: "reservation_status \<Rightarrow> string" where
  "reservationLabels R_PENDING = sr ''Na ~cekanju''"
| "reservationLabels R_CONFIRMED = sr ''Potvr~dena''"
| "reservationLabels R_REJECTED = ''Odbijena''"
| "reservationLabels R_CANCELLED = ''Otkazana''"
| "reservationLabels R_COMPLETED = sr ''Zavr~sena''"

datatype status_tone = T_neutral | T_info | T_success | T_warning | T_danger | T_accent

fun reservationTones :: "reservation_status \<Rightarrow> status_tone" where
  "reservationTones R_PENDING = T_warning"
| "reservationTones R_CONFIRMED = T_info"
| "reservationTones R_REJECTED = T_danger"
| "reservationTones R_CANCELLED = T_neutral"
| "reservationTones R_COMPLETED = T_success"

subsection \<open>Requests\<close>

record reservation_filters =
  rf_page :: nat
  rf_size :: nat
  rf_status :: "reservation_status option"
  rf_employeeId :: "string option"
  rf_customerId :: "string option"
  rf_resourceId :: "string option"
  rf_locationId :: "string option"
  rf_areaId :: "string option"
  rf_scope :: "reservation_scope option"
  rf_from :: "string option"
  rf_to :: "string option"
  rf_sort :: "string option"
  rf_direction :: "string option"
  rf_search :: "string option"
  rf_upcoming :: "bool option"

record bulk_item =
  bi_id :: string
  bi_version :: int

abbreviation jstr_opt :: "string option \<Rightarrow> json option" where
  "jstr_opt \<equiv> map_option JStr"

abbreviation jint_opt :: "int option \<Rightarrow> json option" where
  "jint_opt \<equiv> map_option (\<lambda>i. JNum (Num (of_int i)))"

definition filter_params :: "reservation_filters \<Rightarrow> (string \<times> json option) list" where
  "filter_params f = [(''page'', Some (jnat (rf_page f))), (''size'', Some (jnat (rf_size f))),
     (''status'', map_option (JStr \<circ> reservation_status_text) (rf_status f)),
     (''employeeId'', jstr_opt (rf_employeeId f)), (''customerId'', jstr_opt (rf_customerId f)),
     (''resourceId'', jstr_opt (rf_resourceId f)), (''locationId'', jstr_opt (rf_locationId f)),
     (''areaId'', jstr_opt (rf_areaId f)), (''scope'', map_option (JStr \<circ> scope_text) (rf_scope f)),
     (''from'', jstr_opt (rf_from f)), (''to'', jstr_opt (rf_to f)), (''sort'', jstr_opt (rf_sort f)),
     (''direction'', jstr_opt (rf_direction f)), (''search'', jstr_opt (rf_search f)),
     (''upcoming'', map_option JBool (rf_upcoming f))]"

definition create_fields :: "'a create_reservation_input_scheme \<Rightarrow> (string \<times> json option) list" where
  "create_fields c = [(''areaId'', jstr_opt (cr_areaId c)), (''durationMinutes'', jint_opt (cr_durationMinutes c)),
     (''customerId'', jstr_opt (cr_customerId c)), (''employeeId'', jstr_opt (cr_employeeId c)),
     (''serviceId'', Some (JStr (cr_serviceId c))), (''resourceId'', jstr_opt (cr_resourceId c)),
     (''locationId'', jstr_opt (cr_locationId c)), (''startTime'', Some (JStr (cr_startTime c))),
     (''note'', jstr_opt (cr_note c))]"

definition recurrence_fields :: "recurrence_input \<Rightarrow> (string \<times> json option) list" where
  "recurrence_fields c = create_fields c @ [(''frequency'', Some (JStr (frequency_text (ri_frequency c)))),
     (''interval'', Some (jint (ri_interval c))), (''occurrences'', Some (jint (ri_occurrences c))),
     (''conflictPolicy'', Some (JStr (policy_text (ri_conflictPolicy c))))]"

definition bulk_json :: "bulk_item list \<Rightarrow> json" where
  "bulk_json items = JArr (map (\<lambda>i. JObj [(''id'', JStr (bi_id i)), (''version'', jint (bi_version i))]) items)"

definition reservationApi_calendarContext ::
  "string \<Rightarrow> reservation_scope option \<Rightarrow> string option \<Rightarrow> string option \<Rightarrow> string option \<Rightarrow> string option
   \<Rightarrow> http_request" where
  "reservationApi_calendarContext date scope locationId areaId resourceId employeeId =
     api_get ''/reservations/calendar-context'' [(''date'', Some (JStr date)),
       (''scope'', map_option (JStr \<circ> scope_text) scope), (''locationId'', jstr_opt locationId),
       (''areaId'', jstr_opt areaId), (''resourceId'', jstr_opt resourceId),
       (''employeeId'', jstr_opt employeeId)]"

definition reservationApi_bookingPlan ::
  "string \<Rightarrow> string option \<Rightarrow> string option \<Rightarrow> string option \<Rightarrow> string option \<Rightarrow> string \<Rightarrow> string option
   \<Rightarrow> int option \<Rightarrow> http_request" where
  "reservationApi_bookingPlan serviceId employeeId resourceId locationId areaId date start durationMinutes =
     api_get ''/reservations/booking-plan'' [(''serviceId'', Some (JStr serviceId)),
       (''employeeId'', jstr_opt employeeId), (''resourceId'', jstr_opt resourceId),
       (''locationId'', jstr_opt locationId), (''areaId'', jstr_opt areaId), (''date'', Some (JStr date)),
       (''start'', jstr_opt start), (''durationMinutes'', jint_opt durationMinutes)]"

definition reservationApi_calendar ::
  "string option \<Rightarrow> string \<Rightarrow> string \<Rightarrow> reservation_scope option \<Rightarrow> string option \<Rightarrow> string option
   \<Rightarrow> string option \<Rightarrow> string option \<Rightarrow> reservation_status option \<Rightarrow> http_request" where
  "reservationApi_calendar employeeId from to scope resourceId locationId areaId customerId status =
     api_get ''/reservations/calendar'' [(''employeeId'', jstr_opt employeeId), (''from'', Some (JStr from)),
       (''to'', Some (JStr to)), (''scope'', map_option (JStr \<circ> scope_text) scope),
       (''resourceId'', jstr_opt resourceId), (''locationId'', jstr_opt locationId),
       (''areaId'', jstr_opt areaId), (''customerId'', jstr_opt customerId),
       (''status'', map_option (JStr \<circ> reservation_status_text) status)]"

definition reservationApi_create :: "create_reservation_input \<Rightarrow> string \<Rightarrow> http_request" where
  "reservationApi_create input idempotencyKey =
     with_key idempotencyKey (api_send POST ''/reservations'' (body (create_fields input)))"

definition reservationApi_previewRecurrence :: "recurrence_input \<Rightarrow> http_request" where
  "reservationApi_previewRecurrence input =
     api_send POST ''/reservations/recurrence/preview'' (body (recurrence_fields input))"

definition reservationApi_createRecurrence :: "recurrence_input \<Rightarrow> string \<Rightarrow> http_request" where
  "reservationApi_createRecurrence input idempotencyKey =
     with_key idempotencyKey (api_send POST ''/reservations/recurrence'' (body (recurrence_fields input)))"

definition reservationApi_mine :: "reservation_filters \<Rightarrow> http_request" where
  "reservationApi_mine params = api_get ''/reservations/me'' (filter_params params)"

definition reservationApi_mineSummary :: http_request where
  "reservationApi_mineSummary = api_get ''/reservations/me/summary'' []"

definition reservationApi_list :: "reservation_filters \<Rightarrow> http_request" where
  "reservationApi_list params = api_get ''/reservations'' (filter_params params)"

definition reservationApi_summary :: "reservation_filters \<Rightarrow> http_request" where
  \<comment> \<open>the filters without page, size, sort, direction and status\<close>
  "reservationApi_summary params = api_get ''/reservations/summary''
     (filter (\<lambda>(k, v). k \<notin> {''page'', ''size'', ''sort'', ''direction'', ''status''}) (filter_params params))"

definition reservationApi_detail :: "string \<Rightarrow> http_request" where
  "reservationApi_detail rid = api_get (''/reservations/'' @ rid) []"

definition reservationApi_update :: "string \<Rightarrow> update_reservation_input \<Rightarrow> http_request" where
  "reservationApi_update rid input = api_send PATCH (''/reservations/'' @ rid)
     (body [(''version'', Some (jint (ur_version input))), (''startTime'', jstr_opt (ur_startTime input)),
       (''resourceId'', jstr_opt (ur_resourceId input)), (''note'', jstr_opt (ur_note input)),
       (''durationMinutes'', jint_opt (ur_durationMinutes input))])"

definition reservationApi_resourceOptions :: "string \<Rightarrow> string option \<Rightarrow> http_request" where
  "reservationApi_resourceOptions rid startTime =
     api_get (''/reservations/'' @ rid @ ''/resources'') [(''startTime'', jstr_opt startTime)]"

definition reservationApi_assignResource :: "string \<Rightarrow> int \<Rightarrow> string \<Rightarrow> http_request" where
  "reservationApi_assignResource rid version resourceId =
     api_send PATCH (''/reservations/'' @ rid @ ''/resource'')
       (body [(''resourceId'', Some (JStr resourceId)), (''version'', Some (jint version))])"

definition reservationApi_changeStatus ::
  "string \<Rightarrow> int \<Rightarrow> reservation_status \<Rightarrow> string option \<Rightarrow> http_request" where
  "reservationApi_changeStatus rid version status reason =
     api_send PATCH (''/reservations/'' @ rid @ ''/status'')
       (body [(''status'', Some (JStr (reservation_status_text status))), (''reason'', jstr_opt reason),
         (''version'', Some (jint version))])"

definition reservationApi_bulkStatus ::
  "reservation_status \<Rightarrow> bulk_item list \<Rightarrow> string option \<Rightarrow> http_request" where
  "reservationApi_bulkStatus status items reason = api_send PATCH ''/reservations/bulk/status''
     (body [(''status'', Some (JStr (reservation_status_text status))), (''reason'', jstr_opt reason),
       (''items'', Some (bulk_json items))])"

definition creation_request :: "reservation_creation_request \<Rightarrow> string \<Rightarrow> http_request" where
  \<comment> \<open>how the callers send either kind of creation\<close>
  "creation_request r key = (case r of
     SINGLE input \<Rightarrow> reservationApi_create input key
   | RECURRING input \<Rightarrow> reservationApi_createRecurrence input key)"

subsection \<open>The body determines the input\<close>

lemma status_text_inj [simp]: "reservation_status_text a = reservation_status_text b \<longleftrightarrow> a = b"
  by (cases a; cases b; simp)

lemma frequency_text_inj [simp]: "frequency_text a = frequency_text b \<longleftrightarrow> a = b"
  by (cases a; cases b; simp)

lemma policy_text_inj [simp]: "policy_text a = policy_text b \<longleftrightarrow> a = b"
  by (cases a; cases b; simp)

lemma jopt_inj [simp]:
  "jstr_opt a = jstr_opt b \<longleftrightarrow> a = b" "jint_opt c = jint_opt d \<longleftrightarrow> c = d"
  by (cases a; cases b; simp) (cases c; cases d; simp)

lemma create_fields_keys:
  "map fst (create_fields c) = [''areaId'', ''durationMinutes'', ''customerId'', ''employeeId'',
     ''serviceId'', ''resourceId'', ''locationId'', ''startTime'', ''note'']"
  by (simp add: create_fields_def)

lemma create_body_inj:
  assumes "body (create_fields (a :: create_reservation_input)) = body (create_fields b)"
  shows "a = b"
proof -
  have "create_fields a = create_fields b"
    using assms by (intro fields_cong) (simp_all add: create_fields_keys body_def)
  then show ?thesis by (simp add: create_fields_def)
qed

lemma recurrence_body_inj:
  assumes "body (recurrence_fields a) = body (recurrence_fields b)"
  shows "a = b"
proof -
  have "recurrence_fields a = recurrence_fields b"
    using assms by (intro fields_cong) (simp_all add: recurrence_fields_def create_fields_keys body_def)
  then show ?thesis by (simp add: recurrence_fields_def create_fields_def)
qed

lemma creation_request_inj:
  assumes "creation_request a k = creation_request b k'"
  shows "a = b \<and> k = k'"
proof -
  have u: "''/reservations'' \<noteq> ''/reservations/recurrence''" by simp
  from assms u show ?thesis
    by (cases a; cases b)
      (auto simp: creation_request_def reservationApi_create_def reservationApi_createRecurrence_def
        with_key_def api_send_def dest: create_body_inj recurrence_body_inj)
qed

end
