(* ===== verification/Calendar.thy ===== *)
theory Calendar
  imports DateTime Reservations
begin

section \<open>The calendar's date arithmetic\<close>

text \<open>
  Models \<open>calendar/calendarModel.ts\<close>. Dates are ISO strings; every function goes through a
  \<open>Date\<close> at noon UTC. None is a thrown \<open>RangeError\<close> (an invalid \<open>Date\<close>).
\<close>

datatype calendar_view = V_day | V_week | V_month | V_list

fun calendarViews :: "calendar_view \<Rightarrow> string" where
  "calendarViews V_day = ''Dan''"
| "calendarViews V_week = ''Nedelja''"
| "calendarViews V_month = ''Mesec''"
| "calendarViews V_list = ''Lista''"

definition weekdays :: "string list" where
  "weekdays = [''Pon'', ''Uto'', ''Sre'', sr ''~Cet'', ''Pet'', ''Sub'', ''Ned'']"

definition parseDate :: "platform \<Rightarrow> string \<Rightarrow> ms option" where
  "parseDate P value = parse P (value @ ''T12:00:00Z'')"

definition isoDate :: "ms \<Rightarrow> string" where
  "isoDate t = iso_slice t"

definition date_shape :: "string \<Rightarrow> bool" where
  \<comment> \<open>\<open>/^\d{4}-\d{2}-\d{2}$/\<close>\<close>
  "date_shape s \<longleftrightarrow> (do {
     (y, r) \<leftarrow> take_digits 4 s; r \<leftarrow> lit CHR ''-'' r;
     (m, r) \<leftarrow> take_digits 2 r; r \<leftarrow> lit CHR ''-'' r;
     (d, r) \<leftarrow> take_digits 2 r; Some r }) = Some []"

definition validDate :: "platform \<Rightarrow> string \<Rightarrow> bool" where
  "validDate P value \<longleftrightarrow> date_shape value
     \<and> (case parseDate P value of None \<Rightarrow> False | Some t \<Rightarrow> isoDate t = value)"

definition addDays :: "platform \<Rightarrow> string \<Rightarrow> int \<Rightarrow> string option" where
  "addDays P value count = do {
     date \<leftarrow> parseDate P value;
     date \<leftarrow> setUTCDate (getUTCDate date + count) date;
     Some (isoDate date) }"

definition addMonths :: "platform \<Rightarrow> string \<Rightarrow> int \<Rightarrow> string option" where
  "addMonths P value count = do {
     date \<leftarrow> parseDate P value;
     let day = getUTCDate date;
     date \<leftarrow> setUTCDate 1 date;
     date \<leftarrow> setUTCMonth (getUTCMonth date + count) (getUTCDate date) date;
     last \<leftarrow> date_UTC (getUTCFullYear date) (getUTCMonth date + 1) 0 0 0;
     date \<leftarrow> setUTCDate (min day (getUTCDate last)) date;
     Some (isoDate date) }"

definition startOfWeek :: "platform \<Rightarrow> string \<Rightarrow> string option" where
  "startOfWeek P value = do {
     date \<leftarrow> parseDate P value;
     addDays P value (- ((getUTCDay date + 6) mod 7)) }"

definition days_from :: "platform \<Rightarrow> string \<Rightarrow> nat \<Rightarrow> string list option" where
  \<comment> \<open>\<open>Array.from({length: n}, (_, index) => addDays(from, index))\<close>\<close>
  "days_from P from n = those (map (\<lambda>i. addDays P from (int i)) [0..<n])"

definition monthDays :: "platform \<Rightarrow> string \<Rightarrow> string list option" where
  "monthDays P value = do { from \<leftarrow> startOfWeek P (slice 0 7 value @ ''-01''); days_from P from 42 }"

record date_range =
  dr_from :: string
  dr_to :: string
  dr_days :: "string list"

definition rangeFor :: "platform \<Rightarrow> calendar_view \<Rightarrow> string \<Rightarrow> date_range option" where
  "rangeFor P view anchor = do {
     days \<leftarrow> (if view = V_day then Some [anchor]
       else if view = V_month then monthDays P anchor
       else do { from \<leftarrow> startOfWeek P anchor; days_from P from 7 });
     Some \<lparr>dr_from = hd days, dr_to = last days, dr_days = days\<rparr> }"

definition eventTime :: "platform \<Rightarrow> string \<Rightarrow> string \<Rightarrow> bool \<Rightarrow> string option" where
  "eventTime P startTime endTime short = do {
     start \<leftarrow> formatBusinessDateTime P startTime False ''sr-Latn-RS'';
     end_text \<leftarrow> formatBusinessDateTime P endTime False ''sr-Latn-RS'';
     a \<leftarrow> businessInstantToLocal P startTime;
     b \<leftarrow> businessInstantToLocal P endTime;
     let sameDate = (slice 0 10 a = slice 0 10 b);
     left \<leftarrow> (if short \<and> sameDate then formatBusinessTime P startTime else Some start);
     right \<leftarrow> (if sameDate then formatBusinessTime P endTime else Some end_text);
     Some (left @ ''-'' @ right) }"

record day_boundary =
  db_day :: string
  db_from :: ms
  db_to :: ms

definition from_sum :: "'e + 'a \<Rightarrow> 'a option" where
  "from_sum s = (case s of Inl _ \<Rightarrow> None | Inr x \<Rightarrow> Some x)"

definition day_start :: "platform \<Rightarrow> string \<Rightarrow> ms option" where
  \<comment> \<open>\<open>Date.parse(businessLocalToInstant(`${day}T00:00`))\<close>\<close>
  "day_start P day = do { i \<leftarrow> from_sum (businessLocalToInstant P (day @ ''T00:00'')); parse P i }"

definition boundary :: "platform \<Rightarrow> string \<Rightarrow> day_boundary option" where
  "boundary P day = do {
     from \<leftarrow> day_start P day;
     next_day \<leftarrow> addDays P day 1;
     to \<leftarrow> day_start P next_day;
     Some \<lparr>db_day = day, db_from = from, db_to = to\<rparr> }"

definition lt_ms :: "ms option \<Rightarrow> ms option \<Rightarrow> bool" where
  \<comment> \<open>comparisons with NaN are false\<close>
  "lt_ms a b = (case (a, b) of (Some x, Some y) \<Rightarrow> x < y | _ \<Rightarrow> False)"

definition overlaps_day :: "platform \<Rightarrow> calendar_reservation \<Rightarrow> day_boundary \<Rightarrow> bool" where
  "overlaps_day P item b \<longleftrightarrow> lt_ms (parse P (cal_startTime item)) (Some (db_to b))
     \<and> lt_ms (Some (db_from b)) (parse P (cal_endTime item))"

definition push_event ::
  "string \<Rightarrow> 'e \<Rightarrow> (string, 'e list) dict \<Rightarrow> (string, 'e list) dict" where
  "push_event day item result = AList.update day
     ((case map_of result day of Some xs \<Rightarrow> xs | None \<Rightarrow> []) @ [item]) result"

definition eventsByDay ::
  "platform \<Rightarrow> calendar_reservation list \<Rightarrow> string list \<Rightarrow> (string, calendar_reservation list) dict option" where
  "eventsByDay P events days = do {
     boundaries \<leftarrow> those (map (boundary P) days);
     Some (fold (\<lambda>item result. fold (\<lambda>b result.
         if overlaps_day P item b then push_event (db_day b) item result else result) boundaries result)
       events []) }"

text \<open>An event for the witnesses.\<close>

definition sample_event :: "ms \<Rightarrow> ms \<Rightarrow> calendar_reservation" where
  "sample_event a b = \<lparr>cal_id = ''a'', cal_employeeId = ''e'', cal_employeeName = ''E'',
     cal_customerName = ''K'', cal_serviceName = ''S'', cal_startTime = toISOString a,
     cal_endTime = toISOString b, cal_status = R_PENDING, cal_version = 0, cal_allowedActions = [],
     cal_resourceId = None, cal_resourceName = None, cal_resourceCode = None, cal_locationName = None,
     cal_canManage = None, cal_readOnly = None\<rparr>"

subsection \<open>Dates at noon\<close>

definition noon :: "int \<Rightarrow> ms" where
  "noon n = n * msDay + 43200000"

lemma noon_simps [simp]:
  "day_of (noon n) = n" "time_in_day (noon n) = 43200000" "noon n + k * msDay = noon (n + k)"
  by (simp_all add: noon_def)

lemma noon_of: "n * msDay + 43200000 = noon n"
  by (simp add: noon_def)

lemma parseDate_iso: "four_digit n \<Longrightarrow> parseDate P (iso_day n) = Some (noon n)"
  by (simp add: parseDate_def date_parse_noon noon_def)

lemma time_clip_noon: "four_digit n \<Longrightarrow> time_clip (noon n) = Some (noon n)"
  by (rule time_clip_four_digit) simp

lemma addDays_iso:
  assumes "four_digit n" and "four_digit (n + k)"
  shows "addDays P (iso_day n) k = Some (iso_day (n + k))"
  using assms by (simp add: addDays_def parseDate_iso setUTCDate_add time_clip_noon isoDate_def)

lemma days_from_iso:
  assumes "four_digit n" and "four_digit (n + int k)"
  shows "days_from P (iso_day n) k = Some (map (\<lambda>i. iso_day (n + int i)) [0..<k])"
proof -
  have "four_digit (n + int i)" if "i < k" for i
    using assms that by (simp add: four_digit_def)
  then have "map (\<lambda>i. addDays P (iso_day n) (int i)) [0..<k] = map (\<lambda>i. Some (iso_day (n + int i))) [0..<k]"
    using assms by (intro map_cong) (auto simp: addDays_iso)
  moreover have "those (map (\<lambda>i. Some (f i)) xs) = Some (map f xs)" for f :: "nat \<Rightarrow> string" and xs
    by (induction xs) auto
  ultimately show ?thesis by (simp only: days_from_def)
qed

definition monday :: "int \<Rightarrow> int" where
  \<comment> \<open>the Monday on or before day \<open>n\<close>\<close>
  "monday n = n - (n + 3) mod 7"

lemma monday_props: "weekday (monday n) = 1" "monday n \<le> n" "n < monday n + 7"
proof -
  have "n + 3 - (n + 3) mod 7 = 7 * ((n + 3) div 7)" by (simp add: minus_mod_eq_mult_div)
  then have "monday n + 4 = 1 + 7 * ((n + 3) div 7)" by (simp add: monday_def)
  then show "weekday (monday n) = 1" by (simp only: weekday_def mod_mult_self2) simp
  show "monday n \<le> n" by (simp add: monday_def)
  have "(n + 3) mod 7 < 7" by simp
  then show "n < monday n + 7" unfolding monday_def by linarith
qed

lemma startOfWeek_iso:
  assumes "four_digit n" and "four_digit (monday n)"
  shows "startOfWeek P (iso_day n) = Some (iso_day (monday n))"
proof -
  have "(getUTCDay (noon n) + 6) mod 7 = (n + 3 + 7 * 1) mod 7"
    by (simp add: getUTCDay_def weekday_def mod_simps add.assoc)
  then have "(getUTCDay (noon n) + 6) mod 7 = (n + 3) mod 7" unfolding mod_mult_self2 .
  moreover have "addDays P (iso_day n) (- ((n + 3) mod 7)) = Some (iso_day (monday n))"
    using addDays_iso [of n "- ((n + 3) mod 7)" P] assms by (simp add: monday_def)
  ultimately show ?thesis using assms by (simp add: startOfWeek_def parseDate_iso)
qed

lemma iso_prefix:
  assumes "four_digit n" and "civil_from_day n = (y, m, d)"
  shows "slice 0 7 (iso_day n) @ ''-01'' = iso_day (day_from_civil y m 1)"
proof -
  note v = civil_from_day_valid [OF assms(2)]
  from four_digit_year [OF assms(2)] assms(1) have y: "0 \<le> y" "y \<le> 9999" by simp_all
  from v have "valid_civil y m 1" by (simp add: valid_civil_def month_days_def)
  then have c: "civil_from_day (day_from_civil y m 1) = (y, m, 1)" by (rule civil_day_civil)
  have "length (pad_num 4 y) = 4" using y by (simp add: pad_num_props)
  moreover have "length (pad_num 2 m) = 2" using v by (intro pad_num_props) (auto simp: valid_civil_def)
  moreover have "pad_num 2 1 = ''01''" by (simp add: pad_num_def pad_start_def show_nat.simps digit_chars)
  ultimately show ?thesis using y by (simp add: iso_day_def assms(2) c iso_year_def slice_def)
qed

subsection \<open>Months\<close>

lemma four_digit_month:
  assumes "plain_day n" and "civil_from_day n = (y, m, d)"
  shows "four_digit (day_from_civil y m 1)" "day_from_civil y m 1 = n - d + 1"
proof -
  show e: "day_from_civil y m 1 = n - d + 1"
    using civil_from_day_valid(2) [OF assms(2)] by (simp add: day_from_civil_def)
  from valid_civil_range [OF civil_from_day_valid(1) [OF assms(2)]] assms(1)
  show "four_digit (day_from_civil y m 1)" unfolding e four_digit_def plain_day_def by linarith
qed

lemma monthDays_iso:
  assumes "plain_day n" and "n \<le> 2932800" and "civil_from_day n = (y, m, d)"
  shows "monthDays P (iso_day n) =
    Some (map (\<lambda>i. iso_day (monday (day_from_civil y m 1) + int i)) [0..<42])"
proof -
  let ?f = "day_from_civil y m 1"
  have f: "?f = n - d + 1" "four_digit ?f" using four_digit_month [OF assms(1,3)] by auto
  have d: "0 < d" "d < 100" using valid_civil_range [OF civil_from_day_valid(1) [OF assms(3)]] by auto
  have m: "monday ?f \<le> ?f" "?f < monday ?f + 7" by (rule monday_props)+
  with f(1) d assms(1,2) have "four_digit (monday ?f)" "four_digit (monday ?f + int 42)"
    by (simp_all add: four_digit_def plain_day_def)
  then show ?thesis
    using iso_prefix [OF plain_four_digit [OF assms(1)] assms(3)] startOfWeek_iso [OF f(2)]
      days_from_iso [of "monday ?f" 42 P]
    by (simp add: monthDays_def)
qed

lemma month_in_grid:
  assumes "valid_civil y m d"
  shows "\<exists>i < 42. day_from_civil y m d = monday (day_from_civil y m 1) + int i"
proof -
  let ?f = "day_from_civil y m 1"
  have "day_from_civil y m d = ?f + (d - 1)" by (simp add: day_from_civil_def)
  moreover have "1 \<le> d" "d \<le> 31" using assms by (auto simp: valid_civil_def month_days_def split: if_splits)
  moreover have "monday ?f \<le> ?f" "?f < monday ?f + 7" by (rule monday_props)+
  ultimately show ?thesis by (intro exI [of _ "nat (day_from_civil y m d - monday ?f)"]) auto
qed

lemma month_shift:
  \<comment> \<open>the first of the month \<open>k\<close> months away\<close>
  assumes "1 \<le> m" "m \<le> 12"
  shows "civil_from_day (make_day y (m - 1 + k) 1) = (y + (m - 1 + k) div 12, (m - 1 + k) mod 12 + 1, 1)"
proof -
  have "0 \<le> (m - 1 + k) mod 12" "(m - 1 + k) mod 12 < 12" by simp_all
  then have "valid_civil (y + (m - 1 + k) div 12) ((m - 1 + k) mod 12 + 1) 1"
    by (intro valid_first) linarith+
  then show ?thesis unfolding make_day_def by (simp only: civil_day_civil add_diff_cancel_right')
qed

lemma last_of_month:
  assumes "1 \<le> m" "m \<le> 12"
  shows "civil_from_day (make_day y m 0) = (y, m, month_days y m)"
proof -
  have "make_day y m 0 = day_from_civil y m (month_days y m)"
  proof (cases "m = 12")
    case True
    then show ?thesis using year_length [of y]
      by (simp add: make_day_def day_from_civil_def days_before_month_def month_days_def)
  next
    case False
    from assms have "valid_civil y m 1" by (simp add: valid_civil_def month_days_def)
    from valid_civil_months [OF this] False have "m \<in> {1,2,3,4,5,6,7,8,9,10,11}" by simp
    then show ?thesis
      by (elim insertE emptyE; cases "leap y";
          simp add: make_day_def day_from_civil_def days_before_month_def month_days_def)
  qed
  moreover have "valid_civil y m (month_days y m)" using assms by (simp add: valid_civil_def month_days_def)
  ultimately show ?thesis by (simp add: civil_day_civil)
qed

lemma setters_at_noon:
  assumes "civil_from_day n = (y, m, d)"
  shows "setUTCDate k (noon n) = time_clip (noon (n - d + k))"
    "setUTCMonth j k (noon n) = time_clip (noon (make_day y j k))"
    "getUTCFullYear (noon n) = y" "getUTCMonth (noon n) = m - 1" "getUTCDate (noon n) = d"
  using assms make_day_civil [OF assms, of k]
  by (simp_all add: setUTCDate_def setUTCMonth_def getUTCFullYear_def getUTCMonth_def getUTCDate_def noon_def)

lemma addMonths_iso:
  assumes n: "plain_day n" "civil_from_day n = (y, m, d)"
    and y': "y' = y + (m - 1 + k) div 12" and m': "m' = (m - 1 + k) mod 12 + 1"
    and g: "plain_day (day_from_civil y' m' 1)" "plain_day (day_from_civil y' m' 31)"
  shows "addMonths P (iso_day n) k = Some (iso_day (day_from_civil y' m' (min d (month_days y' m'))))"
proof -
  let ?f = "day_from_civil y m 1" and ?g = "day_from_civil y' m' 1" and ?l = "month_days y' m'"
  have m: "1 \<le> m" "m \<le> 12" and d: "1 \<le> d" using civil_from_day_valid(1) [OF n(2)] by (auto simp: valid_civil_def)
  have f: "n - d + 1 = ?f" "four_digit ?f" using four_digit_month [OF n] by simp_all
  have cf: "civil_from_day ?f = (y, m, 1)"
    using m by (intro civil_day_civil) (simp add: valid_civil_def month_days_def)
  have mg: "make_day y (m - 1 + k) 1 = ?g" by (simp add: make_day_def y' m')
  have cg: "civil_from_day ?g = (y', m', 1)" using month_shift [OF m, of y k] mg y' m' by simp
  have r: "1 \<le> m'" "m' \<le> 12" using civil_from_day_valid(1) [OF cg] by (auto simp: valid_civil_def)
  have y1000: "1000 \<le> y'" using plain_day_year [OF g(1) cg] by simp
  have dg: "day_from_civil y' m' j = ?g - 1 + j" for j by (simp add: day_from_civil_def)
  define q where "q = day_from_civil y' m' ?l"
  have last: "make_day y' m' 0 = q"
    using civil_from_day_valid(2) [OF last_of_month [OF r, of y']] by (simp add: q_def)
  have four: "four_digit (day_from_civil y' m' j)" if "1 \<le> j" "j \<le> 31" for j
    using g that dg [of 31] dg [of j] by (simp add: plain_day_def four_digit_def)
  have "four_digit q" unfolding q_def by (rule four) simp_all
  then have lastms: "date_UTC y' m' 0 0 0 = Some (q * msDay)"
    using y1000 time_clip_four_digit [of "q * msDay"] by (simp add: date_UTC_def last day_of_def)
  have lastday: "getUTCDate (q * msDay) = ?l"
    using last_of_month [OF r, of y'] last by (simp add: getUTCDate_def day_of_def)
  define e where "e = day_from_civil y' m' (min d ?l)"
  have "min d ?l \<le> 31" by (rule min.coboundedI2) simp
  with dg [of "min d ?l"] four [of "min d ?l"] d have e: "?g - 1 + min d ?l = e" "four_digit e"
    by (simp_all add: e_def)
  have 1: "setUTCDate 1 (noon n) = Some (noon ?f)"
    using setters_at_noon(1) [OF n(2), of 1] f by (simp add: time_clip_noon)
  have 2: "setUTCMonth (m - 1 + k) 1 (noon ?f) = Some (noon ?g)"
    using setters_at_noon(2) [OF cf, of "m - 1 + k" 1] mg four [of 1] by (simp add: time_clip_noon)
  have 3: "setUTCDate (min d ?l) (noon ?g) = Some (noon e)"
    using setters_at_noon(1) [OF cg, of "min d ?l"] e by (simp add: time_clip_noon)
  show ?thesis
    using 1 2 3 lastms lastday e(2) setters_at_noon(3-5) [OF n(2)] setters_at_noon(3-5) [OF cf]
      setters_at_noon(3-5) [OF cg]
    by (simp add: addMonths_def parseDate_iso [OF plain_four_digit [OF n(1)]] isoDate_def
        flip: e_def)
qed

subsection \<open>Valid dates\<close>

lemma date_shape_digit: "date_shape v \<Longrightarrow> v \<noteq> [] \<and> is_digit (hd v)"
  by (cases v) (auto simp: date_shape_def take_digits_def split: if_splits)

lemma iso_day_shape: "four_digit n \<Longrightarrow> date_shape (iso_day n)"
  using four_digit_year [of n] valid_civil_range [OF civil_from_day_valid(1) [of n]]
  by (cases "civil_from_day n")
    (auto simp: date_shape_def iso_day_def iso_year_def take_digits_pad take_digits_pad [where r = "[]", simplified])

lemma iso_slice_sign:
  assumes "\<not> four_digit (day_of t)"
  shows "\<not> is_digit (hd (iso_slice t))"
proof -
  obtain y m d where c: "civil_from_day (day_of t) = (y, m, d)" by (metis prod_cases3)
  with four_digit_year [OF c] assms have "\<not> (0 \<le> y \<and> y \<le> 9999)" by simp
  then show ?thesis
    by (auto simp: iso_slice_def slice_def toISOString_def iso_day_def c iso_year_def Let_def numeral_eq_Suc)
qed

lemma validDate_iff: "validDate P v \<longleftrightarrow> (\<exists>n. four_digit n \<and> v = iso_day n)"
proof
  assume v: "validDate P v"
  then obtain t where t: "date_shape v" "iso_slice t = v"
    by (auto simp: validDate_def isoDate_def split: option.splits)
  with date_shape_digit iso_slice_sign have "four_digit (day_of t)" by blast
  with t(2) show "\<exists>n. four_digit n \<and> v = iso_day n" by (intro exI [of _ "day_of t"]) simp
next
  assume "\<exists>n. four_digit n \<and> v = iso_day n"
  then show "validDate P v" by (auto simp: validDate_def iso_day_shape parseDate_iso isoDate_def)
qed

subsection \<open>Events by day\<close>

definition bucket :: "(string, 'e list) dict \<Rightarrow> string \<Rightarrow> 'e list" where
  "bucket result day = (case map_of result day of Some xs \<Rightarrow> xs | None \<Rightarrow> [])"

lemma bucket_push: "bucket (push_event day item r) day' = (if day = day' then bucket r day' @ [item] else bucket r day')"
  by (simp add: bucket_def push_event_def)

lemma bucket_inner:
  assumes "distinct (map db_day bs)"
  shows "bucket (fold (\<lambda>b r. if ov b then push_event (db_day b) item r else r) bs r) day =
    bucket r day @ (if \<exists>b \<in> set bs. db_day b = day \<and> ov b then [item] else [])"
  using assms
proof (induction bs arbitrary: r)
  case (Cons c bs)
  from Cons.prems have "\<not> (\<exists>b \<in> set bs. db_day b = db_day c)" by (force simp: image_iff)
  with Cons show ?case by (auto simp: bucket_push)
qed simp

lemma bucket_outer:
  assumes "distinct (map db_day bs)" and "b \<in> set bs"
  shows "bucket (fold (\<lambda>item r. fold (\<lambda>b r. if ov item b then push_event (db_day b) item r else r) bs r)
      items r) (db_day b) = bucket r (db_day b) @ filter (\<lambda>i. ov i b) items"
proof (induction items arbitrary: r)
  case (Cons item items)
  have "(\<exists>c \<in> set bs. db_day c = db_day b \<and> ov item c) \<longleftrightarrow> ov item b"
    using assms by (auto simp: distinct_map inj_on_def)
  with Cons show ?case by (simp add: bucket_inner [OF assms(1)])
qed simp

lemma those_map_SomeD: "those (map f xs) = Some ys \<Longrightarrow> length ys = length xs \<and> (\<forall>i < length xs. f (xs ! i) = Some (ys ! i))"
proof (induction xs arbitrary: ys)
  case (Cons x xs)
  then obtain y zs where "f x = Some y" "those (map f xs) = Some zs" "ys = y # zs"
    by (auto split: option.splits)
  with Cons.IH show ?case by (auto simp: nth_Cons split: nat.split)
qed simp

lemma boundaries_days:
  assumes "those (map (boundary P) days) = Some bs"
  shows "map db_day bs = days"
proof (rule nth_equalityI)
  from those_map_SomeD [OF assms] show "length (map db_day bs) = length days" by simp
  fix i
  assume "i < length (map db_day bs)"
  with those_map_SomeD [OF assms] have "boundary P (days ! i) = Some (bs ! i)" "i < length bs" by auto
  moreover have "db_day b = day" if "boundary P day = Some b" for day b
    using that by (auto simp: boundary_def bind_eq_Some_conv)
  ultimately show "map db_day bs ! i = days ! i" by simp
qed

lemma day_start_iso:
  assumes "working_day n" and "60000 dvd c" and "\<bar>c\<bar> \<le> msDay"
    and "\<And>u. \<bar>u - n * msDay\<bar> \<le> 4 * msDay \<Longrightarrow> pf_offset P u = c"
  shows "day_start P (iso_day n) = Some (n * msDay - c)"
proof -
  let ?D = "n * msDay"
  have day: "day_of ?D = n" "time_in_day ?D = 0" by (simp_all add: day_of_def time_in_day_def)
  have plain: "plain_day n" using working_plain [OF assms(1), of n] by simp
  have "pad_num 2 0 = ''00''" by (simp add: pad_num_def pad_start_def show_nat.simps digit_chars)
  then have w: "wall_text ?D = iso_day n @ ''T00:00''"
    using wall_date_plain [of ?D] plain by (simp add: wall_text_def wall_clock_def day)
  have "60000 dvd ?D" by (simp add: dvd_mult)
  moreover have "two_offsets P ?D c c" using assms(2-4) by (simp add: two_offsets_def)
  moreover have "local_ms P (?D - c) = ?D" using assms(3) assms(4) [of "?D - c"] by (simp add: local_ms_def)
  ultimately obtain v where v: "local_search P (wall_text ?D) ?D 4 ?D = Some (toISOString v)"
      "local_ms P v = ?D" "\<bar>v - ?D\<bar> \<le> msDay"
    using search_complete [of P ?D c c "?D - c"] assms(1,3) day by auto
  then have "v = ?D - c" using assms(4) [of v] by (simp add: local_ms_def)
  moreover have "four_digit (day_of v)"
    using day_of_near [of v ?D 1] v(3) day working_plain [OF assms(1), of "day_of v"]
    by (intro plain_four_digit) simp
  ultimately show ?thesis
    using businessLocalToInstant_plain [of ?D P] plain day v(1) \<open>60000 dvd ?D\<close>
    by (simp add: day_start_def from_sum_def date_parse_toISOString floor_minute_id flip: w)
qed

subsection \<open>Properties\<close>

text \<open>
  Property C19: whatever the engine's \<open>Date.parse\<close> does with strings outside the ISO format (some
  engines roll 30 February over into March), \<open>validDate\<close> accepts exactly the texts of the days of
  the years 0000 to 9999.
\<close>

theorem valid_dates_are_calendar_days: "validDate P v \<longleftrightarrow> (\<exists>n. four_digit n \<and> v = iso_day n)"
  by (rule validDate_iff)

text \<open>
  \<open>addMonths\<close> goes to the month \<open>count\<close> months away and keeps the day of the month,
  or takes the month's last day where it is shorter (31 January plus one month is 28 or 29
  February).
\<close>

theorem addMonths_keeps_or_clips_the_day:
  assumes "plain_day n" and "civil_from_day n = (y, m, d)"
    and "y' = y + (m - 1 + count) div 12" and "m' = (m - 1 + count) mod 12 + 1"
    and "plain_day (day_from_civil y' m' 1)" and "plain_day (day_from_civil y' m' 31)"
  shows "addMonths P (iso_day n) count = Some (iso_day (day_from_civil y' m' (min d (month_days y' m'))))"
  using assms by (rule addMonths_iso)

theorem addMonths_keeps_or_clips_the_day_witness:
  "addMonths belgrade_2026 (iso_day 20484) 1 = Some (iso_day (day_from_civil 2026 2 28))
   \<and> civil_from_day 20484 = (2026, 1, 31)"
proof -
  have c: "civil_from_day 20484 = (2026, 1, 31)" by (simp add: civil_eval)
  have v: "day_from_civil 2026 2 1 = 20485" "day_from_civil 2026 2 31 = 20515" "month_days 2026 2 = 28"
    by (simp_all add: civil_eval)
  have "addMonths belgrade_2026 (iso_day 20484) 1 = Some (iso_day (day_from_civil 2026 2 (min 31 (month_days 2026 2))))"
    by (rule addMonths_keeps_or_clips_the_day [OF _ c]) (simp_all add: plain_day_def v)
  with c v show ?thesis by simp
qed

text \<open>
  Property C21: the month view shows 42 consecutive days from a Monday on, and every day of the
  anchor's month is among them.
\<close>

theorem month_view_covers_the_month:
  assumes "plain_day n" and "n \<le> 2932800" and "civil_from_day n = (y, m, d)"
  shows "\<exists>f days. monthDays P (iso_day n) = Some days \<and> weekday f = 1
    \<and> days = map (\<lambda>i. iso_day (f + int i)) [0..<42]
    \<and> (\<forall>d'. valid_civil y m d' \<longrightarrow> iso_day (day_from_civil y m d') \<in> set days)"
proof -
  let ?f = "monday (day_from_civil y m 1)"
  have "iso_day (day_from_civil y m d') \<in> set (map (\<lambda>i. iso_day (?f + int i)) [0..<42])"
    if "valid_civil y m d'" for d'
    using month_in_grid [OF that] by auto
  then show ?thesis using monthDays_iso [OF assms] monday_props(1) by blast
qed

theorem month_view_covers_the_month_witness:
  "\<exists>f days. monthDays belgrade_2026 (iso_day 20484) = Some days \<and> weekday f = 1
    \<and> days = map (\<lambda>i. iso_day (f + int i)) [0..<42]
    \<and> {iso_day (day_from_civil 2026 1 d') | d'. valid_civil 2026 1 d'} \<subseteq> set days"
  using month_view_covers_the_month [of 20484 2026 1 31 belgrade_2026]
  by (simp add: plain_day_def civil_eval subset_iff) metis

text \<open>
  When the day boundaries exist, \<open>eventsByDay\<close> lists under each day exactly the events
  that overlap it, in their order.
\<close>

theorem eventsByDay_lists_overlapping_events:
  assumes "distinct days" and "those (map (boundary P) days) = Some boundaries" and "b \<in> set boundaries"
  shows "\<exists>result. eventsByDay P events days = Some result
    \<and> bucket result (db_day b) = filter (\<lambda>item. overlaps_day P item b) events"
proof -
  have "distinct (map db_day boundaries)" using assms(1) boundaries_days [OF assms(2)] by simp
  from bucket_outer [OF this assms(3), of "overlaps_day P" events "[]"] assms(2) show ?thesis
    by (simp add: eventsByDay_def bucket_def)
qed

theorem eventsByDay_lists_overlapping_events_witness:
  "\<exists>result. eventsByDay belgrade_2026 [sample_event 1782909000000 1782912600000] [iso_day 20635] = Some result
    \<and> length (bucket result (iso_day 20635)) = 1"
proof -
  have "day_start belgrade_2026 (iso_day n) = Some (n * msDay - 7200000)" if "n \<in> {20635, 20636}" for n
    using that by (intro day_start_iso) (auto simp: working_day_def belgrade_2026_def)
  moreover have "addDays belgrade_2026 (iso_day 20635) 1 = Some (iso_day 20636)"
    using addDays_iso [of 20635 1 belgrade_2026] by (simp add: four_digit_def)
  ultimately have b: "those (map (boundary belgrade_2026) [iso_day 20635]) =
      Some [\<lparr>db_day = iso_day 20635, db_from = 1782856800000, db_to = 1782943200000\<rparr>]"
    by (simp add: boundary_def)
  have p: "parse belgrade_2026 (toISOString 1782909000000) = Some 1782909000000"
    "parse belgrade_2026 (toISOString 1782912600000) = Some 1782912600000"
    by (rule date_parse_toISOString; simp add: four_digit_def day_of_def)+
  let ?b = "\<lparr>db_day = iso_day 20635, db_from = 1782856800000, db_to = 1782943200000\<rparr>"
  have ov: "overlaps_day belgrade_2026 e ?b"
    if "cal_startTime e = toISOString 1782909000000" "cal_endTime e = toISOString 1782912600000" for e
    using that by (simp add: overlaps_day_def p lt_ms_def)
  have "\<exists>result. eventsByDay belgrade_2026 [e] [iso_day 20635] = Some result
      \<and> length (bucket result (iso_day 20635)) = 1"
    if "cal_startTime e = toISOString 1782909000000" "cal_endTime e = toISOString 1782912600000" for e
    using eventsByDay_lists_overlapping_events [OF _ b, of ?b "[e]"] ov [OF that] by auto
  then show ?thesis by (simp add: sample_event_def)
qed

end
