(* ===== verification/Weekly.thy ===== *)
theory Weekly
  imports Calendar
begin

section \<open>The weekly calendar\<close>

text \<open>
  Models \<open>calendar/weeklyModel.ts\<close>: the rows of the week (with an extra row per repeated hour on a
  change to standard time), the vertical position of an instant, and the placement of overlapping
  events into lanes. \<open>collate a b\<close> is \<open>a.localeCompare(b)\<close>, whose order is the locale's.

  \<open>weeklyEvents\<close> is a loop over the sorted events; \<open>place\<close> is the loop with its four variables.
\<close>

definition quarterHour :: int where
  "quarterHour = 15 * 60 * 1000"

record week_slot =
  ws_key :: string
  ws_label :: string
  ws_occurrence :: nat
  ws_instant :: ms

record week_row =
  wr_key :: string
  wr_label :: string
  wr_occurrence :: nat

record week_event =
  we_item :: calendar_reservation
  we_start :: ms
  we_end :: ms
  we_lane :: nat
  we_columns :: nat

subsection \<open>Rows\<close>

definition slot_key :: "string \<Rightarrow> nat \<Rightarrow> string" where
  "slot_key label occurrence = label @ '':'' @ show_nat occurrence"

definition base_rows :: "(string, week_row) dict" where
  "base_rows = fold (\<lambda>q rows.
     let minute = 15 * q;
         label = pad_num 2 (minute div 60) @ '':'' @ pad_num 2 (minute mod 60)
     in AList.update (slot_key label 0) \<lparr>wr_key = slot_key label 0, wr_label = label, wr_occurrence = 0\<rparr> rows)
     [0..95] []"

function day_slots ::
  "platform \<Rightarrow> ms \<Rightarrow> ms \<Rightarrow> (string, nat) dict \<Rightarrow> week_slot list option" where
  \<comment> \<open>the slots from \<open>instant\<close> on, given how often each label was seen\<close>
  "day_slots P instant to seen =
     (if instant < to then do {
        text \<leftarrow> businessInstantToLocal P (toISOString instant);
        let label = drop 11 text;
        let occurrence = (case map_of seen label of Some n \<Rightarrow> n | None \<Rightarrow> 0);
        rest \<leftarrow> day_slots P (instant + quarterHour) to (AList.update label (occurrence + 1) seen);
        Some (\<lparr>ws_key = slot_key label occurrence, ws_label = label, ws_occurrence = occurrence,
                ws_instant = instant\<rparr> # rest) }
      else Some [])"
  by pat_completeness auto
termination
  by (relation "measure (\<lambda>(P, instant, to, seen). nat (to - instant))") (auto simp: quarterHour_def)

declare day_slots.simps [simp del]

definition slot_row :: "week_slot \<Rightarrow> week_row" where
  "slot_row s = \<lparr>wr_key = ws_key s, wr_label = ws_label s, wr_occurrence = ws_occurrence s\<rparr>"

definition row_le :: "(string \<Rightarrow> string \<Rightarrow> int) \<Rightarrow> week_row \<Rightarrow> week_row \<Rightarrow> bool" where
  "row_le collate a b =
     (let h = collate (slice 0 2 (wr_label a)) (slice 0 2 (wr_label b))
      in if h \<noteq> 0 then h < 0
         else if wr_occurrence a \<noteq> wr_occurrence b then wr_occurrence a < wr_occurrence b
         else collate (wr_label a) (wr_label b) \<le> 0)"

record week_axis =
  wa_rows :: "week_row list"
  wa_daySlots :: "(string, week_slot list) dict"
  wa_indexes :: "(string, nat) dict"

definition axis_day ::
  "platform \<Rightarrow> string \<Rightarrow> (string, week_row) dict \<times> (string, week_slot list) dict
   \<Rightarrow> ((string, week_row) dict \<times> (string, week_slot list) dict) option" where
  "axis_day P day st = do {
     from \<leftarrow> day_start P day;
     next_day \<leftarrow> addDays P day 1;
     to \<leftarrow> day_start P next_day;
     slots \<leftarrow> day_slots P from to [];
     Some (fold (\<lambda>s rows. AList.update (ws_key s) (slot_row s) rows) slots (fst st),
           AList.update day slots (snd st)) }"

fun axis_days ::
  "platform \<Rightarrow> string list \<Rightarrow> (string, week_row) dict \<times> (string, week_slot list) dict
   \<Rightarrow> ((string, week_row) dict \<times> (string, week_slot list) dict) option" where
  "axis_days P [] st = Some st"
| "axis_days P (day # days) st = do { st \<leftarrow> axis_day P day st; axis_days P days st }"

definition weeklyAxis ::
  "platform \<Rightarrow> (string \<Rightarrow> string \<Rightarrow> int) \<Rightarrow> string list \<Rightarrow> week_axis option" where
  "weeklyAxis P collate days = do {
     (rows, daySlots) \<leftarrow> axis_days P days (base_rows, []);
     let axis = sort_by (row_le collate) (map snd rows);
     Some \<lparr>wa_rows = axis, wa_daySlots = daySlots,
           wa_indexes = dict_of (map (\<lambda>(i, r). (wr_key r, i)) (enumerate 0 axis))\<rparr> }"

definition weeklyPosition ::
  "ms \<Rightarrow> week_slot list \<Rightarrow> (string, nat) dict \<Rightarrow> nat \<Rightarrow> rat option" where
  \<comment> \<open>None where the code would read a property of \<open>undefined\<close>\<close>
  "weeklyPosition instant slots indexes rowCount =
     (if slots = [] then None
      else if instant \<le> ws_instant (hd slots) then Some 0
      else if instant \<ge> ws_instant (last slots) + quarterHour then Some (of_nat rowCount)
      else do {
        slot \<leftarrow> find (\<lambda>v. ws_instant v \<le> instant \<and> instant < ws_instant v + quarterHour) slots;
        i \<leftarrow> map_of indexes (ws_key slot);
        Some (of_nat i + of_int (instant - ws_instant slot) / of_int quarterHour) })"

subsection \<open>Events\<close>

definition clip_event :: "platform \<Rightarrow> ms \<Rightarrow> ms \<Rightarrow> calendar_reservation \<Rightarrow> week_event option" where
  \<comment> \<open>the filter and the map over the events\<close>
  "clip_event P from to item = do {
     s \<leftarrow> parse P (cal_startTime item);
     e \<leftarrow> parse P (cal_endTime item);
     if s < to \<and> from < e
     then Some \<lparr>we_item = item, we_start = max from s, we_end = min to e, we_lane = 0, we_columns = 1\<rparr>
     else None }"

definition event_le :: "(string \<Rightarrow> string \<Rightarrow> int) \<Rightarrow> week_event \<Rightarrow> week_event \<Rightarrow> bool" where
  "event_le collate a b =
     (if we_start a \<noteq> we_start b then we_start a < we_start b
      else if we_end a \<noteq> we_end b then we_end b < we_end a
      else collate (cal_id (we_item a)) (cal_id (we_item b)) \<le> 0)"

definition finish_group :: "week_event list \<Rightarrow> ms list \<Rightarrow> week_event list" where
  "finish_group grp ends = map (\<lambda>e. e\<lparr>we_columns := length ends\<rparr>) grp"

definition put_end :: "nat \<Rightarrow> ms \<Rightarrow> ms list \<Rightarrow> ms list" where
  \<comment> \<open>\<open>ends[lane] = end\<close>, with \<open>lane\<close> at most \<open>ends.length\<close>\<close>
  "put_end lane e ends = (if lane < length ends then ends[lane := e] else ends @ [e])"

definition first_free :: "ms list \<Rightarrow> ms \<Rightarrow> nat" where
  "first_free ends start = (case find_index (\<lambda>e. e \<le> start) ends of Some l \<Rightarrow> l | None \<Rightarrow> length ends)"

fun place :: "week_event list \<Rightarrow> week_event list \<Rightarrow> ms list \<Rightarrow> ms option \<Rightarrow> week_event list" where
  \<comment> \<open>the events that remain, \<open>grp\<close>, \<open>ends\<close>, \<open>groupEnd\<close> (None is minus infinity)\<close>
  "place [] grp ends groupEnd = finish_group grp ends"
| "place (event # events) grp ends groupEnd =
     (let closed = (case groupEnd of None \<Rightarrow> True | Some g \<Rightarrow> we_start event \<ge> g);
          before = (if closed then finish_group grp ends else []);
          grp = (if closed then [] else grp);
          ends = (if closed then [] else ends);
          groupEnd = (if closed then None else groupEnd);
          lane = first_free ends (we_start event)
      in before @ place events (grp @ [event\<lparr>we_lane := lane\<rparr>]) (put_end lane (we_end event) ends)
           (Some (case groupEnd of None \<Rightarrow> we_end event | Some g \<Rightarrow> max g (we_end event))))"

definition weeklyEvents ::
  "platform \<Rightarrow> (string \<Rightarrow> string \<Rightarrow> int) \<Rightarrow> calendar_reservation list \<Rightarrow> ms \<Rightarrow> ms \<Rightarrow> week_event list" where
  "weeklyEvents P collate events from to =
     place (sort_by (event_le collate) (List.map_filter (clip_event P from to) events)) [] [] None"

subsection \<open>Placement\<close>

definition clash :: "week_event \<Rightarrow> week_event \<Rightarrow> bool" where
  "clash a b \<longleftrightarrow> we_start a < we_end b \<and> we_start b < we_end a"

definition fits :: "week_event \<Rightarrow> week_event \<Rightarrow> bool" where
  "fits a b \<longleftrightarrow> (clash a b \<longrightarrow> we_lane a \<noteq> we_lane b \<and> we_columns a = we_columns b)"

definition group_ok :: "week_event list \<Rightarrow> ms list \<Rightarrow> ms option \<Rightarrow> bool" where
  "group_ok grp ends groupEnd \<longleftrightarrow>
     (\<forall>g \<in> set grp. we_lane g < length ends \<and> we_end g \<le> ends ! we_lane g
        \<and> (\<exists>t. groupEnd = Some t \<and> we_end g \<le> t))
     \<and> sorted_wrt (\<lambda>a b. clash a b \<longrightarrow> we_lane a \<noteq> we_lane b) grp"

lemma put_end_length: "lane \<le> length ends \<Longrightarrow> length (put_end lane e ends) = max (length ends) (Suc lane)"
  by (auto simp: put_end_def)

lemma put_end_nth:
  "l < length (put_end lane e ends) \<Longrightarrow> lane \<le> length ends \<Longrightarrow>
     put_end lane e ends ! l = (if l = lane then e else ends ! l)"
  by (auto simp: put_end_def nth_append)

lemma first_free_props:
  "first_free ends s \<le> length ends"
  "first_free ends s < length ends \<Longrightarrow> ends ! first_free ends s \<le> s"
  using find_index_SomeD [of "\<lambda>e. e \<le> s" ends]
  by (auto simp: first_free_def split: option.splits)

lemma place_times:
  "map (\<lambda>e. (we_item e, we_start e, we_end e)) (place events grp ends t) =
   map (\<lambda>e. (we_item e, we_start e, we_end e)) (grp @ events)"
proof (induction events grp ends t rule: place.induct)
  case (2 event events grp ends t)
  show ?case using 2 by (auto simp: Let_def finish_group_def)
qed (simp add: finish_group_def)

lemma place_bounds:
  assumes "x \<in> set (place events grp ends t)"
  shows "\<exists>y \<in> set grp \<union> set events. we_start x = we_start y \<and> we_end x = we_end y"
proof -
  from assms have "(we_item x, we_start x, we_end x) \<in> set (map (\<lambda>e. (we_item e, we_start e, we_end e)) (place events grp ends t))"
    by auto
  then show ?thesis unfolding place_times by auto
qed

lemma group_ok_extend:
  assumes ok: "group_ok grp ends t" and t: "t = Some g" and e: "we_start e < we_end e"
    and lane: "lane = first_free ends (we_start e)"
  shows "group_ok (grp @ [e\<lparr>we_lane := lane\<rparr>]) (put_end lane (we_end e) ends) (Some (max g (we_end e)))"
proof -
  have l: "lane \<le> length ends" and free: "lane < length ends \<Longrightarrow> ends ! lane \<le> we_start e"
    using first_free_props lane by auto
  have members: "we_lane x < length (put_end lane (we_end e) ends) \<and> we_end x \<le> put_end lane (we_end e) ends ! we_lane x"
    if "x \<in> set grp" for x
  proof -
    from ok that have x: "we_lane x < length ends" "we_end x \<le> ends ! we_lane x" by (auto simp: group_ok_def)
    with l have "we_lane x < length (put_end lane (we_end e) ends)" by (simp add: put_end_length)
    moreover from this x free e l have "we_end x \<le> put_end lane (we_end e) ends ! we_lane x"
      by (auto simp: put_end_nth)
    ultimately show ?thesis by simp
  qed
  have "\<not> clash x (e\<lparr>we_lane := lane\<rparr>)" if "x \<in> set grp" "we_lane x = lane" for x
  proof -
    from ok that have "we_lane x < length ends" "we_end x \<le> ends ! we_lane x" by (auto simp: group_ok_def)
    with free that show ?thesis by (auto simp: clash_def)
  qed
  moreover from ok t have "we_end x \<le> max g (we_end e)" if "x \<in> set grp" for x
    using that by (auto simp: group_ok_def)
  moreover have new: "lane < length (put_end lane (we_end e) ends)" using l by (simp add: put_end_length)
  moreover from new l have "put_end lane (we_end e) ends ! lane = we_end e" by (simp add: put_end_nth)
  moreover from ok have "sorted_wrt (\<lambda>a b. clash a b \<longrightarrow> we_lane a \<noteq> we_lane b) grp" by (simp add: group_ok_def)
  ultimately show ?thesis
    using members unfolding group_ok_def by (simp add: sorted_wrt_append ball_Un) blast
qed

lemma group_ok_single:
  "group_ok [e\<lparr>we_lane := first_free [] (we_start e)\<rparr>]
     (put_end (first_free [] (we_start e)) (we_end e) []) (Some (we_end e))"
  by (simp add: group_ok_def first_free_def put_end_def)

lemma finish_group_fits:
  assumes "group_ok grp ends t"
  shows "sorted_wrt fits (finish_group grp ends)" "\<forall>x \<in> set (finish_group grp ends). we_lane x < we_columns x"
proof -
  from assms have "sorted_wrt (\<lambda>a b. clash a b \<longrightarrow> we_lane a \<noteq> we_lane b) grp" by (simp add: group_ok_def)
  then show "sorted_wrt fits (finish_group grp ends)"
    unfolding finish_group_def sorted_wrt_map by (rule sorted_wrt_mono_rel [rotated]) (auto simp: fits_def clash_def)
  from assms show "\<forall>x \<in> set (finish_group grp ends). we_lane x < we_columns x"
    by (auto simp: finish_group_def group_ok_def)
qed

lemma place_open:
  "t = Some g \<Longrightarrow> we_start e < g \<Longrightarrow> lane = first_free ends (we_start e) \<Longrightarrow>
   place (e # events) grp ends t = place events (grp @ [e\<lparr>we_lane := lane\<rparr>])
     (put_end lane (we_end e) ends) (Some (max g (we_end e)))"
  by (simp add: Let_def)

lemma place_closed:
  assumes "case t of None \<Rightarrow> True | Some g \<Rightarrow> g \<le> we_start e" and "lane = first_free [] (we_start e)"
  shows "place (e # events) grp ends t = finish_group grp ends @ place events [e\<lparr>we_lane := lane\<rparr>]
     (put_end lane (we_end e) []) (Some (we_end e))"
  using assms by (simp add: Let_def)

lemma place_fits:
  assumes "group_ok grp ends t" and "sorted (map we_start events)" and "\<forall>e \<in> set events. we_start e < we_end e"
  shows "sorted_wrt fits (place events grp ends t) \<and> (\<forall>x \<in> set (place events grp ends t). we_lane x < we_columns x)"
  using assms
proof (induction events arbitrary: grp ends t)
  case Nil
  then show ?case using finish_group_fits by simp
next
  case (Cons e events)
  have e: "we_start e < we_end e" and later: "\<forall>x \<in> set events. we_start e \<le> we_start x"
    and rest: "sorted (map we_start events)" "\<forall>x \<in> set events. we_start x < we_end x"
    using Cons.prems by auto
  show ?case
  proof (cases "\<exists>g. t = Some g \<and> we_start e < g")
    case True
    then obtain g where g: "t = Some g" "we_start e < g" by blast
    from Cons.IH [OF group_ok_extend [OF Cons.prems(1) g(1) e refl] rest] show ?thesis
      unfolding place_open [OF g refl] .
  next
    case False
    then have closed: "case t of None \<Rightarrow> True | Some g \<Rightarrow> g \<le> we_start e" by (auto split: option.splits)
    let ?l = "first_free [] (we_start e)"
    let ?p = "place events [e\<lparr>we_lane := ?l\<rparr>] (put_end ?l (we_end e) []) (Some (we_end e))"
    have IH: "sorted_wrt fits ?p \<and> (\<forall>x \<in> set ?p. we_lane x < we_columns x)"
      by (rule Cons.IH [OF group_ok_single rest])
    have "fits a b" if "a \<in> set (finish_group grp ends)" "b \<in> set ?p" for a b
    proof -
      from that(1) Cons.prems(1) obtain g where "t = Some g" "we_end a \<le> g"
        by (auto simp: finish_group_def group_ok_def)
      with closed have "we_end a \<le> we_start e" by simp
      moreover have "we_start e \<le> we_start b" using place_bounds [OF that(2)] later by auto
      ultimately show ?thesis by (simp add: fits_def clash_def)
    qed
    with IH finish_group_fits [OF Cons.prems(1)] show ?thesis
      unfolding place_closed [OF closed refl] by (auto simp: sorted_wrt_append)
  qed
qed

lemma clip_event_times:
  assumes "clip_event P from to item = Some e" and "from < to"
    and "lt_ms (parse P (cal_startTime item)) (parse P (cal_endTime item))"
  shows "we_start e < we_end e" "from \<le> we_start e" "we_end e \<le> to" "we_item e = item"
  using assms by (auto simp: clip_event_def lt_ms_def bind_eq_Some_conv split: if_splits option.splits)

lemma event_le_start: "event_le collate a b \<Longrightarrow> we_start a \<le> we_start b" "\<not> event_le collate a b \<Longrightarrow> we_start b \<le> we_start a"
  by (auto simp: event_le_def split: if_splits)

lemma weeklyEvents_fits:
  assumes "from < to" and "\<forall>item \<in> set events. lt_ms (parse P (cal_startTime item)) (parse P (cal_endTime item))"
  shows "sorted_wrt fits (weeklyEvents P collate events from to)
    \<and> (\<forall>x \<in> set (weeklyEvents P collate events from to). we_lane x < we_columns x)"
  unfolding weeklyEvents_def
proof (rule place_fits)
  show "group_ok [] [] None" by (simp add: group_ok_def)
  show "sorted (map we_start (sort_by (event_le collate) (List.map_filter (clip_event P from to) events)))"
    by (rule sorted_sort_by) (rule event_le_start, assumption)+
  show "\<forall>e \<in> set (sort_by (event_le collate) (List.map_filter (clip_event P from to) events)). we_start e < we_end e"
    using assms clip_event_times(1) by (fastforce simp: List.map_filter_def)
qed

subsection \<open>Properties\<close>

text \<open>
  Property C38: in the weekly view, two events of a day that overlap in time are drawn in different
  lanes of the same width, and every event's lane is one of the columns of its group.
\<close>

theorem overlapping_events_have_own_lanes:
  assumes "from < to" and "\<forall>item \<in> set events. lt_ms (parse P (cal_startTime item)) (parse P (cal_endTime item))"
    and "i < j" and "j < length (weeklyEvents P collate events from to)"
    and "a = weeklyEvents P collate events from to ! i" and "b = weeklyEvents P collate events from to ! j"
  shows "we_lane a < we_columns a \<and>
    (we_start a < we_end b \<and> we_start b < we_end a \<longrightarrow> we_lane a \<noteq> we_lane b \<and> we_columns a = we_columns b)"
proof -
  note W = weeklyEvents_fits [OF assms(1,2), of collate]
  from W assms(3-6) have "we_lane a < we_columns a" "fits a b" by (simp_all add: sorted_wrt_iff_nth_less)
  then show ?thesis by (simp add: fits_def clash_def)
qed

theorem overlapping_events_have_own_lanes_witness:
  "\<exists>a b. weeklyEvents belgrade_2026 (\<lambda>_ _. 0) [sample_event 1782909000000 1782912600000, sample_event 1782910800000 1782914400000]
     1782856800000 1782943200000 = [a, b] \<and> we_lane a \<noteq> we_lane b \<and> we_columns a = we_columns b"
proof -
  let ?es = "[sample_event 1782909000000 1782912600000, sample_event 1782910800000 1782914400000]"
  let ?w = "weeklyEvents belgrade_2026 (\<lambda>_ _. 0) ?es 1782856800000 1782943200000"
  have p: "parse belgrade_2026 (toISOString t) = Some t" if "t \<in> {1782909000000, 1782912600000, 1782910800000, 1782914400000}" for t
    using that by (intro date_parse_toISOString) (auto simp: four_digit_def day_of_def)
  have sample: "cal_startTime (sample_event x y) = toISOString x" "cal_endTime (sample_event x y) = toISOString y" for x y
    by (simp_all add: sample_event_def)
  have "length ?w = length (map (\<lambda>e. (we_item e, we_start e, we_end e)) ?w)" by simp
  also have "\<dots> = 2"
    unfolding weeklyEvents_def place_times by (simp add: clip_event_def p sample_event_def List.map_filter_simps)
  finally have len: "length ?w = 2" .
  have times: "map (\<lambda>e. (we_start e, we_end e)) ?w =
      [(1782909000000, 1782912600000), (1782910800000, 1782914400000)]"
  proof -
    have "map (\<lambda>e. (we_start e, we_end e)) ?w = map snd (map (\<lambda>e. (we_item e, we_start e, we_end e)) ?w)" by simp
    also have "\<dots> = [(1782909000000, 1782912600000), (1782910800000, 1782914400000)]"
      unfolding weeklyEvents_def place_times
      by (simp add: clip_event_def p sample_event_def List.map_filter_simps sort_by_def event_le_def)
    finally show ?thesis .
  qed
  from len obtain a b where w: "?w = [a, b]" by (auto simp: length_Suc_conv numeral_2_eq_2)
  have "we_lane a < we_columns a \<and> (we_start a < we_end b \<and> we_start b < we_end a \<longrightarrow> we_lane a \<noteq> we_lane b \<and> we_columns a = we_columns b)"
    by (rule overlapping_events_have_own_lanes
          [of 1782856800000 1782943200000 ?es belgrade_2026 0 1 "\<lambda>_ _. 0"])
      (simp_all add: w p sample lt_ms_def)
  with w times show ?thesis by simp
qed

end
