(* ===== verification/ApiErrors.thy ===== *)
theory ApiErrors
  imports Auth
begin

section \<open>Failed requests and the texts shown for them\<close>

text \<open>
  Models \<open>types/api.types.ts\<close>, \<open>api/errorMessage.ts\<close>, the two error readers at the end of
  \<open>api/client.ts\<close>, \<open>isConflictResponse\<close> of \<open>api/idempotency.ts\<close>,
  \<open>common/applyApiFieldErrors.ts\<close> and \<open>reservations/bookingConflictReason.ts\<close>. A caught value is
  a \<open>cause\<close>: an axios error with or without a response, another \<open>Error\<close>, or any other value.
\<close>

record api_error =
  err_timestamp :: string
  err_status :: nat
  err_error :: string
  err_path :: string
  err_message :: "string option" \<comment> \<open>None where the body is not the backend's\<close>
  err_requestId :: "string option"
  err_code :: "string option"
  err_fieldErrors :: "(string \<times> string) list option" \<comment> \<open>field and message\<close>

record http_response =
  hr_status :: nat
  hr_data :: "api_error option"

datatype cause =
    AxiosError "http_response option"
  | PlainError string \<comment> \<open>\<open>instanceof Error\<close> and not axios's: its message\<close>
  | OtherCause

record 'a page_response =
  pg_content :: "'a list"
  pg_page :: nat
  pg_size :: nat
  pg_totalElements :: nat
  pg_totalPages :: nat

definition is_axios :: "cause \<Rightarrow> bool" where
  "is_axios e = (case e of AxiosError _ \<Rightarrow> True | _ \<Rightarrow> False)"

definition cause_response :: "cause \<Rightarrow> http_response option" where
  "cause_response e = (case e of AxiosError r \<Rightarrow> r | _ \<Rightarrow> None)"

definition cause_status :: "cause \<Rightarrow> nat option" where
  "cause_status e = map_option hr_status (cause_response e)"

definition cause_data :: "cause \<Rightarrow> api_error option" where
  "cause_data e = Option.bind (cause_response e) hr_data"

definition cause_message :: "cause \<Rightarrow> string option" where
  "cause_message e = Option.bind (cause_data e) err_message"

definition isConflictResponse :: "cause \<Rightarrow> bool" where
  "isConflictResponse e = (cause_status e = Some 409)"

definition waitlistMessages :: "(string \<times> string) list" where
  "waitlistMessages = [
    (''An active waitlist entry already exists'', sr ''Ve~q imate aktivnu prijavu za ovaj termin.''),
    (''Slot is available and can be reserved directly'', sr ''Termin je oslobo~den. Mo~zete ga rezervisati direktno.''),
    (''Waitlist offer has expired'', sr ''Ponuda je istekla. Rezervacija nije potvr~dena.''),
    (''Waitlist offer has expired or is no longer active'', sr ''Ponuda je istekla ili vi~se nije aktivna. Rezervacija nije potvr~dena.''),
    (''Accepted waitlist entry cannot be cancelled'', sr ''Prihva~qena prijava ne mo~ze se otkazati. Rezervaciju mo~zete zasebno otkazati u Mojim terminima.''),
    (''Waitlist entry was changed; refresh and try again'', sr ''Prijava se promenila. Osve~zite listu ~cekanja i poku~sajte ponovo.'')]"

definition activationMessages :: "(string \<times> string) list" where
  "activationMessages = [
    (''Activation code is invalid or expired'', sr ''Aktivacioni kod nije va~ze~qi ili je istekao. Proverite email i kod ili se obratite osoblju.'')]"

definition lookup_text :: "(string \<times> string) list \<Rightarrow> string \<Rightarrow> string" where
  \<comment> \<open>\<open>table[key] ?? key\<close>\<close>
  "lookup_text table key = (case map_of table key of Some t \<Rightarrow> t | None \<Rightarrow> key)"

definition userFacingApiError ::
  "nat option \<Rightarrow> string option \<Rightarrow> string option \<Rightarrow> string \<Rightarrow> string" where
  "userFacingApiError status message requestId fallback =
     (let text = (case message of
            Some m \<Rightarrow> if m = '''' then fallback
              else (case map_of activationMessages m of Some t \<Rightarrow> t | None \<Rightarrow> lookup_text waitlistMessages m)
          | None \<Rightarrow> fallback);
          shown =
            (if status = Some 409 then text @ sr '' Osve~zite podatke pre ponovnog poku~saja.''
             else if status = Some 429 then sr ''Previ~se zahteva. Sa~cekajte i poku~sajte ponovo.''
             else if status = Some 413 then sr ''Fajl je ve~qi od dozvoljene veli~cine.''
             else (case status of Some s \<Rightarrow> if s \<ge> 500 then fallback else text | None \<Rightarrow> text))
      in case requestId of
           Some i \<Rightarrow> if i = '''' then shown else shown @ '' (ID zahteva: '' @ i @ '')''
         | None \<Rightarrow> shown)"

definition apiErrorMessage :: "cause \<Rightarrow> string \<Rightarrow> string" where
  "apiErrorMessage e fallback =
     (if is_axios e
      then userFacingApiError (cause_status e) (cause_message e)
             (Option.bind (cause_data e) err_requestId) fallback
      else fallback)"

definition apiErrorDetails :: "cause \<Rightarrow> api_error option" where
  "apiErrorDetails e = (if is_axios e then cause_data e else None)"

definition applyApiFieldErrors :: "cause \<Rightarrow> bool \<times> (string \<times> string) list \<times> string option" where
  \<comment> \<open>whether anything was applied, the calls of \<open>setError\<close> in order, the field that gets the focus\<close>
  "applyApiFieldErrors e =
     (case Option.bind (apiErrorDetails e) err_fieldErrors of
        None \<Rightarrow> (False, [], None)
      | Some [] \<Rightarrow> (False, [], None)
      | Some ((f, m) # fs) \<Rightarrow> (True, (f, m) # fs, if f = '''' then None else Some f))"

definition bookingMessages :: "(string \<times> string) list" where
  "bookingMessages = [
    (''No active employee is available'', sr ''Nema aktivnog zaposlenog dostupnog za rezervaciju.''),
    (''Area is inactive'', sr ''Izabrana zona nije aktivna.''),
    (''Area does not belong to the selected location'', sr ''Zona ne pripada izabranom lokalu.''),
    (''Resource does not belong to the selected area'', sr ''Resurs ne pripada izabranoj zoni.''),
    (''Resource does not belong to the selected location'', sr ''Resurs ne pripada izabranom lokalu.''),
    (''Resource does not support the selected service'', sr ''Resurs nije kompatibilan sa izabranom uslugom.''),
    (''This service has a fixed reservation duration'', sr ''Izabrana usluga ima fiksno trajanje rezervacije.''),
    (''Reservation duration is outside the permitted range'', sr ''Trajanje nije u dozvoljenom opsegu. Proverite granice prikazane uz interval.''),
    (''Service has no valid reservation duration'', sr ''Usluga nema pode~seno validno trajanje. Obratite se administratoru.''),
    (''Customer is not available for booking'', sr ''Klijent je deaktiviran ili vi~se nije dostupan za rezervisanje.''),
    (''Reservation must be in the future'', sr ''Rezervacija mora po~ceti u budu~qnosti.''),
    (''Selected user is not an active employee'', sr ''Izabrani zaposleni vi~se nije aktivan.''),
    (''Selected resource is not bookable for this service'', sr ''Izabrani resurs trenutno nije dostupan za ovu uslugu.''),
    (''Station management is not permitted'', sr ''Nemate pravo upravljanja izabranim resursom.''),
    (''Recurring reservation contains unavailable occurrences'', sr ''Neki termini serije nisu dostupni. Proverite pregled ponavljanja.''),
    (''No recurring occurrence could be reserved'', sr ''Nijedan termin serije nije mogu~qe rezervisati.''),
    (''Reservation date does not match its start time'', sr ''Datum rezervacije ne odgovara izabranom po~cetku.''),
    (''Resource interval is invalid'', sr ''Vremenski interval resursa nije validan.''),
    (''Staff access is required'', sr ''Ova radnja je dostupna osoblju.''),
    (''Employee is on approved time off'', sr ''Zaposleni nije dostupan zbog odobrenog odsustva.''),
    (''Reservation is outside working hours'', sr ''Termin je van radnog vremena ili usluga traje posle zatvaranja.''),
    (''Service duration exceeds working hours'', sr ''Usluga traje posle zatvaranja.''),
    (''Employee has a reservation at this time'', sr ''Zaposleni ima rezervaciju u ovom terminu.''),
    (''Resource has a reservation at this time'', sr ''Resurs je zauzet rezervacijom.''),
    (''Resource has an active gaming session'', sr ''Resurs je zauzet aktivnom gaming sesijom.''),
    (''Resource or location is inactive or not bookable'', sr ''Resurs ili lokacija trenutno nisu dostupni za rezervisanje.''),
    (''Station is unavailable for booking'', sr ''Stanica trenutno nije dostupna za rezervisanje.''),
    (''Location is inactive'', sr ''Lokacija nije aktivna.''),
    (''Slot must be in the future'', sr ''Termin je ve~q po~ceo.''),
    (''Occurrence must be in the future'', sr ''Termin je ve~q po~ceo.''),
    (''No compatible bookable resource'', sr ''Nema kompatibilnog resursa za ovu uslugu.''),
    (''No compatible resource is available at this time'', sr ''Nema slobodnog kompatibilnog resursa.''),
    (''Employee is unavailable at this time'', sr ''Zaposleni vi~se nije dostupan u ovom terminu.''),
    (''Resource is unavailable at this time'', sr ''Resurs vi~se nije dostupan u ovom terminu.'')]"

definition bookingConflictReason :: "string option \<Rightarrow> string" where
  "bookingConflictReason reason = (case reason of
     Some r \<Rightarrow> if r = '''' then sr ''Termin vi~se nije dostupan.'' else lookup_text bookingMessages r
   | None \<Rightarrow> sr ''Termin vi~se nije dostupan.'')"

definition reservationApiErrorMessage :: "cause \<Rightarrow> string \<Rightarrow> string" where
  "reservationApiErrorMessage e fallback =
     (let original = apiErrorMessage e fallback
      in case Option.bind (apiErrorDetails e) err_message of
           Some m \<Rightarrow> if m = '''' then original
             else replace_first m (bookingConflictReason (Some m)) original
         | None \<Rightarrow> original)"

subsection \<open>Facts the components share\<close>

lemma cause_status_axios: "cause_status e = Some s \<Longrightarrow> is_axios e"
  by (auto simp: cause_status_def cause_response_def is_axios_def split: cause.splits)

text \<open>
  A text reported by the server never reaches the user when the status is 500 or
  above, 413 or 429: what is shown depends on the fallback and the request id only.
\<close>

theorem server_text_hidden:
  assumes "status = 413 \<or> status = 429 \<or> 500 \<le> status"
  shows "userFacingApiError (Some status) m rid fallback = userFacingApiError (Some status) None rid fallback"
  using assms by (auto simp: userFacingApiError_def)

theorem server_text_hidden_witness:
  "userFacingApiError (Some 503) (Some ''SQL error'') None ''Pokusajte ponovo.'' = ''Pokusajte ponovo.''"
  using server_text_hidden [of 503 "Some ''SQL error''" None "''Pokusajte ponovo.''"]
  by (simp add: userFacingApiError_def)

end
