(* ===== verification/Idempotency.thy ===== *)
theory Idempotency
  imports ApiErrors
begin

section \<open>Idempotency keys and the commands that use them\<close>

text \<open>
  Models the class \<open>IdempotencyKeyManager\<close> of \<open>api/idempotency.ts\<close> and the hook
  \<open>useFinancialCommand\<close> of \<open>gaming/useFinancialCommand.tsx\<close>. The value \<open>generate()\<close> would
  return is an argument of \<open>begin\<close>.

  Two interfaces are stated as locales. \<open>key_manager_spec\<close> is what a sender relies on: a key is kept
  while the outcome of a request is unknown and dropped otherwise. \<open>idempotent_sender\<close> is what every
  sender promises to the server: a key that was sent with one request is never sent with another.
\<close>

subsection \<open>The key manager\<close>

record key_manager =
  km_key :: "string option"
  km_uncertain :: bool

definition new_manager :: key_manager where
  "new_manager = \<lparr>km_key = None, km_uncertain = False\<rparr>"

definition km_begin :: "string \<Rightarrow> key_manager \<Rightarrow> string \<times> key_manager" where
  "km_begin generated m =
     (case km_key m of
        Some k \<Rightarrow> (k, m)
      | None \<Rightarrow> (generated, m\<lparr>km_key := Some generated\<rparr>))"

definition km_succeeded :: "key_manager \<Rightarrow> key_manager" where
  "km_succeeded m = m\<lparr>km_key := None, km_uncertain := False\<rparr>"

definition mentions_key :: "string \<Rightarrow> bool" where
  \<comment> \<open>\<open>/idempotency[- ]?key/i\<close>\<close>
  "mentions_key s = (let t = to_lower s in str_includes ''idempotency-key'' t
     \<or> str_includes ''idempotency key'' t \<or> str_includes ''idempotencykey'' t)"

definition retainForRetry :: "cause \<Rightarrow> key_manager \<Rightarrow> bool" where
  "retainForRetry e m \<longleftrightarrow> is_axios e \<and>
     (case cause_status e of
        None \<Rightarrow> True
      | Some s \<Rightarrow> s = 425 \<or> s \<ge> 500
          \<or> s = 409 \<and> mentions_key (case cause_message e of Some t \<Rightarrow> t | None \<Rightarrow> '''')
          \<or> km_uncertain m \<and> (s = 401 \<or> s = 403))"

definition km_failed :: "cause \<Rightarrow> key_manager \<Rightarrow> key_manager" where
  "km_failed e m = (if retainForRetry e m then m\<lparr>km_uncertain := True\<rparr>
     else m\<lparr>km_uncertain := False, km_key := None\<rparr>)"

definition km_pendingKey :: "key_manager \<Rightarrow> string option" where
  "km_pendingKey m = km_key m"

subsection \<open>The interface of a key manager\<close>

locale key_manager_spec =
  fixes begin_key :: "'k \<Rightarrow> 'm \<Rightarrow> 'k \<times> 'm"
    and succeeded :: "'m \<Rightarrow> 'm"
    and failed :: "'e \<Rightarrow> 'm \<Rightarrow> 'm"
    and pending :: "'m \<Rightarrow> 'k option"
    and retained :: "'e \<Rightarrow> 'm \<Rightarrow> bool"
  assumes begin_pending: "pending (snd (begin_key g m)) = Some (fst (begin_key g m))"
    and begin_again: "pending m = Some k \<Longrightarrow> begin_key g m = (k, m)"
    and begin_new: "pending m = None \<Longrightarrow> fst (begin_key g m) = g"
    and succeeded_pending: "pending (succeeded m) = None"
    and failed_pending: "pending (failed e m) = (if retained e m then pending m else None)"
begin

text \<open>
  A sequence of attempts: each begins with a generated key at hand and ends in success (None) or in
  a failure. \<open>keys_used\<close> lists the keys that were sent.
\<close>

fun keys_used :: "('k \<times> 'e option) list \<Rightarrow> 'm \<Rightarrow> 'k list" where
  "keys_used [] m = []"
| "keys_used ((g, out) # rest) m =
     (let (k, m') = begin_key g m
      in k # keys_used rest (case out of None \<Rightarrow> succeeded m' | Some e \<Rightarrow> failed e m'))"

fun unresolved :: "('k \<times> 'e option) list \<Rightarrow> 'm \<Rightarrow> bool" where
  "unresolved [] m = True"
| "unresolved ((g, out) # rest) m =
     (let (k, m') = begin_key g m
      in case out of None \<Rightarrow> False | Some e \<Rightarrow> retained e m' \<and> unresolved rest (failed e m'))"

lemma keys_used_pending:
  "pending m = Some k \<Longrightarrow> unresolved as m \<Longrightarrow> set (keys_used as m) \<subseteq> {k}"
proof (induction as arbitrary: m)
  case (Cons a as)
  obtain g out where a: "a = (g, out)" by (cases a)
  from Cons.prems a begin_again obtain e where
    "out = Some e" "retained e m" "unresolved as (failed e m)"
    by (auto simp: Let_def split: option.splits prod.splits)
  moreover from this Cons.prems(1) have "pending (failed e m) = Some k"
    by (simp add: failed_pending)
  ultimately show ?case using Cons.IH Cons.prems(1) a begin_again by auto
qed simp

lemma keys_used_same:
  assumes "unresolved ((g, out) # as) m" and "k \<in> set (keys_used ((g, out) # as) m)"
  shows "k = fst (begin_key g m)"
proof -
  obtain k' m' where b: "begin_key g m = (k', m')" by fastforce
  with assms(1) obtain e where e: "out = Some e" "retained e m'" "unresolved as (failed e m')"
    by (auto split: option.splits)
  from b begin_pending [of g m] e have "pending (failed e m') = Some k'"
    by (simp add: failed_pending)
  with keys_used_pending e have "set (keys_used as (failed e m')) \<subseteq> {k'}" by blast
  with assms(2) b e show ?thesis by auto
qed

end

interpretation km: key_manager_spec km_begin km_succeeded km_failed km_pendingKey retainForRetry
  by unfold_locales
    (auto simp: km_begin_def km_succeeded_def km_failed_def km_pendingKey_def split: option.splits)

lemmas km_laws = km.begin_pending km.begin_again km.begin_new km.succeeded_pending km.failed_pending

subsection \<open>The interface of a sender\<close>

locale idempotent_sender =
  fixes init :: "'s \<Rightarrow> bool"
    and step :: "'s \<Rightarrow> 's \<Rightarrow> bool"
    and sent :: "'s \<Rightarrow> ('k \<times> 'r) list" \<comment> \<open>what went out so far\<close>
    and held :: "'s \<Rightarrow> ('k \<times> 'r) set" \<comment> \<open>what may go out again\<close>
    and ok :: "'s \<Rightarrow> bool"
  assumes init_ok: "init s \<Longrightarrow> ok s \<and> sent s = [] \<and> held s = {}"
    and step_ok: "ok s \<Longrightarrow> step s t \<Longrightarrow> ok t"
    and step_sends: "ok s \<Longrightarrow> step s t \<Longrightarrow>
      sent t = sent s \<and> held t \<subseteq> held s
      \<or> (\<exists>k r. sent t = sent s @ [(k, r)] \<and> held t \<subseteq> insert (k, r) (held s)
           \<and> ((k, r) \<in> held s \<or> k \<notin> fst ` set (sent s)))"
begin

inductive reach :: "'s \<Rightarrow> bool" where
  start: "init s \<Longrightarrow> reach s"
| next_step: "reach s \<Longrightarrow> step s t \<Longrightarrow> reach t"

definition one_request_per_key :: "'s \<Rightarrow> bool" where
  "one_request_per_key s \<longleftrightarrow> (\<forall>k r r'. (k, r) \<in> set (sent s) \<longrightarrow> (k, r') \<in> set (sent s) \<longrightarrow> r = r')"

lemma reach_inv: "reach s \<Longrightarrow> ok s \<and> one_request_per_key s \<and> held s \<subseteq> set (sent s)"
proof (induction rule: reach.induct)
  case (start s)
  then show ?case using init_ok by (simp add: one_request_per_key_def)
next
  case (next_step s t)
  then have "ok t" using step_ok by blast
  from next_step have IH: "one_request_per_key s" "held s \<subseteq> set (sent s)" by auto
  have "sent t = sent s \<and> held t \<subseteq> held s
      \<or> (\<exists>k r. sent t = sent s @ [(k, r)] \<and> held t \<subseteq> insert (k, r) (held s)
           \<and> ((k, r) \<in> held s \<or> k \<notin> fst ` set (sent s)))"
    using next_step by (intro step_sends) auto
  then show ?case
  proof (elim disjE exE conjE)
    assume "sent t = sent s" "held t \<subseteq> held s"
    with IH \<open>ok t\<close> show ?thesis by (auto simp: one_request_per_key_def)
  next
    fix k r
    assume s: "sent t = sent s @ [(k, r)]" and h: "held t \<subseteq> insert (k, r) (held s)"
      and "(k, r) \<in> held s"
    with IH(2) have "(k, r) \<in> set (sent s)" by blast
    with IH(1) s have "one_request_per_key t" unfolding one_request_per_key_def by auto
    with s h IH(2) \<open>ok t\<close> show ?thesis by auto
  next
    fix k r
    assume s: "sent t = sent s @ [(k, r)]" and h: "held t \<subseteq> insert (k, r) (held s)"
      and "k \<notin> fst ` set (sent s)"
    with IH(1) s have "one_request_per_key t"
      unfolding one_request_per_key_def by (auto simp: image_iff)
    with s h IH(2) \<open>ok t\<close> show ?thesis by auto
  qed
qed

lemma key_determines_request:
  "reach s \<Longrightarrow> (k, r) \<in> set (sent s) \<Longrightarrow> (k, r') \<in> set (sent s) \<Longrightarrow> r = r'"
  using reach_inv unfolding one_request_per_key_def by blast

end

subsection \<open>Financial commands\<close>

text \<open>
  \<open>useFinancialCommand\<close>: \<open>run\<close> up to its \<open>await\<close> is \<open>fin_start\<close>, what follows is
  \<open>fin_finish\<close>. \<open>'r\<close> is the operation the caller passed.
\<close>

record 'r fin_command =
  fc_gate :: bool
  fc_key :: key_manager
  fc_previous :: "'r option"
  fc_busy :: bool
  fc_pending :: bool
  fc_error :: string

definition fin_initial :: "'r fin_command" where
  "fin_initial = \<lparr>fc_gate = False, fc_key = new_manager, fc_previous = None,
     fc_busy = False, fc_pending = False, fc_error = ''''\<rparr>"

definition fin_start :: "string \<Rightarrow> 'r \<Rightarrow> 'r fin_command \<Rightarrow> 'r fin_command \<times> (string \<times> 'r) option" where
  \<comment> \<open>the request that goes out, with the key it carries\<close>
  "fin_start generated operation s =
     (if fc_gate s then (s, None)
      else
        let request = (case fc_previous s of Some r \<Rightarrow> r | None \<Rightarrow> operation);
            (k, m) = km_begin generated (fc_key s)
        in (s\<lparr>fc_gate := True, fc_busy := True, fc_error := '''', fc_key := m\<rparr>, Some (k, request)))"

definition fin_finish :: "'r \<Rightarrow> cause option \<Rightarrow> 'r fin_command \<Rightarrow> 'r fin_command" where
  \<comment> \<open>after a success the code opens the gate once the awaited reads have been marked as out of date; it is opened here
    at once, which allows further orders of events and forbids none\<close>
  "fin_finish request outcome s =
     (case outcome of
        None \<Rightarrow> s\<lparr>fc_key := km_succeeded (fc_key s), fc_previous := None, fc_pending := False,
                  fc_gate := False, fc_busy := False\<rparr>
      | Some e \<Rightarrow>
          let m = km_failed e (fc_key s);
              previous = (if km_pendingKey m \<noteq> None then Some request else None)
          in s\<lparr>fc_key := m, fc_previous := previous, fc_pending := (previous \<noteq> None),
               fc_error := apiErrorMessage e ''Operacija nije uspela.'',
               fc_gate := False, fc_busy := False\<rparr>)"

definition fin_locked :: "'r fin_command \<Rightarrow> bool" where
  "fin_locked s = (fc_busy s \<or> fc_pending s)"

text \<open>
  The hook with the server's view of it: the request in flight and the log of what was sent. A
  generated key is one that was never sent before (\<open>crypto.randomUUID\<close>).
\<close>

record 'r fin_system =
  fs_cmd :: "'r fin_command"
  fs_flight :: "(string \<times> 'r) option"
  fs_sent :: "(string \<times> 'r) list"

inductive fin_step :: "'r fin_system \<Rightarrow> 'r fin_system \<Rightarrow> bool" where
  fin_run: "fin_start g op (fs_cmd s) = (c, Some (k, r)) \<Longrightarrow> g \<notin> fst ` set (fs_sent s) \<Longrightarrow>
    fin_step s (s\<lparr>fs_cmd := c, fs_flight := Some (k, r), fs_sent := fs_sent s @ [(k, r)]\<rparr>)"
| fin_ignored: "fin_start g op (fs_cmd s) = (c, None) \<Longrightarrow> fin_step s (s\<lparr>fs_cmd := c\<rparr>)"
| fin_done: "fs_flight s = Some (k, r) \<Longrightarrow>
    fin_step s (s\<lparr>fs_cmd := fin_finish r outcome (fs_cmd s), fs_flight := None\<rparr>)"

definition fin_init :: "'r fin_system \<Rightarrow> bool" where
  "fin_init s \<longleftrightarrow> s = \<lparr>fs_cmd = fin_initial, fs_flight = None, fs_sent = []\<rparr>"

definition fin_held :: "'r fin_system \<Rightarrow> (string \<times> 'r) set" where
  "fin_held s = (case fs_flight s of
     Some p \<Rightarrow> {p}
   | None \<Rightarrow> (case (km_pendingKey (fc_key (fs_cmd s)), fc_previous (fs_cmd s)) of
       (Some k, Some r) \<Rightarrow> {(k, r)} | _ \<Rightarrow> {}))"

definition fin_ok :: "'r fin_system \<Rightarrow> bool" where
  "fin_ok s \<longleftrightarrow>
     (case fs_flight s of
        Some (k, r) \<Rightarrow> fc_gate (fs_cmd s) \<and> km_pendingKey (fc_key (fs_cmd s)) = Some k
      | None \<Rightarrow> \<not> fc_gate (fs_cmd s)
          \<and> (km_pendingKey (fc_key (fs_cmd s)) = None \<longleftrightarrow> fc_previous (fs_cmd s) = None))
     \<and> fc_pending (fs_cmd s) = (fc_previous (fs_cmd s) \<noteq> None)
     \<and> fc_busy (fs_cmd s) = fc_gate (fs_cmd s)"

inductive_cases fin_stepE: "fin_step s t"

lemma fin_finish_simps:
  "fc_gate (fin_finish r out c) = False"
  "fc_busy (fin_finish r out c) = False"
  "km_pendingKey (fc_key (fin_finish r out c)) =
     (case out of None \<Rightarrow> None
      | Some e \<Rightarrow> if retainForRetry e (fc_key c) then km_pendingKey (fc_key c) else None)"
  "fc_previous (fin_finish r out c) =
     (if km_pendingKey (fc_key (fin_finish r out c)) = None then None else Some r)"
  "fc_pending (fin_finish r out c) = (fc_previous (fin_finish r out c) \<noteq> None)"
  by (auto simp: fin_finish_def Let_def km_laws split: option.splits)

lemma fin_step_ok: "fin_ok s \<Longrightarrow> fin_step s t \<Longrightarrow> fin_ok t"
  by (erule fin_stepE)
    (auto simp: fin_ok_def fin_start_def fin_finish_simps Let_def km_begin_def km_pendingKey_def
      split: option.splits if_splits)

lemma fin_step_sends:
  assumes "fin_ok s" and "fin_step s t"
  shows "fs_sent t = fs_sent s \<and> fin_held t \<subseteq> fin_held s
      \<or> (\<exists>k r. fs_sent t = fs_sent s @ [(k, r)] \<and> fin_held t \<subseteq> insert (k, r) (fin_held s)
           \<and> ((k, r) \<in> fin_held s \<or> k \<notin> fst ` set (fs_sent s)))"
  using assms(2)
proof cases
  case (fin_run g op c k r)
  with assms(1) show ?thesis
    by (auto simp: fin_ok_def fin_held_def fin_start_def Let_def km_begin_def km_pendingKey_def
        split: option.splits if_splits prod.splits)
next
  case (fin_ignored g op c)
  then show ?thesis by (auto simp: fin_start_def fin_held_def Let_def split: if_splits prod.splits)
next
  case (fin_done k r outcome)
  with assms(1) show ?thesis
    by (auto simp: fin_ok_def fin_held_def fin_finish_simps split: option.splits)
qed

interpretation fin: idempotent_sender fin_init fin_step fs_sent fin_held fin_ok
proof unfold_locales
  show "fin_ok s \<and> fs_sent s = [] \<and> fin_held s = {}" if "fin_init s" for s :: "'a fin_system"
    using that by (simp add: fin_init_def fin_ok_def fin_held_def fin_initial_def new_manager_def
        km_pendingKey_def)
qed (fact fin_step_ok, fact fin_step_sends)

text \<open>
  What the server does with the attempts of one command. An attempt is the key \<open>generate\<close> would give, whether
  the server carried the command out while it had the request, and the outcome the client sees (None for a success).
  \<open>answer_possible\<close> is the server's documented contract (\<open>docs/reference/API.md\<close>, "Idempotency"): only a command
  that was carried out is answered with a success, and a key under which it was carried out is answered with the
  stored success; otherwise nothing comes back, a proxy reports a failure (5xx), the key is still being processed
  (425), or a repetition is stopped by the check of the session, which comes first (401, 403). Where nothing was
  carried out any error may come back.
\<close>

type_synonym attempt = "string \<times> bool \<times> cause option"

definition answer_possible :: "bool \<Rightarrow> bool \<Rightarrow> cause option \<Rightarrow> bool" where
  "answer_possible before now outcome \<longleftrightarrow> (case outcome of
     None \<Rightarrow> now
   | Some e \<Rightarrow> now \<longrightarrow> (\<exists>r. e = AxiosError r \<and> (case r of
       None \<Rightarrow> True
     | Some a \<Rightarrow> hr_status a = 425 \<or> 500 \<le> hr_status a \<or> before \<and> (hr_status a = 401 \<or> hr_status a = 403))))"

definition after_attempt :: "cause option \<Rightarrow> key_manager \<Rightarrow> key_manager" where
  "after_attempt outcome m = (case outcome of None \<Rightarrow> km_succeeded m | Some e \<Rightarrow> km_failed e m)"

fun carried_out :: "attempt list \<Rightarrow> key_manager \<Rightarrow> string set \<Rightarrow> string set" where
  \<comment> \<open>the keys under which the server carried the command out; it does so once for each key\<close>
  "carried_out [] m S = S"
| "carried_out ((g, acted, outcome) # rest) m S = (let (k, m') = km_begin g m
     in carried_out rest (after_attempt outcome m') (if acted then insert k S else S))"

fun server_honest :: "attempt list \<Rightarrow> key_manager \<Rightarrow> string set \<Rightarrow> bool" where
  "server_honest [] m S \<longleftrightarrow> True"
| "server_honest ((g, acted, outcome) # rest) m S \<longleftrightarrow> (let (k, m') = km_begin g m; S' = (if acted then insert k S else S)
     in answer_possible (k \<in> S) (k \<in> S') outcome \<and> server_honest rest (after_attempt outcome m') S')"

definition at_most_this_key :: "key_manager \<Rightarrow> string set \<Rightarrow> bool" where
  \<comment> \<open>what was carried out was carried out under the key in hand, which is then marked\<close>
  "at_most_this_key m S \<longleftrightarrow> S = {} \<or> (\<exists>k. S = {k} \<and> km_key m = Some k \<and> km_uncertain m)"

lemma attempt_keeps_key:
  assumes "at_most_this_key m S" and b: "km_begin g m = (k, m')" and S': "S' = (if acted then insert k S else S)"
    and a: "answer_possible (k \<in> S) (k \<in> S') outcome"
  shows "outcome = None \<longrightarrow> S' = {k}" and "outcome \<noteq> None \<longrightarrow> at_most_this_key (after_attempt outcome m') S'"
proof -
  have k: "km_key m' = Some k" "km_uncertain m' = km_uncertain m" "\<And>j. km_key m = Some j \<Longrightarrow> j = k"
    using b by (cases "km_key m"; simp add: km_begin_def; force)+
  have o: "S = {} \<or> S = {k} \<and> km_uncertain m"
    using assms(1) k(3) unfolding at_most_this_key_def by blast
  then have s: "S' = {} \<or> S' = {k}" using S' by (cases acted) auto
  show "outcome = None \<longrightarrow> S' = {k}" using a s by (simp add: answer_possible_def split: option.splits) blast
  show "outcome \<noteq> None \<longrightarrow> at_most_this_key (after_attempt outcome m') S'"
  proof
    assume "outcome \<noteq> None"
    then obtain e where e: "outcome = Some e" by blast
    show "at_most_this_key (after_attempt outcome m') S'"
    proof (cases "k \<in> S'")
      case True
      with a e obtain r where r: "e = AxiosError r" "\<forall>x. r = Some x \<longrightarrow> hr_status x = 425 \<or> 500 \<le> hr_status x
          \<or> k \<in> S \<and> (hr_status x = 401 \<or> hr_status x = 403)"
        unfolding answer_possible_def by (auto split: option.splits)
      moreover have "k \<in> S \<Longrightarrow> km_uncertain m'" using o k(2) by blast
      ultimately have "retainForRetry e m'"
        by (cases r) (auto simp: retainForRetry_def is_axios_def cause_status_def cause_response_def)
      moreover have "S' = {k}" using True s by blast
      ultimately show ?thesis using k(1) e by (simp add: at_most_this_key_def after_attempt_def km_failed_def)
    next
      case False
      with s have "S' = {}" by blast
      then show ?thesis by (simp add: at_most_this_key_def)
    qed
  qed
qed

lemma carried_out_one:
  assumes "at_most_this_key m S" and "server_honest as m S" and "\<forall>a \<in> set (butlast as). snd (snd a) \<noteq> None"
  shows "(\<exists>k. carried_out as m S \<subseteq> {k}) \<and> (as \<noteq> [] \<and> snd (snd (last as)) = None \<longrightarrow> carried_out as m S \<noteq> {})"
  using assms
proof (induction as arbitrary: m S)
  case Nil
  then show ?case by (auto simp: at_most_this_key_def)
next
  case (Cons a as)
  obtain g d out where a: "a = (g, d, out)" by (cases a)
  obtain k m' where b: "km_begin g m = (k, m')" by fastforce
  let ?S = "if d then insert k S else S"
  from Cons.prems(2) a b have h: "answer_possible (k \<in> S) (k \<in> ?S) out" "server_honest as (after_attempt out m') ?S"
    by (simp_all add: Let_def)
  note step = attempt_keeps_key [OF Cons.prems(1) b refl h(1)]
  have c: "carried_out (a # as) m S = carried_out as (after_attempt out m') ?S" using a b by simp
  show ?case
  proof (cases "as = []")
    case True
    have "?S = {} \<or> (\<exists>j. ?S = {j})" if "out \<noteq> None"
      using step(2) that unfolding at_most_this_key_def by blast
    with step(1) have x: "?S = {} \<or> (\<exists>j. ?S = {j})" "out = None \<longrightarrow> ?S = {k}" by blast+
    have e: "carried_out (a # as) m S = ?S" "snd (snd (last (a # as))) = out" using c True a by simp_all
    show ?thesis unfolding e
    proof (intro conjI impI)
      show "\<exists>k. ?S \<subseteq> {k}" using x(1) by (metis empty_subsetI subset_refl)
      show "?S \<noteq> {}" if "a # as \<noteq> [] \<and> out = None" using x(2) that by simp
    qed
  next
    case False
    with Cons.prems(3) a have "out \<noteq> None" "\<forall>a \<in> set (butlast as). snd (snd a) \<noteq> None" by auto
    with step(2) have "at_most_this_key (after_attempt out m') ?S" by blast
    from Cons.IH [OF this h(2)] \<open>\<forall>a \<in> set (butlast as). snd (snd a) \<noteq> None\<close> show ?thesis using c False by simp
  qed
qed

subsection \<open>Properties\<close>


definition lost_denied_repeated :: "attempt list" where
  \<comment> \<open>refused, then carried out with the answer lost, denied, and at last confirmed\<close>
  "lost_denied_repeated = [
     (''k1'', False, Some (AxiosError (Some \<lparr>hr_status = 422, hr_data = None\<rparr>))),
     (''k2'', True, Some (AxiosError None)),
     (''k3'', False, Some (AxiosError (Some \<lparr>hr_status = 401, hr_data = None\<rparr>))),
     (''k4'', False, None)]"


text \<open>
  Property C7: across any history of clicks, retries and outcomes, \<open>useFinancialCommand\<close> never
  sends one idempotency key with two different operations; a retry after an unknown outcome repeats
  the operation the key was first sent with, even when the caller passes another one.
\<close>

theorem financial_key_determines_operation:
  assumes "fin.reach s" and "(k, r) \<in> set (fs_sent s)" and "(k, r') \<in> set (fs_sent s)"
  shows "r = r'"
  using assms by (rule fin.key_determines_request)

theorem financial_key_determines_operation_witness:
  "\<exists>s :: nat fin_system. fin.reach s \<and> fs_sent s = [(''k1'', 500), (''k1'', 500)] \<and> (500 :: nat) = 500"
proof -
  note eval = fin_init_def fin_start_def fin_finish_def fin_initial_def new_manager_def km_begin_def
    km_failed_def retainForRetry_def is_axios_def cause_status_def cause_response_def km_pendingKey_def
  define s0 :: "nat fin_system" where "s0 = \<lparr>fs_cmd = fin_initial, fs_flight = None, fs_sent = []\<rparr>"
  define s1 where "s1 = s0\<lparr>fs_cmd := fst (fin_start ''k1'' 500 (fs_cmd s0)),
    fs_flight := Some (''k1'', 500), fs_sent := [(''k1'', 500)]\<rparr>"
  define s2 where "s2 = s1\<lparr>fs_cmd := fin_finish 500 (Some (AxiosError None)) (fs_cmd s1), fs_flight := None\<rparr>"
  define s3 where "s3 = s2\<lparr>fs_cmd := fst (fin_start ''k2'' 700 (fs_cmd s2)),
    fs_flight := Some (''k1'', 500), fs_sent := [(''k1'', 500), (''k1'', 500)]\<rparr>"
  have r0: "fin.reach s0" by (rule fin.start) (simp add: fin_init_def s0_def)
  have "fin_step s0 s1"
    using fin_run [of "''k1''" 500 s0 "fst (fin_start ''k1'' 500 (fs_cmd s0))" "''k1''" 500]
    by (simp add: s1_def s0_def eval)
  with r0 have r1: "fin.reach s1" by (rule fin.next_step)
  have "fin_step s1 s2" unfolding s2_def by (rule fin_done [where k = "''k1''"]) (simp add: s1_def)
  with r1 have r2: "fin.reach s2" by (rule fin.next_step)
  have "fin_step s2 s3"
    using fin_run [of "''k2''" 700 s2 "fst (fin_start ''k2'' 700 (fs_cmd s2))" "''k1''" 500]
    by (simp add: s3_def s2_def s1_def s0_def eval)
  with r2 have r3: "fin.reach s3" by (rule fin.next_step)
  have "fs_sent s3 = [(''k1'', 500), (''k1'', 500)]" by (simp add: s3_def)
  with r3 financial_key_determines_operation [OF r3, of "''k1''" 500 500] show ?thesis by auto
qed

end
