(* ===== verification/Gaming.thy ===== *)
theory Gaming
  imports Idempotency DateTime Reservations
begin

section \<open>Gaming stations, sessions and prepaid time\<close>

text \<open>
  Models \<open>types/gamingSession.types.ts\<close>, \<open>api/gamingSessionApi.ts\<close>, \<open>api/gamingTimeApi.ts\<close>,
  \<open>api/gamingBillingApi.ts\<close> and, under \<open>gaming/\<close>, \<open>operationsPresentation.ts\<close>,
  \<open>presentation.ts\<close>, \<open>freshness.ts\<close>, \<open>GamingBoardPagination.model.ts\<close>,
  \<open>useGamingPurchase.ts\<close> and \<open>useGamingCommands.tsx\<close>.

  \<open>terminateRequest\<close> of \<open>useGamingCommands\<close> is split at its two awaits into
  \<open>terminate_start\<close>, \<open>terminate_settle\<close> and \<open>command_release\<close>; it keeps one
  \<open>IdempotencyKeyManager\<close> per signature of a request and implements \<open>idempotent_sender\<close>.
\<close>

subsection \<open>Types\<close>

datatype gaming_session_status = G_ACTIVE | G_EXPIRED | G_TERMINATED

datatype billing_mode = TIME_BALANCE | HISTORICAL

record gaming_session =
  gs_id :: string
  gs_customerId :: "string option"
  gs_resourceId :: string
  gs_locationId :: string
  gs_reservationId :: "string option"
  gs_startedBy :: string
  gs_startedAt :: string
  gs_endsAt :: string
  gs_endedAt :: "string option"
  gs_status :: gaming_session_status
  gs_terminationReason :: "string option"
  gs_remainingSeconds :: rat
  gs_serverTime :: string
  gs_version :: int
  gs_billingMode :: "billing_mode option"
  gs_billedSeconds :: "rat option"
  gs_lastCommandSequence :: "int option"

record gaming_session_event =
  ge_eventId :: string
  ge_type :: string
  ge_sessionId :: string
  ge_occurredAt :: string

datatype gaming_station_board_status =
    B_WAITING_FOR_LOGIN | B_CLIENT_ERROR | B_PREPARATION_REQUIRED | B_TRANSFER_PENDING | B_AVAILABLE
  | B_ACTIVE | B_MAINTENANCE | B_RETIRED | B_OFFLINE | B_EXPIRED | B_LOCK_PENDING

datatype gaming_station_action =
    CANCEL_ASSIGNMENT | START | EXTEND | TERMINATE | FORCE_LOCK | CONFIRM_LOCKED

datatype enforcement_status =
    E_DEV_ACTIVE | E_DEV_READY | E_UNKNOWN | E_UNLOCKED | E_LOCK_PENDING | E_LOCKED | E_OFFLINE

datatype client_mode = DEVELOPMENT | PRODUCTION

record gaming_station_card =
  st_billingMode :: "billing_mode option"
  st_billedSeconds :: "rat option"
  st_assignmentId :: "string option"
  st_assignmentExpiresAt :: "string option"
  st_resourceId :: string
  st_resourceCode :: string
  st_resourceName :: string
  st_locationId :: string
  st_status :: gaming_station_board_status
  st_clientEnabled :: bool
  st_lastHeartbeatAt :: "string option"
  st_staleHeartbeat :: bool
  st_enforcementStatus :: enforcement_status
  st_lastLockAckAt :: "string option"
  st_sessionId :: "string option"
  st_customerId :: "string option"
  st_customerDisplayName :: "string option"
  st_startedAt :: "string option"
  st_endsAt :: "string option"
  st_remainingSeconds :: rat
  st_sessionVersion :: "int option"
  st_allowedActions :: "gaming_station_action list"
  st_areaId :: "string option"
  st_operationalStatus :: "string option"
  st_effectiveStatus :: "string option"
  st_applicationProfileName :: "string option"
  st_configurationVersion :: "int option"
  st_clientVersion :: "string option"
  st_commandSequence :: "int option"
  st_commandType :: "string option"
  st_commandAvailableAt :: "string option"
  st_commandAcknowledgedAt :: "string option"
  st_latestSessionId :: "string option"
  st_privacyReady :: "bool option"
  st_moveTargetId :: "string option"
  st_locationName :: "string option"
  st_areaName :: "string option"
  st_clientMode :: "client_mode option"
  st_clientErrorCode :: "string option"
  st_updateStatus :: "string option"
  st_maintenanceActive :: "bool option"

record gaming_operations_board =
  gb_serverTime :: string
  gb_stations :: "gaming_station_card list"

datatype history_category = COMMAND | ENFORCEMENT

record station_history_entry =
  she_occurredAt :: string
  she_category :: history_category
  she_action :: string
  she_status :: string
  she_commandSequence :: "int option"
  she_correlationId :: "string option"
  she_details :: "string option"

record gaming_session_visit =
  gv_billingMode :: "billing_mode option"
  gv_billedSeconds :: "rat option"
  gv_id :: string
  gv_resourceId :: string
  gv_resourceName :: string
  gv_locationId :: string
  gv_startedAt :: string
  gv_endsAt :: string
  gv_endedAt :: "string option"
  gv_status :: gaming_session_status
  gv_serverTime :: string
  gv_remainingSeconds :: rat

datatype gaming_payment_method = CASH | EXTERNAL_POS

record time_grant =
  tg_minutes :: jsnum
  tg_priceVersion :: int
  tg_method :: "gaming_payment_method option"
  tg_reference :: "string option"

record gaming_time_price =
  gp_pricePerMinute :: "string option" \<comment> \<open>\<open>String(value)\<close> of the price\<close>
  gp_version :: int

subsection \<open>Requests\<close>

definition gamingSessionApi_finish :: "string \<Rightarrow> http_request" where
  "gamingSessionApi_finish sid = api_send POST (''/gaming-sessions/'' @ sid @ ''/finish'') None"

definition gamingSessionApi_health :: http_request where
  "gamingSessionApi_health = api_get ''/gaming-operations/health'' []"

definition gamingSessionApi_myHistory :: "nat \<Rightarrow> nat \<Rightarrow> http_request" where
  "gamingSessionApi_myHistory page size_n = api_get ''/gaming-sessions/me/history''
     [(''page'', Some (jnat page)), (''size'', Some (jnat size_n))]"

definition gamingSessionApi_customerHistory :: "string \<Rightarrow> nat \<Rightarrow> nat \<Rightarrow> http_request" where
  "gamingSessionApi_customerHistory cid page size_n =
     api_get (''/gaming-sessions/customer/'' @ cid @ ''/history'')
       [(''page'', Some (jnat page)), (''size'', Some (jnat size_n))]"

definition gamingSessionApi_mine :: http_request where
  "gamingSessionApi_mine = api_get ''/gaming-sessions/me/active'' []"

definition gamingSessionApi_customerVisits :: "string \<Rightarrow> http_request" where
  "gamingSessionApi_customerVisits cid = api_get (''/gaming-sessions/customer/'' @ cid @ ''/active'') []"

definition gamingSessionApi_active :: http_request where
  "gamingSessionApi_active = api_get ''/gaming-sessions'' []"

definition gamingSessionApi_board :: "string option \<Rightarrow> http_request" where
  "gamingSessionApi_board locationId = api_get ''/gaming-operations/board''
     [(''locationId'', case locationId of
        Some l \<Rightarrow> if l = '''' then None else Some (JStr l) | None \<Rightarrow> None)]"

definition gamingSessionApi_get :: "string \<Rightarrow> http_request" where
  "gamingSessionApi_get sid = api_get (''/gaming-sessions/'' @ sid) []"

definition gamingSessionApi_terminate :: "string \<Rightarrow> string \<Rightarrow> int \<Rightarrow> string \<Rightarrow> http_request" where
  "gamingSessionApi_terminate sid reason version key = with_key key
     (api_send POST (''/gaming-sessions/'' @ sid @ ''/terminate'')
       (body [(''reason'', Some (JStr reason)), (''version'', Some (jint version))]))"

definition gamingSessionApi_forceLock :: "string \<Rightarrow> http_request" where
  "gamingSessionApi_forceLock stationId =
     api_send POST (''/gaming-operations/stations/'' @ stationId @ ''/force-lock'') None"

definition gamingSessionApi_confirmLocked :: "string \<Rightarrow> http_request" where
  "gamingSessionApi_confirmLocked stationId =
     api_send POST (''/gaming-operations/stations/'' @ stationId @ ''/confirm-locked'') None"

definition gamingSessionApi_history :: "string \<Rightarrow> nat \<Rightarrow> nat \<Rightarrow> http_request" where
  "gamingSessionApi_history stationId page size_n =
     api_get (''/gaming-operations/stations/'' @ stationId @ ''/history'')
       [(''page'', Some (jnat page)), (''size'', Some (jnat size_n))]"

fun method_text :: "gaming_payment_method \<Rightarrow> string" where
  "method_text CASH = ''CASH''"
| "method_text EXTERNAL_POS = ''EXTERNAL_POS''"

definition gamingTimeApi_price :: http_request where
  "gamingTimeApi_price = api_get ''/gaming-billing/time-price'' []"

definition gamingTimeApi_savePrice :: "gaming_time_price \<Rightarrow> http_request" where
  "gamingTimeApi_savePrice p = api_send PUT ''/gaming-billing/time-price''
     (body [(''pricePerMinute'', Some (case gp_pricePerMinute p of Some t \<Rightarrow> JStr t | None \<Rightarrow> JNull)),
       (''version'', Some (jint (gp_version p)))])"

definition gamingTimeApi_account :: "string \<Rightarrow> http_request" where
  "gamingTimeApi_account cid = api_get (''/gaming-billing/customers/'' @ cid @ ''/time'') []"

definition gamingTimeApi_history :: "string \<Rightarrow> string \<Rightarrow> nat \<Rightarrow> nat \<Rightarrow> http_request" where
  "gamingTimeApi_history cid kind page size_n =
     api_get (''/gaming-billing/customers/'' @ cid @ ''/time/'' @ kind)
       [(''page'', Some (jnat page)), (''size'', Some (jnat size_n))]"

definition gamingTimeApi_grant :: "string \<Rightarrow> time_grant \<Rightarrow> string \<Rightarrow> http_request" where
  "gamingTimeApi_grant cid g key = with_key key
     (api_send POST (''/gaming-billing/customers/'' @ cid @ ''/time-grants'')
       (body [(''minutes'', Some (JNum (tg_minutes g))), (''priceVersion'', Some (jint (tg_priceVersion g))),
         (''method'', map_option (JStr \<circ> method_text) (tg_method g)),
         (''reference'', jstr_opt (tg_reference g))]))"

definition gamingTimeApi_assign :: "string \<Rightarrow> string \<Rightarrow> string option \<Rightarrow> string \<Rightarrow> http_request" where
  "gamingTimeApi_assign customerId resourceId reservationId key = with_key key
     (api_send POST ''/gaming-billing/assignments''
       (body [(''customerId'', Some (JStr customerId)), (''resourceId'', Some (JStr resourceId)),
         (''reservationId'', jstr_opt reservationId)]))"

definition gamingTimeApi_cancel :: "string \<Rightarrow> string \<Rightarrow> http_request" where
  "gamingTimeApi_cancel aid key = with_key key
     (api_send POST (''/gaming-billing/assignments/'' @ aid @ ''/cancel'') (body []))"

definition gamingBillingApi_reportDetails :: "string \<Rightarrow> string \<Rightarrow> string \<Rightarrow> nat \<Rightarrow> nat \<Rightarrow> http_request" where
  "gamingBillingApi_reportDetails table from until page size_n =
     api_get (''/gaming-billing/report/'' @ table) [(''from'', Some (JStr from)), (''until'', Some (JStr until)),
       (''page'', Some (jnat page)), (''size'', Some (jnat size_n))]"

definition gamingBillingApi_preparation :: "string \<Rightarrow> http_request" where
  "gamingBillingApi_preparation sid =
     api_get (''/gaming-operations/stations/'' @ sid @ ''/preparation'') []"

definition gamingBillingApi_prepare :: "string \<Rightarrow> json \<Rightarrow> string \<Rightarrow> http_request" where
  "gamingBillingApi_prepare sid b key = with_key key
     (api_send POST (''/gaming-operations/stations/'' @ sid @ ''/prepare'') (Some b))"

definition gamingBillingApi_report :: "string \<Rightarrow> string \<Rightarrow> http_request" where
  "gamingBillingApi_report from until =
     api_get ''/gaming-billing/report'' [(''from'', Some (JStr from)), (''until'', Some (JStr until))]"

subsection \<open>Presentation of stations\<close>

fun actionCapabilities :: "gaming_station_action \<Rightarrow> permission" where
  "actionCapabilities CANCEL_ASSIGNMENT = GAMING_SESSION_START"
| "actionCapabilities START = GAMING_SESSION_START"
| "actionCapabilities EXTEND = GAMING_SESSION_EXTEND"
| "actionCapabilities TERMINATE = GAMING_SESSION_TERMINATE"
| "actionCapabilities FORCE_LOCK = GAMING_SESSION_TERMINATE"
| "actionCapabilities CONFIRM_LOCKED = GAMING_SESSION_TERMINATE"

definition permitsStationAction :: "auth_user option \<Rightarrow> gaming_station_card \<Rightarrow> gaming_station_action \<Rightarrow> bool" where
  "permitsStationAction actor station action \<longleftrightarrow>
     action \<in> set (st_allowedActions station) \<and> hasCapability actor (actionCapabilities action)"

definition truthy :: "string option \<Rightarrow> bool" where
  \<comment> \<open>a string that is present and not empty\<close>
  "truthy s \<longleftrightarrow> s \<noteq> None \<and> s \<noteq> Some ''''"

definition stationSeconds :: "platform \<Rightarrow> gaming_station_card \<Rightarrow> ms \<Rightarrow> rat option" where
  \<comment> \<open>None is NaN\<close>
  "stationSeconds P station now =
     (if truthy (st_moveTargetId station) then Some (st_remainingSeconds station)
      else if truthy (st_sessionId station) \<and> truthy (st_endsAt station)
      then map_option (\<lambda>t. of_int (max 0 \<lceil>of_int (t - now) / (1000 :: rat)\<rceil>)) (parse P (the (st_endsAt station)))
      else Some (st_remainingSeconds station))"

definition isExpiringStation :: "platform \<Rightarrow> gaming_station_card \<Rightarrow> ms \<Rightarrow> bool" where
  "isExpiringStation P station now \<longleftrightarrow> \<not> truthy (st_moveTargetId station) \<and> truthy (st_sessionId station)
     \<and> truthy (st_endsAt station)
     \<and> (case parse P (the (st_endsAt station)) of None \<Rightarrow> False | Some t \<Rightarrow> t - now \<le> 600000)"

definition stationTimer :: "rat \<Rightarrow> string" where
  "stationTimer seconds =
     (let v = max 0 \<lceil>seconds\<rceil>
      in join_with '':'' (map (\<lambda>p. pad_start 2 CHR ''0'' (show_nat (nat p))) [v div 3600, v mod 3600 div 60, v mod 60]))"

definition stationConnection :: "gaming_station_card \<Rightarrow> string \<times> status_tone" where
  "stationConnection station =
     (if \<not> st_clientEnabled station then (sr ''Ru~cni re~zim'', T_neutral)
      else if st_staleHeartbeat station \<or> st_status station = B_OFFLINE then (sr ''Bez potvr~dene veze'', T_danger)
      else (''Klijent povezan'', T_success))"

definition stationMessage :: "gaming_station_card \<Rightarrow> string" where
  "stationMessage station = (case st_status station of
     B_WAITING_FOR_LOGIN \<Rightarrow> sr ''Ra~cunar je dodeljen. Odbrojavanje po~cinje nakon prijave na Windows Client.''
   | B_CLIENT_ERROR \<Rightarrow> ''Client prijavljuje problem. Proverite dijagnostiku pre nove sesije.''
   | B_PREPARATION_REQUIRED \<Rightarrow> ''Proverite Windows profil i privatnost pre narednog korisnika.''
   | B_TRANSFER_PENDING \<Rightarrow> ''Stanica je rezervisana za premestanje. Ceka se izvorni Client.''
   | B_LOCK_PENDING \<Rightarrow> sr ''~Ceka se potvrda lokalnog zaklju~cavanja.''
   | B_OFFLINE \<Rightarrow> sr ''Proverite mre~zu i Windows servis klijenta.''
   | B_EXPIRED \<Rightarrow> sr ''Sesija je istekla. Proverite stanje zaklju~cavanja.''
   | B_MAINTENANCE \<Rightarrow> sr ''Ra~cunar je na odr~zavanju.''
   | B_RETIRED \<Rightarrow> sr ''Ra~cunar je van upotrebe.''
   | _ \<Rightarrow> if START \<in> set (st_allowedActions station) then ''Spreman za novu sesiju''
       else ''Pokretanje sesije trenutno nije dozvoljeno. Proverite aplikacioni profil.'')"

fun stationLabels :: "gaming_station_board_status \<Rightarrow> string" where
  "stationLabels B_WAITING_FOR_LOGIN = sr ''~Ceka prijavu''"
| "stationLabels B_CLIENT_ERROR = ''Potrebna provera Client-a''"
| "stationLabels B_PREPARATION_REQUIRED = ''Potrebna priprema privatnosti''"
| "stationLabels B_TRANSFER_PENDING = ''Rezervisano za premestanje''"
| "stationLabels B_AVAILABLE = ''Slobodan''"
| "stationLabels B_ACTIVE = ''Aktivna sesija''"
| "stationLabels B_MAINTENANCE = sr ''Odr~zavanje''"
| "stationLabels B_RETIRED = ''Van upotrebe''"
| "stationLabels B_OFFLINE = ''Bez veze''"
| "stationLabels B_EXPIRED = ''Sesija istekla''"
| "stationLabels B_LOCK_PENDING = sr ''~Ceka zaklju~cavanje''"

fun stationTones :: "gaming_station_board_status \<Rightarrow> status_tone" where
  "stationTones B_WAITING_FOR_LOGIN = T_warning"
| "stationTones B_CLIENT_ERROR = T_danger"
| "stationTones B_PREPARATION_REQUIRED = T_warning"
| "stationTones B_TRANSFER_PENDING = T_warning"
| "stationTones B_AVAILABLE = T_success"
| "stationTones B_ACTIVE = T_info"
| "stationTones B_MAINTENANCE = T_warning"
| "stationTones B_RETIRED = T_neutral"
| "stationTones B_OFFLINE = T_danger"
| "stationTones B_EXPIRED = T_warning"
| "stationTones B_LOCK_PENDING = T_warning"

fun enforcementLabels :: "enforcement_status \<Rightarrow> string" where
  "enforcementLabels E_DEV_READY = ''Development spremna (simulirano)''"
| "enforcementLabels E_DEV_ACTIVE = ''Development sesija (simulirano)''"
| "enforcementLabels E_UNKNOWN = sr ''Nepotvr~deno''"
| "enforcementLabels E_UNLOCKED = sr ''Otklju~cana''"
| "enforcementLabels E_LOCK_PENDING = sr ''~Ceka potvrdu''"
| "enforcementLabels E_LOCKED = sr ''Zaklju~cana''"
| "enforcementLabels E_OFFLINE = ''Bez veze''"

definition needsAttention :: "gaming_station_card \<Rightarrow> bool" where
  "needsAttention station \<longleftrightarrow> truthy (st_clientErrorCode station) \<or> st_updateStatus station = Some ''FAILED''
     \<or> st_staleHeartbeat station
     \<or> st_status station \<in> {B_CLIENT_ERROR, B_OFFLINE, B_LOCK_PENDING, B_EXPIRED, B_PREPARATION_REQUIRED, B_TRANSFER_PENDING}
     \<or> (case st_commandSequence station of None \<Rightarrow> False | Some n \<Rightarrow> n \<noteq> 0 \<and> \<not> truthy (st_commandAcknowledgedAt station))"

definition remaining :: "rat \<Rightarrow> string" where
  "remaining seconds =
     (let v = max 0 \<lceil>seconds\<rceil>; hours = v div 3600; minutes = v mod 3600 div 60
      in (if hours \<noteq> 0 then show_nat (nat hours) @ ''h '' else '''') @ show_nat (nat minutes) @ ''m ''
         @ pad_start 2 CHR ''0'' (show_nat (nat (v mod 60))) @ ''s'')"

definition GAMING_BOARD_MAX_AGE_MS :: int where
  "GAMING_BOARD_MAX_AGE_MS = 30000"

definition gamingBoardStale :: "platform \<Rightarrow> string option \<Rightarrow> ms \<Rightarrow> bool" where
  "gamingBoardStale P serverTime now \<longleftrightarrow> \<not> truthy serverTime
     \<or> (case parse P (the serverTime) of None \<Rightarrow> True | Some t \<Rightarrow> now - t > GAMING_BOARD_MAX_AGE_MS)"

definition is_safe_integer :: "jsnum \<Rightarrow> bool" where
  "is_safe_integer n = (case n of Num r \<Rightarrow> r = of_int \<lfloor>r\<rfloor> \<and> \<bar>r\<bar> \<le> 9007199254740991 | _ \<Rightarrow> False)"

definition readGamingPage :: "(string \<Rightarrow> jsnum) \<Rightarrow> string \<Rightarrow> int" where
  \<comment> \<open>\<open>to_number\<close> is \<open>Number(value)\<close>\<close>
  "readGamingPage to_number v = (let page = to_number v
     in case page of Num r \<Rightarrow> if is_safe_integer page \<and> 0 < r then \<lfloor>r\<rfloor> - 1 else 0 | _ \<Rightarrow> 0)"

subsection \<open>Buying time\<close>

definition price_match :: "string \<Rightarrow> (string \<times> string) option" where
  \<comment> \<open>\<open>/^(\d+)(?:\.(\d{1,2}))?$/\<close>: the whole part and the fraction, empty where it is absent\<close>
  "price_match s =
     (let w = takeWhile is_digit s; r = dropWhile is_digit s
      in if w = [] then None
         else if r = [] then Some (w, [])
         else if hd r = CHR ''.'' \<and> tl r \<noteq> [] \<and> length (tl r) \<le> 2 \<and> list_all is_digit (tl r)
         then Some (w, tl r) else None)"

definition price_cents :: "string option \<Rightarrow> nat" where
  "price_cents value = (case Option.bind value price_match of
     Some (w, f) \<Rightarrow> read_nat w * 100 + read_nat (f @ replicate (2 - length f) CHR ''0'')
   | None \<Rightarrow> 0)"

definition validMinutes :: "jsnum \<Rightarrow> bool" where
  "validMinutes m \<longleftrightarrow> is_safe_integer m \<and> (case m of Num r \<Rightarrow> 30 \<le> r \<and> r \<le> 5256000 | _ \<Rightarrow> False)"

definition purchase_total :: "string option \<Rightarrow> jsnum \<Rightarrow> nat" where
  "purchase_total price minutes = (if validMinutes minutes
     then price_cents price * (case minutes of Num r \<Rightarrow> nat \<lfloor>r\<rfloor> | _ \<Rightarrow> 0) else 0)"

definition purchase_amount :: "string option \<Rightarrow> jsnum \<Rightarrow> string option" where
  "purchase_amount price minutes =
     (let total = purchase_total price minutes
      in if 0 < total \<and> total \<le> 99999999999999
         then Some (show_nat (total div 100) @ ''.'' @ pad_start 2 CHR ''0'' (show_nat (total mod 100)))
         else None)"

record purchase_model =
  pm_customerId :: "string option"
  pm_hasAccount :: bool \<comment> \<open>\<open>!!account.data && !account.error\<close>\<close>
  pm_price :: "gaming_time_price option"
  pm_priceError :: bool
  pm_minutes :: jsnum
  pm_method :: gaming_payment_method
  pm_reference :: string

definition model_price :: "purchase_model \<Rightarrow> string option" where
  "model_price m = Option.bind (pm_price m) gp_pricePerMinute"

definition purchase_valid :: "purchase_model \<Rightarrow> bool" where
  "purchase_valid m \<longleftrightarrow> truthy (pm_customerId m) \<and> pm_hasAccount m \<and> \<not> pm_priceError m
     \<and> purchase_amount (model_price m) (pm_minutes m) \<noteq> None \<and> 0 < price_cents (model_price m)"

definition purchase_grant :: "purchase_model \<Rightarrow> time_grant" where
  "purchase_grant m = \<lparr>tg_minutes = pm_minutes m,
     tg_priceVersion = (case pm_price m of Some p \<Rightarrow> gp_version p | None \<Rightarrow> -1),
     tg_method = Some (pm_method m),
     tg_reference = (if pm_method m = EXTERNAL_POS \<and> trim (pm_reference m) \<noteq> ''''
       then Some (trim (pm_reference m)) else None)\<rparr>"

subsection \<open>Commands of the operations board\<close>

record terminate_request =
  tr_sessionId :: string
  tr_reason :: string
  tr_version :: int

record gaming_commands =
  gc_startStation :: "gaming_station_card option"
  gc_newSessionOpen :: bool
  gc_customStation :: "gaming_station_card option"
  gc_minutes :: int
  gc_endStation :: "gaming_station_card option"
  gc_historyStation :: "gaming_station_card option"
  gc_recoveryAction :: "(gaming_station_card \<times> bool) option"
  gc_error :: string
  gc_busy :: bool
  gc_hasPending :: bool
  gc_pending :: "(gaming_station_card \<times> string) option"
  gc_inFlight :: bool
  gc_keys :: "(string, key_manager) dict"

definition commands_initial :: gaming_commands where
  "commands_initial = \<lparr>gc_startStation = None, gc_newSessionOpen = False, gc_customStation = None,
     gc_minutes = 30, gc_endStation = None, gc_historyStation = None, gc_recoveryAction = None,
     gc_error = '''', gc_busy = False, gc_hasPending = False, gc_pending = None, gc_inFlight = False,
     gc_keys = []\<rparr>"

definition end_signature :: "terminate_request \<Rightarrow> string" where
  "end_signature r = ''end:'' @ tr_sessionId r @ '':'' @ show_int (tr_version r) @ '':'' @ tr_reason r"

definition station_request :: "gaming_station_card \<Rightarrow> string \<Rightarrow> terminate_request option" where
  \<comment> \<open>the guard of \<open>terminateRequest\<close>, without the one on \<open>inFlight\<close>\<close>
  "station_request station reason =
     (case (st_sessionId station, st_sessionVersion station) of
        (Some sid, Some v) \<Rightarrow>
          if sid = '''' \<or> reason = '''' then None
          else Some \<lparr>tr_sessionId = sid, tr_reason = reason, tr_version = v\<rparr>
      | _ \<Rightarrow> None)"

definition terminate_start ::
  "string \<Rightarrow> gaming_station_card \<Rightarrow> string \<Rightarrow> gaming_commands \<Rightarrow> gaming_commands \<times> (string \<times> terminate_request) option" where
  "terminate_start generated station reason c =
     (case station_request station reason of
        None \<Rightarrow> (c, None)
      | Some r \<Rightarrow>
          if gc_inFlight c then (c, None)
          else
            let signature = end_signature r;
                manager = (case map_of (gc_keys c) signature of Some m \<Rightarrow> m | None \<Rightarrow> new_manager);
                (k, manager) = km_begin generated manager
            in (c\<lparr>gc_inFlight := True, gc_busy := True, gc_error := '''',
                  gc_keys := AList.update signature manager (gc_keys c)\<rparr>, Some (k, r)))"

definition terminate_settle ::
  "gaming_station_card \<Rightarrow> terminate_request \<Rightarrow> cause option \<Rightarrow> gaming_commands \<Rightarrow> gaming_commands" where
  "terminate_settle station r outcome c =
     (let signature = end_signature r
      in case outcome of
           None \<Rightarrow> c\<lparr>gc_keys := AList.delete signature (gc_keys c), gc_pending := None,
                     gc_hasPending := False, gc_endStation := None\<rparr>
         | Some e \<Rightarrow>
             let manager = km_failed e (case map_of (gc_keys c) signature of Some m \<Rightarrow> m | None \<Rightarrow> new_manager);
                 pending = (if truthy (km_pendingKey manager) then Some (station, tr_reason r) else None)
             in c\<lparr>gc_keys := AList.update signature manager (gc_keys c), gc_pending := pending,
                  gc_hasPending := (pending \<noteq> None),
                  gc_error := apiErrorMessage e (sr ''Sesiju nije mogu~qe zavr~siti.'')\<rparr>)"

definition command_release :: "gaming_commands \<Rightarrow> gaming_commands" where
  \<comment> \<open>the inner \<open>finally\<close>, once the board was refreshed\<close>
  "command_release c = c\<lparr>gc_inFlight := False, gc_busy := False\<rparr>"

definition retryPending :: "string \<Rightarrow> gaming_commands \<Rightarrow> gaming_commands \<times> (string \<times> terminate_request) option" where
  "retryPending generated c = (case gc_pending c of
     None \<Rightarrow> (c, None) | Some (station, reason) \<Rightarrow> terminate_start generated station reason c)"

definition recover_start :: "gaming_commands \<Rightarrow> gaming_commands \<times> http_request option" where
  "recover_start c = (case gc_recoveryAction c of
     None \<Rightarrow> (c, None)
   | Some (station, confirm) \<Rightarrow>
       if gc_inFlight c then (c, None)
       else (c\<lparr>gc_inFlight := True, gc_busy := True, gc_error := ''''\<rparr>,
             Some (if confirm then gamingSessionApi_confirmLocked (st_resourceId station)
                   else gamingSessionApi_forceLock (st_resourceId station))))"

definition recover_settle :: "cause option \<Rightarrow> gaming_commands \<Rightarrow> gaming_commands" where
  "recover_settle outcome c = (case outcome of
     None \<Rightarrow> c\<lparr>gc_recoveryAction := None\<rparr>
   | Some e \<Rightarrow> c\<lparr>gc_error := apiErrorMessage e ''Recovery akcija nije uspela.''\<rparr>)"

definition openStart :: "gaming_station_card \<Rightarrow> gaming_commands \<Rightarrow> gaming_commands" where
  "openStart station c = c\<lparr>gc_error := '''', gc_startStation := Some station, gc_newSessionOpen := True\<rparr>"

definition openCustom :: "gaming_station_card \<Rightarrow> gaming_commands \<Rightarrow> gaming_commands" where
  "openCustom station c = c\<lparr>gc_error := '''', gc_minutes := 30, gc_customStation := Some station\<rparr>"

definition openEnd :: "gaming_station_card \<Rightarrow> gaming_commands \<Rightarrow> gaming_commands" where
  "openEnd station c = c\<lparr>gc_error := '''', gc_endStation := Some station\<rparr>"

definition openRecovery :: "gaming_station_card \<Rightarrow> bool \<Rightarrow> gaming_commands \<Rightarrow> gaming_commands" where
  "openRecovery station confirm c = c\<lparr>gc_error := '''', gc_recoveryAction := Some (station, confirm)\<rparr>"

text \<open>
  The hook with the server's view of it. Session ids are UUIDs, so they hold no colon; a generated
  key was never sent before.
\<close>

datatype command_phase = Idle | Terminating gaming_station_card string terminate_request | Recovering | Refreshing

record command_system =
  cs_cmd :: gaming_commands
  cs_phase :: command_phase
  cs_sent :: "(string \<times> terminate_request) list"

inductive command_step :: "command_system \<Rightarrow> command_system \<Rightarrow> bool" where
  cmd_terminate: "terminate_start g station reason (cs_cmd s) = (c, Some (k, r)) \<Longrightarrow>
     CHR '':'' \<notin> set (tr_sessionId r) \<Longrightarrow> g \<noteq> '''' \<Longrightarrow> g \<notin> fst ` set (cs_sent s) \<Longrightarrow>
     command_step s (s\<lparr>cs_cmd := c, cs_phase := Terminating station k r, cs_sent := cs_sent s @ [(k, r)]\<rparr>)"
| cmd_ignored: "terminate_start g station reason (cs_cmd s) = (c, None) \<Longrightarrow> command_step s (s\<lparr>cs_cmd := c\<rparr>)"
| cmd_settled: "cs_phase s = Terminating station k r \<Longrightarrow>
     command_step s (s\<lparr>cs_cmd := terminate_settle station r outcome (cs_cmd s), cs_phase := Refreshing\<rparr>)"
| cmd_recover: "recover_start (cs_cmd s) = (c, Some rq) \<Longrightarrow>
     command_step s (s\<lparr>cs_cmd := c, cs_phase := Recovering\<rparr>)"
| cmd_recovered: "cs_phase s = Recovering \<Longrightarrow>
     command_step s (s\<lparr>cs_cmd := recover_settle outcome (cs_cmd s), cs_phase := Refreshing\<rparr>)"
| cmd_release: "cs_phase s = Refreshing \<Longrightarrow>
     command_step s (s\<lparr>cs_cmd := command_release (cs_cmd s), cs_phase := Idle\<rparr>)"
| cmd_dialog: "op \<in> {openStart st, openCustom st, openEnd st, openRecovery st b} \<Longrightarrow>
     command_step s (s\<lparr>cs_cmd := op (cs_cmd s)\<rparr>)"

definition command_init :: "command_system \<Rightarrow> bool" where
  "command_init s \<longleftrightarrow> s = \<lparr>cs_cmd = commands_initial, cs_phase = Idle, cs_sent = []\<rparr>"

definition key_of :: "(string, key_manager) dict \<Rightarrow> string \<Rightarrow> string option" where
  "key_of keys signature = Option.bind (map_of keys signature) km_pendingKey"

definition command_held :: "command_system \<Rightarrow> (string \<times> terminate_request) set" where
  "command_held s = {(k, r). (k, r) \<in> set (cs_sent s) \<and> key_of (gc_keys (cs_cmd s)) (end_signature r) = Some k}"

definition command_ok :: "command_system \<Rightarrow> bool" where
  "command_ok s \<longleftrightarrow>
     (\<forall>(k, r) \<in> set (cs_sent s). CHR '':'' \<notin> set (tr_sessionId r))
     \<and> (\<forall>sig k. key_of (gc_keys (cs_cmd s)) sig = Some k \<longrightarrow> (\<exists>r. end_signature r = sig \<and> (k, r) \<in> set (cs_sent s)))
     \<and> (gc_inFlight (cs_cmd s) \<longleftrightarrow> cs_phase s \<noteq> Idle)"

inductive_cases command_stepE: "command_step s t"

lemma end_signature_inj:
  assumes "CHR '':'' \<notin> set (tr_sessionId a)" and "CHR '':'' \<notin> set (tr_sessionId b)"
  shows "end_signature a = end_signature b \<longleftrightarrow> a = b"
  using append_sep_eq [OF assms] append_sep_eq [of "CHR '':''" "show_int (tr_version a)" "show_int (tr_version b)"]
  by (auto simp: end_signature_def)

lemma terminate_start_sends:
  assumes "terminate_start g station reason c = (c', Some (k, r))"
  shows "\<not> gc_inFlight c" "gc_inFlight c'"
    "key_of (gc_keys c') sig = (if sig = end_signature r then Some k else key_of (gc_keys c) sig)"
    "k = (case key_of (gc_keys c) (end_signature r) of Some k \<Rightarrow> k | None \<Rightarrow> g)"
  using assms
  by (auto simp: terminate_start_def key_of_def km_begin_def km_pendingKey_def new_manager_def Let_def
      split: option.splits if_splits prod.splits)

lemma terminate_start_ignored: "terminate_start g station reason c = (c', None) \<Longrightarrow> c' = c"
  by (auto simp: terminate_start_def Let_def split: option.splits if_splits prod.splits)

lemma terminate_settle_keys:
  "gc_inFlight (terminate_settle station r outcome c) = gc_inFlight c"
  "key_of (gc_keys (terminate_settle station r outcome c)) sig = Some k \<Longrightarrow> key_of (gc_keys c) sig = Some k"
  by (auto simp: terminate_settle_def key_of_def km_failed_def km_pendingKey_def new_manager_def Let_def
      split: option.splits if_splits)

lemma recover_simps:
  "recover_start c = (c', Some rq) \<Longrightarrow> gc_keys c' = gc_keys c \<and> gc_inFlight c' \<and> \<not> gc_inFlight c"
  "gc_keys (recover_settle outcome c) = gc_keys c" "gc_inFlight (recover_settle outcome c) = gc_inFlight c"
  "gc_keys (command_release c) = gc_keys c" "\<not> gc_inFlight (command_release c)"
  by (auto simp: recover_start_def recover_settle_def command_release_def split: option.splits if_splits prod.splits)

lemma dialog_simps:
  assumes "op \<in> {openStart st, openCustom st, openEnd st, openRecovery st b}"
  shows "gc_keys (op c) = gc_keys c" "gc_inFlight (op c) = gc_inFlight c"
  using assms by (auto simp: openStart_def openCustom_def openEnd_def openRecovery_def)

lemma command_step_ok:
  assumes ok: "command_ok s" and step: "command_step s t"
  shows "command_ok t"
  using step
proof cases
  case (cmd_terminate g station reason c k r)
  from ok have sent: "\<exists>r. end_signature r = sig \<and> (k, r) \<in> set (cs_sent s)"
    if "key_of (gc_keys (cs_cmd s)) sig = Some k" for sig k using that by (simp add: command_ok_def)
  have "\<exists>q. end_signature q = sig \<and> (k', q) \<in> set (cs_sent s @ [(k, r)])" if "key_of (gc_keys c) sig = Some k'" for sig k'
    using that sent [of sig k'] terminate_start_sends(3) [OF cmd_terminate(2), of sig]
    by (auto split: if_splits)
  with cmd_terminate ok terminate_start_sends(2) [OF cmd_terminate(2)] show ?thesis
    by (auto simp: command_ok_def)
next
  case (cmd_ignored g station reason c)
  have "t = s" unfolding cmd_ignored(1) terminate_start_ignored [OF cmd_ignored(2)] by simp
  with ok show ?thesis by simp
next
  case (cmd_settled station k r outcome)
  have "cs_sent t = cs_sent s" "gc_inFlight (cs_cmd t) = gc_inFlight (cs_cmd s)" "cs_phase t = Refreshing"
    by (simp_all add: cmd_settled(1) terminate_settle_keys(1))
  moreover have "key_of (gc_keys (cs_cmd s)) sig = Some k" if "key_of (gc_keys (cs_cmd t)) sig = Some k" for sig k
    using that unfolding cmd_settled(1) by simp (rule terminate_settle_keys(2))
  moreover have "cs_phase s \<noteq> Idle" using cmd_settled(2) by simp
  ultimately show ?thesis using ok unfolding command_ok_def by auto
qed (use ok recover_simps dialog_simps in \<open>auto simp: command_ok_def\<close>)

lemma command_step_sends:
  assumes ok: "command_ok s" and step: "command_step s t"
  shows "cs_sent t = cs_sent s \<and> command_held t \<subseteq> command_held s
      \<or> (\<exists>k r. cs_sent t = cs_sent s @ [(k, r)] \<and> command_held t \<subseteq> insert (k, r) (command_held s)
           \<and> ((k, r) \<in> command_held s \<or> k \<notin> fst ` set (cs_sent s)))"
  using step
proof cases
  case (cmd_terminate g station reason c k r)
  note sends = terminate_start_sends [OF cmd_terminate(2)]
  have held: "command_held t \<subseteq> insert (k, r) (command_held s)"
  proof clarify
    fix k' r'
    assume a: "(k', r') \<in> command_held t" "(k', r') \<notin> command_held s"
    then have key: "(if end_signature r' = end_signature r then Some k else key_of (gc_keys (cs_cmd s)) (end_signature r')) = Some k'"
      and mem: "(k', r') \<in> insert (k, r) (set (cs_sent s))"
      using cmd_terminate(1) sends(3) by (auto simp: command_held_def)
    show "k' = k \<and> r' = r"
    proof (cases "end_signature r' = end_signature r")
      case True
      have "CHR '':'' \<notin> set (tr_sessionId r')" using mem ok cmd_terminate(3) by (auto simp: command_ok_def)
      with True cmd_terminate(3) have "r' = r" by (simp add: end_signature_inj)
      with key True show ?thesis by simp
    next
      case False
      with key mem a(2) show ?thesis by (auto simp: command_held_def)
    qed
  qed
  have "(k, r) \<in> command_held s \<or> k \<notin> fst ` set (cs_sent s)"
  proof (cases "key_of (gc_keys (cs_cmd s)) (end_signature r)")
    case None
    with sends(4) cmd_terminate(5) show ?thesis by simp
  next
    case (Some k')
    with sends(4) have [simp]: "k' = k" by simp
    from ok have "\<exists>q. end_signature q = sig \<and> (k, q) \<in> set (cs_sent s)"
      if "key_of (gc_keys (cs_cmd s)) sig = Some k" for sig using that by (simp add: command_ok_def)
    with Some obtain q where q: "end_signature q = end_signature r" "(k, q) \<in> set (cs_sent s)" by auto
    moreover from q(2) ok have "CHR '':'' \<notin> set (tr_sessionId q)" by (auto simp: command_ok_def)
    ultimately have "q = r" using cmd_terminate(3) by (simp add: end_signature_inj)
    with q Some show ?thesis by (simp add: command_held_def)
  qed
  with held cmd_terminate(1) show ?thesis by auto
next
  case (cmd_ignored g station reason c)
  have "t = s" unfolding cmd_ignored(1) terminate_start_ignored [OF cmd_ignored(2)] by simp
  then show ?thesis by simp
next
  case (cmd_settled station k r outcome)
  have "key_of (gc_keys (cs_cmd s)) sig = Some k" if "key_of (gc_keys (cs_cmd t)) sig = Some k" for sig k
    using that unfolding cmd_settled(1) by simp (rule terminate_settle_keys(2))
  moreover have "cs_sent t = cs_sent s" by (simp add: cmd_settled(1))
  ultimately show ?thesis unfolding command_held_def by auto
qed (use recover_simps dialog_simps in \<open>auto simp: command_held_def\<close>)

interpretation gaming: idempotent_sender command_init command_step cs_sent command_held command_ok
proof unfold_locales
  show "command_ok s \<and> cs_sent s = [] \<and> command_held s = {}" if "command_init s" for s
    using that by (simp add: command_init_def command_ok_def command_held_def commands_initial_def key_of_def)
qed (fact command_step_ok, fact command_step_sends)

subsection \<open>Amounts\<close>

lemma takeWhile_digits:
  assumes "list_all is_digit w" and "\<not> is_digit c"
  shows "takeWhile is_digit (w @ c # r) = w" "dropWhile is_digit (w @ c # r) = c # r"
  using assms by (auto simp: list_all_iff)

lemma show_nat_all_digits: "list_all is_digit (show_nat n)"
  using show_nat_digits by (auto simp: list_all_iff)

lemma price_cents_amount: "price_cents (Some (show_nat (n div 100) @ ''.'' @ pad_start 2 CHR ''0'' (show_nat (n mod 100)))) = n"
proof -
  let ?f = "pad_start 2 CHR ''0'' (show_nat (n mod 100))"
  have f: "length ?f = 2" "list_all is_digit ?f" "read_nat ?f = n mod 100"
    using pad_num_props [of "int (n mod 100)" 2] by (simp_all add: pad_num_def)
  have dot: "\<not> is_digit CHR ''.''" by (simp add: is_digit_def less_eq_char_def)
  have "price_match (show_nat (n div 100) @ CHR ''.'' # ?f) = Some (show_nat (n div 100), ?f)"
    using f takeWhile_digits [OF show_nat_all_digits dot, of "n div 100" ?f]
    by (auto simp: price_match_def Let_def)
  with f show ?thesis by (simp add: price_cents_def)
qed

subsection \<open>Properties\<close>

text \<open>
  The operations board never sends one idempotency key with two different terminations:
  across any interleaving of clicks, retries, recoveries and outcomes, the key determines the
  session, its version and the reason. (Session ids hold no colon: they are UUIDs.)
\<close>

theorem terminate_key_determines_request:
  assumes "gaming.reach s" and "(k, r) \<in> set (cs_sent s)" and "(k, r') \<in> set (cs_sent s)"
  shows "r = r'"
  using assms by (rule gaming.key_determines_request)

definition sample_station :: gaming_station_card where
  "sample_station = \<lparr>st_billingMode = None, st_billedSeconds = None, st_assignmentId = None,
     st_assignmentExpiresAt = None, st_resourceId = ''pc-1'', st_resourceCode = ''PC1'', st_resourceName = ''PC 1'',
     st_locationId = ''l'', st_status = B_ACTIVE, st_clientEnabled = True, st_lastHeartbeatAt = None,
     st_staleHeartbeat = False, st_enforcementStatus = E_UNLOCKED, st_lastLockAckAt = None,
     st_sessionId = Some ''s-1'', st_customerId = None, st_customerDisplayName = None, st_startedAt = None,
     st_endsAt = None, st_remainingSeconds = 0, st_sessionVersion = Some 3, st_allowedActions = [TERMINATE],
     st_areaId = None, st_operationalStatus = None, st_effectiveStatus = None,
     st_applicationProfileName = None, st_configurationVersion = None, st_clientVersion = None,
     st_commandSequence = None, st_commandType = None, st_commandAvailableAt = None,
     st_commandAcknowledgedAt = None, st_latestSessionId = None, st_privacyReady = None,
     st_moveTargetId = None, st_locationName = None, st_areaName = None, st_clientMode = None,
     st_clientErrorCode = None, st_updateStatus = None, st_maintenanceActive = None\<rparr>"

theorem terminate_key_determines_request_witness:
  "\<exists>s r. gaming.reach s \<and> cs_sent s = [(''k1'', r)] \<and> tr_reason r = ''kraj'' \<and> r = r"
proof -
  let ?r = "\<lparr>tr_sessionId = ''s-1'', tr_reason = ''kraj'', tr_version = 3\<rparr>"
  define s0 where "s0 = \<lparr>cs_cmd = commands_initial, cs_phase = Idle, cs_sent = []\<rparr>"
  define c where "c = fst (terminate_start ''k1'' sample_station ''kraj'' commands_initial)"
  have st: "terminate_start ''k1'' sample_station ''kraj'' commands_initial = (c, Some (''k1'', ?r))"
    by (simp add: c_def terminate_start_def station_request_def sample_station_def commands_initial_def
        km_begin_def new_manager_def)
  have "gaming.reach s0" by (rule gaming.start) (simp add: command_init_def s0_def)
  moreover have "command_step s0 (s0\<lparr>cs_cmd := c, cs_phase := Terminating sample_station ''k1'' ?r,
      cs_sent := cs_sent s0 @ [(''k1'', ?r)]\<rparr>)"
    by (rule cmd_terminate [where g = "''k1''" and reason = "''kraj''"]) (simp_all add: s0_def st)
  ultimately have r: "gaming.reach (s0\<lparr>cs_cmd := c, cs_phase := Terminating sample_station ''k1'' ?r,
      cs_sent := cs_sent s0 @ [(''k1'', ?r)]\<rparr>)" by (rule gaming.next_step)
  from terminate_key_determines_request [OF this, of "''k1''" ?r ?r]
  show ?thesis by (intro exI [of _ "s0\<lparr>cs_cmd := c, cs_phase := Terminating sample_station ''k1'' ?r,
      cs_sent := cs_sent s0 @ [(''k1'', ?r)]\<rparr>"] exI [of _ ?r]) (use r in \<open>simp add: s0_def\<close>)
qed

text \<open>
  Property C22: the amount shown for a purchase of gaming time is exact: read back with the price
  format, it is the price in cents times the minutes, with no rounding, and it is shown for whole
  minutes from 30 to 5256000 only.
\<close>

theorem purchase_amount_exact:
  assumes "purchase_amount price minutes = Some text"
  shows "\<exists>m. minutes = Num (of_nat m) \<and> 30 \<le> m \<and> m \<le> 5256000 \<and> price_cents (Some text) = price_cents price * m"
proof -
  from assms have v: "validMinutes minutes" and t: "price_cents (Some text) = purchase_total price minutes"
    by (auto simp: purchase_amount_def purchase_total_def Let_def price_cents_amount [simplified] split: if_splits)
  from v obtain r where r: "minutes = Num r" "r = of_int \<lfloor>r\<rfloor>" "30 \<le> r" "r \<le> 5256000"
    by (auto simp: validMinutes_def is_safe_integer_def split: jsnum.splits)
  have f: "30 \<le> \<lfloor>r\<rfloor>" "\<lfloor>r\<rfloor> \<le> 5256000" using r(3,4) by (simp_all add: le_floor_iff floor_le_iff)
  then have "of_nat (nat \<lfloor>r\<rfloor>) = (of_int \<lfloor>r\<rfloor> :: rat)" by simp
  with r f v t show ?thesis
    by (intro exI [of _ "nat \<lfloor>r\<rfloor>"]) (simp add: purchase_total_def le_nat_iff nat_le_iff)
qed

theorem purchase_amount_exact_witness:
  "purchase_amount (Some ''2.5'') (Num 60) = Some ''150.00''
   \<and> (\<exists>m. Num 60 = Num (of_nat m) \<and> 30 \<le> m \<and> m \<le> 5256000 \<and> price_cents (Some ''150.00'') = price_cents (Some ''2.5'') * m)"
proof -
  have "purchase_amount (Some ''2.5'') (Num 60) = Some ''150.00''"
    by (simp add: purchase_amount_def purchase_total_def validMinutes_def is_safe_integer_def price_cents_def
        price_match_def is_digit_def less_eq_char_def read_nat_def digit_val_def show_nat.simps digit_chars
        pad_start_def )
  with purchase_amount_exact [OF this] show ?thesis by simp
qed

end
