(* ===== verification/ClientStorage.thy ===== *)
theory ClientStorage
  imports Prelude
begin

section \<open>Private data in the browser\<close>

text \<open>
  Models \<open>pwa/clientStorage.ts\<close> and \<open>pwa/useEncryptedDraft.ts\<close>. The IndexedDB object store is a
  dictionary from the key path to the record; one transaction is one access of it. The Web Crypto
  calls and the JSON serializer are the record \<open>crypto\<close>, whose documented behaviour is
  \<open>crypto_ok\<close>. The key that \<open>generateKey\<close> returns, the random vector and the clock are arguments.

  \<open>draft_store\<close> is the interface the forms and the cart rely on.
\<close>

subsection \<open>Records\<close>

datatype record_kind = K_read | K_draft | K_key

datatype ('k, 'c) stored_value =
    V_read json
  | V_key 'k
  | V_draft "nat list" 'c \<comment> \<open>initialization vector and ciphertext\<close>

record ('k, 'c) stored_record =
  rec_key :: string
  rec_userId :: string
  rec_kind :: record_kind
  rec_value :: "('k, 'c) stored_value"
  rec_updatedAt :: ms

type_synonym ('k, 'c) database = "(string, ('k, 'c) stored_record) dict"

record ('k, 'c, 'p) crypto =
  cr_encrypt :: "'k \<Rightarrow> nat list \<Rightarrow> 'p \<Rightarrow> 'c"
  cr_decrypt :: "'k \<Rightarrow> nat list \<Rightarrow> 'c \<Rightarrow> 'p option"
  cr_stringify :: "json \<Rightarrow> 'p"
  cr_parse :: "'p \<Rightarrow> json option"

definition is_double :: "rat \<Rightarrow> bool" where
  \<comment> \<open>a number that an IEEE double holds exactly\<close>
  "is_double r \<longleftrightarrow> (\<exists>m :: int. \<exists>e :: nat. \<bar>m\<bar> < 2 ^ 53 \<and> (e \<le> 1074 \<and> r = of_int m / 2 ^ e \<or> e \<le> 970 \<and> r = of_int m * 2 ^ e))"

definition index_key :: "string \<Rightarrow> bool" where
  \<comment> \<open>keys of digits come first in every JavaScript object, in their numeric order\<close>
  "index_key k \<longleftrightarrow> k \<noteq> '''' \<and> list_all is_digit k"

fun storable_json :: "json \<Rightarrow> bool" where
  \<comment> \<open>what \<open>JSON.stringify\<close> writes without loss: it turns NaN and the infinities into null\<close>
  "storable_json (JNum (Num r)) = is_double r"
| "storable_json (JNum _) = False"
| "storable_json (JArr xs) = (\<forall>x \<in> set xs. storable_json x)"
| "storable_json (JObj kvs) = (distinct (map fst kvs) \<and> (\<forall>kv \<in> set kvs. \<not> index_key (fst kv) \<and> storable_json (snd kv)))"
| "storable_json _ = True"

definition crypto_ok :: "('k, 'c, 'p) crypto \<Rightarrow> bool" where
  "crypto_ok cr \<longleftrightarrow> (\<forall>k iv p. cr_decrypt cr k iv (cr_encrypt cr k iv p) = Some p)
     \<and> (\<forall>j. storable_json j \<longrightarrow> cr_parse cr (cr_stringify cr j) = Some j)"

definition put :: "('k, 'c) stored_record \<Rightarrow> ('k, 'c) database \<Rightarrow> ('k, 'c) database" where
  "put r db = AList.update (rec_key r) r db"

definition read_key :: "string \<Rightarrow> string \<Rightarrow> string" where
  "read_key userId requestKey = ''read:'' @ userId @ '':'' @ requestKey"

definition draft_key :: "string \<Rightarrow> string \<Rightarrow> string" where
  "draft_key userId form = ''draft:'' @ userId @ '':'' @ form"

definition crypto_key :: "string \<Rightarrow> string" where
  "crypto_key userId = ''key:'' @ userId"

subsection \<open>Operations\<close>

definition cacheRead :: "string \<Rightarrow> string \<Rightarrow> json \<Rightarrow> ms \<Rightarrow> ('k, 'c) database \<Rightarrow> ('k, 'c) database" where
  "cacheRead userId requestKey v now db =
     put \<lparr>rec_key = read_key userId requestKey, rec_userId = userId, rec_kind = K_read,
          rec_value = V_read v, rec_updatedAt = now\<rparr> db"

definition readCached :: "string \<Rightarrow> string \<Rightarrow> ('k, 'c) database \<Rightarrow> (json \<times> ms) option" where
  "readCached userId requestKey db =
     (case map_of db (read_key userId requestKey) of
        Some r \<Rightarrow> (case rec_value r of V_read v \<Rightarrow> Some (v, rec_updatedAt r) | _ \<Rightarrow> None)
      | None \<Rightarrow> None)"

definition stored_key :: "string \<Rightarrow> ('k, 'c) database \<Rightarrow> 'k option" where
  \<comment> \<open>the first transaction of \<open>encryptionKey\<close>\<close>
  "stored_key userId db = (case map_of db (crypto_key userId) of
     Some r \<Rightarrow> (case rec_value r of V_key k \<Rightarrow> Some k | _ \<Rightarrow> None) | None \<Rightarrow> None)"

definition put_key :: "string \<Rightarrow> 'k \<Rightarrow> ms \<Rightarrow> ('k, 'c) database \<Rightarrow> ('k, 'c) database" where
  \<comment> \<open>its second transaction\<close>
  "put_key userId k now db = put \<lparr>rec_key = crypto_key userId, rec_userId = userId, rec_kind = K_key,
     rec_value = V_key k, rec_updatedAt = now\<rparr> db"

definition encryptionKey :: "string \<Rightarrow> 'k \<Rightarrow> ms \<Rightarrow> ('k, 'c) database \<Rightarrow> 'k \<times> ('k, 'c) database" where
  "encryptionKey userId generated now db = (case stored_key userId db of
     Some k \<Rightarrow> (k, db) | None \<Rightarrow> (generated, put_key userId generated now db))"

definition draft_json :: "int \<Rightarrow> json \<Rightarrow> json" where
  "draft_json version v = JObj [(''version'', JNum (Num (of_int version))), (''value'', v)]"

definition put_draft ::
  "('k, 'c, 'p) crypto \<Rightarrow> string \<Rightarrow> string \<Rightarrow> json \<Rightarrow> int \<Rightarrow> 'k \<Rightarrow> nat list \<Rightarrow> ms \<Rightarrow> ('k, 'c) database \<Rightarrow> ('k, 'c) database" where
  "put_draft cr userId form v version k iv now db =
     put \<lparr>rec_key = draft_key userId form, rec_userId = userId, rec_kind = K_draft,
          rec_value = V_draft iv (cr_encrypt cr k iv (cr_stringify cr (draft_json version v))),
          rec_updatedAt = now\<rparr> db"

definition saveDraft ::
  "('k, 'c, 'p) crypto \<Rightarrow> 'k \<Rightarrow> nat list \<Rightarrow> ms \<Rightarrow> string \<Rightarrow> string \<Rightarrow> json \<Rightarrow> int \<Rightarrow> ('k, 'c) database \<Rightarrow> ('k, 'c) database" where
  "saveDraft cr generated iv now userId form v version db =
     (let (k, db) = encryptionKey userId generated now db
      in put_draft cr userId form v version k iv now db)"

definition deleteDraft :: "string \<Rightarrow> string \<Rightarrow> ('k, 'c) database \<Rightarrow> ('k, 'c) database" where
  "deleteDraft userId form db = AList.delete (draft_key userId form) db"

definition draft_content :: "json \<Rightarrow> (int \<times> json option) option" where
  \<comment> \<open>\<open>draft.version\<close> and \<open>draft.value\<close>; None where the version cannot be an expected one or the
    property read of \<open>null\<close> throws, which both end in \<open>deleteDraft\<close>\<close>
  "draft_content j = (case j of
     JObj kvs \<Rightarrow> (case map_of kvs ''version'' of
       Some (JNum (Num r)) \<Rightarrow> if r = of_int \<lfloor>r\<rfloor> then Some (\<lfloor>r\<rfloor>, map_of kvs ''value'') else None
     | _ \<Rightarrow> None)
   | _ \<Rightarrow> None)"

definition decode_draft :: "('k, 'c, 'p) crypto \<Rightarrow> 'k \<Rightarrow> ('k, 'c) stored_record \<Rightarrow> (int \<times> json option) option" where
  \<comment> \<open>the body of the \<open>try\<close>; None where it throws\<close>
  "decode_draft cr k r = (case rec_value r of
     V_draft iv c \<Rightarrow> Option.bind (Option.bind (cr_decrypt cr k iv c) (cr_parse cr)) draft_content
   | _ \<Rightarrow> None)"

definition loadDraft ::
  "('k, 'c, 'p) crypto \<Rightarrow> 'k \<Rightarrow> ms \<Rightarrow> string \<Rightarrow> string \<Rightarrow> int \<Rightarrow> ('k, 'c) database \<Rightarrow> json option \<times> ('k, 'c) database" where
  "loadDraft cr generated now userId form expectedVersion db =
     (case map_of db (draft_key userId form) of
        None \<Rightarrow> (None, db)
      | Some r \<Rightarrow>
          let (k, db) = encryptionKey userId generated now db
          in case decode_draft cr k r of
               Some (version, v) \<Rightarrow>
                 if version \<noteq> expectedVersion then (None, deleteDraft userId form db) else (v, db)
             | None \<Rightarrow> (None, deleteDraft userId form db))"

definition purgePrivateData :: "string option \<Rightarrow> ('k, 'c) database \<Rightarrow> ('k, 'c) database" where
  "purgePrivateData userId db = (case userId of
     None \<Rightarrow> []
   | Some u \<Rightarrow> if u = '''' then [] else filter (\<lambda>(key, r). rec_userId r \<noteq> u) db)"

subsection \<open>The invariant of the database\<close>

definition filed :: "('k, 'c) database \<Rightarrow> string \<Rightarrow> ('k, 'c) stored_record \<Rightarrow> bool" where
  \<comment> \<open>a record lies under a key of its owner, and a draft's owner has a key\<close>
  "filed db key r \<longleftrightarrow> CHR '':'' \<notin> set (rec_userId r)
     \<and> (case rec_value r of
          V_read v \<Rightarrow> \<exists>q. key = read_key (rec_userId r) q
        | V_draft iv c \<Rightarrow> (\<exists>f. key = draft_key (rec_userId r) f) \<and> stored_key (rec_userId r) db \<noteq> None
        | V_key k \<Rightarrow> key = crypto_key (rec_userId r))"

definition owned :: "('k, 'c) database \<Rightarrow> bool" where
  "owned db \<longleftrightarrow> dict_wf db \<and> (\<forall>key r. map_of db key = Some r \<longrightarrow> filed db key r)"

definition plain_id :: "string \<Rightarrow> bool" where
  \<comment> \<open>user ids are UUIDs: not empty, no colon\<close>
  "plain_id u \<longleftrightarrow> u \<noteq> '''' \<and> CHR '':'' \<notin> set u"

lemma key_forms [simp]:
  "read_key u q \<noteq> draft_key u' f" "draft_key u' f \<noteq> read_key u q" "read_key u q \<noteq> crypto_key u'"
  "crypto_key u' \<noteq> read_key u q" "draft_key u f \<noteq> crypto_key u'" "crypto_key u' \<noteq> draft_key u f"
  "crypto_key u = crypto_key v \<longleftrightarrow> u = v"
  by (simp_all add: read_key_def draft_key_def crypto_key_def)

lemma draft_key_inj [simp]:
  "CHR '':'' \<notin> set u \<Longrightarrow> CHR '':'' \<notin> set v \<Longrightarrow> draft_key u f = draft_key v g \<longleftrightarrow> u = v \<and> f = g"
  "CHR '':'' \<notin> set u \<Longrightarrow> CHR '':'' \<notin> set v \<Longrightarrow> read_key u f = read_key v g \<longleftrightarrow> u = v \<and> f = g"
  by (simp_all add: draft_key_def read_key_def append_sep_eq)

lemma owned_empty [simp]: "owned []"
  by (simp add: owned_def)

lemma owned_wf: "owned db \<Longrightarrow> dict_wf db"
  by (simp add: owned_def)

lemma ownedD: "owned db \<Longrightarrow> map_of db key = Some r \<Longrightarrow> filed db key r"
  by (simp add: owned_def)

lemma filed_mono:
  "filed db key r \<Longrightarrow> (stored_key (rec_userId r) db \<noteq> None \<Longrightarrow> stored_key (rec_userId r) db' \<noteq> None)
     \<Longrightarrow> filed db' key r"
  by (simp add: filed_def split: stored_value.splits)

lemma map_of_put [simp]: "map_of (put r db) key = (if key = rec_key r then Some r else map_of db key)"
  by (simp add: put_def)

lemma dict_wf_put [simp]: "dict_wf db \<Longrightarrow> dict_wf (put r db)"
  by (simp add: put_def)

lemma stored_key_put:
  "stored_key u (put r db) = (if rec_key r = crypto_key u
     then (case rec_value r of V_key k \<Rightarrow> Some k | _ \<Rightarrow> None) else stored_key u db)"
  by (simp add: stored_key_def put_def)

lemma owned_put:
  assumes "owned db" and "filed db (rec_key r) r"
  shows "owned (put r db)"
proof -
  have keep: "stored_key u (put r db) \<noteq> None" if "stored_key u db \<noteq> None" for u
    using assms(2) that by (cases "rec_value r") (auto simp: stored_key_put filed_def)
  have "filed (put r db) key r'" if "map_of (put r db) key = Some r'" for key r'
  proof (rule filed_mono [OF _ keep])
    show "filed db key r'" using assms that by (cases "key = rec_key r") (simp_all add: ownedD)
  qed
  then show ?thesis using assms(1) by (simp add: owned_def)
qed

lemma encryptionKey_ok:
  assumes "owned db" and "CHR '':'' \<notin> set u" and "encryptionKey u g now db = (k, db')"
  shows "owned db'" "stored_key u db' = Some k"
    "stored_key v db \<noteq> None \<Longrightarrow> stored_key v db' = stored_key v db"
    "v \<noteq> u \<Longrightarrow> stored_key v db' = stored_key v db"
    "map_of db' (draft_key v f) = map_of db (draft_key v f)"
    "map_of db' (read_key v f) = map_of db (read_key v f)"
proof -
  have p: "owned (put_key u g now db)"
    unfolding put_key_def by (rule owned_put) (use assms in \<open>simp_all add: filed_def\<close>)
  show "owned db'"
    using assms(1,3) p by (cases "stored_key u db") (auto simp: encryptionKey_def)
  show "stored_key u db' = Some k" "stored_key v db \<noteq> None \<Longrightarrow> stored_key v db' = stored_key v db"
    "v \<noteq> u \<Longrightarrow> stored_key v db' = stored_key v db"
    using assms(3) by (auto simp: encryptionKey_def put_key_def stored_key_put split: option.splits)
  show "map_of db' (draft_key v f) = map_of db (draft_key v f)"
    "map_of db' (read_key v f) = map_of db (read_key v f)"
    using assms(3) by (auto simp: encryptionKey_def put_key_def split: option.splits)
qed

lemma owned_cacheRead: "owned db \<Longrightarrow> CHR '':'' \<notin> set u \<Longrightarrow> owned (cacheRead u q v now db)"
  unfolding cacheRead_def by (rule owned_put) (auto simp: filed_def)

lemma owned_saveDraft:
  assumes "owned db" and "CHR '':'' \<notin> set u"
  shows "owned (saveDraft cr g iv now u f v ver db)"
proof -
  obtain k db' where e: "encryptionKey u g now db = (k, db')" by fastforce
  note ok = encryptionKey_ok [OF assms e]
  have "owned (put_draft cr u f v ver k iv now db')"
    unfolding put_draft_def by (rule owned_put) (use ok assms(2) in \<open>auto simp: filed_def\<close>)
  with e show ?thesis by (simp add: saveDraft_def)
qed

lemma stored_key_delete [simp]: "stored_key u (deleteDraft v f db) = stored_key u db"
  by (simp add: stored_key_def deleteDraft_def)

lemma map_of_deleteDraft [simp]:
  "map_of (deleteDraft u f db) key = (if key = draft_key u f then None else map_of db key)"
  by (simp add: deleteDraft_def)

lemma dict_wf_deleteDraft [simp]: "dict_wf db \<Longrightarrow> dict_wf (deleteDraft u f db)"
  by (simp add: deleteDraft_def)

lemma owned_deleteDraft: "owned db \<Longrightarrow> owned (deleteDraft u f db)"
proof -
  assume o: "owned db"
  have "filed (deleteDraft u f db) key r" if "map_of (deleteDraft u f db) key = Some r" for key r
    using that by (intro filed_mono [OF ownedD [OF o]]) (auto split: if_splits)
  with o show ?thesis by (simp add: owned_def)
qed

lemma owned_loadDraft:
  assumes "owned db" and "CHR '':'' \<notin> set u"
  shows "owned (snd (loadDraft cr g now u f ver db))"
proof -
  obtain k db' where e: "encryptionKey u g now db = (k, db')" by fastforce
  from encryptionKey_ok(1) [OF assms e] owned_deleteDraft assms e show ?thesis
    by (auto simp: loadDraft_def split: option.splits prod.splits)
qed

lemma map_of_purge:
  "dict_wf db \<Longrightarrow> map_of (purgePrivateData (Some u) db) key =
     (if u = '''' then None else case map_of db key of Some r \<Rightarrow> if rec_userId r = u then None else Some r | None \<Rightarrow> None)"
proof (induction db)
  case (Cons kr db)
  obtain k r where kr: "kr = (k, r)" by (cases kr)
  from Cons.prems kr have "map_of db k = None" "dict_wf db" by (auto simp: dict_wf_def map_of_eq_None_iff)
  with Cons.IH kr show ?case by (auto simp: purgePrivateData_def split: option.splits)
qed (simp add: purgePrivateData_def)

lemma stored_key_purge:
  assumes "owned db" and "plain_id u" and "v \<noteq> u"
  shows "stored_key v (purgePrivateData (Some u) db) = stored_key v db"
proof (cases "map_of db (crypto_key v)")
  case None
  then show ?thesis using assms(2) by (simp add: stored_key_def map_of_purge [OF owned_wf [OF assms(1)]] plain_id_def)
next
  case (Some r)
  from ownedD [OF assms(1) Some] have "rec_userId r = v" by (auto simp: filed_def split: stored_value.splits)
  with Some assms show ?thesis by (simp add: stored_key_def map_of_purge [OF owned_wf [OF assms(1)]] plain_id_def)
qed

lemma owned_purge:
  assumes "owned db" and "plain_id u"
  shows "owned (purgePrivateData (Some u) db)"
proof -
  have "u \<noteq> ''''" using assms(2) by (simp add: plain_id_def)
  have "filed (purgePrivateData (Some u) db) key r"
    if "map_of (purgePrivateData (Some u) db) key = Some r" for key r
  proof -
    from that \<open>u \<noteq> ''''\<close> have m: "map_of db key = Some r" "rec_userId r \<noteq> u"
      by (auto simp: map_of_purge [OF owned_wf [OF assms(1)]] split: option.splits if_splits)
    from stored_key_purge [OF assms m(2)] show ?thesis
      by (intro filed_mono [OF ownedD [OF assms(1) m(1)]]) simp
  qed
  moreover have "dict_wf (purgePrivateData (Some u) db)"
    using owned_wf [OF assms(1)] \<open>u \<noteq> ''''\<close> by (simp add: purgePrivateData_def)
  ultimately show ?thesis unfolding owned_def by blast
qed

subsection \<open>What the store promises\<close>

text \<open>
  Seen from a form, the database is a map from a user and a form to the draft's version and value:
  what the user's stored key decrypts. \<open>draft_store\<close> states the four operations on that map.
\<close>

definition drafts :: "('k, 'c, 'p) crypto \<Rightarrow> ('k, 'c) database \<Rightarrow> string \<times> string \<Rightarrow> (int \<times> json option) option" where
  "drafts cr db = (\<lambda>(u, f). if CHR '':'' \<in> set u then None
     else case (map_of db (draft_key u f), stored_key u db) of
       (Some r, Some k) \<Rightarrow> decode_draft cr k r | _ \<Rightarrow> None)"

definition on_version :: "int \<Rightarrow> (int \<times> json option) option \<Rightarrow> json option" where
  "on_version ver d = (case d of Some (ver', v) \<Rightarrow> if ver' = ver then v else None | None \<Rightarrow> None)"

definition storable :: "json \<Rightarrow> int \<Rightarrow> bool" where
  "storable v ver \<longleftrightarrow> storable_json v \<and> \<bar>ver\<bar> < 2 ^ 53"

lemma is_double_int: "\<bar>i\<bar> < 2 ^ 53 \<Longrightarrow> is_double (of_int i)"
  unfolding is_double_def by (intro exI [of _ i] exI [of _ "0 :: nat"]) simp

lemma storable_draft: "storable v ver \<Longrightarrow> storable_json (draft_json ver v)"
  by (auto simp: storable_def draft_json_def index_key_def is_digit_def intro: is_double_int)

locale draft_store =
  fixes inv :: "'db \<Rightarrow> bool"
    and can_store :: "json \<Rightarrow> int \<Rightarrow> bool"
    and abs :: "'db \<Rightarrow> string \<times> string \<Rightarrow> (int \<times> json option) option"
    and save :: "'e \<Rightarrow> string \<Rightarrow> string \<Rightarrow> json \<Rightarrow> int \<Rightarrow> 'db \<Rightarrow> 'db"
    and load :: "'e \<Rightarrow> string \<Rightarrow> string \<Rightarrow> int \<Rightarrow> 'db \<Rightarrow> json option \<times> 'db"
    and remove :: "string \<Rightarrow> string \<Rightarrow> 'db \<Rightarrow> 'db"
    and purge :: "string option \<Rightarrow> 'db \<Rightarrow> 'db"
  assumes inv_save: "inv db \<Longrightarrow> plain_id u \<Longrightarrow> inv (save e u f v ver db)"
    and inv_load: "inv db \<Longrightarrow> plain_id u \<Longrightarrow> inv (snd (load e u f ver db))"
    and inv_remove: "inv db \<Longrightarrow> plain_id u \<Longrightarrow> inv (remove u f db)"
    and inv_purge: "inv db \<Longrightarrow> plain_id u \<Longrightarrow> inv (purge (Some u) db)"
    and abs_save: "inv db \<Longrightarrow> plain_id u \<Longrightarrow> can_store v ver \<Longrightarrow> abs (save e u f v ver db) = (abs db)((u, f) \<mapsto> (ver, Some v))"
    and fst_load: "inv db \<Longrightarrow> plain_id u \<Longrightarrow> fst (load e u f ver db) = on_version ver (abs db (u, f))"
    and abs_load: "inv db \<Longrightarrow> plain_id u \<Longrightarrow> abs (snd (load e u f ver db)) =
      (case abs db (u, f) of
         Some (ver', v) \<Rightarrow> if ver' = ver then abs db else (abs db)((u, f) := None)
       | None \<Rightarrow> abs db)"
    and abs_remove: "inv db \<Longrightarrow> plain_id u \<Longrightarrow> abs (remove u f db) = (abs db)((u, f) := None)"
    and abs_purge: "inv db \<Longrightarrow> plain_id u \<Longrightarrow> abs (purge (Some u) db) = (\<lambda>(v, f). if v = u then None else abs db (v, f))"
begin

lemma load_after_save:
  assumes "inv db" and "plain_id u" and "plain_id u'" and "can_store v ver"
  shows "fst (load e u' f' ver' (save e' u f v ver db)) =
    (if (u', f') = (u, f) then (if ver' = ver then Some v else None) else fst (load e u' f' ver' db))"
  using assms by (auto simp: fst_load inv_save abs_save on_version_def)

lemma load_after_purge:
  assumes "inv db" and "plain_id u" and "plain_id u'"
  shows "fst (load e u' f ver (purge (Some u) db)) = (if u' = u then None else fst (load e u' f ver db))"
  using assms by (simp add: fst_load inv_purge abs_purge on_version_def)

lemma load_after_mismatch:
  assumes "inv db" and "plain_id u" and "abs db (u, f) = Some (ver, v)" and "ver' \<noteq> ver"
  shows "fst (load e u f ver' db) = None \<and> fst (load e'' u f ver (snd (load e' u f ver' db))) = None"
  using assms by (simp add: fst_load inv_load abs_load on_version_def)

end

lemma decode_put_draft:
  assumes "crypto_ok cr" and "storable v ver"
  shows "decode_draft cr k \<lparr>rec_key = key, rec_userId = u, rec_kind = K_draft,
    rec_value = V_draft iv (cr_encrypt cr k iv (cr_stringify cr (draft_json ver v))), rec_updatedAt = now\<rparr> = Some (ver, Some v)"
  using assms storable_draft [OF assms(2)] by (simp add: crypto_ok_def decode_draft_def) (simp add: draft_json_def draft_content_def)

lemma drafts_encryptionKey:
  assumes "owned db" and "CHR '':'' \<notin> set u" and "encryptionKey u g now db = (k, db')"
  shows "drafts cr db' = drafts cr db"
proof (rule ext, clarify)
  fix w f
  note ok = encryptionKey_ok [OF assms]
  have "stored_key w db' = stored_key w db \<or> map_of db (draft_key w f) = None \<or> CHR '':'' \<in> set w"
  proof (cases "map_of db (draft_key w f)")
    case (Some r)
    from ownedD [OF assms(1) Some] have "CHR '':'' \<in> set w \<or> stored_key w db \<noteq> None"
      by (auto simp: filed_def split: stored_value.splits)
    then show ?thesis using ok(3) by auto
  qed simp
  then show "drafts cr db' (w, f) = drafts cr db (w, f)"
    by (cases "map_of db (draft_key w f)") (auto simp: drafts_def ok(5))
qed

lemma drafts_save:
  assumes "owned db" and "plain_id u" and "crypto_ok cr" and "storable v ver"
  shows "drafts cr (saveDraft cr g iv now u f v ver db) = (drafts cr db)((u, f) \<mapsto> (ver, Some v))"
proof -
  from assms(2) have u: "CHR '':'' \<notin> set u" by (simp add: plain_id_def)
  obtain k db' where e: "encryptionKey u g now db = (k, db')" by fastforce
  note ok = encryptionKey_ok [OF assms(1) u e]
  let ?r = "\<lparr>rec_key = draft_key u f, rec_userId = u, rec_kind = K_draft,
      rec_value = V_draft iv (cr_encrypt cr k iv (cr_stringify cr (draft_json ver v))), rec_updatedAt = now\<rparr>"
  have s: "saveDraft cr g iv now u f v ver db = put ?r db'"
    by (simp add: saveDraft_def e put_draft_def)
  have k: "stored_key w (put ?r db') = stored_key w db'" for w by (simp add: stored_key_put)
  have "drafts cr (put ?r db') (w, h) = ((drafts cr db')((u, f) \<mapsto> (ver, Some v))) (w, h)" for w h
    using u ok(2) decode_put_draft [OF assms(3,4)] unfolding drafts_def by (simp add: k)
  then show ?thesis unfolding s drafts_encryptionKey [OF assms(1) u e, symmetric] by (intro ext) (metis surj_pair)
qed

lemma drafts_delete:
  assumes "plain_id u"
  shows "drafts cr (deleteDraft u f db) = (drafts cr db)((u, f) := None)"
proof (rule ext, clarify)
  fix w h
  show "drafts cr (deleteDraft u f db) (w, h) = ((drafts cr db)((u, f) := None)) (w, h)"
    using assms by (cases "CHR '':'' \<in> set w"; cases "map_of db (draft_key w h)") (auto simp: drafts_def plain_id_def)
qed

lemma loadDraft_eq:
  assumes "owned db" and "plain_id u"
  obtains db' where "owned db'" and "drafts cr db' = drafts cr db"
    and "loadDraft cr g now u f ver db = (case drafts cr db (u, f) of
      Some (ver', v) \<Rightarrow> if ver' = ver then (v, db') else (None, deleteDraft u f db')
    | None \<Rightarrow> if map_of db (draft_key u f) = None then (None, db') else (None, deleteDraft u f db'))"
proof (cases "map_of db (draft_key u f)")
  case None
  with assms show ?thesis by (intro that [of db]) (auto simp: loadDraft_def drafts_def)
next
  case (Some r)
  from assms(2) have u: "CHR '':'' \<notin> set u" by (simp add: plain_id_def)
  from ownedD [OF assms(1) Some] u have k: "stored_key u db \<noteq> None"
    by (auto simp: filed_def split: stored_value.splits)
  then obtain k where k: "stored_key u db = Some k" by auto
  show ?thesis
    by (rule that [of db])
      (use assms(1) k u Some in \<open>auto simp: loadDraft_def encryptionKey_def drafts_def split: option.splits\<close>)
qed

lemma drafts_load:
  assumes "owned db" and "plain_id u"
  shows "fst (loadDraft cr g now u f ver db) = on_version ver (drafts cr db (u, f))"
    and "drafts cr (snd (loadDraft cr g now u f ver db)) = (case drafts cr db (u, f) of
         Some (ver', v) \<Rightarrow> if ver' = ver then drafts cr db else (drafts cr db)((u, f) := None)
       | None \<Rightarrow> drafts cr db)"
proof -
  obtain db' where d: "drafts cr db' = drafts cr db"
    and l: "loadDraft cr g now u f ver db = (case drafts cr db (u, f) of
      Some (ver', v) \<Rightarrow> if ver' = ver then (v, db') else (None, deleteDraft u f db')
    | None \<Rightarrow> if map_of db (draft_key u f) = None then (None, db') else (None, deleteDraft u f db'))"
    using loadDraft_eq [OF assms] by metis
  show "fst (loadDraft cr g now u f ver db) = on_version ver (drafts cr db (u, f))"
    by (auto simp: l on_version_def split: option.splits)
  show "drafts cr (snd (loadDraft cr g now u f ver db)) = (case drafts cr db (u, f) of
         Some (ver', v) \<Rightarrow> if ver' = ver then drafts cr db else (drafts cr db)((u, f) := None)
       | None \<Rightarrow> drafts cr db)"
    by (auto simp: l d drafts_delete [OF assms(2)] fun_upd_idem split: option.splits)
qed

lemma drafts_purge:
  assumes "owned db" and "plain_id u"
  shows "drafts cr (purgePrivateData (Some u) db) = (\<lambda>(v, f). if v = u then None else drafts cr db (v, f))"
proof (rule ext, clarify)
  fix w f
  have u: "u \<noteq> ''''" using assms(2) by (simp add: plain_id_def)
  have m: "map_of (purgePrivateData (Some u) db) (draft_key w f) =
      (if w = u then None else map_of db (draft_key w f))" if "CHR '':'' \<notin> set w" for w
  proof (cases "map_of db (draft_key w f)")
    case (Some r)
    with ownedD [OF assms(1) Some] that have "rec_userId r = w"
      by (auto simp: filed_def split: stored_value.splits)
    with Some u show ?thesis by (simp add: map_of_purge [OF owned_wf [OF assms(1)]])
  qed (simp add: map_of_purge [OF owned_wf [OF assms(1)]])
  show "drafts cr (purgePrivateData (Some u) db) (w, f) = (if w = u then None else drafts cr db (w, f))"
    using stored_key_purge [OF assms, of w] by (cases "w = u"; cases "CHR '':'' \<in> set w") (simp_all add: drafts_def m)
qed

definition save_in where
  "save_in cr = (\<lambda>(generated, iv, now) u f v ver db. saveDraft cr generated iv now u f v ver db)"

definition load_in where
  "load_in cr = (\<lambda>(generated, iv :: nat list, now) u f ver db. loadDraft cr generated now u f ver db)"

interpretation cs: draft_store "\<lambda>db. crypto_ok cr \<and> owned db" storable "drafts cr" "save_in cr" "load_in cr" deleteDraft purgePrivateData
  for cr
proof (unfold_locales, goal_cases)
  case (1 db u e f v ver)
  then show ?case by (cases e) (simp add: save_in_def owned_saveDraft plain_id_def)
next
  case (2 db u e f ver)
  then show ?case by (cases e) (simp add: load_in_def owned_loadDraft plain_id_def)
next
  case (5 db u v ver e f)
  then show ?case by (cases e) (simp add: save_in_def drafts_save)
next
  case (6 db u e f ver)
  then show ?case by (cases e) (simp add: load_in_def drafts_load)
next
  case (7 db u e f ver)
  then show ?case by (cases e) (simp only: load_in_def drafts_load split_conv)
qed (simp_all add: owned_deleteDraft owned_purge drafts_delete drafts_purge)

subsection \<open>The draft of a form\<close>

text \<open>
  \<open>useEncryptedDraft\<close>: the hook's refs and state, the effect that loads the draft, the effect that
  runs after a change of the value and arms a timer of 400 ms, the timer, and what it returns.
\<close>

fun json_truthy :: "json \<Rightarrow> bool" where
  "json_truthy JNull = False"
| "json_truthy (JBool b) = b"
| "json_truthy (JNum (Num r)) = (r \<noteq> 0)"
| "json_truthy (JNum NaN) = False"
| "json_truthy (JNum _) = True"
| "json_truthy (JStr s) = (s \<noteq> '''')"
| "json_truthy (JArr _) = True"
| "json_truthy (JObj _) = True"

record draft_hook =
  dh_userId :: "string option"
  dh_form :: string
  dh_version :: int
  dh_value :: json
  dh_hydrated :: bool
  dh_recovered :: bool
  dh_timer :: "json option" \<comment> \<open>the value the pending timer will save\<close>

definition draft_user :: "draft_hook \<Rightarrow> string option" where
  "draft_user h = (case dh_userId h of Some u \<Rightarrow> if u = '''' then None else Some u | None \<Rightarrow> None)"

definition draft_mount :: "string option \<Rightarrow> string \<Rightarrow> int \<Rightarrow> json \<Rightarrow> draft_hook" where
  \<comment> \<open>the value effect of the first render finds \<open>hydrated\<close> false and arms nothing\<close>
  "draft_mount userId form version v = \<lparr>dh_userId = userId, dh_form = form, dh_version = version,
     dh_value = v, dh_hydrated = False, dh_recovered = False, dh_timer = None\<rparr>"

definition draft_loaded :: "json option \<Rightarrow> draft_hook \<Rightarrow> draft_hook" where
  \<comment> \<open>\<open>loadDraft(...).then\<close>; the restore sets the value, so its effect runs with \<open>hydrated\<close> true\<close>
  "draft_loaded d h = (case d of
     Some v \<Rightarrow> if json_truthy v
       then h\<lparr>dh_value := v, dh_recovered := True, dh_hydrated := True,
              dh_timer := (if v = dh_value h then dh_timer h else Some v)\<rparr>
       else h\<lparr>dh_hydrated := True\<rparr>
   | None \<Rightarrow> h\<lparr>dh_hydrated := True\<rparr>)"

definition draft_change :: "json \<Rightarrow> draft_hook \<Rightarrow> draft_hook" where
  \<comment> \<open>the cleanup clears the timer of the previous value\<close>
  "draft_change v h = h\<lparr>dh_value := v,
     dh_timer := (if draft_user h = None \<or> \<not> dh_hydrated h then None else Some v)\<rparr>"

definition draft_timer_fires ::
  "('k, 'c, 'p) crypto \<Rightarrow> 'k \<times> nat list \<times> ms \<Rightarrow> draft_hook \<Rightarrow> ('k, 'c) database \<Rightarrow> draft_hook \<times> ('k, 'c) database" where
  "draft_timer_fires cr e h db = (case (dh_timer h, draft_user h) of
     (Some v, Some u) \<Rightarrow> (h\<lparr>dh_timer := None\<rparr>, save_in cr e u (dh_form h) v (dh_version h) db)
   | _ \<Rightarrow> (h, db))"

definition draft_discard :: "draft_hook \<Rightarrow> ('k, 'c) database \<Rightarrow> draft_hook \<times> ('k, 'c) database" where
  "draft_discard h db = (h\<lparr>dh_recovered := False\<rparr>,
     case draft_user h of Some u \<Rightarrow> deleteDraft u (dh_form h) db | None \<Rightarrow> db)"

definition draft_acknowledge :: "draft_hook \<Rightarrow> draft_hook" where
  "draft_acknowledge h = h\<lparr>dh_recovered := False\<rparr>"

subsection \<open>Properties\<close>

definition sample_crypto :: "(nat, nat list \<times> json, json) crypto" where
  "sample_crypto = \<lparr>cr_encrypt = (\<lambda>k iv p. (k # iv, p)),
     cr_decrypt = (\<lambda>k iv (t, p). if t = k # iv then Some p else None),
     cr_stringify = (\<lambda>j. j), cr_parse = Some\<rparr>"

lemma sample_crypto_ok [simp]: "crypto_ok sample_crypto"
  by (simp add: crypto_ok_def sample_crypto_def)

text \<open>
  Property C8: the draft part of the browser database implements a plain map from user and form to a
  versioned value. Saving a value that JSON can carry stores it under exactly its user, form and version; loading
  gives that value only for the version it was saved with, and a load of another version removes the draft;
  deleting and purging remove one draft, or the drafts of one user, and no other.
\<close>
theorem drafts_refine_a_map:
  assumes "crypto_ok cr" and "owned db" and "plain_id u" and "storable v ver"
  shows "drafts cr (saveDraft cr generated iv now u f v ver db) = (drafts cr db)((u, f) \<mapsto> (ver, Some v))
    \<and> fst (loadDraft cr generated now u f ver db) =
        (case drafts cr db (u, f) of Some (ver', v) \<Rightarrow> if ver' = ver then v else None | None \<Rightarrow> None)
    \<and> drafts cr (snd (loadDraft cr generated now u f ver db)) =
        (case drafts cr db (u, f) of
           Some (ver', v) \<Rightarrow> if ver' = ver then drafts cr db else (drafts cr db)((u, f) := None)
         | None \<Rightarrow> drafts cr db)
    \<and> drafts cr (deleteDraft u f db) = (drafts cr db)((u, f) := None)
    \<and> drafts cr (purgePrivateData (Some u) db) = (\<lambda>(w, g). if w = u then None else drafts cr db (w, g))"
  using cs.abs_save [of cr db u v ver "(generated, iv, now)"] cs.fst_load [of cr db u "(generated, iv, now)"]
    cs.abs_load [of cr db u "(generated, iv, now)"] cs.abs_remove [of cr db u] cs.abs_purge [of cr db u] assms
  by (simp add: save_in_def load_in_def on_version_def)

theorem drafts_refine_a_map_witness:
  "fst (loadDraft sample_crypto 7 0 ''u1'' ''form'' 1 (saveDraft sample_crypto 5 [1, 2] 0 ''u1'' ''form'' (JStr ''x'') 1 []))
     = Some (JStr ''x'')"
proof -
  have "plain_id ''u1''" by (simp add: plain_id_def)
  moreover have "storable (JStr ''x'') 1" by (simp add: storable_def)
  ultimately have r: "owned db \<Longrightarrow> drafts sample_crypto (saveDraft sample_crypto 5 [1, 2] 0 ''u1'' ''form'' (JStr ''x'') 1 db)
        = (drafts sample_crypto db)((''u1'', ''form'') \<mapsto> (1, Some (JStr ''x'')))
      \<and> fst (loadDraft sample_crypto 7 0 ''u1'' ''form'' 1 db) =
        (case drafts sample_crypto db (''u1'', ''form'') of Some (ver', v) \<Rightarrow> if ver' = 1 then v else None | None \<Rightarrow> None)" for db
    using drafts_refine_a_map [OF sample_crypto_ok, of db "''u1''" "JStr ''x''" 1 5 "[1, 2]" 0 "''form''"]
      drafts_refine_a_map [OF sample_crypto_ok, of db "''u1''" "JStr ''x''" 1 7 "[]" 0 "''form''"] by blast
  have "owned (saveDraft sample_crypto 5 [1, 2] 0 ''u1'' ''form'' (JStr ''x'') 1 [])"
    by (rule owned_saveDraft) simp_all
  from r [OF this] r [OF owned_empty] show ?thesis by simp
qed

text \<open>
  The other operations on the store, each with the key, the vector and the time it would use, by any user, for any
  form. \<open>concerns u f\<close> holds of those that touch the draft of the form \<open>f\<close> of the user \<open>u\<close>.
\<close>

datatype store_op =
    Op_cache string string json
  | Op_save string string json int
  | Op_load string string int
  | Op_delete string string
  | Op_purge string

fun op_user :: "store_op \<Rightarrow> string" where
  "op_user (Op_cache u q v) = u" | "op_user (Op_save u f v ver) = u" | "op_user (Op_load u f ver) = u"
| "op_user (Op_delete u f) = u" | "op_user (Op_purge u) = u"

fun run_op :: "('k, 'c, 'p) crypto \<Rightarrow> 'k \<times> nat list \<times> ms \<Rightarrow> store_op \<Rightarrow> ('k, 'c) database \<Rightarrow> ('k, 'c) database" where
  "run_op cr (k, iv, now) (Op_cache u q v) db = cacheRead u q v now db"
| "run_op cr (k, iv, now) (Op_save u f v ver) db = saveDraft cr k iv now u f v ver db"
| "run_op cr (k, iv, now) (Op_load u f ver) db = snd (loadDraft cr k now u f ver db)"
| "run_op cr e (Op_delete u f) db = deleteDraft u f db"
| "run_op cr e (Op_purge u) db = purgePrivateData (Some u) db"

definition run_ops :: "('k, 'c, 'p) crypto \<Rightarrow> (('k \<times> nat list \<times> ms) \<times> store_op) list \<Rightarrow> ('k, 'c) database \<Rightarrow> ('k, 'c) database" where
  "run_ops cr ops db = fold (\<lambda>(e, p). run_op cr e p) ops db"

fun concerns :: "string \<Rightarrow> string \<Rightarrow> store_op \<Rightarrow> bool" where
  "concerns u f (Op_cache w q v) = False"
| "concerns u f (Op_save w g v ver) = ((w, g) = (u, f))"
| "concerns u f (Op_load w g ver) = ((w, g) = (u, f))"
| "concerns u f (Op_delete w g) = ((w, g) = (u, f))"
| "concerns u f (Op_purge w) = (w = u)"

definition op_ok :: "store_op \<Rightarrow> bool" where
  "op_ok p \<longleftrightarrow> plain_id (op_user p) \<and> (\<forall>u f v ver. p = Op_save u f v ver \<longrightarrow> storable v ver)"

lemma drafts_cacheRead: "CHR '':'' \<notin> set u \<Longrightarrow> drafts cr (cacheRead u q v now db) = drafts cr db"
  by (rule ext) (auto simp: drafts_def cacheRead_def stored_key_put split: option.split)

lemma run_op_other:
  assumes "crypto_ok cr \<and> owned db" and "op_ok p" and "\<not> concerns u f p"
  shows "crypto_ok cr \<and> owned (run_op cr e p db)" and "drafts cr (run_op cr e p db) (u, f) = drafts cr db (u, f)"
proof -
  obtain k iv now where e: "e = (k, iv, now)" by (cases e)
  note laws = cs.inv_save [OF assms(1), unfolded save_in_def] cs.inv_load [OF assms(1), unfolded load_in_def]
    cs.inv_remove [OF assms(1)] cs.inv_purge [OF assms(1)] cs.abs_save [OF assms(1), unfolded save_in_def]
    cs.abs_load [OF assms(1), unfolded load_in_def] cs.abs_remove [OF assms(1)] cs.abs_purge [OF assms(1)]
  have p: "plain_id (op_user p)" using assms(2) by (simp add: op_ok_def)
  have "crypto_ok cr \<and> owned (run_op cr e p db) \<and> drafts cr (run_op cr e p db) (u, f) = drafts cr db (u, f)"
  proof (cases p)
    case (Op_cache w q v)
    then show ?thesis using p assms(1) by (simp add: e owned_cacheRead drafts_cacheRead plain_id_def)
  next
    case (Op_save w g v ver)
    then show ?thesis using p assms laws(1) [of w "(k, iv, now)" g v ver] laws(5) [of w v ver "(k, iv, now)" g]
      by (auto simp: e op_ok_def)
  next
    case (Op_load w g ver)
    then show ?thesis using p assms laws(2) [of w "(k, iv, now)" g ver] laws(6) [of w "(k, iv, now)" g ver]
      by (auto simp: e split: option.splits)
  next
    case (Op_delete w g)
    then show ?thesis using p assms laws(3) [of w g] laws(7) [of w g] by (auto simp: e)
  next
    case (Op_purge w)
    then show ?thesis using p assms laws(4) [of w] laws(8) [of w] by (auto simp: e)
  qed
  then show "crypto_ok cr \<and> owned (run_op cr e p db)" and "drafts cr (run_op cr e p db) (u, f) = drafts cr db (u, f)" by auto
qed

lemma run_ops_other:
  assumes "crypto_ok cr \<and> owned db" and "\<forall>(e, p) \<in> set ops. op_ok p \<and> \<not> concerns u f p"
  shows "crypto_ok cr \<and> owned (run_ops cr ops db) \<and> drafts cr (run_ops cr ops db) (u, f) = drafts cr db (u, f)"
  using assms
proof (induction ops arbitrary: db)
  case (Cons x ops)
  obtain e p where x: "x = (e, p)" by (cases x)
  with Cons.prems(2) have p: "op_ok p" "\<not> concerns u f p" by auto
  from Cons.IH [OF run_op_other(1) [OF Cons.prems(1) p]] Cons.prems(2) run_op_other(2) [OF Cons.prems(1) p] x
  show ?case by (simp add: run_ops_def)
qed (simp add: run_ops_def)

text \<open>
  Property C15: a saved draft is found again whatever happens in between to the other drafts. After any sequence of
  saves, loads, deletions, purges and cached reads of any users and forms that does not concern this draft, loading
  it with its version gives the saved value and with another version nothing; and after its user was purged no
  such sequence brings it back.
\<close>
theorem saved_draft_is_loaded_back:
  assumes "crypto_ok cr" and "owned db" and "plain_id u" and "storable v ver"
    and "\<forall>(e, p) \<in> set ops. op_ok p \<and> \<not> concerns u f p"
  shows "fst (loadDraft cr k now u f ver' (run_ops cr ops (saveDraft cr k' iv' now' u f v ver db)))
      = (if ver' = ver then Some v else None)
    \<and> fst (loadDraft cr k now u f ver' (run_ops cr ops (purgePrivateData (Some u) db))) = None"
proof -
  let ?i = "\<lambda>db. crypto_ok cr \<and> owned db" and ?s = "saveDraft cr k' iv' now' u f v ver db" and ?p = "purgePrivateData (Some u) db"
  have db: "?i db" using assms by simp
  have s: "?i ?s" "drafts cr ?s (u, f) = Some (ver, Some v)"
    using cs.inv_save [OF db assms(3), of "(k', iv', now')"] cs.abs_save [OF db assms(3,4), of "(k', iv', now')"]
    by (simp_all add: save_in_def)
  have p: "?i ?p" "drafts cr ?p (u, f) = None" using cs.inv_purge [OF db assms(3)] cs.abs_purge [OF db assms(3)] by simp_all
  have l: "fst (loadDraft cr k now u f ver' (run_ops cr ops db')) = on_version ver' (drafts cr db' (u, f))" if "?i db'" for db'
    using cs.fst_load [OF _ assms(3), of cr "run_ops cr ops db'" "(k, [], now)"] run_ops_other [OF that assms(5)]
    by (simp add: load_in_def)
  show ?thesis by (simp add: l s p on_version_def)
qed

theorem saved_draft_is_loaded_back_witness:
  "fst (loadDraft sample_crypto 9 3 ''u1'' ''a'' 1 (run_ops sample_crypto
     [((6, [4], 2), Op_save ''u2'' ''a'' (JStr ''y'') 2), ((7, [], 2), Op_load ''u1'' ''b'' 3), ((7, [], 2), Op_purge ''u2'')]
     (saveDraft sample_crypto 5 [1, 2] 1 ''u1'' ''a'' (JStr ''x'') 1 []))) = Some (JStr ''x'')"
  using saved_draft_is_loaded_back [OF sample_crypto_ok owned_empty, of "''u1''" "JStr ''x''" 1
      "[((6, [4], 2), Op_save ''u2'' ''a'' (JStr ''y'') 2), ((7, [], 2), Op_load ''u1'' ''b'' 3), ((7, [], 2), Op_purge ''u2'')]"
      "''a''" 9 3 1 5 "[1, 2]" 1]
  by (simp add: plain_id_def op_ok_def storable_def)

text \<open>
  The two transactions of \<open>encryptionKey\<close> do not exclude one another: two first saves of one user that
  both read before either writes leave the later key in the store, and the draft encrypted with the
  earlier one is deleted by the next load.
\<close>

lemma concurrent_first_saves_lose_a_draft:
  assumes "crypto_ok cr" and "plain_id u" and "f \<noteq> g"
    and "\<And>c. c = cr_encrypt cr k1 iv1 (cr_stringify cr (draft_json 1 v)) \<Longrightarrow> cr_decrypt cr k2 iv1 c = None"
    and "stored_key u db = None"
  shows "let db1 = put_key u k2 t (put_key u k1 t db);
             db2 = put_draft cr u g w 1 k2 iv2 t (put_draft cr u f v 1 k1 iv1 t db1)
         in fst (loadDraft cr k3 t u f 1 db2) = None
            \<and> map_of (snd (loadDraft cr k3 t u f 1 db2)) (draft_key u f) = None"
proof -
  from assms(2) have u: "CHR '':'' \<notin> set u" by (simp add: plain_id_def)
  show ?thesis using u assms(3) assms(4) [OF refl]
    by (simp add: Let_def loadDraft_def put_draft_def put_key_def encryptionKey_def stored_key_put decode_draft_def)
qed

lemma pending_timer_restores_discarded_draft:
  assumes "crypto_ok cr" and "owned db" and "plain_id u" and "dh_userId h = Some u" and "dh_timer h = Some v" and "storable v (dh_version h)"
  shows "let (h, db) = draft_discard h db; (h, db) = draft_timer_fires cr e h db
         in drafts cr db (u, dh_form h) = Some (dh_version h, Some v)"
proof -
  have "draft_user h = Some u" using assms(3,4) by (simp add: draft_user_def plain_id_def)
  moreover have "draft_user (h\<lparr>dh_recovered := False\<rparr>) = Some u"
    using calculation by (simp add: draft_user_def)
  moreover have "owned (deleteDraft u (dh_form h) db)" by (rule owned_deleteDraft) (rule assms(2))
  ultimately show ?thesis
    using assms(1,3,5,6) by (simp add: draft_discard_def draft_timer_fires_def cs.abs_save)
qed

lemma readCached_cacheRead:
  assumes "CHR '':'' \<notin> set u" and "CHR '':'' \<notin> set u'"
  shows "readCached u' q' (cacheRead u q v now db) =
    (if u' = u \<and> q' = q then Some (v, now) else readCached u' q' db)"
  using assms by (simp add: readCached_def cacheRead_def)

end
