(* ===== verification/ApiClient.thy ===== *)
theory ApiClient
  imports Auth ClientStorage Http
begin

section \<open>The HTTP client\<close>

text \<open>
  Models \<open>api/client.ts\<close> and \<open>api/authApi.ts\<close>. The handlers of the interceptors are functions on
  \<open>client_state\<close>, cut at their \<open>await\<close>s: a call waits for the network (\<open>Sent\<close>), for the browser
  database (\<open>ReadingCache\<close>) or for the shared refresh (\<open>Refreshing\<close>). The relation \<open>client_step\<close>
  interleaves any number of calls with the refresh, logins and logouts. \<open>ac_sends\<close> and
  \<open>cl_posts\<close> are history variables: how often a call went to the network, and how many refresh
  requests are outstanding.
\<close>

subsection \<open>Offline reads\<close>

definition OFFLINE_READ_PATHS :: "string list" where
  "OFFLINE_READ_PATHS = [''/catalog'', ''/working-hours'', ''/reports/definitions'']"

definition canCache :: "string \<Rightarrow> bool" where
  "canCache url \<longleftrightarrow> (\<exists>path \<in> set OFFLINE_READ_PATHS. url = path \<or> starts_with (path @ ''?'') url)"

fun json_char :: "char \<Rightarrow> string" where
  \<comment> \<open>a character inside a JSON string literal; the control characters below space without a short
    form are written with \<open>\u00XX\<close>\<close>
  "json_char c =
     (if c = CHR 0x22 then [CHR 0x5C, CHR 0x22] else if c = CHR 0x5C then [CHR 0x5C, CHR 0x5C]
      else if c = CHR 0x08 then [CHR 0x5C, CHR ''b''] else if c = CHR 0x0C then [CHR 0x5C, CHR ''f'']
      else if c = CHR 0x0A then [CHR 0x5C, CHR ''n''] else if c = CHR 0x0D then [CHR 0x5C, CHR ''r'']
      else if c = CHR 0x09 then [CHR 0x5C, CHR ''t'']
      else let n = of_char c :: nat in
        if n < 32 then CHR 0x5C # ''u00'' @ [if n < 16 then CHR ''0'' else CHR ''1'', ''0123456789abcdef'' ! (n mod 16)]
        else [c])"

definition json_quote :: "string \<Rightarrow> string" where
  "json_quote s = [CHR 0x22] @ concat (map json_char s) @ [CHR 0x22]"

fun stringify :: "(jsnum \<Rightarrow> string) \<Rightarrow> json \<Rightarrow> string" where
  \<comment> \<open>\<open>JSON.stringify\<close> over the decimal form of finite numbers\<close>
  "stringify num JNull = ''null''"
| "stringify num (JBool b) = (if b then ''true'' else ''false'')"
| "stringify num (JNum n) = (if is_finite n then num n else ''null'')"
| "stringify num (JStr s) = json_quote s"
| "stringify num (JArr vs) = ''['' @ join_with '','' (map (stringify num) vs) @ '']''"
| "stringify num (JObj kvs) = ''{'' @ join_with '','' (map (\<lambda>(k, v). json_quote k @ '':'' @ stringify num v) kvs) @ ''}''"

definition offlineKey :: "(jsnum \<Rightarrow> string) \<Rightarrow> string \<Rightarrow> (string \<times> json) list \<Rightarrow> string" where
  "offlineKey num url params = url @ ''?'' @ stringify num (JObj params)"

definition cacheable :: "http_request \<Rightarrow> bool" where
  "cacheable rq \<longleftrightarrow> rq_method rq = GET \<and> canCache (rq_url rq)"

subsection \<open>State\<close>

datatype reply =
    ReplyOk json
  | ReplyError int \<comment> \<open>the server answered with an error status\<close>
  | NoResponse

datatype outcome =
    Resolved json
  | Stale json ms \<comment> \<open>the offline copy, with the event \<open>gmanager:stale-read\<close>\<close>
  | Rejected reply

datatype phase =
    Sent
  | ReadingCache
  | Refreshing reply \<comment> \<open>awaits \<open>refreshAccessToken\<close>; the error it will reject with otherwise\<close>
  | Resuming "string option" reply \<comment> \<open>the refresh settled with this token\<close>
  | Settled outcome

record api_call =
  ac_request :: http_request
  ac_authRetry :: bool
  ac_authorization :: "string option"
  ac_phase :: phase
  ac_sends :: nat

datatype refresh_phase = FetchingCsrf | Posted string \<comment> \<open>the CSRF token it carries\<close>

datatype client_effect =
    AuthEffect auth_effect
  | CacheRead string string json

record client_state =
  cl_auth :: auth_state
  cl_refreshPromise :: "refresh_phase option"
  cl_calls :: "(nat, api_call) dict"
  cl_effects :: "client_effect list"
  cl_posts :: nat

definition client_initial :: client_state where
  "client_initial = \<lparr>cl_auth = auth_initial, cl_refreshPromise = None, cl_calls = [], cl_effects = [], cl_posts = 0\<rparr>"

definition run_auth :: "(auth_state \<Rightarrow> auth_state \<times> auth_effect list) \<Rightarrow> client_state \<Rightarrow> client_state" where
  "run_auth f s = (let (a, es) = f (cl_auth s)
     in s\<lparr>cl_auth := a, cl_effects := cl_effects s @ map AuthEffect es\<rparr>)"

definition put_call :: "nat \<Rightarrow> api_call \<Rightarrow> client_state \<Rightarrow> client_state" where
  "put_call i c s = s\<lparr>cl_calls := AList.update i c (cl_calls s)\<rparr>"

definition bearer :: "string option \<Rightarrow> string" where
  "bearer t = ''Bearer '' @ (case t of Some t \<Rightarrow> t | None \<Rightarrow> ''null'')"

subsection \<open>The request interceptors\<close>

definition authorize :: "auth_state \<Rightarrow> api_call \<Rightarrow> api_call" where
  "authorize a c = (case as_accessToken a of
     Some t \<Rightarrow> if t = '''' then c else c\<lparr>ac_authorization := Some (bearer (Some t))\<rparr>
   | None \<Rightarrow> c)"

definition send :: "auth_state \<Rightarrow> api_call \<Rightarrow> api_call" where
  "send a c = (authorize a c)\<lparr>ac_phase := Sent, ac_sends := Suc (ac_sends c)\<rparr>"

definition new_call :: "http_request \<Rightarrow> api_call" where
  "new_call rq = \<lparr>ac_request = rq, ac_authRetry = False, ac_authorization = None, ac_phase = Sent, ac_sends = 0\<rparr>"

definition start_call :: "nat \<Rightarrow> http_request \<Rightarrow> client_state \<Rightarrow> client_state" where
  "start_call i rq s = put_call i (send (cl_auth s) (new_call rq)) s"

definition needs_csrf :: "http_request \<Rightarrow> bool" where
  "needs_csrf rq \<longleftrightarrow> rq_method rq = POST \<and> (rq_url rq = ''/auth/refresh'' \<or> rq_url rq = ''/auth/logout'')"

definition csrf_interceptor :: "string option \<Rightarrow> http_request \<Rightarrow> string + http_request" where
  \<comment> \<open>with the token that \<open>GET /auth/csrf\<close> answered, if it answered one\<close>
  "csrf_interceptor token rq =
     (if needs_csrf rq then
        (case token of
           Some t \<Rightarrow> if t = '''' then Inl ''CSRF token is unavailable''
             else Inr (rq\<lparr>rq_headers := rq_headers rq @ [(''X-XSRF-TOKEN'', t)]\<rparr>)
         | None \<Rightarrow> Inl ''CSRF token is unavailable'')
      else Inr rq)"

subsection \<open>The shared refresh\<close>

definition refreshAccessToken :: "client_state \<Rightarrow> client_state" where
  "refreshAccessToken s = (if cl_refreshPromise s = None
     then s\<lparr>cl_refreshPromise := Some FetchingCsrf, cl_posts := Suc (cl_posts s)\<rparr> else s)"

definition resume_waiting :: "string option \<Rightarrow> api_call \<Rightarrow> api_call" where
  "resume_waiting t c = (case ac_phase c of Refreshing e \<Rightarrow> c\<lparr>ac_phase := Resuming t e\<rparr> | _ \<Rightarrow> c)"

definition settle_refresh :: "string option \<Rightarrow> client_state \<Rightarrow> client_state" where
  \<comment> \<open>\<open>finally\<close>, and the resolution of the promise every waiting call awaits\<close>
  "settle_refresh t s = s\<lparr>cl_refreshPromise := None, cl_posts := cl_posts s - 1,
     cl_calls := map (\<lambda>(i, c). (i, resume_waiting t c)) (cl_calls s)\<rparr>"

definition refresh_failed :: "int option \<Rightarrow> client_state \<Rightarrow> client_state" where
  "refresh_failed status s = settle_refresh None
     (if status = Some 401 \<or> status = Some 403 then run_auth clearSession s else s)"

definition csrf_fetched :: "string option \<Rightarrow> client_state \<Rightarrow> client_state" where
  "csrf_fetched token s = (case csrf_interceptor token (public_send POST ''/auth/refresh'' None) of
     Inl e \<Rightarrow> refresh_failed None s
   | Inr rq \<Rightarrow> s\<lparr>cl_refreshPromise := Some (Posted (the token))\<rparr>)"

definition refresh_succeeded :: "auth_response \<Rightarrow> client_state \<Rightarrow> client_state" where
  "refresh_succeeded r s = settle_refresh (Some (resp_token r)) (run_auth (setSession (resp_token r) (resp_user r)) s)"

subsection \<open>The response interceptor\<close>

definition signed_in_id :: "auth_state \<Rightarrow> string option" where
  \<comment> \<open>\<open>user?.id\<close> where it is truthy\<close>
  "signed_in_id a = (case current_id a of Some u \<Rightarrow> if u = '''' then None else Some u | None \<Rightarrow> None)"

definition settle :: "nat \<Rightarrow> api_call \<Rightarrow> outcome \<Rightarrow> client_state \<Rightarrow> client_state" where
  "settle i c r s = put_call i (c\<lparr>ac_phase := Settled r\<rparr>) s"

definition response_ok :: "(jsnum \<Rightarrow> string) \<Rightarrow> nat \<Rightarrow> api_call \<Rightarrow> json \<Rightarrow> client_state \<Rightarrow> client_state" where
  "response_ok num i c v s = settle i c (Resolved v)
     (case signed_in_id (cl_auth s) of
        Some u \<Rightarrow> if cacheable (ac_request c)
          then s\<lparr>cl_effects := cl_effects s @ [CacheRead u (offlineKey num (rq_url (ac_request c)) (rq_params (ac_request c))) v]\<rparr>
          else s
      | None \<Rightarrow> s)"

definition response_error :: "nat \<Rightarrow> api_call \<Rightarrow> reply \<Rightarrow> client_state \<Rightarrow> client_state" where
  "response_error i c e s =
     (if e = NoResponse \<and> signed_in_id (cl_auth s) \<noteq> None \<and> cacheable (ac_request c)
      then put_call i (c\<lparr>ac_phase := ReadingCache\<rparr>) s
      else if e = ReplyError 401 then
        (if \<not> ac_authRetry c then put_call i (c\<lparr>ac_phase := Refreshing e\<rparr>) (refreshAccessToken s)
         else settle i c (Rejected e)
           (if ac_authorization c = Some (bearer (as_accessToken (cl_auth s))) then run_auth clearSession s else s))
      else settle i c (Rejected e) s)"

definition cache_answered :: "nat \<Rightarrow> api_call \<Rightarrow> (json \<times> ms) option \<Rightarrow> client_state \<Rightarrow> client_state" where
  \<comment> \<open>after \<open>readCached\<close>; without a copy the error has no response, so no refresh is tried\<close>
  "cache_answered i c cached s = settle i c
     (case cached of Some (v, t) \<Rightarrow> Stale v t | None \<Rightarrow> Rejected NoResponse) s"

definition resume_call :: "nat \<Rightarrow> api_call \<Rightarrow> string option \<Rightarrow> reply \<Rightarrow> client_state \<Rightarrow> client_state" where
  "resume_call i c t e s = (case t of
     Some token \<Rightarrow> if token = '''' then settle i c (Rejected e) s
       else put_call i (send (cl_auth s) (c\<lparr>ac_authRetry := True, ac_authorization := Some (bearer (Some token))\<rparr>)) s
   | None \<Rightarrow> settle i c (Rejected e) s)"

definition offline_copy :: "(jsnum \<Rightarrow> string) \<Rightarrow> ('k, 'c) database \<Rightarrow> api_call \<Rightarrow> auth_state \<Rightarrow> (json \<times> ms) option" where
  \<comment> \<open>what \<open>readCached\<close> answers\<close>
  "offline_copy num db c a = (case signed_in_id a of
     Some u \<Rightarrow> readCached u (offlineKey num (rq_url (ac_request c)) (rq_params (ac_request c))) db
   | None \<Rightarrow> None)"

subsection \<open>Starting a session, and the authentication requests\<close>

definition initialize_features :: "feature_flag_state list option \<Rightarrow> feature_store \<Rightarrow> feature_store" where
  \<comment> \<open>the answer of \<open>GET /features/bootstrap\<close>, None where it failed\<close>
  "initialize_features data fs = (case data of Some vs \<Rightarrow> feature_apply vs fs | None \<Rightarrow> feature_reset fs)"

definition initializeSession ::
  "string option \<Rightarrow> feature_flag_state list option \<Rightarrow> auth_state \<times> feature_store \<Rightarrow> auth_state \<times> feature_store" where
  \<comment> \<open>after \<open>refreshAccessToken\<close> resolved with the token and changed the store\<close>
  "initializeSession token data s = (finishInitialization (fst s),
     if token = None \<or> token = Some '''' then snd s else initialize_features data (snd s))"

definition authApi_login :: "login_request \<Rightarrow> http_request" where
  "authApi_login r = public_send POST ''/auth/login''
     (body [(''email'', Some (JStr (login_email r))), (''password'', Some (JStr (login_password r)))])"

definition authApi_activate :: "activate_customer_request \<Rightarrow> http_request" where
  "authApi_activate r = public_send POST ''/auth/activate''
     (body [(''email'', Some (JStr (act_email r))), (''activationSecret'', Some (JStr (act_activationSecret r))), (''password'', Some (JStr (act_password r)))])"

definition authApi_logout :: http_request where
  "authApi_logout = public_send POST ''/auth/logout'' None"

definition authApi_sessions :: http_request where
  "authApi_sessions = api_get ''/auth/sessions'' []"

definition authApi_securityEvents :: http_request where
  "authApi_securityEvents = api_get ''/auth/security-events/recent'' []"

definition authApi_revokeSession :: "string \<Rightarrow> http_request" where
  "authApi_revokeSession i = api_send DELETE (''/auth/sessions/'' @ i) None"

definition authApi_revokeAllSessions :: http_request where
  "authApi_revokeAllSessions = api_send DELETE ''/auth/sessions'' None"

subsection \<open>Interleavings\<close>

text \<open>
  \<open>client_step\<close> has one rule per event: a caller starts a request, the network answers it, the browser
  database answers, the refresh advances, a call resumes after the refresh, and a login or a logout
  changes the session at any time in between.
\<close>

inductive client_step :: "client_state \<Rightarrow> client_state \<Rightarrow> bool" where
  start: "map_of (cl_calls s) i = None \<Longrightarrow> client_step s (start_call i rq s)"
| ok: "map_of (cl_calls s) i = Some c \<Longrightarrow> ac_phase c = Sent \<Longrightarrow> client_step s (response_ok num i c v s)"
| error: "map_of (cl_calls s) i = Some c \<Longrightarrow> ac_phase c = Sent \<Longrightarrow> e = NoResponse \<or> (\<exists>st. e = ReplyError st)
    \<Longrightarrow> client_step s (response_error i c e s)"
| cache: "map_of (cl_calls s) i = Some c \<Longrightarrow> ac_phase c = ReadingCache \<Longrightarrow> client_step s (cache_answered i c cached s)"
| csrf: "cl_refreshPromise s = Some FetchingCsrf \<Longrightarrow> client_step s (csrf_fetched token s)"
| csrf_lost: "cl_refreshPromise s = Some FetchingCsrf \<Longrightarrow> client_step s (refresh_failed status s)"
| refreshed: "cl_refreshPromise s = Some (Posted t) \<Longrightarrow> client_step s (refresh_succeeded r s)"
| refused: "cl_refreshPromise s = Some (Posted t) \<Longrightarrow> client_step s (refresh_failed status s)"
| resume: "map_of (cl_calls s) i = Some c \<Longrightarrow> ac_phase c = Resuming t e \<Longrightarrow> client_step s (resume_call i c t e s)"
| login: "client_step s (run_auth (setSession t u) s)"
| logout: "client_step s (run_auth clearSession s)"

inductive client_reachable :: "client_state \<Rightarrow> bool" where
  initial: "client_reachable client_initial"
| step: "client_reachable s \<Longrightarrow> client_step s t \<Longrightarrow> client_reachable t"

definition call_ok :: "bool \<Rightarrow> api_call \<Rightarrow> bool" where
  \<comment> \<open>one send, or two once the call was retried; a call waits only while the refresh is out\<close>
  "call_ok refreshing c \<longleftrightarrow> ac_sends c = (if ac_authRetry c then 2 else 1)
     \<and> (case ac_phase c of
          Refreshing e \<Rightarrow> refreshing \<and> \<not> ac_authRetry c \<and> e = ReplyError 401
        | Resuming t e \<Rightarrow> \<not> ac_authRetry c \<and> e = ReplyError 401
        | ReadingCache \<Rightarrow> cacheable (ac_request c)
        | Settled (Stale v t) \<Rightarrow> cacheable (ac_request c)
        | _ \<Rightarrow> True)"

definition client_inv :: "client_state \<Rightarrow> bool" where
  "client_inv s \<longleftrightarrow> dict_wf (cl_calls s)
     \<and> cl_posts s = (if cl_refreshPromise s = None then 0 else 1)
     \<and> (\<forall>i c. map_of (cl_calls s) i = Some c \<longrightarrow> call_ok (cl_refreshPromise s \<noteq> None) c)"

lemma run_auth_fields [simp]:
  "cl_calls (run_auth f s) = cl_calls s" "cl_refreshPromise (run_auth f s) = cl_refreshPromise s"
  "cl_posts (run_auth f s) = cl_posts s" "cl_auth (run_auth f s) = fst (f (cl_auth s))"
  by (simp_all add: run_auth_def Let_def split: prod.split)

lemma put_call_fields [simp]:
  "cl_refreshPromise (put_call i c s) = cl_refreshPromise s" "cl_posts (put_call i c s) = cl_posts s"
  "cl_auth (put_call i c s) = cl_auth s" "cl_effects (put_call i c s) = cl_effects s"
  "map_of (cl_calls (put_call i c s)) j = (if j = i then Some c else map_of (cl_calls s) j)"
  "dict_wf (cl_calls s) \<Longrightarrow> dict_wf (cl_calls (put_call i c s))"
  by (simp_all add: put_call_def)

lemma authorize_fields [simp]:
  "ac_request (authorize a c) = ac_request c" "ac_authRetry (authorize a c) = ac_authRetry c"
  "ac_sends (authorize a c) = ac_sends c" "ac_phase (authorize a c) = ac_phase c"
  by (simp_all add: authorize_def split: option.split)

lemma client_inv_initial: "client_inv client_initial"
  by (simp add: client_inv_def client_initial_def)

lemma client_inv_run_auth: "client_inv s \<Longrightarrow> client_inv (run_auth f s)"
  by (simp add: client_inv_def)

lemma client_inv_effects: "client_inv s \<Longrightarrow> client_inv (s\<lparr>cl_effects := es\<rparr>)"
  by (simp add: client_inv_def)

lemma client_inv_put:
  "client_inv s \<Longrightarrow> call_ok (cl_refreshPromise s \<noteq> None) c \<Longrightarrow> client_inv (put_call i c s)"
  by (simp add: client_inv_def)

lemma client_inv_refresh: "client_inv s \<Longrightarrow> client_inv (refreshAccessToken s)"
  by (auto simp: client_inv_def refreshAccessToken_def call_ok_def split: phase.splits outcome.splits)

lemma map_of_resume:
  "map_of (map (\<lambda>(i, c). (i, resume_waiting t c)) cs) i = map_option (resume_waiting t) (map_of cs i)"
  by (induction cs) auto

lemma client_inv_settle_refresh:
  assumes "client_inv s" and "cl_refreshPromise s \<noteq> None"
  shows "client_inv (settle_refresh t s)"
proof -
  have "call_ok False (resume_waiting t c)" if "call_ok True c" for c
    using that by (auto simp: call_ok_def resume_waiting_def split: phase.splits)
  with assms show ?thesis
    by (auto simp: client_inv_def settle_refresh_def map_of_resume dict_wf_def comp_def case_prod_beta)
qed

lemma call_ok_settle:
  "call_ok b c \<Longrightarrow> (\<And>v t. r = Stale v t \<Longrightarrow> cacheable (ac_request c)) \<Longrightarrow> call_ok b' (c\<lparr>ac_phase := Settled r\<rparr>)"
  by (auto simp: call_ok_def split: outcome.splits)

lemma client_invD: "client_inv s \<Longrightarrow> map_of (cl_calls s) i = Some c \<Longrightarrow> call_ok (cl_refreshPromise s \<noteq> None) c"
  by (simp add: client_inv_def)

lemma client_inv_settle:
  assumes "client_inv s" and "call_ok b c" and "\<And>v t. r = Stale v t \<Longrightarrow> cacheable (ac_request c)"
  shows "client_inv (settle i c r s)"
  unfolding settle_def by (rule client_inv_put [OF assms(1) call_ok_settle]) (use assms in auto)

lemma client_inv_failed: "client_inv s \<Longrightarrow> cl_refreshPromise s \<noteq> None \<Longrightarrow> client_inv (refresh_failed st s)"
  by (simp add: refresh_failed_def client_inv_settle_refresh client_inv_run_auth)

lemma client_inv_error:
  assumes "client_inv s" and "map_of (cl_calls s) i = Some c" and "ac_phase c = Sent"
  shows "client_inv (response_error i c e s)"
proof -
  note ok = client_invD [OF assms(1,2)]
  from ok assms(3) have "cacheable (ac_request c) \<Longrightarrow> call_ok (cl_refreshPromise s \<noteq> None) (c\<lparr>ac_phase := ReadingCache\<rparr>)"
    and "\<not> ac_authRetry c \<Longrightarrow> e = ReplyError 401 \<Longrightarrow>
      call_ok (cl_refreshPromise (refreshAccessToken s) \<noteq> None) (c\<lparr>ac_phase := Refreshing e\<rparr>)"
    by (simp_all add: call_ok_def refreshAccessToken_def)
  moreover have "client_inv (settle i c (Rejected e') t)" if "client_inv t" for t e'
    by (rule client_inv_settle [OF that ok]) simp
  ultimately show ?thesis
    by (simp add: response_error_def client_inv_put client_inv_refresh client_inv_run_auth assms(1))
qed

lemma client_inv_resume:
  assumes "client_inv s" and "map_of (cl_calls s) i = Some c" and "ac_phase c = Resuming t e"
  shows "client_inv (resume_call i c t e s)"
proof -
  note ok = client_invD [OF assms(1,2)]
  from ok assms(3) have "call_ok (cl_refreshPromise s \<noteq> None)
      (send (cl_auth s) (c\<lparr>ac_authRetry := True, ac_authorization := x\<rparr>))" for x
    by (simp add: call_ok_def send_def)
  then show ?thesis
    using client_inv_settle [OF assms(1) ok]
    by (auto simp: resume_call_def client_inv_put assms(1) split: option.split)
qed

lemma client_inv_step: "client_step s t \<Longrightarrow> client_inv s \<Longrightarrow> client_inv t"
proof (induction rule: client_step.induct)
  case (start s i rq)
  then show ?case
    by (simp add: start_call_def client_inv_put call_ok_def send_def new_call_def)
next
  case (ok s i c num v)
  have "client_inv (case signed_in_id (cl_auth s) of Some u \<Rightarrow> if cacheable (ac_request c)
          then s\<lparr>cl_effects := cl_effects s @ [x u]\<rparr> else s | None \<Rightarrow> s)" for x
    using ok(3) by (simp add: client_inv_effects split: option.split)
  then show ?case unfolding response_ok_def
    by (rule client_inv_settle [OF _ client_invD [OF ok(3,1)]]) simp
next
  case (cache s i c cached)
  have "cacheable (ac_request c)" using client_invD [OF cache(3,1)] cache(2) by (simp add: call_ok_def)
  then show ?case unfolding cache_answered_def
    by (intro client_inv_settle [OF cache(3) client_invD [OF cache(3,1)]])
next
  case (csrf s token)
  then show ?case
    by (auto simp: csrf_fetched_def client_inv_failed split: sum.split) (simp add: client_inv_def)
qed (simp_all add: client_inv_error client_inv_failed client_inv_resume client_inv_run_auth
      refresh_succeeded_def client_inv_settle_refresh)

lemma client_reachable_inv: "client_reachable s \<Longrightarrow> client_inv s"
  by (induction rule: client_reachable.induct) (auto intro: client_inv_initial client_inv_step)

subsection \<open>Properties\<close>

definition retried_call :: client_state where
  \<comment> \<open>a signed-in request that got a 401, was resumed after a refresh and sent again\<close>
  "retried_call =
     (let s = start_call 0 (api_get ''/orders'' []) client_initial;
          s = response_error 0 (the (map_of (cl_calls s) 0)) (ReplyError 401) s;
          s = csrf_fetched (Some ''csrf'') s;
          s = refresh_succeeded \<lparr>resp_token = ''t2'', resp_expiresAt = '''',
                resp_user = \<lparr>user_id = ''u'', user_name = '''', user_email = '''', user_role = CUSTOMER, user_active = True,
                             user_avatarUrl = None, user_permissions = None\<rparr>\<rparr> s
      in resume_call 0 (the (map_of (cl_calls s) 0)) (Some ''t2'') (ReplyError 401) s)"

lemmas client_eval = start_call_def response_error_def csrf_fetched_def refresh_succeeded_def resume_call_def
  client_initial_def put_call_def send_def new_call_def authorize_def auth_initial_def signed_in_id_def current_id_def
  refreshAccessToken_def settle_refresh_def resume_waiting_def run_auth_def setSession_def csrf_interceptor_def
  needs_csrf_def public_send_def

lemma retried_call_reachable: "client_reachable retried_call"
proof -
  let ?s1 = "start_call 0 (api_get ''/orders'' []) client_initial"
  let ?s2 = "response_error 0 (the (map_of (cl_calls ?s1) 0)) (ReplyError 401) ?s1"
  let ?s3 = "csrf_fetched (Some ''csrf'') ?s2"
  let ?s4 = "refresh_succeeded \<lparr>resp_token = ''t2'', resp_expiresAt = '''',
                resp_user = \<lparr>user_id = ''u'', user_name = '''', user_email = '''', user_role = CUSTOMER, user_active = True,
                             user_avatarUrl = None, user_permissions = None\<rparr>\<rparr> ?s3"
  have "client_step client_initial ?s1" by (rule client_step.start) (simp add: client_initial_def)
  moreover have "client_step ?s1 ?s2" by (rule client_step.error) (simp_all add: client_eval)
  moreover have "client_step ?s2 ?s3" by (rule client_step.csrf) (simp add: client_eval)
  moreover have "client_step ?s3 ?s4" by (rule client_step.refreshed) (simp add: client_eval)
  moreover have "client_step ?s4 retried_call"
    unfolding retried_call_def Let_def by (rule client_step.resume) (simp_all add: client_eval)
  ultimately show ?thesis by (meson client_reachable.intros)
qed

text \<open>
  Property C1: whatever the interleaving of requests, answers, refreshes, logins and logouts, at most
  one refresh request is outstanding, no call is sent to the network more than twice, a second time
  only as a retry, and a call waits for a refresh only while one is outstanding.
\<close>
theorem refresh_is_single_flight:
  assumes "client_reachable s" and "map_of (cl_calls s) i = Some c"
  shows "cl_posts s = (if cl_refreshPromise s = None then 0 else 1)
    \<and> ac_sends c = (if ac_authRetry c then 2 else 1)
    \<and> (\<forall>e. ac_phase c = Refreshing e \<longrightarrow> cl_refreshPromise s \<noteq> None)"
  using client_reachable_inv [OF assms(1)] client_invD [OF _ assms(2)]
  by (auto simp: client_inv_def call_ok_def)

theorem refresh_is_single_flight_witness:
  "cl_posts retried_call = 0 \<and> map_option ac_sends (map_of (cl_calls retried_call) 0) = Some 2"
proof -
  obtain c where c: "map_of (cl_calls retried_call) 0 = Some c" "ac_authRetry c"
    by (simp add: retried_call_def client_eval)
  from refresh_is_single_flight [OF retried_call_reachable c(1)] c show ?thesis
    by (simp add: retried_call_def client_eval)
qed

text \<open>
  The calls while the refresh is out, and after it: a call that waits stays in the dictionary, a settled call does
  not change, and what a step does to a call is one of its own events.
\<close>

fun call_rank :: "phase \<Rightarrow> bool \<Rightarrow> nat" where
  \<comment> \<open>how many events the call can still meet; the flag is whether it is a retry\<close>
  "call_rank (Settled r) b = 0"
| "call_rank ReadingCache b = 1"
| "call_rank Sent b = (if b then 2 else 5)"
| "call_rank (Resuming t e) b = 3"
| "call_rank (Refreshing e) b = 4"

definition rank_of :: "api_call \<Rightarrow> nat" where
  "rank_of c = call_rank (ac_phase c) (ac_authRetry c)"

lemma rank_of_phase [simp]: "rank_of (c\<lparr>ac_phase := p\<rparr>) = call_rank p (ac_authRetry c)"
  by (simp add: rank_of_def)

lemma rank_of_send [simp]: "rank_of (send a c) = (if ac_authRetry c then 2 else 5)"
  by (simp add: rank_of_def send_def)

lemma map_of_settle [simp]:
  "map_of (cl_calls (settle i c r s)) j = (if j = i then Some (c\<lparr>ac_phase := Settled r\<rparr>) else map_of (cl_calls s) j)"
  by (simp add: settle_def)

lemma map_of_settle_refresh [simp]:
  "map_of (cl_calls (settle_refresh t s)) j = map_option (resume_waiting t) (map_of (cl_calls s) j)"
  by (simp add: settle_refresh_def map_of_resume)

lemma refresh_fields [simp]:
  "cl_calls (refreshAccessToken s) = cl_calls s" "cl_auth (refreshAccessToken s) = cl_auth s"
  by (simp_all add: refreshAccessToken_def)

lemma response_ok_calls [simp]:
  "map_of (cl_calls (response_ok num i c v s)) j =
     (if j = i then Some (c\<lparr>ac_phase := Settled (Resolved v)\<rparr>) else map_of (cl_calls s) j)"
  "cl_auth (response_ok num i c v s) = cl_auth s"
  by (auto simp: response_ok_def settle_def split: option.split)

lemma response_error_calls:
  "map_of (cl_calls (response_error i c e s)) j = (if j \<noteq> i then map_of (cl_calls s) j
     else Some (c\<lparr>ac_phase := (if e = NoResponse \<and> signed_in_id (cl_auth s) \<noteq> None \<and> cacheable (ac_request c) then ReadingCache
       else if e = ReplyError 401 \<and> \<not> ac_authRetry c then Refreshing e else Settled (Rejected e))\<rparr>))"
  by (simp add: response_error_def)

lemma resume_call_calls:
  "map_of (cl_calls (resume_call i c t e s)) j = (if j \<noteq> i then map_of (cl_calls s) j
     else if t = None \<or> t = Some '''' then Some (c\<lparr>ac_phase := Settled (Rejected e)\<rparr>)
     else Some (send (cl_auth s) (c\<lparr>ac_authRetry := True, ac_authorization := Some (bearer t)\<rparr>)))"
  by (simp add: resume_call_def split: option.split)

lemma refresh_settled_calls:
  "map_of (cl_calls (refresh_succeeded r s)) j = map_option (resume_waiting (Some (resp_token r))) (map_of (cl_calls s) j)"
  "map_of (cl_calls (refresh_failed st s)) j = map_option (resume_waiting None) (map_of (cl_calls s) j)"
  by (simp_all add: refresh_succeeded_def refresh_failed_def)

lemma csrf_fetched_calls:
  "map_of (cl_calls (csrf_fetched token s)) j = map_of (cl_calls s) j
    \<or> map_of (cl_calls (csrf_fetched token s)) j = map_option (resume_waiting None) (map_of (cl_calls s) j)"
  by (simp add: csrf_fetched_def refresh_settled_calls split: sum.split)

lemmas step_calls = response_error_calls resume_call_calls refresh_settled_calls

lemma resume_waiting_cases: "resume_waiting t c = c \<or> (\<exists>e. ac_phase c = Refreshing e \<and> resume_waiting t c = c\<lparr>ac_phase := Resuming t e\<rparr>)"
  by (simp add: resume_waiting_def split: phase.split)

lemma start_call_other: "map_of (cl_calls s) i = None \<Longrightarrow> map_of (cl_calls s) j = Some c \<Longrightarrow> map_of (cl_calls (start_call i rq s)) j = Some c"
  by (auto simp: start_call_def)

lemma client_step_call:
  assumes "client_step s t" and "map_of (cl_calls s) i = Some c"
  obtains "map_of (cl_calls t) i = Some c"
  | c' where "map_of (cl_calls t) i = Some c'" and "ac_request c' = ac_request c" and "rank_of c' < rank_of c"
proof -
  note waiting = resume_waiting_cases [of _ c] and other = start_call_other [OF _ assms(2)]
  from assms(1) have "map_of (cl_calls t) i = Some c
      \<or> (\<exists>c'. map_of (cl_calls t) i = Some c' \<and> ac_request c' = ac_request c \<and> rank_of c' < rank_of c)"
  proof cases
    case (csrf token)
    with assms(2) csrf_fetched_calls [of token s i] waiting [of None] show ?thesis by (force simp: rank_of_def)
  next
    case (csrf_lost status)
    with assms(2) waiting [of None] show ?thesis by (force simp: step_calls rank_of_def)
  next
    case (refused x status)
    with assms(2) waiting [of None] show ?thesis by (force simp: step_calls rank_of_def)
  next
    case (refreshed x r)
    with assms(2) waiting [of "Some (resp_token r)"] show ?thesis by (force simp: step_calls rank_of_def)
  next
    case (resume j d x e)
    with assms(2) show ?thesis by (auto simp: step_calls rank_of_def send_def)
  qed (use assms(2) other in \<open>auto simp: step_calls rank_of_def cache_answered_def\<close>)
  with that show ?thesis by blast
qed


lemma resuming_step:
  assumes "client_step s t" and c: "map_of (cl_calls s) i = Some c" "ac_phase c = Resuming x e"
    and c': "map_of (cl_calls t) i = Some c'" "c' \<noteq> c"
  shows "c' = (if x = None \<or> x = Some '''' then c\<lparr>ac_phase := Settled (Rejected e)\<rparr>
    else send (cl_auth s) (c\<lparr>ac_authRetry := True, ac_authorization := Some (bearer x)\<rparr>))"
proof -
  have w: "resume_waiting y c = c" for y using c(2) by (simp add: resume_waiting_def)
  from assms(1) show ?thesis
  proof cases
    case (csrf token)
    with c(1) c' csrf_fetched_calls [of token s i] w show ?thesis by auto
  next
    case (resume j d y e')
    with c c' show ?thesis by (auto simp: resume_call_calls split: if_splits)
  qed (use c c' w start_call_other [OF _ c(1)] in \<open>auto simp: step_calls cache_answered_def split: if_splits\<close>)
qed

lemma resuming_can_go_on:
  assumes "map_of (cl_calls s) i = Some c" and "ac_phase c = Resuming x e"
  shows "\<exists>t. client_step s t \<and> map_of (cl_calls t) i \<noteq> Some c"
proof (intro exI conjI)
  show "client_step s (resume_call i c x e s)" by (rule client_step.resume [OF assms])
  have "send a d \<noteq> c" "d\<lparr>ac_phase := Settled r\<rparr> \<noteq> c" for a d r using assms(2) by (auto simp: send_def)
  then show "map_of (cl_calls (resume_call i c x e s)) i \<noteq> Some c" using assms(2) by (auto simp: resume_call_calls)
qed

definition goes_on_only_to :: "nat \<Rightarrow> client_state \<Rightarrow> (client_state \<Rightarrow> api_call \<Rightarrow> bool) \<Rightarrow> bool" where
  \<comment> \<open>whatever happens first, the call can go on, and when it does it is as \<open>P\<close> says\<close>
  "goes_on_only_to i w P \<longleftrightarrow> (\<forall>u. client_step\<^sup>*\<^sup>* w u \<longrightarrow> map_of (cl_calls u) i = map_of (cl_calls w) i \<longrightarrow>
     (\<exists>v. client_step u v \<and> map_of (cl_calls v) i \<noteq> map_of (cl_calls w) i)
     \<and> (\<forall>v c'. client_step u v \<longrightarrow> map_of (cl_calls v) i = Some c' \<longrightarrow> Some c' \<noteq> map_of (cl_calls w) i \<longrightarrow> P u c'))"

lemma resuming_goes_on:
  assumes "map_of (cl_calls w) i = Some d" and "ac_phase d = Resuming x e"
    and "\<And>u. P u (if x = None \<or> x = Some '''' then d\<lparr>ac_phase := Settled (Rejected e)\<rparr>
        else send (cl_auth u) (d\<lparr>ac_authRetry := True, ac_authorization := Some (bearer x)\<rparr>))"
  shows "goes_on_only_to i w P"
  unfolding goes_on_only_to_def assms(1)
proof (intro allI impI conjI)
  fix u :: client_state
  assume u: "map_of (cl_calls u) i = Some d"
  show "\<exists>v. client_step u v \<and> map_of (cl_calls v) i \<noteq> Some d" by (rule resuming_can_go_on [OF u assms(2)])
  fix v c'
  assume "client_step u v" "map_of (cl_calls v) i = Some c'" "Some c' \<noteq> Some d"
  then have "c' = (if x = None \<or> x = Some '''' then d\<lparr>ac_phase := Settled (Rejected e)\<rparr>
        else send (cl_auth u) (d\<lparr>ac_authRetry := True, ac_authorization := Some (bearer x)\<rparr>))"
    using resuming_step [OF _ u assms(2)] by blast
  then show "P u c'" using assms(3) by simp
qed

definition bearer_now :: "string \<Rightarrow> client_state \<Rightarrow> string" where
  \<comment> \<open>the header of a repeated call: the token of the store, or the refreshed one where the store has none\<close>
  "bearer_now refreshed s = bearer (Some (case as_accessToken (cl_auth s) of
     Some t \<Rightarrow> if t = '''' then refreshed else t | None \<Rightarrow> refreshed))"

lemma sent_again:
  "ac_phase (send a c) = Sent" "ac_request (send a c) = ac_request c" "ac_sends (send a c) = Suc (ac_sends c)"
  "ac_authorization d = Some (bearer (Some t)) \<Longrightarrow> ac_authorization (send (cl_auth s) d) = Some (bearer_now t s)"
  by (auto simp: send_def authorize_def bearer_now_def split: option.split)

text \<open>
  Property C13: when the refresh settles, every request that waited for it goes on, whatever else happens first.
  After a refresh with a new token the only way on is to the network: the same request is sent a second time
  with the token the store then holds, or the refreshed one where the session has ended meanwhile. After a failed
  refresh the only way on is back to the caller with the request's own 401.
\<close>
theorem settled_refresh_resumes_every_waiting_call:
  assumes "client_reachable s" and "cl_refreshPromise s = Some (Posted x)" and "map_of (cl_calls s) i = Some c"
    and "ac_phase c = Refreshing e" and "resp_token r \<noteq> ''''"
  shows "goes_on_only_to i (refresh_succeeded r s) (\<lambda>u c'. ac_phase c' = Sent \<and> ac_request c' = ac_request c
      \<and> ac_sends c' = 2 \<and> ac_authorization c' = Some (bearer_now (resp_token r) u))
    \<and> goes_on_only_to i (refresh_failed status s) (\<lambda>u c'. ac_phase c' = Settled (Rejected (ReplyError 401))
      \<and> ac_request c' = ac_request c)"
proof
  have o: "e = ReplyError 401" "ac_sends c = 1"
    using client_invD [OF client_reachable_inv [OF assms(1)] assms(3)] assms(4) by (auto simp: call_ok_def)
  have w: "resume_waiting t c = c\<lparr>ac_phase := Resuming t (ReplyError 401)\<rparr>" for t
    using assms(4) o(1) by (simp add: resume_waiting_def)
  show "goes_on_only_to i (refresh_succeeded r s) (\<lambda>u c'. ac_phase c' = Sent \<and> ac_request c' = ac_request c
      \<and> ac_sends c' = 2 \<and> ac_authorization c' = Some (bearer_now (resp_token r) u))"
  proof (rule resuming_goes_on)
    show "map_of (cl_calls (refresh_succeeded r s)) i = Some (c\<lparr>ac_phase := Resuming (Some (resp_token r)) (ReplyError 401)\<rparr>)"
      by (simp add: step_calls assms(3) w)
  qed (use assms(5) o(2) in \<open>simp, auto simp: sent_again\<close>)
  show "goes_on_only_to i (refresh_failed status s) (\<lambda>u c'. ac_phase c' = Settled (Rejected (ReplyError 401))
      \<and> ac_request c' = ac_request c)"
  proof (rule resuming_goes_on)
    show "map_of (cl_calls (refresh_failed status s)) i = Some (c\<lparr>ac_phase := Resuming None (ReplyError 401)\<rparr>)"
      by (simp add: step_calls assms(3) w)
  qed (simp, simp)
qed

definition fresh_user :: auth_user where
  "fresh_user = \<lparr>user_id = ''u'', user_name = '''', user_email = '''', user_role = CUSTOMER, user_active = True,
     user_avatarUrl = None, user_permissions = None\<rparr>"

definition posted_refresh :: client_state where
  \<comment> \<open>a request of the signed-in user waits, and the refresh is on its way\<close>
  "posted_refresh =
     (let s = start_call 0 (api_get ''/orders'' []) (run_auth (setSession ''t1'' fresh_user) client_initial)
      in csrf_fetched (Some ''csrf'') (response_error 0 (the (map_of (cl_calls s) 0)) (ReplyError 401) s))"

lemma posted_refresh_reachable: "client_reachable posted_refresh"
proof -
  let ?s0 = "run_auth (setSession ''t1'' fresh_user) client_initial"
  let ?s1 = "start_call 0 (api_get ''/orders'' []) ?s0"
  let ?s2 = "response_error 0 (the (map_of (cl_calls ?s1) 0)) (ReplyError 401) ?s1"
  have "client_step client_initial ?s0" by (rule client_step.login)
  moreover have "client_step ?s0 ?s1" by (rule client_step.start) (simp add: client_initial_def)
  moreover have "client_step ?s1 ?s2" by (rule client_step.error) (simp_all add: start_call_def put_call_def send_def new_call_def)
  moreover have "client_step ?s2 posted_refresh"
    unfolding posted_refresh_def Let_def
    by (rule client_step.csrf) (simp add: response_error_def start_call_def send_def new_call_def client_initial_def refreshAccessToken_def)
  ultimately show ?thesis by (meson client_reachable.intros)
qed

lemma posted_refresh_call:
  "cl_refreshPromise posted_refresh = Some (Posted ''csrf'')"
  "\<exists>c. map_of (cl_calls posted_refresh) 0 = Some c \<and> ac_phase c = Refreshing (ReplyError 401) \<and> ac_request c = api_get ''/orders'' []"
  by (simp_all add: posted_refresh_def Let_def csrf_fetched_def csrf_interceptor_def needs_csrf_def public_send_def
      response_error_def start_call_def send_def new_call_def)

definition fresh_login :: auth_response where
  "fresh_login = \<lparr>resp_token = ''t2'', resp_expiresAt = '''', resp_user = fresh_user\<rparr>"

theorem settled_refresh_resumes_every_waiting_call_witness:
  "goes_on_only_to 0 (refresh_succeeded fresh_login posted_refresh) (\<lambda>u c'. ac_phase c' = Sent
     \<and> ac_request c' = api_get ''/orders'' [] \<and> ac_sends c' = 2 \<and> ac_authorization c' = Some (bearer_now ''t2'' u))"
proof -
  from posted_refresh_call(2) obtain c where c: "map_of (cl_calls posted_refresh) 0 = Some c"
    "ac_phase c = Refreshing (ReplyError 401)" "ac_request c = api_get ''/orders'' []" by blast
  have "resp_token fresh_login \<noteq> ''''" by (simp add: fresh_login_def)
  from settled_refresh_resumes_every_waiting_call [OF posted_refresh_reachable posted_refresh_call(1) c(1,2) this]
  show ?thesis using c(3) by (simp add: fresh_login_def)
qed



text \<open>
  Every request comes back to its caller. In every interleaving a call meets at most five events of its
  own: each step of the client leaves a call as it is or brings it nearer to its end, with the same request; and as
  long as a call has no outcome, a step that brings it nearer is possible. No call is left in the list without its
  outcome, sent for ever or lost.
\<close>
theorem every_call_settles:
  assumes "client_reachable s" and "map_of (cl_calls s) i = Some c"
  shows "(\<forall>t. client_step s t \<longrightarrow> (\<exists>c'. map_of (cl_calls t) i = Some c' \<and> ac_request c' = ac_request c
        \<and> (c' = c \<or> rank_of c' < rank_of c)))
    \<and> rank_of c \<le> 5 \<and> (rank_of c = 0 \<longleftrightarrow> (\<exists>r. ac_phase c = Settled r))
    \<and> (rank_of c \<noteq> 0 \<longrightarrow> (\<exists>t c'. client_step s t \<and> map_of (cl_calls t) i = Some c' \<and> rank_of c' < rank_of c))"
proof (intro conjI allI impI)
  show "\<exists>c'. map_of (cl_calls t) i = Some c' \<and> ac_request c' = ac_request c \<and> (c' = c \<or> rank_of c' < rank_of c)"
    if "client_step s t" for t
    using client_step_call [OF that assms(2)] by metis
  show "rank_of c \<le> 5" "rank_of c = 0 \<longleftrightarrow> (\<exists>r. ac_phase c = Settled r)" by (cases "ac_phase c"; simp add: rank_of_def)+
  assume r: "rank_of c \<noteq> 0"
  show "\<exists>t c'. client_step s t \<and> map_of (cl_calls t) i = Some c' \<and> rank_of c' < rank_of c"
  proof (cases "ac_phase c")
    case Sent
    with client_step.ok [OF assms(2) Sent] show ?thesis by (intro exI conjI) (auto simp: rank_of_def)
  next
    case ReadingCache
    with client_step.cache [OF assms(2) ReadingCache] show ?thesis
      by (intro exI conjI) (auto simp: rank_of_def cache_answered_def)
  next
    case (Refreshing e)
    with client_invD [OF client_reachable_inv [OF assms(1)] assms(2)] obtain x where x: "cl_refreshPromise s = Some x"
      by (auto simp: call_ok_def)
    have "client_step s (refresh_failed None s)" by (cases x) (use x in \<open>auto intro: client_step.csrf_lost client_step.refused\<close>)
    with Refreshing show ?thesis
      by (intro exI conjI) (auto simp: step_calls assms(2) resume_waiting_def rank_of_def)
  next
    case (Resuming x e)
    have "\<exists>c'. map_of (cl_calls (resume_call i c x e s)) i = Some c' \<and> rank_of c' < rank_of c"
      using Resuming by (auto simp: resume_call_calls rank_of_def send_def)
    with client_step.resume [OF assms(2) Resuming] show ?thesis by blast
  next
    case (Settled x)
    with r show ?thesis by (simp add: rank_of_def)
  qed
qed

theorem every_call_settles_witness:
  "\<exists>t c'. client_step posted_refresh t \<and> map_of (cl_calls t) 0 = Some c' \<and> rank_of c' < 4"
proof -
  from posted_refresh_call(2) obtain c where c: "map_of (cl_calls posted_refresh) 0 = Some c"
    "ac_phase c = Refreshing (ReplyError 401)" by blast
  then have "rank_of c = 4" by (simp add: rank_of_def)
  with every_call_settles [OF posted_refresh_reachable c(1)] show ?thesis by auto
qed

end
