(* ===== verification/Sse.thy ===== *)
theory Sse
  imports ApiClient
begin

section \<open>Server-sent events\<close>

text \<open>
  Models \<open>api/sse.ts\<close> and the stream of \<open>api/notificationApi.ts\<close>. \<open>consumeSse\<close> is a function of the
  decoded chunks the reader gives before it is done; the loop of \<open>connectAuthenticatedStream\<close> is
  \<open>stream_round\<close>, one iteration on what the iteration observes at its awaits (\<open>stream_seen\<close>), and
  \<open>stream_run\<close>, its repetition.
\<close>

abbreviation CR :: char where "CR \<equiv> CHR 0x0D"
abbreviation LF :: char where "LF \<equiv> CHR 0x0A"

subsection \<open>The event parser\<close>

fun crlf :: "string \<Rightarrow> string" where
  \<comment> \<open>\<open>replace(/\r\n/g, '\n')\<close>\<close>
  "crlf [] = []"
| "crlf [c] = [c]"
| "crlf (c # d # cs) = (if c = CR \<and> d = LF then LF # crlf cs else c # crlf (d # cs))"

lemma length_crlf: "length (crlf s) \<le> length s"
  by (induction s rule: crlf.induct) auto

function take_frames :: "string \<Rightarrow> string list \<times> string" where
  \<comment> \<open>the inner loop: the blocks before each blank line, and the rest of the buffer\<close>
  "take_frames buffer = (case index_of [LF, LF] buffer of
     None \<Rightarrow> ([], buffer)
   | Some boundary \<Rightarrow> let (fs, rest) = take_frames (drop (boundary + 2) buffer)
       in (take boundary buffer # fs, rest))"
  by auto
termination
  by (relation "measure length") (auto dest: index_of_SomeD)

declare take_frames.simps [simp del]

record sse_event =
  ev_id :: "string option"
  ev_event :: "string option"
  ev_data :: string

definition field_of :: "string \<Rightarrow> string list \<Rightarrow> string option" where
  "field_of name lines = map_option (\<lambda>line. trim (drop (length name) line)) (find (starts_with name) lines)"

definition parse_frame :: "string \<Rightarrow> sse_event" where
  "parse_frame frame = (let lines = split_on LF frame in
     \<lparr>ev_id = field_of ''id:'' lines, ev_event = field_of ''event:'' lines,
      ev_data = join_with [LF] (map (\<lambda>line. trim_start (drop 5 line)) (filter (starts_with ''data:'') lines))\<rparr>)"

definition wanted :: "string \<Rightarrow> sse_event \<Rightarrow> bool" where
  "wanted eventName e \<longleftrightarrow> ev_event e = Some eventName \<and> ev_data e \<noteq> ''''"

fun emit_all ::
  "('s \<Rightarrow> string option \<Rightarrow> string \<Rightarrow> string + 's) \<Rightarrow> string \<Rightarrow> string list \<Rightarrow> 's \<Rightarrow> string + 's" where
  \<comment> \<open>the callback's exception, by the name of its error, ends the stream\<close>
  "emit_all emit eventName [] s = Inr s"
| "emit_all emit eventName (f # fs) s =
     (let e = parse_frame f in
      if wanted eventName e then
        (case emit s (ev_id e) (ev_data e) of
           Inl name \<Rightarrow> Inl (''SSE event processing failed ('' @ name @ '')'')
         | Inr s' \<Rightarrow> emit_all emit eventName fs s')
      else emit_all emit eventName fs s)"

fun consumeSse ::
  "('s \<Rightarrow> string option \<Rightarrow> string \<Rightarrow> string + 's) \<Rightarrow> string \<Rightarrow> string list \<Rightarrow> string \<Rightarrow> 's \<Rightarrow> string + 's" where
  "consumeSse emit eventName [] buffer s = Inr s"
| "consumeSse emit eventName (chunk # chunks) buffer s =
     (let (fs, rest) = take_frames (crlf (buffer @ chunk))
      in case emit_all emit eventName fs s of
           Inl e \<Rightarrow> Inl e
         | Inr s' \<Rightarrow> consumeSse emit eventName chunks rest s')"

subsection \<open>Chunking does not matter\<close>

fun no_double_cr :: "string \<Rightarrow> bool" where
  "no_double_cr (c # d # cs) \<longleftrightarrow> \<not> (c = CR \<and> d = CR) \<and> no_double_cr (d # cs)"
| "no_double_cr _ \<longleftrightarrow> True"

definition no_crlf :: "string \<Rightarrow> bool" where
  "no_crlf s \<longleftrightarrow> crlf s = s"

lemma crlf_append: "q = [] \<or> p = [] \<or> last p \<noteq> CR \<or> hd q \<noteq> LF \<Longrightarrow> crlf (p @ q) = crlf p @ crlf q"
proof (induction p rule: crlf.induct)
  case (2 c)
  then show ?case by (cases q) auto
next
  case (3 c d cs)
  then show ?case by (cases "cs = []") auto
qed auto

lemma crlf_append_cr: "crlf (p @ [CR]) = crlf p @ [CR]"
  using crlf_append [of "[CR]" p] by simp

lemma no_double_cr_append: "no_double_cr (p @ q) \<Longrightarrow> no_double_cr p \<and> no_double_cr q"
proof (induction p)
  case (Cons c p)
  then show ?case by (cases p; cases q) auto
qed (cases q; auto)

lemma hd_crlf: "s \<noteq> [] \<Longrightarrow> hd (crlf s) = hd s \<or> (hd s = CR \<and> hd (crlf s) = LF)"
  by (cases s rule: crlf.cases) auto

lemma crlf_idem: "no_double_cr s \<Longrightarrow> crlf (crlf s) = crlf s"
proof (induction s rule: crlf.induct)
  case (3 c d cs)
  show ?case
  proof (cases "c = CR \<and> d = LF")
    case True
    with 3 have "crlf (crlf cs) = crlf cs" by (cases cs) auto
    moreover have "crlf (LF # crlf cs) = LF # crlf (crlf cs)" by (cases "crlf cs") auto
    ultimately show ?thesis using True by simp
  next
    case False
    with 3 have i: "crlf (crlf (d # cs)) = crlf (d # cs)" by auto
    have "\<not> (c = CR \<and> hd (crlf (d # cs)) = LF)"
      using False 3(3) hd_crlf [of "d # cs"] by auto
    moreover have "crlf (d # cs) \<noteq> []" by (cases cs) auto
    ultimately have "crlf (c # crlf (d # cs)) = c # crlf (crlf (d # cs))"
      by (cases "crlf (d # cs)") auto
    moreover have "crlf (c # d # cs) = c # crlf (d # cs)" using False by auto
    ultimately show ?thesis using i by simp
  qed
qed auto

lemma crlf_eq_Nil [simp]: "crlf s = [] \<longleftrightarrow> s = []"
  by (cases s rule: crlf.cases) auto

lemma last_crlf: "s \<noteq> [] \<Longrightarrow> last (crlf s) = last s"
  by (induction s rule: crlf.induct) auto

lemma crlf_step: "no_double_cr (a @ b) \<Longrightarrow> crlf (crlf a @ b) = crlf (a @ b)"
proof (cases "b \<noteq> [] \<and> a \<noteq> [] \<and> last a = CR \<and> hd b = LF")
  case True
  assume d: "no_double_cr (a @ b)"
  from True obtain p q where p: "a = p @ [CR]" and q: "b = LF # q"
    by (metis append_butlast_last_id list.collapse)
  have l: "p = [] \<or> last p \<noteq> CR"
  proof (cases p rule: rev_cases)
    case (snoc p' x)
    with d p have "no_double_cr (p' @ x # CR # b)" by simp
    then have "no_double_cr (x # CR # b)" using no_double_cr_append by blast
    with snoc show ?thesis by auto
  qed simp
  have i: "crlf (crlf p) = crlf p" using d p crlf_idem no_double_cr_append by blast
  have e: "crlf (CR # LF # q) = LF # crlf q" by simp
  have "crlf (crlf p @ CR # LF # q) = crlf (crlf p) @ crlf (CR # LF # q)"
    by (rule crlf_append) simp
  moreover have "crlf (p @ CR # LF # q) = crlf p @ crlf (CR # LF # q)"
    by (rule crlf_append) simp
  ultimately show ?thesis using p q i by (simp add: crlf_append_cr)
next
  case False
  assume d: "no_double_cr (a @ b)"
  have "crlf (crlf a @ b) = crlf (crlf a) @ crlf b"
    by (rule crlf_append) (use False in \<open>auto simp: last_crlf\<close>)
  moreover have "crlf (a @ b) = crlf a @ crlf b" by (rule crlf_append) (use False in auto)
  ultimately show ?thesis using crlf_idem no_double_cr_append [OF d] by simp
qed

lemma index_of_append: "index_of p x = Some i \<Longrightarrow> index_of p (x @ y) = Some i"
proof (induction x arbitrary: i)
  case Nil
  then show ?case by (cases y) (auto simp: starts_with_def split: if_splits)
next
  case (Cons c cs)
  show ?case
  proof (cases "starts_with p (c # cs)")
    case True
    then obtain t where "c # cs = p @ t" by (auto simp: starts_with_iff)
    then have "starts_with p ((c # cs) @ y)" by (simp add: starts_with_iff)
    with True Cons.prems show ?thesis by simp
  next
    case False
    with Cons.prems obtain j where j: "index_of p cs = Some j" "i = Suc j" by auto
    from index_of_SomeD [OF j(1)] have "length p \<le> length (c # cs)" by simp
    then have "take (length p) ((c # cs) @ y) = take (length p) (c # cs)"
      by (simp only: take_append) simp
    with False have "\<not> starts_with p (c # cs @ y)" by (simp add: starts_with_def)
    with Cons.IH [OF j(1)] j(2) show ?thesis by simp
  qed
qed

lemma index_of_take: "index_of p x = Some i \<Longrightarrow> index_of p (take (i + length p) x) = Some i"
proof (induction x arbitrary: i)
  case (Cons c cs)
  show ?case
  proof (cases "starts_with p (c # cs)")
    case True
    then have "take (length p) (c # cs) = p" by (simp add: starts_with_def)
    moreover have "index_of p p = Some 0" by (cases p) (auto simp: starts_with_def)
    ultimately show ?thesis using Cons.prems True by simp
  next
    case False
    with Cons.prems obtain j where j: "index_of p cs = Some j" "i = Suc j" by auto
    have "\<not> starts_with p (c # take (j + length p) cs)"
      using False by (auto simp: starts_with_def take_Cons' split: if_splits)
    with Cons.IH [OF j(1)] j(2) show ?thesis by simp
  qed
qed (simp split: if_splits)

lemma take_frames_prefix:
  "take_frames x = (fs, r) \<Longrightarrow> \<exists>p. x = p @ r \<and> (p = [] \<or> last p = LF) \<and>
     (\<forall>z. take_frames (p @ z) = (fs @ fst (take_frames z), snd (take_frames z)))"
proof (induction x arbitrary: fs rule: take_frames.induct)
  case (1 x)
  show ?case
  proof (cases "index_of [LF, LF] x")
    case None
    with "1.prems" show ?thesis by (subst (asm) take_frames.simps) auto
  next
    case (Some i)
    obtain gs where t: "take_frames (drop (i + 2) x) = (gs, r)" and fs: "fs = take i x # gs"
      using "1.prems" Some by (subst (asm) take_frames.simps) (auto split: prod.splits)
    from "1.IH" [OF Some t] obtain q where q: "drop (i + 2) x = q @ r" "q = [] \<or> last q = LF"
      "\<And>z. take_frames (q @ z) = (gs @ fst (take_frames z), snd (take_frames z))" by auto
    from index_of_SomeD [OF Some] have l: "i + 2 \<le> length x" and m: "take 2 (drop i x) = [LF, LF]"
      by (auto simp: numeral_2_eq_2)
    obtain h where h: "h = take i x @ [LF, LF]" "h = take (i + 2) x" using m by (simp only: take_add)
    have hi: "index_of [LF, LF] (h @ z) = Some i" for z
      using index_of_append [OF index_of_take [OF Some]] h(2) by simp
    have hl: "length h = i + 2" using h(2) l by simp
    have hd: "take i (h @ z) = take i x" "drop (i + 2) (h @ z) = z" for z using h(1) hl l by simp_all
    have "take_frames (h @ z) = (take i x # fst (take_frames z), snd (take_frames z))" for z
      by (subst take_frames.simps) (simp only: hi hd option.case Let_def case_prod_beta)
    with q(3) fs have "take_frames ((h @ q) @ z) = (fs @ fst (take_frames z), snd (take_frames z))" for z by simp
    moreover have "x = (h @ q) @ r" using q(1) h(2) by (metis append.assoc append_take_drop_id)
    moreover have "last (h @ q) = LF" using q(2) h(1) by (auto simp: last_append)
    ultimately show ?thesis by blast
  qed
qed

lemma crlf_prefix:
  assumes "crlf (p @ r) = p @ r" and "p = [] \<or> last p = LF"
  shows "crlf (p @ r @ b) = p @ crlf (r @ b)"
proof -
  have "crlf (p @ r) = crlf p @ crlf r" by (rule crlf_append) (use assms(2) in auto)
  with assms(1) have "length (crlf p) + length (crlf r) = length p + length r" by (metis length_append)
  with length_crlf [of p] length_crlf [of r] have "length (crlf p) = length p" by linarith
  with \<open>crlf (p @ r) = crlf p @ crlf r\<close> assms(1) have "crlf p = p" by simp
  moreover have "crlf (p @ r @ b) = crlf p @ crlf (r @ b)" by (rule crlf_append) (use assms(2) in auto)
  ultimately show ?thesis by simp
qed

lemma frames_step:
  assumes "no_double_cr (a @ b)" and "take_frames (crlf a) = (fs, rest)"
    and "take_frames (crlf (rest @ b)) = (gs, rest')"
  shows "take_frames (crlf (a @ b)) = (fs @ gs, rest')"
proof -
  from take_frames_prefix [OF assms(2)] obtain p where p: "crlf a = p @ rest" "p = [] \<or> last p = LF"
    "\<And>z. take_frames (p @ z) = (fs @ fst (take_frames z), snd (take_frames z))" by auto
  have "crlf (p @ rest) = p @ rest"
    using crlf_idem no_double_cr_append [OF assms(1)] p(1) by metis
  from crlf_prefix [OF this p(2), of b] have "crlf (a @ b) = p @ crlf (rest @ b)"
    using crlf_step [OF assms(1)] p(1) by simp
  with p(3) assms(3) show ?thesis by simp
qed

lemma emit_all_append:
  "emit_all emit ev (fs @ gs) s = (case emit_all emit ev fs s of Inl e \<Rightarrow> Inl e | Inr s' \<Rightarrow> emit_all emit ev gs s')"
  by (induction fs arbitrary: s) (auto simp: Let_def split: sum.splits)

lemma consumeSse_from:
  assumes "no_double_cr (a @ concat chunks)" and "take_frames (crlf a) = (fs, rest)"
  shows "\<exists>gs. fst (take_frames (crlf (a @ concat chunks))) = fs @ gs
    \<and> (\<forall>s. consumeSse emit ev chunks rest s = emit_all emit ev gs s)"
  using assms
proof (induction chunks arbitrary: a fs rest)
  case (Cons c cs)
  obtain hs rest' where h: "take_frames (crlf (rest @ c)) = (hs, rest')" by fastforce
  have "no_double_cr (a @ c)" using Cons.prems(1) no_double_cr_append [of "a @ c"] by simp
  from Cons.IH [OF _ frames_step [OF this Cons.prems(2) h]] Cons.prems(1) obtain gs where
    "fst (take_frames (crlf ((a @ c) @ concat cs))) = (fs @ hs) @ gs"
    "\<And>s. consumeSse emit ev cs rest' s = emit_all emit ev gs s" by auto
  then show ?case
    by (intro exI [of _ "hs @ gs"]) (simp add: h emit_all_append split: sum.split)
qed simp

subsection \<open>The reconnecting stream\<close>

datatype thrown = TypeError | DomException string | Cancelled | OtherError

datatype fetched =
    FetchThrew thrown
  | Response int bool bool \<comment> \<open>status, whether it has a body, whether its type is an event stream\<close>

record stream_seen =
  sn_aborted :: bool
  sn_token :: "string option"
  sn_online :: bool
  sn_fetched :: fetched
  sn_abortedAfterFetch :: bool
  sn_current :: "string option" \<comment> \<open>the store's token after a 401\<close>
  sn_refreshed :: "string option" \<comment> \<open>what \<open>refreshAccessToken\<close> resolves to\<close>
  sn_abortedAfterRefresh :: bool
  sn_tokenAfterRefresh :: "string option"
  sn_consumed :: "thrown option" \<comment> \<open>how \<open>consume\<close> ends; None at the end of the stream\<close>
  sn_abortedAtEnd :: bool

datatype stream_action =
    Fetch "string option"
  | OnConnected
  | OnRetry
  | RefreshToken
  | EndSession
  | ReportError
  | Delay nat

definition token_truthy :: "string option \<Rightarrow> bool" where
  "token_truthy t \<longleftrightarrow> t \<noteq> None \<and> t \<noteq> Some ''''"

definition retry_delay :: "nat \<Rightarrow> nat" where
  "retry_delay attempt = min 30000 (1000 * 2 ^ min attempt 5)"

definition retryable :: "thrown \<Rightarrow> bool" where
  "retryable e \<longleftrightarrow> (case e of TypeError \<Rightarrow> True | DomException n \<Rightarrow> n \<in> {''AbortError'', ''NetworkError''} | _ \<Rightarrow> False)"

type_synonym loop_state = "nat \<times> bool" \<comment> \<open>\<open>attempt\<close> and \<open>authRetried\<close>\<close>

definition back_off :: "stream_seen \<Rightarrow> loop_state \<Rightarrow> stream_action list \<times> loop_state option" where
  \<comment> \<open>the end of the loop body\<close>
  "back_off s l = (if sn_abortedAtEnd s then ([], None)
     else ([OnRetry, Delay (retry_delay (fst l + 1))], Some (fst l + 1, snd l)))"

definition on_thrown :: "stream_seen \<Rightarrow> thrown \<Rightarrow> loop_state \<Rightarrow> stream_action list \<times> loop_state option" where
  \<comment> \<open>the \<open>catch\<close>\<close>
  "on_thrown s e l =
     (if sn_abortedAtEnd s \<or> e = Cancelled then ([], None)
      else if \<not> retryable e then ([ReportError], None)
      else back_off s l)"

definition acts :: "stream_action list \<Rightarrow> stream_action list \<times> 'a \<Rightarrow> stream_action list \<times> 'a" where
  "acts as r = (as @ fst r, snd r)"

definition stream_round :: "stream_seen \<Rightarrow> loop_state \<Rightarrow> stream_action list \<times> loop_state option" where
  \<comment> \<open>a \<open>StreamUnavailable\<close> goes to the back-off\<close>
  "stream_round s l =
     (if sn_aborted s \<or> \<not> token_truthy (sn_token s) then ([], None)
      else if \<not> sn_online s then back_off s l
      else acts [Fetch (sn_token s)]
        (case sn_fetched s of
           FetchThrew e \<Rightarrow> on_thrown s e l
         | Response status has_body event_stream \<Rightarrow>
             if sn_abortedAfterFetch s then ([], None)
             else if status = 403 then ([OnRetry], None)
             else if status = 401 then
               (if snd l then ([EndSession, OnRetry], None)
                else
                  let same = sn_current s = sn_token s;
                      refreshed = (if same then sn_refreshed s else sn_current s)
                  in acts (if same then [RefreshToken] else [])
                    (if sn_abortedAfterRefresh s \<or> \<not> token_truthy (sn_tokenAfterRefresh s) then ([OnRetry], None)
                     else if token_truthy refreshed then ([], Some (fst l, True))
                     else back_off s l))
             else if \<not> (200 \<le> status \<and> status < 300) \<or> \<not> has_body \<or> \<not> event_stream then back_off s l
             else acts [OnConnected]
               (case sn_consumed s of None \<Rightarrow> back_off s (0, False) | Some e \<Rightarrow> on_thrown s e (0, False))))"

fun stream_run :: "stream_seen list \<Rightarrow> loop_state \<Rightarrow> stream_action list" where
  "stream_run [] l = []"
| "stream_run (s # ss) l = (case stream_round s l of
     (as, None) \<Rightarrow> as | (as, Some l') \<Rightarrow> as @ stream_run ss l')"

definition connectAuthenticatedStream :: "stream_seen list \<Rightarrow> stream_action list" where
  "connectAuthenticatedStream seen = stream_run seen (0, False)"

definition owner_changed :: "string option \<Rightarrow> auth_state \<Rightarrow> bool" where
  \<comment> \<open>the store subscription aborts the stream\<close>
  "owner_changed owner a \<longleftrightarrow> \<not> token_truthy (as_accessToken a) \<or> current_id a \<noteq> owner"

subsection \<open>Notifications\<close>

record navigation_action =
  na_label :: string
  na_url :: string

datatype notification_type =
    SECURITY_SESSION_STARTED | SECURITY_PASSWORD_CHANGED | RESERVATION_CREATED | RESERVATION_STATUS_CHANGED
  | ORDER_CREATED | ORDER_STATUS_CHANGED | REPORT_COMPLETED | WAITLIST_OFFERED | WAITLIST_CANCELLED
  | WORKFLOW_ACTION_REQUIRED | WORKFLOW_REMINDER | WORKFLOW_ESCALATED | WORKFLOW_COMPLETED

datatype notification_priority = P_LOW | P_NORMAL | P_HIGH

record app_notification =
  nt_id :: string
  nt_type :: notification_type
  nt_priority :: notification_priority
  nt_title :: string
  nt_body :: string
  nt_read :: bool
  nt_createdAt :: string
  nt_action :: "navigation_action option"

record notification_page =
  np_notifications :: "app_notification list"
  np_unreadCount :: nat
  np_page :: nat
  np_size :: nat
  np_totalElements :: nat
  np_totalPages :: nat

record notification_preference =
  pr_type :: string
  pr_mandatory :: bool
  pr_inAppEnabled :: bool
  pr_emailEnabled :: bool

definition notificationApi_list :: "nat \<Rightarrow> http_request" where
  "notificationApi_list page = api_get ''/notifications'' [(''page'', Some (jnat page))]"

definition notificationApi_read :: "string \<Rightarrow> http_request" where
  "notificationApi_read i = api_send PATCH (''/notifications/'' @ i @ ''/read'') None"

definition notificationApi_readAll :: http_request where
  "notificationApi_readAll = api_send PATCH ''/notifications/read-all'' None"

definition notificationApi_open :: "string \<Rightarrow> http_request" where
  "notificationApi_open i = api_get (''/notifications/'' @ i @ ''/open'') []"

definition notificationApi_preferences :: http_request where
  "notificationApi_preferences = api_get ''/notifications/preferences'' []"

definition notificationApi_savePreference :: "notification_preference \<Rightarrow> http_request" where
  "notificationApi_savePreference v = api_send PUT ''/notifications/preferences''
     (body [(''type'', Some (JStr (pr_type v))), (''mandatory'', Some (JBool (pr_mandatory v))),
            (''inAppEnabled'', Some (JBool (pr_inAppEnabled v))), (''emailEnabled'', Some (JBool (pr_emailEnabled v)))])"

definition last_event_key :: string where
  "last_event_key = ''gmanager.notification.last-event-id''"

definition notification_emit ::
  "(string \<Rightarrow> json option) \<Rightarrow> (string, string) dict \<times> json list \<Rightarrow> string option \<Rightarrow> string
     \<Rightarrow> string + (string, string) dict \<times> json list" where
  \<comment> \<open>on \<open>localStorage\<close> and the notifications handed to \<open>onNotification\<close>; \<open>parse\<close> is \<open>JSON.parse\<close>\<close>
  "notification_emit parse s ident data =
     (let storage = (case ident of
          Some i \<Rightarrow> if i = '''' then fst s else AList.update last_event_key i (fst s) | None \<Rightarrow> fst s)
      in case parse data of
           Some v \<Rightarrow> Inr (storage, snd s @ [v])
         | None \<Rightarrow> Inl ''SyntaxError'')"

definition notification_headers :: "(string, string) dict \<Rightarrow> (string \<times> string) list" where
  "notification_headers storage = (case map_of storage last_event_key of
     Some i \<Rightarrow> if i = '''' then [] else [(''Last-Event-ID'', i)] | None \<Rightarrow> [])"

datatype stream_state = S_connected | S_reconnecting | S_offline

definition notification_state :: "bool \<Rightarrow> stream_action \<Rightarrow> stream_state option" where
  \<comment> \<open>what \<open>connectNotificationStream\<close> reports to its caller on the stream's callbacks\<close>
  "notification_state onLine a = (case a of
     OnConnected \<Rightarrow> Some S_connected
   | OnRetry \<Rightarrow> Some (if onLine then S_reconnecting else S_offline)
   | _ \<Rightarrow> None)"

subsection \<open>Properties\<close>

text \<open>
  Property C4: for a stream whose text has no two carriage returns in a row (a server that ends its lines with
  LF or CR LF sends none), the events handed to the caller depend on the text and not on how the network cuts it
  into chunks: \<open>consumeSse\<close> on any chunks is the reference that normalizes the whole text, cuts it at blank lines
  and emits the wanted events in order, up to and including the first callback error.
\<close>
theorem events_do_not_depend_on_chunks:
  assumes "no_double_cr (concat chunks)"
  shows "consumeSse emit eventName chunks '''' s =
    emit_all emit eventName (fst (take_frames (crlf (concat chunks)))) s"
proof -
  have "index_of [LF, LF] [] = None" by simp
  then have "take_frames (crlf []) = ([], [])" by (subst take_frames.simps) simp
  from consumeSse_from [OF _ this, of chunks emit eventName] assms show ?thesis by auto
qed

theorem events_do_not_depend_on_chunks_witness:
  "consumeSse (\<lambda>s i d. Inr (s @ [(i, d)])) ''notification'' [''id: 7'' @ [CR], LF # ''event: notification'' @ [LF] @ ''data: x'' @ [LF], [LF]] '''' []
    = Inr [(Some ''7'', ''x'')]"
proof -
  have n: "no_double_cr (concat [''id: 7'' @ [CR], LF # ''event: notification'' @ [LF] @ ''data: x'' @ [LF], [LF]])"
    by simp
  have t: "take_frames (crlf (concat [''id: 7'' @ [CR], LF # ''event: notification'' @ [LF] @ ''data: x'' @ [LF], [LF]]))
      = ([''id: 7'' @ [LF] @ ''event: notification'' @ [LF] @ ''data: x''], [])"
    by (simp add: take_frames.simps starts_with_def)
  show ?thesis
    unfolding events_do_not_depend_on_chunks [OF n] t
    by (simp add: parse_frame_def field_of_def wanted_def starts_with_def trim_def trim_start_def is_space_def)
qed

text \<open>
  Without this condition it fails: \<open>consumeSse\<close> normalizes what is left of the buffer again with each chunk, so in
  CR CR LF LF the first CR stays in the data when the text comes whole and is lost when it is cut before the last LF.
\<close>

lemma double_cr_depends_on_chunks:
  "let text = ''event: n'' @ [LF] @ ''data: x'' @ [CR, CR, LF] in
   consumeSse (\<lambda>s i d. Inr (s @ [d])) ''n'' [text @ [LF]] '''' [] = Inr [''x'' @ [CR]]
   \<and> consumeSse (\<lambda>s i d. Inr (s @ [d])) ''n'' [text, [LF]] '''' [] = Inr [''x'']"
  by (simp add: Let_def take_frames.simps starts_with_def parse_frame_def field_of_def wanted_def trim_def trim_start_def is_space_def)

definition fetches :: "stream_action list \<Rightarrow> nat" where
  "fetches as = length (filter (\<lambda>a. case a of Fetch _ \<Rightarrow> True | _ \<Rightarrow> False) as)"

definition delays :: "stream_action list \<Rightarrow> nat list" where
  "delays as = List.map_filter (\<lambda>a. case a of Delay d \<Rightarrow> Some d | _ \<Rightarrow> None) as"

lemma paced_simps [simp]:
  "fetches [] = 0" "fetches (a # as) = (case a of Fetch _ \<Rightarrow> 1 | _ \<Rightarrow> 0) + fetches as"
  "fetches (as @ bs) = fetches as + fetches bs"
  "delays [] = []" "delays (a # as) = (case a of Delay d \<Rightarrow> d # delays as | _ \<Rightarrow> delays as)"
  "delays (as @ bs) = delays as @ delays bs"
  by (simp_all add: fetches_def delays_def List.map_filter_simps List.map_filter_def split: stream_action.split)

lemma retry_delay_range: "0 < n \<Longrightarrow> 2000 \<le> retry_delay n \<and> retry_delay n \<le> 30000"
proof -
  assume "0 < n"
  then have "(2::nat) ^ 1 \<le> 2 ^ min n 5" by (intro power_increasing) auto
  then show ?thesis by (simp add: retry_delay_def)
qed

lemma back_off_paced:
  "back_off s l = (as, l') \<Longrightarrow> fetches as = 0 \<and> set (delays as) \<subseteq> {2000..30000}
     \<and> (l' \<noteq> None \<longrightarrow> length (delays as) = 1)"
  using retry_delay_range [of "fst l + 1"] by (auto simp: back_off_def split: if_splits)

lemma on_thrown_paced:
  "on_thrown s e l = (as, l') \<Longrightarrow> fetches as = 0 \<and> set (delays as) \<subseteq> {2000..30000}
     \<and> (l' \<noteq> None \<longrightarrow> length (delays as) = 1)"
  using back_off_paced [of s l as l'] by (auto simp: on_thrown_def split: if_splits)

definition paced :: "loop_state \<Rightarrow> stream_action list \<times> loop_state option \<Rightarrow> bool" where
  "paced l r \<longleftrightarrow> fetches (fst r) \<le> 1 \<and> set (delays (fst r)) \<subseteq> {2000..30000}
     \<and> (\<forall>l'. snd r = Some l' \<longrightarrow> length (delays (fst r)) = 1 \<or> (\<not> snd l \<and> snd l' \<and> delays (fst r) = []))"

lemma paced_tail:
  "fetches (fst r) = 0 \<Longrightarrow> set (delays (fst r)) \<subseteq> {2000..30000} \<Longrightarrow> (snd r \<noteq> None \<longrightarrow> length (delays (fst r)) = 1)
     \<Longrightarrow> fetches as \<le> 1 \<Longrightarrow> delays as = [] \<Longrightarrow> paced l (acts as r)"
  by (auto simp: paced_def acts_def)

lemma acts_simps:
  "acts [] r = r" "acts as (acts bs r) = acts (as @ bs) r" "acts as (bs, x) = (as @ bs, x)"
  "acts as (if b then r else r') = (if b then acts as r else acts as r')"
  "acts as (case z of None \<Rightarrow> r | Some e \<Rightarrow> g e) = (case z of None \<Rightarrow> acts as r | Some e \<Rightarrow> acts as (g e))"
  by (auto simp: acts_def split: option.split)

lemma paced_back_off: "fetches as \<le> 1 \<Longrightarrow> delays as = [] \<Longrightarrow> paced l (acts as (back_off s l'))"
  using back_off_paced [of s l' "fst (back_off s l')" "snd (back_off s l')"] by (intro paced_tail) auto

lemma paced_on_thrown: "fetches as \<le> 1 \<Longrightarrow> delays as = [] \<Longrightarrow> paced l (acts as (on_thrown s e l'))"
  using on_thrown_paced [of s e l' "fst (on_thrown s e l')" "snd (on_thrown s e l')"] by (intro paced_tail) auto

lemma paced_simple:
  "fetches as \<le> 1 \<Longrightarrow> delays as = [] \<Longrightarrow> paced l (as, None)"
  "fetches as \<le> 1 \<Longrightarrow> delays as = [] \<Longrightarrow> \<not> snd l \<Longrightarrow> paced l (as, Some (n, True))"
  by (simp_all add: paced_def)

lemma stream_round_paced: "paced l (stream_round s l)"
  using paced_back_off [of "[]" l s l]
  by (cases "sn_fetched s")
    (simp_all add: stream_round_def Let_def acts_simps paced_back_off paced_on_thrown paced_simple split: option.split)

lemma stream_run_paced:
  "fetches (stream_run ss l) \<le> 2 * length (delays (stream_run ss l)) + (if snd l then 1 else 2)
     \<and> set (delays (stream_run ss l)) \<subseteq> {2000..30000}"
proof (induction ss arbitrary: l)
  case (Cons s ss)
  obtain as l' where r: "stream_round s l = (as, l')" by fastforce
  with stream_round_paced [of l s] have p: "paced l (as, l')" by simp
  show ?case
  proof (cases l')
    case None
    with r p show ?thesis by (simp add: paced_def)
  next
    case (Some m)
    with r p Cons.IH [of m] show ?thesis by (auto simp: paced_def split: if_splits)
  qed
qed simp

text \<open>
  Property C23: the reconnecting stream never hammers the server: every pause lies between two and thirty
  seconds, and the number of connection attempts is at most two for each pause plus two, whatever the
  server answers.
\<close>
theorem stream_reconnects_are_paced:
  "(\<forall>d. Delay d \<in> set (connectAuthenticatedStream seen) \<longrightarrow> 2000 \<le> d \<and> d \<le> 30000)
   \<and> length (filter (\<lambda>a. \<exists>t. a = Fetch t) (connectAuthenticatedStream seen))
      \<le> 2 * length (filter (\<lambda>a. \<exists>d. a = Delay d) (connectAuthenticatedStream seen)) + 2"
proof -
  let ?as = "connectAuthenticatedStream seen"
  have f: "fetches as = length (filter (\<lambda>a. \<exists>t. a = Fetch t) as)"
    and d: "length (delays as) = length (filter (\<lambda>a. \<exists>d. a = Delay d) as)"
    and m: "Delay x \<in> set as \<Longrightarrow> x \<in> set (delays as)" for as x
    by (induction as) (auto split: stream_action.splits)
  have r: "set (delays ?as) \<subseteq> {2000..30000}" "fetches ?as \<le> 2 * length (delays ?as) + 2"
    using stream_run_paced [of seen "(0, False)"] by (simp_all add: connectAuthenticatedStream_def)
  show ?thesis
  proof (intro conjI allI impI)
    fix x
    assume "Delay x \<in> set ?as"
    from subsetD [OF r(1) m [OF this]] show "2000 \<le> x" "x \<le> 30000" by simp_all
  qed (use r(2) in \<open>simp add: f d\<close>)
qed

theorem stream_reconnects_are_paced_witness:
  "2000 \<le> retry_delay 1 \<and> (let s = \<lparr>sn_aborted = False, sn_token = Some ''t'', sn_online = False, sn_fetched = FetchThrew TypeError,
       sn_abortedAfterFetch = False, sn_current = None, sn_refreshed = None, sn_abortedAfterRefresh = False,
       sn_tokenAfterRefresh = None, sn_consumed = None, sn_abortedAtEnd = False\<rparr>
     in Delay (retry_delay 1) \<in> set (connectAuthenticatedStream [s]))"
proof -
  let ?s = "\<lparr>sn_aborted = False, sn_token = Some ''t'', sn_online = False, sn_fetched = FetchThrew TypeError,
       sn_abortedAfterFetch = False, sn_current = None, sn_refreshed = None, sn_abortedAfterRefresh = False,
       sn_tokenAfterRefresh = None, sn_consumed = None, sn_abortedAtEnd = False\<rparr>"
  have m: "Delay (retry_delay 1) \<in> set (connectAuthenticatedStream [?s])"
    by (simp add: connectAuthenticatedStream_def stream_round_def token_truthy_def back_off_def)
  with stream_reconnects_are_paced [of "[?s]"] show ?thesis by (simp add: Let_def)
qed

end
