(* ===== verification/Web.thy ===== *)
theory Web
  imports Http ApiErrors
begin

section \<open>Helpers of the pages\<close>

text \<open>
  What several pages use beside the requests: \<open>encodeURIComponent\<close>, chains of
  \<open>message.replace(pattern, text)\<close>, the Serbian plural forms, and the bulk operations of
  \<open>types/bulk.types.ts\<close>.
\<close>

definition hex_digit :: "nat \<Rightarrow> char" where
  "hex_digit n = ''0123456789ABCDEF'' ! n"

definition unreserved :: "char \<Rightarrow> bool" where
  "unreserved c \<longleftrightarrow> is_alnum c \<or> c \<in> set ''-_.!~*()'' \<or> c = CHR 0x27"

definition percent :: "char \<Rightarrow> string" where
  "percent c = (let n = of_char c :: nat in [CHR ''%'', hex_digit (n div 16), hex_digit (n mod 16)])"

definition encodeURIComponent :: "string \<Rightarrow> string" where
  "encodeURIComponent s = concat (map (\<lambda>c. if unreserved c then [c] else percent c) s)"

definition replace_texts :: "(string \<times> string) list \<Rightarrow> string \<Rightarrow> string" where
  \<comment> \<open>\<open>s.replace(p1, r1).replace(p2, r2)\<close> and so on\<close>
  "replace_texts table s = fold (\<lambda>(p, r) m. replace_first p r m) table s"

definition plural :: "nat \<Rightarrow> string \<Rightarrow> string \<Rightarrow> string \<Rightarrow> string" where
  "plural n one few many =
     (let ending = n mod 10; hundred = n mod 100
      in if ending = 1 \<and> hundred \<noteq> 11 then one
         else if 2 \<le> ending \<and> ending \<le> 4 \<and> (hundred < 12 \<or> 14 < hundred) then few else many)"

record bulk_item_outcome =
  bo_id :: string
  bo_success :: bool
  bo_message :: string

record bulk_operation_response =
  br_requested :: nat
  br_succeeded :: nat
  br_failed :: nat
  br_outcomes :: "bulk_item_outcome list"

lemma hex_digit_neq_percent: "n < 16 \<Longrightarrow> m < 16 \<Longrightarrow> hex_digit n = hex_digit m \<longleftrightarrow> n = m"
  unfolding hex_digit_def by (subst nth_eq_iff_index_eq) simp_all

lemma percent_inj: "percent c @ s = percent d @ t \<Longrightarrow> c = d \<and> s = t"
proof -
  assume a: "percent c @ s = percent d @ t"
  have b: "(of_char x :: nat) div 16 < 16" "(of_char x :: nat) mod 16 < 16" for x
    using nat_of_char_less_256 [of x] by (simp_all add: less_mult_imp_div_less)
  have "(of_char c :: nat) div 16 = of_char d div 16" "(of_char c :: nat) mod 16 = of_char d mod 16"
    using a hex_digit_neq_percent [of "of_char c div 16" "of_char d div 16"]
      hex_digit_neq_percent [of "of_char c mod 16" "of_char d mod 16"] b by (auto simp: percent_def Let_def)
  then have "(of_char c :: nat) = of_char d" by (metis div_mult_mod_eq)
  with a show ?thesis by (simp add: percent_def Let_def)
qed

lemma percent_hd: "hd (percent c @ s) = CHR ''%''" and unreserved_percent: "\<not> unreserved CHR ''%''"
  by (simp_all add: percent_def Let_def unreserved_def is_alnum_def char_within_def less_eq_char_def is_digit_def)

lemma encodeURIComponent_inj: "encodeURIComponent s = encodeURIComponent t \<longleftrightarrow> s = t"
proof
  assume "encodeURIComponent s = encodeURIComponent t"
  then show "s = t"
  proof (induction s arbitrary: t)
    case Nil
    then show ?case by (cases t) (auto simp: encodeURIComponent_def percent_def Let_def split: if_splits)
  next
    case (Cons c s)
    then obtain d u where t: "t = d # u"
      by (cases t) (auto simp: encodeURIComponent_def percent_def Let_def split: if_splits)
    let ?e = "\<lambda>c. if unreserved c then [c] else percent c"
    from Cons.prems t have e: "?e c @ encodeURIComponent s = ?e d @ encodeURIComponent u"
      by (simp add: encodeURIComponent_def)
    have "c = d \<and> encodeURIComponent s = encodeURIComponent u"
    proof (cases "unreserved c = unreserved d")
      case True
      with e percent_inj [of c _ d] show ?thesis by (cases "unreserved d") auto
    next
      case False
      with e unreserved_percent show ?thesis by (auto simp: percent_def Let_def split: if_splits)
    qed
    with Cons.IH t show ?case by simp
  qed
qed simp

end
