(* ===== verification/Orders.thy ===== *)
theory Orders
  imports Web Calendar
begin

section \<open>Orders and the catalog\<close>

text \<open>
  Models \<open>types/order.types.ts\<close>, \<open>types/catalog.types.ts\<close>, \<open>api/orderApi.ts\<close>, \<open>api/catalogApi.ts\<close>
  and \<open>order/orderPresentation.model.ts\<close>. Prices are rationals: the doubles the server sends are exact
  decimals with two places, and the sums the pages form are read as exact sums.
\<close>

subsection \<open>Types\<close>

datatype order_status = O_CREATED | O_IN_PROGRESS | O_READY | O_COMPLETED | O_CANCELLED

record order_item =
  oi_productId :: string
  oi_quantity :: int
  oi_unitPrice :: rat
  oi_lineTotal :: rat

record order =
  ord_id :: string
  ord_customerId :: string
  ord_handledBy :: "string option"
  ord_status :: order_status
  ord_totalPrice :: rat
  ord_items :: "order_item list"
  ord_createdAt :: string
  ord_updatedAt :: string
  ord_version :: int

record order_line =
  ol_productId :: string
  ol_quantity :: int

record managed_order_item = order_item +
  mi_productName :: "string option"
  mi_productImageUrl :: "string option"

record managed_order =
  mo_id :: string
  mo_customerId :: string
  mo_handledBy :: "string option"
  mo_status :: order_status
  mo_totalPrice :: rat
  mo_items :: "managed_order_item list"
  mo_createdAt :: string
  mo_updatedAt :: string
  mo_version :: int
  mo_customerName :: "string option"
  mo_handledByName :: "string option"

record order_statistics =
  os_total :: nat
  os_completed :: nat
  os_inProgress :: nat
  os_cancelled :: nat
  os_from :: "string option"
  os_to :: "string option"
  os_timeZone :: string

datatype item_type = PRODUCT | SERVICE

record catalog_statistics =
  cst_serviceCount :: nat
  cst_activeServiceCount :: nat
  cst_productCount :: nat
  cst_inactiveCount :: "nat option"
  cst_administrative :: bool
  cst_maxImageBytes :: nat

record catalog_item =
  ci_id :: string
  ci_name :: string
  ci_description :: "string option"
  ci_type :: item_type
  ci_price :: rat
  ci_durationMinutes :: "int option"
  ci_requiresResource :: "bool option"
  ci_active :: bool
  ci_imageUrl :: "string option"
  ci_createdAt :: string
  ci_updatedAt :: string
  ci_version :: int
  ci_deletedAt :: "string option"
  ci_deletedBy :: "string option"
  ci_deletionReason :: "string option"

record catalog_item_input =
  cin_name :: string
  cin_description :: "string option"
  cin_type :: item_type
  cin_price :: rat
  cin_durationMinutes :: "int option"
  cin_requiresResource :: "bool option"

record catalog_item_update =
  cu_name :: "string option"
  cu_description :: "string option"
  cu_type :: "item_type option"
  cu_price :: "rat option"
  cu_durationMinutes :: "int option"
  cu_requiresResource :: "bool option"
  cu_version :: int

fun order_status_text :: "order_status \<Rightarrow> string" where
  "order_status_text O_CREATED = ''CREATED''"
| "order_status_text O_IN_PROGRESS = ''IN_PROGRESS''"
| "order_status_text O_READY = ''READY''"
| "order_status_text O_COMPLETED = ''COMPLETED''"
| "order_status_text O_CANCELLED = ''CANCELLED''"

fun item_type_text :: "item_type \<Rightarrow> string" where
  "item_type_text PRODUCT = ''PRODUCT''"
| "item_type_text SERVICE = ''SERVICE''"

subsection \<open>Order requests\<close>

record order_filters =
  of_page :: nat
  of_size :: nat
  of_status :: "order_status option"
  of_handledBy :: "string option"
  of_from :: "string option"
  of_to :: "string option"
  of_search :: "string option"
  of_sort :: "string option"
  of_direction :: "string option"

definition order_params :: "order_filters \<Rightarrow> (string \<times> json option) list" where
  "order_params f = [(''page'', Some (jnat (of_page f))), (''size'', Some (jnat (of_size f))),
     (''status'', map_option (JStr \<circ> order_status_text) (of_status f)), (''handledBy'', jstr_opt (of_handledBy f)),
     (''from'', jstr_opt (of_from f)), (''to'', jstr_opt (of_to f)), (''search'', jstr_opt (of_search f)),
     (''sort'', jstr_opt (of_sort f)), (''direction'', jstr_opt (of_direction f))]"

definition line_json :: "order_line \<Rightarrow> json" where
  "line_json l = JObj [(''productId'', JStr (ol_productId l)), (''quantity'', jint (ol_quantity l))]"

definition orderApi_create :: "order_line list \<Rightarrow> string \<Rightarrow> http_request" where
  "orderApi_create items key = with_key key
     (api_send POST ''/orders'' (body [(''items'', Some (JArr (map line_json items)))]))"

definition orderApi_mine :: "order_filters \<Rightarrow> http_request" where
  "orderApi_mine f = api_get ''/orders/me'' (order_params f)"

definition orderApi_mineDetail :: "string \<Rightarrow> http_request" where
  "orderApi_mineDetail i = api_get (''/orders/me/'' @ encodeURIComponent i) []"

definition orderApi_list :: "order_filters \<Rightarrow> http_request" where
  "orderApi_list f = api_get ''/orders'' (order_params f)"

definition orderApi_detail :: "string \<Rightarrow> http_request" where
  "orderApi_detail i = api_get (''/orders/'' @ i) []"

definition orderApi_statistics :: "string option \<Rightarrow> string option \<Rightarrow> string option \<Rightarrow> http_request" where
  "orderApi_statistics from to handledBy = api_get ''/orders/statistics''
     [(''from'', jstr_opt from), (''to'', jstr_opt to), (''handledBy'', jstr_opt handledBy)]"

definition orderApi_changeStatus :: "string \<Rightarrow> int \<Rightarrow> order_status \<Rightarrow> http_request" where
  "orderApi_changeStatus i version status = api_send PATCH (''/orders/'' @ i @ ''/status'')
     (body [(''status'', Some (JStr (order_status_text status))), (''version'', Some (jint version))])"

definition orderApi_bulkStatus :: "order_status \<Rightarrow> bulk_item list \<Rightarrow> http_request" where
  "orderApi_bulkStatus status items = api_send PATCH ''/orders/bulk/status''
     (body [(''status'', Some (JStr (order_status_text status))), (''items'', Some (bulk_json items))])"

subsection \<open>Catalog requests\<close>

record catalog_filters =
  cf_page :: nat
  cf_size :: nat
  cf_type :: "item_type option"
  cf_active :: "bool option"
  cf_search :: "string option"
  cf_minPrice :: "rat option"
  cf_maxPrice :: "rat option"
  cf_sort :: "string option"
  cf_direction :: "string option"

definition catalog_filter_params :: "catalog_filters \<Rightarrow> (string \<times> json option) list" where
  "catalog_filter_params f = [(''type'', map_option (JStr \<circ> item_type_text) (cf_type f)),
     (''active'', map_option JBool (cf_active f)), (''search'', jstr_opt (cf_search f)),
     (''minPrice'', map_option (JNum \<circ> Num) (cf_minPrice f)), (''maxPrice'', map_option (JNum \<circ> Num) (cf_maxPrice f)),
     (''sort'', jstr_opt (cf_sort f)), (''direction'', jstr_opt (cf_direction f))]"

definition page_params :: "nat \<Rightarrow> nat \<Rightarrow> (string \<times> json option) list" where
  "page_params page sz = [(''page'', Some (jnat page)), (''size'', Some (jnat sz))]"

definition item_input_fields :: "catalog_item_input \<Rightarrow> (string \<times> json option) list" where
  "item_input_fields r = [(''name'', Some (JStr (cin_name r))), (''description'', jstr_opt (cin_description r)),
     (''type'', Some (JStr (item_type_text (cin_type r)))), (''price'', Some (JNum (Num (cin_price r)))),
     (''durationMinutes'', jint_opt (cin_durationMinutes r)), (''requiresResource'', map_option JBool (cin_requiresResource r))]"

definition item_update_fields :: "catalog_item_update \<Rightarrow> (string \<times> json option) list" where
  "item_update_fields r = [(''name'', jstr_opt (cu_name r)), (''description'', jstr_opt (cu_description r)),
     (''type'', map_option (JStr \<circ> item_type_text) (cu_type r)), (''price'', map_option (JNum \<circ> Num) (cu_price r)),
     (''durationMinutes'', jint_opt (cu_durationMinutes r)), (''requiresResource'', map_option JBool (cu_requiresResource r)),
     (''version'', Some (jint (cu_version r)))]"

definition with_params :: "(string \<times> json option) list \<Rightarrow> http_request \<Rightarrow> http_request" where
  "with_params ps r = r\<lparr>rq_params := Http.fields ps\<rparr>"

definition catalogApi_get :: "string \<Rightarrow> http_request" where
  "catalogApi_get i = api_get (''/catalog/'' @ encodeURIComponent i) []"

definition catalogApi_statistics :: http_request where
  "catalogApi_statistics = api_get ''/catalog/statistics'' []"

definition catalogApi_imageContent :: "string \<Rightarrow> http_request" where
  "catalogApi_imageContent i = api_get (''/documents/'' @ i @ ''/content'') [(''preview'', Some (JBool True))]"

definition catalogApi_list :: "catalog_filters \<Rightarrow> http_request" where
  "catalogApi_list f = api_get ''/catalog'' (page_params (cf_page f) (cf_size f) @ catalog_filter_params f)"

definition catalogApi_create :: "catalog_item_input \<Rightarrow> http_request" where
  "catalogApi_create r = api_send POST ''/catalog'' (body (item_input_fields r))"

definition catalogApi_update :: "string \<Rightarrow> catalog_item_update \<Rightarrow> http_request" where
  "catalogApi_update i r = api_send PATCH (''/catalog/'' @ i) (body (item_update_fields r))"

definition catalogApi_deactivate :: "catalog_item \<Rightarrow> http_request" where
  "catalogApi_deactivate item = with_params [(''version'', Some (jint (ci_version item)))]
     (api_send PATCH (''/catalog/'' @ ci_id item @ ''/deactivate'') None)"

definition catalogApi_activate :: "catalog_item \<Rightarrow> http_request" where
  "catalogApi_activate item = with_params [(''version'', Some (jint (ci_version item)))]
     (api_send PATCH (''/catalog/'' @ ci_id item @ ''/activate'') None)"

definition catalogApi_bulkActivation :: "bool \<Rightarrow> bulk_item list \<Rightarrow> http_request" where
  "catalogApi_bulkActivation activate items = api_send POST ''/catalog/bulk/activation''
     (body [(''action'', Some (JStr (if activate then ''ACTIVATE'' else ''DEACTIVATE''))), (''items'', Some (bulk_json items))])"

definition catalogApi_deleted :: "nat \<Rightarrow> nat \<Rightarrow> catalog_filters option \<Rightarrow> http_request" where
  "catalogApi_deleted page sz filters = api_get ''/catalog/deleted''
     ((case filters of Some f \<Rightarrow> catalog_filter_params f | None \<Rightarrow> []) @ page_params page sz)"

definition catalogApi_remove :: "string \<Rightarrow> string \<Rightarrow> http_request" where
  "catalogApi_remove i reason = api_send DELETE (''/catalog/'' @ i) (body [(''reason'', Some (JStr reason))])"

definition catalogApi_restore :: "string \<Rightarrow> http_request" where
  "catalogApi_restore i = api_send POST (''/catalog/'' @ i @ ''/restore'') None"

definition catalogApi_uploadImage :: "catalog_item \<Rightarrow> json \<Rightarrow> http_request" where
  \<comment> \<open>the form data with its one part \<open>image\<close>\<close>
  "catalogApi_uploadImage item img = with_params [(''version'', Some (jint (ci_version item)))]
     (api_send POST (''/catalog/'' @ ci_id item @ ''/image'') (Some (JObj [(''image'', img)])))"

subsection \<open>Presentation\<close>

definition shortOrderId :: "string \<Rightarrow> string" where
  "shortOrderId i = ''#'' @ take 8 i"

definition orderQuantity :: "order \<Rightarrow> int" where
  "orderQuantity ordr = sum_list (map oi_quantity (ord_items ordr))"

definition itemCountLabel :: "nat \<Rightarrow> string" where
  "itemCountLabel count = show_nat count @ '' '' @ plural count ''stavka'' ''stavke'' ''stavki''"

definition handlerLabel :: "managed_order \<Rightarrow> auth_user option \<Rightarrow> string" where
  "handlerLabel ordr user = (case mo_handledBy ordr of
     None \<Rightarrow> ''Nepreuzeta''
   | Some h \<Rightarrow> if h = '''' then ''Nepreuzeta'' else (case user of
       Some u \<Rightarrow> if h = user_id u then user_name u @ '' (vi)''
         else (case mo_handledByName ordr of Some n \<Rightarrow> n | None \<Rightarrow> ''Osoba nije dostupna'')
     | None \<Rightarrow> (case mo_handledByName ordr of Some n \<Rightarrow> n | None \<Rightarrow> ''Osoba nije dostupna'')))"

definition customerLabel :: "managed_order \<Rightarrow> auth_user option \<Rightarrow> string" where
  "customerLabel ordr user = (if hasCapability user CUSTOMER_READ
     then (case mo_customerName ordr of Some n \<Rightarrow> n | None \<Rightarrow> ''Klijent nije dostupan'')
     else ''Podaci o klijentu nisu dostupni'')"

definition canChangeOrder :: "order \<Rightarrow> order_status \<Rightarrow> auth_user option \<Rightarrow> bool" where
  "canChangeOrder ordr status user = (case user of
     None \<Rightarrow> False
   | Some u \<Rightarrow>
       if \<not> hasCapability user ORDER_READ_ALL \<or> \<not> hasCapability user ORDER_CHANGE_STATUS then False
       else
         let management = user_role u = OWNER \<or> user_role u = ADMIN;
             employee = user_role u = EMPLOYEE;
             handler = employee \<and> ord_handledBy ordr = Some (user_id u)
         in case status of
              O_IN_PROGRESS \<Rightarrow> ord_status ordr = O_CREATED \<and> (employee \<or> management)
            | O_READY \<Rightarrow> ord_status ordr = O_IN_PROGRESS \<and> (handler \<or> management)
            | O_COMPLETED \<Rightarrow> ord_status ordr = O_READY \<and> (handler \<or> management)
            | O_CANCELLED \<Rightarrow> ord_status ordr = O_CREATED \<and> (employee \<or> management)
                \<or> ord_status ordr = O_IN_PROGRESS \<and> (handler \<or> management) \<or> ord_status ordr = O_READY \<and> management
            | O_CREATED \<Rightarrow> False)"

fun orderActionLabels :: "order_status \<Rightarrow> string option" where
  "orderActionLabels O_IN_PROGRESS = Some (sr ''Preuzmi narud~zbinu'')"
| "orderActionLabels O_READY = Some (sr ''Ozna~ci kao spremnu'')"
| "orderActionLabels O_COMPLETED = Some (sr ''Ozna~ci kao preuzetu'')"
| "orderActionLabels O_CANCELLED = Some (sr ''Otka~zi narud~zbinu'')"
| "orderActionLabels O_CREATED = None"

definition orderTexts :: "(string \<times> string) list" where
  "orderTexts = [
    (''Order was changed; refresh and try again'', sr ''Narud~zbina je u me~duvremenu promenjena.''),
    (''Invalid order status transition'', sr ''Ova promena statusa vi~se nije dostupna.''),
    (''This order action is not permitted'', sr ''Nemate dozvolu za ovu akciju nad narud~zbinom.''),
    (''Order not found'', sr ''Narud~zbina nije prona~dena.''),
    (''Catalog item not found'', sr ''Proizvod nije dostupan u katalogu.''),
    (''Only products can be added to an order'', sr ''Narud~zbina mo~ze sadr~zati samo proizvode.''),
    (''Each product may appear only once per order'', sr ''Proizvod mo~ze biti naveden samo jednom u narud~zbini.''),
    (''Only customers can create orders'', sr ''Naru~civanje je dostupno samo kupcima.''),
    (''Customer access is required'', sr ''Pregled je dostupan samo kupcima.''),
    (''Order management is not permitted'', sr ''Nemate dozvolu za pregled narud~zbina.''),
    (''Access is denied'', sr ''Nemate dozvolu za ovu akciju.''),
    (''Authentication is required'', sr ''Potrebno je da se ponovo prijavite.'')]"

definition orderErrorMessage :: "cause \<Rightarrow> string \<Rightarrow> string" where
  "orderErrorMessage e fallback =
     (let text = (case e of
            PlainError m \<Rightarrow> if m = '''' then fallback else m
          | _ \<Rightarrow> apiErrorMessage e fallback);
          message = replace_texts orderTexts text
      in if isConflictResponse e
         then message @ sr '' Zatvorite potvrdu i ponovo izaberite akciju nad osve~zenim podacima.'' else message)"

subsection \<open>Periods\<close>

datatype order_period = ALL_TIME | TODAY | WEEK | MONTH | THIS_MONTH | CUSTOM

definition periodOptions :: "order_period list" where
  "periodOptions = [ALL_TIME, TODAY, WEEK, MONTH, THIS_MONTH, CUSTOM]"

definition offsetDate :: "platform \<Rightarrow> string \<Rightarrow> int \<Rightarrow> string option" where
  \<comment> \<open>None where \<open>toISOString\<close> throws\<close>
  "offsetDate P value days = do {
     date \<leftarrow> parse P (value @ ''T12:00:00Z'');
     date \<leftarrow> setUTCDate (getUTCDate date + days) date;
     Some (iso_slice date) }"

definition periodDates :: "platform \<Rightarrow> order_period \<Rightarrow> string \<Rightarrow> (string \<times> string) option" where
  "periodDates P value today =
     (if value = ALL_TIME then Some ('''', '''')
      else do {
        from \<leftarrow> (if value = WEEK then offsetDate P today (-6)
          else if value = MONTH then offsetDate P today (-29)
          else if value = THIS_MONTH then Some (take 7 today @ ''-01'')
          else Some today);
        Some (from, today) })"

definition currentPeriod :: "platform \<Rightarrow> string \<Rightarrow> string \<Rightarrow> string \<Rightarrow> order_period" where
  "currentPeriod P today from to =
     (case find (\<lambda>v. v \<noteq> CUSTOM \<and> periodDates P v today = Some (from, to)) periodOptions of
        Some v \<Rightarrow> v | None \<Rightarrow> CUSTOM)"

definition validOrderDate :: "platform \<Rightarrow> string \<Rightarrow> bool" where
  "validOrderDate P value =
     (if value = '''' then True
      else if \<not> date_shape value \<or> starts_with ''0000'' value then False
      else (case parse P (value @ ''T12:00:00Z'') of
          None \<Rightarrow> False | Some date \<Rightarrow> iso_slice date = value))"

definition periodLabel :: "(string \<Rightarrow> string) \<Rightarrow> string option \<Rightarrow> string option \<Rightarrow> string" where
  \<comment> \<open>\<open>date\<close> is the \<open>Intl\<close> format of a date\<close>
  "periodLabel date from to =
     (let given = (\<lambda>s. case s of Some v \<Rightarrow> v \<noteq> '''' | None \<Rightarrow> False) in
      if given from \<and> given to then date (the from) @ '' - '' @ date (the to)
      else if given from then ''Od '' @ date (the from)
      else if given to then ''Do '' @ date (the to) else ''Sve vreme'')"

subsection \<open>Properties\<close>

fun status_rank :: "order_status \<Rightarrow> nat" where
  "status_rank O_CREATED = 0"
| "status_rank O_IN_PROGRESS = 1"
| "status_rank O_READY = 2"
| "status_rank O_COMPLETED = 3"
| "status_rank O_CANCELLED = 3"

fun permitted_changes :: "(order_status \<times> auth_user option \<times> string option) list \<Rightarrow> order \<Rightarrow> bool" where
  \<comment> \<open>each change is permitted to its user; the server may set another handler with it\<close>
  "permitted_changes [] ordr \<longleftrightarrow> True"
| "permitted_changes ((status, user, handler) # rest) ordr \<longleftrightarrow> canChangeOrder ordr status user
     \<and> permitted_changes rest (ordr\<lparr>ord_status := status, ord_handledBy := handler\<rparr>)"

lemma canChangeOrder_advances: "canChangeOrder ordr status user \<Longrightarrow> status_rank (ord_status ordr) < status_rank status"
  by (cases status; cases "ord_status ordr") (auto simp: canChangeOrder_def Let_def split: option.splits if_splits)

lemma status_rank_le: "status_rank s \<le> 3"
  by (cases s) simp_all

lemma permitted_changes_bound:
  "permitted_changes cs ordr \<Longrightarrow> length cs + status_rank (ord_status ordr) \<le> 3"
proof (induction cs arbitrary: ordr)
  case (Cons c cs)
  obtain status user handler where c: "c = (status, user, handler)" by (cases c)
  from Cons.prems c have "canChangeOrder ordr status user" by simp
  with canChangeOrder_advances have "status_rank (ord_status ordr) < status_rank status" .
  with Cons.IH [of "ordr\<lparr>ord_status := status, ord_handledBy := handler\<rparr>"] Cons.prems c show ?case by simp
qed (simp add: status_rank_le)

text \<open>
  The status changes the pages offer always end: an order goes through at most three of
  them, whoever makes them, because each one moves it forward; a completed or cancelled order is
  offered none.
\<close>
theorem order_changes_terminate:
  assumes "permitted_changes changes ordr"
  shows "length changes + status_rank (ord_status ordr) \<le> 3
    \<and> (ord_status ordr \<in> {O_COMPLETED, O_CANCELLED} \<longrightarrow> changes = [])"
  using permitted_changes_bound [OF assms] by auto

definition sample_order :: order where
  "sample_order = \<lparr>ord_id = ''o1'', ord_customerId = ''c1'', ord_handledBy = None, ord_status = O_CREATED,
     ord_totalPrice = 100, ord_items = [], ord_createdAt = '''', ord_updatedAt = '''', ord_version = 1\<rparr>"

definition sample_employee :: auth_user where
  "sample_employee = \<lparr>user_id = ''e1'', user_name = ''Ana'', user_email = '''', user_role = EMPLOYEE, user_active = True,
     user_avatarUrl = None, user_permissions = None\<rparr>"

theorem order_changes_terminate_witness:
  "permitted_changes [(O_IN_PROGRESS, Some sample_employee, Some ''e1''), (O_READY, Some sample_employee, Some ''e1'')] sample_order
   \<and> 2 + status_rank (ord_status sample_order) \<le> 3"
proof -
  have p: "permitted_changes [(O_IN_PROGRESS, Some sample_employee, Some ''e1''), (O_READY, Some sample_employee, Some ''e1'')] sample_order"
    by (simp add: canChangeOrder_def sample_order_def sample_employee_def grants_def)
  from order_changes_terminate [OF p] p show ?thesis by simp
qed

text \<open>
  An employee is offered to advance only an order that is not taken yet or that she
  handles, never to cancel one that is ready, and a customer is offered no staff action at all.
\<close>
theorem employees_change_their_own_orders:
  assumes "canChangeOrder ordr status (Some u)"
  shows "(user_role u = EMPLOYEE \<longrightarrow> ord_status ordr = O_CREATED \<or> ord_handledBy ordr = Some (user_id u))
    \<and> (user_role u = EMPLOYEE \<and> status = O_CANCELLED \<longrightarrow> ord_status ordr \<noteq> O_READY)
    \<and> user_role u \<noteq> CUSTOMER"
  using assms by (cases status; cases "user_role u") (auto simp: canChangeOrder_def Let_def split: if_splits)

theorem employees_change_their_own_orders_witness:
  "canChangeOrder sample_order O_IN_PROGRESS (Some sample_employee) \<and> user_role sample_employee \<noteq> CUSTOMER"
proof -
  have c: "canChangeOrder sample_order O_IN_PROGRESS (Some sample_employee)"
    by (simp add: canChangeOrder_def sample_order_def sample_employee_def grants_def)
  from employees_change_their_own_orders [OF c] c show ?thesis by simp
qed

lemma validOrderDate_iff:
  "validOrderDate P v \<longleftrightarrow> v = '''' \<or> validDate P v \<and> \<not> starts_with ''0000'' v"
  using date_shape_digit [of v]
  by (auto simp: validOrderDate_def validDate_def parseDate_def isoDate_def split: option.splits)

lemma offsetDate_eq: "offsetDate P v k = addDays P v k"
  by (simp add: offsetDate_def addDays_def parseDate_def isoDate_def)

end
