(* ===== verification/Cart.thy ===== *)
theory Cart
  imports Orders ClientStorage Idempotency
begin

section \<open>The customer's cart\<close>

text \<open>
  Models \<open>order/cart.ts\<close> and \<open>order/customer/useCustomerCart.ts\<close>. The hook's state, refs and messages
  are \<open>cart\<close>; its effects and handlers are functions on it, \<open>send\<close> cut at its awaits (\<open>send_start\<close>,
  \<open>send_persist_failed\<close>, \<open>send_created\<close>, \<open>send_rejected\<close>). The cart is stored as an encrypted draft
  (theory \<open>ClientStorage\<close>); an order is sent under a key of \<open>IdempotencyKeyManager\<close> (theory
  \<open>Idempotency\<close>), and the cart is an \<open>idempotent_sender\<close>.
\<close>

subsection \<open>Cart lines\<close>

type_synonym quantities = "(string, int) dict"

record cart_line =
  cl_product :: catalog_item
  cl_quantity :: int

definition CART_DRAFT_VERSION :: int where
  "CART_DRAFT_VERSION = 1"

definition quantity_of :: "json \<Rightarrow> int option" where
  \<comment> \<open>the number, truncated, where it is positive and at most 999\<close>
  "quantity_of v = (case v of
     JNum (Num r) \<Rightarrow> if 0 < trunc r \<and> trunc r \<le> 999 then Some (trunc r) else None
   | _ \<Rightarrow> None)"

definition normalizeCartQuantities :: "json option \<Rightarrow> quantities" where
  "normalizeCartQuantities v = (case v of
     Some (JObj kvs) \<Rightarrow> List.map_filter (\<lambda>(i, q). if i = '''' then None else map_option (Pair i) (quantity_of q)) kvs
   | _ \<Rightarrow> [])"

definition retainAvailableProducts :: "quantities \<Rightarrow> string set \<Rightarrow> quantities" where
  "retainAvailableProducts qs productIds = filter (\<lambda>(i, q). i \<in> productIds) qs"

definition buildCart :: "catalog_item list \<Rightarrow> quantities \<Rightarrow> cart_line list" where
  "buildCart products qs = List.map_filter (\<lambda>p. case map_of qs (ci_id p) of
     Some q \<Rightarrow> if 0 < q then Some \<lparr>cl_product = p, cl_quantity = q\<rparr> else None | None \<Rightarrow> None) products"

definition calculateEstimatedTotal :: "cart_line list \<Rightarrow> rat" where
  "calculateEstimatedTotal cart = foldl (\<lambda>total l. total + ci_price (cl_product l) * of_int (cl_quantity l)) 0 cart"

subsection \<open>The stored attempt\<close>

record order_attempt =
  at_key :: string
  at_items :: "order_line list"
  at_estimatedTotal :: rat

definition attempt_json :: "order_attempt \<Rightarrow> json" where
  "attempt_json a = JObj [(''key'', JStr (at_key a)), (''items'', JArr (map line_json (at_items a))),
     (''estimatedTotal'', JNum (Num (at_estimatedTotal a)))]"

definition saved_line :: "json \<Rightarrow> order_line option" where
  "saved_line v = (case v of
     JObj kvs \<Rightarrow> (case (map_of kvs ''productId'', map_of kvs ''quantity'') of
       (Some (JStr p), Some (JNum (Num r))) \<Rightarrow>
         if p \<noteq> '''' \<and> r = of_int \<lfloor>r\<rfloor> \<and> 1 \<le> r \<and> r \<le> 999 then Some \<lparr>ol_productId = p, ol_quantity = \<lfloor>r\<rfloor>\<rparr> else None
     | _ \<Rightarrow> None)
   | _ \<Rightarrow> None)"

fun saved_lines :: "json list \<Rightarrow> string set \<Rightarrow> order_line list option" where
  \<comment> \<open>the loop with the set \<open>ids\<close> of products seen\<close>
  "saved_lines [] ids = Some []"
| "saved_lines (v # vs) ids = (case saved_line v of
     None \<Rightarrow> None
   | Some l \<Rightarrow> if ol_productId l \<in> ids then None
       else map_option ((#) l) (saved_lines vs (insert (ol_productId l) ids)))"

definition savedAttempt :: "json option \<Rightarrow> order_attempt option" where
  \<comment> \<open>the lines are read as products and quantities; what else a stored line holds is not modelled\<close>
  "savedAttempt v = (case v of
     Some (JObj kvs) \<Rightarrow> (case (map_of kvs ''key'', map_of kvs ''items'', map_of kvs ''estimatedTotal'') of
       (Some (JStr k), Some (JArr items), Some (JNum (Num amount))) \<Rightarrow>
         if k = '''' \<or> js_length k > 255 \<or> items = [] \<or> amount < 0 then None
         else map_option (\<lambda>ls. \<lparr>at_key = k, at_items = ls, at_estimatedTotal = amount\<rparr>) (saved_lines items {})
     | _ \<Rightarrow> None)
   | _ \<Rightarrow> None)"

subsection \<open>State\<close>

record cart_state =
  cs_ready :: bool
  cs_quantities :: quantities
  cs_attempt :: "order_attempt option"

record cart =
  ct_state :: cart_state
  ct_warning :: string
  ct_notice :: string
  ct_submitting :: bool
  ct_submitError :: string
  ct_createAttempt :: key_manager
  ct_submitInFlight :: bool
  ct_prices :: "(string, rat) dict"

definition cart_initial :: cart where
  "cart_initial = \<lparr>ct_state = \<lparr>cs_ready = False, cs_quantities = [], cs_attempt = None\<rparr>, ct_warning = '''',
     ct_notice = '''', ct_submitting = False, ct_submitError = '''', ct_createAttempt = new_manager,
     ct_submitInFlight = False, ct_prices = []\<rparr>"

definition cart_json :: "cart_state \<Rightarrow> json option" where
  \<comment> \<open>what \<open>persist\<close> saves; None where it deletes the draft\<close>
  "cart_json s = (if cs_quantities s = [] \<and> cs_attempt s = None then None
     else Some (JObj (let qs = map (\<lambda>(i, q). (i, jint q)) (cs_quantities s)
       in case cs_attempt s of Some a \<Rightarrow> AList.update ''__attempt'' (attempt_json a) qs | None \<Rightarrow> qs)))"

definition persist ::
  "('k, 'c, 'p) crypto \<Rightarrow> 'k \<times> nat list \<times> ms \<Rightarrow> string \<Rightarrow> bool \<Rightarrow> cart_state \<Rightarrow> ('k, 'c) database \<Rightarrow> ('k, 'c) database" where
  \<comment> \<open>one write of the queue \<open>draftWrites\<close>; it is skipped where another user has signed in\<close>
  "persist cr e userId same_user s db = (if \<not> same_user then db
     else case cart_json s of
       None \<Rightarrow> deleteDraft userId ''order-cart'' db
     | Some j \<Rightarrow> save_in cr e userId ''order-cart'' j CART_DRAFT_VERSION db)"

subsection \<open>Loading\<close>

definition stored_attempt :: "json option \<Rightarrow> order_attempt option" where
  "stored_attempt stored = (case stored of Some (JObj kvs) \<Rightarrow> savedAttempt (map_of kvs ''__attempt'') | _ \<Rightarrow> None)"

definition cart_loaded :: "json option \<Rightarrow> cart \<Rightarrow> cart" where
  \<comment> \<open>the continuation of \<open>loadDraft\<close>, where the component is still the current user's\<close>
  "cart_loaded stored c =
     (let qs = normalizeCartQuantities stored in
      case stored_attempt stored of
        Some a \<Rightarrow> c\<lparr>
          ct_createAttempt := snd (km_begin (at_key a) new_manager),
          ct_notice := sr ''Prethodno slanje ~ceka proveru ishoda. Ponovni poku~saj koristi sa~cuvani zahtev.'',
          ct_state := \<lparr>cs_ready = True,
            cs_quantities = fold (\<lambda>l q. AList.update (ol_productId l) (ol_quantity l) q) (at_items a) qs,
            cs_attempt = Some a\<rparr>\<rparr>
      | None \<Rightarrow> c\<lparr>ct_state := \<lparr>cs_ready = True, cs_quantities = qs, cs_attempt = None\<rparr>\<rparr>)"

definition cart_load_failed :: "cart \<Rightarrow> cart" where
  "cart_load_failed c = c\<lparr>ct_warning := sr ''Korpu nije mogu~qe u~citati sa ovog ure~daja. Sa~cuvana korpa nije izmenjena.''\<rparr>"

subsection \<open>Products of the cart\<close>

record product_query =
  pq_data :: "catalog_item option"
  pq_isSuccess :: bool
  pq_error :: "cause option"

definition product_retry :: "nat \<Rightarrow> cause \<Rightarrow> bool" where
  "product_retry count e \<longleftrightarrow> \<not> (is_axios e \<and> (case cause_status e of Some s \<Rightarrow> s \<in> {403, 404} | None \<Rightarrow> False)) \<and> count < 1"

definition sellable :: "catalog_item \<Rightarrow> bool" where
  "sellable p \<longleftrightarrow> ci_type p = PRODUCT \<and> ci_active p \<and> (ci_deletedAt p = None \<or> ci_deletedAt p = Some '''')"

definition resolved_products :: "bool \<Rightarrow> product_query list \<Rightarrow> catalog_item list" where
  "resolved_products canCatalog qs = (if canCatalog then
     List.map_filter (\<lambda>q. case pq_data q of
       Some p \<Rightarrow> if pq_isSuccess q \<and> sellable p then Some p else None | None \<Rightarrow> None) qs else [])"

definition cart_ids :: "(string list \<Rightarrow> string list) \<Rightarrow> cart \<Rightarrow> string list" where
  "cart_ids sorted_ids c = sorted_ids (map fst (cs_quantities (ct_state c)))"

definition cart_lines :: "bool \<Rightarrow> product_query list \<Rightarrow> cart \<Rightarrow> cart_line list" where
  "cart_lines canCatalog qs c = buildCart (resolved_products canCatalog qs) (cs_quantities (ct_state c))"

definition cart_unresolved :: "string list \<Rightarrow> cart_line list \<Rightarrow> string list" where
  "cart_unresolved ids lines = filter (\<lambda>i. \<not> (\<exists>l \<in> set lines. ci_id (cl_product l) = i)) ids"

definition estimatedTotal :: "string list \<Rightarrow> cart_line list \<Rightarrow> rat option" where
  "estimatedTotal unresolved lines = (if unresolved \<noteq> [] then None else Some (calculateEstimatedTotal lines))"

definition query_unavailable :: "product_query \<Rightarrow> bool" where
  "query_unavailable q \<longleftrightarrow> pq_isSuccess q \<and> (case pq_data q of Some p \<Rightarrow> \<not> sellable p | None \<Rightarrow> True)
     \<or> (case pq_error q of Some e \<Rightarrow> is_axios e \<and> cause_status e = Some 404 | None \<Rightarrow> False)"

definition cart_unavailable :: "bool \<Rightarrow> string list \<Rightarrow> product_query list \<Rightarrow> string list" where
  "cart_unavailable canCatalog ids qs =
     (if canCatalog then map fst (filter (\<lambda>(i, q). query_unavailable q) (zip ids qs)) else [])"

definition drop_unavailable :: "string list \<Rightarrow> cart \<Rightarrow> cart" where
  "drop_unavailable unavailable c =
     (if \<not> cs_ready (ct_state c) \<or> cs_attempt (ct_state c) \<noteq> None \<or> unavailable = [] then c
      else c\<lparr>ct_state := (ct_state c)\<lparr>cs_quantities := retainAvailableProducts (cs_quantities (ct_state c))
               (set (filter (\<lambda>i. i \<notin> set unavailable) (map fst (cs_quantities (ct_state c)))))\<rparr>,
             ct_notice := sr ''Proizvodi za koje je potvr~deno da nisu dostupni uklonjeni su iz korpe.''\<rparr>)"

fun note_prices :: "catalog_item list \<Rightarrow> (string, rat) dict \<Rightarrow> bool \<times> (string, rat) dict" where
  "note_prices [] ps = (False, ps)"
| "note_prices (p # rest) ps =
     (let changed = (case map_of ps (ci_id p) of Some old \<Rightarrow> old \<noteq> ci_price p | None \<Rightarrow> False);
          (c, ps') = note_prices rest (AList.update (ci_id p) (ci_price p) ps)
      in (changed \<or> c, ps'))"

definition prices_effect :: "catalog_item list \<Rightarrow> cart \<Rightarrow> cart" where
  "prices_effect resolved c = (let (changed, ps) = note_prices resolved (ct_prices c) in
     c\<lparr>ct_prices := ps, ct_notice := (if changed
       then sr ''Cena proizvoda u korpi se promenila. Informativni obra~cun je a~zuriran; kona~cnu cenu potvr~duje server.''
       else ct_notice c)\<rparr>)"

subsection \<open>Editing\<close>

definition clamp :: "int \<Rightarrow> int" where
  "clamp n = max 0 (min 999 n)"

definition cart_change :: "string \<Rightarrow> jsnum \<Rightarrow> cart \<Rightarrow> cart" where
  "cart_change i quantity c =
     (case quantity of
        Num r \<Rightarrow>
          if \<not> cs_ready (ct_state c) \<or> cs_attempt (ct_state c) \<noteq> None \<or> ct_submitInFlight c then c
          else
            let amount = clamp (trunc r); qs = cs_quantities (ct_state c)
            in c\<lparr>ct_state := (ct_state c)\<lparr>cs_quantities :=
                   (if amount \<noteq> 0 then AList.update i amount qs else AList.delete i qs)\<rparr>,
                 ct_submitError := ''''\<rparr>
      | _ \<Rightarrow> c)"

definition cart_add :: "bool \<Rightarrow> catalog_item \<Rightarrow> bool \<Rightarrow> cart \<Rightarrow> cart" where
  "cart_add canCatalog p minimum c =
     (if \<not> canCatalog \<or> \<not> sellable p \<or> cs_attempt (ct_state c) \<noteq> None \<or> ct_submitInFlight c then c
      else
        let s = ct_state c;
            have_now = (case map_of (cs_quantities s) (ci_id p) of Some q \<Rightarrow> q | None \<Rightarrow> 0);
            amount = (if minimum then max 1 have_now else min 999 (have_now + 1))
        in c\<lparr>ct_state := (if cs_ready s then s\<lparr>cs_quantities := AList.update (ci_id p) amount (cs_quantities s)\<rparr> else s),
             ct_submitError := ''''\<rparr>)"

definition cart_clear :: "cart \<Rightarrow> cart" where
  "cart_clear c = (if ct_submitInFlight c \<or> cs_attempt (ct_state c) \<noteq> None then c
     else c\<lparr>ct_state := (ct_state c)\<lparr>cs_quantities := []\<rparr>, ct_submitError := ''''\<rparr>)"

subsection \<open>Sending\<close>

definition may_send :: "auth_user option \<Rightarrow> string \<Rightarrow> cart \<Rightarrow> bool" where
  "may_send actor userId c \<longleftrightarrow> (case actor of
     Some u \<Rightarrow> user_id u = userId \<and> user_role u = CUSTOMER \<and> hasCapability actor ORDER_CREATE
       \<and> cs_ready (ct_state c) \<and> \<not> ct_submitInFlight c
   | None \<Rightarrow> False)"

definition order_lines :: "(string \<Rightarrow> string \<Rightarrow> bool) \<Rightarrow> cart_line list \<Rightarrow> order_line list" where
  \<comment> \<open>sorted by \<open>localeCompare\<close> of the product ids\<close>
  "order_lines before lines = sort_by (\<lambda>a b. before (ol_productId a) (ol_productId b))
     (map (\<lambda>l. \<lparr>ol_productId = ci_id (cl_product l), ol_quantity = cl_quantity l\<rparr>) lines)"

datatype send_result =
    Ignored
  | Unconfirmed string \<comment> \<open>throws before anything is sent\<close>
  | SendNow order_attempt cart \<comment> \<open>a repeated attempt goes out at once\<close>
  | PersistFirst order_attempt cart \<comment> \<open>a new attempt is stored before it goes out\<close>

definition send_start ::
  "(string \<Rightarrow> string \<Rightarrow> bool) \<Rightarrow> auth_user option \<Rightarrow> string \<Rightarrow> string \<Rightarrow> cart_line list \<Rightarrow> string list \<Rightarrow> cart \<Rightarrow> send_result" where
  "send_start before actor userId generated snapshot unresolved c =
     (if \<not> may_send actor userId c then Ignored
      else case cs_attempt (ct_state c) of
        Some a \<Rightarrow> SendNow a (c\<lparr>ct_submitInFlight := True, ct_submitting := True, ct_submitError := ''''\<rparr>)
      | None \<Rightarrow>
          if snapshot = [] \<or> unresolved \<noteq> [] then Unconfirmed (sr ''Sa~cekajte potvrdu podataka svih proizvoda iz korpe.'')
          else
            let (key, m) = km_begin generated (ct_createAttempt c);
                a = \<lparr>at_key = key, at_items = order_lines before snapshot, at_estimatedTotal = calculateEstimatedTotal snapshot\<rparr>
            in PersistFirst a (c\<lparr>ct_submitInFlight := True, ct_submitting := True, ct_submitError := '''',
                 ct_createAttempt := m, ct_state := (ct_state c)\<lparr>cs_attempt := Some a\<rparr>\<rparr>))"

definition send_created :: "cart \<Rightarrow> cart" where
  \<comment> \<open>the order was created: an empty cart, a new key manager\<close>
  "send_created c = c\<lparr>ct_createAttempt := new_manager, ct_notice := '''',
     ct_state := \<lparr>cs_ready = True, cs_quantities = [], cs_attempt = None\<rparr>\<rparr>"

definition send_finished :: "rat \<Rightarrow> order_attempt \<Rightarrow> bool \<Rightarrow> cart \<Rightarrow> cart" where
  \<comment> \<open>after the empty cart was stored, or could not be stored; with the \<open>finally\<close>\<close>
  "send_finished totalPrice a stored c = c\<lparr>
     ct_warning := (if stored then ct_warning c
       else sr ''Narud~zbina je potvr~dena, ali praznu korpu nije mogu~qe sa~cuvati na ure~daju.''),
     ct_notice := (if \<bar>totalPrice - at_estimatedTotal a\<bar> > 5 / 1000
       then sr ''Server je potvrdio druga~ciji kona~cni iznos od prethodnog informativnog obra~cuna.'' else ct_notice c),
     ct_submitInFlight := False, ct_submitting := False\<rparr>"

definition send_uncertain :: "bool \<Rightarrow> bool \<Rightarrow> cause \<Rightarrow> bool" where
  "send_uncertain requested repeated e \<longleftrightarrow> requested \<and> is_axios e \<and>
     (case cause_status e of
        None \<Rightarrow> True
      | Some code \<Rightarrow> code = 425 \<or> code \<ge> 500
          \<or> code = 409 \<and> str_includes ''Idempotency-Key'' (case cause_message e of Some m \<Rightarrow> m | None \<Rightarrow> '''')
          \<or> repeated \<and> (code = 401 \<or> code = 403))"

definition send_rejected :: "bool \<Rightarrow> bool \<Rightarrow> cause \<Rightarrow> cart \<Rightarrow> cart" where
  \<comment> \<open>the \<open>catch\<close> with the \<open>finally\<close>\<close>
  "send_rejected requested repeated e c =
     (let uncertain = send_uncertain requested repeated e;
          message = (if uncertain
            then sr ''Ishod prethodnog slanja nije poznat. Ponovni poku~saj proverava isti zahtev uz za~stitu od duplog slanja.''
            else orderErrorMessage e (sr ''Narud~zbinu nije mogu~qe poslati.''));
          c' = c\<lparr>ct_submitError := message, ct_submitInFlight := False, ct_submitting := False\<rparr>
      in if uncertain
         then c'\<lparr>ct_createAttempt := (if cause_status e = None \<or> cause_status e = Some 425
                   then km_failed e (ct_createAttempt c) else ct_createAttempt c),
                 ct_notice := sr ''Ishod slanja jo~s nije potvr~den. Korpa je sa~cuvana i zaklju~cana; proverite prethodno slanje istim zahtevom.''\<rparr>
         else c'\<lparr>ct_createAttempt := new_manager, ct_notice := '''',
                 ct_state := (ct_state c)\<lparr>cs_attempt := None\<rparr>\<rparr>)"

definition send_persist_failed :: "cart \<Rightarrow> cart" where
  "send_persist_failed c = send_rejected False False
     (PlainError (sr ''Poku~saj slanja nije mogu~qe sa~cuvati na ure~daju. Narud~zbina nije poslata. Poku~sajte ponovo.'')) c"

definition send_request :: "order_attempt \<Rightarrow> http_request" where
  "send_request a = orderApi_create (at_items a) (at_key a)"

definition cart_retryDraft :: "cart \<Rightarrow> cart" where
  "cart_retryDraft c = c\<lparr>ct_warning := ''''\<rparr>"

subsection \<open>The quantities\<close>

definition quantities_ok :: "quantities \<Rightarrow> bool" where
  "quantities_ok qs \<longleftrightarrow> dict_wf qs \<and> (\<forall>i q. map_of qs i = Some q \<longrightarrow> 1 \<le> q \<and> q \<le> 999)"

definition attempt_ok :: "order_attempt \<Rightarrow> bool" where
  "attempt_ok a \<longleftrightarrow> at_key a \<noteq> '''' \<and> js_length (at_key a) \<le> 255 \<and> at_items a \<noteq> [] \<and> 0 \<le> at_estimatedTotal a
     \<and> distinct (map ol_productId (at_items a))
     \<and> (\<forall>l \<in> set (at_items a). ol_productId l \<noteq> '''' \<and> 1 \<le> ol_quantity l \<and> ol_quantity l \<le> 999)"

definition cart_ok :: "cart \<Rightarrow> bool" where
  "cart_ok c \<longleftrightarrow> quantities_ok (cs_quantities (ct_state c))"

definition stored_wf :: "json option \<Rightarrow> bool" where
  \<comment> \<open>the keys of a parsed object are distinct\<close>
  "stored_wf v \<longleftrightarrow> (\<forall>kvs. v = Some (JObj kvs) \<longrightarrow> dict_wf kvs)"

lemma quantities_ok_update: "quantities_ok qs \<Longrightarrow> 1 \<le> q \<Longrightarrow> q \<le> 999 \<Longrightarrow> quantities_ok (AList.update i q qs)"
  by (simp add: quantities_ok_def)

lemma quantities_ok_delete: "quantities_ok qs \<Longrightarrow> quantities_ok (AList.delete i qs)"
  by (simp add: quantities_ok_def)

lemma quantities_ok_filter: "quantities_ok qs \<Longrightarrow> quantities_ok (filter P qs)"
  by (auto simp: quantities_ok_def map_of_in [symmetric])

lemma quantities_ok_empty [simp]: "quantities_ok []"
  by (simp add: quantities_ok_def)

lemma set_map_filter: "y \<in> set (List.map_filter f xs) \<longleftrightarrow> (\<exists>x \<in> set xs. f x = Some y)"
  by (force simp: List.map_filter_def)

lemma quantity_of_range: "quantity_of v = Some q \<Longrightarrow> 1 \<le> q \<and> q \<le> 999"
  by (auto simp: quantity_of_def split: json.splits jsnum.splits if_splits)

lemma quantities_ok_normalize:
  assumes "stored_wf v"
  shows "quantities_ok (normalizeCartQuantities v)"
proof -
  let ?f = "\<lambda>(i :: string, q). if i = '''' then None else map_option (Pair i) (quantity_of q)"
  have r: "1 \<le> q \<and> q \<le> 999" if "(i, q) \<in> set (List.map_filter ?f kvs)" for i q kvs
    using that by (auto simp: set_map_filter dest: quantity_of_range split: if_splits)
  have d: "dict_wf (List.map_filter ?f kvs)" if "dict_wf kvs" for kvs
    using that
  proof (induction kvs)
    case (Cons kv kvs)
    obtain i q where kv: "kv = (i, q)" by (cases kv)
    from Cons kv have "dict_wf (List.map_filter ?f kvs)" and "i \<notin> fst ` set kvs" by (auto simp: dict_wf_def)
    moreover have "fst ` set (List.map_filter ?f kvs) \<subseteq> fst ` set kvs"
      by (force simp: set_map_filter split: if_splits)
    ultimately show ?case using kv
      by (auto simp: dict_wf_def List.map_filter_simps split: option.splits)
  qed (simp add: List.map_filter_simps)
  show ?thesis
    using assms r d by (auto simp: normalizeCartQuantities_def quantities_ok_def stored_wf_def split: option.splits json.splits dest: map_of_SomeD)
qed

lemma saved_lines_ok:
  "saved_lines vs ids = Some ls \<Longrightarrow> distinct (map ol_productId ls) \<and> ids \<inter> ol_productId ` set ls = {}
     \<and> length ls = length vs
     \<and> (\<forall>l \<in> set ls. ol_productId l \<noteq> '''' \<and> 1 \<le> ol_quantity l \<and> ol_quantity l \<le> 999)"
proof (induction vs arbitrary: ids ls)
  case (Cons v vs)
  then obtain l ls' where l: "saved_line v = Some l" "ol_productId l \<notin> ids" "ls = l # ls'"
    "saved_lines vs (insert (ol_productId l) ids) = Some ls'" by (auto split: option.splits if_splits)
  from l(1) have "ol_productId l \<noteq> '''' \<and> 1 \<le> ol_quantity l \<and> ol_quantity l \<le> 999"
    by (auto simp: saved_line_def le_floor_iff floor_le_iff split: json.splits jsnum.splits option.splits if_splits)
  with Cons.IH [OF l(4)] l show ?case by auto
qed simp

lemma savedAttempt_ok: "savedAttempt v = Some a \<Longrightarrow> attempt_ok a"
  by (auto simp: savedAttempt_def attempt_ok_def not_less split: option.splits json.splits jsnum.splits if_splits
      dest!: saved_lines_ok)

lemma stored_attempt_ok: "stored_attempt v = Some a \<Longrightarrow> attempt_ok a"
  by (auto simp: stored_attempt_def dest: savedAttempt_ok split: option.splits json.splits)

lemma quantities_ok_items:
  "quantities_ok qs \<Longrightarrow> \<forall>l \<in> set ls. 1 \<le> ol_quantity l \<and> ol_quantity l \<le> 999
     \<Longrightarrow> quantities_ok (fold (\<lambda>l q. AList.update (ol_productId l) (ol_quantity l) q) ls qs)"
  by (induction ls arbitrary: qs) (auto simp: quantities_ok_update)

subsection \<open>What is stored is what is loaded\<close>

lemma saved_line_json [simp]:
  "saved_line (line_json l) = (if ol_productId l \<noteq> '''' \<and> 1 \<le> ol_quantity l \<and> ol_quantity l \<le> 999 then Some l else None)"
proof -
  have "(1 :: rat) \<le> of_int q \<longleftrightarrow> 1 \<le> q" "(of_int q :: rat) \<le> 999 \<longleftrightarrow> q \<le> 999" for q by linarith+
  then show ?thesis by (cases l) (simp add: saved_line_def line_json_def)
qed

lemma saved_lines_json:
  "\<forall>l \<in> set ls. ol_productId l \<noteq> '''' \<and> 1 \<le> ol_quantity l \<and> ol_quantity l \<le> 999 \<Longrightarrow> distinct (map ol_productId ls)
     \<Longrightarrow> ids \<inter> ol_productId ` set ls = {} \<Longrightarrow> saved_lines (map line_json ls) ids = Some ls"
  by (induction ls arbitrary: ids) auto

lemma savedAttempt_json: "attempt_ok a \<Longrightarrow> savedAttempt (Some (attempt_json a)) = Some a"
  by (cases a) (simp add: savedAttempt_def attempt_json_def attempt_ok_def saved_lines_json not_less)

lemma items_fold:
  "\<forall>l \<in> set ls. map_of qs (ol_productId l) = Some (ol_quantity l)
     \<Longrightarrow> fold (\<lambda>l q. AList.update (ol_productId l) (ol_quantity l) q) ls qs = qs"
  by (induction ls) (simp_all add: update_triv)

lemma savedAttempt_None: "savedAttempt None = None"
  by (simp add: savedAttempt_def)

lemma normalize_quantities:
  assumes "\<forall>(i, q) \<in> set qs. i \<noteq> '''' \<and> 1 \<le> q \<and> q \<le> 999"
  shows "List.map_filter (\<lambda>(i, q). if i = '''' then None else map_option (Pair i) (quantity_of q))
    (map (\<lambda>(i, q). (i, jint q)) qs) = qs"
  using assms by (induction qs) (auto simp: List.map_filter_simps quantity_of_def)

lemma map_filter_append: "List.map_filter f (xs @ ys) = List.map_filter f xs @ List.map_filter f ys"
  by (simp add: List.map_filter_def)

definition plain_ids :: "quantities \<Rightarrow> bool" where
  \<comment> \<open>ids of products are UUIDs: not empty, not the reserved key, not only digits\<close>
  "plain_ids qs \<longleftrightarrow> (\<forall>i \<in> fst ` set qs. i \<noteq> '''' \<and> i \<noteq> ''__attempt'' \<and> \<not> index_key i)"

lemma plain_quantities:
  "quantities_ok qs \<Longrightarrow> plain_ids qs \<Longrightarrow> \<forall>(i, q) \<in> set qs. i \<noteq> '''' \<and> 1 \<le> q \<and> q \<le> 999"
  by (force simp: quantities_ok_def plain_ids_def map_of_in [symmetric])

lemma cart_json_load:
  assumes "quantities_ok (cs_quantities s)" and "plain_ids (cs_quantities s)"
    and "\<And>a. cs_attempt s = Some a \<Longrightarrow> attempt_ok a"
  shows "normalizeCartQuantities (cart_json s) = cs_quantities s" "stored_attempt (cart_json s) = cs_attempt s"
proof -
  let ?qs = "map (\<lambda>(i, q). (i, jint q)) (cs_quantities s)"
  have n: "''__attempt'' \<notin> set (map fst ?qs)" using assms(2) by (force simp: plain_ids_def)
  then have m: "map_of ?qs ''__attempt'' = None" by (simp add: map_of_eq_None_iff image_image)
  note norm = normalize_quantities [OF plain_quantities [OF assms(1,2)]]
  have q: "quantity_of (attempt_json a) = None" for a by (simp add: quantity_of_def attempt_json_def)
  show "normalizeCartQuantities (cart_json s) = cs_quantities s"
    using norm by (auto simp: cart_json_def normalizeCartQuantities_def update_new [OF n] map_filter_append
        List.map_filter_simps q Let_def split: option.splits)
  show "stored_attempt (cart_json s) = cs_attempt s"
    using assms(3) m by (auto simp: cart_json_def stored_attempt_def savedAttempt_json savedAttempt_None Let_def split: option.splits)
qed

definition cart_sound :: "cart_state \<Rightarrow> bool" where
  \<comment> \<open>what a cart holds before it is stored; amounts are doubles\<close>
  "cart_sound s \<longleftrightarrow> quantities_ok (cs_quantities s) \<and> plain_ids (cs_quantities s)
     \<and> (\<forall>a. cs_attempt s = Some a \<longrightarrow> attempt_ok a \<and> is_double (at_estimatedTotal a))"

lemma small_double: "1 \<le> q \<Longrightarrow> q \<le> 999 \<Longrightarrow> is_double (of_int q)"
  by (rule is_double_int) simp

lemma attempt_json_storable:
  assumes "attempt_ok a" and "is_double (at_estimatedTotal a)"
  shows "storable_json (attempt_json a)"
proof -
  have "storable_json (line_json l)" if "1 \<le> ol_quantity l" "ol_quantity l \<le> 999" for l
    using that by (auto simp: line_json_def index_key_def is_digit_def small_double)
  with assms show ?thesis by (auto simp: attempt_json_def index_key_def is_digit_def attempt_ok_def)
qed

lemma cart_json_storable:
  assumes "cart_sound s" and "cart_json s = Some j"
  shows "storable j CART_DRAFT_VERSION"
proof -
  let ?qs = "map (\<lambda>(i, q). (i, jint q)) (cs_quantities s)"
  from assms(1) have q: "quantities_ok (cs_quantities s)" "plain_ids (cs_quantities s)"
    and a: "\<And>a. cs_attempt s = Some a \<Longrightarrow> storable_json (attempt_json a)"
    by (auto simp: cart_sound_def attempt_json_storable)
  have d: "distinct (map fst ?qs)" using q(1) by (simp add: quantities_ok_def dict_wf_def case_prod_beta comp_def)
  have n: "''__attempt'' \<notin> set (map fst ?qs)" using q(2) by (force simp: plain_ids_def)
  have k: "\<forall>kv \<in> set ?qs. \<not> index_key (fst kv) \<and> storable_json (snd kv)"
    using q plain_quantities [OF q] by (fastforce simp: plain_ids_def intro: small_double)
  have "\<not> index_key ''__attempt''" by (simp add: index_key_def is_digit_def)
  then have "storable_json (JObj (case cs_attempt s of Some a \<Rightarrow> AList.update ''__attempt'' (attempt_json a) ?qs | None \<Rightarrow> ?qs))"
    using d n k a by (cases "cs_attempt s") (simp_all add: update_new [OF n])
  with assms(2) show ?thesis by (auto simp: cart_json_def storable_def CART_DRAFT_VERSION_def Let_def split: if_splits)
qed

definition items_map :: "order_line list \<Rightarrow> string \<rightharpoonup> int" where
  "items_map ls = map_of (map (\<lambda>l. (ol_productId l, ol_quantity l)) ls)"

lemma map_of_items_fold:
  "distinct (map ol_productId ls)
     \<Longrightarrow> map_of (fold (\<lambda>l q. AList.update (ol_productId l) (ol_quantity l) q) ls qs) = map_of qs ++ items_map ls"
proof (induction ls arbitrary: qs)
  case (Cons l ls)
  then have "items_map ls (ol_productId l) = None" by (force simp: items_map_def map_of_eq_None_iff)
  with Cons show ?case by (auto simp: items_map_def update_conv' map_add_def split: option.splits)
qed (simp add: items_map_def)

subsection \<open>The cart as a sender of orders\<close>

text \<open>
  \<open>cart_system\<close> is the cart with the attempt its draft holds, the requests that went out and, as a
  history variable, every attempt that was ever begun. The steps: the page is opened (again), the
  draft is loaded, the cart is edited, an attempt begins with a key no earlier attempt has
  (\<open>crypto.randomUUID\<close>), it is stored and sent, a stored attempt is sent again, an answer arrives, and
  the state effect or a logout writes the draft.
\<close>

record cart_system =
  sy_cart :: cart
  sy_stored :: "order_attempt option"
  sy_issued :: "(string \<times> order_line list) list"
  sy_sent :: "(string \<times> order_line list) list"

definition attempt_pair :: "order_attempt \<Rightarrow> string \<times> order_line list" where
  "attempt_pair a = (at_key a, at_items a)"

inductive cart_step :: "cart_system \<Rightarrow> cart_system \<Rightarrow> bool" where
  opened: "cart_step y (y\<lparr>sy_cart := cart_initial\<rparr>)"
| loaded: "\<not> cs_ready (ct_state (sy_cart y)) \<Longrightarrow> stored_attempt v = sy_stored y
    \<Longrightarrow> cart_step y (y\<lparr>sy_cart := cart_loaded v (sy_cart y)\<rparr>)"
| load_failed: "cart_step y (y\<lparr>sy_cart := cart_load_failed (sy_cart y)\<rparr>)"
| retry: "cart_step y (y\<lparr>sy_cart := cart_retryDraft (sy_cart y)\<rparr>)"
| change: "cart_step y (y\<lparr>sy_cart := cart_change i n (sy_cart y)\<rparr>)"
| add: "cart_step y (y\<lparr>sy_cart := cart_add can p minimum (sy_cart y)\<rparr>)"
| clear: "cart_step y (y\<lparr>sy_cart := cart_clear (sy_cart y)\<rparr>)"
| drop: "cart_step y (y\<lparr>sy_cart := drop_unavailable ids (sy_cart y)\<rparr>)"
| prices: "cart_step y (y\<lparr>sy_cart := prices_effect ps (sy_cart y)\<rparr>)"
| begun: "send_start before actor u g snap unres (sy_cart y) = PersistFirst a c \<Longrightarrow> g \<notin> fst ` set (sy_issued y)
    \<Longrightarrow> cart_step y (y\<lparr>sy_cart := c, sy_issued := sy_issued y @ [attempt_pair a]\<rparr>)"
| persisted: "ct_submitInFlight (sy_cart y) \<Longrightarrow> cs_attempt (ct_state (sy_cart y)) = Some a
    \<Longrightarrow> cart_step y (y\<lparr>sy_stored := Some a, sy_sent := sy_sent y @ [attempt_pair a]\<rparr>)"
| not_persisted: "ct_submitInFlight (sy_cart y) \<Longrightarrow> cart_step y (y\<lparr>sy_cart := send_persist_failed (sy_cart y)\<rparr>)"
| repeated: "send_start before actor u g snap unres (sy_cart y) = SendNow a c
    \<Longrightarrow> cart_step y (y\<lparr>sy_cart := c, sy_sent := sy_sent y @ [attempt_pair a]\<rparr>)"
| created: "ct_submitInFlight (sy_cart y) \<Longrightarrow> cart_step y (y\<lparr>sy_cart := send_created (sy_cart y)\<rparr>)"
| finished: "cs_attempt (ct_state (sy_cart y)) = None \<Longrightarrow> cart_step y (y\<lparr>sy_cart := send_finished t a b (sy_cart y)\<rparr>)"
| rejected: "ct_submitInFlight (sy_cart y) \<Longrightarrow> cart_step y (y\<lparr>sy_cart := send_rejected requested again e (sy_cart y)\<rparr>)"
| written: "cs_ready (ct_state (sy_cart y)) \<Longrightarrow> cart_step y (y\<lparr>sy_stored := cs_attempt (ct_state (sy_cart y))\<rparr>)"
| purged: "cart_step y (y\<lparr>sy_stored := None\<rparr>)"

definition cart_system_init :: "cart_system \<Rightarrow> bool" where
  "cart_system_init y \<longleftrightarrow> sy_cart y = cart_initial \<and> sy_stored y = None \<and> sy_issued y = [] \<and> sy_sent y = []"

definition manager_idle :: "cart \<Rightarrow> bool" where
  \<comment> \<open>without an attempt the manager holds no key to reuse, and before the draft is loaded there is none\<close>
  "manager_idle c \<longleftrightarrow> (cs_attempt (ct_state c) = None \<longrightarrow> km_pendingKey (ct_createAttempt c) = None)
     \<and> (\<not> cs_ready (ct_state c) \<longrightarrow> cs_attempt (ct_state c) = None)"

definition attempts_issued :: "cart_system \<Rightarrow> bool" where
  "attempts_issued y \<longleftrightarrow> (\<forall>a. cs_attempt (ct_state (sy_cart y)) = Some a \<or> sy_stored y = Some a \<longrightarrow> attempt_pair a \<in> set (sy_issued y))"

definition cart_system_ok :: "cart_system \<Rightarrow> bool" where
  "cart_system_ok y \<longleftrightarrow> distinct (map fst (sy_issued y)) \<and> set (sy_sent y) \<subseteq> set (sy_issued y)
     \<and> attempts_issued y \<and> manager_idle (sy_cart y)"

definition sy_held :: "cart_system \<Rightarrow> (string \<times> order_line list) set" where
  "sy_held y = set (sy_sent y)"

lemma new_manager_idle [simp]: "km_pendingKey new_manager = None"
  by (simp add: km_pendingKey_def new_manager_def)

lemma cart_ops_attempt [simp]:
  "cs_attempt (ct_state (cart_load_failed c)) = cs_attempt (ct_state c)" "ct_createAttempt (cart_load_failed c) = ct_createAttempt c"
  "cs_attempt (ct_state (cart_retryDraft c)) = cs_attempt (ct_state c)" "ct_createAttempt (cart_retryDraft c) = ct_createAttempt c"
  "cs_attempt (ct_state (cart_change i n c)) = cs_attempt (ct_state c)" "ct_createAttempt (cart_change i n c) = ct_createAttempt c"
  "cs_attempt (ct_state (cart_add can p m c)) = cs_attempt (ct_state c)" "ct_createAttempt (cart_add can p m c) = ct_createAttempt c"
  "cs_attempt (ct_state (cart_clear c)) = cs_attempt (ct_state c)" "ct_createAttempt (cart_clear c) = ct_createAttempt c"
  "cs_attempt (ct_state (drop_unavailable ids c)) = cs_attempt (ct_state c)" "ct_createAttempt (drop_unavailable ids c) = ct_createAttempt c"
  "cs_attempt (ct_state (prices_effect ps c)) = cs_attempt (ct_state c)" "ct_createAttempt (prices_effect ps c) = ct_createAttempt c"
  "cs_attempt (ct_state (send_finished t a b c)) = cs_attempt (ct_state c)" "ct_createAttempt (send_finished t a b c) = ct_createAttempt c"
  "cs_attempt (ct_state (cart_loaded v c)) = stored_attempt v"
  "cs_attempt (ct_state (send_created c)) = None" "ct_createAttempt (send_created c) = new_manager"
  by (simp_all add: cart_load_failed_def cart_retryDraft_def cart_change_def cart_add_def cart_clear_def drop_unavailable_def
      prices_effect_def send_finished_def cart_loaded_def send_created_def Let_def split: jsnum.split prod.split option.split)

lemma cart_ops_ready [simp]:
  "cs_ready (ct_state (cart_load_failed c)) = cs_ready (ct_state c)" "cs_ready (ct_state (cart_retryDraft c)) = cs_ready (ct_state c)"
  "cs_ready (ct_state (cart_change i n c)) = cs_ready (ct_state c)" "cs_ready (ct_state (cart_add can p m c)) = cs_ready (ct_state c)"
  "cs_ready (ct_state (cart_clear c)) = cs_ready (ct_state c)" "cs_ready (ct_state (drop_unavailable ids c)) = cs_ready (ct_state c)"
  "cs_ready (ct_state (prices_effect ps c)) = cs_ready (ct_state c)" "cs_ready (ct_state (send_finished t a b c)) = cs_ready (ct_state c)"
  "cs_ready (ct_state (cart_loaded v c))" "cs_ready (ct_state (send_created c))"
  "cs_ready (ct_state (send_rejected r g e c)) = cs_ready (ct_state c)"
  by (simp_all add: cart_load_failed_def cart_retryDraft_def cart_change_def cart_add_def cart_clear_def drop_unavailable_def
      prices_effect_def send_finished_def cart_loaded_def send_created_def send_rejected_def Let_def split: jsnum.split prod.split option.split)

lemma send_rejected_attempt:
  "cs_attempt (ct_state (send_rejected r p e c)) = (if send_uncertain r p e then cs_attempt (ct_state c) else None)"
  "\<not> send_uncertain r p e \<Longrightarrow> ct_createAttempt (send_rejected r p e c) = new_manager"
  by (simp_all add: send_rejected_def Let_def)

lemma send_rejected_idle:
  assumes "manager_idle c"
  shows "manager_idle (send_rejected r p e c)"
proof (cases "send_uncertain r p e")
  case True
  then have "cs_attempt (ct_state (send_rejected r p e c)) = cs_attempt (ct_state c)"
    by (simp add: send_rejected_attempt)
  moreover have "ct_createAttempt (send_rejected r p e c) \<in> {ct_createAttempt c, km_failed e (ct_createAttempt c)}"
    using True by (simp add: send_rejected_def Let_def)
  ultimately show ?thesis using assms by (auto simp: manager_idle_def km_laws split: if_splits)
qed (simp add: manager_idle_def send_rejected_attempt)

lemma send_start_PersistFirst:
  assumes "send_start before actor u g snap unres c = PersistFirst a c'" and "manager_idle c"
  shows "at_key a = g" "cs_attempt (ct_state c') = Some a" "cs_attempt (ct_state c) = None" "cs_ready (ct_state c')"
proof -
  show "cs_ready (ct_state c')"
    using assms(1) by (auto simp: send_start_def may_send_def Let_def split: if_splits option.splits prod.splits)
  show n: "cs_attempt (ct_state c) = None"
    using assms(1) by (auto simp: send_start_def split: if_splits option.splits)
  then have "km_pendingKey (ct_createAttempt c) = None" using assms(2) by (simp add: manager_idle_def)
  then show "at_key a = g" "cs_attempt (ct_state c') = Some a"
    using assms(1) km.begin_new [of "ct_createAttempt c" g] n
    by (auto simp: send_start_def Let_def split: if_splits option.splits prod.splits)
qed

lemma send_start_SendNow:
  "send_start before actor u g snap unres c = SendNow a c' \<Longrightarrow> cs_attempt (ct_state c) = Some a \<and> ct_state c' = ct_state c
     \<and> ct_createAttempt c' = ct_createAttempt c"
  by (auto simp: send_start_def Let_def split: if_splits option.splits prod.splits)

lemma cart_step_ok:
  assumes "cart_system_ok y" and "cart_step y z"
  shows "cart_system_ok z"
  using assms(2)
proof cases
  case (begun before actor u g snap unres a c)
  have "manager_idle (sy_cart y)" using assms(1) by (simp add: cart_system_ok_def)
  note s = send_start_PersistFirst [OF begun(2) this]
  from begun s assms(1) show ?thesis by (auto simp: cart_system_ok_def attempts_issued_def manager_idle_def attempt_pair_def)
next
  case (repeated before actor u g snap unres a c)
  with send_start_SendNow [OF repeated(2)] assms(1) show ?thesis
    by (auto simp: cart_system_ok_def attempts_issued_def manager_idle_def)
next
  case not_persisted
  with assms(1) show ?thesis
    by (auto simp: cart_system_ok_def attempts_issued_def send_persist_failed_def send_rejected_idle send_rejected_attempt split: if_splits)
next
  case (rejected requested again e)
  with assms(1) show ?thesis
    by (auto simp: cart_system_ok_def attempts_issued_def send_rejected_idle send_rejected_attempt split: if_splits)
next
  case (loaded v)
  with assms(1) show ?thesis
    by (auto simp: cart_system_ok_def attempts_issued_def manager_idle_def cart_loaded_def Let_def split: option.splits)
qed (use assms(1) in \<open>auto simp: cart_system_ok_def attempts_issued_def manager_idle_def cart_initial_def\<close>)

lemma distinct_fst_eq: "distinct (map fst xs) \<Longrightarrow> (k, r) \<in> set xs \<Longrightarrow> (k, r') \<in> set xs \<Longrightarrow> r = r'"
  using map_of_is_SomeI by fastforce

lemma sent_again_or_new:
  assumes "cart_system_ok y" and "p \<in> set (sy_issued y)"
  shows "p \<in> set (sy_sent y) \<or> fst p \<notin> fst ` set (sy_sent y)"
proof (rule disjCI)
  assume "\<not> fst p \<notin> fst ` set (sy_sent y)"
  then obtain r where r: "(fst p, r) \<in> set (sy_sent y)" by force
  with assms have "(fst p, r) \<in> set (sy_issued y)" "(fst p, snd p) \<in> set (sy_issued y)" "distinct (map fst (sy_issued y))"
    by (auto simp: cart_system_ok_def)
  then have "r = snd p" by (metis distinct_fst_eq)
  with r show "p \<in> set (sy_sent y)" by simp
qed

lemma cart_step_sends:
  assumes "cart_system_ok y" and "cart_step y z"
  shows "sy_sent z = sy_sent y \<and> sy_held z \<subseteq> sy_held y
    \<or> (\<exists>k r. sy_sent z = sy_sent y @ [(k, r)] \<and> sy_held z \<subseteq> insert (k, r) (sy_held y)
         \<and> ((k, r) \<in> sy_held y \<or> k \<notin> fst ` set (sy_sent y)))"
  using assms(2,1)
proof cases
  case (persisted a)
  then have "attempt_pair a \<in> set (sy_issued y)" using assms(1) by (simp add: cart_system_ok_def attempts_issued_def)
  from sent_again_or_new [OF assms(1) this] persisted show ?thesis by (auto simp: sy_held_def attempt_pair_def)
next
  case (repeated before actor u g snap unres a c)
  then have "attempt_pair a \<in> set (sy_issued y)"
    using assms(1) send_start_SendNow [OF repeated(2)] by (simp add: cart_system_ok_def attempts_issued_def)
  from sent_again_or_new [OF assms(1) this] repeated show ?thesis by (auto simp: sy_held_def attempt_pair_def)
qed (auto simp: sy_held_def)

interpretation orders: idempotent_sender cart_system_init cart_step sy_sent sy_held cart_system_ok
proof unfold_locales
  show "cart_system_ok y \<and> sy_sent y = [] \<and> sy_held y = {}" if "cart_system_init y" for y
    using that by (simp add: cart_system_init_def cart_system_ok_def attempts_issued_def manager_idle_def cart_initial_def sy_held_def)
qed (fact cart_step_ok, fact cart_step_sends)

subsection \<open>Properties\<close>

text \<open>
  Property C2: an idempotency key of the cart belongs to one order. In every history of openings, edits,
  sends, answers, lost answers, reloads and logouts, two requests that went out with the same key carry
  the same items, so the server can recognize the repetition.
\<close>
theorem order_key_determines_items:
  assumes "orders.reach y" and "(k, items) \<in> set (sy_sent y)" and "(k, items') \<in> set (sy_sent y)"
  shows "items = items'"
  using orders.reach_inv [OF assms(1)] assms(2,3) unfolding orders.one_request_per_key_def by blast

definition sample_product :: catalog_item where
  "sample_product = \<lparr>ci_id = ''p1'', ci_name = ''Sok'', ci_description = None, ci_type = PRODUCT, ci_price = 150,
     ci_durationMinutes = None, ci_requiresResource = None, ci_active = True, ci_imageUrl = None, ci_createdAt = '''',
     ci_updatedAt = '''', ci_version = 1, ci_deletedAt = None, ci_deletedBy = None, ci_deletionReason = None\<rparr>"

definition sample_customer :: auth_user where
  "sample_customer = \<lparr>user_id = ''u1'', user_name = ''Ana'', user_email = '''', user_role = CUSTOMER, user_active = True,
     user_avatarUrl = None, user_permissions = None\<rparr>"

definition sample_attempt :: order_attempt where
  "sample_attempt = \<lparr>at_key = ''k1'', at_items = [\<lparr>ol_productId = ''p1'', ol_quantity = 2\<rparr>], at_estimatedTotal = 300\<rparr>"

definition start_system :: cart_system where
  "start_system = \<lparr>sy_cart = cart_initial, sy_stored = None, sy_issued = [], sy_sent = []\<rparr>"

definition sent_system :: cart_system where
  \<comment> \<open>loaded, filled, begun with key \<open>k1\<close>, stored and sent\<close>
  "sent_system =
     (let c = cart_change ''p1'' (Num 2) (cart_loaded None cart_initial);
          c' = c\<lparr>ct_submitInFlight := True, ct_submitting := True, ct_submitError := '''',
                 ct_createAttempt := snd (km_begin ''k1'' new_manager), ct_state := (ct_state c)\<lparr>cs_attempt := Some sample_attempt\<rparr>\<rparr>
      in \<lparr>sy_cart = c', sy_stored = Some sample_attempt, sy_issued = [attempt_pair sample_attempt], sy_sent = [attempt_pair sample_attempt]\<rparr>)"

lemma sent_system_reach: "orders.reach sent_system"
proof -
  let ?c1 = "cart_loaded None cart_initial"
  let ?c2 = "cart_change ''p1'' (Num 2) ?c1"
  let ?c3 = "sy_cart sent_system"
  let ?y1 = "start_system\<lparr>sy_cart := ?c1\<rparr>"
  let ?y2 = "?y1\<lparr>sy_cart := ?c2\<rparr>"
  let ?y3 = "?y2\<lparr>sy_cart := ?c3, sy_issued := sy_issued ?y2 @ [attempt_pair sample_attempt]\<rparr>"
  have "orders.reach start_system" by (rule orders.reach.start) (simp add: cart_system_init_def start_system_def)
  moreover have "cart_step start_system ?y1"
    using cart_step.loaded [of start_system None] by (simp add: start_system_def cart_initial_def stored_attempt_def)
  moreover have "cart_step ?y1 ?y2" using cart_step.change [of ?y1] by simp
  moreover have "cart_step ?y2 ?y3"
  proof (rule cart_step.begun [where g = "''k1''"])
    show "send_start (\<lambda>_ _. True) (Some sample_customer) ''u1'' ''k1'' [\<lparr>cl_product = sample_product, cl_quantity = 2\<rparr>] [] (sy_cart ?y2)
        = PersistFirst sample_attempt ?c3"
      by (simp add: send_start_def may_send_def sample_customer_def grants_def profile_def cart_change_def cart_loaded_def cart_initial_def
          stored_attempt_def normalizeCartQuantities_def sent_system_def sample_attempt_def order_lines_def sort_by_def
          calculateEstimatedTotal_def sample_product_def km_begin_def new_manager_def clamp_def Let_def)
  qed (simp add: start_system_def)
  moreover have "cart_step ?y3 sent_system"
    using cart_step.persisted [of ?y3 sample_attempt] by (simp add: sent_system_def start_system_def Let_def)
  ultimately show ?thesis by (meson orders.reach.next_step)
qed

theorem order_key_determines_items_witness:
  "(''k1'', at_items sample_attempt) \<in> set (sy_sent sent_system)
   \<and> {p \<in> set (sy_sent sent_system). fst p = ''k1''} = {(''k1'', at_items sample_attempt)}"
proof -
  have m: "(''k1'', at_items sample_attempt) \<in> set (sy_sent sent_system)"
    by (simp add: sent_system_def attempt_pair_def sample_attempt_def Let_def)
  show ?thesis by (intro conjI m entries_of_key order_key_determines_items [OF sent_system_reach _ m])
qed

text \<open>
  Property C11: every quantity of the cart stays between 1 and 999 through loading any stored value,
  every edit with any number, the removal of unavailable products and every end of a send.
\<close>
theorem quantities_stay_in_range:
  assumes "cart_ok c" and "stored_wf v"
  shows "cart_ok (cart_loaded v c) \<and> cart_ok (cart_change i n c) \<and> cart_ok (cart_add can p minimum c)
    \<and> cart_ok (cart_clear c) \<and> cart_ok (drop_unavailable ids c) \<and> cart_ok (prices_effect ps c)
    \<and> cart_ok (send_created c) \<and> cart_ok (send_rejected requested again e c)"
proof (intro conjI)
  note q = assms(1) [unfolded cart_ok_def]
  show "cart_ok (cart_loaded v c)"
    using quantities_ok_normalize [OF assms(2)] stored_attempt_ok [of v]
    by (auto simp: cart_ok_def cart_loaded_def Let_def attempt_ok_def intro!: quantities_ok_items split: option.split)
  show "cart_ok (cart_change i n c)"
    using q by (auto simp: cart_ok_def cart_change_def clamp_def Let_def intro!: quantities_ok_update quantities_ok_delete split: jsnum.split)
  have "1 \<le> q \<and> q \<le> 999" if "map_of (cs_quantities (ct_state c)) j = Some q" for j q
    using q that by (simp add: quantities_ok_def)
  then show "cart_ok (cart_add can p minimum c)"
    using q by (force simp: cart_ok_def cart_add_def Let_def intro!: quantities_ok_update split: option.split)
  show "cart_ok (cart_clear c)" using q by (simp add: cart_ok_def cart_clear_def)
  show "cart_ok (drop_unavailable ids c)"
    using q by (simp add: cart_ok_def drop_unavailable_def retainAvailableProducts_def quantities_ok_filter)
  show "cart_ok (prices_effect ps c)" using q by (simp add: cart_ok_def prices_effect_def split: prod.split)
  show "cart_ok (send_created c)" by (simp add: cart_ok_def send_created_def)
  show "cart_ok (send_rejected requested again e c)" using q by (simp add: cart_ok_def send_rejected_def Let_def)
qed

theorem quantities_stay_in_range_witness:
  "cart_ok cart_initial \<and> cart_ok (cart_loaded (Some (JObj [(''p1'', JNum (Num 5000)), (''p2'', JNum (Num (5 / 2)))])) cart_initial)
   \<and> cs_quantities (ct_state (cart_loaded (Some (JObj [(''p1'', JNum (Num 5000)), (''p2'', JNum (Num (5 / 2)))])) cart_initial)) = [(''p2'', 2)]"
proof -
  have c: "cart_ok cart_initial" by (simp add: cart_ok_def cart_initial_def)
  have w: "stored_wf (Some (JObj [(''p1'', JNum (Num 5000)), (''p2'', JNum (Num (5 / 2)))]))"
    by (simp add: stored_wf_def dict_wf_def)
  have "\<lfloor>5 / 2 :: rat\<rfloor> = 2" by (rule floor_unique) simp_all
  then have "trunc (5 / 2) = 2" by (simp add: trunc_def)
  then show ?thesis using quantities_stay_in_range [OF c w] c
    by (simp add: cart_loaded_def normalizeCartQuantities_def stored_attempt_def savedAttempt_def List.map_filter_simps
        quantity_of_def cart_initial_def)
qed

text \<open>
  Property C16: while an attempt has no known outcome the cart is locked: no edit, no clearing and no
  removal of products changes what will be sent, and a repeated send sends exactly the stored key and
  items.
\<close>
theorem pending_attempt_locks_the_cart:
  assumes "cs_attempt (ct_state c) = Some a"
  shows "ct_state (cart_change i n c) = ct_state c \<and> ct_state (cart_add can p minimum c) = ct_state c
    \<and> ct_state (cart_clear c) = ct_state c \<and> ct_state (drop_unavailable ids c) = ct_state c
    \<and> (\<forall>before actor u g snap unres. case send_start before actor u g snap unres c of
         SendNow b c' \<Rightarrow> b = a \<and> sent_key (send_request b) = Some (at_key a) \<and> ct_state c' = ct_state c
       | PersistFirst b c' \<Rightarrow> False | _ \<Rightarrow> True)"
  using assms by (auto simp: cart_change_def cart_add_def cart_clear_def drop_unavailable_def send_start_def send_request_def
      orderApi_create_def split: jsnum.split)

theorem pending_attempt_locks_the_cart_witness:
  "ct_state (cart_change ''p1'' (Num 7) (sy_cart sent_system)) = ct_state (sy_cart sent_system)"
proof -
  have "cs_attempt (ct_state (sy_cart sent_system)) = Some sample_attempt" by (simp add: sent_system_def Let_def)
  from pending_attempt_locks_the_cart [OF this] show ?thesis by blast
qed

text \<open>
  Property C17: a cart that was stored is the cart that is loaded: after \<open>persist\<close>, reading the draft back
  and loading it into a new component gives the same pending attempt and the same quantity of every product; where
  an attempt is pending, the quantities it was sent with replace those of its products. The cart is one whose
  quantities are in their range, whose ids are plain and whose attempt is well-formed.
\<close>
theorem stored_cart_is_restored:
  assumes "crypto_ok cr" and "owned db" and "plain_id u" and "cart_sound s"
  shows "let t = ct_state (cart_loaded (fst (loadDraft cr g2 t2 u ''order-cart'' CART_DRAFT_VERSION
        (persist cr (g1, iv, t1) u True s db))) cart_initial)
    in cs_ready t \<and> cs_attempt t = cs_attempt s
      \<and> map_of (cs_quantities t) = (case cs_attempt s of
          None \<Rightarrow> map_of (cs_quantities s)
        | Some a \<Rightarrow> map_of (cs_quantities s) ++ items_map (at_items a))"
proof -
  let ?db = "persist cr (g1, iv, t1) u True s db"
  have inv: "crypto_ok cr \<and> owned db" using assms by simp
  have l: "fst (load_in cr (g2, iv, t2) u ''order-cart'' CART_DRAFT_VERSION ?db) = cart_json s"
  proof (cases "cart_json s")
    case None
    then show ?thesis
      using cs.fst_load [OF cs.inv_remove [OF inv assms(3)] assms(3)] cs.abs_remove [OF inv assms(3)]
      by (simp add: persist_def on_version_def)
  next
    case (Some j)
    then show ?thesis
      using cs.load_after_save [OF inv assms(3,3) cart_json_storable [OF assms(4) Some]] by (simp add: persist_def)
  qed
  have s: "quantities_ok (cs_quantities s)" "plain_ids (cs_quantities s)" "\<And>a. cs_attempt s = Some a \<Longrightarrow> attempt_ok a"
    using assms(4) by (auto simp: cart_sound_def)
  have c: "map_of (fold (\<lambda>l q. AList.update (ol_productId l) (ol_quantity l) q) (at_items a) (cs_quantities s))
      = map_of (cs_quantities s) ++ items_map (at_items a)" if "cs_attempt s = Some a" for a
    using s(3) [OF that] by (simp add: attempt_ok_def map_of_items_fold)
  from l cart_json_load [OF s] c show ?thesis
    by (cases "cs_attempt s") (simp_all add: load_in_def cart_loaded_def Let_def)
qed

definition stored_cart :: cart_state where
  \<comment> \<open>a pending attempt of two pieces in a cart that shows three of them and another product\<close>
  "stored_cart = \<lparr>cs_ready = True, cs_quantities = [(''p1'', 3), (''p2'', 1)], cs_attempt = Some sample_attempt\<rparr>"

theorem stored_cart_is_restored_witness:
  "let t = ct_state (cart_loaded (fst (loadDraft sample_crypto 2 0 ''u1'' ''order-cart'' CART_DRAFT_VERSION
      (persist sample_crypto (1, [], 0) ''u1'' True stored_cart []))) cart_initial)
   in cs_attempt t = Some sample_attempt \<and> map_of (cs_quantities t) ''p1'' = Some 2 \<and> map_of (cs_quantities t) ''p2'' = Some 1"
proof -
  have "is_double 300" using is_double_int [of 300] by simp
  then have c: "cart_sound stored_cart"
    by (auto simp: cart_sound_def stored_cart_def quantities_ok_def plain_ids_def dict_wf_def sample_attempt_def attempt_ok_def unit_of_def
        index_key_def is_digit_def split: if_splits)
  have "plain_id ''u1''" by (simp add: plain_id_def)
  from stored_cart_is_restored [OF sample_crypto_ok owned_empty this c, of 2 0 1 "[]" 0] show ?thesis
    by (simp add: Let_def stored_cart_def sample_attempt_def items_map_def)
qed

lemma map_of_normalize:
  assumes "dict_wf kvs"
  shows "map_of (normalizeCartQuantities (Some (JObj kvs))) i = (if i = '''' then None else Option.bind (map_of kvs i) quantity_of)"
proof -
  let ?f = "\<lambda>(i :: string, q). if i = '''' then None else map_option (Pair i) (quantity_of q)"
  have "map_of (List.map_filter ?f kvs) i = (if i = '''' then None else Option.bind (map_of kvs i) quantity_of)"
    using assms
  proof (induction kvs)
    case (Cons kv kvs)
    obtain k v where kv: "kv = (k, v)" by (cases kv)
    have "map_of kvs k = None" "dict_wf kvs" using Cons.prems kv by (auto simp: dict_wf_def map_of_eq_None_iff)
    with Cons.IH kv show ?case by (cases "quantity_of v") (auto simp: List.map_filter_simps)
  qed (simp add: List.map_filter_simps)
  then show ?thesis by (simp add: normalizeCartQuantities_def)
qed

lemma quantity_of_iff: "quantity_of v = Some q \<longleftrightarrow> (\<exists>r. v = JNum (Num r) \<and> 1 \<le> r \<and> r < 1000 \<and> q = \<lfloor>r\<rfloor>)"
proof -
  have "0 < trunc r \<and> trunc r \<le> 999 \<longleftrightarrow> 1 \<le> r \<and> r < 1000" "1 \<le> r \<Longrightarrow> trunc r = \<lfloor>r\<rfloor>" for r
    by (auto simp: trunc_pos_iff) (auto simp: trunc_def floor_le_iff)
  then show ?thesis by (auto simp: quantity_of_def split: json.splits jsnum.splits)
qed

definition is_line :: "json \<Rightarrow> order_line \<Rightarrow> bool" where
  "is_line x l \<longleftrightarrow> (\<exists>f. x = JObj f \<and> map_of f ''productId'' = Some (JStr (ol_productId l))
     \<and> map_of f ''quantity'' = Some (jint (ol_quantity l)))"

definition line_ok :: "order_line \<Rightarrow> bool" where
  "line_ok l \<longleftrightarrow> ol_productId l \<noteq> '''' \<and> 1 \<le> ol_quantity l \<and> ol_quantity l \<le> 999"

lemma saved_line_iff: "saved_line x = Some l \<longleftrightarrow> is_line x l \<and> line_ok l"
proof
  assume "saved_line x = Some l"
  then show "is_line x l \<and> line_ok l"
    by (auto simp: saved_line_def is_line_def line_ok_def le_floor_iff floor_le_iff split: json.splits jsnum.splits option.splits if_splits)
next
  have c: "(1 :: rat) \<le> of_int q \<longleftrightarrow> 1 \<le> q" "(of_int q :: rat) \<le> 999 \<longleftrightarrow> q \<le> 999" for q by linarith+
  assume "is_line x l \<and> line_ok l"
  then show "saved_line x = Some l" by (cases l) (auto simp: saved_line_def is_line_def line_ok_def c)
qed

lemma saved_lines_iff:
  "saved_lines vs ids = Some ls \<longleftrightarrow> list_all2 is_line vs ls \<and> list_all line_ok ls
     \<and> distinct (map ol_productId ls) \<and> ids \<inter> ol_productId ` set ls = {}"
proof (induction vs arbitrary: ids ls)
  case (Cons v vs)
  show ?case
  proof (cases ls)
    case Nil
    then show ?thesis by (auto split: option.splits)
  next
    case (Cons l ls')
    have "saved_lines (v # vs) ids = Some ls \<longleftrightarrow> saved_line v = Some l \<and> ol_productId l \<notin> ids
        \<and> saved_lines vs (insert (ol_productId l) ids) = Some ls'"
      using Cons by (auto split: option.splits)
    then show ?thesis unfolding Cons.IH saved_line_iff using Cons by auto
  qed
qed auto

lemma savedAttempt_iff:
  "savedAttempt (Some v) = Some a \<longleftrightarrow> attempt_ok a \<and> (\<exists>kvs items. v = JObj kvs \<and> map_of kvs ''key'' = Some (JStr (at_key a))
      \<and> map_of kvs ''estimatedTotal'' = Some (JNum (Num (at_estimatedTotal a))) \<and> map_of kvs ''items'' = Some (JArr items)
      \<and> list_all2 is_line items (at_items a))" (is "?l \<longleftrightarrow> ?r")
proof
  assume l: ?l
  show ?r using savedAttempt_ok [OF l] l
    by (auto simp: savedAttempt_def saved_lines_iff split: json.splits option.splits jsnum.splits if_splits)
next
  assume r: ?r
  then obtain kvs items where v: "v = JObj kvs" "map_of kvs ''key'' = Some (JStr (at_key a))"
    "map_of kvs ''estimatedTotal'' = Some (JNum (Num (at_estimatedTotal a)))" "map_of kvs ''items'' = Some (JArr items)"
    "list_all2 is_line items (at_items a)" and a: "attempt_ok a" by blast
  have "saved_lines items {} = Some (at_items a)" using a v(5) by (auto simp: saved_lines_iff attempt_ok_def list_all_iff line_ok_def)
  moreover have "items \<noteq> []" using a v(5) by (auto simp: attempt_ok_def)
  ultimately show ?l using v a by (cases a) (auto simp: savedAttempt_def attempt_ok_def)
qed

text \<open>
  Property C20: whatever JSON value the device holds under the cart's form, what is restored from it is exactly its
  well-formed part. A product is restored iff its id is not empty and its value is a number of at least 1 and below
  1000, with this number truncated; everything else is dropped. An attempt is restored iff its key is a text of 1 to 255
  characters, its amount a number that is not negative and its lines a list that is not empty, of whole quantities
  from 1 to 999 of products with ids, none twice; it is restored with this key, this amount and these lines.
\<close>
theorem restored_cart_is_well_typed:
  assumes "stored_wf (Some v)"
  shows "(map_of (normalizeCartQuantities (Some v)) i = Some q \<longleftrightarrow>
      i \<noteq> '''' \<and> (\<exists>kvs r. v = JObj kvs \<and> map_of kvs i = Some (JNum (Num r)) \<and> 1 \<le> r \<and> r < 1000 \<and> q = \<lfloor>r\<rfloor>))
    \<and> (savedAttempt (Some v) = Some a \<longleftrightarrow> attempt_ok a \<and> (\<exists>kvs items. v = JObj kvs \<and> map_of kvs ''key'' = Some (JStr (at_key a))
      \<and> map_of kvs ''estimatedTotal'' = Some (JNum (Num (at_estimatedTotal a))) \<and> map_of kvs ''items'' = Some (JArr items)
      \<and> list_all2 is_line items (at_items a)))"
proof (intro conjI savedAttempt_iff)
  show "map_of (normalizeCartQuantities (Some v)) i = Some q \<longleftrightarrow>
      i \<noteq> '''' \<and> (\<exists>kvs r. v = JObj kvs \<and> map_of kvs i = Some (JNum (Num r)) \<and> 1 \<le> r \<and> r < 1000 \<and> q = \<lfloor>r\<rfloor>)"
  proof (cases v)
    case (JObj kvs)
    with assms have "dict_wf kvs" by (simp add: stored_wf_def)
    then show ?thesis by (auto simp: JObj map_of_normalize bind_eq_Some_conv quantity_of_iff)
  qed (simp_all add: normalizeCartQuantities_def)
qed

definition kept_value :: json where
  \<comment> \<open>a valid quantity, one too large, one without an id and a text; and an attempt\<close>
  "kept_value = JObj [(''p1'', JNum (Num (5 / 2))), (''p2'', JNum (Num 5000)), ('''', JNum (Num 1)), (''p3'', JStr ''2''),
     (''key'', JStr ''k1''), (''items'', JArr [JObj [(''productId'', JStr ''p1''), (''quantity'', JNum (Num 2)), (''name'', JStr ''Sok'')]]),
     (''estimatedTotal'', JNum (Num 300))]"

theorem restored_cart_is_well_typed_witness:
  "map_of (normalizeCartQuantities (Some kept_value)) ''p1'' = Some 2 \<and> map_of (normalizeCartQuantities (Some kept_value)) ''p2'' \<noteq> Some 5000
   \<and> map_of (normalizeCartQuantities (Some kept_value)) '''' \<noteq> Some 1 \<and> savedAttempt (Some kept_value) = Some sample_attempt"
proof -
  have w: "stored_wf (Some kept_value)" by (simp add: stored_wf_def dict_wf_def kept_value_def)
  have "\<lfloor>5 / 2 :: rat\<rfloor> = 2" by (rule floor_unique) simp_all
  then have "\<exists>r :: rat. r * 2 = 5 \<and> 1 \<le> r \<and> r < 1000 \<and> \<lfloor>r\<rfloor> = 2" by (intro exI [of _ "5 / 2"]) simp
  then have "map_of (normalizeCartQuantities (Some kept_value)) ''p1'' = Some 2"
    using restored_cart_is_well_typed [OF w, of "''p1''" 2 sample_attempt] by (simp add: kept_value_def)
  moreover have "savedAttempt (Some kept_value) = Some sample_attempt"
    using restored_cart_is_well_typed [OF w, of "''p1''" 2 sample_attempt]
    by (simp add: kept_value_def sample_attempt_def attempt_ok_def is_line_def unit_of_def)
  moreover have "map_of (normalizeCartQuantities (Some kept_value)) ''p2'' \<noteq> Some 5000"
    using restored_cart_is_well_typed [OF w, of "''p2''" 5000 sample_attempt] by (auto simp: kept_value_def)
  moreover have "map_of (normalizeCartQuantities (Some kept_value)) '''' \<noteq> Some 1"
    using restored_cart_is_well_typed [OF w, of "''''" 1 sample_attempt] by blast
  ultimately show ?thesis by blast
qed

end
