(* ===== verification/Resources.thy ===== *)
theory Resources
  imports Orders
begin

section \<open>Locations, areas, resources and the floor plan\<close>

text \<open>
  Models \<open>types/resource.types.ts\<close>, \<open>api/resourceApi.ts\<close> and \<open>resources/floorPlanGeometry.ts\<close>.
  Coordinates are real numbers: the plan is drawn with rotations, and \<open>Math.cos\<close> and \<open>Math.sin\<close> are the
  real functions.
\<close>

subsection \<open>Types\<close>

datatype resource_type = GAMING_PC | PLAYSTATION | SIMULATOR | VIP_ROOM | OTHER_RESOURCE

record booking_resource =
  bkr_id :: string
  bkr_serviceId :: string
  bkr_code :: string
  bkr_name :: string
  bkr_type :: resource_type
  bkr_locationId :: string
  bkr_locationName :: string
  bkr_available :: bool
  bkr_areaId :: "string option"
  bkr_areaName :: "string option"
  bkr_unavailabilityReason :: "string option"

record booking_options =
  bopt_resourceRequired :: bool
  bopt_resources :: "booking_resource list"
  bopt_variableDuration :: bool
  bopt_minimumDurationMinutes :: int
  bopt_maximumDurationMinutes :: int
  bopt_defaultDurationMinutes :: int

record location_view =
  lv_id :: string
  lv_code :: string
  lv_name :: string
  lv_address :: string
  lv_description :: "string option"
  lv_timezone :: string
  lv_active :: bool
  lv_version :: int

record area_view =
  av_id :: string
  av_locationId :: string
  av_code :: string
  av_name :: string
  av_description :: "string option"
  av_active :: bool
  av_displayOrder :: int
  av_mapWidth :: real
  av_mapHeight :: real
  av_version :: int

record resource_view =
  rv_id :: string
  rv_areaId :: string
  rv_serviceId :: string
  rv_code :: string
  rv_name :: string
  rv_type :: resource_type
  rv_description :: "string option"
  rv_active :: bool
  rv_bookable :: bool
  rv_capacity :: int
  rv_displayOrder :: int
  rv_x :: real
  rv_y :: real
  rv_width :: real
  rv_height :: real
  rv_rotation :: real
  rv_version :: int

record floor_plan_room =
  room_id :: string
  room_label :: string
  room_areaId :: "string option"
  room_x :: real
  room_y :: real
  room_width :: real
  room_height :: real

record floor_plan_wall =
  wall_id :: string
  wall_x1 :: real
  wall_y1 :: real
  wall_x2 :: real
  wall_y2 :: real
  wall_thickness :: real

record floor_plan_door =
  door_id :: string
  door_passage :: bool
  door_x1 :: real
  door_y1 :: real
  door_x2 :: real
  door_y2 :: real

record floor_plan_geometry =
  fp_rooms :: "floor_plan_room list"
  fp_walls :: "floor_plan_wall list"
  fp_doors :: "floor_plan_door list"

record resource_position =
  rp_id :: string
  rp_version :: int
  rp_x :: real
  rp_y :: real
  rp_width :: real
  rp_height :: real
  rp_rotation :: real

datatype resource_status = RS_AVAILABLE | RS_OCCUPIED | RS_INACTIVE | RS_MAINTENANCE | RS_RETIRED

fun resourceTypeLabels :: "resource_type \<Rightarrow> string" where
  "resourceTypeLabels GAMING_PC = sr ''Gaming ra~cunar''"
| "resourceTypeLabels PLAYSTATION = ''PlayStation''"
| "resourceTypeLabels SIMULATOR = ''Simulator''"
| "resourceTypeLabels VIP_ROOM = ''VIP soba''"
| "resourceTypeLabels OTHER_RESOURCE = ''Drugi resurs''"

fun resourceStatusLabels :: "resource_status \<Rightarrow> string" where
  "resourceStatusLabels RS_AVAILABLE = ''Slobodan''"
| "resourceStatusLabels RS_OCCUPIED = ''Zauzet''"
| "resourceStatusLabels RS_MAINTENANCE = sr ''Odr~zavanje''"
| "resourceStatusLabels RS_INACTIVE = ''Van funkcije''"
| "resourceStatusLabels RS_RETIRED = ''Van upotrebe''"

fun resourceStatusTones :: "resource_status \<Rightarrow> status_tone" where
  "resourceStatusTones RS_AVAILABLE = T_success"
| "resourceStatusTones RS_OCCUPIED = T_warning"
| "resourceStatusTones RS_MAINTENANCE = T_warning"
| "resourceStatusTones RS_INACTIVE = T_danger"
| "resourceStatusTones RS_RETIRED = T_neutral"

subsection \<open>Requests\<close>

definition resourceApi_catalogResources :: "string \<Rightarrow> http_request" where
  "resourceApi_catalogResources serviceId = api_get (''/resources/catalog-services/'' @ serviceId) []"

definition resourceApi_floorPlan :: "string \<Rightarrow> http_request" where
  "resourceApi_floorPlan i = api_get (''/resources/locations/'' @ i @ ''/floor-plan'') []"

definition resourceApi_saveFloorPlan :: "string \<Rightarrow> json \<Rightarrow> http_request" where
  "resourceApi_saveFloorPlan i input = api_send PUT (''/resources/locations/'' @ i @ ''/floor-plan'') (Some input)"

definition resourceApi_reservationResources :: http_request where
  "resourceApi_reservationResources = api_get ''/resources/reservation-filters'' []"

definition resourceApi_managementScope :: http_request where
  "resourceApi_managementScope = api_get ''/resources/management-scope'' []"

definition resourceApi_resourceEmployees :: "string \<Rightarrow> http_request" where
  "resourceApi_resourceEmployees i = api_get (''/resources/'' @ i @ ''/employees'') []"

definition access_body :: "bool \<Rightarrow> int option \<Rightarrow> json option" where
  "access_body active version = body [(''active'', Some (JBool active)), (''version'', jint_opt version)]"

definition resourceApi_setResourceEmployee :: "string \<Rightarrow> string \<Rightarrow> bool \<Rightarrow> int option \<Rightarrow> http_request" where
  "resourceApi_setResourceEmployee i employeeId active version =
     api_send PUT (''/resources/'' @ i @ ''/employees/'' @ employeeId) (access_body active version)"

definition resourceApi_bookingOptions ::
  "string \<Rightarrow> string option \<Rightarrow> string option \<Rightarrow> string option \<Rightarrow> string option \<Rightarrow> bool option \<Rightarrow> http_request" where
  "resourceApi_bookingOptions serviceId locationId areaId start finish managedOnly = api_get ''/resources/booking-options''
     [(''serviceId'', Some (JStr serviceId)), (''locationId'', jstr_opt locationId), (''areaId'', jstr_opt areaId),
      (''start'', jstr_opt start), (''end'', jstr_opt finish), (''managedOnly'', map_option JBool managedOnly)]"

definition resourceApi_employeeAccess :: "string \<Rightarrow> http_request" where
  "resourceApi_employeeAccess locationId = api_get (''/resources/locations/'' @ locationId @ ''/employees'') []"

definition resourceApi_setEmployeeAccess :: "string \<Rightarrow> string \<Rightarrow> bool \<Rightarrow> int option \<Rightarrow> http_request" where
  "resourceApi_setEmployeeAccess locationId employeeId active version =
     api_send PUT (''/resources/locations/'' @ locationId @ ''/employees/'' @ employeeId) (access_body active version)"

definition save_at :: "string option \<Rightarrow> (string \<Rightarrow> string) \<Rightarrow> string \<Rightarrow> json \<Rightarrow> http_request" where
  \<comment> \<open>\<open>id ? put(`.../${id}`, input) : post(collection, input)\<close>\<close>
  "save_at ident path collection input = (case ident of
     Some i \<Rightarrow> if i = '''' then api_send POST collection (Some input) else api_send PUT (path i) (Some input)
   | None \<Rightarrow> api_send POST collection (Some input))"

definition resourceApi_saveLocation :: "json \<Rightarrow> string option \<Rightarrow> http_request" where
  "resourceApi_saveLocation input i = save_at i (\<lambda>i. ''/resources/locations/'' @ i) ''/resources/locations'' input"

definition resourceApi_saveArea :: "string \<Rightarrow> json \<Rightarrow> string option \<Rightarrow> http_request" where
  "resourceApi_saveArea locationId input i =
     save_at i (\<lambda>i. ''/resources/areas/'' @ i) (''/resources/locations/'' @ locationId @ ''/areas'') input"

definition resourceApi_saveResource :: "string \<Rightarrow> json \<Rightarrow> string option \<Rightarrow> http_request" where
  "resourceApi_saveResource areaId input i = save_at i (\<lambda>i. ''/resources/'' @ i) (''/resources/areas/'' @ areaId) input"

definition resourceApi_locations :: http_request where
  "resourceApi_locations = api_get ''/resources/locations'' []"

definition resourceApi_areas :: "string \<Rightarrow> http_request" where
  "resourceApi_areas i = api_get (''/resources/locations/'' @ i @ ''/areas'') []"

definition resourceApi_resources :: "string \<Rightarrow> http_request" where
  "resourceApi_resources i = api_get (''/resources/areas/'' @ i) []"

definition resourceApi_availability :: "string \<Rightarrow> string \<Rightarrow> string \<Rightarrow> string option \<Rightarrow> http_request" where
  "resourceApi_availability i start finish serviceId = api_get (''/resources/areas/'' @ i @ ''/availability'')
     [(''start'', Some (JStr start)), (''end'', Some (JStr finish)), (''serviceId'', jstr_opt serviceId)]"

subsection \<open>Rooms of the floor plan\<close>

definition room_size :: "resource_view list \<Rightarrow> area_view \<Rightarrow> real \<times> real" where
  "room_size resources area = (let own = filter (\<lambda>r. rv_areaId r = av_id area) resources in
     (foldl max (av_mapWidth area) (map (\<lambda>r. rv_x r + rv_width r + 40) own),
      foldl max (av_mapHeight area) (map (\<lambda>r. rv_y r + rv_height r + 40) own)))"

definition area_room :: "resource_view list \<Rightarrow> area_view \<Rightarrow> real \<Rightarrow> real \<Rightarrow> floor_plan_room" where
  "area_room resources area x y = \<lparr>room_id = ''area-'' @ av_id area, room_label = av_name area, room_areaId = Some (av_id area),
     room_x = x, room_y = y, room_width = fst (room_size resources area), room_height = snd (room_size resources area)\<rparr>"

fun room_row :: "resource_view list \<Rightarrow> area_view list \<Rightarrow> real \<Rightarrow> real \<Rightarrow> real \<Rightarrow> floor_plan_room list \<times> real" where
  \<comment> \<open>the inner loop: the rooms of a row from \<open>nextX\<close> on, and the row's height\<close>
  "room_row resources [] nextX nextY rowHeight = ([], rowHeight)"
| "room_row resources (area # rest) nextX nextY rowHeight =
     (let room = area_room resources area nextX nextY;
          (rooms, h) = room_row resources rest (nextX + room_width room + 60) nextY (max rowHeight (room_height room))
      in (room # rooms, h))"

fun room_rows :: "resource_view list \<Rightarrow> area_view list \<Rightarrow> real \<Rightarrow> floor_plan_room list" where
  \<comment> \<open>the outer loop, two rooms a row\<close>
  "room_rows resources [] nextY = []"
| "room_rows resources [a] nextY = fst (room_row resources [a] 60 nextY 0)"
| "room_rows resources (a # b # rest) nextY =
     (let (rooms, h) = room_row resources [a, b] 60 nextY 0
      in rooms @ room_rows resources rest (nextY + h + 60))"

definition completeGeometry :: "floor_plan_geometry \<Rightarrow> area_view list \<Rightarrow> resource_view list \<Rightarrow> floor_plan_geometry" where
  "completeGeometry saved areas resources =
     (let rooms = fp_rooms saved;
          nextY = foldl max 0 (map (\<lambda>r. room_y r + room_height r) rooms) + 60;
          missing = filter (\<lambda>area. \<not> (\<exists>room \<in> set rooms. room_areaId room = Some (av_id area))) areas
      in saved\<lparr>fp_rooms := rooms @ room_rows resources missing nextY\<rparr>)"

record resource_rect =
  rr_x :: real
  rr_y :: real
  rr_width :: real
  rr_height :: real
  rr_localWidth :: real
  rr_localHeight :: real
  rr_scaleX :: real
  rr_scaleY :: real
  rr_rotation :: real

definition resourceRect :: "resource_position \<Rightarrow> area_view \<Rightarrow> floor_plan_room \<Rightarrow> resource_rect" where
  "resourceRect r area room =
     (let sx = room_width room / av_mapWidth area; sy = room_height room / av_mapHeight area
      in \<lparr>rr_x = room_x room + rp_x r * sx, rr_y = room_y room + rp_y r * sy, rr_width = rp_width r * sx,
          rr_height = rp_height r * sy, rr_localWidth = rp_width r, rr_localHeight = rp_height r,
          rr_scaleX = sx, rr_scaleY = sy, rr_rotation = rp_rotation r\<rparr>)"

definition js_round :: "real \<Rightarrow> int" where
  "js_round r = \<lfloor>r + 1 / 2\<rfloor>"

definition localPosition :: "real \<Rightarrow> real \<Rightarrow> area_view \<Rightarrow> floor_plan_room \<Rightarrow> int \<times> int" where
  "localPosition x y area room =
     (max 0 (js_round ((x - room_x room) * av_mapWidth area / room_width room)),
      max 0 (js_round ((y - room_y room) * av_mapHeight area / room_height room)))"

definition positionOf :: "resource_view \<Rightarrow> resource_position" where
  "positionOf r = \<lparr>rp_id = rv_id r, rp_version = rv_version r, rp_x = rv_x r, rp_y = rv_y r, rp_width = rv_width r,
     rp_height = rv_height r, rp_rotation = rv_rotation r\<rparr>"

record map_bounds =
  mb_x :: real
  mb_y :: real
  mb_width :: real
  mb_height :: real

definition room_box :: "floor_plan_room \<Rightarrow> map_bounds" where
  "room_box room = \<lparr>mb_x = room_x room, mb_y = room_y room, mb_width = room_width room, mb_height = room_height room\<rparr>"

definition rotated_box :: "resource_rect \<Rightarrow> map_bounds" where
  "rotated_box rect =
     (let angle = rr_rotation rect * pi / 180;
          width = (\<bar>rr_localWidth rect * cos angle\<bar> + \<bar>rr_localHeight rect * sin angle\<bar>) * rr_scaleX rect;
          height = (\<bar>rr_localWidth rect * sin angle\<bar> + \<bar>rr_localHeight rect * cos angle\<bar>) * rr_scaleY rect
      in \<lparr>mb_x = rr_x rect + rr_width rect / 2 - width / 2, mb_y = rr_y rect + rr_height rect / 2 - height / 2,
          mb_width = width, mb_height = height\<rparr>)"

definition line_box :: "real \<Rightarrow> real \<Rightarrow> real \<Rightarrow> real \<Rightarrow> map_bounds" where
  "line_box x1 y1 x2 y2 = \<lparr>mb_x = min x1 x2, mb_y = min y1 y2, mb_width = \<bar>x2 - x1\<bar>, mb_height = \<bar>y2 - y1\<bar>\<rparr>"

definition resource_box ::
  "area_view list \<Rightarrow> floor_plan_room list \<Rightarrow> (string \<Rightarrow> resource_position option) \<Rightarrow> resource_view \<Rightarrow> map_bounds option" where
  "resource_box areas rooms positions r =
     (case (find (\<lambda>a. av_id a = rv_areaId r) areas, find (\<lambda>room. room_areaId room = Some (rv_areaId r)) rooms) of
        (Some area, Some room) \<Rightarrow>
          Some (rotated_box (resourceRect (case positions (rv_id r) of Some p \<Rightarrow> p | None \<Rightarrow> positionOf r) area room))
      | _ \<Rightarrow> None)"

definition enclose :: "map_bounds list \<Rightarrow> map_bounds" where
  "enclose boxes = (case boxes of
     [] \<Rightarrow> \<lparr>mb_x = 0, mb_y = 0, mb_width = 1000, mb_height = 650\<rparr>
   | _ \<Rightarrow> let x = Min (mb_x ` set boxes) - 50; y = Min (mb_y ` set boxes) - 50
       in \<lparr>mb_x = x, mb_y = y,
           mb_width = max 300 (Max ((\<lambda>b. mb_x b + mb_width b) ` set boxes) - x + 50),
           mb_height = max 220 (Max ((\<lambda>b. mb_y b + mb_height b) ` set boxes) - y + 50)\<rparr>)"

definition mapBounds ::
  "floor_plan_geometry \<Rightarrow> area_view list \<Rightarrow> resource_view list \<Rightarrow> (string \<Rightarrow> resource_position option) \<Rightarrow> string \<Rightarrow> map_bounds" where
  "mapBounds g areas resources positions areaId =
     (let rooms = filter (\<lambda>r. areaId = '''' \<or> room_areaId r = Some areaId) (fp_rooms g);
          lines = (if areaId = '''' then map (\<lambda>w. line_box (wall_x1 w) (wall_y1 w) (wall_x2 w) (wall_y2 w)) (fp_walls g)
              @ map (\<lambda>d. line_box (door_x1 d) (door_y1 d) (door_x2 d) (door_y2 d)) (fp_doors g) else [])
      in enclose (map room_box rooms @ List.map_filter (resource_box areas rooms positions) resources @ lines))"

subsection \<open>Properties\<close>

definition apart :: "floor_plan_room \<Rightarrow> floor_plan_room \<Rightarrow> bool" where
  "apart a b \<longleftrightarrow> room_x a + room_width a \<le> room_x b \<or> room_x b + room_width b \<le> room_x a
     \<or> room_y a + room_height a \<le> room_y b \<or> room_y b + room_height b \<le> room_y a"

lemma foldl_max_start: "m \<le> foldl max (m :: real) xs"
  by (induction xs arbitrary: m) (auto intro: order_trans [OF max.cobounded1])

lemma foldl_max_member: "x \<in> set xs \<Longrightarrow> x \<le> foldl max (m :: real) xs"
proof (induction xs arbitrary: m)
  case (Cons y ys)
  then show ?case using foldl_max_start [of "max m y" ys] by auto
qed simp

lemma area_room_fields [simp]:
  "room_x (area_room rs a x y) = x" "room_y (area_room rs a x y) = y" "room_areaId (area_room rs a x y) = Some (av_id a)"
  "room_width (area_room rs a x y) = fst (room_size rs a)" "room_height (area_room rs a x y) = snd (room_size rs a)"
  by (simp_all add: area_room_def)

lemma room_rows_from: "r \<in> set (room_rows rs areas y) \<Longrightarrow> y \<le> room_y r"
proof (induction rs areas y rule: room_rows.induct)
  case (3 rs a b rest y)
  let ?h = "max (max 0 (snd (room_size rs a))) (snd (room_size rs b))"
  have "0 \<le> ?h" by simp
  with 3 show ?case by (force simp: Let_def)
qed (auto simp: Let_def)

lemma room_rows_apart: "sorted_wrt apart (room_rows rs areas y)"
proof (induction rs areas y rule: room_rows.induct)
  case (3 rs a b rest y)
  let ?h = "max (max 0 (snd (room_size rs a))) (snd (room_size rs b))"
  have rest: "y + ?h + 60 \<le> room_y r" if "r \<in> set (room_rows rs rest (y + ?h + 60))" for r
    using room_rows_from [OF that] .
  have "apart (area_room rs a 60 y) r \<and> apart (area_room rs b (60 + fst (room_size rs a) + 60) y) r"
    if "r \<in> set (room_rows rs rest (y + ?h + 60))" for r
    using rest [OF that] by (auto simp: apart_def)
  moreover have "sorted_wrt apart (room_rows rs rest (y + ?h + 60))" using 3 by (simp add: Let_def)
  moreover have "apart (area_room rs a 60 y) (area_room rs b (60 + fst (room_size rs a) + 60) y)"
    by (simp add: apart_def)
  ultimately show ?case by (auto simp: Let_def)
qed (auto simp: Let_def)

lemma room_rows_areas: "a \<in> set areas \<Longrightarrow> \<exists>r \<in> set (room_rows rs areas y). room_areaId r = Some (av_id a)"
  by (induction rs areas y rule: room_rows.induct) (auto simp: Let_def)

text \<open>
  Property C26: completing a floor plan keeps every saved room as it is, gives every area a room, and never
  draws an added room over a saved one or over another added one.
\<close>
theorem completed_rooms_do_not_overlap:
  "\<exists>added. fp_rooms (completeGeometry saved areas resources) = fp_rooms saved @ added
    \<and> sorted_wrt apart added \<and> (\<forall>old \<in> set (fp_rooms saved). \<forall>new \<in> set added. apart old new)
    \<and> (\<forall>a \<in> set areas. \<exists>room \<in> set (fp_rooms saved @ added). room_areaId room = Some (av_id a))"
proof -
  let ?missing = "filter (\<lambda>a. \<not> (\<exists>room \<in> set (fp_rooms saved). room_areaId room = Some (av_id a))) areas"
  let ?bottom = "foldl max 0 (map (\<lambda>r. room_y r + room_height r) (fp_rooms saved))"
  let ?added = "room_rows resources ?missing (?bottom + 60)"
  have "apart old new" if "old \<in> set (fp_rooms saved)" "new \<in> set ?added" for old new
  proof -
    have "room_y old + room_height old \<le> ?bottom" using that(1) by (intro foldl_max_member) auto
    with room_rows_from [OF that(2)] show ?thesis by (simp add: apart_def)
  qed
  moreover have "\<exists>room \<in> set (fp_rooms saved @ ?added). room_areaId room = Some (av_id a)" if "a \<in> set areas" for a
    using room_rows_areas [of a ?missing resources] that by auto
  ultimately show ?thesis
    using room_rows_apart by (intro exI [of _ ?added]) (simp add: completeGeometry_def Let_def)
qed

definition sample_area :: "string \<Rightarrow> area_view" where
  "sample_area i = \<lparr>av_id = i, av_locationId = ''l'', av_code = i, av_name = i, av_description = None, av_active = True,
     av_displayOrder = 1, av_mapWidth = 400, av_mapHeight = 300, av_version = 1\<rparr>"

theorem completed_rooms_do_not_overlap_witness:
  "\<exists>added. fp_rooms (completeGeometry \<lparr>fp_rooms = [], fp_walls = [], fp_doors = []\<rparr> [sample_area ''a'', sample_area ''b''] []) = [] @ added
    \<and> sorted_wrt apart added"
  using completed_rooms_do_not_overlap [of "\<lparr>fp_rooms = [], fp_walls = [], fp_doors = []\<rparr>" "[sample_area ''a'', sample_area ''b'']" "[]"]
  by auto

text \<open>
  Drawing a resource and reading the drawn point back gives the stored position: for whole,
  non-negative coordinates the pair \<open>resourceRect\<close> and \<open>localPosition\<close> loses nothing, whatever the
  scale of the room.
\<close>
theorem drawn_position_reads_back:
  assumes "0 < av_mapWidth area" and "0 < av_mapHeight area" and "0 < room_width room" and "0 < room_height room"
    and "rp_x p = real_of_int i" and "rp_y p = real_of_int j" and "0 \<le> i" and "0 \<le> j"
  shows "localPosition (rr_x (resourceRect p area room)) (rr_y (resourceRect p area room)) area room = (i, j)"
proof -
  have "js_round (real_of_int k) = k" for k by (simp add: js_round_def floor_eq_iff)
  with assms show ?thesis by (simp add: localPosition_def resourceRect_def Let_def)
qed

theorem drawn_position_reads_back_witness:
  "localPosition (10 + 7 * 2) (20 + 5 * 3) ((sample_area ''a'')\<lparr>av_mapWidth := 100, av_mapHeight := 100\<rparr>)
     \<lparr>room_id = ''r'', room_label = '''', room_areaId = None, room_x = 10, room_y = 20, room_width = 200, room_height = 300\<rparr> = (7, 5)"
  using drawn_position_reads_back [of "(sample_area ''a'')\<lparr>av_mapWidth := 100, av_mapHeight := 100\<rparr>"
      "\<lparr>room_id = ''r'', room_label = '''', room_areaId = None, room_x = 10, room_y = 20, room_width = 200, room_height = 300\<rparr>"
      "\<lparr>rp_id = '''', rp_version = 1, rp_x = 7, rp_y = 5, rp_width = 1, rp_height = 1, rp_rotation = 0\<rparr>" 7 5]
  by (simp add: resourceRect_def)

end
