(* ===== verification/People.thy ===== *)
theory People
  imports Orders
begin

section \<open>Users, customers and paged reads\<close>

text \<open>
  Models \<open>types/user.types.ts\<close>, \<open>types/customer.types.ts\<close>, \<open>api/userApi.ts\<close>, \<open>api/customerApi.ts\<close>,
  and the loops that read every page of a list (\<open>loadBookingServices\<close>, \<open>activeServices\<close>,
  \<open>servicesForWaitlist\<close>, \<open>waitlistEmployees\<close>). Such a loop runs until the page number reaches the
  \<open>totalPages\<close> of the last answer, so it may not end against an arbitrary server: \<open>read_pages\<close> is a
  partial function. \<open>paged_api\<close> is what a server that pages through a fixed list promises.
\<close>

subsection \<open>Users\<close>

record user_response =
  ur_id :: string
  ur_name :: string
  ur_email :: string
  ur_role :: role
  ur_active :: bool
  ur_avatarUrl :: "string option"
  ur_createdAt :: string
  ur_updatedAt :: string
  ur_version :: int
  ur_permissions :: "permission list"
  ur_deletedAt :: "string option"
  ur_deletedBy :: "string option"
  ur_deletionReason :: "string option"

datatype staff_role = STAFF_ADMIN | STAFF_EMPLOYEE

record create_user_request =
  cur_name :: string
  cur_email :: string
  cur_password :: string
  cur_role :: staff_role

record user_statistics =
  us_total :: nat
  us_active :: nat
  us_administrators :: nat
  us_inactive :: nat

record employee_statistics =
  es_total :: nat
  es_active :: nat
  es_newThisMonth :: nat
  es_inactive :: nat
  es_onLeave :: "nat option"
  es_businessDate :: string
  es_businessZone :: string

record assigned_location =
  al_id :: string
  al_name :: string
  al_code :: string
  al_active :: bool
  al_version :: int

record assigned_resource =
  ar_id :: string
  ar_name :: string
  ar_code :: string
  ar_type :: string
  ar_areaId :: string
  ar_areaName :: string
  ar_locationId :: string
  ar_locationName :: string
  ar_active :: bool
  ar_version :: int

record employee_assignments =
  ea_locations :: "assigned_location list"
  ea_resources :: "assigned_resource list"

record employee_leave =
  el_id :: string
  el_startsAt :: string
  el_endsAt :: string

record user_filters =
  uf_role :: "string option"
  uf_active :: "bool option"
  uf_search :: "string option"
  uf_sort :: "string option"
  uf_direction :: "string option"

definition user_filter_params :: "user_filters \<Rightarrow> (string \<times> json option) list" where
  "user_filter_params f = [(''role'', jstr_opt (uf_role f)), (''active'', map_option JBool (uf_active f)),
     (''search'', jstr_opt (uf_search f)), (''sort'', jstr_opt (uf_sort f)), (''direction'', jstr_opt (uf_direction f))]"

definition userApi_statistics :: http_request where
  "userApi_statistics = api_get ''/users/statistics'' []"

definition userApi_detail :: "string \<Rightarrow> bool \<Rightarrow> http_request" where
  "userApi_detail i deleted = api_get (''/users/'' @ encodeURIComponent i) [(''deleted'', Some (JBool deleted))]"

definition userApi_employeeStatistics :: http_request where
  "userApi_employeeStatistics = api_get ''/users/employees/statistics'' []"

definition userApi_employee :: "string \<Rightarrow> http_request" where
  "userApi_employee i = api_get (''/users/employees/'' @ encodeURIComponent i) []"

definition userApi_employeeAssignments :: "string \<Rightarrow> http_request" where
  "userApi_employeeAssignments i = api_get (''/users/employees/'' @ encodeURIComponent i @ ''/assignments'') []"

definition userApi_employeeLeaves :: "string \<Rightarrow> nat \<Rightarrow> nat \<Rightarrow> http_request" where
  "userApi_employeeLeaves i page sz = api_get (''/users/employees/'' @ encodeURIComponent i @ ''/time-off'') (page_params page sz)"

definition userApi_avatarPreview :: "string \<Rightarrow> http_request" where
  "userApi_avatarPreview i = api_get (''/documents/'' @ encodeURIComponent i @ ''/content'') [(''preview'', Some (JBool True))]"

definition userApi_me :: http_request where
  "userApi_me = api_get ''/users/me'' []"

definition userApi_updateMe :: "string \<Rightarrow> http_request" where
  "userApi_updateMe name = api_send PATCH ''/users/me'' (body [(''name'', Some (JStr name))])"

definition userApi_changePassword :: "string \<Rightarrow> string \<Rightarrow> http_request" where
  "userApi_changePassword current new = api_send PATCH ''/users/me/password''
     (body [(''currentPassword'', Some (JStr current)), (''newPassword'', Some (JStr new))])"

definition userApi_uploadAvatar :: "json \<Rightarrow> http_request" where
  "userApi_uploadAvatar avatar = api_send POST ''/users/me/avatar'' (Some (JObj [(''avatar'', avatar)]))"

definition userApi_list :: "nat \<Rightarrow> nat \<Rightarrow> user_filters \<Rightarrow> http_request" where
  "userApi_list page sz f = api_get ''/users'' (page_params page sz @ user_filter_params f)"

definition userApi_create :: "create_user_request \<Rightarrow> http_request" where
  "userApi_create r = api_send POST ''/users'' (body [(''name'', Some (JStr (cur_name r))), (''email'', Some (JStr (cur_email r))),
     (''password'', Some (JStr (cur_password r))),
     (''role'', Some (JStr (case cur_role r of STAFF_ADMIN \<Rightarrow> ''ADMIN'' | STAFF_EMPLOYEE \<Rightarrow> ''EMPLOYEE'')))])"

definition userApi_deactivate :: "string \<Rightarrow> http_request" where
  "userApi_deactivate i = api_send PATCH (''/users/'' @ i @ ''/deactivate'') None"

definition userApi_bulkDeactivate :: "string list \<Rightarrow> http_request" where
  "userApi_bulkDeactivate ids = api_send POST ''/users/bulk/deactivate'' (body [(''ids'', Some (JArr (map JStr ids)))])"

definition userApi_deleted :: "nat \<Rightarrow> nat \<Rightarrow> user_filters option \<Rightarrow> http_request" where
  "userApi_deleted page sz filters = api_get ''/users/deleted''
     (page_params page sz @ (case filters of Some f \<Rightarrow> user_filter_params f | None \<Rightarrow> []))"

definition userApi_remove :: "string \<Rightarrow> string \<Rightarrow> http_request" where
  "userApi_remove i reason = api_send DELETE (''/users/'' @ i) (body [(''reason'', Some (JStr reason))])"

definition userApi_restore :: "string \<Rightarrow> http_request" where
  "userApi_restore i = api_send POST (''/users/'' @ i @ ''/restore'') None"

definition userApi_employeesPage :: "nat \<Rightarrow> nat \<Rightarrow> http_request" where
  "userApi_employeesPage page sz = api_get ''/users/employees'' (page_params page sz)"

definition userApi_employees :: http_request where
  "userApi_employees = userApi_employeesPage 0 100"

subsection \<open>Customers\<close>

record customer_list_item =
  cli_id :: string
  cli_name :: string
  cli_email :: string
  cli_active :: bool
  cli_registeredAt :: string
  cli_reservationCount :: nat
  cli_completedAppointmentCount :: nat
  cli_orderCount :: nat
  cli_completedOrderCount :: nat
  cli_completedOrderRevenue :: rat
  cli_lastActivityAt :: "string option"
  cli_version :: int

record customer_reservation_history =
  crh_id :: string
  crh_serviceName :: string
  crh_startTime :: string
  crh_endTime :: string
  crh_status :: string

record customer_order_history =
  coh_id :: string
  coh_status :: string
  coh_totalPrice :: rat
  coh_createdAt :: string

record customer_statistics =
  cstat_total :: nat
  cstat_active :: nat
  cstat_newThisMonth :: nat
  cstat_inactive :: nat

record customer_onboarding =
  con_id :: string
  con_name :: string
  con_email :: string
  con_active :: bool
  con_version :: int
  con_activationSecret :: string
  con_activationExpiresAt :: string

record customer_input =
  cinp_name :: string
  cinp_email :: string

record customer_update_input = customer_input +
  cup_version :: int

record customer_crm_note =
  ccn_id :: string
  ccn_body :: string
  ccn_createdBy :: string
  ccn_createdAt :: string
  ccn_updatedAt :: string
  ccn_expiresAt :: string
  ccn_version :: int

record customer_crm =
  crm_customerId :: string
  crm_version :: int
  crm_tags :: "string list"

definition customer_path :: "string \<Rightarrow> string \<Rightarrow> string" where
  "customer_path i rest = ''/customers/'' @ i @ rest"

definition customerApi_create :: "customer_input \<Rightarrow> http_request" where
  "customerApi_create r = api_send POST ''/customers'' (body [(''name'', Some (JStr (cinp_name r))), (''email'', Some (JStr (cinp_email r)))])"

definition customerApi_update :: "string \<Rightarrow> customer_update_input \<Rightarrow> http_request" where
  "customerApi_update i r = api_send PATCH (customer_path i '''') (body [(''name'', Some (JStr (cinp_name r))),
     (''email'', Some (JStr (cinp_email r))), (''version'', Some (jint (cup_version r)))])"

definition customerApi_deactivate :: "string \<Rightarrow> http_request" where
  "customerApi_deactivate i = api_send POST (customer_path i ''/deactivate'') None"

definition customerApi_list :: "string option \<Rightarrow> bool option \<Rightarrow> nat \<Rightarrow> nat \<Rightarrow> http_request" where
  "customerApi_list search active page sz = api_get ''/customers''
     ([(''search'', jstr_opt search), (''active'', map_option JBool active)] @ page_params page sz)"

definition customerApi_statistics :: http_request where
  "customerApi_statistics = api_get ''/customers/statistics'' []"

definition customerApi_detail :: "string \<Rightarrow> http_request" where
  "customerApi_detail i = api_get (customer_path i '''') []"

definition customerApi_reservations :: "string \<Rightarrow> nat \<Rightarrow> nat \<Rightarrow> http_request" where
  "customerApi_reservations i page sz = api_get (customer_path i ''/reservations'') (page_params page sz)"

definition customerApi_orders :: "string \<Rightarrow> nat \<Rightarrow> nat \<Rightarrow> http_request" where
  "customerApi_orders i page sz = api_get (customer_path i ''/orders'') (page_params page sz)"

definition customerApi_crm :: "string \<Rightarrow> string option \<Rightarrow> http_request" where
  "customerApi_crm i search = api_get (customer_path i ''/crm'') [(''search'', jstr_opt search)]"

definition customerApi_crmNotes :: "string \<Rightarrow> string option \<Rightarrow> nat \<Rightarrow> nat \<Rightarrow> http_request" where
  "customerApi_crmNotes i search page sz = api_get (customer_path i ''/crm/notes'') ((''search'', jstr_opt search) # page_params page sz)"

definition customerApi_addCrmNote :: "string \<Rightarrow> string \<Rightarrow> http_request" where
  "customerApi_addCrmNote i text = api_send POST (customer_path i ''/crm/notes'') (body [(''body'', Some (JStr text))])"

definition customerApi_updateCrmNote :: "string \<Rightarrow> string \<Rightarrow> string \<Rightarrow> int \<Rightarrow> http_request" where
  "customerApi_updateCrmNote i note text version = api_send PUT (customer_path i (''/crm/notes/'' @ note))
     (body [(''body'', Some (JStr text)), (''version'', Some (jint version))])"

definition customerApi_deleteCrmNote :: "string \<Rightarrow> string \<Rightarrow> int \<Rightarrow> http_request" where
  "customerApi_deleteCrmNote i note version = with_params [(''version'', Some (jint version))]
     (api_send DELETE (customer_path i (''/crm/notes/'' @ note)) None)"

definition customerApi_addCrmTag :: "string \<Rightarrow> string \<Rightarrow> http_request" where
  "customerApi_addCrmTag i name = api_send POST (customer_path i ''/crm/tags'') (body [(''name'', Some (JStr name))])"

definition customerApi_removeCrmTag :: "string \<Rightarrow> string \<Rightarrow> int \<Rightarrow> http_request" where
  "customerApi_removeCrmTag i name version = with_params [(''version'', Some (jint version))]
     (api_send DELETE (customer_path i (''/crm/tags/'' @ encodeURIComponent name)) None)"

subsection \<open>Reading every page\<close>

definition collect :: "('a \<Rightarrow> string) \<Rightarrow> 'a list \<Rightarrow> (string, 'a) dict \<Rightarrow> (string, 'a) dict" where
  \<comment> \<open>\<open>content.forEach(item => items.set(item.id, item))\<close>\<close>
  "collect ident xs items = fold (\<lambda>x d. AList.update (ident x) x d) xs items"

partial_function (option) read_pages ::
  "(nat \<Rightarrow> 'a page_response) \<Rightarrow> ('a \<Rightarrow> string) \<Rightarrow> nat \<Rightarrow> (string, 'a) dict \<Rightarrow> (string, 'a) dict option" where
  "read_pages answer ident page items =
     (let r = answer page; items' = collect ident (pg_content r) items
      in if page + 1 < pg_totalPages r then read_pages answer ident (page + 1) items' else Some items')"

definition service_page :: "bool option \<Rightarrow> nat \<Rightarrow> http_request" where
  "service_page active page = catalogApi_list \<lparr>cf_page = page, cf_size = 100, cf_type = Some SERVICE, cf_active = active,
     cf_search = None, cf_minPrice = None, cf_maxPrice = None, cf_sort = Some ''name'', cf_direction = Some ''ASC''\<rparr>"

definition loadBookingServices :: "(http_request \<Rightarrow> catalog_item page_response) \<Rightarrow> catalog_item list option" where
  "loadBookingServices server = map_option (map snd) (read_pages (server \<circ> service_page (Some True)) ci_id 0 [])"

definition activeServices ::
  "(string \<Rightarrow> string \<Rightarrow> bool) \<Rightarrow> (http_request \<Rightarrow> catalog_item page_response) \<Rightarrow> catalog_item list option" where
  \<comment> \<open>\<open>before\<close> is \<open>localeCompare(...) < 0\<close>; equal names are ordered by id\<close>
  "activeServices before server = map_option
     (sort_by (\<lambda>a b. before (ci_name a) (ci_name b) \<or> \<not> before (ci_name b) (ci_name a) \<and> \<not> before (ci_id b) (ci_id a)))
     (loadBookingServices server)"

definition servicesForWaitlist :: "(http_request \<Rightarrow> catalog_item page_response) \<Rightarrow> bool option \<Rightarrow> catalog_item list option" where
  "servicesForWaitlist server active = map_option (map snd) (read_pages (server \<circ> service_page active) ci_id 0 [])"

definition waitlistServices :: "(http_request \<Rightarrow> catalog_item page_response) \<Rightarrow> catalog_item list option" where
  "waitlistServices server = servicesForWaitlist server (Some True)"

definition waitlistFilterServices :: "(http_request \<Rightarrow> catalog_item page_response) \<Rightarrow> catalog_item list option" where
  "waitlistFilterServices server = servicesForWaitlist server None"

definition waitlistEmployees :: "(http_request \<Rightarrow> user_response page_response) \<Rightarrow> user_response list option" where
  "waitlistEmployees server = map_option (map snd)
     (read_pages (\<lambda>page. server (api_get ''/users/employees'' (page_params page 100))) ur_id 0 [])"

definition pages_of :: "(nat \<Rightarrow> 'a page_response) \<Rightarrow> nat \<Rightarrow> 'a list \<Rightarrow> bool" where
  \<comment> \<open>the answers page through one list, \<open>n\<close> items a page\<close>
  "pages_of answer n listing \<longleftrightarrow> 0 < n \<and> (\<forall>p. pg_content (answer p) = take n (drop (p * n) listing)
     \<and> pg_totalPages (answer p) = (length listing + n - 1) div n)"

lemma collect_append: "collect ident (xs @ ys) d = collect ident ys (collect ident xs d)"
  by (simp add: collect_def)

lemma read_pages_from:
  assumes "pages_of answer n listing" and "N = (length listing + n - 1) div n"
  shows "read_pages answer ident p d = Some (collect ident (drop (p * n) listing) d)"
proof (induction "N - p" arbitrary: p d rule: less_induct)
  case less
  let ?c = "take n (drop (p * n) listing)"
  have r: "pg_content (answer p) = ?c" "pg_totalPages (answer p) = N" and n: "0 < n"
    using assms by (auto simp: pages_of_def)
  have s: "read_pages answer ident p d = (if p + 1 < N then read_pages answer ident (p + 1) (collect ident ?c d)
      else Some (collect ident ?c d))"
    by (subst read_pages.simps) (simp add: Let_def r)
  have c: "drop (p * n) listing = ?c @ drop ((p + 1) * n) listing"
    by (metis add_mult_distrib append_take_drop_id drop_drop mult_1 add.commute)
  show ?case
  proof (cases "p + 1 < N")
    case True
    from less [of "p + 1"] True s c show ?thesis by (simp add: collect_append [symmetric])
  next
    case False
    have "length listing \<le> (p + 1) * n"
    proof -
      have "length listing + n - 1 < (N + 1) * n" using n assms(2) by (metis add.commute dividend_less_div_times mult.commute mult_Suc Suc_eq_plus1)
      moreover have "N * n \<le> (p + 1) * n" by (rule mult_le_mono1) (use False in simp)
      ultimately show ?thesis using n by (simp add: algebra_simps)
    qed
    then have "drop (p * n) listing = ?c" using c by simp
    with s False show ?thesis by simp
  qed
qed

lemma collect_distinct: "distinct (map ident xs) \<Longrightarrow> collect ident xs [] = map (\<lambda>x. (ident x, x)) xs"
proof -
  assume d: "distinct (map ident xs)"
  have "collect ident xs [] = dict_of (map (\<lambda>x. (ident x, x)) xs)"
    by (simp add: collect_def dict_of_def fold_map comp_def)
  also have "\<dots> = map (\<lambda>x. (ident x, x)) xs"
    by (rule dict_of_wf_id) (simp add: dict_wf_def comp_def d)
  finally show ?thesis .
qed

lemma read_all_pages:
  "pages_of answer n listing \<Longrightarrow> distinct (map ident listing) \<Longrightarrow>
     map_option (map snd) (read_pages answer ident 0 []) = Some listing"
  using read_pages_from [of answer n listing _ ident 0 "[]"] by (simp add: collect_distinct comp_def)

definition sample_item :: "string \<Rightarrow> catalog_item" where
  "sample_item i = \<lparr>ci_id = i, ci_name = i, ci_description = None, ci_type = SERVICE, ci_price = 10, ci_durationMinutes = Some 30,
     ci_requiresResource = None, ci_active = True, ci_imageUrl = None, ci_createdAt = '''', ci_updatedAt = '''', ci_version = 1,
     ci_deletedAt = None, ci_deletedBy = None, ci_deletionReason = None\<rparr>"

text \<open>
  Property C25: the loops that read a list page by page end and give the whole list: against a server that
  pages through one list of services or employees with distinct ids, each of them returns exactly that
  list, in its order.
\<close>
theorem paged_reads_are_complete:
  assumes "pages_of (services \<circ> service_page (Some True)) 100 listing" and "distinct (map ci_id listing)"
    and "pages_of (\<lambda>page. users (api_get ''/users/employees'' (page_params page 100))) 100 staff" and "distinct (map ur_id staff)"
  shows "loadBookingServices services = Some listing \<and> waitlistServices services = Some listing
    \<and> waitlistEmployees users = Some staff
    \<and> (\<exists>sorted. activeServices before services = Some sorted \<and> set sorted = set listing)"
proof -
  from read_all_pages [OF assms(1,2)] have l: "loadBookingServices services = Some listing"
    by (simp add: loadBookingServices_def)
  then show ?thesis
    using read_all_pages [OF assms(1,2)] read_all_pages [OF assms(3,4)]
    by (simp add: waitlistServices_def servicesForWaitlist_def waitlistEmployees_def activeServices_def)
qed

definition sample_server :: "'a list \<Rightarrow> http_request \<Rightarrow> 'a page_response" where
  \<comment> \<open>pages through the list by the parameter \<open>page\<close>\<close>
  "sample_server listing r = (let p = (case map_of (rq_params r) ''page'' of Some (JNum (Num q)) \<Rightarrow> nat \<lfloor>q\<rfloor> | _ \<Rightarrow> 0)
     in \<lparr>pg_content = take 100 (drop (p * 100) listing), pg_page = p, pg_size = 100,
         pg_totalElements = length listing, pg_totalPages = (length listing + 99) div 100\<rparr>)"

lemma sample_server_pages:
  "pages_of (sample_server listing \<circ> service_page active) 100 listing"
  "pages_of (\<lambda>page. sample_server staff (api_get ''/users/employees'' (page_params page 100))) 100 staff"
  by (simp_all add: pages_of_def sample_server_def service_page_def catalogApi_list_def page_params_def api_get_def Let_def)

theorem paged_reads_are_complete_witness:
  "loadBookingServices (sample_server [sample_item ''a'', sample_item ''b'']) = Some [sample_item ''a'', sample_item ''b'']"
  using paged_reads_are_complete [OF sample_server_pages(1) _ sample_server_pages(2) [of "[]"], of "[sample_item ''a'', sample_item ''b'']"]
  by (simp add: sample_item_def)

end
