(* ===== verification/Booking.thy ===== *)
theory Booking
  imports Resources People Idempotency
begin

section \<open>Booking an appointment\<close>

text \<open>
  Models \<open>reservations/customer/useCustomerBooking.ts\<close>, \<open>reservations/useStaffBooking.ts\<close>,
  \<open>reservations/customer/customerPresentation.model.ts\<close>, \<open>reservations/ReservationTimePicker.model.ts\<close>,
  \<open>reservations/ReservationIcon.model.ts\<close> and \<open>api/availabilityApi.ts\<close>. The values the hooks derive on
  each render are functions of the form and of what the queries hold; a query is a \<open>query\<close>. Both
  hooks send a creation request under a key the same way: \<open>keyed\<close> is that part of their state, and it is an
  \<open>idempotent_sender\<close>.
\<close>

subsection \<open>Texts, times and requests\<close>

definition validTime :: "string \<Rightarrow> bool" where
  \<comment> \<open>\<open>/^([01]\d|2[0-3]):[0-5]\d$/\<close>\<close>
  "validTime s \<longleftrightarrow> (case s of
     [a, b, c, d, e] \<Rightarrow> c = CHR '':'' \<and> is_digit b \<and> is_digit e
       \<and> (a \<in> set ''01'' \<or> a = CHR ''2'' \<and> b \<in> set ''0123'') \<and> d \<in> set ''012345''
   | _ \<Rightarrow> False)"

fun reservationActionLabels :: "reservation_status \<Rightarrow> string option" where
  "reservationActionLabels R_CONFIRMED = Some ''Potvrdi''"
| "reservationActionLabels R_REJECTED = Some ''Odbij''"
| "reservationActionLabels R_CANCELLED = Some (sr ''Otka~zi'')"
| "reservationActionLabels R_COMPLETED = Some (sr ''Zavr~si'')"
| "reservationActionLabels R_PENDING = None"

definition customerReservationTexts :: "(string \<times> string) list" where
  "customerReservationTexts = [
    (''Reservation not found'', sr ''Rezervacija nije prona~dena.''),
    (''It is too late to cancel this reservation'', sr ''Rok za otkazivanje ovog termina je istekao.''),
    (''Invalid reservation status transition'', sr ''Status rezervacije se promenio. Osve~zite pregled.''),
    (''A reason is required to reject or cancel a reservation'', sr ''Unesite razlog otkazivanja rezervacije.''),
    (''Reservation was modified by another request'', sr ''Rezervacija je u me~duvremenu promenjena. Osve~zite podatke.''),
    (''Customer access is required'', sr ''Ovaj pregled je dostupan prijavljenom klijentu.''),
    (''Reservation duration is outside the permitted range'', sr ''Trajanje rezervacije je izvan dozvoljenog raspona.''),
    (''This service has a fixed reservation duration'', sr ''Ova usluga ima fiksno trajanje rezervacije.'')]"

definition customerReservationError :: "cause \<Rightarrow> string \<Rightarrow> string" where
  "customerReservationError e fallback = replace_texts customerReservationTexts (reservationApiErrorMessage e fallback)"

definition duration_text :: "string \<Rightarrow> string \<Rightarrow> nat \<Rightarrow> string" where
  "duration_text hours mins minutes =
     (let parts = filter (\<lambda>s. s \<noteq> '''') [if 60 \<le> minutes then show_nat (minutes div 60) @ hours else '''',
            if minutes mod 60 \<noteq> 0 then show_nat (minutes mod 60) @ mins else '''']
      in if parts = [] then ''0'' @ mins else join_with '' '' parts)"

definition customerDuration :: "nat \<Rightarrow> string" where
  "customerDuration minutes = duration_text '' h'' '' min'' minutes"

definition durationLabel :: "nat \<Rightarrow> string" where
  "durationLabel minutes = duration_text ''h'' ''min'' minutes"

definition useReservationArea :: "auth_user option \<Rightarrow> string option \<Rightarrow> string option \<Rightarrow> booking_resource list option \<Rightarrow> string option" where
  \<comment> \<open>the area name, from the resources the enabled query answered\<close>
  "useReservationArea user serviceId resourceId answer =
     (if serviceId = None \<or> serviceId = Some '''' \<or> resourceId = None \<or> resourceId = Some '''' \<or> \<not> hasCapability user RESOURCE_READ then None
      else Option.bind answer (\<lambda>rs. Option.bind (find (\<lambda>r. Some (bkr_id r) = resourceId) rs) bkr_areaName))"

definition availability_params ::
  "string \<Rightarrow> string option \<Rightarrow> string option \<Rightarrow> string option \<Rightarrow> string option \<Rightarrow> int option \<Rightarrow> string \<Rightarrow> string \<Rightarrow> (string \<times> json option) list" where
  "availability_params serviceId employeeId resourceId locationId areaId durationMinutes from to =
     [(''serviceId'', Some (JStr serviceId)), (''employeeId'', jstr_opt employeeId), (''resourceId'', jstr_opt resourceId),
      (''locationId'', jstr_opt locationId), (''areaId'', jstr_opt areaId), (''durationMinutes'', jint_opt durationMinutes),
      (''from'', Some (JStr from)), (''to'', Some (JStr to))]"

definition availabilityApi_overview ::
  "string \<Rightarrow> string option \<Rightarrow> string option \<Rightarrow> string option \<Rightarrow> string option \<Rightarrow> int option \<Rightarrow> string \<Rightarrow> string \<Rightarrow> http_request" where
  "availabilityApi_overview s e r l a d from to = api_get ''/availability/overview'' (availability_params s e r l a d from to)"

definition availabilityApi_find ::
  "string \<Rightarrow> string option \<Rightarrow> string option \<Rightarrow> string option \<Rightarrow> string option \<Rightarrow> int option \<Rightarrow> string \<Rightarrow> string \<Rightarrow> http_request" where
  "availabilityApi_find s e r l a d from to = api_get ''/availability'' (availability_params s e r l a d from to)"

subsection \<open>Sending a creation request\<close>

record 'r keyed =
  kd_keys :: key_manager
  kd_pending :: "'r option"
  kd_inFlight :: bool

definition keyed_initial :: "'r keyed" where
  "keyed_initial = \<lparr>kd_keys = new_manager, kd_pending = None, kd_inFlight = False\<rparr>"

definition keyed_frozen :: "'r keyed \<Rightarrow> bool" where
  "keyed_frozen k \<longleftrightarrow> km_pendingKey (kd_keys k) \<noteq> None"

definition keyed_start :: "string \<Rightarrow> bool \<Rightarrow> 'r \<Rightarrow> 'r keyed \<Rightarrow> ((string \<times> 'r) \<times> 'r keyed) option" where
  \<comment> \<open>the guard \<open>(!canSubmit && !frozen) || inFlight\<close>, then \<open>pending ?? request\<close> under \<open>keys.begin()\<close>\<close>
  "keyed_start generated canSubmit request k =
     (if \<not> canSubmit \<and> \<not> keyed_frozen k \<or> kd_inFlight k then None
      else let r = (case kd_pending k of Some p \<Rightarrow> p | None \<Rightarrow> request);
               (key, m) = km_begin generated (kd_keys k)
           in Some ((key, r), k\<lparr>kd_keys := m, kd_pending := Some r, kd_inFlight := True\<rparr>))"

definition keyed_succeeded :: "'r keyed \<Rightarrow> 'r keyed" where
  "keyed_succeeded k = k\<lparr>kd_keys := km_succeeded (kd_keys k), kd_pending := None, kd_inFlight := False\<rparr>"

definition keyed_failed :: "cause \<Rightarrow> 'r keyed \<Rightarrow> 'r keyed" where
  "keyed_failed e k = (let m = km_failed e (kd_keys k)
     in k\<lparr>kd_keys := m, kd_pending := (if km_pendingKey m = None then None else kd_pending k), kd_inFlight := False\<rparr>)"

subsection \<open>The customer's form\<close>

record booking_form =
  bf_serviceId :: string
  bf_resourceId :: string
  bf_locationId :: string
  bf_areaId :: string
  bf_employeeChoice :: string
  bf_date :: string
  bf_fromTime :: string
  bf_toTime :: string
  bf_endDate :: string
  bf_durationChoice :: "int option"
  bf_selectedSlot :: "availability_slot option"
  bf_selectedStart :: string
  bf_note :: string
  bf_recurring :: bool
  bf_frequency :: recurrence_frequency
  bf_interval :: int
  bf_occurrences :: int
  bf_conflictPolicy :: recurrence_conflict_policy
  bf_error :: string

record booking_prefill =
  pf_serviceId :: "string option"
  pf_resourceId :: "string option"
  pf_locationId :: "string option"
  pf_areaId :: "string option"
  pf_employeeId :: "string option"

definition or_text :: "string option \<Rightarrow> string \<Rightarrow> string" where
  \<comment> \<open>\<open>s ?? t\<close>\<close>
  "or_text s t = (case s of Some v \<Rightarrow> v | None \<Rightarrow> t)"

definition some_text :: "string \<Rightarrow> string option" where
  \<comment> \<open>\<open>s || undefined\<close>\<close>
  "some_text s = (if s = '''' then None else Some s)"

definition booking_start :: "booking_prefill \<Rightarrow> booking_form" where
  "booking_start p = \<lparr>bf_serviceId = or_text (pf_serviceId p) '''', bf_resourceId = or_text (pf_resourceId p) '''',
     bf_locationId = or_text (pf_locationId p) '''', bf_areaId = or_text (pf_areaId p) '''',
     bf_employeeChoice = or_text (pf_employeeId p) ''ANY'', bf_date = '''', bf_fromTime = '''', bf_toTime = '''', bf_endDate = '''',
     bf_durationChoice = None, bf_selectedSlot = None, bf_selectedStart = '''', bf_note = '''', bf_recurring = False,
     bf_frequency = WEEKLY, bf_interval = 1, bf_occurrences = 4, bf_conflictPolicy = ALL_OR_NOTHING, bf_error = ''''\<rparr>"

definition employeeValid :: "user_response list \<Rightarrow> booking_form \<Rightarrow> bool" where
  "employeeValid employees f \<longleftrightarrow> bf_employeeChoice f = ''ANY'' \<or> (\<exists>e \<in> set employees. ur_id e = bf_employeeChoice f)"

definition rule_resources :: "booking_options option \<Rightarrow> booking_resource list" where
  "rule_resources rules = (case rules of Some o' \<Rightarrow> bopt_resources o' | None \<Rightarrow> [])"

definition selectedResource :: "booking_options option \<Rightarrow> booking_form \<Rightarrow> booking_resource option" where
  "selectedResource rules f = find (\<lambda>r. bkr_id r = bf_resourceId f) (rule_resources rules)"

definition booking_locations :: "booking_options option \<Rightarrow> (string, string) dict" where
  "booking_locations rules = dict_of (map (\<lambda>r. (bkr_locationId r, bkr_locationName r)) (rule_resources rules))"

definition first_text :: "string list \<Rightarrow> string" where
  \<comment> \<open>\<open>a || b || c\<close>\<close>
  "first_text ss = (case find (\<lambda>s. s \<noteq> '''') ss of Some s \<Rightarrow> s | None \<Rightarrow> '''')"

definition scopedLocationId :: "booking_options option \<Rightarrow> booking_form \<Rightarrow> string" where
  "scopedLocationId rules f = first_text [bf_locationId f,
     (case selectedResource rules f of Some r \<Rightarrow> bkr_locationId r | None \<Rightarrow> ''''),
     (case booking_locations rules of [(l, _)] \<Rightarrow> l | _ \<Rightarrow> '''')]"

definition booking_areas :: "booking_options option \<Rightarrow> booking_form \<Rightarrow> (string, string) dict" where
  "booking_areas rules f = dict_of (List.map_filter (\<lambda>r. case bkr_areaId r of
       Some a \<Rightarrow> if bkr_locationId r = scopedLocationId rules f \<and> a \<noteq> ''''
         then Some (a, first_text [or_text (bkr_areaName r) '''', a]) else None
     | None \<Rightarrow> None) (rule_resources rules))"

definition scopedAreaId :: "booking_options option \<Rightarrow> booking_form \<Rightarrow> string" where
  "scopedAreaId rules f = first_text [bf_areaId f,
     (case selectedResource rules f of Some r \<Rightarrow> or_text (bkr_areaId r) '''' | None \<Rightarrow> ''''),
     (case booking_areas rules f of [(a, _)] \<Rightarrow> a | _ \<Rightarrow> '''')]"

definition resourceRequired :: "booking_options option \<Rightarrow> catalog_item option \<Rightarrow> bool" where
  "resourceRequired rules service = (case rules of
     Some r \<Rightarrow> bopt_resourceRequired r
   | None \<Rightarrow> (case Option.bind service ci_requiresResource of Some b \<Rightarrow> b | None \<Rightarrow> False))"

definition scopeReady :: "booking_options option \<Rightarrow> catalog_item option \<Rightarrow> booking_form \<Rightarrow> bool" where
  "scopeReady rules service f \<longleftrightarrow> \<not> resourceRequired rules service
     \<or> scopedLocationId rules f \<noteq> '''' \<and> scopedAreaId rules f \<noteq> ''''"

definition physicalStep :: "booking_options option \<Rightarrow> catalog_item option \<Rightarrow> booking_form \<Rightarrow> bool" where
  "physicalStep rules service f \<longleftrightarrow> resourceRequired rules service \<or> bf_resourceId f \<noteq> ''''"

definition booking_minimum :: "booking_options option \<Rightarrow> int" where
  "booking_minimum rules = (case rules of
     Some r \<Rightarrow> if bopt_variableDuration r then max 30 (bopt_minimumDurationMinutes r) else bopt_minimumDurationMinutes r
   | None \<Rightarrow> 30)"

definition defaultDuration :: "booking_options option \<Rightarrow> catalog_item option \<Rightarrow> int" where
  "defaultDuration rules service = (case rules of
     Some r \<Rightarrow> if bopt_variableDuration r
       then min (bopt_maximumDurationMinutes r) (max (booking_minimum rules) (bopt_defaultDurationMinutes r))
       else bopt_defaultDurationMinutes r
   | None \<Rightarrow> (case Option.bind service ci_durationMinutes of Some d \<Rightarrow> d | None \<Rightarrow> 30))"

record manual_interval =
  mn_start :: string
  mn_error :: string
  mn_duration :: rat

definition minutes_between :: "platform \<Rightarrow> string \<Rightarrow> string \<Rightarrow> rat option" where
  \<comment> \<open>\<open>(Date.parse(end) - Date.parse(start)) / 60000\<close>, None for NaN\<close>
  "minutes_between P start finish = (case (parse P finish, parse P start) of
     (Some e, Some s) \<Rightarrow> Some (of_int (e - s) / 60000) | _ \<Rightarrow> None)"

definition whole :: "rat \<Rightarrow> bool" where
  "whole r \<longleftrightarrow> r = of_int \<lfloor>r\<rfloor>"

definition range_error :: "int \<Rightarrow> int \<Rightarrow> string" where
  "range_error lo hi = ''Trajanje mora biti od '' @ show_int lo @ '' do '' @ show_int hi @ '' minuta.''"

definition manualInterval :: "platform \<Rightarrow> booking_options option \<Rightarrow> catalog_item option \<Rightarrow> booking_form \<Rightarrow> manual_interval" where
  "manualInterval P rules service f =
     (let given = of_int (case bf_durationChoice f of Some d \<Rightarrow> d | None \<Rightarrow> defaultDuration rules service);
          plain = \<lparr>mn_start = '''', mn_error = '''', mn_duration = given\<rparr>
      in case rules of
           None \<Rightarrow> plain
         | Some r \<Rightarrow>
             if \<not> bopt_variableDuration r \<or> bf_fromTime f = '''' \<and> bf_toTime f = '''' then plain
             else if bf_date f = '''' \<or> \<not> validTime (bf_fromTime f) \<or> \<not> validTime (bf_toTime f) \<or> bf_endDate f = ''''
             then plain\<lparr>mn_error := sr ''Unesite po~cetak i kraj u formatu HH:mm.''\<rparr>
             else (case businessLocalToInstant P (bf_date f @ ''T'' @ bf_fromTime f) of
               Inl e \<Rightarrow> plain\<lparr>mn_error := e\<rparr>
             | Inr start \<Rightarrow> (case businessLocalToInstant P (bf_endDate f @ ''T'' @ bf_toTime f) of
                 Inl e \<Rightarrow> plain\<lparr>mn_start := start, mn_error := e\<rparr>
               | Inr finish \<Rightarrow> (case minutes_between P start finish of
                   None \<Rightarrow> plain\<lparr>mn_start := start, mn_error := sr ''Kraj mora biti posle po~cetka. Za termin preko pono~qi promenite datum zavr~setka.''\<rparr>
                 | Some d \<Rightarrow>
                     if \<not> whole d \<or> d \<le> 0
                     then \<lparr>mn_start = start, mn_error = sr ''Kraj mora biti posle po~cetka. Za termin preko pono~qi promenite datum zavr~setka.'', mn_duration = d\<rparr>
                     else if d < of_int (booking_minimum rules) \<or> of_int (bopt_maximumDurationMinutes r) < d
                     then \<lparr>mn_start = start, mn_error = range_error (booking_minimum rules) (bopt_maximumDurationMinutes r), mn_duration = d\<rparr>
                     else \<lparr>mn_start = start, mn_error = '''', mn_duration = d\<rparr>))))"

definition durationMinutes :: "platform \<Rightarrow> booking_options option \<Rightarrow> catalog_item option \<Rightarrow> booking_form \<Rightarrow> rat option" where
  "durationMinutes P rules service f = (case rules of
     Some r \<Rightarrow> if bopt_variableDuration r
       then Some (if mn_error (manualInterval P rules service f) \<noteq> '''' then of_int (defaultDuration rules service)
              else mn_duration (manualInterval P rules service f)) else None
   | None \<Rightarrow> None)"

subsection \<open>Slots\<close>

record 'a query =
  qy_data :: "'a option"
  qy_isFetching :: bool
  qy_isError :: bool

definition settled :: "'a query \<Rightarrow> bool" where
  "settled q \<longleftrightarrow> \<not> qy_isFetching q \<and> \<not> qy_isError q"

definition slot_rank :: "availability_slot \<Rightarrow> nat" where
  "slot_rank s = (case sl_status s of
     None \<Rightarrow> 0 | Some S_AVAILABLE \<Rightarrow> 0 | Some S_UNAVAILABLE \<Rightarrow> 2 | Some _ \<Rightarrow> 1)"

definition offer_slot :: "availability_slot \<Rightarrow> (string, availability_slot) dict \<Rightarrow> (string, availability_slot) dict" where
  "offer_slot s unique = (case map_of unique (sl_startTime s) of
     None \<Rightarrow> AList.update (sl_startTime s) s unique
   | Some previous \<Rightarrow> if slot_rank s < slot_rank previous then AList.update (sl_startTime s) s unique else unique)"

definition employee_slots :: "availability_response \<Rightarrow> availability_slot list" where
  \<comment> \<open>every slot with its employee, in the order of the answer\<close>
  "employee_slots r = concat (map (\<lambda>e. map (\<lambda>s. s\<lparr>sl_employeeId := Some (ea_employeeId e), sl_employeeName := Some (ea_employeeName e)\<rparr>)
     (ea_slots e)) (ar_employees r))"

definition booking_slots :: "(string \<Rightarrow> string \<Rightarrow> bool) \<Rightarrow> availability_response option \<Rightarrow> availability_slot list" where
  \<comment> \<open>\<open>le\<close> is \<open>localeCompare(...) <= 0\<close>\<close>
  "booking_slots le data = (case data of
     None \<Rightarrow> []
   | Some r \<Rightarrow> sort_by (\<lambda>a b. le (sl_startTime a) (sl_startTime b)) (map snd (fold offer_slot (employee_slots r) [])))"

definition rebind_slot :: "platform \<Rightarrow> string \<Rightarrow> availability_slot list \<Rightarrow> booking_form \<Rightarrow> booking_form" where
  \<comment> \<open>the effect that follows a manually entered interval\<close>
  "rebind_slot P manualStart slots f =
     (case find (\<lambda>s. parse P (sl_startTime s) \<noteq> None \<and> parse P (sl_startTime s) = parse P manualStart) slots of
        Some s \<Rightarrow> f\<lparr>bf_selectedSlot := Some s, bf_selectedStart := sl_startTime s\<rparr>
      | None \<Rightarrow> f\<lparr>bf_selectedSlot := None, bf_selectedStart := ''''\<rparr>)"

definition chosenSlot :: "availability_slot list \<Rightarrow> booking_form \<Rightarrow> availability_slot option" where
  "chosenSlot slots f = (case bf_selectedSlot f of
     None \<Rightarrow> None
   | Some s \<Rightarrow> if sl_startTime s \<noteq> bf_selectedStart f then None
       else find (\<lambda>v. sl_startTime v = bf_selectedStart f \<and> sl_employeeId v = sl_employeeId s \<and> sl_resourceId v = sl_resourceId s) slots)"

definition slot_occupied :: "availability_slot option \<Rightarrow> bool" where
  "slot_occupied s \<longleftrightarrow> (case Option.bind s sl_status of
     Some st \<Rightarrow> st \<in> {OCCUPIED_RESERVATION, OCCUPIED_RESOURCE, OCCUPIED_SESSION} | None \<Rightarrow> False)"

definition slot_text :: "(availability_slot \<Rightarrow> string option) \<Rightarrow> availability_slot option \<Rightarrow> string" where
  "slot_text g s = or_text (Option.bind s g) ''''"

definition resolvedResourceId :: "availability_slot option \<Rightarrow> booking_form \<Rightarrow> string" where
  "resolvedResourceId slot f = first_text [bf_resourceId f, slot_text sl_resourceId slot]"

definition resolvedLocationId :: "booking_options option \<Rightarrow> availability_slot option \<Rightarrow> booking_form \<Rightarrow> string" where
  "resolvedLocationId rules slot f = first_text [slot_text sl_locationId slot,
     (case selectedResource rules f of Some r \<Rightarrow> bkr_locationId r | None \<Rightarrow> ''''), scopedLocationId rules f]"

definition resolvedAreaId :: "booking_options option \<Rightarrow> availability_slot option \<Rightarrow> booking_form \<Rightarrow> string" where
  "resolvedAreaId rules slot f = first_text [
     (case find (\<lambda>r. bkr_id r = resolvedResourceId slot f) (rule_resources rules) of
        Some r \<Rightarrow> or_text (bkr_areaId r) '''' | None \<Rightarrow> ''''), scopedAreaId rules f]"

definition resourceUnavailable :: "booking_options option \<Rightarrow> string \<Rightarrow> bool" where
  "resourceUnavailable slotResources resolved \<longleftrightarrow> resolved \<noteq> '''' \<and> slotResources \<noteq> None
     \<and> \<not> (\<exists>r \<in> set (rule_resources slotResources). bkr_id r = resolved \<and> bkr_available r)"

definition base_input ::
  "booking_options option \<Rightarrow> availability_slot option \<Rightarrow> int option \<Rightarrow> booking_form \<Rightarrow> create_reservation_input" where
  "base_input rules slot minutes f = \<lparr>cr_areaId = some_text (resolvedAreaId rules slot f), cr_durationMinutes = minutes,
     cr_customerId = None, cr_employeeId = (if bf_employeeChoice f = ''ANY'' then None else Some (bf_employeeChoice f)),
     cr_serviceId = bf_serviceId f, cr_resourceId = some_text (resolvedResourceId slot f),
     cr_locationId = some_text (resolvedLocationId rules slot f), cr_startTime = bf_selectedStart f, cr_note = some_text (bf_note f)\<rparr>"

definition booking_request ::
  "booking_options option \<Rightarrow> availability_slot option \<Rightarrow> int option \<Rightarrow> booking_form \<Rightarrow> reservation_creation_request" where
  "booking_request rules slot minutes f =
     (if bf_recurring f
      then RECURRING (create_reservation_input.extend ((base_input rules slot minutes f)\<lparr>cr_employeeId := Some (bf_employeeChoice f)\<rparr>)
        (recurrence_input.fields (bf_frequency f) (bf_interval f) (bf_occurrences f) (bf_conflictPolicy f)))
      else SINGLE (base_input rules slot minutes f))"

definition series_ready :: "bool \<Rightarrow> recurrence_preview query \<Rightarrow> recurrence_conflict_policy \<Rightarrow> bool" where
  "series_ready fixed_employee preview policy \<longleftrightarrow> fixed_employee \<and> settled preview
     \<and> (case qy_data preview of
          None \<Rightarrow> False
        | Some p \<Rightarrow> (\<exists>v \<in> set (rp_occurrences p). ro_available v)
            \<and> (policy = ALL_OR_NOTHING \<longrightarrow> (\<forall>v \<in> set (rp_occurrences p). ro_available v)))"

record booking_view =
  bw_loading :: bool
  bw_dataError :: bool
  bw_service :: "catalog_item option"
  bw_rules :: "booking_options option"
  bw_employees :: "user_response list"
  bw_resourceOptions :: "booking_options query"
  bw_availability :: "availability_response query"
  bw_slotResources :: "booking_options query"
  bw_preview :: "recurrence_preview query"
  bw_waitlist :: "availability_response query"
  bw_timeError :: string
  bw_slot :: "availability_slot option"
  bw_minutes :: "int option"

definition booking_ready :: "booking_view \<Rightarrow> booking_form \<Rightarrow> bool" where
  \<comment> \<open>what \<open>canSubmit\<close> and \<open>canJoin\<close> share\<close>
  "booking_ready w f \<longleftrightarrow> \<not> bw_loading w \<and> \<not> bw_dataError w \<and> bw_service w \<noteq> None \<and> bw_rules w \<noteq> None
     \<and> employeeValid (bw_employees w) f \<and> scopeReady (bw_rules w) (bw_service w) f \<and> bw_timeError w = ''''
     \<and> settled (bw_availability w) \<and> settled (bw_resourceOptions w)"

definition canSubmit :: "booking_view \<Rightarrow> booking_form \<Rightarrow> bool" where
  "canSubmit w f \<longleftrightarrow> booking_ready w f \<and> bw_slot w \<noteq> None \<and> (\<not> slot_occupied (bw_slot w) \<or> bf_recurring f)
     \<and> Option.bind (bw_slot w) sl_status \<noteq> Some S_UNAVAILABLE
     \<and> (physicalStep (bw_rules w) (bw_service w) f \<longrightarrow>
          resolvedResourceId (bw_slot w) f \<noteq> '''' \<and> (bf_recurring f \<or> settled (bw_slotResources w)
            \<and> \<not> resourceUnavailable (qy_data (bw_slotResources w)) (resolvedResourceId (bw_slot w) f)))
     \<and> (bf_recurring f \<longrightarrow> series_ready (bf_employeeChoice f \<noteq> ''ANY'') (bw_preview w) (bf_conflictPolicy f))"

definition needsStandardWaitlist :: "booking_view \<Rightarrow> booking_form \<Rightarrow> bool" where
  "needsStandardWaitlist w f \<longleftrightarrow> slot_occupied (bw_slot w) \<and> \<not> bf_recurring f
     \<and> (case bw_rules w of Some r \<Rightarrow> bopt_variableDuration r | None \<Rightarrow> False)
     \<and> bw_minutes w \<noteq> Option.bind (bw_service w) ci_durationMinutes"

definition standardSlot :: "booking_view \<Rightarrow> booking_form \<Rightarrow> availability_slot option" where
  "standardSlot w f = (if needsStandardWaitlist w f
     then Option.bind (qy_data (bw_waitlist w)) (\<lambda>r. find (\<lambda>s. sl_startTime s = bf_selectedStart f) (concat (map ea_slots (ar_employees r))))
     else bw_slot w)"

definition canJoin :: "booking_view \<Rightarrow> booking_form \<Rightarrow> bool" where
  "canJoin w f \<longleftrightarrow> booking_ready w f \<and> slot_occupied (bw_slot w) \<and> \<not> bf_recurring f
     \<and> slot_occupied (standardSlot w f) \<and> (needsStandardWaitlist w f \<longrightarrow> settled (bw_waitlist w))"

definition resetSelection :: "bool \<Rightarrow> booking_form \<Rightarrow> booking_form" where
  "resetSelection clearTime f = (let g = f\<lparr>bf_selectedStart := '''', bf_selectedSlot := None, bf_error := ''''\<rparr>
     in if clearTime then g\<lparr>bf_fromTime := '''', bf_toTime := '''', bf_endDate := ''''\<rparr> else g)"

definition choose_slot :: "platform \<Rightarrow> booking_options option \<Rightarrow> availability_slot \<Rightarrow> booking_form \<Rightarrow> booking_form option" where
  \<comment> \<open>None where formatting an invalid instant throws\<close>
  "choose_slot P rules slot f =
     (let g = f\<lparr>bf_selectedStart := sl_startTime slot, bf_selectedSlot := Some slot, bf_error := ''''\<rparr>
      in if (case rules of Some r \<Rightarrow> bopt_variableDuration r | None \<Rightarrow> False)
         then do { a \<leftarrow> businessInstantToLocal P (sl_startTime slot); b \<leftarrow> businessInstantToLocal P (sl_endTime slot);
                   Some (g\<lparr>bf_fromTime := drop 11 a, bf_toTime := drop 11 b, bf_endDate := take 10 b\<rparr>) }
         else Some g)"

definition create_failed :: "cause \<Rightarrow> reservation_creation_request keyed \<times> booking_form \<Rightarrow> reservation_creation_request keyed \<times> booking_form" where
  "create_failed e s =
     (let k = keyed_failed e (fst s); f = snd s; retained = keyed_frozen k
      in (k, if isConflictResponse e \<and> \<not> retained
        then (if bf_recurring f then f else resetSelection False f)\<lparr>bf_error :=
          (if bf_recurring f then sr ''Dostupnost serije se promenila. Osve~zite i proverite konflikte pre novog poku~saja.''
           else sr ''Termin je u me~duvremenu zauzet. Izaberite ga ponovo ili se prijavite na listu ~cekanja.'')\<rparr>
        else f\<lparr>bf_error := (if retained then sr ''Ishod prethodnog zahteva nije potvr~den. Proverite isti zahtev pre novog rezervisanja.''
          else customerReservationError e (sr ''Termin nije mogu~qe rezervisati. Poku~sajte ponovo.''))\<rparr>))"

definition booking_create ::
  "string \<Rightarrow> booking_view \<Rightarrow> reservation_creation_request keyed \<times> booking_form
     \<Rightarrow> (http_request \<times> reservation_creation_request keyed \<times> booking_form) option" where
  \<comment> \<open>\<open>create\<close> up to its first await: the request that goes out\<close>
  "booking_create generated w s =
     (case keyed_start generated (canSubmit w (snd s)) (booking_request (bw_rules w) (bw_slot w) (bw_minutes w) (snd s)) (fst s) of
        None \<Rightarrow> None
      | Some ((key, r), k) \<Rightarrow> Some (creation_request r key, k, (snd s)\<lparr>bf_error := ''''\<rparr>))"

definition join_body :: "booking_view \<Rightarrow> booking_form \<Rightarrow> availability_slot \<Rightarrow> string \<Rightarrow> (string \<times> json option) list" where
  "join_body w f slot employeeId = [(''serviceId'', Some (JStr (bf_serviceId f))), (''employeeId'', Some (JStr employeeId)),
     (''resourceId'', jstr_opt (some_text (resolvedResourceId (bw_slot w) f))),
     (''locationId'', jstr_opt (some_text (resolvedLocationId (bw_rules w) (bw_slot w) f))),
     (''desiredStart'', Some (JStr (sl_startTime slot)))]"

definition joinWaitlist :: "booking_view \<Rightarrow> reservation_creation_request keyed \<times> booking_form \<Rightarrow> http_request option" where
  "joinWaitlist w s = (case bw_slot w of
     None \<Rightarrow> None
   | Some slot \<Rightarrow> (case sl_employeeId slot of
       None \<Rightarrow> None
     | Some e \<Rightarrow> if canJoin w (snd s) \<and> e \<noteq> '''' \<and> \<not> kd_inFlight (fst s) \<and> \<not> keyed_frozen (fst s)
         then Some (api_send POST ''/waitlist'' (body (join_body w (snd s) slot e))) else None))"

subsection \<open>The staff's form\<close>

record time_range =
  tr_date :: string
  tr_from :: string
  tr_to :: string
  tr_endDate :: string

fun intervalLabels :: "plan_interval_status \<Rightarrow> string" where
  "intervalLabels I_AVAILABLE = ''Slobodno''"
| "intervalLabels I_OCCUPIED = ''Zauzeto''"
| "intervalLabels I_CLOSED = ''Van radnog vremena''"
| "intervalLabels I_UNAVAILABLE = ''Resurs nije dostupan''"

definition localRange :: "platform \<Rightarrow> string \<Rightarrow> string \<Rightarrow> time_range option" where
  "localRange P start finish = do {
     a \<leftarrow> businessInstantToLocal P start; b \<leftarrow> businessInstantToLocal P finish;
     case (split_on CHR ''T'' a, split_on CHR ''T'' b) of
       (d # t # _, e # u # _) \<Rightarrow> Some \<lparr>tr_date = d, tr_from = t, tr_to = u, tr_endDate = e\<rparr>
     | _ \<Rightarrow> None }"

definition booking_addDays :: "platform \<Rightarrow> string \<Rightarrow> int \<Rightarrow> string option" where
  "booking_addDays P date days = (if date = '''' then Some '''' else offsetDate P date days)"

definition next_quarter :: "ms \<Rightarrow> ms" where
  "next_quarter now = (now div 900000 + 1) * 900000"

definition initial_range :: "platform \<Rightarrow> string option \<Rightarrow> ms \<Rightarrow> time_range option" where
  "initial_range P startTime now = do {
     instant \<leftarrow> (case startTime of Some s \<Rightarrow> Some s | None \<Rightarrow> Some (toISOString (next_quarter now)));
     future \<leftarrow> businessInstantToLocal P instant;
     case split_on CHR ''T'' future of
       d # t # _ \<Rightarrow> Some \<lparr>tr_date = d, tr_from = t, tr_to = '''', tr_endDate = d\<rparr> | _ \<Rightarrow> None }"

definition range_start :: "platform \<Rightarrow> string option \<Rightarrow> time_range \<Rightarrow> string + string" where
  \<comment> \<open>the given start where it is the one shown, the typed one otherwise; empty where it is incomplete\<close>
  "range_start P initial r =
     (if tr_date r \<noteq> '''' \<and> validTime (tr_from r) then
        (case initial of
           Some i \<Rightarrow> if i \<noteq> '''' \<and> businessInstantToLocal P i = Some (tr_date r @ ''T'' @ tr_from r) then Inr i
             else businessLocalToInstant P (tr_date r @ ''T'' @ tr_from r)
         | None \<Rightarrow> businessLocalToInstant P (tr_date r @ ''T'' @ tr_from r))
      else Inr '''')"

record staff_interval =
  si_start :: string
  si_end :: string
  si_error :: string
  si_duration :: rat

definition rules_error :: "booking_options option \<Rightarrow> rat \<Rightarrow> string" where
  "rules_error rules d = (case rules of
     None \<Rightarrow> ''''
   | Some r \<Rightarrow> if d < of_int (bopt_minimumDurationMinutes r) \<or> of_int (bopt_maximumDurationMinutes r) < d
       then (if bopt_variableDuration r then range_error (bopt_minimumDurationMinutes r) (bopt_maximumDurationMinutes r)
             else ''Usluga ima fiksno trajanje od '' @ show_int (bopt_defaultDurationMinutes r) @ '' minuta.'')
       else '''')"

definition order_error :: "platform \<Rightarrow> ms \<Rightarrow> string \<Rightarrow> rat option \<Rightarrow> string" where
  "order_error P now start d = (case d of
     None \<Rightarrow> sr ''Vreme zavr~setka mora biti posle po~cetka. Za termin preko pono~qi promenite datum zavr~setka.''
   | Some d \<Rightarrow> if \<not> whole d \<or> d \<le> 0 then sr ''Vreme zavr~setka mora biti posle po~cetka. Za termin preko pono~qi promenite datum zavr~setka.''
       else if (case parse P start of Some s \<Rightarrow> s \<le> now | None \<Rightarrow> False) then sr ''Rezervacija mora po~ceti u budu~qnosti.''
       else '''')"

definition staffInterval :: "platform \<Rightarrow> ms \<Rightarrow> string option \<Rightarrow> booking_options option \<Rightarrow> time_range \<Rightarrow> staff_interval" where
  "staffInterval P now initial rules r =
     (case range_start P initial r of
        Inl e \<Rightarrow> \<lparr>si_start = '''', si_end = '''', si_error = e, si_duration = 0\<rparr>
      | Inr start \<Rightarrow>
          if start = '''' \<or> tr_endDate r = '''' \<or> \<not> validTime (tr_to r)
          then \<lparr>si_start = start, si_end = '''', si_error = sr ''Izaberite datum i unesite oba vremena u formatu HH:mm.'', si_duration = 0\<rparr>
          else (case businessLocalToInstant P (tr_endDate r @ ''T'' @ tr_to r) of
            Inl e \<Rightarrow> \<lparr>si_start = start, si_end = '''', si_error = e, si_duration = 0\<rparr>
          | Inr finish \<Rightarrow>
              let d = minutes_between P start finish;
                  e = order_error P now start d;
                  minutes = (case d of Some m \<Rightarrow> m | None \<Rightarrow> 0)
              in \<lparr>si_start = start, si_end = finish, si_error = (if e = '''' then rules_error rules minutes else e), si_duration = minutes\<rparr>))"

definition initialDuration :: "booking_options \<Rightarrow> int" where
  "initialDuration r = (if bopt_variableDuration r
     then min (bopt_maximumDurationMinutes r) (max (bopt_minimumDurationMinutes r) (bopt_defaultDurationMinutes r))
     else bopt_defaultDurationMinutes r)"

definition fill_end :: "platform \<Rightarrow> string option \<Rightarrow> booking_options \<Rightarrow> time_range \<Rightarrow> time_range" where
  \<comment> \<open>the effect that sets the end from the service's duration; an incomplete start changes nothing\<close>
  "fill_end P initial rules r =
     (case range_start P initial r of
        Inl _ \<Rightarrow> r
      | Inr begin \<Rightarrow>
          (case do { s \<leftarrow> parse P begin; localRange P begin (toISOString (s + initialDuration rules * 60000)) } of
             None \<Rightarrow> r | Some next \<Rightarrow> r\<lparr>tr_to := tr_to next, tr_endDate := tr_endDate next\<rparr>))"

record management_scope =
  ms_allResources :: bool
  ms_resourceIds :: "string list"

definition series_permitted :: "management_scope option \<Rightarrow> recurrence_preview option \<Rightarrow> recurrence_conflict_policy \<Rightarrow> bool" where
  "series_permitted scope preview policy = (case preview of
     None \<Rightarrow> False
   | Some p \<Rightarrow>
       let managed = (\<lambda>v. ro_available v \<and> (case ro_resourceId v of
             Some i \<Rightarrow> i \<noteq> '''' \<and> (case scope of Some m \<Rightarrow> i \<in> set (ms_resourceIds m) | None \<Rightarrow> False) | None \<Rightarrow> False))
       in if policy = ALL_OR_NOTHING then list_all managed (rp_occurrences p) else list_ex managed (rp_occurrences p))"

definition staff_permitted ::
  "auth_user option \<Rightarrow> management_scope option \<Rightarrow> booking_options option \<Rightarrow> string \<Rightarrow> bool \<Rightarrow> recurrence_conflict_policy
     \<Rightarrow> recurrence_preview option \<Rightarrow> reservation_booking_plan option \<Rightarrow> bool" where
  "staff_permitted actor scope rules employeeId repeat policy preview plan \<longleftrightarrow>
     (case scope of Some m \<Rightarrow> ms_allResources m | None \<Rightarrow> False)
     \<or> (case (rules, actor) of
          (Some r, Some u) \<Rightarrow> \<not> bopt_resourceRequired r \<and> user_role u = EMPLOYEE \<and> employeeId = user_id u | _ \<Rightarrow> False)
     \<or> (if repeat then series_permitted scope preview policy
        else (case (Option.bind plan bp_resourceId, scope) of
          (Some i, Some m) \<Rightarrow> i \<noteq> '''' \<and> i \<in> set (ms_resourceIds m) | _ \<Rightarrow> False))"

record staff_view =
  sv_customerReady :: bool \<comment> \<open>an active customer, loaded\<close>
  sv_service :: bool
  sv_rules :: "booking_options option"
  sv_inputError :: string
  sv_validScope :: bool
  sv_validResource :: bool
  sv_optionsReady :: bool
  sv_scopeReady :: bool
  sv_permitted :: bool
  sv_employeeId :: string
  sv_repeat :: bool
  sv_conflictPolicy :: recurrence_conflict_policy
  sv_preview :: "recurrence_preview query"
  sv_plan :: "reservation_booking_plan query"
  sv_activeLocation :: bool
  sv_activeArea :: bool

definition staff_eligible :: "staff_view \<Rightarrow> bool" where
  "staff_eligible v \<longleftrightarrow> sv_customerReady v \<and> sv_service v \<and> sv_rules v \<noteq> None \<and> sv_inputError v = '''' \<and> sv_validScope v
     \<and> sv_validResource v \<and> sv_optionsReady v \<and> sv_scopeReady v \<and> sv_permitted v
     \<and> (if sv_repeat v then sv_employeeId v \<noteq> '''' \<and> settled (sv_preview v)
          \<and> (case qy_data (sv_preview v) of
               None \<Rightarrow> False
             | Some p \<Rightarrow> if sv_conflictPolicy v = ALL_OR_NOTHING then list_all ro_available (rp_occurrences p)
                 else list_ex ro_available (rp_occurrences p))
        else settled (sv_plan v) \<and> (case qy_data (sv_plan v) of Some p \<Rightarrow> bp_available p | None \<Rightarrow> False))"

definition staff_canSubmit :: "staff_view \<Rightarrow> bool" where
  "staff_canSubmit v \<longleftrightarrow> staff_eligible v \<and>
     ((case sv_rules v of Some r \<Rightarrow> bopt_resourceRequired r | None \<Rightarrow> False) \<longrightarrow> sv_activeLocation v \<and> sv_activeArea v)"

definition staff_create ::
  "string \<Rightarrow> staff_view \<Rightarrow> reservation_creation_request \<Rightarrow> reservation_creation_request keyed
     \<Rightarrow> (http_request \<times> reservation_creation_request keyed) option" where
  \<comment> \<open>the mutation: the pending request, or the one the form describes\<close>
  "staff_create generated v request k =
     (case keyed_start generated (staff_canSubmit v) request k of
        None \<Rightarrow> None
      | Some ((key, r), k') \<Rightarrow> Some (creation_request r key, k'))"

subsection \<open>The sender\<close>

text \<open>
  A form with what it sent. Closing the form and opening it again starts with a new key manager.
\<close>

record 'r keyed_system =
  kx_form :: "'r keyed"
  kx_sent :: "(string \<times> 'r) list"

inductive keyed_step :: "'r keyed_system \<Rightarrow> 'r keyed_system \<Rightarrow> bool" where
  submitted: "keyed_start g can r (kx_form s) = Some (p, k) \<Longrightarrow> g \<notin> fst ` set (kx_sent s)
    \<Longrightarrow> keyed_step s (s\<lparr>kx_form := k, kx_sent := kx_sent s @ [p]\<rparr>)"
| confirmed: "kd_inFlight (kx_form s) \<Longrightarrow> keyed_step s (s\<lparr>kx_form := keyed_succeeded (kx_form s)\<rparr>)"
| refused: "kd_inFlight (kx_form s) \<Longrightarrow> keyed_step s (s\<lparr>kx_form := keyed_failed e (kx_form s)\<rparr>)"
| reopened: "keyed_step s (s\<lparr>kx_form := keyed_initial\<rparr>)"

definition keyed_system_init :: "'r keyed_system \<Rightarrow> bool" where
  "keyed_system_init s \<longleftrightarrow> s = \<lparr>kx_form = keyed_initial, kx_sent = []\<rparr>"

definition kx_held :: "'r keyed_system \<Rightarrow> (string \<times> 'r) set" where
  "kx_held s = (case (km_pendingKey (kd_keys (kx_form s)), kd_pending (kx_form s)) of
     (Some k, Some r) \<Rightarrow> {(k, r)} | _ \<Rightarrow> {})"

definition keyed_ok :: "'r keyed_system \<Rightarrow> bool" where
  "keyed_ok s \<longleftrightarrow> (km_pendingKey (kd_keys (kx_form s)) = None \<longleftrightarrow> kd_pending (kx_form s) = None)"

lemma fresh_manager_idle: "km_pendingKey new_manager = None"
  by (simp add: km_pendingKey_def new_manager_def)

lemma keyed_start_held:
  assumes "keyed_start g can r k = Some ((key, q), k')" and "km_pendingKey (kd_keys k) = None \<longleftrightarrow> kd_pending k = None"
  shows "km_pendingKey (kd_keys k') = Some key" "kd_pending k' = Some q"
    "km_pendingKey (kd_keys k) = Some key \<and> kd_pending k = Some q \<or> km_pendingKey (kd_keys k) = None \<and> key = g"
  using assms km.begin_pending [of g "kd_keys k"] km.begin_again [of "kd_keys k" _ g] km.begin_new [of "kd_keys k" g]
  by (auto simp: keyed_start_def Let_def split: if_splits option.splits prod.splits)

lemma keyed_step_ok: "keyed_ok s \<Longrightarrow> keyed_step s t \<Longrightarrow> keyed_ok t"
proof (erule keyed_step.cases)
  fix g can r s' p k
  assume "keyed_ok s" "s = s'" "t = s'\<lparr>kx_form := k, kx_sent := kx_sent s' @ [p]\<rparr>" "keyed_start g can r (kx_form s') = Some (p, k)"
  then show "keyed_ok t" using keyed_start_held [of g can r "kx_form s'" "fst p" "snd p" k] by (simp add: keyed_ok_def)
qed (auto simp: keyed_ok_def keyed_succeeded_def keyed_failed_def keyed_initial_def Let_def km_laws
      fresh_manager_idle split: if_splits)

lemma keyed_step_sends:
  assumes "keyed_ok s" and "keyed_step s t"
  shows "kx_sent t = kx_sent s \<and> kx_held t \<subseteq> kx_held s
    \<or> (\<exists>k r. kx_sent t = kx_sent s @ [(k, r)] \<and> kx_held t \<subseteq> insert (k, r) (kx_held s)
         \<and> ((k, r) \<in> kx_held s \<or> k \<notin> fst ` set (kx_sent s)))"
  using assms(2)
proof cases
  case (submitted g can r p k)
  obtain key q where p: "p = (key, q)" by (cases p)
  from keyed_start_held [OF submitted(2) [unfolded p]] assms(1) submitted(1,3) p show ?thesis
    by (auto simp: kx_held_def keyed_ok_def)
qed (use assms(1) in \<open>auto simp: kx_held_def keyed_ok_def keyed_succeeded_def keyed_failed_def keyed_initial_def Let_def km_laws
      fresh_manager_idle split: if_splits option.splits\<close>)

interpretation bookings: idempotent_sender keyed_system_init keyed_step kx_sent kx_held keyed_ok
proof unfold_locales
  show "keyed_ok s \<and> kx_sent s = [] \<and> kx_held s = {}" if "keyed_system_init s" for s :: "'a keyed_system"
    using that by (simp add: keyed_system_init_def keyed_ok_def kx_held_def keyed_initial_def new_manager_def km_pendingKey_def)
qed (fact keyed_step_ok, fact keyed_step_sends)

subsection \<open>Properties\<close>

text \<open>
  Property C10: a reservation form never sends one idempotency key with two different requests, through
  repeated submissions, answers of any kind and reopenings: the customer's and the staff's form both.
\<close>
theorem reservation_key_determines_request:
  fixes s :: "reservation_creation_request keyed_system"
  assumes "bookings.reach s" and "(k, r) \<in> set (kx_sent s)" and "(k, r') \<in> set (kx_sent s)"
  shows "r = r'"
  using assms by (rule bookings.key_determines_request)

definition sample_request :: reservation_creation_request where
  "sample_request = SINGLE \<lparr>cr_areaId = None, cr_durationMinutes = None, cr_customerId = None, cr_employeeId = None, cr_serviceId = ''s1'',
     cr_resourceId = None, cr_locationId = None, cr_startTime = ''2026-03-02T10:00:00Z'', cr_note = None\<rparr>"

theorem reservation_key_determines_request_witness:
  "\<exists>s :: reservation_creation_request keyed_system. bookings.reach s \<and> (''k1'', sample_request) \<in> set (kx_sent s)
     \<and> {p \<in> set (kx_sent s). fst p = ''k1''} = {(''k1'', sample_request)}"
proof -
  let ?s = "\<lparr>kx_form = keyed_initial, kx_sent = []\<rparr> :: reservation_creation_request keyed_system"
  obtain k where k: "keyed_start ''k1'' True sample_request keyed_initial = Some ((''k1'', sample_request), k)"
    by (simp add: keyed_start_def keyed_initial_def km_begin_def new_manager_def)
  let ?t = "?s\<lparr>kx_form := k, kx_sent := kx_sent ?s @ [(''k1'', sample_request)]\<rparr>"
  have "bookings.reach ?s" by (rule bookings.reach.start) (simp add: keyed_system_init_def)
  moreover have "keyed_step ?s ?t" by (rule keyed_step.submitted [of "''k1''" True sample_request]) (use k in simp_all)
  ultimately have t: "bookings.reach ?t" by (rule bookings.reach.next_step)
  have m: "(''k1'', sample_request) \<in> set (kx_sent ?t)" by simp
  show ?thesis by (intro exI [of _ ?t] conjI t m entries_of_key reservation_key_determines_request [OF t _ m])
qed

lemma localToInstant_error: "businessLocalToInstant P v \<noteq> Inl ''''"
  by (auto simp: businessLocalToInstant_def split: option.splits)

lemma summer_instant:
  assumes "1774800000000 \<le> D" and "D < 1792890000000" and "60000 dvd D"
  shows "businessLocalToInstant belgrade_2026 (wall_text D) = Inr (toISOString (D - 7200000))"
    and "parse belgrade_2026 (toISOString (D - 7200000)) = Some (D - 7200000)"
proof -
  have o: "pf_offset belgrade_2026 D = 7200000" "pf_offset belgrade_2026 (D - 7200000) = 7200000"
    using assms by (simp_all add: belgrade_2026_def)
  then have l: "local_ms belgrade_2026 D \<noteq> D" "local_ms belgrade_2026 (D - 7200000) = D" by (simp_all add: local_ms_def)
  have d: "20000 \<le> day_of x" "day_of x \<le> 30000" if "1774000000000 \<le> x" "x < 1793000000000" for x
    using that by (simp_all add: day_of_def)
  have w: "working_day (day_of D)" using d [of D] assms by (simp add: working_day_def)
  have s: "60000 dvd D - 7200000" using assms(3) by (rule dvd_diff) simp
  have "local_search belgrade_2026 (wall_text D) D (Suc 3) D = local_search belgrade_2026 (wall_text D) D (Suc 2) (D - 7200000)"
    using search_found [OF w assms(3) assms(3), of belgrade_2026 3] o l by (simp add: numeral_2_eq_2 numeral_3_eq_3)
  also have "\<dots> = Some (toISOString (D - 7200000))"
    using search_found [OF w assms(3) s, of belgrade_2026 2] o l by simp
  finally have "local_search belgrade_2026 (wall_text D) D 4 D = Some (toISOString (D - 7200000))"
    by (simp add: numeral_eq_Suc)
  moreover have "plain_day (day_of D)" using working_plain [OF w, of "day_of D"] by simp
  ultimately show "businessLocalToInstant belgrade_2026 (wall_text D) = Inr (toISOString (D - 7200000))"
    by (simp add: businessLocalToInstant_plain floor_minute_id assms(3))
  show "parse belgrade_2026 (toISOString (D - 7200000)) = Some (D - 7200000)"
    using date_parse_toISOString [of "D - 7200000" "pf_parse belgrade_2026"] d [of "D - 7200000"] assms
    by (simp add: four_digit_def)
qed

text \<open>
  An interval the customer typed is accepted only if it is a whole number of minutes between
  the minimum and the maximum of the service, and it lies exactly between the two wall-clock times.
\<close>
theorem accepted_interval_is_in_range:
  assumes "mn_error (manualInterval P (Some rules) service f) = ''''" and "mn_start (manualInterval P (Some rules) service f) = start" and "start \<noteq> ''''"
  shows "\<exists>finish s e d. businessLocalToInstant P (bf_date f @ ''T'' @ bf_fromTime f) = Inr start
    \<and> businessLocalToInstant P (bf_endDate f @ ''T'' @ bf_toTime f) = Inr finish
    \<and> parse P start = Some s \<and> parse P finish = Some e \<and> e - s = d * 60000
    \<and> mn_duration (manualInterval P (Some rules) service f) = of_int d
    \<and> 0 < d \<and> max 30 (bopt_minimumDurationMinutes rules) \<le> d \<and> d \<le> bopt_maximumDurationMinutes rules"
proof -
  obtain finish r where b: "bopt_variableDuration rules" "businessLocalToInstant P (bf_date f @ ''T'' @ bf_fromTime f) = Inr start"
      "businessLocalToInstant P (bf_endDate f @ ''T'' @ bf_toTime f) = Inr finish" "minutes_between P start finish = Some r"
      "whole r" "0 < r" "of_int (booking_minimum (Some rules)) \<le> r" "r \<le> of_int (bopt_maximumDurationMinutes rules)"
      "mn_duration (manualInterval P (Some rules) service f) = r"
    using assms by (auto simp: manualInterval_def Let_def range_error_def not_less not_le localToInstant_error split: if_splits sum.splits option.splits)
  obtain s e where p: "parse P finish = Some e" "parse P start = Some s" "of_int (e - s) = r * 60000"
    using b(4) by (cases "parse P finish"; cases "parse P start") (auto simp: minutes_between_def)
  obtain d where d: "r = of_int d" using b(5) by (auto simp: whole_def)
  have "(of_int (e - s) :: rat) = of_int (d * 60000)" using p(3) d by simp
  then have "e - s = d * 60000" by (simp only: of_int_eq_iff)
  moreover have "0 < d" "max 30 (bopt_minimumDurationMinutes rules) \<le> d" "d \<le> bopt_maximumDurationMinutes rules"
    using b(1,6-8) d by (simp_all add: booking_minimum_def)
  ultimately show ?thesis using b p d by blast
qed

definition sample_rules :: booking_options where
  "sample_rules = \<lparr>bopt_resourceRequired = False, bopt_resources = [], bopt_variableDuration = True,
     bopt_minimumDurationMinutes = 30, bopt_maximumDurationMinutes = 240, bopt_defaultDurationMinutes = 60\<rparr>"

definition sample_form :: booking_form where
  "sample_form = (booking_start \<lparr>pf_serviceId = Some ''s1'', pf_resourceId = None, pf_locationId = None, pf_areaId = None, pf_employeeId = None\<rparr>)
     \<lparr>bf_date := ''2026-07-01'', bf_fromTime := ''12:30'', bf_toTime := ''14:00'', bf_endDate := ''2026-07-01''\<rparr>"

theorem accepted_interval_is_in_range_witness:
  "mn_duration (manualInterval belgrade_2026 (Some sample_rules) None sample_form) = 90
   \<and> (\<exists>d. mn_duration (manualInterval belgrade_2026 (Some sample_rules) None sample_form) = of_int d \<and> 30 \<le> d \<and> d \<le> 240)"
proof -
  have w: "wall_text 1782909000000 = ''2026-07-01T12:30''" "wall_text 1782914400000 = ''2026-07-01T14:00''"
    by (simp_all add: wall_text_def wall_date_def wall_clock_def era_year_def iso_eval)
  note i = summer_instant [of 1782909000000, simplified w] summer_instant [of 1782914400000, simplified w]
  have t: "toISOString 1782901800000 \<noteq> ''''" by (simp add: iso_eval)
  let ?m = "manualInterval belgrade_2026 (Some sample_rules) None sample_form"
  have m: "?m = \<lparr>mn_start = toISOString 1782901800000, mn_error = '''', mn_duration = 90\<rparr>"
    using i by (simp add: manualInterval_def sample_form_def booking_start_def sample_rules_def or_text_def validTime_def is_digit_def
        less_eq_char_def minutes_between_def whole_def booking_minimum_def)
  from accepted_interval_is_in_range [of belgrade_2026 sample_rules None sample_form] t m show ?thesis
    by (auto simp: sample_rules_def)
qed

subsection \<open>One slot for each start\<close>

definition best_at :: "availability_slot set \<Rightarrow> string \<Rightarrow> availability_slot option \<Rightarrow> bool" where
  "best_at seen t b \<longleftrightarrow> (case b of
     None \<Rightarrow> t \<notin> sl_startTime ` seen
   | Some s \<Rightarrow> sl_startTime s = t \<and> s \<in> seen \<and> (\<forall>v \<in> seen. sl_startTime v = t \<longrightarrow> slot_rank s \<le> slot_rank v))"

lemma map_of_offer:
  "map_of (offer_slot s d) t = (if t = sl_startTime s
     then (case map_of d t of None \<Rightarrow> Some s | Some p \<Rightarrow> Some (if slot_rank s < slot_rank p then s else p))
     else map_of d t)"
  by (simp add: offer_slot_def split: option.split)

lemma best_at_offer:
  assumes "best_at seen t (map_of d t)"
  shows "best_at (insert s seen) t (map_of (offer_slot s d) t)"
proof (cases "map_of d t")
  case None
  then show ?thesis using assms by (force simp: best_at_def map_of_offer image_iff)
next
  case (Some p)
  with assms have "sl_startTime p = t" "p \<in> seen" "\<And>v. v \<in> seen \<Longrightarrow> sl_startTime v = t \<Longrightarrow> slot_rank p \<le> slot_rank v"
    by (auto simp: best_at_def)
  with Some show ?thesis by (force simp: best_at_def map_of_offer)
qed

lemma best_at_fold: "best_at seen t (map_of d t) \<Longrightarrow> best_at (seen \<union> set ss) t (map_of (fold offer_slot ss d) t)"
proof (induction ss arbitrary: seen d)
  case (Cons s ss)
  from Cons.IH [OF best_at_offer [OF Cons.prems]] show ?case by simp
qed simp

lemma dict_wf_offers: "dict_wf d \<Longrightarrow> dict_wf (fold offer_slot ss d)"
  by (induction ss arbitrary: d) (auto simp: offer_slot_def split: option.split)

text \<open>
  Property C24: the list of starts a customer can pick has each start of the answer exactly once, with one of
  the answer's slots for it, and no other employee's slot for that start is in a better state.
\<close>
theorem each_start_offers_its_best_slot:
  "distinct (map sl_startTime (booking_slots le (Some r)))
   \<and> sl_startTime ` set (booking_slots le (Some r)) = sl_startTime ` set (employee_slots r)
   \<and> (\<forall>s \<in> set (booking_slots le (Some r)). s \<in> set (employee_slots r)
        \<and> (\<forall>v \<in> set (employee_slots r). sl_startTime v = sl_startTime s \<longrightarrow> slot_rank s \<le> slot_rank v))"
proof -
  let ?d = "fold offer_slot (employee_slots r) []"
  have w: "dict_wf ?d" by (rule dict_wf_offers) simp
  have b: "best_at (set (employee_slots r)) t (map_of ?d t)" for t
    using best_at_fold [of "{}" t "[]"] by (simp add: best_at_def)
  have k: "sl_startTime s = t" if "(t, s) \<in> set ?d" for t s
    using b [of t] that w by (auto simp: best_at_def map_of_in)
  have "map fst ?d = map sl_startTime (map snd ?d)" using k by (simp add: comp_def) (metis prod.collapse)
  with w have dist: "distinct (map sl_startTime (map snd ?d))" by (simp add: dict_wf_def)
  then have "distinct (map snd ?d)" "inj_on sl_startTime (set (map snd ?d))" by (simp_all only: distinct_map)
  then have "distinct (map sl_startTime (booking_slots le (Some r)))"
    by (simp add: booking_slots_def distinct_map)
  moreover have m: "s \<in> set (booking_slots le (Some r)) \<longleftrightarrow> map_of ?d (sl_startTime s) = Some s" for s
    using k w by (force simp: booking_slots_def map_of_in [symmetric])
  have "sl_startTime ` set (booking_slots le (Some r)) = sl_startTime ` set (employee_slots r)"
  proof (intro equalityI subsetI)
    fix t
    assume "t \<in> sl_startTime ` set (booking_slots le (Some r))"
    then obtain s where "map_of ?d t = Some s" using m by auto
    with b [of t] show "t \<in> sl_startTime ` set (employee_slots r)" by (auto simp: best_at_def)
  next
    fix t
    assume "t \<in> sl_startTime ` set (employee_slots r)"
    with b [of t] obtain s where "map_of ?d t = Some s" "sl_startTime s = t" by (auto simp: best_at_def split: option.splits)
    with m [of s] show "t \<in> sl_startTime ` set (booking_slots le (Some r))" by (metis image_eqI)
  qed
  moreover have "s \<in> set (employee_slots r) \<and> (\<forall>v \<in> set (employee_slots r). sl_startTime v = sl_startTime s \<longrightarrow> slot_rank s \<le> slot_rank v)"
    if "s \<in> set (booking_slots le (Some r))" for s
    using b [of "sl_startTime s"] m that by (simp add: best_at_def)
  ultimately show ?thesis by blast
qed

definition sample_slot :: "string \<Rightarrow> booking_slot_status \<Rightarrow> availability_slot" where
  "sample_slot t st = \<lparr>sl_status = Some st, sl_reason = None, sl_employeeId = None, sl_employeeName = None, sl_startTime = t, sl_endTime = t,
     sl_resourceId = None, sl_resourceCode = None, sl_resourceName = None, sl_locationId = None, sl_locationName = None\<rparr>"

definition sample_availability :: availability_response where
  "sample_availability = \<lparr>ar_serverTime = None, ar_timezone = '''', ar_serviceId = ''s1'', ar_serviceName = '''', ar_durationMinutes = 30,
     ar_slotIncrementMinutes = 15, ar_from = '''', ar_to = '''',
     ar_employees = [\<lparr>ea_employeeId = ''e1'', ea_employeeName = '''', ea_slots = [sample_slot ''10'' OCCUPIED_RESERVATION]\<rparr>,
                     \<lparr>ea_employeeId = ''e2'', ea_employeeName = '''', ea_slots = [sample_slot ''10'' S_AVAILABLE]\<rparr>],
     ar_resourceId = None, ar_resourceName = None, ar_resourceRequired = None\<rparr>"

theorem each_start_offers_its_best_slot_witness:
  "map sl_employeeId (booking_slots (\<lambda>_ _. True) (Some sample_availability)) = [Some ''e2'']
   \<and> distinct (map sl_startTime (booking_slots (\<lambda>_ _. True) (Some sample_availability)))"
  using each_start_offers_its_best_slot [of "\<lambda>_ _. True" sample_availability]
  by (simp add: booking_slots_def employee_slots_def sample_availability_def sample_slot_def offer_slot_def slot_rank_def sort_by_def)

end
