(* ===== verification/Settings.thy ===== *)
theory Settings
  imports Booking
begin

section \<open>Settings: working hours, exceptions and time off\<close>

text \<open>
  Models \<open>types/workingHours.types.ts\<close>, \<open>types/timeOff.types.ts\<close>, their APIs,
  \<open>workingHours/workingHoursSchema.ts\<close>, \<open>settings/settingsPresentation.model.ts\<close> and the handlers of the
  settings pages: the weekly drafts of \<open>WorkingHoursSettings.tsx\<close>, the submissions of
  \<open>WorkingHoursExceptionDialog.tsx\<close> and \<open>TimeOffDialog.tsx\<close>, the decisions and filters of
  \<open>EmployeeTimeOffSettings.tsx\<close> and the month of \<open>WorkingHoursExceptions.tsx\<close>. A form's submission is the
  request it sends or the message it shows.
\<close>

datatype day_of_week = MONDAY | TUESDAY | WEDNESDAY | THURSDAY | FRIDAY | SATURDAY | SUNDAY

record working_hours =
  wh_id :: string
  wh_dayOfWeek :: day_of_week
  wh_openTime :: string
  wh_closeTime :: string
  wh_active :: bool
  wh_spansMidnight :: bool
  wh_version :: int

record working_hours_exception =
  we_id :: string
  we_date :: string
  we_description :: "string option"
  we_fullDayClosed :: bool
  we_overrideOpenTime :: "string option"
  we_overrideCloseTime :: "string option"
  we_version :: int
  we_locationId :: "string option"

record exception_input =
  xi_date :: string
  xi_description :: "string option"
  xi_fullDayClosed :: bool
  xi_overrideOpenTime :: "string option"
  xi_overrideCloseTime :: "string option"
  xi_version :: "int option"

datatype time_off_status = TO_PENDING | TO_APPROVED | TO_REJECTED | TO_CANCELLED

record time_off =
  to_id :: string
  to_employeeId :: string
  to_startsAt :: string
  to_endsAt :: string
  to_status :: time_off_status
  to_reason :: string
  to_decisionReason :: "string option"
  to_version :: int

record time_off_input =
  ti_employeeId :: string
  ti_startsAt :: string
  ti_endsAt :: string
  ti_reason :: string

subsection \<open>Requests\<close>

fun day_name :: "day_of_week \<Rightarrow> string" where
  "day_name MONDAY = ''MONDAY''"
| "day_name TUESDAY = ''TUESDAY''"
| "day_name WEDNESDAY = ''WEDNESDAY''"
| "day_name THURSDAY = ''THURSDAY''"
| "day_name FRIDAY = ''FRIDAY''"
| "day_name SATURDAY = ''SATURDAY''"
| "day_name SUNDAY = ''SUNDAY''"

fun time_off_name :: "time_off_status \<Rightarrow> string" where
  "time_off_name TO_PENDING = ''PENDING''"
| "time_off_name TO_APPROVED = ''APPROVED''"
| "time_off_name TO_REJECTED = ''REJECTED''"
| "time_off_name TO_CANCELLED = ''CANCELLED''"

definition workingHoursApi_summary :: http_request where
  "workingHoursApi_summary = api_get ''/working-hours/exceptions/summary'' []"

definition workingHoursApi_list :: http_request where
  "workingHoursApi_list = api_get ''/working-hours'' []"

definition workingHoursApi_updateDay :: "day_of_week \<Rightarrow> string \<Rightarrow> string \<Rightarrow> bool \<Rightarrow> int option \<Rightarrow> http_request" where
  "workingHoursApi_updateDay day openTime closeTime active version = api_send PUT (''/working-hours/'' @ day_name day)
     (body [(''openTime'', Some (JStr openTime)), (''closeTime'', Some (JStr closeTime)), (''active'', Some (JBool active)),
       (''version'', map_option jint version)])"

definition workingHoursApi_update :: "working_hours \<Rightarrow> http_request" where
  "workingHoursApi_update h = api_send PUT (''/working-hours/'' @ day_name (wh_dayOfWeek h))
     (body [(''openTime'', Some (JStr (wh_openTime h))), (''closeTime'', Some (JStr (wh_closeTime h))),
       (''active'', Some (JBool (wh_active h))), (''version'', Some (jint (wh_version h)))])"

definition workingHoursApi_exceptionPage :: "nat \<Rightarrow> nat \<Rightarrow> http_request" where
  "workingHoursApi_exceptionPage page sz = api_get ''/working-hours/exceptions/page'' (page_params page sz)"

definition workingHoursApi_listExceptions :: "string \<Rightarrow> string \<Rightarrow> http_request" where
  "workingHoursApi_listExceptions start finish = api_get ''/working-hours/exceptions/calendar''
     [(''from'', Some (JStr start)), (''to'', Some (JStr finish))]"

definition exception_body :: "exception_input \<Rightarrow> json option" where
  "exception_body i = body [(''date'', Some (JStr (xi_date i))), (''description'', map_option JStr (xi_description i)),
     (''fullDayClosed'', Some (JBool (xi_fullDayClosed i))), (''overrideOpenTime'', map_option JStr (xi_overrideOpenTime i)),
     (''overrideCloseTime'', map_option JStr (xi_overrideCloseTime i)), (''version'', map_option jint (xi_version i))]"

definition workingHoursApi_createException :: "exception_input \<Rightarrow> http_request" where
  "workingHoursApi_createException i = api_send POST ''/working-hours/exceptions'' (exception_body i)"

definition workingHoursApi_updateException :: "string \<Rightarrow> exception_input \<Rightarrow> http_request" where
  "workingHoursApi_updateException ident i = api_send PUT (''/working-hours/exceptions/'' @ ident) (exception_body i)"

definition workingHoursApi_deleteException :: "working_hours_exception \<Rightarrow> http_request" where
  "workingHoursApi_deleteException e = with_params [(''version'', Some (jint (we_version e)))]
     (api_send DELETE (''/working-hours/exceptions/'' @ we_id e) None)"

definition timeOffApi_summary :: http_request where
  "timeOffApi_summary = api_get ''/time-off/summary'' []"

record time_off_filters =
  tf_search :: "string option"
  tf_status :: "string option"
  tf_employeeId :: "string option"
  tf_from :: "string option"
  tf_to :: "string option"

definition timeOffApi_page :: "time_off_filters \<Rightarrow> nat \<Rightarrow> nat \<Rightarrow> http_request" where
  "timeOffApi_page f page sz = api_get ''/time-off/page''
     ([(''search'', map_option JStr (tf_search f)), (''status'', map_option JStr (tf_status f)),
       (''employeeId'', map_option JStr (tf_employeeId f)), (''from'', map_option JStr (tf_from f)),
       (''to'', map_option JStr (tf_to f))] @ page_params page sz)"

definition timeOffApi_list :: "nat \<Rightarrow> nat \<Rightarrow> http_request" where
  "timeOffApi_list page sz = api_get ''/time-off'' (page_params page sz)"

definition timeOffApi_create :: "time_off_input \<Rightarrow> http_request" where
  "timeOffApi_create i = api_send POST ''/time-off''
     (body [(''employeeId'', Some (JStr (ti_employeeId i))), (''startsAt'', Some (JStr (ti_startsAt i))),
       (''endsAt'', Some (JStr (ti_endsAt i))), (''reason'', Some (JStr (ti_reason i)))])"

definition timeOffApi_decide :: "time_off \<Rightarrow> time_off_status \<Rightarrow> string option \<Rightarrow> http_request" where
  "timeOffApi_decide item status reason = api_send PATCH (''/time-off/'' @ to_id item @ ''/status'')
     (body [(''status'', Some (JStr (time_off_name status))), (''version'', Some (jint (to_version item))),
       (''reason'', map_option JStr reason)])"

subsection \<open>Presentation\<close>

definition days :: "day_of_week list" where
  "days = [MONDAY, TUESDAY, WEDNESDAY, THURSDAY, FRIDAY, SATURDAY, SUNDAY]"

fun dayLabels :: "day_of_week \<Rightarrow> string" where
  "dayLabels MONDAY = ''Ponedeljak''"
| "dayLabels TUESDAY = ''Utorak''"
| "dayLabels WEDNESDAY = ''Sreda''"
| "dayLabels THURSDAY = sr ''~Cetvrtak''"
| "dayLabels FRIDAY = ''Petak''"
| "dayLabels SATURDAY = ''Subota''"
| "dayLabels SUNDAY = ''Nedelja''"

fun timeOffLabels :: "time_off_status \<Rightarrow> string" where
  "timeOffLabels TO_PENDING = sr ''Na ~cekanju''"
| "timeOffLabels TO_APPROVED = ''Odobreno''"
| "timeOffLabels TO_REJECTED = ''Odbijeno''"
| "timeOffLabels TO_CANCELLED = ''Otkazano''"

fun timeOffTones :: "time_off_status \<Rightarrow> status_tone" where
  "timeOffTones TO_PENDING = T_warning"
| "timeOffTones TO_APPROVED = T_success"
| "timeOffTones TO_REJECTED = T_danger"
| "timeOffTones TO_CANCELLED = T_neutral"

definition addCalendarDays :: "platform \<Rightarrow> string \<Rightarrow> int \<Rightarrow> string option" where
  \<comment> \<open>None where \<open>toISOString\<close> throws\<close>
  "addCalendarDays P value count = do {
     date \<leftarrow> parse P (value @ ''T12:00:00Z'');
     date \<leftarrow> setUTCDate (getUTCDate date + count) date;
     Some (iso_slice date) }"

definition validCalendarDate :: "platform \<Rightarrow> string \<Rightarrow> bool" where
  "validCalendarDate P value \<longleftrightarrow> date_shape value
     \<and> (case parse P (value @ ''T12:00:00Z'') of None \<Rightarrow> False | Some t \<Rightarrow> iso_slice t = value)"

definition clock_minutes :: "string \<Rightarrow> int" where
  "clock_minutes s = int (read_nat (take 2 s)) * 60 + int (read_nat (slice 3 5 s))"

definition intervalMinutes :: "string \<Rightarrow> string \<Rightarrow> int option" where
  "intervalMinutes open_time close_time =
     (if \<not> validTime (take 5 open_time) \<or> \<not> validTime (take 5 close_time) then None
      else let difference = clock_minutes close_time - clock_minutes open_time
           in Some (if difference < 0 then difference + 1440 else difference))"

datatype exception_kind = XK_closed | XK_shorter | XK_extended | XK_custom

fun exception_view :: "exception_kind \<Rightarrow> string \<times> status_tone" where
  "exception_view XK_closed = (''Ceo dan zatvoreno'', T_danger)"
| "exception_view XK_shorter = (sr ''Skra~qeno radno vreme'', T_warning)"
| "exception_view XK_extended = (sr ''Produ~zeno radno vreme'', T_info)"
| "exception_view XK_custom = (''Posebno radno vreme'', T_accent)"

definition exception_day :: "platform \<Rightarrow> string \<Rightarrow> day_of_week option" where
  "exception_day P date = map_option (\<lambda>t. days ! nat ((getUTCDay t + 6) mod 7)) (parse P (date @ ''T12:00:00Z''))"

definition exceptionPresentation :: "platform \<Rightarrow> working_hours_exception \<Rightarrow> working_hours list option \<Rightarrow> exception_kind" where
  "exceptionPresentation P item hours =
     (if we_fullDayClosed item then XK_closed
      else let standard = Option.bind hours (find (\<lambda>h. Some (wh_dayOfWeek h) = exception_day P (we_date item)));
               duration = intervalMinutes (or_text (we_overrideOpenTime item) '''') (or_text (we_overrideCloseTime item) '''');
               regular = (case standard of
                   Some h \<Rightarrow> if wh_active h then intervalMinutes (wh_openTime h) (wh_closeTime h) else None
                 | None \<Rightarrow> None)
           in if or_text (we_locationId item) '''' = '''' \<and> hours \<noteq> None
              then (case (duration, regular) of
                 (Some d, Some r) \<Rightarrow> if d < r then XK_shorter else if r < d then XK_extended else XK_custom
               | _ \<Rightarrow> XK_custom)
              else XK_custom)"

definition elapsedTime :: "platform \<Rightarrow> string \<Rightarrow> string \<Rightarrow> string" where
  "elapsedTime P start finish = (case minutes_between P start finish of
     Some m \<Rightarrow> if 0 \<le> \<lfloor>m\<rfloor>
       then show_int (\<lfloor>m\<rfloor> div 60) @ '' h'' @ (if \<lfloor>m\<rfloor> mod 60 \<noteq> 0 then '' '' @ show_int (\<lfloor>m\<rfloor> mod 60) @ '' min'' else '''')
       else ''-''
   | None \<Rightarrow> ''-'')"

definition settingsTexts :: "(string \<times> string) list" where
  "settingsTexts = [
    (''Resource was changed; refresh and try again'', sr ''Podaci su promenjeni u me~duvremenu. Osve~zite ih i ponovo unesite izmene.''),
    (''Working hours cannot have zero duration'', sr ''Vreme otvaranja i zatvaranja ne sme biti identi~cno.''),
    (''Exception date must be in the future'', sr ''Datum izuzetka mora biti posle dana~snjeg datuma u zoni Europe/Belgrade.''),
    (''An exception already exists for this date'', sr ''Za ovaj datum ve~q postoji izuzetak.''),
    (''Working hours exception not found'', sr ''Izuzetak vi~se nije dostupan. Osve~zite pregled.''),
    (''Closed days cannot define override hours'', sr ''Zatvoren dan ne mo~ze imati posebno radno vreme.''),
    (''Both override times are required'', ''Unesite vreme otvaranja i zatvaranja.''),
    (''Working hours management is not permitted'', sr ''Nemate dozvolu za upravljanje pode~savanjima.''),
    (''Employee not found'', ''Izabrani zaposleni nije dostupan.''),
    (''Selected user is not an active employee'', ''Izaberite aktivnog zaposlenog.''),
    (''Time-off end must be after start'', sr ''Kraj odsustva mora biti posle po~cetka.''),
    (''Employee time off overlaps an existing request'', sr ''Odsustvo se preklapa sa postoje~qim zahtevom ovog zaposlenog.''),
    (''Past time off cannot be approved'', sr ''Odsustvo koje je zavr~seno ne mo~ze biti odobreno.''),
    (''Time-off transition is not allowed'', sr ''Status je promenjen ili ova akcija vi~se nije dozvoljena.''),
    (''Unsupported time-off transition'', ''Izabrana promena statusa nije dozvoljena.''),
    (''Time off not found'', sr ''Odsustvo vi~se nije dostupno. Osve~zite pregled.'')]"

definition request_suffix :: "cause \<Rightarrow> string" where
  \<comment> \<open>\<open>payload?.requestId ? ` (ID zahteva: ...)` : ''\<close>\<close>
  "request_suffix e = (case Option.bind (cause_data e) err_requestId of
     Some i \<Rightarrow> if i = '''' then '''' else '' (ID zahteva: '' @ i @ '')'' | None \<Rightarrow> '''')"

definition settingsError :: "cause \<Rightarrow> string \<Rightarrow> string" where
  "settingsError e fallback = (case e of
     PlainError m \<Rightarrow> m
   | _ \<Rightarrow> (case Option.bind (cause_message e) (map_of settingsTexts) of
        Some t \<Rightarrow> t @ request_suffix e | None \<Rightarrow> apiErrorMessage e fallback))"

definition settings_page :: "bool \<Rightarrow> nat \<Rightarrow> http_request" where
  "settings_page management page =
     (if management
      then userApi_list page 100 \<lparr>uf_role = Some ''EMPLOYEE'', uf_active = None, uf_search = None, uf_sort = Some ''name'', uf_direction = Some ''ASC''\<rparr>
      else userApi_employeesPage page 100)"

definition settingsEmployees :: "(http_request \<Rightarrow> user_response page_response) \<Rightarrow> bool \<Rightarrow> user_response list option" where
  "settingsEmployees server management = map_option (map snd) (read_pages (server \<circ> settings_page management) ur_id 0 [])"

definition businessDayBounds :: "platform \<Rightarrow> string \<Rightarrow> string \<Rightarrow> string + (string \<times> string)" where
  \<comment> \<open>\<open>Inl\<close> is the message of the thrown error\<close>
  "businessDayBounds P start finish =
     (case (if start = '''' then Inr '''' else businessLocalToInstant P (start @ ''T00:00'')) of
        Inl e \<Rightarrow> Inl e
      | Inr a \<Rightarrow>
          if finish = '''' then Inr (a, '''')
          else (case addCalendarDays P finish 1 of
                  None \<Rightarrow> Inl ''Invalid time value''
                | Some next \<Rightarrow> (case businessLocalToInstant P (next @ ''T00:00'') of
                    Inl e \<Rightarrow> Inl e | Inr b \<Rightarrow> Inr (a, b))))"

subsection \<open>The weekly schedule\<close>

record day_draft =
  dd_openTime :: string
  dd_closeTime :: string
  dd_active :: bool
  dd_version :: "int option"

record draft_values = \<comment> \<open>\<open>Partial<DayDraft>\<close>, as the inputs give it\<close>
  dv_openTime :: "string option"
  dv_closeTime :: "string option"
  dv_active :: "bool option"

definition normalizedTime :: "string \<Rightarrow> string" where
  "normalizedTime s = (if js_length s = 5 then s @ '':00'' else s)"

definition server_day :: "working_hours list option \<Rightarrow> day_of_week \<Rightarrow> working_hours option" where
  "server_day data day = Option.bind data (find (\<lambda>h. wh_dayOfWeek h = day))"

definition draft_base :: "working_hours option \<Rightarrow> day_draft" where
  "draft_base server = (case server of
     Some h \<Rightarrow> \<lparr>dd_openTime = wh_openTime h, dd_closeTime = wh_closeTime h, dd_active = wh_active h, dd_version = Some (wh_version h)\<rparr>
   | None \<Rightarrow> \<lparr>dd_openTime = '''', dd_closeTime = '''', dd_active = False, dd_version = None\<rparr>)"

definition apply_values :: "draft_values \<Rightarrow> day_draft \<Rightarrow> day_draft" where
  "apply_values v d = d\<lparr>dd_openTime := or_text (dv_openTime v) (dd_openTime d), dd_closeTime := or_text (dv_closeTime v) (dd_closeTime d),
     dd_active := (case dv_active v of Some a \<Rightarrow> a | None \<Rightarrow> dd_active d)\<rparr>"

definition unchanged :: "working_hours option \<Rightarrow> day_draft \<Rightarrow> bool" where
  "unchanged server d \<longleftrightarrow> (case server of None \<Rightarrow> False | Some h \<Rightarrow>
     dd_version d = Some (wh_version h) \<and> normalizedTime (wh_openTime h) = normalizedTime (dd_openTime d)
     \<and> normalizedTime (wh_closeTime h) = normalizedTime (dd_closeTime d) \<and> wh_active h = dd_active d)"

record hours_page =
  hp_drafts :: "(day_of_week, day_draft) dict"
  hp_errors :: "(day_of_week, string) dict"
  hp_data :: "working_hours list option" \<comment> \<open>the query \<open>['working-hours']\<close>\<close>

definition hours_update :: "day_of_week \<Rightarrow> draft_values \<Rightarrow> hours_page \<Rightarrow> hours_page" where
  "hours_update day v p =
     (let server = server_day (hp_data p) day;
          previous = (case map_of (hp_drafts p) day of Some d \<Rightarrow> d | None \<Rightarrow> draft_base server);
          next = apply_values v previous
      in p\<lparr>hp_drafts := (if unchanged server next then AList.delete day (hp_drafts p) else AList.update day next (hp_drafts p)),
           hp_errors := AList.update day '''' (hp_errors p)\<rparr>)"

definition drop_draft :: "day_of_week \<Rightarrow> hours_page \<Rightarrow> hours_page" where
  "drop_draft day p = p\<lparr>hp_drafts := AList.delete day (hp_drafts p), hp_errors := AList.update day '''' (hp_errors p)\<rparr>"

definition day_discard :: "day_of_week \<Rightarrow> working_hours list + cause \<Rightarrow> hours_page \<Rightarrow> hours_page option" where
  \<comment> \<open>the confirmed discard after the refetch; None where the refetch failed and the error is thrown\<close>
  "day_discard day refetched p = (case refetched of
     Inl rows \<Rightarrow> Some (drop_draft day (p\<lparr>hp_data := Some rows\<rparr>)) | Inr _ \<Rightarrow> None)"

datatype save_step = SaveRefused | SaveShown string | SavePut http_request

definition save_guard :: "bool \<Rightarrow> bool \<Rightarrow> bool \<Rightarrow> hours_page \<Rightarrow> day_of_week \<Rightarrow> save_step" where
  "save_guard canManage inFlight isError p day = (case map_of (hp_drafts p) day of
     None \<Rightarrow> SaveRefused
   | Some item \<Rightarrow>
       if \<not> canManage \<or> inFlight \<or> isError then SaveRefused
       else if \<not> validTime (take 5 (dd_openTime item)) \<or> \<not> validTime (take 5 (dd_closeTime item))
         \<or> normalizedTime (dd_openTime item) = normalizedTime (dd_closeTime item)
       then SaveShown (sr ''Unesite oba vremena u formatu HH:mm. Otvaranje i zatvaranje moraju biti razli~citi.'')
       else if map_option wh_version (server_day (hp_data p) day) \<noteq> dd_version item
       then SaveShown (sr ''Raspored je promenjen u me~duvremenu. U~citajte aktuelne podatke pre nove izmene.'')
       else SavePut (workingHoursApi_updateDay day (dd_openTime item) (dd_closeTime item) (dd_active item) (dd_version item)))"

definition day_saved :: "day_of_week \<Rightarrow> working_hours \<Rightarrow> hours_page \<Rightarrow> hours_page" where
  "day_saved day value p = drop_draft day
     (p\<lparr>hp_data := Some (filter (\<lambda>h. wh_dayOfWeek h \<noteq> day) (case hp_data p of Some rows \<Rightarrow> rows | None \<Rightarrow> []) @ [value])\<rparr>)"

definition day_failed :: "day_of_week \<Rightarrow> string \<Rightarrow> hours_page \<Rightarrow> hours_page" where
  "day_failed day message p = p\<lparr>hp_errors := AList.update day message (hp_errors p)\<rparr>"

definition day_save ::
  "bool \<Rightarrow> bool \<Rightarrow> (http_request \<Rightarrow> working_hours + cause) \<Rightarrow> hours_page \<Rightarrow> day_of_week \<Rightarrow> hours_page \<Rightarrow> bool \<times> hours_page" where
  \<comment> \<open>\<open>seen\<close> is the page the handler was created with, \<open>p\<close> the one its updates apply to\<close>
  "day_save canManage isError answer seen day p = (case save_guard canManage False isError seen day of
     SaveRefused \<Rightarrow> (False, p)
   | SaveShown m \<Rightarrow> (False, day_failed day m p)
   | SavePut rq \<Rightarrow> (case answer rq of
        Inl value \<Rightarrow> (True, day_saved day value p)
      | Inr e \<Rightarrow> (False, day_failed day (settingsError e (sr ''Radno vreme nije mogu~qe sa~cuvati.'')) p)))"

definition save_next ::
  "bool \<Rightarrow> bool \<Rightarrow> (http_request \<Rightarrow> working_hours + cause) \<Rightarrow> hours_page \<Rightarrow> day_of_week \<Rightarrow> nat \<times> nat \<times> hours_page \<Rightarrow> nat \<times> nat \<times> hours_page" where
  "save_next canManage isError answer seen day = (\<lambda>(succeeded, failed, p).
     case day_save canManage isError answer seen day p of
       (True, p') \<Rightarrow> (succeeded + 1, failed, p') | (False, p') \<Rightarrow> (succeeded, failed + 1, p'))"

definition saveAll ::
  "bool \<Rightarrow> bool \<Rightarrow> (http_request \<Rightarrow> working_hours + cause) \<Rightarrow> hours_page \<Rightarrow> nat \<times> nat \<times> hours_page" where
  "saveAll canManage isError answer p =
     (if \<not> canManage then (0, 0, p)
      else fold (save_next canManage isError answer p) (filter (\<lambda>d. map_of (hp_drafts p) d \<noteq> None) days) (0, 0, p))"

definition batchResult :: "nat \<Rightarrow> nat \<Rightarrow> string" where
  "batchResult succeeded failed = sr ''Sa~cuvano dana: '' @ show_nat succeeded
     @ (if failed \<noteq> 0
        then sr ''. Nije sa~cuvano: '' @ show_nat failed @ sr ''. Pregledajte poruke uz dane; neuspe~sne izmene su zadr~zane.''
        else sr ''. Sve izmene su sa~cuvane.'')"

subsection \<open>Exceptions of the schedule\<close>

record exception_form =
  xf_date :: string
  xf_description :: string
  xf_fullDayClosed :: bool
  xf_overrideOpenTime :: string
  xf_overrideCloseTime :: string

definition exception_initial :: "working_hours_exception option \<Rightarrow> string option \<Rightarrow> exception_form" where
  "exception_initial item date = (case item of
     Some e \<Rightarrow> \<lparr>xf_date = we_date e, xf_description = or_text (we_description e) '''', xf_fullDayClosed = we_fullDayClosed e,
       xf_overrideOpenTime = take 5 (or_text (we_overrideOpenTime e) ''''), xf_overrideCloseTime = take 5 (or_text (we_overrideCloseTime e) '''')\<rparr>
   | None \<Rightarrow> \<lparr>xf_date = or_text date '''', xf_description = '''', xf_fullDayClosed = True, xf_overrideOpenTime = '''', xf_overrideCloseTime = ''''\<rparr>)"

definition workingHoursExceptionSchema :: "string \<Rightarrow> exception_form \<Rightarrow> string list" where
  \<comment> \<open>the messages of the issues in order; \<open>too_long\<close> is zod's own text for \<open>max(500)\<close>\<close>
  "workingHoursExceptionSchema too_long v =
     (if xf_date v = '''' then [''Datum je obavezan.''] else []) @ (if 500 < js_length (xf_description v) then [too_long] else [])
     @ (if \<not> xf_fullDayClosed v \<and> (xf_overrideOpenTime v = '''' \<or> xf_overrideCloseTime v = '''')
        then [sr ''Po~cetak i kraj skra~qenog radnog vremena su obavezni.''] else [])
     @ (if \<not> xf_fullDayClosed v \<and> xf_overrideOpenTime v = xf_overrideCloseTime v
        then [sr ''Radno vreme ne mo~ze imati nulto trajanje.''] else [])"

definition exception_submit ::
  "platform \<Rightarrow> string \<Rightarrow> string \<Rightarrow> working_hours_exception option \<Rightarrow> bool \<Rightarrow> bool \<Rightarrow> exception_form \<Rightarrow> save_step" where
  "exception_submit P too_long today item inFlight conflict f =
     (if inFlight \<or> conflict then SaveRefused
      else case workingHoursExceptionSchema too_long f of
        m # _ \<Rightarrow> SaveShown m
      | [] \<Rightarrow>
          if \<not> validCalendarDate P (xf_date f) \<or> xf_date f \<le> today
          then SaveShown (sr ''Izaberite ispravan datum posle dana~snjeg datuma u zoni Europe/Belgrade.'')
          else if \<not> xf_fullDayClosed f \<and> (\<not> validTime (xf_overrideOpenTime f) \<or> \<not> validTime (xf_overrideCloseTime f))
          then SaveShown (sr ''Unesite oba vremena u formatu HH:mm.'')
          else let input = \<lparr>xi_date = xf_date f, xi_description = some_text (trim (xf_description f)), xi_fullDayClosed = xf_fullDayClosed f,
                     xi_overrideOpenTime = (if xf_fullDayClosed f then None else Some (xf_overrideOpenTime f)),
                     xi_overrideCloseTime = (if xf_fullDayClosed f then None else Some (xf_overrideCloseTime f)),
                     xi_version = map_option we_version item\<rparr>
               in SavePut (case item of Some e \<Rightarrow> workingHoursApi_updateException (we_id e) input | None \<Rightarrow> workingHoursApi_createException input))"

definition exception_failed :: "working_hours_exception option \<Rightarrow> cause \<Rightarrow> string \<times> bool" where
  \<comment> \<open>the message and whether the dialog is in conflict\<close>
  "exception_failed item e = (settingsError e (sr ''Izuzetak nije mogu~qe sa~cuvati.''), isConflictResponse e \<and> item \<noteq> None)"

definition shiftedMonth :: "platform \<Rightarrow> string \<Rightarrow> int \<Rightarrow> string option" where
  "shiftedMonth P month amount = do {
     value \<leftarrow> parse P (month @ ''-01T12:00:00Z'');
     value \<leftarrow> setUTCMonth (getUTCMonth value + amount) (getUTCDate value) value;
     Some (take 7 (toISOString value)) }"

definition exception_grid :: "platform \<Rightarrow> string \<Rightarrow> (string \<times> string) option" where
  \<comment> \<open>the first and the last day of the grid\<close>
  "exception_grid P month = do {
     first \<leftarrow> parse P (month @ ''-01T12:00:00Z'');
     start \<leftarrow> addCalendarDays P (month @ ''-01'') (- ((getUTCDay first + 6) mod 7));
     finish \<leftarrow> addCalendarDays P start 41;
     Some (start, finish) }"

definition exceptions_grouped :: "working_hours_exception list \<Rightarrow> (string, working_hours_exception list) dict" where
  "exceptions_grouped items = fold (\<lambda>e d. push_event (we_date e) e d) items []"

datatype pick_result = ViewException working_hours_exception | CreateException string | PickOnly

definition exception_pick :: "bool \<Rightarrow> string \<Rightarrow> bool \<Rightarrow> (string, working_hours_exception list) dict \<Rightarrow> string \<Rightarrow> pick_result" where
  "exception_pick canManage today isError grouped date = (case map_of grouped date of
     Some (e # _) \<Rightarrow> ViewException e
   | _ \<Rightarrow> if today < date \<and> canManage \<and> \<not> isError then CreateException date else PickOnly)"

subsection \<open>Time off\<close>

definition employee_selectable :: "user_response list option \<Rightarrow> string \<Rightarrow> bool" where
  "employee_selectable employees ident \<longleftrightarrow> (\<exists>u \<in> set (case employees of Some us \<Rightarrow> us | None \<Rightarrow> []).
     ur_id u = ident \<and> ur_active u \<and> ur_role u = EMPLOYEE \<and> or_text (ur_deletedAt u) '''' = '''')"

definition timeoff_submit ::
  "platform \<Rightarrow> user_response list option \<Rightarrow> bool \<Rightarrow> bool \<Rightarrow> time_off_input \<Rightarrow> save_step" where
  "timeoff_submit P employees isError inFlight f =
     (if inFlight then SaveRefused
      else case businessLocalToInstant P (ti_startsAt f) of
        Inl e \<Rightarrow> SaveShown e
      | Inr startsAt \<Rightarrow> (case businessLocalToInstant P (ti_endsAt f) of
          Inl e \<Rightarrow> SaveShown e
        | Inr endsAt \<Rightarrow>
            if (case (parse P endsAt, parse P startsAt) of (Some e, Some s) \<Rightarrow> e \<le> s | _ \<Rightarrow> False)
            then SaveShown (sr ''Kraj odsustva mora biti posle po~cetka.'')
            else if \<not> employee_selectable employees (ti_employeeId f) \<or> isError then SaveShown ''Izaberite aktivnog zaposlenog.''
            else if trim (ti_reason f) = '''' \<or> 500 < js_length (ti_reason f) then SaveShown ''Unesite razlog odsustva, do 500 karaktera.''
            else SavePut (timeOffApi_create (f\<lparr>ti_startsAt := startsAt, ti_endsAt := endsAt, ti_reason := trim (ti_reason f)\<rparr>))))"

definition time_off_decidable :: "platform \<Rightarrow> bool \<Rightarrow> bool \<Rightarrow> ms \<Rightarrow> time_off \<Rightarrow> time_off_status \<Rightarrow> bool" where
  \<comment> \<open>\<open>decide\<close> asks for the confirmation; the guards before it\<close>
  "time_off_decidable P canManage inFlight now item status \<longleftrightarrow> canManage \<and> \<not> inFlight
     \<and> (to_status item = TO_PENDING \<or> to_status item = TO_APPROVED \<and> status = TO_CANCELLED)
     \<and> \<not> (status = TO_APPROVED \<and> (case parse P (to_endsAt item) of Some e \<Rightarrow> e \<le> now | None \<Rightarrow> False))"

fun decide_label :: "time_off_status \<Rightarrow> string" where
  "decide_label TO_APPROVED = ''Odobri odsustvo''"
| "decide_label TO_REJECTED = ''Odbij zahtev''"
| "decide_label TO_PENDING = sr ''Otka~zi odsustvo''"
| "decide_label TO_CANCELLED = sr ''Otka~zi odsustvo''"

definition time_off_actions :: "platform \<Rightarrow> bool \<Rightarrow> ms \<Rightarrow> time_off \<Rightarrow> time_off_status list" where
  \<comment> \<open>the decisions offered beside the details\<close>
  "time_off_actions P canManage now item =
     (if canManage \<and> to_status item = TO_PENDING \<and> (case parse P (to_endsAt item) of Some e \<Rightarrow> now < e | None \<Rightarrow> False) then [TO_APPROVED] else [])
     @ (if canManage \<and> to_status item = TO_PENDING then [TO_REJECTED] else [])
     @ (if canManage \<and> (to_status item = TO_PENDING \<or> to_status item = TO_APPROVED) then [TO_CANCELLED] else [])"

definition time_off_period :: "platform \<Rightarrow> string \<Rightarrow> string \<Rightarrow> (string \<times> string) \<times> string" where
  \<comment> \<open>the bounds sent and the message shown\<close>
  "time_off_period P start finish =
     (if start \<noteq> '''' \<and> \<not> validCalendarDate P start \<or> finish \<noteq> '''' \<and> \<not> validCalendarDate P finish
         \<or> start \<noteq> '''' \<and> finish \<noteq> '''' \<and> finish < start
      then (('''', ''''), sr ''Izaberite ispravan period. Zavr~sni datum ne sme biti pre po~cetnog.'')
      else case businessDayBounds P start finish of Inl e \<Rightarrow> (('''', ''''), e) | Inr b \<Rightarrow> (b, ''''))"

definition time_off_query :: "string \<Rightarrow> string \<Rightarrow> string \<Rightarrow> string \<times> string \<Rightarrow> nat \<Rightarrow> nat \<Rightarrow> http_request" where
  "time_off_query search status employeeId bounds = timeOffApi_page \<lparr>tf_search = some_text search, tf_status = some_text status,
     tf_employeeId = some_text employeeId, tf_from = some_text (fst bounds), tf_to = some_text (snd bounds)\<rparr>"

subsection \<open>What the settings guarantee\<close>

lemma addCalendarDays_eq: "addCalendarDays P v k = addDays P v k"
  by (simp add: addCalendarDays_def addDays_def parseDate_def isoDate_def)

lemma validCalendarDate_eq: "validCalendarDate P v = validDate P v"
  by (simp add: validCalendarDate_def validDate_def parseDate_def isoDate_def split: option.splits)

definition day_accepted :: "bool \<Rightarrow> bool \<Rightarrow> (http_request \<Rightarrow> working_hours + cause) \<Rightarrow> hours_page \<Rightarrow> day_of_week \<Rightarrow> bool" where
  \<comment> \<open>the draft of the day passes the checks and the server stores it\<close>
  "day_accepted canManage isError answer p day \<longleftrightarrow> (case save_guard canManage False isError p day of
     SavePut rq \<Rightarrow> (case answer rq of Inl _ \<Rightarrow> True | Inr _ \<Rightarrow> False) | _ \<Rightarrow> False)"

lemma day_save_outcome:
  assumes "day_save m e answer seen day p = (ok, p')"
  shows "ok \<longleftrightarrow> day_accepted m e answer seen day"
    and "map_of (hp_drafts p') = (if ok then (map_of (hp_drafts p))(day := None) else map_of (hp_drafts p))"
  using assms
  by (auto simp: day_save_def day_accepted_def day_saved_def drop_draft_def day_failed_def delete_conv'
      split: save_step.splits sum.splits)

lemma save_fold:
  assumes "fold (save_next m e answer seen) ds (s, f, p) = (s', f', p')"
  shows "s' = s + length (filter (day_accepted m e answer seen) ds)
    \<and> f' = f + length (filter (\<lambda>d. \<not> day_accepted m e answer seen d) ds)
    \<and> map_of (hp_drafts p') = (\<lambda>d. if d \<in> set ds \<and> day_accepted m e answer seen d then None else map_of (hp_drafts p) d)"
  using assms
proof (induction ds arbitrary: s f p)
  case (Cons d ds)
  obtain ok q where q: "day_save m e answer seen d p = (ok, q)" by (cases "day_save m e answer seen d p")
  note out = day_save_outcome [OF q]
  show ?case
  proof (cases ok)
    case True
    with q have "save_next m e answer seen d (s, f, p) = (s + 1, f, q)" by (simp add: save_next_def)
    with Cons.prems have "fold (save_next m e answer seen) ds (s + 1, f, q) = (s', f', p')" by simp
    from Cons.IH [OF this] True out show ?thesis by (auto simp: fun_eq_iff)
  next
    case False
    with q have "save_next m e answer seen d (s, f, p) = (s, f + 1, q)" by (simp add: save_next_def)
    with Cons.prems have "fold (save_next m e answer seen) ds (s, f + 1, q) = (s', f', p')" by simp
    from Cons.IH [OF this] False out show ?thesis by (auto simp: fun_eq_iff)
  qed
qed (simp add: fun_eq_iff)

lemma days_all: "set days = UNIV" and days_distinct: "distinct days"
proof -
  have "d \<in> set days" for d by (cases d) (simp_all add: days_def)
  then show "set days = UNIV" by auto
  show "distinct days" by (simp add: days_def)
qed

text \<open>
  Saving every changed day of the weekly schedule counts each draft once, as saved or as not
  saved. Afterwards exactly the days that passed the checks and that the server stored have no draft; every other
  draft is as it was, so a failed change is never lost.
\<close>
theorem batch_save_keeps_failed_days:
  assumes "saveAll True isError answer p = (succeeded, failed, p')"
  shows "succeeded = card {d. map_of (hp_drafts p) d \<noteq> None \<and> day_accepted True isError answer p d}
    \<and> succeeded + failed = card (dom (map_of (hp_drafts p)))
    \<and> map_of (hp_drafts p') d = (if day_accepted True isError answer p d then None else map_of (hp_drafts p) d)"
proof (intro conjI)
  let ?ds = "filter (\<lambda>d. map_of (hp_drafts p) d \<noteq> None) days" and ?ok = "day_accepted True isError answer p"
  from assms have f: "fold (save_next True isError answer p) ?ds (0, 0, p) = (succeeded, failed, p')"
    by (simp add: saveAll_def)
  note out = save_fold [OF f]
  have d: "distinct ?ds" using days_distinct by simp
  have s: "set ?ds = dom (map_of (hp_drafts p))" using days_all by auto
  have "length (filter ?ok ?ds) = card (set (filter ?ok ?ds))"
    by (rule distinct_card [symmetric], rule distinct_filter) (rule d)
  moreover have "set (filter ?ok ?ds) = {d. map_of (hp_drafts p) d \<noteq> None \<and> ?ok d}" using days_all by auto
  ultimately show "succeeded = card {d. map_of (hp_drafts p) d \<noteq> None \<and> ?ok d}" using out by simp
  have "length ?ds = card (dom (map_of (hp_drafts p)))" using d s by (metis distinct_card)
  moreover have "length (filter ?ok ?ds) + length (filter (\<lambda>d. \<not> ?ok d) ?ds) = length ?ds" by (rule sum_length_filter_compl)
  ultimately show "succeeded + failed = card (dom (map_of (hp_drafts p)))" using out by simp
  show "map_of (hp_drafts p') d = (if ?ok d then None else map_of (hp_drafts p) d)"
    using out s by (cases "map_of (hp_drafts p) d") (auto simp: domIff)
qed

definition sample_hours :: hours_page where
  "sample_hours = \<lparr>hp_drafts = [(MONDAY, \<lparr>dd_openTime = ''09:00'', dd_closeTime = ''17:00'', dd_active = True, dd_version = None\<rparr>),
       (TUESDAY, \<lparr>dd_openTime = ''09:00'', dd_closeTime = ''09:00'', dd_active = True, dd_version = None\<rparr>)],
     hp_errors = [], hp_data = None\<rparr>"

definition sample_monday :: working_hours where
  "sample_monday = \<lparr>wh_id = ''h1'', wh_dayOfWeek = MONDAY, wh_openTime = ''09:00:00'', wh_closeTime = ''17:00:00'', wh_active = True,
     wh_spansMidnight = False, wh_version = 0\<rparr>"

lemma sample_times: "validTime ''09:00''" "validTime ''17:00''" "js_length ''09:00'' = 5" "js_length ''17:00'' = 5"
  by (simp_all add: validTime_def is_digit_def less_eq_char_def js_length_def unit_of_def)

theorem batch_save_keeps_failed_days_witness:
  "fst (saveAll True False (\<lambda>_. Inl sample_monday) sample_hours) = 1
   \<and> map_of (hp_drafts (snd (snd (saveAll True False (\<lambda>_. Inl sample_monday) sample_hours)))) TUESDAY \<noteq> None"
proof -
  let ?r = "saveAll True False (\<lambda>_. Inl sample_monday) sample_hours"
  have a: "day_accepted True False (\<lambda>_. Inl sample_monday) sample_hours d \<longleftrightarrow> d = MONDAY" for d
    by (cases d) (simp_all add: day_accepted_def save_guard_def sample_hours_def server_day_def normalizedTime_def sample_times)
  have d: "{d. map_of (hp_drafts sample_hours) d \<noteq> None \<and> d = MONDAY} = {MONDAY}" by (auto simp: sample_hours_def)
  obtain s f p where r: "?r = (s, f, p)" by (cases ?r)
  from batch_save_keeps_failed_days [OF r] have "s = 1" and "map_of (hp_drafts p) TUESDAY = map_of (hp_drafts sample_hours) TUESDAY"
    by (simp_all only: a d card.insert card.empty) simp_all
  moreover have "map_of (hp_drafts sample_hours) TUESDAY \<noteq> None" by (simp add: sample_hours_def)
  ultimately show ?thesis by (simp add: r)
qed

lemma instant_of_local:
  "businessLocalToInstant P v = Inr i \<Longrightarrow> businessInstantToLocal P i = Some v \<and> (\<exists>t. parse P i = Some t)"
  using local_search_sound by (fastforce simp: businessLocalToInstant_def businessInstantToLocal_def simp del: local_search.simps split: option.splits)

text \<open>
  A request for time off is sent only for an active employee, with a reason of one to 500
  characters and with the instants of exactly the entered local times, the end after the start; every other
  submission shows a message or, while a request is running, does nothing.
\<close>
theorem sent_time_off_is_well_formed:
  assumes "timeoff_submit P employees isError inFlight f = SavePut rq"
  shows "(\<exists>s e a b. rq = timeOffApi_create (f\<lparr>ti_startsAt := s, ti_endsAt := e, ti_reason := trim (ti_reason f)\<rparr>)
    \<and> businessInstantToLocal P s = Some (ti_startsAt f) \<and> businessInstantToLocal P e = Some (ti_endsAt f)
    \<and> parse P s = Some a \<and> parse P e = Some b \<and> a < b)
    \<and> (\<exists>u \<in> set (the employees). ur_id u = ti_employeeId f \<and> ur_active u \<and> ur_role u = EMPLOYEE)
    \<and> trim (ti_reason f) \<noteq> '''' \<and> js_length (ti_reason f) \<le> 500 \<and> \<not> inFlight"
proof (intro conjI)
  from assms obtain s e where b: "businessLocalToInstant P (ti_startsAt f) = Inr s" "businessLocalToInstant P (ti_endsAt f) = Inr e"
    and c: "\<not> (case (parse P e, parse P s) of (Some e, Some s) \<Rightarrow> e \<le> s | _ \<Rightarrow> False)"
    and g: "employee_selectable employees (ti_employeeId f)" "trim (ti_reason f) \<noteq> ''''" "js_length (ti_reason f) \<le> 500" "\<not> inFlight"
    and r: "rq = timeOffApi_create (f\<lparr>ti_startsAt := s, ti_endsAt := e, ti_reason := trim (ti_reason f)\<rparr>)"
    by (auto simp: timeoff_submit_def not_less split: if_splits sum.splits)
  from instant_of_local [OF b(1)] instant_of_local [OF b(2)] c
  have "\<exists>a b. businessInstantToLocal P s = Some (ti_startsAt f) \<and> businessInstantToLocal P e = Some (ti_endsAt f)
      \<and> parse P s = Some a \<and> parse P e = Some b \<and> a < b"
    by (auto simp: not_le)
  with r show "\<exists>s e a b. rq = timeOffApi_create (f\<lparr>ti_startsAt := s, ti_endsAt := e, ti_reason := trim (ti_reason f)\<rparr>)
    \<and> businessInstantToLocal P s = Some (ti_startsAt f) \<and> businessInstantToLocal P e = Some (ti_endsAt f)
    \<and> parse P s = Some a \<and> parse P e = Some b \<and> a < b" by blast
  show "\<exists>u \<in> set (the employees). ur_id u = ti_employeeId f \<and> ur_active u \<and> ur_role u = EMPLOYEE"
    using g(1) by (cases employees) (auto simp: employee_selectable_def)
  show "trim (ti_reason f) \<noteq> ''''" "js_length (ti_reason f) \<le> 500" "\<not> inFlight" using g by simp_all
qed

definition sample_staff :: user_response where
  "sample_staff = \<lparr>ur_id = ''e1'', ur_name = ''Ana'', ur_email = '''', ur_role = EMPLOYEE, ur_active = True, ur_avatarUrl = None,
     ur_createdAt = '''', ur_updatedAt = '''', ur_version = 0, ur_permissions = [], ur_deletedAt = None, ur_deletedBy = None,
     ur_deletionReason = None\<rparr>"

definition sample_leave :: time_off_input where
  "sample_leave = \<lparr>ti_employeeId = ''e1'', ti_startsAt = wall_text 1782909000000, ti_endsAt = wall_text 1782914400000, ti_reason = ''odmor''\<rparr>"

theorem sent_time_off_is_well_formed_witness:
  "\<exists>rq. timeoff_submit belgrade_2026 (Some [sample_staff]) False False sample_leave = SavePut rq
    \<and> (\<exists>s e a b. rq = timeOffApi_create (sample_leave\<lparr>ti_startsAt := s, ti_endsAt := e, ti_reason := trim (ti_reason sample_leave)\<rparr>)
        \<and> parse belgrade_2026 s = Some a \<and> parse belgrade_2026 e = Some b \<and> a < b)"
proof -
  note i = summer_instant [of 1782909000000] summer_instant [of 1782914400000]
  have t: "trim ''odmor'' = ''odmor''" "js_length ''odmor'' = 5"
    by (simp_all add: trim_def is_space_def js_length_def unit_of_def)
  obtain rq where rq: "timeoff_submit belgrade_2026 (Some [sample_staff]) False False sample_leave = SavePut rq"
    using i t by (simp add: timeoff_submit_def sample_leave_def employee_selectable_def sample_staff_def or_text_def)
  from sent_time_off_is_well_formed [OF rq] rq show ?thesis by blast
qed

subsubsection \<open>Decisions and intervals\<close>

lemma offered_decisions_are_accepted:
  "s \<in> set (time_off_actions P m now item) \<Longrightarrow> time_off_decidable P m False now item s \<and> to_status item \<notin> {TO_REJECTED, TO_CANCELLED}"
  by (auto simp: time_off_actions_def time_off_decidable_def split: if_splits option.splits)

lemma clock_minutes_range:
  assumes "validTime (take 5 s)"
  shows "0 \<le> clock_minutes s \<and> clock_minutes s < 1440"
proof -
  obtain a b c d e where s: "take 5 s = [a, b, c, d, e]" and v: "is_digit b" "is_digit e"
      "a \<in> set ''01'' \<or> a = CHR ''2'' \<and> b \<in> set ''0123''" "d \<in> set ''012345''"
    using assms by (auto simp: validTime_def split: list.splits)
  have t: "take 2 s = [a, b]" "slice 3 5 s = [d, e]"
    using arg_cong [OF s, of "take 2"] arg_cong [OF s, of "drop 3"] by (simp_all add: slice_def min_def numeral_eq_Suc)
  have r: "digit_val b \<le> 9" "digit_val e \<le> 9"
    using v(1,2) by (auto simp: is_digit_def digit_val_def less_eq_char_def le_diff_conv)
  have "digit_val a * 10 + digit_val b < 24" "digit_val d < 6"
    using v(3,4) r by (auto simp: digit_val_def)
  with r show ?thesis by (simp add: clock_minutes_def t read_nat_def)
qed

lemma intervalMinutes_wraps:
  assumes "intervalMinutes a b = Some m"
  shows "0 \<le> m \<and> m < 1440 \<and> (clock_minutes a + m) mod 1440 = clock_minutes b"
proof -
  from assms have v: "validTime (take 5 a)" "validTime (take 5 b)" by (auto simp: intervalMinutes_def split: if_splits)
  note r = clock_minutes_range [OF v(1)] clock_minutes_range [OF v(2)]
  show ?thesis
  proof (cases "clock_minutes b < clock_minutes a")
    case True
    with assms v have "m = clock_minutes b - clock_minutes a + 1440" by (simp add: intervalMinutes_def Let_def)
    with r True show ?thesis by (simp add: mod_pos_pos_trivial)
  next
    case False
    with assms v have "m = clock_minutes b - clock_minutes a" by (simp add: intervalMinutes_def Let_def)
    with r False show ?thesis by (simp add: mod_pos_pos_trivial)
  qed
qed

end
