(* ===== verification/Hooks.thy ===== *)
theory Hooks
  imports Web Auth
begin

section \<open>Hooks the pages share\<close>

text \<open>
  Models \<open>lists/useListUrlState.ts\<close> (filters kept in the address), \<open>query/usePagedQuery.ts\<close>,
  \<open>components/useResettableState.ts\<close>, \<open>gaming/useServerNow.ts\<close>, \<open>forms/useDirtyGuard.ts\<close>,
  \<open>forms/useFormClose.tsx\<close>, the decision of \<open>forms/NavigationSafety.tsx\<close>, \<open>search/useGlobalSearch.ts\<close>,
  \<open>api/searchApi.ts\<close> and \<open>api/savedViewApi.ts\<close>.
\<close>

subsection \<open>Search parameters\<close>

type_synonym search_params = "(string \<times> string) list" \<comment> \<open>the entries of a \<open>URLSearchParams\<close>, duplicates included\<close>

definition params_delete :: "string \<Rightarrow> search_params \<Rightarrow> search_params" where
  "params_delete k ps = filter (\<lambda>p. fst p \<noteq> k) ps"

fun params_set :: "string \<Rightarrow> string \<Rightarrow> search_params \<Rightarrow> search_params" where
  \<comment> \<open>the first entry of the key keeps its place and the others go; a new key is appended\<close>
  "params_set k v [] = [(k, v)]"
| "params_set k v (p # ps) = (if fst p = k then (k, v) # params_delete k ps else p # params_set k v ps)"

definition form_char :: "char \<Rightarrow> string" where
  \<comment> \<open>\<open>application/x-www-form-urlencoded\<close>\<close>
  "form_char c = (if is_alnum c \<or> c \<in> set ''*-._'' then [c] else if c = CHR '' '' then ''+'' else percent c)"

definition form_encode :: "string \<Rightarrow> string" where
  "form_encode s = concat (map form_char s)"

definition params_text :: "search_params \<Rightarrow> string" where
  \<comment> \<open>\<open>params.toString()\<close>\<close>
  "params_text ps = join_with ''&'' (map (\<lambda>(k, v). form_encode k @ ''='' @ form_encode v) ps)"

definition list_state :: "(string \<Rightarrow> string) \<Rightarrow> string list \<Rightarrow> search_params \<Rightarrow> (string \<times> string) list" where
  "list_state defaults allowed params =
     dict_of (map (\<lambda>k. (k, case map_of params k of Some v \<Rightarrow> v | None \<Rightarrow> defaults k)) allowed)"

definition set_one :: "(string \<Rightarrow> string option) \<Rightarrow> string \<times> string option \<Rightarrow> search_params \<Rightarrow> search_params" where
  "set_one defaults = (\<lambda>(key, raw) next.
     let value = (case raw of Some v \<Rightarrow> v | None \<Rightarrow> '''')
     in if value = '''' \<or> defaults key = Some value then params_delete key next else params_set key value next)"

definition list_set :: "(string \<Rightarrow> string option) \<Rightarrow> (string \<times> string option) list \<Rightarrow> search_params \<Rightarrow> search_params" where
  "list_set defaults changes params = fold (set_one defaults) changes params"

definition list_apply :: "string list \<Rightarrow> (string \<times> string) list \<Rightarrow> search_params" where
  "list_apply allowed query = fold (\<lambda>k next. case map_of query k of
     Some v \<Rightarrow> if v = '''' then next else params_set k v next | None \<Rightarrow> next) allowed []"

subsection \<open>Pages and resettable state\<close>

record 'a resettable =
  rt_key :: string
  rt_value :: 'a

definition reset_render :: "'a \<Rightarrow> string \<Rightarrow> 'a resettable \<Rightarrow> 'a resettable" where
  \<comment> \<open>what a render with this key works with\<close>
  "reset_render initial key stored = (if rt_key stored \<noteq> key then \<lparr>rt_key = key, rt_value = initial\<rparr> else stored)"

definition reset_set :: "string \<Rightarrow> ('a \<Rightarrow> 'a) \<Rightarrow> 'a resettable \<Rightarrow> 'a resettable" where
  \<comment> \<open>the setter of the render with this key\<close>
  "reset_set key update stored = \<lparr>rt_key = key, rt_value = update (rt_value stored)\<rparr>"

definition paged_clamp :: "nat option \<Rightarrow> bool \<Rightarrow> nat \<Rightarrow> nat" where
  \<comment> \<open>the effect after an answer with this number of pages\<close>
  "paged_clamp totalPages isFetching page = (case totalPages of
     Some n \<Rightarrow> if \<not> isFetching \<and> max 1 n \<le> page then n - 1 else page | None \<Rightarrow> page)"

subsection \<open>The server's clock\<close>

record server_clock =
  sc_source :: "string option"
  sc_now :: "ms option" \<comment> \<open>None for NaN\<close>

definition clock_base :: "(string \<Rightarrow> ms option) \<Rightarrow> ms \<Rightarrow> string option \<Rightarrow> ms option" where
  \<comment> \<open>\<open>serverTime ? Date.parse(serverTime) : Date.now()\<close>\<close>
  "clock_base date_of now serverTime = (case serverTime of
     Some s \<Rightarrow> if s = '''' then Some now else date_of s | None \<Rightarrow> Some now)"

definition clock_tick :: "string option \<Rightarrow> ms option \<Rightarrow> int \<Rightarrow> int \<Rightarrow> server_clock" where
  \<comment> \<open>\<open>received\<close> and \<open>elapsed\<close> are readings of the monotonic \<open>performance.now()\<close>\<close>
  "clock_tick serverTime server received elapsed =
     \<lparr>sc_source = serverTime, sc_now = map_option (\<lambda>s. s + max 0 (elapsed - received)) server\<rparr>"

definition useServerNow :: "(string \<Rightarrow> ms option) \<Rightarrow> string option \<Rightarrow> server_clock \<Rightarrow> ms option" where
  "useServerNow date_of serverTime clock = (case serverTime of
     Some s \<Rightarrow> if s \<noteq> '''' \<and> sc_source clock \<noteq> serverTime then date_of s else sc_now clock
   | None \<Rightarrow> sc_now clock)"

subsection \<open>Unsaved work\<close>

datatype work_kind = W_dirty | W_pending | W_handoff

datatype work_state = WS_clean | WS_dirty | WS_pending | WS_handoff

type_synonym work = "(string, work_kind) dict"

definition unsavedWorkState :: "work \<Rightarrow> work_state" where
  "unsavedWorkState w = (if W_pending \<in> snd ` set w then WS_pending
     else if W_handoff \<in> snd ` set w then WS_handoff
     else if w \<noteq> [] then WS_dirty else WS_clean)"

definition guard_kind :: "bool \<Rightarrow> bool \<Rightarrow> work_kind" where
  "guard_kind pending retained = (if pending then W_pending else if retained then W_handoff else W_dirty)"

definition guard_effect :: "string \<Rightarrow> bool \<Rightarrow> bool \<Rightarrow> bool \<Rightarrow> work \<Rightarrow> work" where
  \<comment> \<open>the effect of \<open>useDirtyGuard(dirty, {pending, retainedResult})\<close>\<close>
  "guard_effect ident dirty pending retained w =
     (if \<not> dirty then w else AList.update ident (guard_kind pending retained) w)"

definition guard_cleanup :: "string \<Rightarrow> bool \<Rightarrow> work \<Rightarrow> work" where
  "guard_cleanup ident dirty w = (if \<not> dirty then w else AList.delete ident w)"

definition guard_release :: "string \<Rightarrow> work \<Rightarrow> work" where
  "guard_release ident w = AList.delete ident w"

record page_location =
  pl_pathname :: string
  pl_search :: string
  pl_hash :: string

definition navigation_blocked :: "bool \<Rightarrow> work \<Rightarrow> page_location \<Rightarrow> page_location \<Rightarrow> bool" where
  "navigation_blocked signed_in w current next \<longleftrightarrow> signed_in \<and> unsavedWorkState w \<noteq> WS_clean
     \<and> (pl_pathname current \<noteq> pl_pathname next
        \<or> (pl_search current \<noteq> pl_search next \<or> pl_hash current \<noteq> pl_hash next) \<and> unsavedWorkState w \<noteq> WS_dirty)"

definition leave_disabled :: "work_state \<Rightarrow> bool" where
  \<comment> \<open>the dialog offers no confirmation\<close>
  "leave_disabled s \<longleftrightarrow> s = WS_pending \<or> s = WS_handoff"

fun leave_title :: "work_state \<Rightarrow> string" where
  "leave_title WS_pending = sr ''Prethodni zahtev ~ceka proveru''"
| "leave_title WS_handoff = sr ''Sa~cuvajte jednokratni rezultat''"
| "leave_title WS_dirty = ''Napusti stranicu?''"
| "leave_title WS_clean = ''Napusti stranicu?''"

datatype close_result = CloseIgnored | CloseNow | CloseAsk

definition form_close :: "bool \<Rightarrow> bool \<Rightarrow> close_result" where
  "form_close dirty pending = (if pending then CloseIgnored else if \<not> dirty then CloseNow else CloseAsk)"

subsection \<open>Search\<close>

datatype search_resource_type = SR_CATALOG | SR_USER | SR_CUSTOMER | SR_RESOURCE | SR_ORDER | SR_RESERVATION

fun search_type_name :: "search_resource_type \<Rightarrow> string" where
  "search_type_name SR_CATALOG = ''CATALOG''"
| "search_type_name SR_USER = ''USER''"
| "search_type_name SR_CUSTOMER = ''CUSTOMER''"
| "search_type_name SR_RESOURCE = ''RESOURCE''"
| "search_type_name SR_ORDER = ''ORDER''"
| "search_type_name SR_RESERVATION = ''RESERVATION''"

record search_result =
  sres_type :: search_resource_type
  sres_id :: string
  sres_title :: string
  sres_subtitle :: string
  sres_url :: string
  sres_favorite :: bool

definition searchApi_search :: "string \<Rightarrow> http_request" where
  "searchApi_search query = api_get ''/search'' [(''q'', Some (JStr query)), (''limit'', Some (jnat 20))]"

definition searchApi_preferences :: "bool \<Rightarrow> http_request" where
  "searchApi_preferences favoritesOnly = api_get ''/search/preferences'' [(''favoritesOnly'', Some (JBool favoritesOnly))]"

definition searchApi_remember :: "search_result \<Rightarrow> bool \<Rightarrow> http_request" where
  "searchApi_remember r favorite = api_send POST ''/search/preferences''
     (body [(''type'', Some (JStr (search_type_name (sres_type r)))), (''id'', Some (JStr (sres_id r))), (''favorite'', Some (JBool favorite))])"

definition searchApi_removeFavorite :: "search_result \<Rightarrow> http_request" where
  "searchApi_removeFavorite r = (api_send DELETE ''/search/preferences'' None)\<lparr>rq_params :=
     Http.fields [(''type'', Some (JStr (search_type_name (sres_type r)))), (''id'', Some (JStr (sres_id r)))]\<rparr>"

record search_state =
  ss_results :: "search_result list"
  ss_favorites :: "search_result list"
  ss_recents :: "search_result list"
  ss_loading :: bool
  ss_error :: string
  ss_revision :: nat

datatype search_plan = SearchClosed | LoadPreferences | SearchFor string

definition search_effect :: "bool \<Rightarrow> string \<Rightarrow> search_plan" where
  "search_effect is_open query = (if \<not> is_open then SearchClosed
     else if js_length (trim query) < 2 then LoadPreferences else SearchFor (trim query))"

definition search_delay :: "search_plan \<Rightarrow> nat" where
  \<comment> \<open>milliseconds until the request goes out\<close>
  "search_delay p = (case p of SearchFor _ \<Rightarrow> 250 | _ \<Rightarrow> 0)"

definition search_timer :: "search_state \<Rightarrow> search_state" where
  "search_timer s = s\<lparr>ss_loading := True\<rparr>"

definition preferences_loaded :: "search_result list \<Rightarrow> search_result list \<Rightarrow> search_state \<Rightarrow> search_state" where
  "preferences_loaded favorites recents s =
     s\<lparr>ss_favorites := favorites, ss_recents := recents, ss_results := [], ss_error := '''', ss_loading := False\<rparr>"

definition search_answered :: "search_result list \<Rightarrow> search_state \<Rightarrow> search_state" where
  "search_answered results s = s\<lparr>ss_results := results, ss_error := '''', ss_loading := False\<rparr>"

definition search_failed :: "search_plan \<Rightarrow> bool \<Rightarrow> search_state \<Rightarrow> search_state" where
  \<comment> \<open>\<open>cancelled\<close> is axios's \<open>ERR_CANCELED\<close>\<close>
  "search_failed p cancelled s =
     (s\<lparr>ss_error := (if cancelled then ss_error s else case p of SearchFor _ \<Rightarrow> sr ''Pretragu nije mogu~qe izvr~siti.''
        | _ \<Rightarrow> ''Prethodne pretrage nisu dostupne.'')\<rparr>)\<lparr>ss_loading := False\<rparr>"

definition search_reload :: "search_state \<Rightarrow> search_state" where
  "search_reload s = s\<lparr>ss_revision := ss_revision s + 1\<rparr>"

subsection \<open>Saved views\<close>

datatype saved_view_resource = SV_CATALOG | SV_USERS | SV_CUSTOMERS | SV_RESERVATIONS | SV_ORDERS

fun saved_view_name :: "saved_view_resource \<Rightarrow> string" where
  "saved_view_name SV_CATALOG = ''CATALOG''"
| "saved_view_name SV_USERS = ''USERS''"
| "saved_view_name SV_CUSTOMERS = ''CUSTOMERS''"
| "saved_view_name SV_RESERVATIONS = ''RESERVATIONS''"
| "saved_view_name SV_ORDERS = ''ORDERS''"

record saved_view =
  sv_id :: string
  sv_resourceType :: saved_view_resource
  sv_name :: string
  sv_query :: "(string \<times> string) list"
  sv_version :: int

definition query_json :: "(string \<times> string) list \<Rightarrow> json" where
  "query_json q = JObj (map (\<lambda>(k, v). (k, JStr v)) q)"

definition savedViewApi_list :: "saved_view_resource \<Rightarrow> http_request" where
  "savedViewApi_list r = api_get ''/saved-views'' [(''resourceType'', Some (JStr (saved_view_name r)))]"

definition savedViewApi_create :: "saved_view_resource \<Rightarrow> string \<Rightarrow> (string \<times> string) list \<Rightarrow> http_request" where
  "savedViewApi_create r name query = api_send POST ''/saved-views''
     (body [(''resourceType'', Some (JStr (saved_view_name r))), (''name'', Some (JStr name)), (''query'', Some (query_json query))])"

definition savedViewApi_update :: "saved_view \<Rightarrow> string \<Rightarrow> (string \<times> string) list \<Rightarrow> http_request" where
  "savedViewApi_update v name query = api_send PATCH (''/saved-views/'' @ sv_id v)
     (body [(''resourceType'', Some (JStr (saved_view_name (sv_resourceType v)))), (''name'', Some (JStr name)),
       (''query'', Some (query_json query)), (''version'', Some (jint (sv_version v)))])"

definition savedViewApi_remove :: "saved_view \<Rightarrow> http_request" where
  "savedViewApi_remove v = (api_send DELETE (''/saved-views/'' @ sv_id v) None)\<lparr>rq_params :=
     Http.fields [(''version'', Some (jint (sv_version v)))]\<rparr>"

subsection \<open>The address keeps the filters\<close>

lemma map_of_params_delete [simp]: "map_of (params_delete k ps) = (map_of ps)(k := None)"
  by (induction ps) (auto simp: params_delete_def fun_eq_iff)

lemma map_of_params_set [simp]: "map_of (params_set k v ps) = (map_of ps)(k \<mapsto> v)"
  by (induction ps) (auto simp: fun_eq_iff)

definition kept_value :: "(string \<Rightarrow> string option) \<Rightarrow> string \<times> string option \<Rightarrow> string option" where
  "kept_value defaults = (\<lambda>(key, raw). let value = (case raw of Some v \<Rightarrow> v | None \<Rightarrow> '''')
     in if value = '''' \<or> defaults key = Some value then None else Some value)"

lemma map_of_set_one: "map_of (set_one defaults c ps) = (map_of ps)(fst c := kept_value defaults c)"
  by (cases c) (simp add: set_one_def kept_value_def Let_def)

lemma map_of_list_set:
  "distinct (map fst changes) \<Longrightarrow> map_of (list_set defaults changes ps) k =
     (case map_of changes k of Some raw \<Rightarrow> kept_value defaults (k, raw) | None \<Rightarrow> map_of ps k)"
proof (induction changes arbitrary: ps)
  case (Cons c changes)
  have "map_of (list_set defaults (c # changes) ps) k = (case map_of changes k of
      Some raw \<Rightarrow> kept_value defaults (k, raw) | None \<Rightarrow> ((map_of ps)(fst c := kept_value defaults c)) k)"
    using Cons.IH [of "set_one defaults c ps"] Cons.prems by (simp add: list_set_def map_of_set_one split: option.split)
  moreover have "map_of changes (fst c) = None" using Cons.prems by (simp add: map_of_eq_None_iff)
  ultimately show ?case by (cases c) (auto split: option.splits)
qed (simp add: list_set_def)

lemma map_of_list_state:
  "k \<in> set allowed \<Longrightarrow> map_of (list_state d allowed ps) k = Some (case map_of ps k of Some v \<Rightarrow> v | None \<Rightarrow> d k)"
  by (simp add: list_state_def map_of_dict_of rev_map map_of_map_restrict restrict_map_def)

text \<open>
  The filters a page writes to its address are the filters it reads from it. After
  \<open>set(changes)\<close> every changed key has the value that was set, an emptied key its default, and every other key
  the value it had, whatever the address held before, repeated keys included.
\<close>
theorem list_state_reads_back:
  assumes "distinct (map fst changes)" and "k \<in> set allowed" and "defaults k = Some (d k)"
  shows "map_of (list_state d allowed (list_set defaults changes ps)) k =
    (case map_of changes k of
       Some (Some v) \<Rightarrow> Some (if v = '''' then d k else v)
     | Some None \<Rightarrow> Some (d k)
     | None \<Rightarrow> map_of (list_state d allowed ps) k)"
  using assms by (auto simp: map_of_list_state map_of_list_set kept_value_def Let_def split: option.splits)

theorem list_state_reads_back_witness:
  "map_of (list_state (\<lambda>k. if k = ''page'' then ''0'' else '''') [''search'', ''page'']
     (list_set (\<lambda>k. Some (if k = ''page'' then ''0'' else '''')) [(''search'', Some ''ana''), (''page'', Some ''0'')]
       [(''page'', ''3''), (''page'', ''4'')])) ''page'' = Some ''0''"
  using list_state_reads_back [of "[(''search'', Some ''ana''), (''page'', Some ''0'')]" "''page''" "[''search'', ''page'']"
    "\<lambda>k. Some (if k = ''page'' then ''0'' else '''')" "\<lambda>k. if k = ''page'' then ''0'' else ''''" "[(''page'', ''3''), (''page'', ''4'')]"]
  by simp

subsection \<open>Guards of unsaved work\<close>

text \<open>
  Several forms guard the page at once. A step is a commit of one of them: it is mounted, its effect runs again
  with new arguments (after the cleanup of the old ones), it is unmounted, or it releases the navigation after a
  success. \<open>gs_mounted\<close> has the arguments of the last effect of each form and whether it was released since.
\<close>

record guard_entry =
  ge_dirty :: bool
  ge_pending :: bool
  ge_retained :: bool
  ge_released :: bool

record guard_system =
  gs_work :: work
  gs_mounted :: "string \<rightharpoonup> guard_entry"

definition committed :: "bool \<Rightarrow> bool \<Rightarrow> bool \<Rightarrow> guard_entry" where
  "committed d p r = \<lparr>ge_dirty = d, ge_pending = p, ge_retained = r, ge_released = False\<rparr>"

inductive guard_step :: "guard_system \<Rightarrow> guard_system \<Rightarrow> bool" where
  mounted: "gs_mounted s i = None \<Longrightarrow> guard_step s
    (s\<lparr>gs_work := guard_effect i d p r (gs_work s), gs_mounted := (gs_mounted s)(i \<mapsto> committed d p r)\<rparr>)"
| changed: "gs_mounted s i = Some g \<Longrightarrow> guard_step s
    (s\<lparr>gs_work := guard_effect i d p r (guard_cleanup i (ge_dirty g) (gs_work s)),
       gs_mounted := (gs_mounted s)(i \<mapsto> committed d p r)\<rparr>)"
| unmounted: "gs_mounted s i = Some g \<Longrightarrow> guard_step s
    (s\<lparr>gs_work := guard_cleanup i (ge_dirty g) (gs_work s), gs_mounted := (gs_mounted s)(i := None)\<rparr>)"
| released: "gs_mounted s i = Some g \<Longrightarrow> guard_step s
    (s\<lparr>gs_work := guard_release i (gs_work s), gs_mounted := (gs_mounted s)(i \<mapsto> g\<lparr>ge_released := True\<rparr>)\<rparr>)"

inductive guard_reachable :: "guard_system \<Rightarrow> bool" where
  empty: "guard_reachable \<lparr>gs_work = [], gs_mounted = Map.empty\<rparr>"
| step: "guard_reachable s \<Longrightarrow> guard_step s t \<Longrightarrow> guard_reachable t"

definition active_kind :: "guard_entry option \<Rightarrow> work_kind option" where
  "active_kind g = (case g of
     Some e \<Rightarrow> if ge_dirty e \<and> \<not> ge_released e then Some (guard_kind (ge_pending e) (ge_retained e)) else None
   | None \<Rightarrow> None)"

definition guards_tracked :: "guard_system \<Rightarrow> bool" where
  "guards_tracked s \<longleftrightarrow> dict_wf (gs_work s) \<and> (\<forall>i. map_of (gs_work s) i = active_kind (gs_mounted s i))"

lemmas guard_defs = guard_effect_def guard_cleanup_def guard_release_def committed_def active_kind_def

lemma guard_step_tracked: "guard_step s t \<Longrightarrow> guards_tracked s \<Longrightarrow> guards_tracked t"
  by (induction rule: guard_step.induct)
    (auto simp: guards_tracked_def guard_defs delete_conv' update_conv' split: option.splits)

lemma reachable_tracked: "guard_reachable s \<Longrightarrow> guards_tracked s"
proof (induction rule: guard_reachable.induct)
  case empty
  show ?case by (simp add: guards_tracked_def active_kind_def)
qed (rule guard_step_tracked)


lemma clean_work_blocks_nothing:
  assumes "guard_reachable s" and "\<forall>i. active_kind (gs_mounted s i) = None"
  shows "\<not> navigation_blocked signed_in (gs_work s) current next"
proof -
  from reachable_tracked [OF assms(1)] assms(2) have "map_of (gs_work s) = Map.empty" by (auto simp: guards_tracked_def fun_eq_iff)
  then have "gs_work s = []" by simp
  then show ?thesis by (simp add: navigation_blocked_def unsavedWorkState_def)
qed


subsection \<open>Pages and the clock\<close>

lemma paged_clamp_in_range: "paged_clamp (Some n) False page < max 1 n"
  by (auto simp: paged_clamp_def)

lemma reset_render_key [simp]: "rt_key (reset_render initial key s) = key"
  by (simp add: reset_render_def)

lemma clock_never_goes_back:
  assumes "elapsed \<le> elapsed'"
  shows "the (sc_now (clock_tick t (Some s) received elapsed)) \<le> the (sc_now (clock_tick t (Some s) received elapsed'))"
  using assms by (simp add: clock_tick_def max_def)

end
