(* ===== verification/Waitlist.thy ===== *)
theory Waitlist
  imports Settings Hooks
begin

section \<open>The waitlist\<close>

text \<open>
  Models \<open>types/waitlist.types.ts\<close>, \<open>api/waitlistApi.ts\<close>, \<open>waitlist/waitlistPresentation.model.ts\<close>, the
  form of \<open>waitlist/WaitlistEntryDialog.tsx\<close> and the filters and actions of \<open>pages/WaitlistPage.tsx\<close>. The form
  sends a new entry under an idempotency key; the last part shows that a key never carries two entries.
\<close>

datatype waitlist_status = WL_WAITING | WL_OFFERED | WL_ACCEPTED | WL_CANCELLED

datatype waitlist_offer_status = WO_OFFERED | WO_ACCEPTED | WO_EXPIRED

record waitlist_entry =
  wle_id :: string
  wle_serviceId :: string
  wle_employeeId :: string
  wle_locationId :: "string option"
  wle_resourceId :: "string option"
  wle_desiredStart :: string
  wle_desiredEnd :: "string option"
  wle_status :: waitlist_status
  wle_offerId :: "string option"
  wle_offerExpiresAt :: "string option"
  wle_reservationId :: "string option"
  wle_version :: int
  wle_serviceName :: "string option"
  wle_employeeName :: "string option"
  wle_locationName :: "string option"
  wle_resourceCode :: "string option"
  wle_resourceName :: "string option"
  wle_offerStatus :: "waitlist_offer_status option"
  wle_createdAt :: "string option"
  wle_serverTime :: "string option"

datatype waitlist_action = WA_DETAILS | WA_EDIT | WA_CANCEL | WA_CALENDAR | WA_CUSTOMER

record waitlist_operational_entry =
  woe_id :: string
  woe_customerId :: string
  woe_customerName :: string
  woe_employeeId :: string
  woe_employeeName :: string
  woe_serviceId :: string
  woe_serviceName :: string
  woe_locationId :: "string option"
  woe_locationName :: "string option"
  woe_resourceId :: "string option"
  woe_resourceName :: "string option"
  woe_resourceCode :: "string option"
  woe_createdAt :: string
  woe_desiredStart :: string
  woe_desiredEnd :: "string option"
  woe_status :: waitlist_status
  woe_offerId :: "string option"
  woe_offerExpiresAt :: "string option"
  woe_offerStatus :: "waitlist_offer_status option"
  woe_serverTime :: string
  woe_stationManageable :: bool
  woe_readOnly :: bool
  woe_version :: int
  woe_customerEmail :: "string option"
  woe_customerActive :: bool
  woe_durationMinutes :: int
  woe_resourceType :: "string option"
  woe_areaId :: "string option"
  woe_areaName :: "string option"
  woe_queueEnteredAt :: string
  woe_internalNote :: "string option"
  woe_createdById :: "string option"
  woe_createdByName :: "string option"
  woe_consentAt :: "string option"
  woe_offerCreatedAt :: "string option"
  woe_offeredResourceId :: "string option"
  woe_offeredResourceName :: "string option"
  woe_reservationId :: "string option"
  woe_allowedActions :: "waitlist_action list"

datatype waitlist_event_type =
    ENTRY_CREATED | ENTRY_UPDATED | OFFER_CREATED | OFFER_EXPIRED | OFFER_INVALIDATED | OFFER_ACCEPTED | ENTRY_CANCELLED

record waitlist_history_event =
  whe_id :: string
  whe_type :: waitlist_event_type
  whe_occurredAt :: string
  whe_actorId :: "string option"
  whe_actorName :: "string option"
  whe_offerId :: "string option"
  whe_reason :: "string option"

record waitlist_detail =
  wdt_entry :: waitlist_operational_entry
  wdt_history :: "waitlist_history_event list"

record waitlist_statistics =
  wst_active :: nat
  wst_waiting :: nat
  wst_offered :: nat
  wst_accepted :: nat
  wst_cancelled :: nat
  wst_expiredOffers :: nat
  wst_periodStart :: string
  wst_periodEnd :: string
  wst_serverTime :: string

record manage_waitlist_input =
  mw_customerId :: string
  mw_serviceId :: string
  mw_employeeId :: string
  mw_locationId :: "string option"
  mw_areaId :: "string option"
  mw_resourceId :: "string option"
  mw_desiredStart :: string
  mw_internalNote :: "string option"
  mw_customerConsent :: bool
  mw_version :: "int option"

datatype waitlist_sort = FIFO | NEWEST | START_ASC | START_DESC

record waitlist_filters =
  wf_status :: "string option" \<comment> \<open>the name of a status, or \<open>ALL\<close>\<close>
  wf_search :: "string option"
  wf_customerId :: "string option"
  wf_date :: "string option"
  wf_serviceId :: "string option"
  wf_locationId :: "string option"
  wf_areaId :: "string option"
  wf_resourceId :: "string option"
  wf_sort :: "waitlist_sort option"
  wf_page :: nat
  wf_size :: nat

subsection \<open>Requests\<close>

fun waitlist_sort_name :: "waitlist_sort \<Rightarrow> string" where
  "waitlist_sort_name FIFO = ''FIFO''"
| "waitlist_sort_name NEWEST = ''NEWEST''"
| "waitlist_sort_name START_ASC = ''START_ASC''"
| "waitlist_sort_name START_DESC = ''START_DESC''"

definition waitlistApi_operational :: "waitlist_filters \<Rightarrow> http_request" where
  "waitlistApi_operational f = api_get ''/waitlist''
     ([(''status'', map_option JStr (wf_status f)), (''search'', map_option JStr (wf_search f)),
       (''customerId'', map_option JStr (wf_customerId f)), (''date'', map_option JStr (wf_date f)),
       (''serviceId'', map_option JStr (wf_serviceId f)), (''locationId'', map_option JStr (wf_locationId f)),
       (''areaId'', map_option JStr (wf_areaId f)), (''resourceId'', map_option JStr (wf_resourceId f)),
       (''sort'', map_option (JStr \<circ> waitlist_sort_name) (wf_sort f))] @ page_params (wf_page f) (wf_size f))"

definition waitlistApi_statistics :: http_request where
  "waitlistApi_statistics = api_get ''/waitlist/statistics'' []"

definition managed_path :: "string \<Rightarrow> string" where
  "managed_path ident = ''/waitlist/management/'' @ encodeURIComponent ident"

definition waitlistApi_detail :: "string \<Rightarrow> http_request" where
  "waitlistApi_detail ident = api_get (managed_path ident) []"

definition waitlistApi_managementScope :: http_request where
  "waitlistApi_managementScope = api_get ''/waitlist/management-scope'' []"

definition manage_body :: "manage_waitlist_input \<Rightarrow> json option" where
  "manage_body i = body [(''customerId'', Some (JStr (mw_customerId i))), (''serviceId'', Some (JStr (mw_serviceId i))),
     (''employeeId'', Some (JStr (mw_employeeId i))), (''locationId'', map_option JStr (mw_locationId i)),
     (''areaId'', map_option JStr (mw_areaId i)), (''resourceId'', map_option JStr (mw_resourceId i)),
     (''desiredStart'', Some (JStr (mw_desiredStart i))), (''internalNote'', map_option JStr (mw_internalNote i)),
     (''customerConsent'', Some (JBool (mw_customerConsent i))), (''version'', map_option jint (mw_version i))]"

definition waitlistApi_createManaged :: "manage_waitlist_input \<Rightarrow> string \<Rightarrow> http_request" where
  "waitlistApi_createManaged i key = with_key key (api_send POST ''/waitlist/management'' (manage_body i))"

definition waitlistApi_updateManaged :: "string \<Rightarrow> manage_waitlist_input \<Rightarrow> http_request" where
  "waitlistApi_updateManaged ident i = api_send PATCH (managed_path ident) (manage_body i)"

definition waitlistApi_cancelManaged :: "string \<Rightarrow> int \<Rightarrow> string \<Rightarrow> http_request" where
  "waitlistApi_cancelManaged ident version reason = api_send DELETE (managed_path ident)
     (body [(''version'', Some (jint version)), (''reason'', Some (JStr reason))])"

definition waitlistApi_mine :: http_request where
  "waitlistApi_mine = api_get ''/waitlist/me'' []"

definition waitlistApi_join :: "string \<Rightarrow> string \<Rightarrow> string option \<Rightarrow> string option \<Rightarrow> string \<Rightarrow> http_request" where
  "waitlistApi_join serviceId employeeId resourceId locationId desiredStart = api_send POST ''/waitlist''
     (body [(''serviceId'', Some (JStr serviceId)), (''employeeId'', Some (JStr employeeId)), (''resourceId'', map_option JStr resourceId),
       (''locationId'', map_option JStr locationId), (''desiredStart'', Some (JStr desiredStart))])"

definition waitlistApi_accept :: "string \<Rightarrow> http_request" where
  "waitlistApi_accept offerId = api_send POST (''/waitlist/offers/'' @ offerId @ ''/accept'') None"

definition waitlistApi_cancel :: "waitlist_entry \<Rightarrow> http_request" where
  "waitlistApi_cancel e = with_params [(''version'', Some (jint (wle_version e)))] (api_send DELETE (''/waitlist/'' @ wle_id e) None)"

subsection \<open>Presentation\<close>

fun waitlistLabels :: "waitlist_status \<Rightarrow> string" where
  "waitlistLabels WL_WAITING = sr ''~Ceka termin''"
| "waitlistLabels WL_OFFERED = ''Ponuda poslata''"
| "waitlistLabels WL_ACCEPTED = sr ''Prihva~qeno''"
| "waitlistLabels WL_CANCELLED = ''Otkazano''"

definition optional_param :: "string \<Rightarrow> string option \<Rightarrow> search_params" where
  \<comment> \<open>\<open>...(v ? { k: v } : {})\<close>\<close>
  "optional_param k v = (case v of Some s \<Rightarrow> if s = '''' then [] else [(k, s)] | None \<Rightarrow> [])"

definition waitlistCalendar :: "platform \<Rightarrow> waitlist_operational_entry \<Rightarrow> string option" where
  "waitlistCalendar P e = map_option (\<lambda>date. ''/calendar?'' @ params_text
     ([(''employeeId'', woe_employeeId e), (''date'', date), (''view'', ''day'')]
      @ optional_param ''resourceId'' (woe_resourceId e) @ optional_param ''locationId'' (woe_locationId e)))
     (dateInBusinessZone P (woe_desiredStart e))"

definition waitlistTexts :: "(string \<times> string) list" where
  "waitlistTexts = [
    (''Slot is available and can be reserved directly'', sr ''Izabrani termin je slobodan. Mo~zete napraviti direktnu rezervaciju.''),
    (''An active waitlist entry already exists'', sr ''Klijent ve~q ima aktivnu prijavu za ovaj termin.''),
    (''Waitlist entry not found'', sr ''Prijava nije prona~dena ili vi~se nije u va~sem opsegu.''),
    (''Customer is not available for booking'', ''Izaberite aktivan nalog klijenta.''),
    (''Selected user is not an active employee'', ''Izabrani zaposleni nije aktivan.''),
    (''Waitlist time must be in the future'', sr ''~Zeljeni termin mora biti u budu~qnosti.''),
    (''Waitlist management is outside your assigned scope'', sr ''Prijava je van va~seg dodeljenog opsega.''),
    (''Station management is not permitted'', ''Nemate pristup izabranom resursu.''),
    (''Resource does not support the selected service'', sr ''Resurs ne podr~zava izabranu uslugu.''),
    (''Resource does not belong to the selected location'', ''Resurs ne pripada izabranom lokalu.''),
    (''Resource does not belong to the selected area'', ''Resurs ne pripada izabranoj zoni.''),
    (''Area does not belong to the selected location'', ''Zona ne pripada izabranom lokalu.''),
    (''Reservation is outside working hours'', ''Ceo termin mora biti unutar radnog vremena.''),
    (''Employee is on approved time off'', ''Zaposleni je odsutan u izabranom terminu.''),
    (''No compatible bookable resource'', sr ''Nema odgovaraju~qeg resursa za izabranu uslugu.''),
    (''Resource or location is inactive or not bookable'', ''Resurs ili lokal nije aktivan ili dostupan za rezervisanje.''),
    (''Area is inactive'', ''Izabrana zona nije aktivna.''), (''Location is inactive'', ''Izabrani lokal nije aktivan.''),
    (''Catalog item is not a service'', ''Izaberite uslugu.''), (''Catalog item not found'', ''Usluga nije dostupna.'')]"

definition waitlistError :: "cause \<Rightarrow> string \<Rightarrow> string" where
  "waitlistError e fallback = (case e of
     PlainError m \<Rightarrow> m
   | _ \<Rightarrow> (case map_of waitlistTexts (or_text (cause_message e) (apiErrorMessage e fallback)) of
        Some t \<Rightarrow> t @ request_suffix e
      | None \<Rightarrow> if isConflictResponse e
          then sr ''Podaci su promenjeni ili akcija vi~se nije dozvoljena. Osve~zite prijavu i poku~sajte ponovo.'' @ request_suffix e
          else apiErrorMessage e fallback))"

definition entry_fallback :: string where
  "entry_fallback = sr ''Prijavu nije mogu~qe sa~cuvati.''"

subsection \<open>The page\<close>

fun sortLabels :: "waitlist_sort \<Rightarrow> string" where
  "sortLabels FIFO = ''Najstarije prijave prvo''"
| "sortLabels NEWEST = ''Najnovije prijave''"
| "sortLabels START_ASC = sr ''Najbli~zi ~zeljeni termin''"
| "sortLabels START_DESC = sr ''Najdalji ~zeljeni termin''"

definition page_status :: "string \<Rightarrow> string option" where
  "page_status s = (if s = ''ALL'' \<or> s \<in> {''WAITING'', ''OFFERED'', ''ACCEPTED'', ''CANCELLED''} then Some s else None)"

definition page_sort :: "string \<Rightarrow> waitlist_sort" where
  "page_sort s = (case find (\<lambda>w. waitlist_sort_name w = s) [FIFO, NEWEST, START_ASC, START_DESC] of Some w \<Rightarrow> w | None \<Rightarrow> FIFO)"

definition waitlist_query :: "(string \<Rightarrow> string) \<Rightarrow> nat \<Rightarrow> nat \<Rightarrow> waitlist_filters" where
  \<comment> \<open>\<open>st\<close> is the state kept in the address\<close>
  "waitlist_query st page sz = \<lparr>wf_status = page_status (st ''status''), wf_search = some_text (st ''search''),
     wf_customerId = some_text (st ''customerId''), wf_date = some_text (st ''date''), wf_serviceId = some_text (st ''serviceId''),
     wf_locationId = some_text (st ''locationId''), wf_areaId = some_text (st ''areaId''), wf_resourceId = some_text (st ''resourceId''),
     wf_sort = Some (page_sort (st ''sort'')), wf_page = page, wf_size = sz\<rparr>"

definition visibleResources :: "(string \<Rightarrow> string) \<Rightarrow> booking_resource list \<Rightarrow> booking_resource list" where
  "visibleResources st rs = filter (\<lambda>r. (st ''serviceId'' = '''' \<or> bkr_serviceId r = st ''serviceId'')
     \<and> (st ''locationId'' = '''' \<or> bkr_locationId r = st ''locationId'') \<and> (st ''areaId'' = '''' \<or> bkr_areaId r = Some (st ''areaId''))) rs"

datatype edit_result = EditIgnored | EditRefused string | EditOpen waitlist_operational_entry

definition waitlist_edit ::
  "auth_user option \<Rightarrow> bool \<Rightarrow> waitlist_operational_entry \<Rightarrow> waitlist_detail + cause \<Rightarrow> edit_result" where
  \<comment> \<open>\<open>fresh\<close> is the answer of the detail request\<close>
  "waitlist_edit actor opening entry fresh =
     (if \<not> hasCapability actor WAITLIST_MANAGE \<or> opening \<or> WA_EDIT \<notin> set (woe_allowedActions entry) then EditIgnored
      else case fresh of
        Inl d \<Rightarrow> if WA_EDIT \<notin> set (woe_allowedActions (wdt_entry d))
          then EditRefused (sr ''Prijava je promenjena i vi~se ne mo~ze da se menja.'') else EditOpen (wdt_entry d)
      | Inr e \<Rightarrow> EditRefused (waitlistError e (sr ''Prijavu nije mogu~qe otvoriti za izmenu.'')))"

definition waitlist_cancel :: "auth_user option \<Rightarrow> waitlist_operational_entry \<Rightarrow> string option \<Rightarrow> http_request option" where
  "waitlist_cancel actor entry reason =
     (if \<not> hasCapability actor WAITLIST_MANAGE \<or> WA_CANCEL \<notin> set (woe_allowedActions entry) then None
      else Some (waitlistApi_cancelManaged (woe_id entry) (woe_version entry) (or_text reason '''')))"

subsection \<open>The form\<close>

record waitlist_form =
  wff_customerId :: string
  wff_serviceId :: string
  wff_employeeId :: string
  wff_locationId :: string
  wff_areaId :: string
  wff_resourceId :: string
  wff_date :: string
  wff_time :: string
  wff_note :: string
  wff_consent :: bool

definition waitlist_form_initial :: "platform \<Rightarrow> auth_user option \<Rightarrow> waitlist_operational_entry option \<Rightarrow> waitlist_form option" where
  \<comment> \<open>None where the stored start is no date and the conversion throws\<close>
  "waitlist_form_initial P actor entry = (case entry of
     None \<Rightarrow> Some \<lparr>wff_customerId = '''', wff_serviceId = '''',
       wff_employeeId = (case actor of Some u \<Rightarrow> if user_role u = EMPLOYEE then user_id u else '''' | None \<Rightarrow> ''''),
       wff_locationId = '''', wff_areaId = '''', wff_resourceId = '''', wff_date = '''', wff_time = '''', wff_note = '''', wff_consent = False\<rparr>
   | Some e \<Rightarrow> map_option (\<lambda>t. \<lparr>wff_customerId = woe_customerId e, wff_serviceId = woe_serviceId e, wff_employeeId = woe_employeeId e,
       wff_locationId = or_text (woe_locationId e) '''', wff_areaId = or_text (woe_areaId e) '''', wff_resourceId = or_text (woe_resourceId e) '''',
       wff_date = take 10 t, wff_time = slice 11 16 t, wff_note = or_text (woe_internalNote e) '''', wff_consent = False\<rparr>)
       (businessInstantToLocal P (woe_desiredStart e)))"

definition waitlist_time :: "platform \<Rightarrow> catalog_item option \<Rightarrow> waitlist_form \<Rightarrow> string \<times> string \<times> string" where
  \<comment> \<open>\<open>start\<close>, \<open>end\<close> and \<open>timeError\<close>\<close>
  "waitlist_time P service f =
     (if wff_date f = '''' \<or> wff_time f = '''' then ('''', '''', '''')
      else case businessLocalToInstant P (wff_date f @ ''T'' @ wff_time f) of
        Inl e \<Rightarrow> ('''', '''', e)
      | Inr start \<Rightarrow> (case Option.bind service ci_durationMinutes of
          None \<Rightarrow> (start, '''', '''')
        | Some d \<Rightarrow> if d = 0 then (start, '''', '''')
            else (case Option.bind (parse P start) (\<lambda>t. time_clip (t + d * 60000)) of
                    Some e \<Rightarrow> (start, toISOString e, '''') | None \<Rightarrow> (start, '''', ''Invalid time value''))))"

record waitlist_scope =
  wsc_allResources :: bool
  wsc_resourceIds :: "string list"
  wsc_locationIds :: "string list"

definition candidates :: "booking_resource list option \<Rightarrow> waitlist_form \<Rightarrow> booking_resource list" where
  "candidates resources f = filter (\<lambda>r. (wff_locationId f = '''' \<or> bkr_locationId r = wff_locationId f)
     \<and> (wff_areaId f = '''' \<or> bkr_areaId r = Some (wff_areaId f))) (case resources of Some rs \<Rightarrow> rs | None \<Rightarrow> [])"

definition in_scope :: "waitlist_scope option \<Rightarrow> booking_resource \<Rightarrow> bool" where
  "in_scope scope r \<longleftrightarrow> (case scope of Some s \<Rightarrow> bkr_id r \<in> set (wsc_resourceIds s) | None \<Rightarrow> False)"

definition scope_all :: "waitlist_scope option \<Rightarrow> bool" where
  "scope_all scope \<longleftrightarrow> (case scope of Some s \<Rightarrow> wsc_allResources s | None \<Rightarrow> False)"

definition permitted :: "waitlist_scope option \<Rightarrow> booking_resource list \<Rightarrow> booking_resource list" where
  "permitted scope rs = filter (\<lambda>r. scope_all scope \<or> in_scope scope r) rs"

definition flexible :: "waitlist_scope option \<Rightarrow> auth_user option \<Rightarrow> booking_resource list \<Rightarrow> waitlist_form \<Rightarrow> bool" where
  "flexible scope actor rs f \<longleftrightarrow> scope_all scope
     \<or> wff_locationId f \<noteq> '''' \<and> map_option user_id actor = Some (wff_employeeId f)
       \<and> (case scope of Some s \<Rightarrow> wff_locationId f \<in> set (wsc_locationIds s) | None \<Rightarrow> False) \<and> (\<forall>r \<in> set rs. in_scope scope r)"

definition waitlist_slot :: "platform \<Rightarrow> availability_response option \<Rightarrow> string \<Rightarrow> string \<Rightarrow> availability_slot option" where
  "waitlist_slot P availability employeeId start = do {
     r \<leftarrow> availability;
     e \<leftarrow> find (\<lambda>e. ea_employeeId e = employeeId) (ar_employees r);
     find (\<lambda>s. parse P (sl_startTime s) \<noteq> None \<and> parse P (sl_startTime s) = parse P start) (ea_slots e) }"

definition slot_free :: "availability_slot option \<Rightarrow> string \<Rightarrow> bool" where
  "slot_free slot error_text \<longleftrightarrow> Option.bind slot sl_status = Some S_AVAILABLE \<or> str_includes ''termin je slobodan'' error_text"

record waitlist_view = \<comment> \<open>what the queries of the form answered\<close>
  wv_actor :: "auth_user option"
  wv_now :: ms
  wv_customerActive :: bool
  wv_service :: "catalog_item option"
  wv_employees :: "user_response list option"
  wv_requiredDataError :: bool
  wv_requiredDataLoading :: bool
  wv_resourcesError :: bool
  wv_areasError :: bool
  wv_scope :: "waitlist_scope option"
  wv_location :: "location_view option"
  wv_area :: "area_view option"
  wv_resources :: "booking_resource list option"
  wv_availability :: "availability_response option"

definition active_employee :: "user_response list option \<Rightarrow> string \<Rightarrow> bool" where
  "active_employee employees ident \<longleftrightarrow> (\<exists>u \<in> set (case employees of Some us \<Rightarrow> us | None \<Rightarrow> []). ur_id u = ident \<and> ur_active u)"

definition waitlist_check :: "platform \<Rightarrow> waitlist_view \<Rightarrow> bool \<Rightarrow> string \<Rightarrow> waitlist_form \<Rightarrow> string" where
  \<comment> \<open>the message that stops the submission, or the empty text\<close>
  "waitlist_check P v editing shown f =
     (let (start, finish, timeError) = waitlist_time P (wv_service v) f;
          rs = candidates (wv_resources v) f;
          slot = waitlist_slot P (wv_availability v) (wff_employeeId f) start
      in if \<not> wv_customerActive v \<or> \<not> (case wv_service v of Some s \<Rightarrow> ci_active s | None \<Rightarrow> False)
            \<or> \<not> active_employee (wv_employees v) (wff_employeeId f) \<or> start = '''' \<or> finish = '''' \<or> timeError \<noteq> ''''
            \<or> (case parse P start of Some t \<Rightarrow> t \<le> wv_now v | None \<Rightarrow> False)
         then first_text [timeError, sr ''Izaberite aktivnog klijenta, uslugu, zaposlenog i budu~qi termin.'']
         else if \<not> editing \<and> \<not> wff_consent f then ''Potvrdite saglasnost klijenta za prijavu.''
         else if wv_requiredDataError v \<or> wv_requiredDataLoading v \<or> wv_resourcesError v \<or> wv_areasError v \<or> wv_scope v = None
         then sr ''Sa~cekajte u~citavanje i proveru svih izbora.''
         else if wff_locationId f \<noteq> '''' \<and> \<not> (case wv_location v of Some l \<Rightarrow> lv_active l | None \<Rightarrow> False)
           \<or> wff_areaId f \<noteq> '''' \<and> \<not> (case wv_area v of Some a \<Rightarrow> av_active a | None \<Rightarrow> False)
         then ''Izaberite aktivan lokal i zonu.''
         else if wff_resourceId f \<noteq> '''' \<and> \<not> (\<exists>r \<in> set (permitted (wv_scope v) rs). bkr_id r = wff_resourceId f \<and> bkr_available r)
           \<or> wff_resourceId f = '''' \<and> \<not> flexible (wv_scope v) (wv_actor v) rs f
         then sr ''Izaberite odgovaraju~qi resurs u svom opsegu.''
         else if slot_free slot shown then sr ''Izabrani termin je slobodan. Mo~zete napraviti direktnu rezervaciju.''
         else if Option.bind slot sl_status = Some S_UNAVAILABLE then ''Izabrani termin nije dostupan za ovu uslugu ili zaposlenog.''
         else '''')"

definition waitlist_input :: "platform \<Rightarrow> waitlist_view \<Rightarrow> waitlist_operational_entry option \<Rightarrow> waitlist_form \<Rightarrow> manage_waitlist_input" where
  "waitlist_input P v entry f = \<lparr>mw_customerId = wff_customerId f, mw_serviceId = wff_serviceId f, mw_employeeId = wff_employeeId f,
     mw_locationId = some_text (wff_locationId f), mw_areaId = some_text (wff_areaId f), mw_resourceId = some_text (wff_resourceId f),
     mw_desiredStart = fst (waitlist_time P (wv_service v) f), mw_internalNote = some_text (trim (wff_note f)),
     mw_customerConsent = wff_consent f, mw_version = map_option woe_version entry\<rparr>"

record waitlist_dialog =
  wd_form :: waitlist_form
  wd_busy :: bool
  wd_error :: string
  wd_uncertain :: bool
  wd_conflict :: bool
  wd_keys :: key_manager
  wd_pending :: "manage_waitlist_input option"
  wd_submitting :: bool

definition waitlist_change :: "(waitlist_form \<Rightarrow> waitlist_form) \<Rightarrow> waitlist_dialog \<Rightarrow> waitlist_dialog" where
  "waitlist_change values d = (if \<not> wd_busy d \<and> \<not> wd_uncertain d then d\<lparr>wd_form := values (wd_form d), wd_error := ''''\<rparr> else d)"

definition waitlist_send ::
  "string \<Rightarrow> waitlist_operational_entry option \<Rightarrow> manage_waitlist_input \<Rightarrow> waitlist_dialog \<Rightarrow> waitlist_dialog \<times> http_request" where
  "waitlist_send generated entry input d = (case entry of
     Some e \<Rightarrow> (d\<lparr>wd_submitting := True, wd_busy := True\<rparr>, waitlistApi_updateManaged (woe_id e) input)
   | None \<Rightarrow> (case km_begin generated (wd_keys d) of (key, keys) \<Rightarrow>
       (d\<lparr>wd_submitting := True, wd_busy := True, wd_keys := keys\<rparr>, waitlistApi_createManaged input key)))"

definition waitlist_submit ::
  "platform \<Rightarrow> string \<Rightarrow> waitlist_view \<Rightarrow> waitlist_operational_entry option \<Rightarrow> waitlist_dialog \<Rightarrow> waitlist_dialog \<times> http_request option" where
  "waitlist_submit P generated v entry d =
     (if wd_submitting d \<or> entry \<noteq> None \<and> wd_conflict d then (d, None)
      else case wd_pending d of
        Some input \<Rightarrow> (case waitlist_send generated entry input (d\<lparr>wd_error := ''''\<rparr>) of (d', rq) \<Rightarrow> (d', Some rq))
      | None \<Rightarrow>
          (let problem = waitlist_check P v (entry \<noteq> None) (wd_error d) (wd_form d); input = waitlist_input P v entry (wd_form d)
           in if problem \<noteq> '''' then (d\<lparr>wd_error := problem\<rparr>, None)
              else (case waitlist_send generated entry input (d\<lparr>wd_error := '''', wd_pending := Some input\<rparr>) of (d', rq) \<Rightarrow> (d', Some rq))))"

definition waitlist_unknown :: "bool \<Rightarrow> cause \<Rightarrow> bool" where
  \<comment> \<open>the dialog's own test for an unknown outcome\<close>
  "waitlist_unknown uncertain e \<longleftrightarrow> is_axios e \<and> (case cause_status e of
     None \<Rightarrow> True
   | Some s \<Rightarrow> s = 425 \<or> 500 \<le> s \<or> uncertain \<and> s \<in> {401, 403} \<or> s = 409 \<and> mentions_key (or_text (cause_message e) ''''))"

definition waitlist_succeeded :: "waitlist_dialog \<Rightarrow> waitlist_dialog" where
  "waitlist_succeeded d = d\<lparr>wd_pending := None, wd_keys := km_succeeded (wd_keys d), wd_uncertain := False, wd_submitting := False, wd_busy := False\<rparr>"

definition waitlist_failed :: "bool \<Rightarrow> cause \<Rightarrow> waitlist_dialog \<Rightarrow> waitlist_dialog" where
  "waitlist_failed editing e d =
     (let unknown = waitlist_unknown (wd_uncertain d) e; keys = km_failed e (wd_keys d)
      in d\<lparr>wd_uncertain := unknown, wd_keys := (if unknown then keys else km_failed e keys),
           wd_pending := (if unknown then wd_pending d else None),
           wd_error := (if unknown then sr ''Ishod zahteva nije potvr~den. Ponovite isti zahtev; podaci su zaklju~cani dok se ishod ne razjasni.''
             else waitlistError e entry_fallback),
           wd_conflict := (if isConflictResponse e then editing else wd_conflict d), wd_submitting := False, wd_busy := False\<rparr>)"

definition waitlist_open :: "waitlist_form \<Rightarrow> waitlist_dialog" where
  "waitlist_open f = \<lparr>wd_form = f, wd_busy = False, wd_error = '''', wd_uncertain = False, wd_conflict = False, wd_keys = new_manager,
     wd_pending = None, wd_submitting = False\<rparr>"

subsection \<open>One entry per key\<close>

record waitlist_system =
  wx_dialog :: waitlist_dialog
  wx_sent :: "(string \<times> http_request) list" \<comment> \<open>the requests that went out, each with the key it carries\<close>

definition logged :: "http_request \<Rightarrow> string \<times> http_request" where
  "logged rq = (the (sent_key rq), rq)"

definition dialog_pair :: "waitlist_dialog \<Rightarrow> string \<times> http_request" where
  \<comment> \<open>the request the dialog will repeat\<close>
  "dialog_pair d = logged (waitlistApi_createManaged (the (wd_pending d)) (the (km_pendingKey (wd_keys d))))"

text \<open>
  The steps of the dialog. \<open>stored\<close> goes on with \<open>onSaved\<close>, which is \<open>saved\<close> of \<open>WaitlistPage.tsx\<close>, the only
  caller: it closes the dialog before it waits, and the refresh of the lists it waits for does not reject.
\<close>

inductive waitlist_step :: "waitlist_system \<Rightarrow> waitlist_system \<Rightarrow> bool" where
  sent: "waitlist_submit P g v None (wx_dialog s) = (d, Some rq) \<Longrightarrow> g \<notin> fst ` set (wx_sent s)
    \<Longrightarrow> waitlist_step s (s\<lparr>wx_dialog := d, wx_sent := wx_sent s @ [logged rq]\<rparr>)"
| stopped: "waitlist_submit P g v None (wx_dialog s) = (d, None) \<Longrightarrow> waitlist_step s (s\<lparr>wx_dialog := d\<rparr>)"
| edited: "waitlist_step s (s\<lparr>wx_dialog := waitlist_change f (wx_dialog s)\<rparr>)"
| stored: "wd_submitting (wx_dialog s) \<Longrightarrow> waitlist_step s (s\<lparr>wx_dialog := waitlist_succeeded (wx_dialog s)\<rparr>)"
| failed: "wd_submitting (wx_dialog s) \<Longrightarrow> waitlist_step s (s\<lparr>wx_dialog := waitlist_failed False e (wx_dialog s)\<rparr>)"
| reopened: "waitlist_step s (s\<lparr>wx_dialog := waitlist_open f\<rparr>)"

definition waitlist_init :: "waitlist_system \<Rightarrow> bool" where
  "waitlist_init s \<longleftrightarrow> (\<exists>f. s = \<lparr>wx_dialog = waitlist_open f, wx_sent = []\<rparr>)"

definition dialog_ok :: "waitlist_dialog \<Rightarrow> bool" where
  "dialog_ok d \<longleftrightarrow> (wd_uncertain d \<longleftrightarrow> km_uncertain (wd_keys d)) \<and> (km_pendingKey (wd_keys d) = None \<longleftrightarrow> wd_pending d = None)"

definition waitlist_ok :: "waitlist_system \<Rightarrow> bool" where
  "waitlist_ok s \<longleftrightarrow> dialog_ok (wx_dialog s)"

definition wx_held :: "waitlist_system \<Rightarrow> (string \<times> http_request) set" where
  "wx_held s = (if wd_pending (wx_dialog s) = None then {} else {dialog_pair (wx_dialog s)})"

lemma unknown_iff_retained:
  "dialog_ok d \<Longrightarrow> waitlist_unknown (wd_uncertain d) e \<longleftrightarrow> retainForRetry e (wd_keys d)"
  by (auto simp: dialog_ok_def waitlist_unknown_def retainForRetry_def or_text_def split: option.splits)

lemma failed_twice: "km_failed e (km_failed e m) = km_failed e m" if "\<not> retainForRetry e m"
proof -
  from that have "\<not> retainForRetry e (m\<lparr>km_uncertain := False, km_key := None\<rparr>)"
    by (auto simp: retainForRetry_def split: option.splits)
  with that show ?thesis by (simp add: km_failed_def)
qed

lemma waitlist_failed_ok:
  assumes "dialog_ok d"
  shows "dialog_ok (waitlist_failed editing e d)"
    and "wd_pending (waitlist_failed editing e d) = None
      \<or> wd_pending (waitlist_failed editing e d) = wd_pending d \<and> dialog_pair (waitlist_failed editing e d) = dialog_pair d"
  using assms unknown_iff_retained [OF assms, of e]
  by (auto simp: dialog_ok_def waitlist_failed_def Let_def failed_twice)
    (auto simp: km_failed_def km_pendingKey_def dialog_pair_def)

lemma logged_create [simp]: "logged (waitlistApi_createManaged input key) = (key, waitlistApi_createManaged input key)"
  by (simp add: logged_def sent_key_def waitlistApi_createManaged_def with_key_def api_send_def)

lemma waitlist_send_create:
  assumes "waitlist_send g None input d = (d', rq)" and "dialog_ok (d\<lparr>wd_pending := w\<rparr>)" and "wd_pending d = Some input"
  shows "dialog_ok d'" "dialog_pair d' = logged rq" "wd_pending d' = Some input"
    "fst (dialog_pair d') = (case km_pendingKey (wd_keys d) of Some k \<Rightarrow> k | None \<Rightarrow> g)"
    "logged rq = (case km_pendingKey (wd_keys d) of Some k \<Rightarrow> k | None \<Rightarrow> g,
       waitlistApi_createManaged input (case km_pendingKey (wd_keys d) of Some k \<Rightarrow> k | None \<Rightarrow> g))"
  using assms by (auto simp: waitlist_send_def km_begin_def km_pendingKey_def dialog_ok_def dialog_pair_def split: option.splits)

lemma waitlist_submit_sends:
  assumes "waitlist_submit P g v None d = (d', Some rq)" and "dialog_ok d"
  shows "dialog_ok d'" and "dialog_pair d' = logged rq" and "wd_pending d' \<noteq> None"
    and "wd_pending d \<noteq> None \<and> logged rq = dialog_pair d \<or> wd_pending d = None \<and> fst (logged rq) = g"
proof -
  from assms(1) obtain e input where s: "waitlist_send g None input e = (d', rq)" and e: "wd_pending e = Some input"
      and k: "wd_keys e = wd_keys d" "wd_uncertain e = wd_uncertain d" "wd_pending d = None \<or> wd_pending d = Some input"
    by (auto simp: waitlist_submit_def Let_def split: if_splits option.splits prod.splits)
  have ok: "dialog_ok (e\<lparr>wd_pending := wd_pending d\<rparr>)" using assms(2) k by (simp add: dialog_ok_def)
  note c = waitlist_send_create [OF s ok e]
  show "dialog_ok d'" "dialog_pair d' = logged rq" "wd_pending d' \<noteq> None" using c(1,2,3) by simp_all
  show "wd_pending d \<noteq> None \<and> logged rq = dialog_pair d \<or> wd_pending d = None \<and> fst (logged rq) = g"
    using c(5) k(1,3) assms(2) by (auto simp: dialog_pair_def dialog_ok_def)
qed

lemma waitlist_submit_stops:
  "waitlist_submit P g v None d = (d', None) \<Longrightarrow> wd_pending d' = wd_pending d \<and> wd_keys d' = wd_keys d \<and> wd_uncertain d' = wd_uncertain d"
  by (auto simp: waitlist_submit_def Let_def split: if_splits option.splits prod.splits)

lemma waitlist_step_ok: "waitlist_ok s \<Longrightarrow> waitlist_step s t \<Longrightarrow> waitlist_ok t"
proof (erule waitlist_step.cases)
  fix P g v s' d rq
  assume "waitlist_ok s" "s = s'" "t = s'\<lparr>wx_dialog := d, wx_sent := wx_sent s' @ [logged rq]\<rparr>"
    "waitlist_submit P g v None (wx_dialog s') = (d, Some rq)"
  then show "waitlist_ok t" using waitlist_submit_sends(1) by (simp add: waitlist_ok_def)
next
  fix P g v s' d
  assume "waitlist_ok s" "s = s'" "t = s'\<lparr>wx_dialog := d\<rparr>" "waitlist_submit P g v None (wx_dialog s') = (d, None)"
  then show "waitlist_ok t" using waitlist_submit_stops by (simp add: waitlist_ok_def dialog_ok_def)
next
  fix s' e
  assume "waitlist_ok s" "s = s'" "t = s'\<lparr>wx_dialog := waitlist_failed False e (wx_dialog s')\<rparr>"
  then show "waitlist_ok t" using waitlist_failed_ok(1) by (simp add: waitlist_ok_def)
qed (auto simp: waitlist_ok_def dialog_ok_def waitlist_change_def waitlist_succeeded_def waitlist_open_def km_laws km_succeeded_def
    new_manager_def km_pendingKey_def)

lemma waitlist_step_sends:
  assumes "waitlist_ok s" and "waitlist_step s t"
  shows "wx_sent t = wx_sent s \<and> wx_held t \<subseteq> wx_held s
    \<or> (\<exists>k r. wx_sent t = wx_sent s @ [(k, r)] \<and> wx_held t \<subseteq> insert (k, r) (wx_held s)
         \<and> ((k, r) \<in> wx_held s \<or> k \<notin> fst ` set (wx_sent s)))"
  using assms(2)
proof cases
  case (sent P g v d rq)
  have ok: "dialog_ok (wx_dialog s)" using assms(1) by (simp add: waitlist_ok_def)
  note c = waitlist_submit_sends [OF sent(2) ok]
  obtain k r where p: "logged rq = (k, r)" by fastforce
  from c(4) p sent(3) have "(k, r) \<in> wx_held s \<or> k \<notin> fst ` set (wx_sent s)" by (auto simp: wx_held_def)
  with p sent(1) c(2,3) show ?thesis by (auto simp: wx_held_def)
next
  case (stopped P g v d)
  with waitlist_submit_stops [OF stopped(2)] show ?thesis by (simp add: wx_held_def dialog_pair_def)
next
  case (failed e)
  from assms(1) waitlist_failed_ok(2) [of "wx_dialog s" False e] failed show ?thesis by (auto simp: wx_held_def waitlist_ok_def)
qed (auto simp: wx_held_def waitlist_change_def waitlist_succeeded_def waitlist_open_def dialog_pair_def)

interpretation waitlists: idempotent_sender waitlist_init waitlist_step wx_sent wx_held waitlist_ok
proof unfold_locales
  show "waitlist_ok s \<and> wx_sent s = [] \<and> wx_held s = {}" if "waitlist_init s" for s
    using that by (auto simp: waitlist_init_def waitlist_ok_def dialog_ok_def wx_held_def waitlist_open_def new_manager_def km_pendingKey_def)
qed (fact waitlist_step_ok, fact waitlist_step_sends)

text \<open>
  Property C27: the dialog of the staff never sends one idempotency key with two different requests: in every history
  of edits, submissions, lost answers and repetitions two requests that went out with the same key are equal, address
  and body included. Its own test for an unknown outcome and the one of the key manager agree in every state it
  reaches, so that the stored entry and the stored key are kept together and dropped together.
\<close>
theorem waitlist_key_determines_entry:
  assumes "waitlists.reach s"
  shows "((k, rq) \<in> set (wx_sent s) \<longrightarrow> (k, rq') \<in> set (wx_sent s) \<longrightarrow> rq = rq')
    \<and> (waitlist_unknown (wd_uncertain (wx_dialog s)) e \<longleftrightarrow> retainForRetry e (wd_keys (wx_dialog s)))
    \<and> (km_pendingKey (wd_keys (wx_dialog s)) = None \<longleftrightarrow> wd_pending (wx_dialog s) = None)"
proof (intro conjI impI)
  from waitlists.reach_inv [OF assms] have "dialog_ok (wx_dialog s)" by (simp add: waitlist_ok_def)
  then show "waitlist_unknown (wd_uncertain (wx_dialog s)) e \<longleftrightarrow> retainForRetry e (wd_keys (wx_dialog s))"
    and "km_pendingKey (wd_keys (wx_dialog s)) = None \<longleftrightarrow> wd_pending (wx_dialog s) = None"
    by (fact unknown_iff_retained, simp add: dialog_ok_def)
qed (rule waitlists.key_determines_request [OF assms], assumption+)

definition sample_service :: catalog_item where
  "sample_service = (sample_item ''s1'')\<lparr>ci_active := True, ci_durationMinutes := Some 60\<rparr>"

definition sample_waitlist_form :: waitlist_form where
  "sample_waitlist_form = \<lparr>wff_customerId = ''c1'', wff_serviceId = ''s1'', wff_employeeId = ''e1'', wff_locationId = '''', wff_areaId = '''',
     wff_resourceId = '''', wff_date = ''2026-07-01'', wff_time = ''12:30'', wff_note = '''', wff_consent = True\<rparr>"

definition sample_view :: waitlist_view where
  "sample_view = \<lparr>wv_actor = None, wv_now = 0, wv_customerActive = True, wv_service = Some sample_service, wv_employees = Some [sample_staff],
     wv_requiredDataError = False, wv_requiredDataLoading = False, wv_resourcesError = False, wv_areasError = False,
     wv_scope = Some \<lparr>wsc_allResources = True, wsc_resourceIds = [], wsc_locationIds = []\<rparr>, wv_location = None, wv_area = None,
     wv_resources = None, wv_availability = None\<rparr>"

lemma sample_check: "waitlist_check belgrade_2026 sample_view False '''' sample_waitlist_form = ''''"
proof -
  have w: "wall_text 1782909000000 = ''2026-07-01T12:30''"
    by (simp add: wall_text_def wall_date_def wall_clock_def era_year_def iso_eval)
  note i = summer_instant [of 1782909000000, unfolded w, simplified]
  have t: "toISOString 1782901800000 \<noteq> ''''" "toISOString 1782905400000 \<noteq> ''''" by (simp_all add: iso_eval)
  have c: "time_clip (1782901800000 + 60 * 60000) = Some 1782905400000" by (simp add: time_clip_def)
  have "waitlist_time belgrade_2026 (Some sample_service) sample_waitlist_form = (toISOString 1782901800000, toISOString 1782905400000, '''')"
    using i c by (simp add: waitlist_time_def sample_waitlist_form_def sample_service_def)
  with i t show ?thesis
    by (simp add: waitlist_check_def sample_view_def) (simp add: sample_waitlist_form_def sample_service_def active_employee_def sample_staff_def
        flexible_def scope_all_def waitlist_slot_def slot_free_def str_includes_def)
qed

theorem waitlist_key_determines_entry_witness:
  "\<exists>s rq. waitlists.reach s \<and> sent_key rq = Some ''k1'' \<and> (''k1'', rq) \<in> set (wx_sent s)
     \<and> {p \<in> set (wx_sent s). fst p = ''k1''} = {(''k1'', rq)}"
proof -
  let ?s = "\<lparr>wx_dialog = waitlist_open sample_waitlist_form, wx_sent = []\<rparr>"
  obtain d rq where d: "waitlist_submit belgrade_2026 ''k1'' sample_view None (wx_dialog ?s) = (d, Some rq)"
    and k: "sent_key rq = Some ''k1''"
    by (simp add: waitlist_submit_def waitlist_open_def sample_check Let_def waitlist_send_def km_begin_def new_manager_def
        sent_key_def waitlistApi_createManaged_def with_key_def api_send_def)
  let ?t = "?s\<lparr>wx_dialog := d, wx_sent := wx_sent ?s @ [logged rq]\<rparr>"
  have "waitlists.reach ?s" by (rule waitlists.reach.start) (unfold waitlist_init_def, rule exI, rule refl)
  moreover have "waitlist_step ?s ?t" by (rule waitlist_step.sent [OF d]) simp
  ultimately have t: "waitlists.reach ?t" by (rule waitlists.reach.next_step)
  have m: "(''k1'', rq) \<in> set (wx_sent ?t)" using k by (simp add: logged_def)
  from m have "{p \<in> set (wx_sent ?t). fst p = ''k1''} = {(''k1'', rq)}"
    by (rule entries_of_key) (rule waitlist_key_determines_entry [OF t, THEN conjunct1, rule_format, OF _ m])
  with t k m show ?thesis by blast
qed

end
