(* ===== verification/Reports.thy ===== *)
theory Reports
  imports Settings
begin

section \<open>Reports\<close>

text \<open>
  Models \<open>types/report.types.ts\<close>, \<open>types/ai.types.ts\<close>, \<open>api/reportApi.ts\<close>, \<open>api/aiApi.ts\<close>,
  \<open>reports/reportPresentation.ts\<close> and the handlers of \<open>pages/ReportsPage.tsx\<close> and
  \<open>reports/ReportScheduleDialog.tsx\<close>. An error that the code throws is \<open>Inl\<close> of its message.
\<close>

datatype report_format = CSV | XLSX | PDF

datatype report_status = RP_QUEUED | RP_RUNNING | RP_COMPLETED | RP_FAILED | RP_CANCELLED | RP_EXPIRED

record report_definition =
  rd_key :: string
  rd_label :: string
  rd_metricDefinition :: string
  rd_formats :: "report_format list"

record report_item =
  ri_id :: string
  ri_definitionKey :: string
  ri_format :: report_format
  ri_status :: report_status
  ri_progress :: int
  ri_rowCount :: "nat option"
  ri_documentId :: "string option"
  ri_errorMessage :: "string option"
  ri_snapshotAt :: string
  ri_expiresAt :: "string option"
  ri_version :: int

record report_schedule =
  rsc_id :: string
  rsc_definitionKey :: string
  rsc_format :: report_format
  rsc_timezone :: string
  rsc_localTime :: string
  rsc_dayOfWeek :: "nat option"
  rsc_active :: bool
  rsc_nextRunAt :: string
  rsc_version :: int

record report_template =
  rt_id :: string
  rt_name :: string
  rt_definitionKey :: string
  rt_format :: report_format
  rt_filters :: string
  rt_version :: int

record generate_report =
  gr_definitionKey :: string
  gr_format :: report_format
  gr_from :: string
  gr_to :: string
  gr_timezone :: string
  gr_locale :: string

subsection \<open>Requests\<close>

fun format_name :: "report_format \<Rightarrow> string" where
  "format_name CSV = ''CSV''"
| "format_name XLSX = ''XLSX''"
| "format_name PDF = ''PDF''"

definition generate_fields :: "generate_report \<Rightarrow> (string \<times> json option) list" where
  "generate_fields g = [(''definitionKey'', Some (JStr (gr_definitionKey g))), (''format'', Some (JStr (format_name (gr_format g)))),
     (''from'', Some (JStr (gr_from g))), (''to'', Some (JStr (gr_to g))), (''timezone'', Some (JStr (gr_timezone g))),
     (''locale'', Some (JStr (gr_locale g)))]"

definition reportApi_definitions :: http_request where
  "reportApi_definitions = api_get ''/reports/definitions'' []"

definition reportApi_list :: "nat \<Rightarrow> nat \<Rightarrow> http_request" where
  "reportApi_list page sz = api_get ''/reports'' (page_params page sz)"

definition reportApi_generate :: "generate_report \<Rightarrow> http_request" where
  "reportApi_generate g = api_send POST ''/reports'' (body (generate_fields g))"

definition reportApi_cancel :: "string \<Rightarrow> http_request" where
  "reportApi_cancel ident = api_send POST (''/reports/'' @ ident @ ''/cancel'') None"

definition reportApi_download :: "string \<Rightarrow> http_request" where
  "reportApi_download ident = api_get (''/reports/'' @ ident @ ''/download'') []"

definition reportApi_schedules :: "nat \<Rightarrow> nat \<Rightarrow> http_request" where
  "reportApi_schedules page sz = api_get ''/reports/schedules'' (page_params page sz)"

definition reportApi_createSchedule :: "generate_report \<Rightarrow> string \<Rightarrow> nat option \<Rightarrow> http_request" where
  "reportApi_createSchedule g localTime dayOfWeek = api_send POST ''/reports/schedules'' (body (generate_fields g
     @ [(''localTime'', Some (JStr localTime)), (''dayOfWeek'', Some (case dayOfWeek of Some d \<Rightarrow> jnat d | None \<Rightarrow> JNull))]))"

definition reportApi_removeSchedule :: "string \<Rightarrow> http_request" where
  "reportApi_removeSchedule ident = api_send DELETE (''/reports/schedules/'' @ ident) None"

definition reportApi_templates :: http_request where
  "reportApi_templates = api_get ''/reports/templates'' []"

definition reportApi_createTemplate :: "string \<Rightarrow> generate_report \<Rightarrow> http_request" where
  "reportApi_createTemplate name g = api_send POST ''/reports/templates'' (body [(''name'', Some (JStr name)),
     (''definitionKey'', Some (JStr (gr_definitionKey g))), (''format'', Some (JStr (format_name (gr_format g)))),
     (''from'', Some (JStr (gr_from g))), (''to'', Some (JStr (gr_to g)))])"

subsection \<open>Presentation\<close>

definition reportLabels :: "(string \<times> string) list" where
  "reportLabels = [(''gaming-finance'', ''Gaming finansije''), (''orders'', sr ''Narud~zbine''), (''reservations'', ''Rezervacije''),
     (''revenue'', sr ''Iznosi po statusu narud~zbina''), (''workload'', sr ''Optere~qenje zaposlenih'')]"

definition reportDefinitions :: "(string \<times> string) list" where
  "reportDefinitions = [
    (''gaming-finance'', ''Interna evidencija gaming uplata, refundacija, dopuna i paketa. Nije fiskalni izvestaj.''),
    (''orders'', sr ''Narud~zbine kreirane u izabranom periodu, sa statusom i ukupnim iznosom.''),
    (''reservations'', sr ''Rezervacije koje po~cinju u izabranom periodu, sa zaposlenim i trajanjem.''),
    (''revenue'', sr ''Broj narud~zbina i bruto iznos grupisani po statusu. Iznosi nezavr~senih narud~zbina nisu realizovan prihod; gaming minuti se ne napla~quju ovim izve~stajem.''),
    (''workload'', sr ''Optere~qenje zaposlenih na osnovu rezervacija u izabranom periodu.'')]"

definition reportDay :: "platform \<Rightarrow> string \<Rightarrow> int \<Rightarrow> string option" where
  "reportDay P value delta = do {
     date \<leftarrow> parse P (value @ ''T12:00:00Z'');
     date \<leftarrow> setUTCDate (getUTCDate date + delta) date;
     Some (iso_slice date) }"

definition reportPreset :: "platform \<Rightarrow> ms \<Rightarrow> string \<Rightarrow> (string \<times> string) option" where
  "reportPreset P now preset = (let today = todayInBusinessZone P now in do {
     to \<leftarrow> reportDay P today 1;
     start \<leftarrow> (if preset = ''today'' then Some today
       else if preset = ''week'' then reportDay P today (-6)
       else if preset = ''month'' then Some (take 8 today @ ''01'')
       else reportDay P today (-29));
     Some (start, to) })"

definition period_text :: string where
  "period_text = sr ''Period mora biti pozitivan i najvi~se 366 dana.''"

definition period_refused :: "ms option \<Rightarrow> ms option \<Rightarrow> bool" where
  \<comment> \<open>comparisons with NaN are false\<close>
  "period_refused s e = (case (s, e) of (Some s, Some e) \<Rightarrow> e \<le> s \<or> 366 < (e - s) div 86400000 | _ \<Rightarrow> False)"

definition reportPeriod :: "platform \<Rightarrow> string \<Rightarrow> string \<Rightarrow> string + (string \<times> string)" where
  "reportPeriod P start finish =
     (case businessLocalToInstant P (start @ ''T00:00'') of
        Inl m \<Rightarrow> Inl m
      | Inr s \<Rightarrow> (case businessLocalToInstant P (finish @ ''T00:00'') of
          Inl m \<Rightarrow> Inl m
        | Inr e \<Rightarrow> if period_refused (parse P s) (parse P e) then Inl period_text else Inr (s, e)))"

record template_period =
  tp_from :: string
  tp_to :: string
  tp_exact :: "string \<times> string"

definition templatePeriod :: "platform \<Rightarrow> report_template \<Rightarrow> string + template_period" where
  "templatePeriod P t =
     (case split_on CHR ''|'' (rt_filters t) of
        a # b # _ \<Rightarrow>
          (case (businessInstantToLocal P a, businessInstantToLocal P b) of
             (Some x, Some y) \<Rightarrow>
               if a = '''' \<or> b = '''' \<or> parse P a = None \<or> parse P b = None then Inl (sr ''Period ovog ~sablona nije dostupan.'')
               else Inr \<lparr>tp_from = take 10 x, tp_to = take 10 y, tp_exact = (a, b)\<rparr>
           | _ \<Rightarrow> Inl (sr ''Period ovog ~sablona nije dostupan.''))
      | _ \<Rightarrow> Inl (sr ''Period ovog ~sablona nije dostupan.''))"

subsection \<open>The page\<close>

record report_form =
  rf_definition :: string
  rf_format :: report_format
  rf_from :: string
  rf_to :: string
  rf_templateRange :: "(string \<times> string) option"
  rf_error :: string

definition report_payload :: "platform \<Rightarrow> string \<Rightarrow> report_form \<Rightarrow> string + generate_report" where
  \<comment> \<open>\<open>language\<close> is \<open>navigator.language\<close>\<close>
  "report_payload P language f =
     (case (case rf_templateRange f of Some r \<Rightarrow> Inr r | None \<Rightarrow> reportPeriod P (rf_from f) (rf_to f)) of
        Inl m \<Rightarrow> Inl m
      | Inr (a, b) \<Rightarrow> Inr \<lparr>gr_definitionKey = rf_definition f, gr_format = rf_format f, gr_from = a, gr_to = b,
          gr_timezone = ''Europe/Belgrade'', gr_locale = language\<rparr>)"

definition report_preset :: "platform \<Rightarrow> ms \<Rightarrow> string \<Rightarrow> report_form \<Rightarrow> report_form option" where
  "report_preset P now value f = map_option (\<lambda>(a, b). f\<lparr>rf_templateRange := None, rf_from := a, rf_to := b\<rparr>) (reportPreset P now value)"

definition chooseTemplate :: "platform \<Rightarrow> report_template list \<Rightarrow> string \<Rightarrow> report_form \<Rightarrow> report_form" where
  "chooseTemplate P templates ident f = (case find (\<lambda>t. rt_id t = ident) templates of
     None \<Rightarrow> f
   | Some t \<Rightarrow> (case templatePeriod P t of
        Inl m \<Rightarrow> f\<lparr>rf_error := apiErrorMessage (PlainError m) (sr ''~Sablon nije mogu~qe primeniti.'')\<rparr>
      | Inr p \<Rightarrow> f\<lparr>rf_templateRange := Some (tp_exact p), rf_definition := rt_definitionKey t, rf_format := rt_format t,
          rf_from := tp_from p, rf_to := tp_to p, rf_error := ''''\<rparr>))"

definition saveTemplate :: "platform \<Rightarrow> string \<Rightarrow> string \<Rightarrow> report_form \<Rightarrow> http_request option \<times> report_form" where
  \<comment> \<open>with the confirmed name\<close>
  "saveTemplate P language name f = (case report_payload P language f of
     Inl m \<Rightarrow> (None, f\<lparr>rf_error := apiErrorMessage (PlainError m) ''Proverite datumski period.''\<rparr>)
   | Inr g \<Rightarrow> (Some (reportApi_createTemplate name g), f))"

definition generate :: "platform \<Rightarrow> string \<Rightarrow> report_form \<Rightarrow> http_request option \<times> report_form" where
  "generate P language f = (case report_payload P language f of
     Inl m \<Rightarrow> (None, f\<lparr>rf_error := apiErrorMessage (PlainError m) ''Generisanje nije pokrenuto.''\<rparr>)
   | Inr g \<Rightarrow> (Some (reportApi_generate g), f))"

definition generate_failed :: "cause \<Rightarrow> report_form \<Rightarrow> report_form" where
  "generate_failed e f = f\<lparr>rf_error := apiErrorMessage e ''Generisanje nije pokrenuto.''\<rparr>"

definition history_interval :: "report_item list option \<Rightarrow> nat option" where
  \<comment> \<open>milliseconds between two reads of the history\<close>
  "history_interval items = (case items of
     Some xs \<Rightarrow> if \<exists>i \<in> set xs. ri_status i \<in> {RP_QUEUED, RP_RUNNING} then Some 5000 else None | None \<Rightarrow> None)"

definition download_name :: "report_item \<Rightarrow> string" where
  "download_name i = ri_definitionKey i @ ''.'' @ to_lower (format_name (ri_format i))"

definition schedule_dirty :: "string \<Rightarrow> string \<Rightarrow> string \<Rightarrow> generate_report \<Rightarrow> bool" where
  "schedule_dirty time day zone g \<longleftrightarrow> time \<noteq> ''08:00'' \<or> day \<noteq> ''1'' \<or> zone \<noteq> gr_timezone g"

definition schedule_save :: "bool \<Rightarrow> string \<Rightarrow> string \<Rightarrow> string \<Rightarrow> generate_report \<Rightarrow> http_request option" where
  \<comment> \<open>\<open>day\<close> is a digit of the select, or empty for every day\<close>
  "schedule_save locked time day zone g =
     (if locked then None
      else Some (reportApi_createSchedule (g\<lparr>gr_timezone := zone\<rparr>) time (if day = '''' then None else Some (read_nat day))))"

subsection \<open>Periods\<close>

lemma take_digits_length: "take_digits n s = Some (k, r) \<Longrightarrow> length s = n + length r"
  by (auto simp: take_digits_def split: if_splits)

lemma lit_length: "lit c s = Some r \<Longrightarrow> length s = Suc (length r)"
  by (cases s) (auto split: if_splits)

lemma local_match_length: "local_match v = Some x \<Longrightarrow> length v = 16"
  by (auto simp: local_match_def split: bind_splits if_splits dest!: take_digits_length lit_length)

lemma local_search_iso: "local_search P value desired n c = Some i \<Longrightarrow> \<exists>t. i = toISOString t"
  by (induction n arbitrary: c) (auto simp: Let_def split: option.splits if_splits)

lemma local_instant_shape:
  assumes "businessLocalToInstant P v = Inr i"
  shows "length v = 16 \<and> (\<exists>t. i = toISOString t)"
  using assms local_match_length local_search_iso
  by (fastforce simp: businessLocalToInstant_def simp del: local_search.simps split: option.splits)

lemma pad_num_no_bar: "CHR ''|'' \<notin> set (pad_num n k)"
  using show_nat_digits [of "CHR ''|''" "nat k"] by (auto simp: pad_num_def pad_start_def is_digit_def less_eq_char_def)

lemma toISOString_no_bar: "CHR ''|'' \<notin> set (toISOString t)" "toISOString t \<noteq> ''''"
  by (auto simp: toISOString_def iso_day_def iso_year_def pad_num_no_bar Let_def split: prod.splits)

lemma split_on_single: "sep \<notin> set w \<Longrightarrow> split_on sep w = [w]"
  by (induction w) auto

lemma split_on_pair: "sep \<notin> set w \<Longrightarrow> split_on sep (w @ sep # v) = w # split_on sep v"
  by (induction w) auto

lemma reportPeriod_instants:
  assumes "reportPeriod P f t = Inr (a, b)"
  shows "businessLocalToInstant P (f @ ''T00:00'') = Inr a" and "businessLocalToInstant P (t @ ''T00:00'') = Inr b"
    and "\<not> period_refused (parse P a) (parse P b)"
  using assms by (auto simp: reportPeriod_def split: sum.splits if_splits)

text \<open>
  The period of a report that is sent begins and ends at the local midnights of the entered
  dates, is positive and shorter than 367 times 24 hours.
\<close>
theorem report_period_is_bounded:
  assumes "report_payload P language f = Inr g" and "rf_templateRange f = None"
  shows "(\<exists>s e. parse P (gr_from g) = Some s \<and> parse P (gr_to g) = Some e \<and> s < e \<and> e - s < 367 * 86400000)
    \<and> businessInstantToLocal P (gr_from g) = Some (rf_from f @ ''T00:00'')
    \<and> businessInstantToLocal P (gr_to g) = Some (rf_to f @ ''T00:00'')"
proof (intro conjI)
  from assms have r: "reportPeriod P (rf_from f) (rf_to f) = Inr (gr_from g, gr_to g)"
    by (auto simp: report_payload_def split: sum.splits)
  note i = reportPeriod_instants [OF r]
  note j = instant_of_local [OF i(1)] instant_of_local [OF i(2)]
  then obtain s e where p: "parse P (gr_from g) = Some s" "parse P (gr_to g) = Some e" by auto
  with i(3) have "s < e" "(e - s) div 86400000 \<le> 366" by (auto simp: period_refused_def)
  moreover from this(2) have "e - s < 367 * 86400000" by linarith
  ultimately show "\<exists>s e. parse P (gr_from g) = Some s \<and> parse P (gr_to g) = Some e \<and> s < e \<and> e - s < 367 * 86400000"
    using p by blast
  show "businessInstantToLocal P (gr_from g) = Some (rf_from f @ ''T00:00'')"
    and "businessInstantToLocal P (gr_to g) = Some (rf_to f @ ''T00:00'')" using j by simp_all
qed

definition sample_report :: report_form where
  "sample_report = \<lparr>rf_definition = ''orders'', rf_format = CSV, rf_from = ''2026-07-01'', rf_to = ''2026-07-03'',
     rf_templateRange = None, rf_error = ''''\<rparr>"

lemma sample_period:
  "reportPeriod belgrade_2026 ''2026-07-01'' ''2026-07-03'' = Inr (toISOString 1782856800000, toISOString 1783029600000)"
proof -
  have w: "wall_text 1782864000000 = ''2026-07-01T00:00''" "wall_text 1783036800000 = ''2026-07-03T00:00''"
    by (simp_all add: wall_text_def wall_date_def wall_clock_def era_year_def iso_eval)
  note i = summer_instant [of 1782864000000, unfolded w, simplified] summer_instant [of 1783036800000, unfolded w, simplified]
  from i show ?thesis by (simp add: reportPeriod_def period_refused_def)
qed

theorem report_period_is_bounded_witness:
  "\<exists>g s e. report_payload belgrade_2026 ''sr'' sample_report = Inr g \<and> parse belgrade_2026 (gr_from g) = Some s
     \<and> parse belgrade_2026 (gr_to g) = Some e \<and> s < e \<and> e - s < 367 * 86400000"
proof -
  obtain g where g: "report_payload belgrade_2026 ''sr'' sample_report = Inr g"
    using sample_period by (simp add: report_payload_def sample_report_def)
  from report_period_is_bounded [OF g] g show ?thesis by (auto simp: sample_report_def)
qed

text \<open>
  A template gives back its period: the dates read from the stored instants of a template saved
  for two dates are these dates, and its exact instants are sent again unchanged.
\<close>
theorem template_restores_its_period:
  assumes "reportPeriod P f t = Inr (a, b)" and "rt_filters tpl = a @ ''|'' @ b"
  shows "templatePeriod P tpl = Inr \<lparr>tp_from = f, tp_to = t, tp_exact = (a, b)\<rparr>
    \<and> (tpl \<in> set templates \<and> distinct (map rt_id templates) \<longrightarrow>
      report_payload P language (chooseTemplate P templates (rt_id tpl) form)
        = Inr \<lparr>gr_definitionKey = rt_definitionKey tpl, gr_format = rt_format tpl, gr_from = a, gr_to = b,
            gr_timezone = ''Europe/Belgrade'', gr_locale = language\<rparr>)"
proof (intro conjI impI)
  note i = reportPeriod_instants [OF assms(1)]
  note l = instant_of_local [OF i(1)] instant_of_local [OF i(2)]
  note s = local_instant_shape [OF i(1)] local_instant_shape [OF i(2)]
  have n: "CHR ''|'' \<notin> set a" "CHR ''|'' \<notin> set b" "a \<noteq> ''''" "b \<noteq> ''''" using s toISOString_no_bar by auto
  have c: "split_on CHR ''|'' (rt_filters tpl) = [a, b]"
    using n by (simp add: assms(2) split_on_pair split_on_single)
  have d: "take 10 (f @ ''T00:00'') = f" "take 10 (t @ ''T00:00'') = t" using s by simp_all
  show p: "templatePeriod P tpl = Inr \<lparr>tp_from = f, tp_to = t, tp_exact = (a, b)\<rparr>"
    using l n d by (auto simp: templatePeriod_def c)
  show "report_payload P language (chooseTemplate P templates (rt_id tpl) form)
        = Inr \<lparr>gr_definitionKey = rt_definitionKey tpl, gr_format = rt_format tpl, gr_from = a, gr_to = b,
            gr_timezone = ''Europe/Belgrade'', gr_locale = language\<rparr>"
    if m: "tpl \<in> set templates \<and> distinct (map rt_id templates)"
  proof -
    from m obtain t' where t': "find (\<lambda>t. rt_id t = rt_id tpl) templates = Some t'" by (cases "find (\<lambda>t. rt_id t = rt_id tpl) templates") (auto simp: find_None_iff)
    then have "t' \<in> set templates" "rt_id t' = rt_id tpl" by (auto simp: find_Some_iff)
    with m have "t' = tpl" by (metis distinct_map inj_onD)
    with t' p show ?thesis by (simp add: chooseTemplate_def report_payload_def)
  qed
qed

theorem template_restores_its_period_witness:
  "templatePeriod belgrade_2026 \<lparr>rt_id = ''t1'', rt_name = ''Jul'', rt_definitionKey = ''orders'', rt_format = PDF,
     rt_filters = toISOString 1782856800000 @ ''|'' @ toISOString 1783029600000, rt_version = 0\<rparr>
   = Inr \<lparr>tp_from = ''2026-07-01'', tp_to = ''2026-07-03'', tp_exact = (toISOString 1782856800000, toISOString 1783029600000)\<rparr>"
  by (rule template_restores_its_period [OF sample_period, THEN conjunct1]) simp

text \<open>
  The texts that \<open>reportPeriod\<close> and \<open>templatePeriod\<close> throw never reach the user: the handlers format every error
  with \<open>apiErrorMessage\<close>, which gives the fallback for an error that is not the server's.
\<close>
lemma period_message_is_lost:
  assumes "rf_templateRange f = None" and "reportPeriod P (rf_from f) (rf_to f) = Inl m"
  shows "generate P language f = (None, f\<lparr>rf_error := ''Generisanje nije pokrenuto.''\<rparr>)"
    and "saveTemplate P language name f = (None, f\<lparr>rf_error := ''Proverite datumski period.''\<rparr>)"
  using assms by (simp_all add: generate_def saveTemplate_def report_payload_def apiErrorMessage_def is_axios_def)

end
