(* ===== verification/AuditLog.thy ===== *)
theory AuditLog
  imports Settings Hooks Sse
begin

section \<open>The audit log\<close>

text \<open>
  Models \<open>types/audit.types.ts\<close>, \<open>api/auditApi.ts\<close>, \<open>audit/auditDiff.ts\<close>, \<open>audit/auditPresentation.model.ts\<close>
  and the filters of \<open>pages/AuditPage.tsx\<close>. The comparison of two snapshots walks both JSON values at once;
  \<open>absent\<close> is None. A walk that exceeds its limits throws, which is None.
\<close>

datatype audit_category = CREATE | UPDATE | DELETED | DEACTIVATE | OTHER

record audit_event =
  ae_id :: string
  ae_actorId :: string
  ae_actorRole :: role
  ae_action :: string
  ae_resourceType :: string
  ae_resourceId :: string
  ae_beforeData :: "string option"
  ae_afterData :: "string option"
  ae_reason :: "string option"
  ae_occurredAt :: string
  ae_category :: audit_category

record audit_statistics =
  ast_total :: nat
  ast_created :: nat
  ast_updated :: nat
  ast_removed :: nat
  ast_creationActions :: "string list"
  ast_updateActions :: "string list"
  ast_removalActions :: "string list"

record audit_criteria =
  af_action :: "string option"
  af_resourceType :: "string option"
  af_actorId :: "string option"
  af_from :: "string option"
  af_to :: "string option"
  af_search :: "string option"

record audit_filters = audit_criteria +
  af_page :: nat
  af_size :: nat
  af_sort :: "string option"
  af_direction :: "string option"

definition criteria_params :: "'a audit_criteria_scheme \<Rightarrow> (string \<times> json option) list" where
  "criteria_params c = [(''action'', map_option JStr (af_action c)), (''resourceType'', map_option JStr (af_resourceType c)),
     (''actorId'', map_option JStr (af_actorId c)), (''from'', map_option JStr (af_from c)), (''to'', map_option JStr (af_to c)),
     (''search'', map_option JStr (af_search c))]"

definition auditApi_list :: "audit_filters \<Rightarrow> http_request" where
  "auditApi_list f = api_get ''/audit-events'' (criteria_params f @ page_params (af_page f) (af_size f)
     @ [(''sort'', map_option JStr (af_sort f)), (''direction'', map_option JStr (af_direction f))])"

definition auditApi_get :: "string \<Rightarrow> http_request" where
  "auditApi_get ident = api_get (''/audit-events/'' @ ident) []"

definition auditApi_statistics :: "audit_criteria \<Rightarrow> http_request" where
  "auditApi_statistics c = api_get ''/audit-events/statistics'' (criteria_params c)"

subsection \<open>Snapshots\<close>

datatype snapshot_kind = K_missing | K_json | K_text

record snapshot =
  sn_kind :: snapshot_kind
  sn_raw :: string
  sn_value :: "json option" \<comment> \<open>None is \<open>absent\<close>\<close>

definition parseSnapshot :: "(string \<Rightarrow> json option) \<Rightarrow> string option \<Rightarrow> snapshot" where
  \<comment> \<open>\<open>read\<close> is \<open>JSON.parse\<close>, None where it throws\<close>
  "parseSnapshot read raw =
     (if trim (or_text raw '''') = '''' then \<lparr>sn_kind = K_missing, sn_raw = '''', sn_value = None\<rparr>
      else case read (the raw) of
        Some v \<Rightarrow> \<lparr>sn_kind = K_json, sn_raw = the raw, sn_value = Some v\<rparr>
      | None \<Rightarrow> \<lparr>sn_kind = K_text, sn_raw = the raw, sn_value = Some (JStr (the raw))\<rparr>)"

record audit_change =
  ch_path :: string
  ch_label :: string
  ch_before :: "json option"
  ch_after :: "json option"

definition entries_of :: "json option \<Rightarrow> (string \<times> json) list" where
  \<comment> \<open>the entries of an object, none for another value\<close>
  "entries_of v = (case v of Some (JObj kvs) \<Rightarrow> kvs | _ \<Rightarrow> [])"

definition is_object :: "json option \<Rightarrow> bool" where
  "is_object v \<longleftrightarrow> (case v of Some (JObj _) \<Rightarrow> True | _ \<Rightarrow> False)"

definition strict_equal :: "json option \<Rightarrow> json option \<Rightarrow> bool" where
  \<comment> \<open>\<open>===\<close> on two values parsed apart: arrays and objects are never the same reference\<close>
  "strict_equal a b = (case (a, b) of
     (None, None) \<Rightarrow> True
   | (Some JNull, Some JNull) \<Rightarrow> True
   | (Some (JBool x), Some (JBool y)) \<Rightarrow> x = y
   | (Some (JNum x), Some (JNum y)) \<Rightarrow> x = y \<and> x \<noteq> NaN
   | (Some (JStr x), Some (JStr y)) \<Rightarrow> x = y
   | _ \<Rightarrow> False)"

definition pointer :: "string \<Rightarrow> string" where
  \<comment> \<open>\<open>key.replaceAll('~', '~0').replaceAll('/', '~1')\<close>\<close>
  "pointer key = concat (map (\<lambda>c. if c = CHR ''/'' then ''~1'' else [c])
     (concat (map (\<lambda>c. if c = CHR ''~'' then ''~0'' else [c]) key)))"

definition first_seen :: "'a list \<Rightarrow> 'a list" where
  \<comment> \<open>\<open>[...new Set(xs)]\<close>\<close>
  "first_seen xs = rev (remdups (rev xs))"

definition nth_opt :: "'a list \<Rightarrow> nat \<Rightarrow> 'a option" where
  "nth_opt xs i = (if i < length xs then Some (xs ! i) else None)"

type_synonym diff_place = "json option \<times> json option \<times> string \<times> string" \<comment> \<open>left, right, path, label\<close>

definition object_places :: "json option \<Rightarrow> json option \<Rightarrow> string \<Rightarrow> string \<Rightarrow> diff_place list" where
  "object_places left right path label =
     map (\<lambda>key. (map_of (entries_of left) key, map_of (entries_of right) key, path @ ''/'' @ pointer key,
       (if label = '''' then '''' else label @ '' '' @ [CHR 0xE2, CHR 0x80, CHR 0xBA] @ '' '') @ key))
     (first_seen (map fst (entries_of left) @ map fst (entries_of right)))"

definition array_places :: "json list \<Rightarrow> json list \<Rightarrow> string \<Rightarrow> string \<Rightarrow> diff_place list" where
  "array_places xs ys path label =
     map (\<lambda>i. (nth_opt xs i, nth_opt ys i, path @ ''/'' @ show_nat i,
       (if label = '''' then ''Niz'' else label) @ ''['' @ show_nat i @ '']''))
     [0..<max (length xs) (length ys)]"

record diff_state =
  df_visited :: nat
  df_changes :: "audit_change list"

definition push_change :: "diff_place \<Rightarrow> diff_state \<Rightarrow> diff_state" where
  "push_change = (\<lambda>(left, right, path, label) s. s\<lparr>df_changes := df_changes s @
     [\<lparr>ch_path = path, ch_label = (if label = '''' then ''Celo stanje'' else label), ch_before = left, ch_after = right\<rparr>]\<rparr>)"

primrec walk :: "nat \<Rightarrow> diff_place \<Rightarrow> diff_state \<Rightarrow> diff_state option" where
  \<comment> \<open>the first argument is 25 less the depth; None is the thrown limit\<close>
  "walk 0 p s = None"
| "walk (Suc n) p s =
     (let (left, right, path, label) = p; s = s\<lparr>df_visited := df_visited s + 1\<rparr>
      in if 2000 < df_visited s then None
         else if strict_equal left right then Some s
         else if (is_object left \<and> (is_object right \<or> right = None) \<or> is_object right \<and> left = None)
           \<and> object_places left right path label \<noteq> []
         then fold (\<lambda>q st. Option.bind st (walk n q)) (object_places left right path label) (Some s)
         else (case (left, right) of
           (Some (JArr xs), Some (JArr ys)) \<Rightarrow> fold (\<lambda>q st. Option.bind st (walk n q)) (array_places xs ys path label) (Some s)
         | _ \<Rightarrow> if is_object left \<and> is_object right \<and> entries_of left = [] \<and> entries_of right = [] then Some s
             else Some (push_change p s)))"

definition compareSnapshots :: "snapshot \<Rightarrow> snapshot \<Rightarrow> audit_change list \<times> bool" where
  \<comment> \<open>the changes and \<open>limited\<close>\<close>
  "compareSnapshots before after =
     (if sn_kind before = K_text \<or> sn_kind after = K_text
      then (if sn_raw before \<noteq> sn_raw after \<or> sn_kind before \<noteq> sn_kind after
            then [\<lparr>ch_path = '''', ch_label = ''Ceo zapis (tekst)'', ch_before = sn_value before, ch_after = sn_value after\<rparr>]
            else [], False)
      else case walk 25 (sn_value before, sn_value after, '''', '''') \<lparr>df_visited = 0, df_changes = []\<rparr> of
        Some s \<Rightarrow> (df_changes s, False) | None \<Rightarrow> ([], True))"

record json_line =
  jl_text :: string
  jl_path :: string

definition indent :: "nat \<Rightarrow> string" where
  "indent depth = concat (replicate depth ''  '')"

definition line :: "string \<Rightarrow> nat \<Rightarrow> string \<Rightarrow> json_line" where
  "line path depth text = \<lparr>jl_text = indent depth @ text, jl_path = path\<rparr>"

definition line_entries :: "json \<Rightarrow> (string \<times> string \<times> json) list option" where
  \<comment> \<open>key, prefix and value of the entries of a container\<close>
  "line_entries v = (case v of
     JArr xs \<Rightarrow> Some (map (\<lambda>i. (show_nat i, '''', xs ! i)) [0..<length xs])
   | JObj kvs \<Rightarrow> Some (map (\<lambda>(k, x). (k, json_quote k @ '': '', x)) kvs)
   | _ \<Rightarrow> None)"

definition brackets :: "json \<Rightarrow> string \<times> string" where
  "brackets v = (case v of JArr _ \<Rightarrow> (''['', '']'') | _ \<Rightarrow> (''{'', ''}''))"

primrec render :: "(jsnum \<Rightarrow> string) \<Rightarrow> nat \<Rightarrow> nat \<Rightarrow> json \<Rightarrow> string \<Rightarrow> string \<Rightarrow> string \<Rightarrow> json_line list \<Rightarrow> json_line list option" where
  \<comment> \<open>with the levels that are left and the depth\<close>
  "render num 0 depth v path prefix comma lines = None"
| "render num (Suc n) depth v path prefix comma lines =
     (if 3000 < length lines then None
      else case line_entries v of
        None \<Rightarrow> Some (lines @ [line path depth (prefix @ stringify num v @ comma)])
      | Some [] \<Rightarrow> Some (lines @ [line path depth (prefix @ fst (brackets v) @ snd (brackets v) @ comma)])
      | Some es \<Rightarrow> map_option (\<lambda>ls. ls @ [line path depth (snd (brackets v) @ comma)])
          (fold (\<lambda>(i, k, p, x) st. Option.bind st (render num n (depth + 1) x (path @ ''/'' @ pointer k) p
             (if i + 1 < length es then '','' else ''''))) (enumerate 0 es)
             (Some (lines @ [line path depth (prefix @ fst (brackets v))]))))"

definition snapshotLines :: "(jsnum \<Rightarrow> string) \<Rightarrow> snapshot \<Rightarrow> json_line list option" where
  "snapshotLines num s = (case (sn_kind s, sn_value s) of
     (K_json, Some v) \<Rightarrow> render num 25 0 v '''' '''' '''' [] | _ \<Rightarrow> None)"

subsection \<open>The comparison is exact\<close>

fun json_ok :: "json \<Rightarrow> bool" where
  \<comment> \<open>what \<open>JSON.parse\<close> gives: finite numbers and distinct keys\<close>
  "json_ok (JNum n) = is_finite n"
| "json_ok (JArr xs) = (\<forall>x \<in> set xs. json_ok x)"
| "json_ok (JObj kvs) = (distinct (map fst kvs) \<and> (\<forall>kv \<in> set kvs. json_ok (snd kv)))"
| "json_ok _ = True"

abbreviation opt_ok :: "json option \<Rightarrow> bool" where
  "opt_ok v \<equiv> (\<forall>j. v = Some j \<longrightarrow> json_ok j)"

lemma in_array_smaller: "x \<in> set xs \<Longrightarrow> size x < size (JArr xs)"
  by (induction xs) auto

lemma in_object_smaller: "kv \<in> set kvs \<Longrightarrow> size (snd kv) < size (JObj kvs)"
  by (induction kvs) auto

function (sequential) json_same :: "json \<Rightarrow> json \<Rightarrow> bool" where
  \<comment> \<open>equality of JSON values: the order of the keys of an object does not matter\<close>
  "json_same (JArr xs) (JArr ys) = (length xs = length ys \<and> (\<forall>p \<in> set (zip xs ys). json_same (fst p) (snd p)))"
| "json_same (JObj xs) (JObj ys) = (fst ` set xs = fst ` set ys
     \<and> (\<forall>x \<in> set xs. \<forall>y \<in> set ys. fst x = fst y \<longrightarrow> json_same (snd x) (snd y)))"
| "json_same a b = (a = b)"
  by pat_completeness auto

termination
  by (relation "measure (\<lambda>p. size (fst p))")
    (auto simp del: json.size intro: in_array_smaller [OF set_zip_leftD] in_object_smaller [of "(_, _)", simplified])

fun opt_same :: "json option \<Rightarrow> json option \<Rightarrow> bool" where
  "opt_same None None = True"
| "opt_same (Some a) (Some b) = json_same a b"
| "opt_same _ _ = False"

fun get_at :: "json option \<Rightarrow> string list \<Rightarrow> json option" where
  \<comment> \<open>the value at the reference tokens of a JSON pointer\<close>
  "get_at v [] = v"
| "get_at (Some (JObj kvs)) (k # ks) = get_at (map_of kvs k) ks"
| "get_at (Some (JArr xs)) (k # ks) = (case find (\<lambda>i. show_nat i = k) [0..<length xs] of Some i \<Rightarrow> get_at (Some (xs ! i)) ks | None \<Rightarrow> None)"
| "get_at _ (k # ks) = None"

definition pointer_text :: "string list \<Rightarrow> string" where
  "pointer_text ts = concat (map (\<lambda>t. ''/'' @ pointer t) ts)"

definition exact :: "json option \<Rightarrow> json option \<Rightarrow> string \<Rightarrow> audit_change list \<Rightarrow> bool" where
  \<comment> \<open>the changes are empty for the same value only, and each is a difference at its path below \<open>path\<close>\<close>
  "exact l r path cs \<longleftrightarrow> (cs = [] \<longleftrightarrow> opt_same l r)
     \<and> (\<forall>c \<in> set cs. \<not> opt_same (ch_before c) (ch_after c)
          \<and> (\<exists>ts. ch_path c = path @ pointer_text ts \<and> get_at l ts = ch_before c \<and> get_at r ts = ch_after c))"

lemma first_seen_set [simp]: "set (first_seen xs) = set xs"
  by (simp add: first_seen_def)

lemma digits_pointer: "pointer (show_nat i) = show_nat i"
proof -
  have "c \<noteq> CHR ''~'' \<and> c \<noteq> CHR ''/''" if "c \<in> set (show_nat i)" for c
    using show_nat_digits [OF that] by (auto simp: is_digit_def less_eq_char_def)
  then have m: "map (\<lambda>c. if c = CHR ''~'' then ''~0'' else [c]) (show_nat i) = map (\<lambda>c. [c]) (show_nat i)"
      "map (\<lambda>c. if c = CHR ''/'' then ''~1'' else [c]) (show_nat i) = map (\<lambda>c. [c]) (show_nat i)"
    by (auto simp del: show_nat.simps)
  have "concat (map (\<lambda>c. [c]) s) = s" for s :: string by (induction s) auto
  with m show ?thesis unfolding pointer_def by metis
qed

lemma array_token: "i < length xs \<Longrightarrow> get_at (Some (JArr xs)) (show_nat i # ts) = get_at (Some (xs ! i)) ts"
  "length xs \<le> i \<Longrightarrow> get_at (Some (JArr xs)) (show_nat i # ts) = None"
proof -
  have inj: "show_nat i = show_nat j \<longleftrightarrow> i = j" for i j by (metis read_show_nat)
  show "get_at (Some (JArr xs)) (show_nat i # ts) = get_at (Some (xs ! i)) ts" if "i < length xs"
  proof -
    have "find (\<lambda>j. show_nat j = show_nat i) [0..<length xs] = Some i"
      unfolding find_Some_iff inj by (rule exI [of _ i]) (use that in auto)
    then show ?thesis by simp
  qed
  show "get_at (Some (JArr xs)) (show_nat i # ts) = None" if "length xs \<le> i"
  proof -
    have "find (\<lambda>j. show_nat j = show_nat i) [0..<length xs] = None"
      using that by (auto simp: find_None_iff inj)
    then show ?thesis by simp
  qed
qed

lemma get_at_None [simp]: "get_at None ts = None"
  by (cases ts) auto

lemma json_same_prims:
  "\<not> (\<exists>xs. a = JArr xs) \<Longrightarrow> \<not> (\<exists>xs. a = JObj xs) \<Longrightarrow> json_same a b \<longleftrightarrow> a = b"
  by (cases a; cases b) auto

lemma opt_same_None: "opt_same None v \<longleftrightarrow> v = None" "opt_same v None \<longleftrightarrow> v = None"
  by (cases v; simp)+

lemma strict_equal_same:
  assumes "opt_ok l" and "opt_ok r" and "strict_equal l r"
  shows "opt_same l r"
  using assms by (cases l; cases r) (auto simp: strict_equal_def split: json.splits)

lemma opt_same_strict:
  assumes "opt_ok l" and "\<not> strict_equal l r" and "\<not> is_object l" and "\<not> (\<exists>xs. l = Some (JArr xs))"
  shows "\<not> opt_same l r"
proof
  assume s: "opt_same l r"
  show False
  proof (cases l)
    case None
    with s have "r = None" by (cases r) auto
    with None assms(2) show False by (simp add: strict_equal_def)
  next
    case (Some a)
    with s obtain b where b: "r = Some b" and ab: "json_same a b" by (cases r) auto
    have "\<not> (\<exists>xs. a = JArr xs)" "\<not> (\<exists>xs. a = JObj xs)" using assms(3,4) Some by (auto simp: is_object_def)
    from json_same_prims [OF this] ab have "a = b" by simp
    with Some b assms show False
      by (cases a) (auto simp: strict_equal_def is_object_def is_finite_def split: jsnum.splits)
  qed
qed

lemma entries_lookup:
  assumes "opt_ok l" and "is_object l"
  shows "map_of (entries_of l) k = get_at l [k]"
  using assms by (cases l) (auto simp: entries_of_def is_object_def split: json.splits)

lemma object_same:
  assumes "opt_ok l" and "opt_ok r" and "is_object l" and "is_object r"
  shows "opt_same l r \<longleftrightarrow> (\<forall>k \<in> fst ` set (entries_of l) \<union> fst ` set (entries_of r).
    opt_same (map_of (entries_of l) k) (map_of (entries_of r) k))"
proof -
  from assms(3,4) obtain xs ys where o: "l = Some (JObj xs)" "r = Some (JObj ys)"
    by (auto simp: is_object_def split: option.splits json.splits)
  have d: "distinct (map fst xs)" "distinct (map fst ys)" using assms o by auto
  have e: "entries_of l = xs" "entries_of r = ys" using o by (simp_all add: entries_of_def)
  show ?thesis
  proof
    assume s: "opt_same l r"
    then have f: "fst ` set xs = fst ` set ys" and m: "\<And>x y. x \<in> set xs \<Longrightarrow> y \<in> set ys \<Longrightarrow> fst x = fst y \<Longrightarrow> json_same (snd x) (snd y)"
      using o by auto
    show "\<forall>k \<in> fst ` set (entries_of l) \<union> fst ` set (entries_of r). opt_same (map_of (entries_of l) k) (map_of (entries_of r) k)"
    proof
      fix k assume "k \<in> fst ` set (entries_of l) \<union> fst ` set (entries_of r)"
      then have "k \<in> fst ` set xs" "k \<in> fst ` set ys" using f e by auto
      then obtain x y where "(k, x) \<in> set xs" "(k, y) \<in> set ys" by auto
      then show "opt_same (map_of (entries_of l) k) (map_of (entries_of r) k)"
        using m [of "(k, x)" "(k, y)"] d e by simp
    qed
  next
    assume a: "\<forall>k \<in> fst ` set (entries_of l) \<union> fst ` set (entries_of r). opt_same (map_of (entries_of l) k) (map_of (entries_of r) k)"
    have "k \<in> fst ` set xs \<longleftrightarrow> k \<in> fst ` set ys" for k
    proof -
      have "k \<in> fst ` set xs \<or> k \<in> fst ` set ys \<Longrightarrow> opt_same (map_of xs k) (map_of ys k)" using a e by auto
      moreover have "k \<in> fst ` set zs \<longleftrightarrow> map_of zs k \<noteq> None" for zs :: "(string \<times> json) list" by (simp add: map_of_eq_None_iff)
      ultimately show ?thesis by (cases "map_of xs k"; cases "map_of ys k") auto
    qed
    then have f: "fst ` set xs = fst ` set ys" by blast
    moreover have "json_same (snd x) (snd y)" if m: "x \<in> set xs" "y \<in> set ys" "fst x = fst y" for x y
    proof -
      have "(fst x, snd x) \<in> set xs" "(fst x, snd y) \<in> set ys" using m(1,2) by simp_all (simp add: m(3))
      then have "map_of xs (fst x) = Some (snd x)" "map_of ys (fst x) = Some (snd y)"
        using d by (simp_all add: map_of_eq_Some_iff)
      moreover have "opt_same (map_of xs (fst x)) (map_of ys (fst x))" using a e m(1) by auto
      ultimately show ?thesis by simp
    qed
    ultimately show "opt_same l r" using o by auto
  qed
qed

lemma array_same:
  "opt_same (Some (JArr xs)) (Some (JArr ys)) \<longleftrightarrow>
    (\<forall>i < max (length xs) (length ys). opt_same (nth_opt xs i) (nth_opt ys i))"
proof (cases "length xs = length ys")
  case True
  then show ?thesis by (auto simp: set_zip nth_opt_def)
next
  case False
  define i where "i = min (length xs) (length ys)"
  have "i < max (length xs) (length ys)" "\<not> opt_same (nth_opt xs i) (nth_opt ys i)"
    using False by (auto simp: i_def nth_opt_def min_def max_def)
  then show ?thesis using False by auto
qed

text \<open>A walk over places that are exact each is exact as a whole.\<close>

lemma walk_places:
  assumes "fold (\<lambda>q st. Option.bind st (walk n q)) qs (Some s) = Some s'"
    and "\<And>l r p la s s'. (l, r, p, la) \<in> set qs \<Longrightarrow> walk n (l, r, p, la) s = Some s' \<Longrightarrow>
      \<exists>cs. df_changes s' = df_changes s @ cs \<and> exact l r p cs"
  shows "\<exists>cs. df_changes s' = df_changes s @ cs
    \<and> (cs = [] \<longleftrightarrow> (\<forall>(l, r, p, la) \<in> set qs. opt_same l r))
    \<and> (\<forall>c \<in> set cs. \<exists>(l, r, p, la) \<in> set qs. \<exists>ds. c \<in> set ds \<and> exact l r p ds)"
  using assms
proof (induction qs arbitrary: s)
  case (Cons q qs)
  obtain l r p la where q: "q = (l, r, p, la)" by (cases q)
  have none: "fold (\<lambda>q st. Option.bind st (walk n q)) qs None = None" by (induction qs) auto
  from Cons.prems(1) none obtain t where t: "walk n q s = Some t"
      and f: "fold (\<lambda>q st. Option.bind st (walk n q)) qs (Some t) = Some s'"
    by (cases "walk n q s") auto
  from Cons.prems(2) [of l r p la s t] t q obtain cs where cs: "df_changes t = df_changes s @ cs" "exact l r p cs" by auto
  have sub: "\<exists>cs. df_changes s' = df_changes s @ cs \<and> exact l r p cs"
    if "(l, r, p, la) \<in> set qs" "walk n (l, r, p, la) s = Some s'" for l r p la s s'
    using Cons.prems(2) that by (meson list.set_intros(2))
  have "\<exists>cs. df_changes s' = df_changes t @ cs \<and> (cs = [] \<longleftrightarrow> (\<forall>(l, r, p, la) \<in> set qs. opt_same l r))
    \<and> (\<forall>c \<in> set cs. \<exists>(l, r, p, la) \<in> set qs. \<exists>ds. c \<in> set ds \<and> exact l r p ds)"
    by (rule Cons.IH [OF f]) (rule sub)
  then obtain ds where ds: "df_changes s' = df_changes t @ ds"
      "ds = [] \<longleftrightarrow> (\<forall>(l, r, p, la) \<in> set qs. opt_same l r)"
      "\<forall>c \<in> set ds. \<exists>(l, r, p, la) \<in> set qs. \<exists>ds. c \<in> set ds \<and> exact l r p ds" by (elim exE conjE) (rule that)
  have "cs = [] \<longleftrightarrow> opt_same l r" using cs(2) by (simp add: exact_def)
  moreover have "\<forall>c \<in> set (cs @ ds). \<exists>(l, r, p, la) \<in> set (q # qs). \<exists>ds. c \<in> set ds \<and> exact l r p ds"
    using cs(2) ds(3) q by fastforce
  ultimately show ?case using cs(1) ds(1,2) q by (intro exI [of _ "cs @ ds"]) auto
qed auto

lemma exact_below:
  assumes "exact l' r' (path @ ''/'' @ pointer t) ds" and "c \<in> set ds"
    and "\<And>ts. get_at l (t # ts) = get_at l' ts" and "\<And>ts. get_at r (t # ts) = get_at r' ts"
  shows "\<not> opt_same (ch_before c) (ch_after c)
    \<and> (\<exists>ts. ch_path c = path @ pointer_text ts \<and> get_at l ts = ch_before c \<and> get_at r ts = ch_after c)"
proof -
  from assms(1,2) obtain ts where ts: "ch_path c = (path @ ''/'' @ pointer t) @ pointer_text ts" "get_at l' ts = ch_before c" "get_at r' ts = ch_after c"
    and n: "\<not> opt_same (ch_before c) (ch_after c)" by (auto simp: exact_def)
  from ts assms(3,4) have "ch_path c = path @ pointer_text (t # ts) \<and> get_at l (t # ts) = ch_before c \<and> get_at r (t # ts) = ch_after c"
    by (simp add: pointer_text_def)
  with n show ?thesis by blast
qed

lemma exact_places:
  assumes "cs = [] \<longleftrightarrow> (\<forall>(l', r', p, la) \<in> set qs. opt_same l' r')" and "opt_same l r \<longleftrightarrow> (\<forall>(l', r', p, la) \<in> set qs. opt_same l' r')"
    and "\<forall>c \<in> set cs. \<exists>(l', r', p, la) \<in> set qs. \<exists>ds. c \<in> set ds \<and> exact l' r' p ds"
    and "\<And>l' r' p la. (l', r', p, la) \<in> set qs \<Longrightarrow> \<exists>t. p = path @ ''/'' @ pointer t
      \<and> (\<forall>ts. get_at l (t # ts) = get_at l' ts) \<and> (\<forall>ts. get_at r (t # ts) = get_at r' ts)"
  shows "exact l r path cs"
proof -
  have "\<not> opt_same (ch_before c) (ch_after c)
      \<and> (\<exists>ts. ch_path c = path @ pointer_text ts \<and> get_at l ts = ch_before c \<and> get_at r ts = ch_after c)" if c: "c \<in> set cs" for c
  proof -
    from assms(3) c obtain l' r' p la ds where q: "(l', r', p, la) \<in> set qs" "c \<in> set ds" "exact l' r' p ds" by fastforce
    from assms(4) [OF q(1)] obtain t where t: "p = path @ ''/'' @ pointer t" "\<And>ts. get_at l (t # ts) = get_at l' ts" "\<And>ts. get_at r (t # ts) = get_at r' ts"
      by blast
    show ?thesis by (rule exact_below [OF q(3) [unfolded t(1)] q(2) t(2,3)])
  qed
  with assms(1,2) show ?thesis by (simp add: exact_def)
qed

lemma get_at_entry:
  assumes "is_object v \<or> v = None"
  shows "get_at v (k # ts) = get_at (map_of (entries_of v) k) ts"
  using assms by (cases v) (auto simp: is_object_def entries_of_def split: json.splits)

lemma object_places_exact:
  assumes "opt_ok l" and "opt_ok r" and "is_object l \<and> (is_object r \<or> r = None) \<or> is_object r \<and> l = None"
    and "object_places l r path label \<noteq> []"
    and "cs = [] \<longleftrightarrow> (\<forall>(l', r', p, la) \<in> set (object_places l r path label). opt_same l' r')"
    and "\<forall>c \<in> set cs. \<exists>(l', r', p, la) \<in> set (object_places l r path label). \<exists>ds. c \<in> set ds \<and> exact l' r' p ds"
  shows "exact l r path cs"
proof (rule exact_places [OF assms(5) _ assms(6)])
  let ?K = "fst ` set (entries_of l) \<union> fst ` set (entries_of r)"
  have k: "(\<forall>(l', r', p, la) \<in> set (object_places l r path label). opt_same l' r')
      \<longleftrightarrow> (\<forall>k \<in> ?K. opt_same (map_of (entries_of l) k) (map_of (entries_of r) k))"
    by (simp add: object_places_def ball_Un image_Un)
  have ne: "?K \<noteq> {}" using assms(4) by (auto simp: object_places_def first_seen_def)
  have "opt_same l r \<longleftrightarrow> (\<forall>k \<in> ?K. opt_same (map_of (entries_of l) k) (map_of (entries_of r) k))"
  proof (cases "is_object l \<and> is_object r")
    case True
    then show ?thesis using object_same [OF assms(1,2)] by blast
  next
    case False
    have one: "entries_of l = [] \<and> l = None \<and> r \<noteq> None \<or> entries_of r = [] \<and> r = None \<and> l \<noteq> None"
    proof -
      have "l = None \<and> is_object r \<or> r = None \<and> is_object l" using False assms(3) by blast
      moreover have "v \<noteq> None" if "is_object v" for v using that by (cases v) (simp_all add: is_object_def)
      ultimately show ?thesis by (auto simp: entries_of_def)
    qed
    then have n: "\<not> opt_same l r" by (elim disjE conjE) (simp_all add: opt_same_None)
    from ne obtain k where k: "k \<in> ?K" unfolding ex_in_conv [symmetric] by (elim exE)
    with one have "map_of (entries_of l) k = None \<longleftrightarrow> map_of (entries_of r) k \<noteq> None"
      by (elim disjE conjE) (simp_all add: map_of_eq_None_iff)
    then have "\<not> opt_same (map_of (entries_of l) k) (map_of (entries_of r) k)"
      by (cases "map_of (entries_of l) k = None") (simp_all add: opt_same_None)
    with n k show ?thesis by blast
  qed
  with k show "opt_same l r \<longleftrightarrow> (\<forall>(l', r', p, la) \<in> set (object_places l r path label). opt_same l' r')" by simp
  fix l' r' p la assume "(l', r', p, la) \<in> set (object_places l r path label)"
  then obtain k where "p = path @ ''/'' @ pointer k" "l' = map_of (entries_of l) k" "r' = map_of (entries_of r) k"
    by (auto simp: object_places_def)
  then show "\<exists>t. p = path @ ''/'' @ pointer t \<and> (\<forall>ts. get_at l (t # ts) = get_at l' ts) \<and> (\<forall>ts. get_at r (t # ts) = get_at r' ts)"
    using get_at_entry assms(3) by blast
qed

lemma array_places_exact:
  assumes "cs = [] \<longleftrightarrow> (\<forall>(l', r', p, la) \<in> set (array_places xs ys path label). opt_same l' r')"
    and "\<forall>c \<in> set cs. \<exists>(l', r', p, la) \<in> set (array_places xs ys path label). \<exists>ds. c \<in> set ds \<and> exact l' r' p ds"
  shows "exact (Some (JArr xs)) (Some (JArr ys)) path cs"
proof (rule exact_places [OF assms(1) _ assms(2)])
  show "opt_same (Some (JArr xs)) (Some (JArr ys)) \<longleftrightarrow> (\<forall>(l', r', p, la) \<in> set (array_places xs ys path label). opt_same l' r')"
    unfolding array_same by (auto simp: array_places_def)
  fix l' r' p la assume "(l', r', p, la) \<in> set (array_places xs ys path label)"
  then obtain i where i: "p = path @ ''/'' @ show_nat i" "l' = nth_opt xs i" "r' = nth_opt ys i" by (auto simp: array_places_def)
  have "get_at (Some (JArr zs)) (show_nat i # ts) = get_at (nth_opt zs i) ts" for zs ts
    using array_token(1) [of i zs ts] array_token(2) [of zs i ts] by (cases "i < length zs") (auto simp: nth_opt_def simp del: show_nat.simps)
  with i digits_pointer show "\<exists>t. p = path @ ''/'' @ pointer t \<and> (\<forall>ts. get_at (Some (JArr xs)) (t # ts) = get_at l' ts)
      \<and> (\<forall>ts. get_at (Some (JArr ys)) (t # ts) = get_at r' ts)"
    by (intro exI [of _ "show_nat i"]) simp
qed

lemma places_ok:
  assumes "opt_ok l" and "opt_ok r"
  shows "(l', r', p, la) \<in> set (object_places l r path label) \<Longrightarrow> opt_ok l' \<and> opt_ok r'"
proof -
  have ok: "opt_ok (map_of (entries_of v) k)" if "opt_ok v" for v k
    using that by (cases v) (force simp: entries_of_def split: json.splits dest: map_of_SomeD)+
  show "(l', r', p, la) \<in> set (object_places l r path label) \<Longrightarrow> opt_ok l' \<and> opt_ok r'"
    using ok [OF assms(1)] ok [OF assms(2)] by (auto simp: object_places_def)
qed

lemma array_ok:
  assumes "json_ok (JArr xs)" and "json_ok (JArr ys)" and "(l', r', p, la) \<in> set (array_places xs ys path label)"
  shows "opt_ok l' \<and> opt_ok r'"
  using assms by (auto simp: array_places_def nth_opt_def split: if_splits)

text \<open>The two kinds of places, and the values that are compared as a whole.\<close>

lemma walk_leaf:
  assumes "opt_ok l" and "opt_ok r" and "\<not> strict_equal l r"
    and "\<not> ((is_object l \<and> (is_object r \<or> r = None) \<or> is_object r \<and> l = None) \<and> object_places l r path label \<noteq> [])"
    and "\<not> (\<exists>xs ys. l = Some (JArr xs) \<and> r = Some (JArr ys))"
  shows "opt_same l r \<longleftrightarrow> is_object l \<and> is_object r \<and> entries_of l = [] \<and> entries_of r = []"
proof
  assume s: "opt_same l r"
  show "is_object l \<and> is_object r \<and> entries_of l = [] \<and> entries_of r = []"
  proof (cases "is_object l")
    case True
    then obtain xs where xs: "l = Some (JObj xs)" by (auto simp: is_object_def split: option.splits json.splits)
    with s obtain ys where "r = Some (JObj ys)" by (cases r; cases "the r") auto
    with xs assms(4) show ?thesis by (auto simp: is_object_def entries_of_def object_places_def first_seen_def)
  next
    case False
    show ?thesis
    proof (cases "\<exists>xs. l = Some (JArr xs)")
      case True
      then obtain xs where xs: "l = Some (JArr xs)" by blast
      with s obtain ys where "r = Some (JArr ys)" by (cases r; cases "the r") auto
      with xs assms(5) show ?thesis by blast
    qed (use opt_same_strict [OF assms(1,3) False] s in blast)
  qed
next
  assume "is_object l \<and> is_object r \<and> entries_of l = [] \<and> entries_of r = []"
  then show "opt_same l r" using object_same [OF assms(1,2)] by simp
qed

lemma not_arrays:
  "\<not> (\<exists>xs ys. l = Some (JArr xs) \<and> r = Some (JArr ys)) \<Longrightarrow>
    (case l of None \<Rightarrow> z | Some (JArr xs) \<Rightarrow> (case r of None \<Rightarrow> z | Some (JArr ys) \<Rightarrow> f xs ys | Some _ \<Rightarrow> z) | Some _ \<Rightarrow> z) = z"
  by (auto split: option.splits json.splits)

lemma walk_exact:
  "walk n (l, r, path, label) s = Some s' \<Longrightarrow> opt_ok l \<Longrightarrow> opt_ok r \<Longrightarrow>
    \<exists>cs. df_changes s' = df_changes s @ cs \<and> exact l r path cs"
proof (induction n arbitrary: l r path label s s')
  case (Suc n)
  let ?s = "s\<lparr>df_visited := df_visited s + 1\<rparr>" and ?f = "\<lambda>q st. Option.bind st (walk n q)"
  let ?both = "(is_object l \<and> (is_object r \<or> r = None) \<or> is_object r \<and> l = None) \<and> object_places l r path label \<noteq> []"
  from Suc.prems(1) have v: "\<not> 2000 < df_visited ?s" by (auto simp: Let_def split: if_splits)
  note w = Suc.prems(1) [unfolded walk.simps Let_def prod.case if_not_P [OF v]]
  note ok = Suc.prems(2,3)
  show ?case
  proof (cases "strict_equal l r")
    case True
    with w have "s' = ?s" by simp
    with strict_equal_same [OF ok True] show ?thesis by (simp add: exact_def)
  next
    case ns: False
    show ?thesis
    proof (cases ?both)
      case True
      then have f: "fold ?f (object_places l r path label) (Some ?s) = Some s'" using w ns by simp
      have sub: "\<exists>cs. df_changes t' = df_changes t @ cs \<and> exact l' r' p cs"
        if "(l', r', p, la) \<in> set (object_places l r path label)" "walk n (l', r', p, la) t = Some t'" for l' r' p la t t'
        using Suc.IH [OF that(2)] places_ok [OF ok that(1)] by blast
      obtain cs where cs: "df_changes s' = df_changes ?s @ cs"
          "cs = [] \<longleftrightarrow> (\<forall>(l', r', p, la) \<in> set (object_places l r path label). opt_same l' r')"
          "\<forall>c \<in> set cs. \<exists>(l', r', p, la) \<in> set (object_places l r path label). \<exists>ds. c \<in> set ds \<and> exact l' r' p ds"
        by (rule walk_places [OF f, THEN exE]) (erule (1) sub, elim conjE, rule that)
      from object_places_exact [OF ok conjunct1 [OF True] conjunct2 [OF True] cs(2,3)] cs(1) show ?thesis by simp
    next
      case no: False
      show ?thesis
      proof (cases "\<exists>xs ys. l = Some (JArr xs) \<and> r = Some (JArr ys)")
        case True
        then obtain xs ys where a: "l = Some (JArr xs)" "r = Some (JArr ys)" by blast
        then have f: "fold ?f (array_places xs ys path label) (Some ?s) = Some s'" using w ns by (simp add: is_object_def)
        have sub: "\<exists>cs. df_changes t' = df_changes t @ cs \<and> exact l' r' p cs"
          if "(l', r', p, la) \<in> set (array_places xs ys path label)" "walk n (l', r', p, la) t = Some t'" for l' r' p la t t'
          using Suc.IH [OF that(2)] array_ok [OF _ _ that(1)] ok a by blast
        obtain cs where cs: "df_changes s' = df_changes ?s @ cs"
            "cs = [] \<longleftrightarrow> (\<forall>(l', r', p, la) \<in> set (array_places xs ys path label). opt_same l' r')"
            "\<forall>c \<in> set cs. \<exists>(l', r', p, la) \<in> set (array_places xs ys path label). \<exists>ds. c \<in> set ds \<and> exact l' r' p ds"
          by (rule walk_places [OF f, THEN exE]) (erule (1) sub, elim conjE, rule that)
        from array_places_exact [OF cs(2,3)] cs(1) show ?thesis unfolding a by simp
      next
        case na: False
        let ?empty = "is_object l \<and> is_object r \<and> entries_of l = [] \<and> entries_of r = []"
        have "(if ?empty then Some ?s else Some (push_change (l, r, path, label) ?s)) = Some s'"
          using w by (simp only: if_not_P [OF ns] if_not_P [OF no] not_arrays [OF na])
        then have r: "s' = (if ?empty then ?s else push_change (l, r, path, label) ?s)" by (simp only: option.inject if_distrib [of Some, symmetric])
        show ?thesis
        proof (cases ?empty)
          case True
          with walk_leaf [OF ok ns no na] r show ?thesis by (simp add: exact_def)
        next
          case False
          let ?c = "\<lparr>ch_path = path, ch_label = (if label = '''' then ''Celo stanje'' else label), ch_before = l, ch_after = r\<rparr>"
          have "\<exists>ts. ch_path ?c = path @ pointer_text ts \<and> get_at l ts = ch_before ?c \<and> get_at r ts = ch_after ?c"
            by (rule exI [of _ "[]"]) (simp add: pointer_text_def)
          with False walk_leaf [OF ok ns no na] have "exact l r path [?c]" by (simp add: exact_def)
          moreover have "df_changes s' = df_changes s @ [?c]" using r False by (simp add: push_change_def)
          ultimately show ?thesis by blast
        qed
      qed
    qed
  qed
qed simp

text \<open>
  Property C3: the comparison of two audit snapshots is exact. Unless it stops at its limits, it lists no
  change if and only if the two JSON values are the same (objects as maps: the order of keys does not matter, a
  missing key differs from a null), and every change it lists names a place by its JSON pointer at which the
  two snapshots have exactly the values shown, and these differ.
\<close>
theorem audit_changes_are_exact:
  assumes "compareSnapshots before after = (changes, False)"
    and "before = parseSnapshot read raw" and "after = parseSnapshot read raw'"
    and "sn_kind before \<noteq> K_text" and "sn_kind after \<noteq> K_text" and "\<And>s j. read s = Some j \<Longrightarrow> json_ok j"
  shows "(changes = [] \<longleftrightarrow> opt_same (sn_value before) (sn_value after))
    \<and> (c \<in> set changes \<longrightarrow> \<not> opt_same (ch_before c) (ch_after c) \<and> (\<exists>ts. ch_path c = pointer_text ts
      \<and> get_at (sn_value before) ts = ch_before c \<and> get_at (sn_value after) ts = ch_after c))"
proof (intro conjI [of "_ = _"] impI)
  have ok: "opt_ok (sn_value (parseSnapshot read r))" for r
    using assms(6) by (simp add: parseSnapshot_def split: option.splits)
  from assms(1,4,5) obtain s where
    w: "walk 25 (sn_value before, sn_value after, '''', '''') \<lparr>df_visited = 0, df_changes = []\<rparr> = Some s" and c: "changes = df_changes s"
    by (auto simp: compareSnapshots_def simp del: walk.simps split: option.splits)
  have "opt_ok (sn_value before)" "opt_ok (sn_value after)" using ok assms(2,3) by blast+
  from walk_exact [OF w this] c have e: "exact (sn_value before) (sn_value after) '''' changes" by simp
  then show "changes = [] \<longleftrightarrow> opt_same (sn_value before) (sn_value after)" by (simp add: exact_def)
  show "\<not> opt_same (ch_before c) (ch_after c) \<and> (\<exists>ts. ch_path c = pointer_text ts
      \<and> get_at (sn_value before) ts = ch_before c \<and> get_at (sn_value after) ts = ch_after c)" if "c \<in> set changes"
    using e that unfolding exact_def by simp
qed

definition sample_read :: "string \<Rightarrow> json option" where
  "sample_read s = (if s = ''a'' then Some (JObj [(''x'', JNull), (''y'', JBool True)])
     else if s = ''b'' then Some (JObj [(''y'', JBool True)]) else None)"

theorem audit_changes_are_exact_witness:
  "\<exists>changes. compareSnapshots (parseSnapshot sample_read (Some ''a'')) (parseSnapshot sample_read (Some ''b'')) = (changes, False)
     \<and> changes \<noteq> []"
proof -
  have t: "trim ''a'' \<noteq> ''''" "trim ''b'' \<noteq> ''''" by (simp_all add: trim_def is_space_def)
  then have p: "parseSnapshot sample_read (Some ''a'') = \<lparr>sn_kind = K_json, sn_raw = ''a'', sn_value = Some (JObj [(''x'', JNull), (''y'', JBool True)])\<rparr>"
    "parseSnapshot sample_read (Some ''b'') = \<lparr>sn_kind = K_json, sn_raw = ''b'', sn_value = Some (JObj [(''y'', JBool True)])\<rparr>"
    by (simp_all add: parseSnapshot_def or_text_def sample_read_def)
  have k: "sn_kind (parseSnapshot sample_read (Some ''a'')) \<noteq> K_text" "sn_kind (parseSnapshot sample_read (Some ''b'')) \<noteq> K_text"
    by (simp_all add: p)

  have "\<And>s j. sample_read s = Some j \<Longrightarrow> json_ok j" by (auto simp: sample_read_def split: if_splits)
  moreover obtain changes where c: "compareSnapshots (parseSnapshot sample_read (Some ''a'')) (parseSnapshot sample_read (Some ''b'')) = (changes, False)"
    by (simp add: p compareSnapshots_def numeral_eq_Suc Let_def strict_equal_def is_object_def object_places_def entries_of_def
        first_seen_def push_change_def)
  ultimately have "changes = [] \<longleftrightarrow> opt_same (sn_value (parseSnapshot sample_read (Some ''a''))) (sn_value (parseSnapshot sample_read (Some ''b'')))"
    by (rule audit_changes_are_exact [OF _ refl refl k, rotated, THEN conjunct1])
  with c show ?thesis by (auto simp: p)
qed

subsection \<open>Filters of the page\<close>

record audit_url = \<comment> \<open>\<open>AuditUrlState\<close>: what the address holds\<close>
  au_search :: string
  au_action :: string
  au_resourceType :: string
  au_actorId :: string
  au_from :: string
  au_to :: string
  au_period :: string
  au_sort :: string
  au_direction :: string
  au_page :: string
  au_size :: string
  au_eventId :: string

definition auditDefaults :: audit_url where
  "auditDefaults = \<lparr>au_search = '''', au_action = '''', au_resourceType = '''', au_actorId = '''', au_from = '''', au_to = '''',
     au_period = ''LAST_30'', au_sort = ''createdAt'', au_direction = ''DESC'', au_page = ''0'', au_size = ''20'', au_eventId = ''''\<rparr>"

definition uuidPattern :: "string \<Rightarrow> bool" where
  "uuidPattern s \<longleftrightarrow> map length (split_on CHR ''-'' s) = [8, 4, 4, 4, 12]
     \<and> (\<forall>w \<in> set (split_on CHR ''-'' s). set w \<subseteq> set ''0123456789abcdefABCDEF'')"

definition audit_periods :: "(string \<times> string) list" where
  "audit_periods = [(''TODAY'', ''Danas''), (''LAST_7'', ''Poslednjih 7 dana''), (''LAST_30'', ''Poslednjih 30 dana''),
     (''MONTH'', ''Ovaj mesec''), (''CUSTOM'', sr ''Prilago~deni period''), (''ALL'', ''Svi datumi'')]"

definition sortOptions :: "(string \<times> string \<times> string) list" where
  "sortOptions = [(''createdAt'', ''DESC'', ''Najnovije prvo''), (''createdAt'', ''ASC'', ''Najstarije prvo''),
     (''action'', ''ASC'', ''Akcija, A-Z''), (''resourceType'', ''ASC'', ''Tip resursa, A-Z''), (''action'', ''DESC'', ''Akcija, Z-A''),
     (''resourceType'', ''DESC'', ''Tip resursa, Z-A''), (''actorRole'', ''ASC'', sr ''Uloga izvr~sioca, A-Z''),
     (''actorRole'', ''DESC'', sr ''Uloga izvr~sioca, Z-A'')]"

definition shiftDate :: "platform \<Rightarrow> string \<Rightarrow> int \<Rightarrow> string option" where
  "shiftDate P value amount = do {
     date \<leftarrow> parse P (value @ ''T12:00:00Z'');
     date \<leftarrow> setUTCDate (getUTCDate date + amount) date;
     Some (iso_slice date) }"

record audit_draft =
  ad_action :: string
  ad_resourceType :: string
  ad_actorId :: string
  ad_from :: string
  ad_to :: string
  ad_period :: string
  ad_sort :: string
  ad_direction :: string

definition draftFromUrl :: "audit_url \<Rightarrow> audit_draft" where
  "draftFromUrl s = \<lparr>ad_action = au_action s, ad_resourceType = au_resourceType s, ad_actorId = au_actorId s, ad_from = au_from s, ad_to = au_to s,
     ad_period = (if au_from s \<noteq> '''' \<or> au_to s \<noteq> '''' then ''CUSTOM''
       else if map_of audit_periods (au_period s) \<noteq> None then au_period s else ''LAST_30''),
     ad_sort = (if \<exists>opt \<in> set sortOptions. fst opt = au_sort s then au_sort s else ''createdAt''),
     ad_direction = (if au_direction s = ''ASC'' then ''ASC'' else ''DESC'')\<rparr>"

definition defaultDraft :: audit_draft where
  "defaultDraft = draftFromUrl auditDefaults"

definition month_end :: "platform \<Rightarrow> string \<Rightarrow> string option" where
  "month_end P today = do {
     date \<leftarrow> parse P (today @ ''T12:00:00Z'');
     date \<leftarrow> setUTCMonth (getUTCMonth date + 1) 0 date;
     Some (iso_slice date) }"

definition periodBounds :: "platform \<Rightarrow> audit_draft \<Rightarrow> string \<Rightarrow> (string \<times> string) option" where
  "periodBounds P d today =
     (if ad_period d = ''TODAY'' then Some (today, today)
      else if ad_period d = ''LAST_7'' then map_option (\<lambda>a. (a, today)) (shiftDate P today (-6))
      else if ad_period d = ''LAST_30'' then map_option (\<lambda>a. (a, today)) (shiftDate P today (-29))
      else if ad_period d = ''MONTH'' then map_option (\<lambda>b. (take 7 today @ ''-01'', b)) (month_end P today)
      else if ad_period d = ''CUSTOM'' then Some (ad_from d, ad_to d)
      else Some ('''', ''''))"

definition dateLabel :: "platform \<Rightarrow> (ms \<Rightarrow> string) \<Rightarrow> string \<Rightarrow> string" where
  \<comment> \<open>\<open>long\<close> is the \<open>Intl.DateTimeFormat\<close> of the page\<close>
  "dateLabel P long value = (case parse P (value @ ''T12:00:00Z'') of Some t \<Rightarrow> long t | None \<Rightarrow> value)"

definition audit_periodLabel :: "platform \<Rightarrow> (ms \<Rightarrow> string) \<Rightarrow> audit_draft \<Rightarrow> string \<Rightarrow> string option" where
  "audit_periodLabel P long d today = map_option (\<lambda>(a, b).
     if a \<noteq> '''' \<or> b \<noteq> '''' then (if a \<noteq> '''' then dateLabel P long a else ''Bez donje granice'') @ '' - ''
       @ (if b \<noteq> '''' then dateLabel P long b else ''Bez gornje granice'')
     else ''Svi datumi'') (periodBounds P d today)"

definition validateDraft :: "platform \<Rightarrow> audit_draft \<Rightarrow> string" where
  "validateDraft P d =
     (if trim (ad_actorId d) \<noteq> '''' \<and> \<not> uuidPattern (trim (ad_actorId d)) then sr ''Unesite ispravan UUID izvr~sioca.''
      else if ad_period d \<noteq> ''CUSTOM'' then ''''
      else if ad_from d = '''' \<and> ad_to d = '''' then sr ''Izaberite najmanje jedan datum za prilago~deni period.''
      else if \<exists>v \<in> set (filter (\<lambda>v. v \<noteq> '''') [ad_from d, ad_to d]). from_sum (businessLocalToInstant P (v @ ''T00:00'')) = None
      then ''Unesite ispravan datum u periodu.''
      else if ad_from d \<noteq> '''' \<and> ad_to d \<noteq> '''' \<and> ad_to d < ad_from d
      then ''Datum '' @ [CHR 0xE2, CHR 0x80, CHR 0x9E] @ ''Do'' @ [CHR 0xE2, CHR 0x80, CHR 0x9C] @ sr '' ne mo~ze biti pre datuma ''
        @ [CHR 0xE2, CHR 0x80, CHR 0x9E] @ ''Od'' @ [CHR 0xE2, CHR 0x80, CHR 0x9C] @ ''.''
      else '''')"

definition dayHeading :: "platform \<Rightarrow> (ms \<Rightarrow> string) \<Rightarrow> string \<Rightarrow> string \<Rightarrow> string option" where
  "dayHeading P long instant today = do {
     day \<leftarrow> dateInBusinessZone P instant;
     if day = today then Some ''Danas''
     else do { yesterday \<leftarrow> shiftDate P today (-1);
       Some (if day = yesterday then sr ''Ju~ce'' else dateLabel P long day) } }"

fun actionTone :: "audit_category \<Rightarrow> string" where
  "actionTone CREATE = ''create''"
| "actionTone UPDATE = ''update''"
| "actionTone DELETED = ''delete''"
| "actionTone DEACTIVATE = ''deactivate''"
| "actionTone OTHER = ''other''"

fun categoryLabels :: "audit_category \<Rightarrow> string" where
  "categoryLabels CREATE = ''Kreiranje''"
| "categoryLabels UPDATE = ''Izmena''"
| "categoryLabels DELETED = ''Brisanje''"
| "categoryLabels DEACTIVATE = ''Deaktivacija''"
| "categoryLabels OTHER = sr ''Doga~daj''"

definition audit_query_criteria :: "audit_draft \<Rightarrow> string \<times> string \<Rightarrow> string \<Rightarrow> audit_criteria" where
  "audit_query_criteria d bounds search = \<lparr>af_action = some_text (ad_action d), af_resourceType = some_text (ad_resourceType d),
     af_actorId = some_text (ad_actorId d), af_from = some_text (fst bounds), af_to = some_text (snd bounds), af_search = some_text search\<rparr>"

definition activeCount :: "audit_draft \<Rightarrow> string \<times> string \<Rightarrow> nat" where
  "activeCount d bounds = length (filter (\<lambda>b. b) [fst bounds \<noteq> '''' \<or> snd bounds \<noteq> '''', ad_action d \<noteq> '''', ad_resourceType d \<noteq> '''',
     ad_actorId d \<noteq> '''', ad_sort d \<noteq> ''createdAt'' \<or> ad_direction d \<noteq> ''DESC''])"

definition detail_enabled :: "auth_user option \<Rightarrow> string \<Rightarrow> bool" where
  "detail_enabled actor selected \<longleftrightarrow> hasCapability actor AUDIT_READ \<and> uuidPattern selected"

lemma shiftDate_eq: "shiftDate P v k = addDays P v k" and month_end_eq: "month_end P v = Option.bind (parseDate P v)
    (\<lambda>d. Option.bind (setUTCMonth (getUTCMonth d + 1) 0 d) (\<lambda>t. Some (isoDate t)))"
  by (simp_all add: shiftDate_def addDays_def parseDate_def isoDate_def month_end_def)

text \<open>A draft read from any address is one that the filters know: its period, sort order and direction are offered.\<close>

lemma draftFromUrl_known:
  "map_of audit_periods (ad_period (draftFromUrl s)) \<noteq> None" "\<exists>opt \<in> set sortOptions. fst opt = ad_sort (draftFromUrl s)"
  "ad_direction (draftFromUrl s) \<in> {''ASC'', ''DESC''}"
  by (simp_all add: draftFromUrl_def audit_periods_def sortOptions_def)

end
