(* ===== verification/Stations.thy ===== *)
theory Stations
  imports Gaming Web Hooks "HOL-Library.Word"
begin

section \<open>Station administration and the client package\<close>

text \<open>
  Models \<open>types/station.types.ts\<close>, \<open>api/stationApi.ts\<close> and, under \<open>stations/\<close>,
  \<open>stationPresentation.model.ts\<close>, \<open>StationViews.model.ts\<close>, \<open>clientPackageDistribution.ts\<close> and
  the state and handlers of \<open>StationConfigurationDialogs.tsx\<close>, \<open>StationIdentityDialog.tsx\<close>,
  \<open>StationClientUpdates.tsx\<close> and \<open>StationAdministration.tsx\<close>.

  Parameters: the URL parser of the browser, \<open>fetch\<close> and SHA-256.
\<close>

subsection \<open>Types\<close>

datatype station_operational_status = OP_AVAILABLE | OP_MAINTENANCE | OP_RETIRED

datatype station_effective_status =
    EF_WAITING_FOR_LOGIN | EF_AVAILABLE | EF_MAINTENANCE | EF_RETIRED | EF_PREPARATION_REQUIRED
  | EF_IN_SESSION | EF_OFFLINE

datatype application_type = LAUNCHER | GAME | HELPER

record application_definition =
  ad_id :: string
  ad_code :: string
  ad_name :: string
  ad_type :: application_type
  ad_executablePath :: string
  ad_publisher :: "string option"
  ad_publisherCertificateThumbprint :: "string option"
  ad_executableSha256 :: "string option"
  ad_minimumFileVersion :: "string option"
  ad_defaultArguments :: "string option"
  ad_active :: bool
  ad_version :: int

record application_definition_input =
  di_code :: string
  di_name :: string
  di_type :: application_type
  di_executablePath :: string
  di_publisher :: "string option"
  di_publisherCertificateThumbprint :: "string option"
  di_executableSha256 :: "string option"
  di_minimumFileVersion :: "string option"
  di_defaultArguments :: "string option"
  di_active :: bool
  di_version :: "int option"

record application_profile_entry =
  ape_id :: string
  ape_applicationDefinitionId :: string
  ape_applicationName :: string
  ape_applicationType :: application_type
  ape_requiredProcess :: bool
  ape_autoStart :: bool
  ape_launchOrder :: int
  ape_argumentsOverride :: "string option"
  ape_dependencyGroup :: "string option"
  ape_version :: int

record application_profile =
  ap_id :: string
  ap_code :: string
  ap_name :: string
  ap_description :: "string option"
  ap_active :: bool
  ap_configurationVersion :: int
  ap_version :: int
  ap_entries :: "application_profile_entry list"

record profile_entry =
  pe_applicationDefinitionId :: string
  pe_requiredProcess :: bool
  pe_autoStart :: bool
  pe_launchOrder :: int
  pe_argumentsOverride :: "string option"
  pe_dependencyGroup :: "string option"

record application_profile_input =
  pi_code :: string
  pi_name :: string
  pi_description :: "string option"
  pi_active :: bool
  pi_version :: "int option"
  pi_entries :: "profile_entry list"

record station_overview =
  so_stationProfileId :: "string option"
  so_resourceId :: string
  so_resourceCode :: string
  so_resourceName :: string
  so_areaId :: string
  so_locationId :: string
  so_operationalStatus :: station_operational_status
  so_effectiveStatus :: station_effective_status
  so_applicationProfileId :: "string option"
  so_applicationProfileName :: "string option"
  so_clientMode :: "client_mode option"
  so_configurationVersion :: int
  so_clientEnabled :: bool
  so_heartbeatIntervalSeconds :: int
  so_offlineGraceSeconds :: int
  so_lastHeartbeatAt :: "string option"
  so_clientVersion :: "string option"
  so_activeSessionId :: "string option"
  so_version :: "int option"
  so_locationName :: "string option"
  so_areaName :: "string option"
  so_live :: "gaming_station_card option" \<comment> \<open>of \<open>StationView\<close>\<close>
  so_availableClientVersion :: "string option" \<comment> \<open>of \<open>StationView\<close>\<close>

record station_profile_input =
  sp_operationalStatus :: station_operational_status
  sp_applicationProfileId :: "string option"
  sp_clientEnabled :: bool
  sp_heartbeatIntervalSeconds :: int
  sp_offlineGraceSeconds :: int
  sp_version :: "int option"

datatype machine_identity_status = MI_ACTIVE | MI_ROTATING | MI_REVOKED

record machine_identity =
  mi_id :: string
  mi_stationId :: string
  mi_keyVersion :: int
  mi_status :: machine_identity_status
  mi_publicKeyFingerprint :: string
  mi_enrolledAt :: string
  mi_overlapExpiresAt :: "string option"
  mi_revokedAt :: "string option"
  mi_lastAuthenticatedAt :: "string option"

datatype enrollment_purpose = INITIAL | ROTATION

record enrollment_token =
  et_tokenId :: string
  et_stationId :: string
  et_purpose :: enrollment_purpose
  et_enrollmentToken :: string
  et_expiresAt :: string

record gaming_client_package =
  gc_version :: string
  gc_status :: string
  gc_downloadUrl :: string
  gc_sha256 :: string
  gc_signingSubject :: "string option"
  gc_minimumVersion :: "string option"

record package_availability =
  pa_available :: bool
  pa_message :: string

subsection \<open>Requests\<close>

fun type_text :: "application_type \<Rightarrow> string" where
  "type_text LAUNCHER = ''LAUNCHER''"
| "type_text GAME = ''GAME''"
| "type_text HELPER = ''HELPER''"

fun operational_text :: "station_operational_status \<Rightarrow> string" where
  "operational_text OP_AVAILABLE = ''AVAILABLE''"
| "operational_text OP_MAINTENANCE = ''MAINTENANCE''"
| "operational_text OP_RETIRED = ''RETIRED''"

definition definition_json :: "application_definition_input \<Rightarrow> json option" where
  "definition_json d = body [(''code'', Some (JStr (di_code d))), (''name'', Some (JStr (di_name d))),
     (''type'', Some (JStr (type_text (di_type d)))), (''executablePath'', Some (JStr (di_executablePath d))),
     (''publisher'', map_option JStr (di_publisher d)),
     (''publisherCertificateThumbprint'', map_option JStr (di_publisherCertificateThumbprint d)),
     (''executableSha256'', map_option JStr (di_executableSha256 d)),
     (''minimumFileVersion'', map_option JStr (di_minimumFileVersion d)),
     (''defaultArguments'', map_option JStr (di_defaultArguments d)), (''active'', Some (JBool (di_active d))),
     (''version'', map_option jint (di_version d))]"

definition entry_json :: "profile_entry \<Rightarrow> json" where
  "entry_json e = JObj (Http.fields [(''applicationDefinitionId'', Some (JStr (pe_applicationDefinitionId e))),
     (''requiredProcess'', Some (JBool (pe_requiredProcess e))), (''autoStart'', Some (JBool (pe_autoStart e))),
     (''launchOrder'', Some (jint (pe_launchOrder e))), (''argumentsOverride'', map_option JStr (pe_argumentsOverride e)),
     (''dependencyGroup'', map_option JStr (pe_dependencyGroup e))])"

definition profile_json :: "application_profile_input \<Rightarrow> json option" where
  "profile_json p = body [(''code'', Some (JStr (pi_code p))), (''name'', Some (JStr (pi_name p))),
     (''description'', map_option JStr (pi_description p)), (''active'', Some (JBool (pi_active p))),
     (''version'', map_option jint (pi_version p)), (''entries'', Some (JArr (map entry_json (pi_entries p))))]"

definition stationApi_overview :: http_request where
  "stationApi_overview = api_get ''/stations'' []"

definition stationApi_clientStatus :: "string \<Rightarrow> http_request" where
  "stationApi_clientStatus r = api_get (''/stations/'' @ r @ ''/client-status'') []"

definition stationApi_saveStation :: "string \<Rightarrow> station_profile_input \<Rightarrow> http_request" where
  "stationApi_saveStation r s = api_send PUT (''/stations/'' @ r @ ''/profile'')
     (body [(''operationalStatus'', Some (JStr (operational_text (sp_operationalStatus s)))),
       (''applicationProfileId'', map_option JStr (sp_applicationProfileId s)),
       (''clientEnabled'', Some (JBool (sp_clientEnabled s))),
       (''heartbeatIntervalSeconds'', Some (jint (sp_heartbeatIntervalSeconds s))),
       (''offlineGraceSeconds'', Some (jint (sp_offlineGraceSeconds s))), (''version'', map_option jint (sp_version s))])"

definition stationApi_definitionPage :: "nat \<Rightarrow> nat \<Rightarrow> http_request" where
  "stationApi_definitionPage page size_n = api_get ''/stations/applications/page''
     [(''page'', Some (jnat page)), (''size'', Some (jnat size_n))]"

definition stationApi_profilePage :: "nat \<Rightarrow> nat \<Rightarrow> http_request" where
  "stationApi_profilePage page size_n = api_get ''/stations/application-profiles/page''
     [(''page'', Some (jnat page)), (''size'', Some (jnat size_n))]"

definition stationApi_definitions :: http_request where
  "stationApi_definitions = api_get ''/stations/applications'' []"

definition stationApi_createDefinition :: "application_definition_input \<Rightarrow> http_request" where
  "stationApi_createDefinition d = api_send POST ''/stations/applications'' (definition_json d)"

definition stationApi_updateDefinition :: "string \<Rightarrow> application_definition_input \<Rightarrow> http_request" where
  "stationApi_updateDefinition i d = api_send PUT (''/stations/applications/'' @ i) (definition_json d)"

definition versioned_delete :: "string \<Rightarrow> int \<Rightarrow> http_request" where
  "versioned_delete url version = (api_send DELETE url None)\<lparr>rq_params := [(''version'', jint version)]\<rparr>"

definition stationApi_deleteDefinition :: "string \<Rightarrow> int \<Rightarrow> http_request" where
  "stationApi_deleteDefinition i version = versioned_delete (''/stations/applications/'' @ i) version"

definition stationApi_profiles :: http_request where
  "stationApi_profiles = api_get ''/stations/application-profiles'' []"

definition stationApi_createProfile :: "application_profile_input \<Rightarrow> http_request" where
  "stationApi_createProfile p = api_send POST ''/stations/application-profiles'' (profile_json p)"

definition stationApi_updateProfile :: "string \<Rightarrow> application_profile_input \<Rightarrow> http_request" where
  "stationApi_updateProfile i p = api_send PUT (''/stations/application-profiles/'' @ i) (profile_json p)"

definition stationApi_deleteProfile :: "string \<Rightarrow> int \<Rightarrow> http_request" where
  "stationApi_deleteProfile i version = versioned_delete (''/stations/application-profiles/'' @ i) version"

definition stationApi_machineIdentities :: "string \<Rightarrow> http_request" where
  "stationApi_machineIdentities s = api_get (''/stations/'' @ s @ ''/machine-identity'') []"

definition stationApi_createEnrollmentToken :: "string \<Rightarrow> http_request" where
  "stationApi_createEnrollmentToken s = api_send POST (''/stations/'' @ s @ ''/machine-identity/enrollment-token'') None"

definition stationApi_createRotationToken :: "string \<Rightarrow> http_request" where
  "stationApi_createRotationToken s = api_send POST (''/stations/'' @ s @ ''/machine-identity/rotation-token'') None"

definition stationApi_revokeMachineIdentities :: "string \<Rightarrow> http_request" where
  "stationApi_revokeMachineIdentities s = api_send POST (''/stations/'' @ s @ ''/machine-identity/revoke'') None"

definition stationApi_clientPackage :: http_request where
  "stationApi_clientPackage = api_get ''/stations/client-package'' []"

definition stationApi_clientPackageAvailability :: http_request where
  "stationApi_clientPackageAvailability = api_get ''/stations/client-package/availability'' []"

definition stationApi_clientPackageDownload :: http_request where
  "stationApi_clientPackageDownload = api_get ''/stations/client-package/download'' []"


subsection \<open>Versions of the client\<close>

definition version_parts :: "string \<Rightarrow> nat list option" where
  \<comment> \<open>three or four runs of digits; \<open>Number\<close> of each, exact below 2^53\<close>
  "version_parts s = (let ps = split_on CHR ''.'' s
     in if length ps \<in> {3, 4} \<and> (\<forall>p \<in> set ps. p \<noteq> '''' \<and> (\<forall>c \<in> set p. is_digit c)) then Some (map read_nat ps) else None)"

fun newer_at :: "nat \<Rightarrow> nat list \<Rightarrow> nat list \<Rightarrow> bool" where
  \<comment> \<open>the loop over the four places; a missing part counts as 0\<close>
  "newer_at 0 target current = False"
| "newer_at (Suc n) target current =
     (let t = (case target of [] \<Rightarrow> 0 | x # _ \<Rightarrow> x); c = (case current of [] \<Rightarrow> 0 | x # _ \<Rightarrow> x)
      in if t \<noteq> c then c < t else newer_at n (tl target) (tl current))"

definition isNewerClientVersion :: "string option \<Rightarrow> string option \<Rightarrow> bool" where
  "isNewerClientVersion available installed =
     (case Option.bind available version_parts of
        None \<Rightarrow> False
      | Some target \<Rightarrow> (case Option.bind installed version_parts of
          None \<Rightarrow> True
        | Some current \<Rightarrow> newer_at 4 target current))"

subsection \<open>Presentation\<close>

datatype station_tab = TAB_OVERVIEW | TAB_CONFIGURATION | TAB_APPLICATIONS | TAB_HISTORY

fun applicationTypeLabels :: "application_type \<Rightarrow> string" where
  "applicationTypeLabels GAME = ''Igra''"
| "applicationTypeLabels LAUNCHER = sr ''Pokreta~c''"
| "applicationTypeLabels HELPER = sr ''Pomo~qna aplikacija''"

fun operationalLabels :: "station_operational_status \<Rightarrow> string" where
  "operationalLabels OP_AVAILABLE = ''Dostupna''"
| "operationalLabels OP_MAINTENANCE = sr ''Odr~zavanje''"
| "operationalLabels OP_RETIRED = ''Van upotrebe''"

fun board_status :: "station_effective_status \<Rightarrow> gaming_station_board_status" where
  "board_status EF_WAITING_FOR_LOGIN = B_WAITING_FOR_LOGIN"
| "board_status EF_AVAILABLE = B_AVAILABLE"
| "board_status EF_MAINTENANCE = B_MAINTENANCE"
| "board_status EF_RETIRED = B_RETIRED"
| "board_status EF_PREPARATION_REQUIRED = B_PREPARATION_REQUIRED"
| "board_status EF_IN_SESSION = B_ACTIVE"
| "board_status EF_OFFLINE = B_OFFLINE"

definition stationStatus :: "station_overview \<Rightarrow> gaming_station_board_status \<times> string \<times> status_tone" where
  "stationStatus s = (let v = (case so_live s of Some l \<Rightarrow> st_status l | None \<Rightarrow> board_status (so_effectiveStatus s))
     in (v, stationLabels v, stationTones v))"

datatype connection = C_MANUAL | C_WAITING | C_OFFLINE | C_CONNECTED | C_UNKNOWN

definition connection_key :: "station_overview \<Rightarrow> connection" where
  "connection_key s = (if \<not> so_clientEnabled s then C_MANUAL
     else if \<not> truthy (so_lastHeartbeatAt s) then C_WAITING
     else if (case so_live s of Some l \<Rightarrow> st_staleHeartbeat l \<or> st_status l = B_OFFLINE | None \<Rightarrow> so_effectiveStatus s = EF_OFFLINE)
       then C_OFFLINE
     else if so_live s \<noteq> None then C_CONNECTED else C_UNKNOWN)"

fun connection_label :: "connection \<Rightarrow> string \<times> status_tone" where
  "connection_label C_MANUAL = (sr ''Ru~cni re~zim'', T_neutral)"
| "connection_label C_WAITING = (sr ''~Ceka prvi kontakt'', T_warning)"
| "connection_label C_OFFLINE = (''Bez veze'', T_danger)"
| "connection_label C_CONNECTED = (''Povezan'', T_success)"
| "connection_label C_UNKNOWN = (sr ''Veza nije potvr~dena'', T_warning)"

definition connectionStatus :: "station_overview \<Rightarrow> connection \<times> string \<times> status_tone" where
  "connectionStatus s = (connection_key s, connection_label (connection_key s))"

definition no_profile :: "station_overview \<Rightarrow> bool" where
  "no_profile s \<longleftrightarrow> \<not> truthy (so_stationProfileId s) \<or> \<not> truthy (so_applicationProfileId s)"

definition command_waits :: "gaming_station_card \<Rightarrow> int option" where
  "command_waits l = (case st_commandSequence l of
     Some n \<Rightarrow> if n \<noteq> 0 \<and> \<not> truthy (st_commandAcknowledgedAt l) then Some n else None | None \<Rightarrow> None)"

definition live_warnings :: "gaming_station_card \<Rightarrow> bool \<Rightarrow> string list" where
  "live_warnings l heartbeat =
     (if st_staleHeartbeat l \<and> heartbeat then [''Heartbeat je zastareo.''] else [])
     @ (if st_status l = B_EXPIRED then [sr ''Sesija je istekla. Proverite lokalno stanje ra~cunara.''] else [])
     @ (if st_status l = B_LOCK_PENDING \<or> st_enforcementStatus l = E_LOCK_PENDING
        then [sr ''Zaklju~cavanje ~ceka potvrdu. Nova sesija nije bezbedna dok se stanje ne potvrdi.''] else [])
     @ (case command_waits l of Some n \<Rightarrow> [''Komanda #'' @ show_int n @ sr '' ~ceka potvrdu klijenta.''] | None \<Rightarrow> [])"

definition stationWarnings :: "station_overview \<Rightarrow> string list" where
  "stationWarnings s =
     (if connection_key s = C_OFFLINE then [sr ''Gaming Client nije povezan. Proverite ra~cunar i mre~zu.''] else [])
     @ (if connection_key s = C_WAITING then [sr ''Gaming Client jo~s nije poslao prvi heartbeat.''] else [])
     @ (case so_live s of Some l \<Rightarrow> live_warnings l (truthy (so_lastHeartbeatAt s)) | None \<Rightarrow> [])
     @ (if no_profile s then [sr ''Konfiguracija stanice ili profil aplikacija nisu pode~seni.''] else [])
     @ (if so_operationalStatus s = OP_MAINTENANCE then [sr ''Stanica je na odr~zavanju.''] else [])
     @ (if so_operationalStatus s = OP_RETIRED then [''Stanica je trajno van upotrebe.''] else [])"

definition problematicStation :: "station_overview \<Rightarrow> bool" where
  "problematicStation s \<longleftrightarrow> so_operationalStatus s \<noteq> OP_AVAILABLE \<or> connection_key s \<in> {C_OFFLINE, C_WAITING}
     \<or> (case so_live s of Some l \<Rightarrow> needsAttention l \<or> st_enforcementStatus l = E_LOCK_PENDING | None \<Rightarrow> False)
     \<or> no_profile s"

definition stationMessages :: "(string \<times> string) list" where
  "stationMessages =
    [(''Configuration was changed; refresh and try again'', sr ''Konfiguracija je u me~duvremenu promenjena. Ponovo otvorite pode~savanja nakon osve~zavanja.''),
     (''Application is used by a profile'', sr ''Aplikacija je deo profila i ne mo~ze biti obrisana.''),
     (''Application profile is assigned to a station'', sr ''Profil je dodeljen stanici i ne mo~ze biti obrisan.''),
     (''Application profile code is already in use'', sr ''Kod profila je ve~q zauzet.''),
     (''Application code is already in use'', sr ''Kod aplikacije je ve~q zauzet.''),
     (''A retired station cannot be reactivated'', sr ''Stanica van upotrebe ne mo~ze ponovo biti aktivirana.''),
     (''A client-enabled station requires an active application profile'', sr ''Uklju~cen Gaming Client zahteva aktivan profil aplikacija.''),
     (''Executable path must be an absolute Windows .exe path'', ''Unesite apsolutnu Windows putanju do .exe datoteke.''),
     (''Publisher or executable SHA-256 is required'', sr ''Potreban je izdava~c, sertifikat ili SHA-256 izvr~sne datoteke.''),
     (''Application profile must include at least one game'', sr ''Profil mora sadr~zati najmanje jednu igru.''),
     (''Profile references an unavailable application'', sr ''Profil sadr~zi neaktivnu ili nedostupnu aplikaciju.''),
     (''Every launcher must share a dependency group with an explicitly allowed game'', sr ''Svaki pokreta~c mora deliti grupu zavisnosti sa dozvoljenom igrom.''),
     (''Application arguments must be a single command-line value'', ''Argumenti moraju biti u jednom redu.''),
     (''Application profile contains duplicate entries'', sr ''Profil sadr~zi duplirane aplikacije.''),
     (''Application profile is inactive'', ''Profil aplikacija nije aktivan.''),
     (''Application profile not found'', sr ''Profil aplikacija nije prona~den.''),
     (''Application definition not found'', sr ''Aplikacija nije prona~dena.''),
     (''Gaming Client must be enabled before enrollment'', sr ''Uklju~cite Gaming Client u pode~savanjima stanice pre upisa.''),
     (''Station already has a machine identity'', sr ''Stanica ve~q ima identitet. Za promenu klju~ca koristite rotaciju.''),
     (''Station has no active identity to rotate'', sr ''Stanica nema aktivan identitet za rotaciju. Ponovo u~citajte identitete.''),
     (''Gaming station not found'', sr ''Gaming stanica nije prona~dena.''),
     (''Only a gaming PC can have a station profile'', sr ''Profil stanice mo~ze biti dodeljen samo gaming ra~cunaru.''),
     (''Access is denied'', ''Nemate dozvolu za ovu akciju.'')]"

definition stationError :: "cause \<Rightarrow> string \<Rightarrow> string" where
  "stationError e fallback = replace_texts stationMessages (apiErrorMessage e fallback)"

definition operationsUrl :: "station_overview \<Rightarrow> string" where
  "operationsUrl s = ''/gaming-sessions?stationId='' @ encodeURIComponent (so_resourceId s)"

datatype station_action =
    ActDetails station_tab | ActConfigure | ActIdentity | ActEmployees

record menu_action =
  ma_label :: string
  ma_action :: station_action
  ma_disabled :: bool

definition stationMenuActions :: "station_overview \<Rightarrow> auth_user option \<Rightarrow> bool \<Rightarrow> bool \<Rightarrow> menu_action list" where
  "stationMenuActions s user configurationDisabled administrationDisabled =
     [\<lparr>ma_label = ''Detalji stanice'', ma_action = ActDetails TAB_OVERVIEW, ma_disabled = False\<rparr>]
     @ (if hasCapability user STATION_MAINTENANCE
        then [\<lparr>ma_label = ''Podesi stanicu'', ma_action = ActConfigure, ma_disabled = configurationDisabled\<rparr>] else [])
     @ (if hasCapability user MACHINE_IDENTITY_MANAGE
        then [\<lparr>ma_label = ''Identitet Gaming Client-a'', ma_action = ActIdentity, ma_disabled = administrationDisabled\<rparr>] else [])
     @ (if hasCapability user RESOURCE_MANAGE
        then [\<lparr>ma_label = ''Zaposleni na resursu'', ma_action = ActEmployees, ma_disabled = administrationDisabled\<rparr>] else [])
     @ (if hasCapability user GAMING_SESSION_READ \<and> so_live s \<noteq> None
        then [\<lparr>ma_label = ''Istorija stanice'', ma_action = ActDetails TAB_HISTORY, ma_disabled = False\<rparr>] else [])"


subsection \<open>The order of versions\<close>

datatype client_version = Version nat nat nat nat

instantiation client_version :: linorder
begin

fun less_eq_client_version :: "client_version \<Rightarrow> client_version \<Rightarrow> bool" where
  "Version a b c d \<le> Version a' b' c' d' \<longleftrightarrow>
     a < a' \<or> a = a' \<and> (b < b' \<or> b = b' \<and> (c < c' \<or> c = c' \<and> d \<le> d'))"

definition less_client_version :: "client_version \<Rightarrow> client_version \<Rightarrow> bool" where
  "v < w \<longleftrightarrow> v \<le> w \<and> \<not> w \<le> (v :: client_version)"

instance
proof
  fix x y z :: client_version
  show "x \<le> x" by (cases x) simp
  show "x \<le> y \<or> y \<le> x" by (cases x; cases y) auto
  show "x = y" if "x \<le> y" "y \<le> x" using that by (cases x; cases y) auto
  show "x \<le> z" if "x \<le> y" "y \<le> z" using that by (cases x; cases y; cases z) auto
qed (rule less_client_version_def)

end

lemma less_Version [simp]:
  "Version a b c d < Version a' b' c' d' \<longleftrightarrow>
     a < a' \<or> a = a' \<and> (b < b' \<or> b = b' \<and> (c < c' \<or> c = c' \<and> d < d'))"
  by (auto simp: less_client_version_def)

definition version_place :: "nat list \<Rightarrow> nat \<Rightarrow> nat" where
  "version_place xs i = (if i < length xs then xs ! i else 0)"

definition version_of :: "string \<Rightarrow> client_version option" where
  "version_of s = map_option (\<lambda>xs. Version (version_place xs 0) (version_place xs 1) (version_place xs 2) (version_place xs 3)) (version_parts s)"

lemma newer_at_places:
  "newer_at n target current \<longleftrightarrow> (\<exists>k < n. version_place current k < version_place target k \<and> (\<forall>j < k. version_place target j = version_place current j))"
proof (induction n arbitrary: target current)
  case (Suc n)
  have p: "version_place xs 0 = (case xs of [] \<Rightarrow> 0 | x # _ \<Rightarrow> x)" "version_place (tl xs) i = version_place xs (Suc i)" for xs i
    by (cases xs; simp add: version_place_def)+
  show ?case
  proof (cases "version_place target 0 = version_place current 0")
    case True
    then have "newer_at (Suc n) target current \<longleftrightarrow> newer_at n (tl target) (tl current)" using p(1) by (simp add: Let_def)
    also have "\<dots> \<longleftrightarrow> (\<exists>k < n. version_place current (Suc k) < version_place target (Suc k) \<and> (\<forall>j < k. version_place target (Suc j) = version_place current (Suc j)))"
      by (simp add: Suc.IH p(2))
    also have "\<dots> \<longleftrightarrow> (\<exists>k < Suc n. version_place current k < version_place target k \<and> (\<forall>j < k. version_place target j = version_place current j))"
      using True by (auto simp: Ex_less_Suc2 All_less_Suc2)
    finally show ?thesis .
  next
    case False
    then have "newer_at (Suc n) target current \<longleftrightarrow> version_place current 0 < version_place target 0" using p(1) by (simp add: Let_def)
    with False show ?thesis by (auto simp: Ex_less_Suc2 All_less_Suc2)
  qed
qed simp

lemma newer_at_4: "newer_at 4 target current \<longleftrightarrow>
  Version (version_place current 0) (version_place current 1) (version_place current 2) (version_place current 3)
    < Version (version_place target 0) (version_place target 1) (version_place target 2) (version_place target 3)"
  unfolding newer_at_places by (simp add: numeral_eq_Suc Ex_less_Suc2 All_less_Suc2) auto

text \<open>
  Property C29: an update of the client is offered exactly when the published version is a well-formed
  version and the installed one is missing, unreadable or strictly earlier in the lexicographic order of
  the four numbers, where a missing fourth number counts as zero.
\<close>
theorem newer_version_is_later:
  "isNewerClientVersion available installed \<longleftrightarrow>
     (case Option.bind available version_of of
        None \<Rightarrow> False
      | Some target \<Rightarrow> (case Option.bind installed version_of of None \<Rightarrow> True | Some current \<Rightarrow> current < target))"
  unfolding isNewerClientVersion_def version_of_def
  by (cases available; cases installed) (auto simp: newer_at_4 split: option.splits)

lemma no_update_to_the_installed_version: "\<not> isNewerClientVersion v v \<or> Option.bind v version_parts = None"
  by (auto simp: isNewerClientVersion_def newer_at_places split: option.splits)


subsection \<open>The client package\<close>

text \<open>
  \<open>new URL(value, origin)\<close> is the parameter \<open>parse_url\<close>, which gives the parts the code reads, or None
  where it throws; \<open>here\<close> is \<open>window.location.origin\<close>.
\<close>

record url_parts =
  up_href :: string
  up_origin :: string
  up_protocol :: string
  up_username :: string
  up_password :: string

definition unpublished :: string where
  "unpublished = sr ''Gaming Client paket jo~s nije objavljen.''"

definition is_hex :: "char \<Rightarrow> bool" where
  "is_hex c \<longleftrightarrow> is_digit c \<or> CHR ''a'' \<le> c \<and> c \<le> CHR ''f''"

definition package_version_ok :: "string \<Rightarrow> bool" where
  "package_version_ok s \<longleftrightarrow> (let ps = split_on CHR ''.'' s
     in length ps \<in> {2, 3, 4} \<and> (\<forall>p \<in> set ps. p \<noteq> '''' \<and> (\<forall>c \<in> set p. is_digit c)))"

definition sha256_ok :: "string \<Rightarrow> bool" where
  "sha256_ok s \<longleftrightarrow> length s = 64 \<and> (\<forall>c \<in> set (to_lower s). is_hex c)"

fun upper_is :: "string \<Rightarrow> string \<Rightarrow> bool" where
  \<comment> \<open>\<open>s.toUpperCase() === p\<close> for the lower-case form of an ASCII \<open>p\<close>: beside the ASCII letters the dotless i
    (C4 B1) becomes I and the long s (C5 BF) becomes S\<close>
  "upper_is [] s \<longleftrightarrow> s = []"
| "upper_is (p # ps) [] \<longleftrightarrow> False"
| "upper_is (p # ps) (c # cs) \<longleftrightarrow>
     (if c = CHR 0xC4 then p = CHR ''i'' \<and> cs \<noteq> [] \<and> hd cs = CHR 0xB1 \<and> upper_is ps (tl cs)
      else if c = CHR 0xC5 then p = CHR ''s'' \<and> cs \<noteq> [] \<and> hd cs = CHR 0xBF \<and> upper_is ps (tl cs)
      else lower_char c = p \<and> upper_is ps cs)"

definition signed_package :: "gaming_client_package \<Rightarrow> bool" where
  "signed_package d \<longleftrightarrow> (case gc_signingSubject d of
     None \<Rightarrow> False | Some s \<Rightarrow> trim s \<noteq> '''' \<and> \<not> upper_is ''unpublished'' (trim s))"

definition packageConfiguration ::
  "(string \<Rightarrow> url_parts option) \<Rightarrow> string \<Rightarrow> gaming_client_package option \<Rightarrow> string + url_parts" where
  \<comment> \<open>the message without a URL, or the URL with an empty message\<close>
  "packageConfiguration parse_url here data =
     (case data of
        None \<Rightarrow> Inl unpublished
      | Some d \<Rightarrow>
          if trim (gc_status d) \<noteq> ''RELEASED'' then Inl unpublished
          else if \<not> package_version_ok (trim (gc_version d)) \<or> \<not> sha256_ok (gc_sha256 d) \<or> \<not> signed_package d
          then Inl (sr ''Objava paketa nema ispravnu verziju, SHA-256 ili podatak o potpisivanju.'')
          else let v = trim (gc_downloadUrl d)
            in if v = '''' \<or> \<not> (starts_with ''/'' v \<and> \<not> starts_with ''//'' v \<or> starts_with ''https://'' (to_lower v))
               then Inl ''URL za preuzimanje paketa nije ispravno konfigurisan.''
               else (case parse_url v of
                   None \<Rightarrow> Inl ''URL za preuzimanje paketa nije ispravno konfigurisan.''
                 | Some url \<Rightarrow>
                     if up_username url \<noteq> '''' \<or> up_password url \<noteq> '''' \<or> up_origin url \<noteq> here \<and> up_protocol url \<noteq> ''https:''
                     then Inl (sr ''Spolja~snje preuzimanje zahteva ispravan HTTPS URL.'')
                     else Inr url))"

definition zipContentType :: "string option \<Rightarrow> bool" where
  "zipContentType v \<longleftrightarrow> to_lower (trim (hd (split_on CHR '';'' (case v of Some s \<Rightarrow> s | None \<Rightarrow> ''''))))
     \<in> {''application/zip'', ''application/x-zip-compressed'', ''application/octet-stream''}"

record file_response = \<comment> \<open>what \<open>fetch\<close> resolves to\<close>
  fr_status :: nat
  fr_contentType :: "string option"
  fr_contentLength :: "string option"
  fr_bytes :: "8 word list option" \<comment> \<open>None: \<open>arrayBuffer\<close> rejects\<close>

definition fr_ok :: "file_response \<Rightarrow> bool" where
  "fr_ok r \<longleftrightarrow> 200 \<le> fr_status r \<and> fr_status r \<le> 299"

definition localAvailability :: "file_response \<Rightarrow> package_availability" where
  "localAvailability r =
     (if fr_status r = 404 then \<lparr>pa_available = False, pa_message = unpublished\<rparr>
      else if \<not> fr_ok r then \<lparr>pa_available = False, pa_message = sr ''Gaming Client paket trenutno nije dostupan. Poku~sajte ponovo.''\<rparr>
      else if \<not> zipContentType (fr_contentType r) \<or> fr_contentLength r = Some ''0''
      then \<lparr>pa_available = False, pa_message = sr ''Konfigurisana adresa ne vra~qa ZIP paket. Proverite objavu Gaming Client-a.''\<rparr>
      else \<lparr>pa_available = True, pa_message = ''''\<rparr>)"

datatype check_target = CheckLocal string | CheckApi http_request

definition availability_request :: "string \<Rightarrow> url_parts \<Rightarrow> check_target" where
  "availability_request here url = (if up_origin url = here then CheckLocal (up_href url) else CheckApi stationApi_clientPackageAvailability)"

record availability_query =
  aq_isError :: bool
  aq_isFetching :: bool
  aq_data :: "package_availability option"

record availability_view =
  av_url :: "url_parts option"
  av_ready :: bool
  av_checking :: bool
  av_known :: bool
  av_message :: string

definition useClientPackageAvailability :: "string + url_parts \<Rightarrow> availability_query \<Rightarrow> availability_view" where
  "useClientPackageAvailability configuration q =
     (let url = (case configuration of Inl _ \<Rightarrow> None | Inr u \<Rightarrow> Some u);
          message = (case configuration of Inl m \<Rightarrow> m | Inr _ \<Rightarrow> '''')
      in \<lparr>av_url = url,
          av_ready = (url \<noteq> None \<and> \<not> aq_isError q \<and> (case aq_data q of Some a \<Rightarrow> pa_available a | None \<Rightarrow> False)),
          av_checking = (url \<noteq> None \<and> aq_isFetching q),
          av_known = (url = None \<or> aq_data q \<noteq> None \<or> aq_isError q),
          av_message = (if message \<noteq> '''' then message
            else if aq_isError q then sr ''Dostupnost Gaming Client paketa nije mogu~qe potvrditi. Poku~sajte ponovo.''
            else case aq_data q of Some a \<Rightarrow> pa_message a | None \<Rightarrow> '''')\<rparr>)"

definition low_hex :: "nat \<Rightarrow> char" where
  "low_hex n = ''0123456789abcdef'' ! n"

definition hex_byte :: "8 word \<Rightarrow> string" where
  \<comment> \<open>\<open>value.toString(16).padStart(2, '0')\<close>\<close>
  "hex_byte b = pad_start 2 CHR ''0'' (if unat b < 16 then [low_hex (unat b)] else [low_hex (unat b div 16), low_hex (unat b mod 16)])"

definition hex_text :: "8 word list \<Rightarrow> string" where
  "hex_text bs = concat (map hex_byte bs)"

record package_environment =
  pe_here :: string
  pe_parse_url :: "string \<Rightarrow> url_parts option"
  pe_subtle :: bool \<comment> \<open>\<open>crypto.subtle\<close> exists\<close>
  pe_fetch :: "string \<Rightarrow> file_response option" \<comment> \<open>None: the request fails\<close>
  pe_api_bytes :: "8 word list option" \<comment> \<open>the answer to \<open>clientPackageDownload\<close>\<close>
  pe_sha256 :: "8 word list \<Rightarrow> 8 word list"
  pe_aborted :: bool

datatype download_result =
    Refused string \<comment> \<open>an \<open>Error\<close> with this message\<close>
  | Broken \<comment> \<open>an error of the platform or of the request\<close>
  | SavedFile "8 word list"

definition package_bytes :: "package_environment \<Rightarrow> url_parts \<Rightarrow> download_result" where
  \<comment> \<open>the two sources of the bytes, before they are checked\<close>
  "package_bytes env url =
     (if up_origin url = pe_here env
      then (case pe_fetch env (up_href url) of
          None \<Rightarrow> Broken
        | Some r \<Rightarrow>
            if fr_status r = 404 then Refused unpublished
            else if \<not> fr_ok r then Refused (sr ''Gaming Client paket trenutno nije dostupan. Poku~sajte ponovo.'')
            else if \<not> zipContentType (fr_contentType r) then Refused (sr ''Adresa za preuzimanje ne vra~qa ZIP paket.'')
            else (case fr_bytes r of None \<Rightarrow> Broken | Some b \<Rightarrow> SavedFile b))
      else (case pe_api_bytes env of None \<Rightarrow> Broken | Some b \<Rightarrow> SavedFile b))"

definition downloadClientPackage :: "package_environment \<Rightarrow> gaming_client_package \<Rightarrow> download_result" where
  "downloadClientPackage env d =
     (case packageConfiguration (pe_parse_url env) (pe_here env) (Some d) of
        Inl message \<Rightarrow> Refused message
      | Inr url \<Rightarrow>
          if \<not> pe_subtle env then Refused ''Za proveru integriteta paketa otvorite aplikaciju preko HTTPS-a ili localhost-a.''
          else (case package_bytes env url of
              SavedFile bytes \<Rightarrow>
                if take 4 bytes \<noteq> [0x50, 0x4b, 0x03, 0x04]
                then Refused (sr ''Preuzeti sadr~zaj nije ispravan ZIP paket. Fajl nije sa~cuvan.'')
                else if hex_text (pe_sha256 env bytes) \<noteq> to_lower (gc_sha256 d)
                then Refused (sr ''SHA-256 paketa se ne poklapa sa objavljenom vredno~s~qu. Fajl nije sa~cuvan.'')
                else if pe_aborted env then Broken
                else SavedFile bytes
            | r \<Rightarrow> r))"

lemma low_hex_inj: "m < 16 \<Longrightarrow> n < 16 \<Longrightarrow> low_hex m = low_hex n \<Longrightarrow> m = n"
  unfolding low_hex_def by (subst (asm) nth_eq_iff_index_eq) simp_all

lemma hex_byte_pair: "hex_byte b = [low_hex (unat b div 16), low_hex (unat b mod 16)]"
  by (cases "unat b < 16") (simp_all add: hex_byte_def pad_start_def low_hex_def js_length_def)


lemma hex_byte_inj: "hex_byte b = hex_byte c \<Longrightarrow> b = c"
proof -
  assume "hex_byte b = hex_byte c"
  then have h: "low_hex (unat b div 16) = low_hex (unat c div 16)" "low_hex (unat b mod 16) = low_hex (unat c mod 16)"
    by (simp_all add: hex_byte_pair)
  have "unat w < 256" for w :: "8 word" using unsigned_less [of w, where 'a = nat] by simp
  then have "unat b < 256" "unat c < 256" by blast+
  then have "unat b div 16 = unat c div 16" "unat b mod 16 = unat c mod 16"
    using low_hex_inj [OF _ _ h(1)] low_hex_inj [OF _ _ h(2)] by simp_all
  then have "unat b = unat c" by (metis mult_div_mod_eq)
  then show "b = c" by (rule unsigned_word_eqI)
qed

lemma hex_text_inj: "hex_text xs = hex_text ys \<Longrightarrow> xs = ys"
proof (induction xs arbitrary: ys)
  case Nil
  then show ?case by (cases ys) (simp_all add: hex_text_def hex_byte_pair)
next
  case (Cons x xs)
  from Cons.prems obtain y ys' where ys: "ys = y # ys'" by (cases ys) (simp_all add: hex_text_def hex_byte_pair)
  with Cons.prems have "hex_byte x = hex_byte y" "hex_text xs = hex_text ys'"
    by (simp_all add: hex_text_def hex_byte_pair)
  with Cons.IH ys show ?case by (auto dest: hex_byte_inj)
qed

lemma packageConfiguration_url:
  assumes "packageConfiguration parse_url here data = Inr url"
  obtains d where "data = Some d" and "trim (gc_status d) = ''RELEASED''" and "signed_package d" and "sha256_ok (gc_sha256 d)"
    and "parse_url (trim (gc_downloadUrl d)) = Some url" and "up_username url = ''''" and "up_password url = ''''"
    and "up_origin url = here \<or> up_protocol url = ''https:''"
  using assms by (auto simp: packageConfiguration_def Let_def split: option.splits if_splits)

lemma saved_file:
  assumes "downloadClientPackage env d = SavedFile bytes"
  obtains url where "packageConfiguration (pe_parse_url env) (pe_here env) (Some d) = Inr url"
    and "package_bytes env url = SavedFile bytes" and "take 4 bytes = [0x50, 0x4b, 0x03, 0x04]"
    and "hex_text (pe_sha256 env bytes) = to_lower (gc_sha256 d)" and "\<not> pe_aborted env"
  using assms by (auto simp: downloadClientPackage_def split: sum.splits download_result.splits if_splits)

text \<open>
  Property C28: a client package reaches the disk only when its release is published and signed, its address
  has no credentials and is the application's own or an HTTPS one, its bytes begin like a ZIP archive and
  their SHA-256 is the published one. Hence every copy saved for one release has the same digest, whatever
  the network answered.
\<close>
theorem saved_package_is_the_published_one:
  assumes "downloadClientPackage env d = SavedFile bytes"
  shows "trim (gc_status d) = ''RELEASED'' \<and> signed_package d \<and> take 4 bytes = [0x50, 0x4b, 0x03, 0x04]
    \<and> hex_text (pe_sha256 env bytes) = to_lower (gc_sha256 d)
    \<and> (\<exists>url. pe_parse_url env (trim (gc_downloadUrl d)) = Some url \<and> up_username url = '''' \<and> up_password url = ''''
        \<and> (up_origin url = pe_here env \<or> up_protocol url = ''https:''))
    \<and> (downloadClientPackage env' d = SavedFile bytes' \<longrightarrow> pe_sha256 env' bytes' = pe_sha256 env bytes)"
proof -
  obtain url where u: "packageConfiguration (pe_parse_url env) (pe_here env) (Some d) = Inr url"
    and b: "take 4 bytes = [0x50, 0x4b, 0x03, 0x04]" "hex_text (pe_sha256 env bytes) = to_lower (gc_sha256 d)"
    using saved_file [OF assms] by metis
  have "pe_sha256 env' bytes' = pe_sha256 env bytes" if "downloadClientPackage env' d = SavedFile bytes'"
    using saved_file [OF that] b(2) hex_text_inj by metis
  with u b show ?thesis by (auto elim!: packageConfiguration_url)
qed

definition sample_package :: gaming_client_package where
  "sample_package = \<lparr>gc_version = ''1.2.0'', gc_status = ''RELEASED'', gc_downloadUrl = ''/client.zip'',
     gc_sha256 = replicate 64 CHR ''A'', gc_signingSubject = Some ''CN=G'', gc_minimumVersion = None\<rparr>"

definition sample_site :: package_environment where
  "sample_site = \<lparr>pe_here = ''https://g'',
     pe_parse_url = (\<lambda>v. Some \<lparr>up_href = ''https://g'' @ v, up_origin = ''https://g'', up_protocol = ''https:'', up_username = '''', up_password = ''''\<rparr>),
     pe_subtle = True,
     pe_fetch = (\<lambda>_. Some \<lparr>fr_status = 200, fr_contentType = Some ''application/zip'', fr_contentLength = None,
       fr_bytes = Some [0x50, 0x4b, 0x03, 0x04, 0x00]\<rparr>),
     pe_api_bytes = None, pe_sha256 = (\<lambda>_. replicate 32 0xAA), pe_aborted = False\<rparr>"

lemma sample_download: "downloadClientPackage sample_site sample_package = SavedFile [0x50, 0x4b, 0x03, 0x04, 0x00]"
proof -
  have c: "lower_char CHR ''A'' = CHR ''a''" by code_simp
  have s: "sha256_ok (replicate 64 CHR ''A'')" by (simp add: sha256_ok_def to_lower_def c is_hex_def)
  have "hex_byte 0xAA = ''aa''" by (simp add: hex_byte_pair low_hex_def)
  then have h: "hex_text (replicate 32 0xAA) = to_lower (replicate 64 CHR ''A'')"
    by (simp add: hex_text_def to_lower_def c numeral_eq_Suc)
  have t: "trim ''RELEASED'' = ''RELEASED''" "trim ''1.2.0'' = ''1.2.0''" "trim ''/client.zip'' = ''/client.zip''" "trim ''CN=G'' = ''CN=G''"
    by (simp_all add: trim_def is_space_def)
  have v: "package_version_ok ''1.2.0''" by (simp add: package_version_ok_def is_digit_def less_eq_char_def)
  have z: "zipContentType (Some ''application/zip'')" by (simp add: zipContentType_def trim_def is_space_def to_lower_def lower_char_def less_eq_char_def)
  have g: "signed_package sample_package" by (simp add: signed_package_def sample_package_def t lower_char_def less_eq_char_def)
  have "packageConfiguration (pe_parse_url sample_site) (pe_here sample_site) (Some sample_package)
      = Inr \<lparr>up_href = ''https://g/client.zip'', up_origin = ''https://g'', up_protocol = ''https:'', up_username = '''', up_password = ''''\<rparr>"
    using g by (simp add: packageConfiguration_def) (simp add: sample_package_def sample_site_def t v s starts_with_def)
  then show ?thesis by (simp add: downloadClientPackage_def package_bytes_def) (simp add: sample_site_def sample_package_def z fr_ok_def h)
qed

theorem saved_package_is_the_published_one_witness:
  "downloadClientPackage sample_site sample_package = SavedFile [0x50, 0x4b, 0x03, 0x04, 0x00]
   \<and> hex_text (pe_sha256 sample_site [0x50, 0x4b, 0x03, 0x04, 0x00]) = to_lower (gc_sha256 sample_package)"
  using saved_package_is_the_published_one [OF sample_download] sample_download by blast


subsection \<open>Saving from a dialog\<close>

text \<open>
  \<open>useStationSave\<close>: a mutation behind the flag \<open>inFlight\<close>. The shape of the fields that the browser
  checks itself (\<open>required\<close>, \<open>pattern\<close>, \<open>maxLength\<close>) is not part of the handlers.
\<close>

record station_save =
  sv_inFlight :: bool
  sv_pending :: bool
  sv_error :: "cause option"

definition save_idle :: station_save where
  "save_idle = \<lparr>sv_inFlight = False, sv_pending = False, sv_error = None\<rparr>"

definition save_submit :: "'r \<Rightarrow> station_save \<Rightarrow> station_save \<times> 'r option" where
  "save_submit request s = (if sv_inFlight s then (s, None)
     else (s\<lparr>sv_inFlight := True, sv_pending := True, sv_error := None\<rparr>, Some request))"

definition save_settled :: "cause option \<Rightarrow> station_save \<Rightarrow> station_save" where
  \<comment> \<open>\<open>onSuccess\<close> or \<open>onError\<close>, then \<open>onSettled\<close>\<close>
  "save_settled e s = s\<lparr>sv_inFlight := False, sv_pending := False, sv_error := e\<rparr>"

definition or_undefined :: "string option \<Rightarrow> string option" where
  \<comment> \<open>\<open>value?.trim() || undefined\<close>\<close>
  "or_undefined v = (case v of None \<Rightarrow> None | Some s \<Rightarrow> if trim s = '''' then None else Some (trim s))"

record station_form =
  sf_status :: station_operational_status
  sf_profile :: string
  sf_enabled :: bool
  sf_heartbeat :: int
  sf_grace :: int

definition station_form_of :: "station_overview \<Rightarrow> station_form" where
  "station_form_of s = \<lparr>sf_status = so_operationalStatus s,
     sf_profile = (case so_applicationProfileId s of Some p \<Rightarrow> p | None \<Rightarrow> ''''), sf_enabled = so_clientEnabled s,
     sf_heartbeat = so_heartbeatIntervalSeconds s, sf_grace = so_offlineGraceSeconds s\<rparr>"

definition timingError :: "station_form \<Rightarrow> bool" where
  "timingError f \<longleftrightarrow> sf_grace f < sf_heartbeat f"

definition station_form_dirty :: "station_overview \<Rightarrow> station_form \<Rightarrow> bool" where
  "station_form_dirty s f \<longleftrightarrow> f \<noteq> station_form_of s"

definition station_form_request :: "station_overview \<Rightarrow> station_form \<Rightarrow> http_request" where
  "station_form_request s f = stationApi_saveStation (so_resourceId s)
     \<lparr>sp_operationalStatus = sf_status f, sp_applicationProfileId = (if sf_profile f = '''' then None else Some (sf_profile f)),
      sp_clientEnabled = sf_enabled f, sp_heartbeatIntervalSeconds = sf_heartbeat f, sp_offlineGraceSeconds = sf_grace f,
      sp_version = so_version s\<rparr>"

definition station_form_submit :: "station_overview \<Rightarrow> station_form \<Rightarrow> station_save \<Rightarrow> station_save \<times> http_request option" where
  "station_form_submit s f v = (if sv_pending v \<or> timingError f then (v, None) else save_submit (station_form_request s f) v)"

definition status_offered :: "station_overview \<Rightarrow> station_operational_status \<Rightarrow> bool" where
  "status_offered s v \<longleftrightarrow> \<not> (so_operationalStatus s = OP_RETIRED \<and> v \<noteq> OP_RETIRED)"

subsection \<open>Applications and their profiles\<close>

definition emptyDefinition :: application_definition_input where
  "emptyDefinition = \<lparr>di_code = '''', di_name = '''', di_type = GAME, di_executablePath = '''', di_publisher = Some '''',
     di_publisherCertificateThumbprint = Some '''', di_executableSha256 = Some '''', di_minimumFileVersion = Some '''',
     di_defaultArguments = Some '''', di_active = True, di_version = None\<rparr>"

definition application_form :: "application_definition option \<Rightarrow> application_definition_input" where
  "application_form v = (case v of None \<Rightarrow> emptyDefinition
     | Some d \<Rightarrow> \<lparr>di_code = ad_code d, di_name = ad_name d, di_type = ad_type d, di_executablePath = ad_executablePath d,
         di_publisher = ad_publisher d, di_publisherCertificateThumbprint = ad_publisherCertificateThumbprint d,
         di_executableSha256 = ad_executableSha256 d, di_minimumFileVersion = ad_minimumFileVersion d,
         di_defaultArguments = ad_defaultArguments d, di_active = ad_active d, di_version = None\<rparr>)"

definition application_request :: "application_definition option \<Rightarrow> application_definition_input \<Rightarrow> http_request" where
  "application_request v f =
     (let r = f\<lparr>di_publisher := or_undefined (di_publisher f),
          di_publisherCertificateThumbprint := or_undefined (di_publisherCertificateThumbprint f),
          di_executableSha256 := or_undefined (di_executableSha256 f),
          di_minimumFileVersion := or_undefined (di_minimumFileVersion f),
          di_defaultArguments := or_undefined (di_defaultArguments f), di_version := map_option ad_version v\<rparr>
      in case v of Some d \<Rightarrow> stationApi_updateDefinition (ad_id d) r | None \<Rightarrow> stationApi_createDefinition r)"

definition identityMissing :: "application_definition_input \<Rightarrow> bool" where
  "identityMissing f \<longleftrightarrow> or_undefined (di_publisher f) = None \<and> or_undefined (di_publisherCertificateThumbprint f) = None
     \<and> or_undefined (di_executableSha256 f) = None"

definition application_submit ::
  "application_definition option \<Rightarrow> application_definition_input \<Rightarrow> station_save \<Rightarrow> station_save \<times> http_request option" where
  "application_submit v f s = (if sv_pending s \<or> identityMissing f then (s, None) else save_submit (application_request v f) s)"

record profile_form =
  pf_code :: string
  pf_name :: string
  pf_description :: string
  pf_active :: bool
  pf_entries :: "profile_entry list"

definition profile_form_of :: "application_profile option \<Rightarrow> profile_form" where
  "profile_form_of v = (case v of
     None \<Rightarrow> \<lparr>pf_code = '''', pf_name = '''', pf_description = '''', pf_active = True, pf_entries = []\<rparr>
   | Some p \<Rightarrow> \<lparr>pf_code = ap_code p, pf_name = ap_name p,
       pf_description = (case ap_description p of Some d \<Rightarrow> d | None \<Rightarrow> ''''), pf_active = ap_active p,
       pf_entries = map (\<lambda>e. \<lparr>pe_applicationDefinitionId = ape_applicationDefinitionId e,
         pe_requiredProcess = ape_requiredProcess e, pe_autoStart = ape_autoStart e, pe_launchOrder = ape_launchOrder e,
         pe_argumentsOverride = ape_argumentsOverride e, pe_dependencyGroup = ape_dependencyGroup e\<rparr>) (ap_entries p)\<rparr>)"

definition hasGame :: "application_definition list \<Rightarrow> profile_entry list \<Rightarrow> bool" where
  "hasGame definitions entries \<longleftrightarrow> list_ex (\<lambda>e. case find (\<lambda>d. ad_id d = pe_applicationDefinitionId e) definitions of
     Some d \<Rightarrow> ad_type d = GAME | None \<Rightarrow> False) entries"

definition profile_unavailable :: "application_definition list \<Rightarrow> profile_entry list \<Rightarrow> bool" where
  "profile_unavailable definitions entries \<longleftrightarrow>
     list_ex (\<lambda>e. \<not> list_ex (\<lambda>d. ad_id d = pe_applicationDefinitionId e \<and> ad_active d) definitions) entries"

definition toggle_entry :: "application_definition \<Rightarrow> bool \<Rightarrow> profile_entry list \<Rightarrow> profile_entry list" where
  "toggle_entry d checked entries =
     (if checked then entries @ [\<lparr>pe_applicationDefinitionId = ad_id d, pe_requiredProcess = ad_type d \<noteq> GAME,
          pe_autoStart = ad_type d \<noteq> GAME, pe_launchOrder = foldl (\<lambda>m e. max m (pe_launchOrder e + 1)) 0 entries,
          pe_argumentsOverride = None, pe_dependencyGroup = None\<rparr>]
      else filter (\<lambda>e. pe_applicationDefinitionId e \<noteq> ad_id d) entries)"

definition update_entry :: "string \<Rightarrow> (profile_entry \<Rightarrow> profile_entry) \<Rightarrow> profile_entry list \<Rightarrow> profile_entry list" where
  "update_entry i change entries = map (\<lambda>e. if pe_applicationDefinitionId e = i then change e else e) entries"

definition remove_entry :: "string \<Rightarrow> profile_entry list \<Rightarrow> profile_entry list" where
  "remove_entry i entries = filter (\<lambda>e. pe_applicationDefinitionId e \<noteq> i) entries"

definition profile_request :: "application_profile option \<Rightarrow> profile_form \<Rightarrow> http_request" where
  "profile_request v f =
     (let r = \<lparr>pi_code = pf_code f, pi_name = pf_name f, pi_description = or_undefined (Some (pf_description f)),
          pi_active = pf_active f, pi_version = map_option ap_version v,
          pi_entries = map (\<lambda>e. e\<lparr>pe_dependencyGroup := or_undefined (pe_dependencyGroup e),
            pe_argumentsOverride := or_undefined (pe_argumentsOverride e)\<rparr>) (pf_entries f)\<rparr>
      in case v of Some p \<Rightarrow> stationApi_updateProfile (ap_id p) r | None \<Rightarrow> stationApi_createProfile r)"

definition profile_submit ::
  "application_definition list \<Rightarrow> application_profile option \<Rightarrow> profile_form \<Rightarrow> station_save \<Rightarrow> station_save \<times> http_request option" where
  "profile_submit definitions v f s =
     (if sv_pending s \<or> \<not> hasGame definitions (pf_entries f) \<or> profile_unavailable definitions (pf_entries f) then (s, None)
      else save_submit (profile_request v f) s)"

definition entry_offered :: "application_definition \<Rightarrow> profile_entry list \<Rightarrow> bool" where
  \<comment> \<open>the rows with a checkbox; it can be set only for an active application or one of the profile\<close>
  "entry_offered d entries \<longleftrightarrow> ad_active d \<or> list_ex (\<lambda>e. pe_applicationDefinitionId e = ad_id d) entries"


subsection \<open>The one-time code of a station\<close>

text \<open>
  \<open>StationIdentityDialog\<close>: the handlers \<open>issue\<close> and \<open>revoke\<close> are split at their awaits. \<open>identities\<close> is the
  answer of the query with its error flag.
\<close>

record identity_dialog =
  id_enrollment :: "enrollment_token option"
  id_busy :: bool
  id_error :: string
  id_inFlight :: bool

definition identity_open :: identity_dialog where
  "identity_open = \<lparr>id_enrollment = None, id_busy = False, id_error = '''', id_inFlight = False\<rparr>"

definition issue_start ::
  "station_overview \<Rightarrow> machine_identity list option \<Rightarrow> bool \<Rightarrow> bool \<Rightarrow> identity_dialog \<Rightarrow> identity_dialog \<times> http_request option" where
  "issue_start s identities isError rotation d =
     (if id_inFlight d \<or> identities = None \<or> isError then (d, None)
      else (d\<lparr>id_inFlight := True, id_busy := True, id_error := '''', id_enrollment := None\<rparr>,
        Some (if rotation then stationApi_createRotationToken (so_resourceId s) else stationApi_createEnrollmentToken (so_resourceId s))))"

definition issue_answered :: "cause + enrollment_token \<Rightarrow> identity_dialog \<Rightarrow> identity_dialog" where
  \<comment> \<open>before the identities are read again\<close>
  "issue_answered r d = (case r of
     Inr t \<Rightarrow> d\<lparr>id_enrollment := Some t\<rparr>
   | Inl e \<Rightarrow> d\<lparr>id_error := stationError e (sr ''Kod nije mogu~qe preuzeti. Proverite stanje identiteta pre novog poku~saja.'')\<rparr>)"

definition identity_finally :: "identity_dialog \<Rightarrow> identity_dialog" where
  "identity_finally d = d\<lparr>id_inFlight := False, id_busy := False\<rparr>"

definition revoke_confirmed :: "station_overview \<Rightarrow> identity_dialog \<Rightarrow> identity_dialog \<times> (string + http_request)" where
  "revoke_confirmed s d = (if id_inFlight d then (d, Inl (sr ''Sa~cekajte zavr~setak prethodne akcije.''))
     else (d\<lparr>id_inFlight := True, id_busy := True, id_error := ''''\<rparr>, Inr (stationApi_revokeMachineIdentities (so_resourceId s))))"

definition revoke_answered :: "bool \<Rightarrow> identity_dialog \<Rightarrow> identity_dialog" where
  "revoke_answered revoked d = (if revoked then d\<lparr>id_enrollment := None\<rparr> else d)"

definition identity_close :: "identity_dialog \<Rightarrow> close_result" where
  "identity_close d = (if id_busy d then CloseIgnored else if id_enrollment d = None then CloseNow else CloseAsk)"

definition identity_guard :: "string \<Rightarrow> identity_dialog \<Rightarrow> work \<Rightarrow> work" where
  "identity_guard i d w = guard_effect i (id_busy d \<or> id_enrollment d \<noteq> None) (id_busy d) (id_enrollment d \<noteq> None) w"

definition issue_offered :: "station_overview \<Rightarrow> machine_identity list option \<Rightarrow> bool \<Rightarrow> bool \<Rightarrow> bool" where
  \<comment> \<open>the two buttons; \<open>waiting\<close> is \<open>isLoading || isFetching || isError || !data\<close>\<close>
  "issue_offered s identities waiting rotation \<longleftrightarrow> \<not> waiting \<and> so_clientEnabled s
     \<and> (rotation \<longleftrightarrow> list_ex (\<lambda>m. mi_status m = MI_ACTIVE) (the identities))"

inductive identity_step :: "station_overview \<Rightarrow> identity_dialog \<Rightarrow> identity_dialog \<Rightarrow> bool" for s where
  issue: "issue_start s identities isError rotation d = (d', Some rq) \<Longrightarrow> identity_step s d d'"
| answered: "id_inFlight d \<Longrightarrow> identity_step s d (issue_answered r d)"
| revoke: "revoke_confirmed s d = (d', Inr rq) \<Longrightarrow> identity_step s d d'"
| revoked: "id_inFlight d \<Longrightarrow> identity_step s d (revoke_answered ok d)"
| finished: "id_inFlight d \<Longrightarrow> identity_step s d (identity_finally d)"

inductive identity_reachable :: "station_overview \<Rightarrow> identity_dialog \<Rightarrow> bool" for s where
  opened: "identity_reachable s identity_open"
| next_state: "identity_reachable s d \<Longrightarrow> identity_step s d d' \<Longrightarrow> identity_reachable s d'"

lemma identity_busy_inFlight: "identity_reachable s d \<Longrightarrow> id_busy d = id_inFlight d"
proof (induction rule: identity_reachable.induct)
  case (next_state d d')
  from next_state.hyps(2) next_state.IH show ?case
    by (cases rule: identity_step.cases) (auto simp: issue_start_def issue_answered_def revoke_confirmed_def revoke_answered_def
        identity_finally_def split: if_splits sum.splits)
qed (simp add: identity_open_def)

text \<open>
  The one-time code of a station cannot be lost by accident. In every state the dialog
  reaches, while a request runs or a code is shown the dialog does not close without an explicit
  confirmation, the address cannot change to another place, and no second request starts while one runs.
\<close>
theorem one_time_code_is_guarded:
  assumes "identity_reachable s d" and "id_busy d \<or> id_enrollment d \<noteq> None" and "next \<noteq> current"
  shows "identity_close d \<noteq> CloseNow \<and> navigation_blocked True (identity_guard i d w) current next
    \<and> (id_busy d \<longrightarrow> snd (issue_start s identities isError rotation d) = None \<and> (\<nexists>rq. snd (revoke_confirmed s d) = Inr rq))"
proof -
  let ?k = "guard_kind (id_busy d) (id_enrollment d \<noteq> None)"
  have "map_of (identity_guard i d w) i = Some ?k" using assms(2) by (simp add: identity_guard_def guard_effect_def update_conv')
  then have m: "(i, ?k) \<in> set (identity_guard i d w)" by (rule map_of_SomeD)
  have "?k = W_pending \<or> ?k = W_handoff" using assms(2) by (cases "id_busy d") (auto simp: guard_kind_def)
  with m have "W_pending \<in> snd ` set (identity_guard i d w) \<or> W_handoff \<in> snd ` set (identity_guard i d w)" by force
  then have "unsavedWorkState (identity_guard i d w) \<in> {WS_pending, WS_handoff}" by (auto simp: unsavedWorkState_def)
  moreover have "pl_pathname current \<noteq> pl_pathname next \<or> pl_search current \<noteq> pl_search next \<or> pl_hash current \<noteq> pl_hash next"
    using assms(3) by (cases current; cases "next") auto
  ultimately have "navigation_blocked True (identity_guard i d w) current next" by (auto simp: navigation_blocked_def)
  with assms(2) identity_busy_inFlight [OF assms(1)] show ?thesis
    by (auto simp: identity_close_def issue_start_def revoke_confirmed_def)
qed

definition sample_station :: station_overview where
  "sample_station = \<lparr>so_stationProfileId = None, so_resourceId = ''r1'', so_resourceCode = ''PC1'', so_resourceName = ''PC 1'',
     so_areaId = '''', so_locationId = '''', so_operationalStatus = OP_AVAILABLE, so_effectiveStatus = EF_AVAILABLE,
     so_applicationProfileId = None, so_applicationProfileName = None, so_clientMode = None, so_configurationVersion = 1,
     so_clientEnabled = True, so_heartbeatIntervalSeconds = 10, so_offlineGraceSeconds = 30, so_lastHeartbeatAt = None,
     so_clientVersion = None, so_activeSessionId = None, so_version = None, so_locationName = None, so_areaName = None,
     so_live = None, so_availableClientVersion = None\<rparr>"

theorem one_time_code_is_guarded_witness:
  "\<exists>d. identity_reachable sample_station d \<and> id_busy d \<and> navigation_blocked True (identity_guard ''i'' d [])
     \<lparr>pl_pathname = ''/stations'', pl_search = '''', pl_hash = ''''\<rparr> \<lparr>pl_pathname = ''/home'', pl_search = '''', pl_hash = ''''\<rparr>"
proof -
  obtain d rq where d: "issue_start sample_station (Some []) False False identity_open = (d, Some rq)" and b: "id_busy d"
    by (simp add: issue_start_def identity_open_def)
  have r: "identity_reachable sample_station d"
    by (rule identity_reachable.next_state [OF identity_reachable.opened]) (rule identity_step.issue [OF d])
  from one_time_code_is_guarded [OF r, where i = "''i''" and w = "[]"] b
  have "navigation_blocked True (identity_guard ''i'' d [])
     \<lparr>pl_pathname = ''/stations'', pl_search = '''', pl_hash = ''''\<rparr> \<lparr>pl_pathname = ''/home'', pl_search = '''', pl_hash = ''''\<rparr>" by simp
  with r b show ?thesis by blast
qed

text \<open>
  A profile is sent only with an active game in it and with active applications only, and setting the
  checkbox of an application that is not in the profile keeps every application at most once and puts it
  after all others in the launch order.
\<close>

lemma sent_profile_has_a_game:
  assumes "profile_submit definitions v f s = (s', Some rq)"
  shows "rq = profile_request v f"
    and "\<exists>e \<in> set (pf_entries f). \<exists>d \<in> set definitions. ad_id d = pe_applicationDefinitionId e \<and> ad_type d = GAME"
    and "\<forall>e \<in> set (pf_entries f). \<exists>d \<in> set definitions. ad_id d = pe_applicationDefinitionId e \<and> ad_active d"
proof -
  from assms have c: "hasGame definitions (pf_entries f)" "\<not> profile_unavailable definitions (pf_entries f)" "rq = profile_request v f"
    by (auto simp: profile_submit_def save_submit_def split: if_splits)
  show "rq = profile_request v f" by (fact c(3))
  show "\<exists>e \<in> set (pf_entries f). \<exists>d \<in> set definitions. ad_id d = pe_applicationDefinitionId e \<and> ad_type d = GAME"
  proof -
    from c(1) obtain e where e: "e \<in> set (pf_entries f)"
      and g: "case find (\<lambda>d. ad_id d = pe_applicationDefinitionId e) definitions of Some d \<Rightarrow> ad_type d = GAME | None \<Rightarrow> False"
      by (auto simp: hasGame_def list_ex_iff)
    from g obtain d where d: "find (\<lambda>d. ad_id d = pe_applicationDefinitionId e) definitions = Some d" "ad_type d = GAME"
      by (auto split: option.splits)
    from d(1) have "d \<in> set definitions" "ad_id d = pe_applicationDefinitionId e" by (auto simp: find_Some_iff)
    with e d(2) show ?thesis by blast
  qed
  show "\<forall>e \<in> set (pf_entries f). \<exists>d \<in> set definitions. ad_id d = pe_applicationDefinitionId e \<and> ad_active d"
    using c(2) by (auto simp: profile_unavailable_def list_ex_iff)
qed

lemma launch_order_bound:
  "x \<le> foldl (\<lambda>m e. max m (pe_launchOrder e + 1)) x es
   \<and> (\<forall>e \<in> set es. pe_launchOrder e < foldl (\<lambda>m e. max m (pe_launchOrder e + 1)) x es)"
  by (induction es arbitrary: x) (auto simp: max_def intro: order_trans, (smt (verit))+)

end
