(* ===== verification/StationPages.thy ===== *)
theory StationPages
  imports Stations
begin

section \<open>The page of the gaming stations\<close>

text \<open>
  Models the state and handlers of \<open>pages/StationsPage.tsx\<close>, \<open>stations/StationClientUpdates.tsx\<close>, the
  download of \<open>stations/StationAdministration.tsx\<close> and \<open>gaming/useGamingOperations.ts\<close>.
  \<open>before\<close> is the Serbian collation of names, \<open>lower\<close> is \<open>toLocaleLowerCase\<close>, \<open>to_number\<close> is \<open>Number\<close>.
\<close>

subsection \<open>The list\<close>

record station_filters =
  sfl_search :: string
  sfl_status :: string
  sfl_locationId :: string
  sfl_areaId :: string
  sfl_profileId :: string
  sfl_connection :: string
  sfl_page :: string
  sfl_size :: string

definition known_operational :: "string option \<Rightarrow> station_operational_status option" where
  "known_operational v = (if v = Some ''AVAILABLE'' then Some OP_AVAILABLE
     else if v = Some ''MAINTENANCE'' then Some OP_MAINTENANCE else if v = Some ''RETIRED'' then Some OP_RETIRED else None)"

definition known_effective :: "string option \<Rightarrow> station_effective_status option" where
  "known_effective v = (if v = Some ''AVAILABLE'' then Some EF_AVAILABLE
     else if v = Some ''MAINTENANCE'' then Some EF_MAINTENANCE else if v = Some ''RETIRED'' then Some EF_RETIRED
     else if v = Some ''IN_SESSION'' then Some EF_IN_SESSION else if v = Some ''OFFLINE'' then Some EF_OFFLINE else None)"

definition or_else :: "'a option \<Rightarrow> 'a option \<Rightarrow> 'a option" where
  "or_else a b = (case a of None \<Rightarrow> b | Some _ \<Rightarrow> a)"

definition merge_live :: "string option \<Rightarrow> gaming_station_card option \<Rightarrow> station_overview \<Rightarrow> station_overview" where
  "merge_live released live v =
     (let v = v\<lparr>so_live := live, so_availableClientVersion := released\<rparr>
      in case live of
        None \<Rightarrow> v
      | Some l \<Rightarrow> v\<lparr>so_locationName := or_else (so_locationName v) (st_locationName l),
          so_areaName := or_else (so_areaName v) (st_areaName l),
          so_operationalStatus := (case known_operational (st_operationalStatus l) of Some s \<Rightarrow> s | None \<Rightarrow> so_operationalStatus v),
          so_effectiveStatus := (case known_effective (st_effectiveStatus l) of Some s \<Rightarrow> s | None \<Rightarrow> so_effectiveStatus v),
          so_activeSessionId := st_sessionId l, so_lastHeartbeatAt := st_lastHeartbeatAt l,
          so_clientVersion := or_else (st_clientVersion l) (so_clientVersion v), so_clientEnabled := st_clientEnabled l\<rparr>)"

definition released_version :: "bool \<Rightarrow> gaming_client_package option \<Rightarrow> string option" where
  "released_version isError data = (case data of
     Some d \<Rightarrow> if \<not> isError \<and> gc_status d = ''RELEASED'' then Some (gc_version d) else None | None \<Rightarrow> None)"

definition allStations ::
  "(string \<Rightarrow> string \<Rightarrow> bool) \<Rightarrow> bool \<Rightarrow> gaming_station_card list \<Rightarrow> string option \<Rightarrow> station_overview list \<Rightarrow> station_overview list" where
  \<comment> \<open>\<open>new Map\<close> keeps the last card of a resource\<close>
  "allStations before canOperate cards released stations =
     (let liveById = map_of (rev (map (\<lambda>c. (st_resourceId c, c)) (if canOperate then cards else [])))
      in sort_by (\<lambda>a b. before (so_resourceName a) (so_resourceName b))
           (map (\<lambda>v. merge_live released (liveById (so_resourceId v)) v) stations))"

fun board_text :: "gaming_station_board_status \<Rightarrow> string" where
  "board_text B_WAITING_FOR_LOGIN = ''WAITING_FOR_LOGIN''"
| "board_text B_CLIENT_ERROR = ''CLIENT_ERROR''"
| "board_text B_PREPARATION_REQUIRED = ''PREPARATION_REQUIRED''"
| "board_text B_TRANSFER_PENDING = ''TRANSFER_PENDING''"
| "board_text B_AVAILABLE = ''AVAILABLE''"
| "board_text B_ACTIVE = ''ACTIVE''"
| "board_text B_MAINTENANCE = ''MAINTENANCE''"
| "board_text B_RETIRED = ''RETIRED''"
| "board_text B_OFFLINE = ''OFFLINE''"
| "board_text B_EXPIRED = ''EXPIRED''"
| "board_text B_LOCK_PENDING = ''LOCK_PENDING''"

fun connection_text :: "connection \<Rightarrow> string" where
  "connection_text C_MANUAL = ''MANUAL''"
| "connection_text C_WAITING = ''WAITING''"
| "connection_text C_OFFLINE = ''OFFLINE''"
| "connection_text C_CONNECTED = ''CONNECTED''"
| "connection_text C_UNKNOWN = ''UNKNOWN''"

definition searched_texts :: "auth_user option \<Rightarrow> station_overview \<Rightarrow> string list" where
  "searched_texts user v = [so_resourceName v, so_resourceCode v]
     @ (case so_live v of
          Some l \<Rightarrow> if hasCapability user CUSTOMER_READ \<and> truthy (st_sessionId l)
            then (case st_customerDisplayName l of Some n \<Rightarrow> [n] | None \<Rightarrow> []) else ['''']
        | None \<Rightarrow> [''''])"

definition station_matches :: "(string \<Rightarrow> string) \<Rightarrow> auth_user option \<Rightarrow> station_filters \<Rightarrow> station_overview \<Rightarrow> bool" where
  "station_matches lower user f v \<longleftrightarrow>
     (let term = lower (trim (sfl_search f))
      in (term = '''' \<or> list_ex (\<lambda>t. str_includes term (lower t)) (searched_texts user v))
         \<and> (sfl_status f = '''' \<or> board_text (fst (stationStatus v)) = sfl_status f)
         \<and> (sfl_locationId f = '''' \<or> so_locationId v = sfl_locationId f)
         \<and> (sfl_areaId f = '''' \<or> so_areaId v = sfl_areaId f)
         \<and> (sfl_profileId f = '''' \<or> (if sfl_profileId f = ''none'' then \<not> truthy (so_applicationProfileId v)
              else so_applicationProfileId v = Some (sfl_profileId f)))
         \<and> (sfl_connection f = '''' \<or> connection_text (connection_key v) = sfl_connection f))"

definition station_pageSize :: "(string \<Rightarrow> jsnum) \<Rightarrow> station_filters \<Rightarrow> nat" where
  "station_pageSize to_number f = (case find (\<lambda>n. to_number (sfl_size f) = Num (of_nat n)) [10, 20, 50, 100, 9, 18, 36] of
     Some n \<Rightarrow> n | None \<Rightarrow> 10)"

definition page_count :: "nat \<Rightarrow> 'a list \<Rightarrow> nat" where
  "page_count n xs = (length xs + n - 1) div n"

definition clamped_page :: "int \<Rightarrow> nat \<Rightarrow> 'a list \<Rightarrow> nat" where
  \<comment> \<open>\<open>Math.min(wanted, Math.max(0, Math.ceil(length / pageSize) - 1))\<close>\<close>
  "clamped_page wanted n xs = nat (min wanted (max 0 (int (page_count n xs) - 1)))"

definition page_slice :: "nat \<Rightarrow> nat \<Rightarrow> 'a list \<Rightarrow> 'a list" where
  "page_slice page n xs = take n (drop (page * n) xs)"

definition station_page :: "(string \<Rightarrow> jsnum) \<Rightarrow> station_filters \<Rightarrow> station_overview list \<Rightarrow> nat" where
  "station_page to_number f filtered = clamped_page (readGamingPage to_number (sfl_page f)) (station_pageSize to_number f) filtered"

definition shown_stations ::
  "(string \<Rightarrow> jsnum) \<Rightarrow> (string \<Rightarrow> string) \<Rightarrow> auth_user option \<Rightarrow> station_filters \<Rightarrow> station_overview list \<Rightarrow> station_overview list" where
  "shown_stations to_number lower user f stations =
     (let filtered = filter (station_matches lower user f) stations
      in page_slice (station_page to_number f filtered) (station_pageSize to_number f) filtered)"

definition page_effect :: "(string \<Rightarrow> jsnum) \<Rightarrow> station_filters \<Rightarrow> station_overview list \<Rightarrow> station_filters" where
  \<comment> \<open>the effect that writes the page shown back to the address\<close>
  "page_effect to_number f filtered = (let p = show_nat (station_page to_number f filtered + 1)
     in if sfl_page f \<noteq> p then f\<lparr>sfl_page := p\<rparr> else f)"

definition map_entries :: "('a \<times> 'b) list \<Rightarrow> ('a \<times> 'b) list" where
  \<comment> \<open>\<open>[...new Map(pairs).entries()]\<close>: the first place and the last value of each key\<close>
  "map_entries ps = fold (\<lambda>(k, v) m. AList.update k v m) ps []"

definition name_or :: "string option \<Rightarrow> string \<Rightarrow> string" where
  "name_or n i = (case n of Some s \<Rightarrow> if s = '''' then i else s | None \<Rightarrow> i)"

definition station_locations :: "station_overview list \<Rightarrow> (string \<times> string) list" where
  "station_locations vs = map_entries (map (\<lambda>v. (so_locationId v, name_or (so_locationName v) (so_locationId v))) vs)"

definition station_areas :: "string \<Rightarrow> station_overview list \<Rightarrow> (string \<times> string) list" where
  "station_areas locationId vs = map_entries (map (\<lambda>v. (so_areaId v, name_or (so_areaName v) (so_areaId v)))
     (filter (\<lambda>v. locationId = '''' \<or> so_locationId v = locationId) vs))"

definition area_effect :: "bool \<Rightarrow> station_overview list \<Rightarrow> station_filters \<Rightarrow> station_filters" where
  \<comment> \<open>an area that the chosen location does not have is dropped\<close>
  "area_effect loaded vs f = (if loaded \<and> sfl_areaId f \<noteq> '''' \<and> sfl_areaId f \<notin> fst ` set (station_areas (sfl_locationId f) vs)
     then f\<lparr>sfl_areaId := '''', sfl_page := ''1''\<rparr> else f)"

definition station_filter :: "(station_filters \<Rightarrow> station_filters) \<Rightarrow> string \<Rightarrow> station_filters \<Rightarrow> station_filters" where
  "station_filter change search f = (change f)\<lparr>sfl_search := search, sfl_page := ''1''\<rparr>"

definition station_clearFilters :: "station_filters \<Rightarrow> station_filters" where
  "station_clearFilters f = f\<lparr>sfl_search := '''', sfl_status := '''', sfl_locationId := '''', sfl_areaId := '''',
     sfl_profileId := '''', sfl_connection := '''', sfl_page := ''1''\<rparr>"

definition station_hasFilters :: "station_filters \<Rightarrow> bool" where
  "station_hasFilters f \<longleftrightarrow> sfl_search f \<noteq> '''' \<or> sfl_status f \<noteq> '''' \<or> sfl_locationId f \<noteq> '''' \<or> sfl_areaId f \<noteq> ''''
     \<or> sfl_profileId f \<noteq> '''' \<or> sfl_connection f \<noteq> ''''"

definition stations_stale :: "bool \<Rightarrow> bool \<Rightarrow> bool \<Rightarrow> bool \<Rightarrow> bool \<Rightarrow> bool \<Rightarrow> bool" where
  "stations_stale stationsError canOperate boardError boardTooOld visible boardLoaded \<longleftrightarrow>
     stationsError \<or> canOperate \<and> (boardError \<or> boardTooOld \<or> \<not> visible \<or> \<not> boardLoaded)"

definition station_kpis :: "auth_user option \<Rightarrow> station_overview list \<Rightarrow> nat \<times> nat \<times> nat \<times> nat" where
  \<comment> \<open>all, in use, free, problematic\<close>
  "station_kpis user vs = (let live = filter (\<lambda>v. so_live v \<noteq> None) vs
     in (length vs, length (filter (\<lambda>v. truthy (st_sessionId (the (so_live v)))) live),
         length (filter (\<lambda>v. permitsStationAction user (the (so_live v)) START) live),
         length (filter problematicStation live)))"


lemma page_slices: "0 < n \<Longrightarrow> length xs \<le> m * n \<Longrightarrow> concat (map (\<lambda>p. page_slice p n xs) [0..<m]) = xs"
proof (induction m arbitrary: xs)
  case (Suc m)
  have s: "page_slice (Suc p) n xs = page_slice p n (drop n xs)" for p
    by (simp add: page_slice_def add.commute)
  have "concat (map (\<lambda>p. page_slice p n xs) [0..<Suc m]) = page_slice 0 n xs @ concat (map (\<lambda>p. page_slice p n (drop n xs)) [0..<m])"
    by (simp del: upt_Suc add: upt_conv_Cons [OF zero_less_Suc] map_Suc_upt [symmetric] s o_def)
  also have "concat (map (\<lambda>p. page_slice p n (drop n xs)) [0..<m]) = drop n xs"
    by (rule Suc.IH) (use Suc.prems in simp_all)
  also have "page_slice 0 n xs @ drop n xs = xs" by (simp add: page_slice_def)
  finally show ?case by simp
qed simp

lemma page_count_bounds: "0 < n \<Longrightarrow> length xs \<le> page_count n xs * n \<and> (xs \<noteq> [] \<longrightarrow> 0 < page_count n xs \<and> (page_count n xs - 1) * n < length xs)"
proof -
  assume n: "0 < n"
  let ?k = "length xs"
  have e: "(?k + n - 1) div n * n + (?k + n - 1) mod n = ?k + n - 1" by (rule div_mult_mod_eq)
  have m: "(?k + n - 1) mod n < n" using n by simp
  have a: "?k \<le> page_count n xs * n" unfolding page_count_def using e m n by linarith
  have "0 < page_count n xs \<and> (page_count n xs - 1) * n < ?k" if "xs \<noteq> []"
  proof -
    from that a have p: "0 < page_count n xs" by (cases "page_count n xs") auto
    then have "(page_count n xs - 1) * n = page_count n xs * n - n" by (simp add: diff_mult_distrib)
    moreover have "page_count n xs * n \<le> ?k + n - 1" unfolding page_count_def using e by linarith
    moreover have "0 < ?k" using that by simp
    ultimately show ?thesis using p n by linarith
  qed
  with a show ?thesis by blast
qed

text \<open>
  Paging loses and repeats nothing. For every size the address may hold, the pages of the
  stations that match the filters are, one after the other, exactly the matching stations in their order,
  and whatever page the address asks for, the page shown is one of them and is empty only when no station
  matches.
\<close>
theorem station_pages_show_each_match_once:
  "let n = station_pageSize to_number f; matching = filter (station_matches lower user f) stations
   in concat (map (\<lambda>p. page_slice p n matching) [0..<page_count n matching]) = matching
    \<and> (shown_stations to_number lower user f stations = [] \<longleftrightarrow> matching = [])
    \<and> (matching = [] \<or> station_page to_number f matching < page_count n matching)"
proof -
  define n where "n = station_pageSize to_number f"
  define matching where "matching = filter (station_matches lower user f) stations"
  have "find q [10, 20, 50, 100, 9, 18, 36] = Some m \<Longrightarrow> 0 < m" for q and m :: nat by (simp split: if_splits)
  then have n: "0 < n" by (auto simp: n_def station_pageSize_def split: option.splits)
  note b = page_count_bounds [OF n, of matching]
  have w: "0 \<le> readGamingPage to_number v" for v
  proof -
    have "0 < \<lfloor>r\<rfloor>" if "r = of_int \<lfloor>r\<rfloor>" "0 < r" for r :: rat
      using that by (metis of_int_0_less_iff)
    then show ?thesis
      by (auto simp: readGamingPage_def Let_def is_safe_integer_def int_one_le_iff_zero_less simp del: zero_less_floor le_floor_iff one_le_floor split: jsnum.splits)
  qed
  have p: "station_page to_number f matching < page_count n matching" if "matching \<noteq> []"
    using b that w [of "sfl_page f"] unfolding station_page_def clamped_page_def n_def [symmetric] by auto
  have "page_slice (station_page to_number f matching) n matching \<noteq> []" if "matching \<noteq> []"
  proof -
    from p [OF that] have "station_page to_number f matching \<le> page_count n matching - 1" by simp
    then have "station_page to_number f matching * n \<le> (page_count n matching - 1) * n" by (rule mult_right_mono) simp
    also have "\<dots> < length matching" using b that by blast
    finally show ?thesis using n by (simp add: page_slice_def)
  qed
  moreover have "page_slice q n [] = []" for q by (simp add: page_slice_def)
  moreover have "shown_stations to_number lower user f stations = page_slice (station_page to_number f matching) n matching"
    by (simp add: shown_stations_def n_def matching_def Let_def)
  ultimately have "concat (map (\<lambda>p. page_slice p n matching) [0..<page_count n matching]) = matching
    \<and> (shown_stations to_number lower user f stations = [] \<longleftrightarrow> matching = [])
    \<and> (matching = [] \<or> station_page to_number f matching < page_count n matching)"
    using p page_slices [OF n, of matching "page_count n matching"] b by metis
  then show ?thesis by (simp add: Let_def n_def matching_def)
qed


subsection \<open>Handlers of the page\<close>

datatype station_dialog = EditStation station_overview | MachineStation station_overview | StationEmployees station_overview

definition configurationUnavailable :: "bool \<Rightarrow> bool \<Rightarrow> bool \<Rightarrow> bool" where
  "configurationUnavailable stationsError profilesLoading profilesError \<longleftrightarrow> stationsError \<or> profilesLoading \<or> profilesError"

definition handle_configure :: "auth_user option \<Rightarrow> bool \<Rightarrow> station_overview \<Rightarrow> station_dialog option" where
  "handle_configure user unavailable s =
     (if hasCapability user STATION_MAINTENANCE \<and> \<not> unavailable then Some (EditStation s) else None)"

definition handle_identity :: "auth_user option \<Rightarrow> bool \<Rightarrow> station_overview \<Rightarrow> station_dialog option" where
  "handle_identity user isError s = (if hasCapability user MACHINE_IDENTITY_MANAGE \<and> \<not> isError then Some (MachineStation s) else None)"

definition handle_employees :: "auth_user option \<Rightarrow> bool \<Rightarrow> station_overview \<Rightarrow> station_dialog option" where
  "handle_employees user isError s = (if hasCapability user RESOURCE_MANAGE \<and> \<not> isError then Some (StationEmployees s) else None)"

datatype station_item = DeleteApplication application_definition | DeleteProfile application_profile

record delete_state =
  dl_deleting :: bool
  dl_inFlight :: bool

definition delete_offered :: "auth_user option \<Rightarrow> delete_state \<Rightarrow> bool" where
  \<comment> \<open>whether \<open>deleteItem\<close> asks\<close>
  "delete_offered user d \<longleftrightarrow> hasCapability user APPLICATION_PROFILE_MANAGE \<and> \<not> dl_deleting d"

definition delete_confirmed :: "station_item \<Rightarrow> delete_state \<Rightarrow> delete_state \<times> (string + http_request)" where
  "delete_confirmed item d = (if dl_inFlight d then (d, Inl (sr ''Sa~cekajte zavr~setak prethodne akcije.''))
     else (d\<lparr>dl_inFlight := True, dl_deleting := True\<rparr>,
       Inr (case item of DeleteApplication a \<Rightarrow> stationApi_deleteDefinition (ad_id a) (ad_version a)
          | DeleteProfile p \<Rightarrow> stationApi_deleteProfile (ap_id p) (ap_version p))))"

definition delete_finally :: "delete_state \<Rightarrow> delete_state" where
  "delete_finally d = d\<lparr>dl_inFlight := False, dl_deleting := False\<rparr>"

subsection \<open>Downloading the package\<close>

text \<open>
  \<open>StationClientPackage\<close>: a request that runs is the controller in \<open>request\<close>; leaving the page aborts it.
\<close>

record download_state =
  dw_request :: "nat option" \<comment> \<open>the controller of the running download\<close>
  dw_downloading :: bool
  dw_error :: string
  dw_mounted :: bool
  dw_aborted :: "nat set"

definition download_start :: "gaming_client_package option \<Rightarrow> availability_view \<Rightarrow> nat \<Rightarrow> download_state \<Rightarrow> download_state \<times> gaming_client_package option" where
  "download_start data view controller s =
     (if data = None \<or> \<not> av_ready view \<or> av_checking view \<or> dw_request s \<noteq> None then (s, None)
      else (s\<lparr>dw_request := Some controller, dw_downloading := True, dw_error := ''''\<rparr>, data))"

definition download_error :: "string + cause \<Rightarrow> string" where
  \<comment> \<open>the message of an \<open>Error\<close> that is neither a \<open>TypeError\<close> nor an axios error, else \<open>stationError\<close>\<close>
  "download_error e = (case e of Inl m \<Rightarrow> m
     | Inr c \<Rightarrow> stationError c (sr ''Preuzimanje Client paketa nije uspelo. Fajl nije sa~cuvan. Poku~sajte ponovo.''))"

definition download_settled :: "nat \<Rightarrow> (string + cause) option \<Rightarrow> download_state \<Rightarrow> download_state \<times> bool" where
  \<comment> \<open>\<open>catch\<close> and \<open>finally\<close>; the flag is whether the availability is read again\<close>
  "download_settled controller failure s =
     (let told = (failure \<noteq> None \<and> dw_mounted s \<and> controller \<notin> dw_aborted s);
          s = (if told then s\<lparr>dw_error := download_error (the failure)\<rparr> else s);
          s = s\<lparr>dw_request := None\<rparr>
      in (if dw_mounted s then s\<lparr>dw_downloading := False\<rparr> else s, told))"

definition download_unmount :: "download_state \<Rightarrow> download_state" where
  "download_unmount s = s\<lparr>dw_mounted := False, dw_aborted := dw_aborted s \<union> set_option (dw_request s)\<rparr>"

datatype retry_action = RefetchAvailability | RefreshPackage

definition download_retry :: "availability_view \<Rightarrow> download_state \<Rightarrow> download_state \<times> retry_action" where
  "download_retry view s = (s\<lparr>dw_error := ''''\<rparr>, if av_url view \<noteq> None then RefetchAvailability else RefreshPackage)"

subsection \<open>Updates of the client\<close>

definition update_available :: "bool \<Rightarrow> gaming_client_package option \<Rightarrow> string option" where
  "update_available isError data = released_version isError data"

definition update_enabled :: "string option \<Rightarrow> string option \<Rightarrow> string \<Rightarrow> bool \<Rightarrow> bool" where
  "update_enabled available installed reason historyError \<longleftrightarrow>
     isNewerClientVersion available installed \<and> trim reason \<noteq> '''' \<and> \<not> historyError"

definition update_request :: "string \<Rightarrow> string \<Rightarrow> int \<Rightarrow> ms \<Rightarrow> http_request" where
  \<comment> \<open>the delay is one of the offered numbers of minutes\<close>
  "update_request stationId reason delay now = api_send POST (''/stations/'' @ stationId @ ''/client-updates'')
     (body [(''reason'', Some (JStr (trim reason))), (''notBefore'', Some (JStr (toISOString (now + delay * 60000))))])"

definition update_history :: "string \<Rightarrow> nat \<Rightarrow> nat \<Rightarrow> http_request" where
  "update_history stationId page size_n = api_get (''/stations/'' @ stationId @ ''/client-updates'')
     [(''page'', Some (jnat page)), (''size'', Some (jnat size_n))]"

subsection \<open>The refresh of the board\<close>

text \<open>\<open>useGamingOperations\<close>: messages of the stream arm one timer of 150 ms, and the timer refreshes once.\<close>

record board_refresh =
  br_pending :: "ms option"
  br_connection :: string
  br_refreshes :: nat

definition refresh_asked :: "ms \<Rightarrow> board_refresh \<Rightarrow> board_refresh" where
  "refresh_asked now b = (if br_pending b \<noteq> None then b else b\<lparr>br_pending := Some (now + 150)\<rparr>)"

definition refresh_fires :: "board_refresh \<Rightarrow> board_refresh" where
  "refresh_fires b = b\<lparr>br_pending := None, br_refreshes := br_refreshes b + 1\<rparr>"

definition board_stream_state :: "ms \<Rightarrow> string \<Rightarrow> board_refresh \<Rightarrow> board_refresh" where
  "board_stream_state now state b = (let b = b\<lparr>br_connection := state\<rparr> in if state = ''connected'' then refresh_asked now b else b)"

definition board_interval :: "bool \<Rightarrow> bool \<Rightarrow> nat option" where
  "board_interval enabled visible = (if enabled \<and> visible then Some 15000 else None)"

lemma asking_again_changes_nothing: "refresh_asked t' (refresh_asked t b) = refresh_asked t b"
  by (simp add: refresh_asked_def)

lemma one_download_at_a_time:
  "snd (download_start data view c (fst (download_start data' view' c' s))) \<noteq> None \<Longrightarrow> snd (download_start data' view' c' s) = None"
  by (auto simp: download_start_def split: if_splits)

end
