(* ===== verification/Notifications.thy ===== *)
theory Notifications
  imports Sse ApiErrors
begin

section \<open>Notification settings and the notification centre\<close>

text \<open>
  Models \<open>notification/notificationPreferences.ts\<close> and the state and handlers of
  \<open>pages/NotificationPreferencesPage.tsx\<close> and \<open>notification/NotificationCenter.tsx\<close>. Handlers are split
  at their awaits; the toasts repeat the messages kept in the state.
\<close>

subsection \<open>Preferences\<close>

definition notificationTypes :: "string list" where
  \<comment> \<open>the keys of \<open>notificationDefinitions\<close>\<close>
  "notificationTypes = [''SECURITY_SESSION_STARTED'', ''SECURITY_PASSWORD_CHANGED'', ''RESERVATION_CREATED'',
     ''RESERVATION_STATUS_CHANGED'', ''ORDER_CREATED'', ''ORDER_STATUS_CHANGED'', ''WAITLIST_OFFERED'',
     ''WAITLIST_CANCELLED'', ''REPORT_COMPLETED'']"

definition notificationGroups :: "(string \<times> string list) list" where
  "notificationGroups =
     [(''Bezbednost'', [''SECURITY_SESSION_STARTED'', ''SECURITY_PASSWORD_CHANGED'']),
      (''Rezervacije'', [''RESERVATION_CREATED'', ''RESERVATION_STATUS_CHANGED'']),
      (sr ''Narud~zbine'', [''ORDER_CREATED'', ''ORDER_STATUS_CHANGED'']),
      (sr ''Lista ~cekanja'', [''WAITLIST_OFFERED'', ''WAITLIST_CANCELLED'']),
      (sr ''Izve~staji'', [''REPORT_COMPLETED''])]"

datatype notification_channel = InApp | Email

fun channel_on :: "notification_channel \<Rightarrow> notification_preference \<Rightarrow> bool" where
  "channel_on InApp v = pr_inAppEnabled v"
| "channel_on Email v = pr_emailEnabled v"

fun set_channel :: "notification_channel \<Rightarrow> bool \<Rightarrow> notification_preference \<Rightarrow> notification_preference" where
  "set_channel InApp b v = v\<lparr>pr_inAppEnabled := b\<rparr>"
| "set_channel Email b v = v\<lparr>pr_emailEnabled := b\<rparr>"

definition normalizePreference :: "notification_preference \<Rightarrow> notification_preference" where
  "normalizePreference v = (if pr_mandatory v then v\<lparr>pr_inAppEnabled := True, pr_emailEnabled := True\<rparr> else v)"

definition activePreferences :: "notification_preference list \<Rightarrow> notification_preference list" where
  "activePreferences vs = map normalizePreference (filter (\<lambda>v. pr_type v \<in> set notificationTypes) vs)"

definition by_type :: "notification_preference list \<Rightarrow> string \<Rightarrow> notification_preference option" where
  \<comment> \<open>\<open>new Map(values.map(value => [value.type, value]))\<close>, whose last entry of a type counts\<close>
  "by_type vs = map_of (rev (map (\<lambda>v. (pr_type v, v)) vs))"

definition is_changed :: "notification_preference option \<Rightarrow> notification_preference \<Rightarrow> bool" where
  "is_changed previous v \<longleftrightarrow> \<not> pr_mandatory v \<and> (case previous of None \<Rightarrow> False
     | Some p \<Rightarrow> pr_inAppEnabled v \<noteq> pr_inAppEnabled p \<or> pr_emailEnabled v \<noteq> pr_emailEnabled p)"

definition changedPreferences :: "notification_preference list \<Rightarrow> notification_preference list \<Rightarrow> notification_preference list" where
  "changedPreferences saved draft = filter (\<lambda>v. is_changed (by_type saved (pr_type v)) v) draft"

definition mergePreferences :: "notification_preference list \<Rightarrow> notification_preference list \<Rightarrow> notification_preference list" where
  "mergePreferences current confirmed = map (\<lambda>v. case by_type confirmed (pr_type v) of Some c \<Rightarrow> c | None \<Rightarrow> v) current"

datatype channel_state = Off | On | Mixed

definition channelState :: "notification_preference list \<Rightarrow> notification_channel \<Rightarrow> channel_state" where
  "channelState items channel = (let editable = filter (\<lambda>v. \<not> pr_mandatory v) items
     in if editable = [] \<or> list_all (\<lambda>v. \<not> channel_on channel v) editable then Off
        else if list_all (channel_on channel) editable then On else Mixed)"

subsection \<open>The settings page\<close>

record preference_page =
  pp_saved :: "notification_preference list"
  pp_draft :: "notification_preference list"
  pp_loading :: bool
  pp_loadError :: string
  pp_saving :: bool
  pp_saveError :: string
  pp_failures :: "(string, string) dict"
  pp_inFlight :: bool

definition preferences_open :: preference_page where
  "preferences_open = \<lparr>pp_saved = [], pp_draft = [], pp_loading = True, pp_loadError = '''', pp_saving = False,
     pp_saveError = '''', pp_failures = [], pp_inFlight = False\<rparr>"

definition preferences_load :: "preference_page \<Rightarrow> preference_page" where
  "preferences_load p = p\<lparr>pp_loading := True, pp_loadError := ''''\<rparr>"

definition preference_page_loaded :: "bool \<Rightarrow> cause + notification_preference list \<Rightarrow> preference_page \<Rightarrow> preference_page" where
  \<comment> \<open>\<open>current\<close>: the effect is the latest and the same user is signed in\<close>
  "preference_page_loaded current r p = (if \<not> current then p else case r of
     Inr vs \<Rightarrow> p\<lparr>pp_saved := activePreferences vs, pp_draft := activePreferences vs, pp_loading := False\<rparr>
   | Inl e \<Rightarrow> p\<lparr>pp_loadError := apiErrorMessage e (sr ''Pode~savanja nisu dostupna.''), pp_loading := False\<rparr>)"

definition preference_update :: "string \<Rightarrow> notification_channel \<Rightarrow> bool \<Rightarrow> preference_page \<Rightarrow> preference_page" where
  "preference_update t channel b p = (if pp_inFlight p then p
     else p\<lparr>pp_draft := map (\<lambda>v. if pr_type v = t \<and> \<not> pr_mandatory v then set_channel channel b v else v) (pp_draft p),
       pp_saveError := '''', pp_failures := AList.delete t (pp_failures p)\<rparr>)"

definition preference_updateChannel :: "notification_channel \<Rightarrow> bool \<Rightarrow> preference_page \<Rightarrow> preference_page" where
  "preference_updateChannel channel b p = (if pp_inFlight p then p
     else p\<lparr>pp_draft := map (\<lambda>v. if pr_mandatory v then v else set_channel channel b v) (pp_draft p),
       pp_saveError := '''', pp_failures := []\<rparr>)"

definition preference_changes :: "preference_page \<Rightarrow> notification_preference list" where
  "preference_changes p = changedPreferences (pp_saved p) (pp_draft p)"

definition preference_save_start :: "preference_page \<Rightarrow> preference_page \<times> http_request list" where
  "preference_save_start p = (if pp_inFlight p \<or> pp_loading p \<or> preference_changes p = [] then (p, [])
     else (p\<lparr>pp_inFlight := True, pp_saving := True, pp_saveError := '''', pp_failures := []\<rparr>,
       map notificationApi_savePreference (preference_changes p)))"

definition preference_answer :: "notification_preference \<Rightarrow> cause + notification_preference \<Rightarrow> cause + notification_preference" where
  "preference_answer item r = (case r of
     Inl e \<Rightarrow> Inl e
   | Inr v \<Rightarrow> if pr_type v \<noteq> pr_type item then Inl (PlainError ''Unexpected notification preference response'')
       else Inr (normalizePreference v))"

definition confirmed_answers :: "(notification_preference \<times> (cause + notification_preference)) list \<Rightarrow> notification_preference list" where
  "confirmed_answers results = List.map_filter (\<lambda>(i, r). case preference_answer i r of Inr v \<Rightarrow> Some v | Inl _ \<Rightarrow> None) results"

definition failed_answers :: "(notification_preference \<times> (cause + notification_preference)) list \<Rightarrow> (string, string) dict" where
  "failed_answers results = List.map_filter (\<lambda>(i, r). case preference_answer i r of Inr _ \<Rightarrow> None
     | Inl e \<Rightarrow> Some (pr_type i, apiErrorMessage e (sr ''Server nije potvrdio ~cuvanje ove vrste obave~stenja. Poku~sajte ponovo.''))) results"

definition preference_saved ::
  "bool \<Rightarrow> bool \<Rightarrow> (notification_preference \<times> (cause + notification_preference)) list \<Rightarrow> preference_page \<Rightarrow> preference_page" where
  \<comment> \<open>after \<open>Promise.allSettled\<close>, with the \<open>finally\<close>\<close>
  "preference_saved mounted same_user results p =
     (let p' = (if \<not> mounted \<or> \<not> same_user then p
        else let confirmed = confirmed_answers results
          in p\<lparr>pp_saved := mergePreferences (pp_saved p) confirmed, pp_draft := mergePreferences (pp_draft p) confirmed,
               pp_failures := failed_answers results,
               pp_saveError := (if length confirmed = length results then pp_saveError p
                 else if confirmed \<noteq> [] then sr ''Sa~cuvano je '' @ show_nat (length confirmed) @ '' od '' @ show_nat (length results)
                   @ sr '' izmenjenih vrsta obave~stenja. Preostale izmene nisu sa~cuvane. Poku~sajte ponovo.''
                 else sr ''Pode~savanja nisu sa~cuvana. Poku~sajte ponovo.'')\<rparr>)
      in p'\<lparr>pp_inFlight := False, pp_saving := (if mounted \<and> same_user then False else pp_saving p')\<rparr>)"

definition preference_discard :: "preference_page \<Rightarrow> preference_page" where
  \<comment> \<open>the confirmed dialog\<close>
  "preference_discard p = (if pp_inFlight p then p else p\<lparr>pp_draft := pp_saved p, pp_saveError := '''', pp_failures := []\<rparr>)"

subsection \<open>What a save keeps\<close>

definition preferences_aligned :: "preference_page \<Rightarrow> bool" where
  "preferences_aligned p \<longleftrightarrow> map pr_type (pp_saved p) = map pr_type (pp_draft p) \<and> distinct (map pr_type (pp_draft p))"

definition mandatory_on :: "notification_preference list \<Rightarrow> bool" where
  "mandatory_on vs \<longleftrightarrow> (\<forall>v \<in> set vs. pr_mandatory v \<longrightarrow> pr_inAppEnabled v \<and> pr_emailEnabled v)"

lemma type_set_channel [simp]: "pr_type (set_channel c b v) = pr_type v" "pr_mandatory (set_channel c b v) = pr_mandatory v"
  by (cases c; simp)+

lemma normalize_type [simp]: "pr_type (normalizePreference v) = pr_type v"
  by (simp add: normalizePreference_def)

lemma by_type_SomeD: "by_type vs t = Some v \<Longrightarrow> v \<in> set vs \<and> pr_type v = t"
  unfolding by_type_def by (drule map_of_SomeD) auto

lemma by_type_distinct:
  assumes "distinct (map pr_type vs)"
  shows "by_type vs t = Some v \<longleftrightarrow> v \<in> set vs \<and> pr_type v = t"
proof -
  have "distinct (map fst (rev (map (\<lambda>v. (pr_type v, v)) vs)))" using assms by (simp add: o_def flip: rev_map)
  then show ?thesis unfolding by_type_def by (subst map_of_eq_Some_iff) auto
qed

lemma by_type_None: "by_type vs t = None \<longleftrightarrow> t \<notin> pr_type ` set vs"
  unfolding by_type_def by (auto simp: map_of_eq_None_iff image_image)

lemma merge_types: "map pr_type (mergePreferences current confirmed) = map pr_type current"
  by (auto simp: mergePreferences_def dest: by_type_SomeD split: option.split)

lemma merge_by_type:
  assumes "distinct (map pr_type current)"
  shows "by_type (mergePreferences current confirmed) t =
    (case by_type current t of None \<Rightarrow> None | Some v \<Rightarrow> (case by_type confirmed t of Some c \<Rightarrow> Some c | None \<Rightarrow> Some v))"
proof (cases "by_type current t")
  case None
  then have "t \<notin> set (map pr_type current)" by (simp add: by_type_None)
  then have "t \<notin> set (map pr_type (mergePreferences current confirmed))" by (subst merge_types)
  then have "by_type (mergePreferences current confirmed) t = None" by (simp add: by_type_None)
  with None show ?thesis by simp
next
  case (Some v)
  with by_type_distinct [OF assms] have v: "v \<in> set current" "pr_type v = t" by simp_all
  have d: "distinct (map pr_type (mergePreferences current confirmed))" using assms by (simp only: merge_types)
  let ?w = "case by_type confirmed (pr_type v) of Some c \<Rightarrow> c | None \<Rightarrow> v"
  have "?w \<in> set (mergePreferences current confirmed)" using v(1) by (auto simp: mergePreferences_def)
  moreover have "pr_type ?w = t" using v(2) by (auto dest: by_type_SomeD split: option.split)
  ultimately have "by_type (mergePreferences current confirmed) t = Some ?w" using by_type_distinct [OF d] by blast
  with Some v(2) show ?thesis by (auto split: option.split)
qed


lemma confirmed_by_type:
  assumes "distinct (map (pr_type \<circ> fst) results)" and "(i, r) \<in> set results"
  shows "by_type (confirmed_answers results) (pr_type i) = (case preference_answer i r of Inr v \<Rightarrow> Some v | Inl _ \<Rightarrow> None)"
proof -
  have t: "pr_type v = pr_type j" if "preference_answer j s = Inr v" for j s v
    using that by (auto simp: preference_answer_def split: sum.splits if_splits)
  have c: "v \<in> set (confirmed_answers results) \<longleftrightarrow> (\<exists>(j, s) \<in> set results. preference_answer j s = Inr v)" for v
    unfolding confirmed_answers_def by (induction results) (auto simp: List.map_filter_simps split: sum.splits)
  have "(j, s) = (i, r)" if "(j, s) \<in> set results" "pr_type j = pr_type i" for j s
    using inj_onD [of "pr_type \<circ> fst" "set results" "(j, s)" "(i, r)"] assms that by (simp add: distinct_map)
  then have u: "s = r" and u': "j = i" if "(j, s) \<in> set results" "pr_type j = pr_type i" for j s
    using that by blast+
  show ?thesis
  proof (cases "preference_answer i r")
    case (Inl e)
    have "pr_type i \<notin> pr_type ` set (confirmed_answers results)"
    proof
      assume "pr_type i \<in> pr_type ` set (confirmed_answers results)"
      then obtain v where v: "v \<in> set (confirmed_answers results)" "pr_type v = pr_type i" by auto
      from v(1) obtain j s where js: "(j, s) \<in> set results" "preference_answer j s = Inr v" by (auto simp: c)
      from t [OF js(2)] v(2) have "pr_type j = pr_type i" by simp
      with u u' js Inl show False by (metis sum.distinct(1))
    qed
    with Inl show ?thesis by (simp add: by_type_None)
  next
    case (Inr w)
    have "w \<in> set (confirmed_answers results)" using assms(2) Inr c by blast
    then have "pr_type w \<in> pr_type ` set (confirmed_answers results)" by (rule imageI)
    then have "pr_type i \<in> pr_type ` set (confirmed_answers results)" by (simp only: t [OF Inr])
    then obtain v where v: "by_type (confirmed_answers results) (pr_type i) = Some v"
      using by_type_None [of "confirmed_answers results" "pr_type i"] by auto
    from by_type_SomeD [OF this] obtain j s where js: "(j, s) \<in> set results" "preference_answer j s = Inr v" "pr_type v = pr_type i"
      by (auto simp: c)
    from t [OF js(2)] js(3) have "pr_type j = pr_type i" by simp
    with u u' js Inr have "v = w" by (metis sum.inject(2))
    with v Inr show ?thesis by simp
  qed
qed

lemma changed_after_merge:
  assumes "distinct (map pr_type saved)"
  shows "changedPreferences (mergePreferences saved confirmed) (mergePreferences draft confirmed)
    = filter (\<lambda>v. by_type confirmed (pr_type v) = None) (changedPreferences saved draft)"
proof -
  let ?g = "\<lambda>v. case by_type confirmed (pr_type v) of Some c \<Rightarrow> c | None \<Rightarrow> v"
  let ?Q = "\<lambda>v. is_changed (by_type saved (pr_type v)) v \<and> by_type confirmed (pr_type v) = None"
  have g: "is_changed (by_type (mergePreferences saved confirmed) (pr_type (?g v))) (?g v) \<longleftrightarrow> ?Q v" for v
  proof (cases "by_type confirmed (pr_type v)")
    case (Some c)
    with by_type_SomeD [OF Some] show ?thesis
      by (simp add: merge_by_type [OF assms] is_changed_def split: option.split)
  qed (simp add: merge_by_type [OF assms] is_changed_def split: option.split)
  have "changedPreferences (mergePreferences saved confirmed) (mergePreferences draft confirmed) = map ?g (filter ?Q draft)"
    unfolding changedPreferences_def mergePreferences_def [of draft] filter_map o_def using g by simp
  also have "\<dots> = filter ?Q draft" by (rule map_idI) auto
  finally show ?thesis by (simp add: changedPreferences_def conj_commute)
qed

text \<open>
  Property C32: a save of the notification settings loses nothing. When every request has been answered,
  the changes that are left unsaved are exactly those whose request failed, in their order and with the
  entered values, each with its message; saved settings and draft still list the same types, and agree with
  the server on every confirmed one.
\<close>
theorem save_leaves_exactly_the_failed_changes:
  assumes "preferences_aligned p" and "map fst results = preference_changes p" and "q = preference_saved True True results p"
  shows "preference_changes q = map fst (filter (\<lambda>(i, r). isl (preference_answer i r)) results)
    \<and> map fst (pp_failures q) = map pr_type (preference_changes q) \<and> preferences_aligned q
    \<and> ((i, r) \<in> set results \<and> preference_answer i r = Inr v \<longrightarrow>
        by_type (pp_saved q) (pr_type i) = Some v \<and> by_type (pp_draft q) (pr_type i) = Some v)"
proof -
  let ?c = "confirmed_answers results"
  have q: "pp_saved q = mergePreferences (pp_saved p) ?c" "pp_draft q = mergePreferences (pp_draft p) ?c" "pp_failures q = failed_answers results"
    by (simp_all add: assms(3) preference_saved_def Let_def)
  from assms(1) have d: "distinct (map pr_type (pp_saved p))" "distinct (map pr_type (pp_draft p))" by (simp_all add: preferences_aligned_def)
  have s: "set (map fst results) \<subseteq> set (pp_draft p)" by (auto simp: assms(2) preference_changes_def changedPreferences_def)
  have "map (pr_type \<circ> fst) results = map pr_type (preference_changes p)" by (simp flip: assms(2))
  moreover have "distinct (map pr_type (preference_changes p))"
    using d(2) by (auto simp: preference_changes_def changedPreferences_def distinct_map_filter)
  ultimately have dr: "distinct (map (pr_type \<circ> fst) results)" by simp
  note b = confirmed_by_type [OF dr]
  have "preference_changes q = filter (\<lambda>v. by_type ?c (pr_type v) = None) (map fst results)"
    by (simp add: preference_changes_def q changed_after_merge [OF d(1)] assms(2))
  also have "\<dots> = map fst (filter (\<lambda>(i, r). isl (preference_answer i r)) results)"
    unfolding filter_map o_def by (intro arg_cong [of _ _ "map fst"] filter_cong) (auto simp: b split: sum.splits)
  finally have ch: "preference_changes q = map fst (filter (\<lambda>(i, r). isl (preference_answer i r)) results)" .
  have "map fst (failed_answers rs) = map pr_type (map fst (filter (\<lambda>(i, r). isl (preference_answer i r)) rs))" for rs
    by (induction rs) (auto simp: failed_answers_def List.map_filter_simps split: sum.splits)
  moreover have "preferences_aligned q" using assms(1) by (simp add: preferences_aligned_def q merge_types)
  moreover have "by_type (pp_saved q) (pr_type i) = Some v \<and> by_type (pp_draft q) (pr_type i) = Some v"
    if ir: "(i, r) \<in> set results" "preference_answer i r = Inr v"
  proof -
    from ir(1) s have "pr_type i \<in> set (map pr_type (pp_draft p))" by force
    moreover from this assms(1) have "pr_type i \<in> set (map pr_type (pp_saved p))" by (simp only: preferences_aligned_def)
    ultimately have "by_type (pp_draft p) (pr_type i) \<noteq> None" "by_type (pp_saved p) (pr_type i) \<noteq> None" by (simp_all add: by_type_None)
    then show ?thesis using b [OF ir(1)] ir(2) by (auto simp: q merge_by_type d)
  qed
  ultimately show ?thesis using ch q(3) by auto
qed


definition sample_preferences :: preference_page where
  "sample_preferences = \<lparr>pp_saved = [\<lparr>pr_type = ''ORDER_CREATED'', pr_mandatory = False, pr_inAppEnabled = True, pr_emailEnabled = True\<rparr>],
     pp_draft = [\<lparr>pr_type = ''ORDER_CREATED'', pr_mandatory = False, pr_inAppEnabled = True, pr_emailEnabled = False\<rparr>],
     pp_loading = False, pp_loadError = '''', pp_saving = True, pp_saveError = '''', pp_failures = [], pp_inFlight = True\<rparr>"

theorem save_leaves_exactly_the_failed_changes_witness:
  "preference_changes (preference_saved True True
      [(\<lparr>pr_type = ''ORDER_CREATED'', pr_mandatory = False, pr_inAppEnabled = True, pr_emailEnabled = False\<rparr>, Inl (AxiosError None))] sample_preferences)
   = [\<lparr>pr_type = ''ORDER_CREATED'', pr_mandatory = False, pr_inAppEnabled = True, pr_emailEnabled = False\<rparr>]"
proof -
  have a: "preferences_aligned sample_preferences" by (simp add: preferences_aligned_def sample_preferences_def)
  have "map fst [(\<lparr>pr_type = ''ORDER_CREATED'', pr_mandatory = False, pr_inAppEnabled = True, pr_emailEnabled = False\<rparr>,
      Inl (AxiosError None) :: cause + notification_preference)] = preference_changes sample_preferences"
    by (simp add: preference_changes_def changedPreferences_def sample_preferences_def is_changed_def by_type_def)
  from save_leaves_exactly_the_failed_changes [OF a this refl] show ?thesis by (simp add: preference_answer_def)
qed

text \<open>No operation of the page switches a channel of a mandatory notification off.\<close>

lemma mandatory_stays_on:
  assumes "mandatory_on (pp_saved p)" and "mandatory_on (pp_draft p)"
  shows "mandatory_on (pp_draft (preference_page_loaded c r p))" "mandatory_on (pp_draft (preference_update t ch b p))"
    "mandatory_on (pp_draft (preference_updateChannel ch b p))" "mandatory_on (pp_draft (preference_discard p))"
    "mandatory_on (pp_draft (preference_saved m s results p))"
proof -
  have n: "mandatory_on [normalizePreference v]" for v by (simp add: mandatory_on_def normalizePreference_def)
  show "mandatory_on (pp_draft (preference_page_loaded c r p))"
    using assms n by (auto simp: preference_page_loaded_def activePreferences_def mandatory_on_def split: sum.split)
  show "mandatory_on (pp_draft (preference_update t ch b p))" "mandatory_on (pp_draft (preference_updateChannel ch b p))"
    "mandatory_on (pp_draft (preference_discard p))"
    using assms by (auto simp: preference_update_def preference_updateChannel_def preference_discard_def mandatory_on_def)
  have "pr_inAppEnabled v \<and> pr_emailEnabled v" if "v \<in> set (confirmed_answers results)" "pr_mandatory v" for v
    using that unfolding confirmed_answers_def
    by (induction results) (auto simp: List.map_filter_simps preference_answer_def normalizePreference_def split: sum.splits if_splits)
  then have c: "pr_inAppEnabled c \<and> pr_emailEnabled c" if "by_type (confirmed_answers results) u = Some c" "pr_mandatory c" for u c
    using that by (auto dest: by_type_SomeD)
  show "mandatory_on (pp_draft (preference_saved m s results p))"
    using assms(2) c unfolding preference_saved_def mandatory_on_def mergePreferences_def Let_def by (auto split: option.splits)
qed

subsection \<open>The notification centre\<close>

text \<open>
  A list request carries its number; an answer counts only while its number is the latest, which both a new
  request and the start of a change take away. \<open>nc_requests\<close> holds the numbers and pages that are on their way.
\<close>

record notification_centre =
  nc_items :: "app_notification list"
  nc_page :: nat
  nc_totalPages :: nat
  nc_totalElements :: nat
  nc_unread :: int
  nc_loading :: bool
  nc_error :: string
  nc_loadError :: string
  nc_pending :: bool
  nc_request :: nat
  nc_mutation :: bool

definition centre_initial :: notification_centre where
  "centre_initial = \<lparr>nc_items = [], nc_page = 0, nc_totalPages = 0, nc_totalElements = 0, nc_unread = 0, nc_loading = True,
     nc_error = '''', nc_loadError = '''', nc_pending = False, nc_request = 0, nc_mutation = False\<rparr>"

definition centre_list :: "notification_centre \<Rightarrow> notification_centre \<times> (nat \<times> http_request) option" where
  \<comment> \<open>the effect on the page, the revision and \<open>pending\<close>\<close>
  "centre_list c = (if nc_pending c then (c, None)
     else (c\<lparr>nc_request := Suc (nc_request c)\<rparr>, Some (Suc (nc_request c), notificationApi_list (nc_page c))))"

definition centre_listed :: "nat \<Rightarrow> cause + notification_page \<Rightarrow> notification_centre \<Rightarrow> notification_centre" where
  "centre_listed i r c = (if i \<noteq> nc_request c then c else case r of
     Inr v \<Rightarrow> c\<lparr>nc_loadError := '''', nc_items := np_notifications v, nc_unread := int (np_unreadCount v),
       nc_totalPages := np_totalPages v, nc_totalElements := np_totalElements v, nc_page := np_page v, nc_loading := False\<rparr>
   | Inl e \<Rightarrow> c\<lparr>nc_loadError := apiErrorMessage e (sr ''Obave~stenja trenutno nisu dostupna.''), nc_loading := False\<rparr>)"

definition set_read :: "string \<Rightarrow> bool \<Rightarrow> app_notification list \<Rightarrow> app_notification list" where
  "set_read i b items = map (\<lambda>v. if nt_id v = i then v\<lparr>nt_read := b\<rparr> else v) items"

datatype read_start = AlreadyRead | Busy | ReadNow http_request

definition markRead_start :: "app_notification \<Rightarrow> notification_centre \<Rightarrow> notification_centre \<times> read_start" where
  "markRead_start item c = (if nt_read item then (c, AlreadyRead)
     else if nc_mutation c then (c, Busy)
     else (c\<lparr>nc_mutation := True, nc_request := Suc (nc_request c), nc_pending := True,
         nc_items := set_read (nt_id item) True (nc_items c), nc_unread := max 0 (nc_unread c - 1)\<rparr>,
       ReadNow (notificationApi_read (nt_id item))))"

definition centre_finally :: "notification_centre \<Rightarrow> notification_centre" where
  "centre_finally c = c\<lparr>nc_mutation := False, nc_pending := False, nc_loading := False\<rparr>"

definition markRead_settled :: "app_notification \<Rightarrow> cause option \<Rightarrow> notification_centre \<Rightarrow> notification_centre \<times> bool" where
  "markRead_settled item failure c = (case failure of
     None \<Rightarrow> (centre_finally (c\<lparr>nc_error := ''''\<rparr>), True)
   | Some e \<Rightarrow> (centre_finally (c\<lparr>nc_items := set_read (nt_id item) False (nc_items c), nc_unread := nc_unread c + 1,
       nc_error := apiErrorMessage e (sr ''Status ~citanja nije sa~cuvan.'')\<rparr>), False))"

definition readAll_start :: "notification_centre \<Rightarrow> (notification_centre \<times> (app_notification list \<times> int)) option" where
  \<comment> \<open>with the items and the count to go back to\<close>
  "readAll_start c = (if nc_mutation c then None
     else Some (c\<lparr>nc_mutation := True, nc_request := Suc (nc_request c), nc_pending := True,
         nc_items := map (\<lambda>v. v\<lparr>nt_read := True\<rparr>) (nc_items c), nc_unread := 0\<rparr>, (nc_items c, nc_unread c)))"

definition readAll_settled :: "app_notification list \<times> int \<Rightarrow> cause option \<Rightarrow> notification_centre \<Rightarrow> notification_centre" where
  "readAll_settled previous failure c = centre_finally (case failure of
     None \<Rightarrow> c\<lparr>nc_error := ''''\<rparr>
   | Some e \<Rightarrow> c\<lparr>nc_items := fst previous, nc_unread := snd previous,
       nc_error := apiErrorMessage e (sr ''Obave~stenja nisu ozna~cena kao pro~citana.'')\<rparr>)"

definition open_settled :: "cause + navigation_action \<Rightarrow> notification_centre \<Rightarrow> notification_centre \<times> string option" where
  \<comment> \<open>the address to go to\<close>
  "open_settled r c = (case r of Inr a \<Rightarrow> (c, Some (na_url a))
     | Inl e \<Rightarrow> (c\<lparr>nc_error := apiErrorMessage e (sr ''Povezani resurs vi~se nije dostupan.'')\<rparr>, None))"

definition changePage :: "nat \<Rightarrow> notification_centre \<Rightarrow> notification_centre" where
  "changePage n c = (if n = nc_page c then c
     else c\<lparr>nc_loading := True, nc_error := '''', nc_loadError := '''', nc_items := [], nc_page := n\<rparr>)"

definition icon_for :: "string \<Rightarrow> string" where
  "icon_for t = (if starts_with ''SECURITY_'' t then ''/sessions'' else if starts_with ''RESERVATION_'' t then ''/calendar''
     else if starts_with ''ORDER_'' t then ''/orders'' else if starts_with ''WAITLIST_'' t then ''/waitlist''
     else if t = ''REPORT_COMPLETED'' then ''/reports'' else ''/notification-preferences'')"

definition bell_badge :: "int \<Rightarrow> string option" where
  "bell_badge unread = (if 0 < unread then Some (if 99 < unread then ''99+'' else show_int unread) else None)"

inductive centre_step :: "notification_centre \<times> nat set \<Rightarrow> notification_centre \<times> nat set \<Rightarrow> bool" where
  \<comment> \<open>with the numbers of the list requests that are not answered yet\<close>
  listing: "centre_list c = (c', Some (i, rq)) \<Longrightarrow> centre_step (c, ids) (c', insert i ids)"
| listed: "i \<in> ids \<Longrightarrow> centre_step (c, ids) (centre_listed i r c, ids - {i})"
| reading: "markRead_start item c = (c', ReadNow rq) \<Longrightarrow> centre_step (c, ids) (c', ids)"
| read: "nc_mutation c \<Longrightarrow> centre_step (c, ids) (fst (markRead_settled item e c), ids)"
| all_reading: "readAll_start c = Some (c', previous) \<Longrightarrow> centre_step (c, ids) (c', ids)"
| all_read: "nc_mutation c \<Longrightarrow> centre_step (c, ids) (readAll_settled previous e c, ids)"
| turned: "centre_step (c, ids) (changePage n c, ids)"

inductive centre_reachable :: "notification_centre \<times> nat set \<Rightarrow> bool" where
  empty: "centre_reachable (centre_initial, {})"
| step: "centre_reachable s \<Longrightarrow> centre_step s t \<Longrightarrow> centre_reachable t"

lemma centre_numbers:
  "centre_reachable s \<Longrightarrow> (\<forall>i \<in> snd s. i \<le> nc_request (fst s)) \<and> nc_mutation (fst s) = nc_pending (fst s)
     \<and> (nc_mutation (fst s) \<longrightarrow> nc_request (fst s) \<notin> snd s)"
proof (induction rule: centre_reachable.induct)
  case (step s t)
  from step.hyps(2) step.IH show ?case
  proof cases
    case (listed i ids c r)
    with step.IH show ?thesis by (cases r) (auto simp: centre_listed_def)
  qed (auto simp: centre_list_def markRead_start_def markRead_settled_def readAll_start_def readAll_settled_def centre_finally_def
      changePage_def le_Suc_eq split: if_splits option.splits)
qed (simp add: centre_initial_def)

text \<open>
  While a notification is being marked as read no answer to a list request, however late it
  arrives, changes what is shown: the optimistic change is only taken back by its own failure.
\<close>
theorem late_lists_do_not_undo_a_change:
  assumes "centre_reachable (c, ids)" and "nc_mutation c" and "i \<in> ids"
  shows "centre_listed i r c = c"
  using centre_numbers [OF assms(1)] assms(2,3) by (auto simp: centre_listed_def)

definition sample_notification :: app_notification where
  "sample_notification = \<lparr>nt_id = ''n1'', nt_type = ORDER_CREATED, nt_priority = P_NORMAL, nt_title = '''', nt_body = '''',
     nt_read = False, nt_createdAt = '''', nt_action = None\<rparr>"

theorem late_lists_do_not_undo_a_change_witness:
  "\<exists>c ids. centre_reachable (c, ids) \<and> 1 \<in> ids \<and> centre_listed 1 (Inl (AxiosError None)) c = c"
proof -
  obtain c rq where c: "centre_list centre_initial = (c, Some (1, rq))" and p: "\<not> nc_mutation c"
    by (simp add: centre_list_def centre_initial_def)
  obtain d rq' where d: "markRead_start sample_notification c = (d, ReadNow rq')" and m: "nc_mutation d"
    using p by (simp add: markRead_start_def sample_notification_def)
  have "centre_reachable (d, {1})"
    by (rule centre_reachable.step [OF centre_reachable.step [OF centre_reachable.empty centre_step.listing [OF c]] centre_step.reading [OF d]])
  from this late_lists_do_not_undo_a_change [OF this m, of 1 "Inl (AxiosError None)"] show ?thesis by blast
qed

end
