(* ===== verification/Sessions.thy ===== *)
theory Sessions
  imports ApiClient ApiErrors DateTime Reservations
begin

section \<open>Sessions and security events of a user\<close>

text \<open>
  Models \<open>sessions/sessionPresentation.model.ts\<close>, \<open>sessions/useSessionDashboard.ts\<close> and the handlers of
  \<open>pages/SessionPage.tsx\<close>. \<open>load\<close>, \<open>revoke\<close> and \<open>revokeAll\<close> are split at their awaits; whether the hook is
  mounted and the same user is signed in is read from the state at each step, as the code does.
\<close>

subsection \<open>Presentation\<close>

fun event_label :: "security_event_type \<Rightarrow> string" where
  "event_label LOGIN_SUCCESS = sr ''Uspe~sna prijava''"
| "event_label LOGIN_FAILURE = sr ''Neuspe~sna prijava''"
| "event_label ACTIVATION_SUCCESS = ''Aktivacija naloga''"
| "event_label ACTIVATION_FAILURE = sr ''Neuspe~sna aktivacija''"
| "event_label TOKEN_REFRESH = sr ''Osve~zavanje sesije''"
| "event_label TOKEN_REUSE = ''Otkrivena ponovna upotreba tokena''"
| "event_label SESSION_REVOKED = ''Sesija opozvana''"
| "event_label ALL_SESSIONS_REVOKED = ''Sve sesije opozvane''"
| "event_label LOGOUT = ''Odjava''"

fun event_tone :: "security_event_type \<Rightarrow> status_tone" where
  "event_tone LOGIN_SUCCESS = T_success"
| "event_tone LOGIN_FAILURE = T_danger"
| "event_tone ACTIVATION_SUCCESS = T_success"
| "event_tone ACTIVATION_FAILURE = T_danger"
| "event_tone TOKEN_REFRESH = T_info"
| "event_tone TOKEN_REUSE = T_warning"
| "event_tone SESSION_REVOKED = T_warning"
| "event_tone ALL_SESSIONS_REVOKED = T_danger"
| "event_tone LOGOUT = T_warning"

datatype security_filter = F_all | F_success | F_failure | F_logout | F_changes | F_other

definition securityFilters :: "(security_filter \<times> string) list" where
  "securityFilters = [(F_all, sr ''Svi doga~daji''), (F_success, sr ''Uspe~sne prijave''), (F_failure, sr ''Neuspe~sne prijave''),
     (F_logout, ''Odjave''), (F_changes, ''Promene i opozivanja sesija''), (F_other, sr ''Ostali bezbednosni doga~daji'')]"

fun matchesSecurityFilter :: "security_event_info \<Rightarrow> security_filter \<Rightarrow> bool" where
  "matchesSecurityFilter e F_all \<longleftrightarrow> True"
| "matchesSecurityFilter e F_success \<longleftrightarrow> sev_type e = LOGIN_SUCCESS"
| "matchesSecurityFilter e F_failure \<longleftrightarrow> sev_type e = LOGIN_FAILURE"
| "matchesSecurityFilter e F_logout \<longleftrightarrow> sev_type e = LOGOUT"
| "matchesSecurityFilter e F_changes \<longleftrightarrow> sev_type e \<in> {TOKEN_REFRESH, SESSION_REVOKED, ALL_SESSIONS_REVOKED}"
| "matchesSecurityFilter e F_other \<longleftrightarrow> sev_type e \<in> {TOKEN_REUSE, ACTIVATION_SUCCESS, ACTIVATION_FAILURE}"

lemma filters_partition_the_events:
  "length (filter (matchesSecurityFilter e) [F_success, F_failure, F_logout, F_changes, F_other]) = 1"
  by (cases "sev_type e") simp_all

definition latestLogin :: "platform \<Rightarrow> security_event_info list \<Rightarrow> security_event_info option" where
  "latestLogin P events = fold (\<lambda>e latest. case latest of
       None \<Rightarrow> Some e
     | Some l \<Rightarrow> if the (parse P (sev_occurredAt e)) > the (parse P (sev_occurredAt l)) then Some e else Some l)
     (filter (\<lambda>e. sev_type e = LOGIN_SUCCESS \<and> parse P (sev_occurredAt e) \<noteq> None) events) None"

definition sessionDate :: "platform \<Rightarrow> string \<Rightarrow> string option" where
  "sessionDate P v = (if parse P v \<noteq> None then formatBusinessDateTime P v False ''sr-Latn-RS'' else Some ''Nema dostupnog podatka'')"

datatype device_icon = I_tablet | I_phone | I_laptop | I_monitor | I_devices

definition deviceIcon :: "(string list \<Rightarrow> string \<Rightarrow> bool) \<Rightarrow> session_info \<Rightarrow> device_icon" where
  \<comment> \<open>\<open>word ws s\<close>: some text of \<open>ws\<close> stands in \<open>s\<close> between word boundaries, case ignored\<close>
  "deviceIcon word s = (let label = sess_deviceLabel s; agent = sess_userAgentSummary s
     in if word [''ipad'', ''tablet''] agent \<or> word [''tablet''] label then I_tablet
        else if word [''iphone'', ''windows phone''] agent \<or> word [''android''] agent \<and> word [''mobile''] agent
          \<or> word [''smartphone'', ''telefon''] label then I_phone
        else if word [''laptop'', ''notebook''] label then I_laptop
        else if word [''desktop'', sr ''stoni ra~cunar''] label then I_monitor
        else I_devices)"

subsection \<open>The dashboard\<close>

record 'a session_resource =
  rs_data :: "'a list option"
  rs_loading :: bool
  rs_error :: string

datatype pending_revocation = P_none | P_session string | P_all

record session_dashboard =
  sd_sessions :: "session_info session_resource"
  sd_events :: "security_event_info session_resource"
  sd_pendingId :: pending_revocation
  sd_loading :: "nat option" \<comment> \<open>\<open>loadingRequest\<close>, with the number of answers it waits for\<close>
  sd_inFlight :: bool
  sd_mounted :: bool
  sd_user :: "string option" \<comment> \<open>\<open>useAuthStore.getState().user?.id\<close>\<close>

definition resource_loading :: "'a session_resource \<Rightarrow> 'a session_resource" where
  "resource_loading r = r\<lparr>rs_loading := True, rs_error := ''''\<rparr>"

definition resource_answer :: "string \<Rightarrow> cause + 'a list \<Rightarrow> 'a session_resource \<Rightarrow> 'a session_resource" where
  "resource_answer fallback a r = (case a of
     Inr vs \<Rightarrow> \<lparr>rs_data = Some vs, rs_loading = False, rs_error = ''''\<rparr>
   | Inl e \<Rightarrow> r\<lparr>rs_loading := False, rs_error := apiErrorMessage e fallback\<rparr>)"

definition currentActor :: "string \<Rightarrow> session_dashboard \<Rightarrow> bool" where
  "currentActor actor d \<longleftrightarrow> sd_user d = Some actor"

definition dashboard_active :: "string \<Rightarrow> session_dashboard \<Rightarrow> bool" where
  "dashboard_active actor d \<longleftrightarrow> sd_mounted d \<and> currentActor actor d"

definition dashboard_load :: "string \<Rightarrow> session_dashboard \<Rightarrow> session_dashboard \<times> bool" where
  \<comment> \<open>the flag is whether the two requests are sent; a running load is shared\<close>
  "dashboard_load actor d = (if sd_loading d \<noteq> None \<or> \<not> dashboard_active actor d then (d, False)
     else (d\<lparr>sd_sessions := resource_loading (sd_sessions d), sd_events := resource_loading (sd_events d), sd_loading := Some 2\<rparr>, True))"

definition one_answered :: "session_dashboard \<Rightarrow> session_dashboard" where
  \<comment> \<open>\<open>finally\<close> clears the request when both have settled\<close>
  "one_answered d = d\<lparr>sd_loading := (case sd_loading d of Some (Suc (Suc n)) \<Rightarrow> Some (Suc n) | _ \<Rightarrow> None)\<rparr>"

definition sessions_answered :: "string \<Rightarrow> cause + session_info list \<Rightarrow> session_dashboard \<Rightarrow> session_dashboard" where
  "sessions_answered actor a d = one_answered (if dashboard_active actor d
     then d\<lparr>sd_sessions := resource_answer ''Aktivne sesije trenutno nisu dostupne.'' a (sd_sessions d)\<rparr> else d)"

definition events_answered :: "string \<Rightarrow> cause + security_event_info list \<Rightarrow> session_dashboard \<Rightarrow> session_dashboard" where
  "events_answered actor a d = one_answered (if dashboard_active actor d
     then d\<lparr>sd_events := resource_answer ''Bezbednosna istorija trenutno nije dostupna.'' a (sd_events d)\<rparr> else d)"

definition dashboard_refresh :: "string \<Rightarrow> session_dashboard \<Rightarrow> session_dashboard \<times> bool" where
  "dashboard_refresh actor d = (if sd_inFlight d then (d, False) else dashboard_load actor d)"

definition revocation_start :: "string \<Rightarrow> pending_revocation \<Rightarrow> session_dashboard \<Rightarrow> session_dashboard option" where
  \<comment> \<open>None: throws\<close>
  "revocation_start actor p d = (if sd_inFlight d \<or> sd_loading d \<noteq> None \<or> \<not> currentActor actor d then None
     else Some (d\<lparr>sd_inFlight := True, sd_pendingId := p\<rparr>))"

definition revocation_finally :: "string \<Rightarrow> session_dashboard \<Rightarrow> session_dashboard" where
  "revocation_finally actor d = d\<lparr>sd_inFlight := False,
     sd_pendingId := (if dashboard_active actor d then P_none else sd_pendingId d)\<rparr>"

datatype revocation_next = R_done | R_signed_out | R_reload \<comment> \<open>\<open>R_reload\<close>: \<open>load()\<close> is awaited before the \<open>finally\<close>\<close>

definition remove_session :: "string \<Rightarrow> session_dashboard \<Rightarrow> session_dashboard" where
  "remove_session i d = d\<lparr>sd_sessions := (sd_sessions d)\<lparr>rs_data :=
     map_option (filter (\<lambda>v. sess_id v \<noteq> i)) (rs_data (sd_sessions d))\<rparr>\<rparr>"

definition session_revoked :: "string \<Rightarrow> session_info \<Rightarrow> session_dashboard \<Rightarrow> session_dashboard \<times> revocation_next" where
  \<comment> \<open>the server has acknowledged; signing out clears the session of the store\<close>
  "session_revoked actor v d =
     (if \<not> currentActor actor d then (revocation_finally actor d, R_done)
      else if sess_current v then (revocation_finally actor (d\<lparr>sd_user := None\<rparr>), R_signed_out)
      else if \<not> sd_mounted d then (revocation_finally actor d, R_done)
      else (remove_session (sess_id v) d, R_reload))"

definition all_revoked :: "string \<Rightarrow> session_dashboard \<Rightarrow> session_dashboard \<times> revocation_next" where
  "all_revoked actor d = (if \<not> currentActor actor d then (revocation_finally actor d, R_done)
     else (revocation_finally actor (d\<lparr>sd_user := None\<rparr>), R_signed_out))"

definition dashboard_fetching :: "session_dashboard \<Rightarrow> bool" where
  "dashboard_fetching d \<longleftrightarrow> rs_loading (sd_sessions d) \<or> rs_loading (sd_events d)"

definition confirmation_opens :: "session_dashboard \<Rightarrow> bool" where
  \<comment> \<open>\<open>openConfirmation\<close> of the page\<close>
  "confirmation_opens d \<longleftrightarrow> \<not> (dashboard_fetching d \<or> sd_pendingId d \<noteq> P_none)"

definition dashboard_initial :: "string \<Rightarrow> session_dashboard" where
  "dashboard_initial actor = \<lparr>sd_sessions = \<lparr>rs_data = None, rs_loading = True, rs_error = ''''\<rparr>,
     sd_events = \<lparr>rs_data = None, rs_loading = True, rs_error = ''''\<rparr>, sd_pendingId = P_none, sd_loading = None,
     sd_inFlight = False, sd_mounted = True, sd_user = Some actor\<rparr>"


subsection \<open>What the page shows\<close>

text \<open>
  The dashboard with the server beside it. \<open>ds_live\<close> are the sessions the server knows, \<open>ds_gone\<close> those it has
  revoked; a request for the list is answered with the live sessions at some moment before the answer arrives
  (\<open>ds_answer\<close>). \<open>ds_revoking\<close> are the revocations whose answer has not arrived. Two more components record the history:
  the last list that arrived while the page was open for its user, and the sessions, other than the current
  one, whose revocation was acknowledged while it was. The steps are the clicks, the server's moves and the
  answers, in any order; the first load is under way, as its timer of 0 ms runs before any answer and any click
  on a session.
\<close>

record dashboard_system =
  ds_page :: session_dashboard
  ds_live :: "session_info list"
  ds_gone :: "string set"
  ds_asked :: bool
  ds_answer :: "session_info list option"
  ds_eventsAsked :: bool
  ds_revoking :: "session_info list"
  ds_revokingAll :: nat
  ds_reloading :: nat \<comment> \<open>revocations that wait for \<open>load()\<close>\<close>
  ds_listed :: "session_info list option"
  ds_acknowledged :: "string set"

definition loaded_page :: "session_dashboard \<times> bool \<Rightarrow> dashboard_system \<Rightarrow> dashboard_system" where
  \<comment> \<open>the page after \<open>load\<close>, with its two requests where it sends them\<close>
  "loaded_page r s = (if snd r then s\<lparr>ds_page := fst r, ds_asked := True, ds_answer := None, ds_eventsAsked := True\<rparr>
     else s\<lparr>ds_page := fst r\<rparr>)"

definition revocation_answered :: "string \<Rightarrow> session_dashboard \<times> revocation_next \<Rightarrow> dashboard_system \<Rightarrow> dashboard_system" where
  \<comment> \<open>the continuation of a revocation: \<open>load()\<close> where it comes to it\<close>
  "revocation_answered actor r s = (if snd r = R_reload
     then loaded_page (dashboard_load actor (fst r)) (s\<lparr>ds_reloading := Suc (ds_reloading s)\<rparr>)
     else s\<lparr>ds_page := fst r\<rparr>)"

inductive dashboard_step :: "string \<Rightarrow> dashboard_system \<Rightarrow> dashboard_system \<Rightarrow> bool" for actor where
  refresh: "dashboard_step actor s (loaded_page (dashboard_refresh actor (ds_page s)) s)"
| served: "ds_asked s \<Longrightarrow> ds_answer s = None \<Longrightarrow> dashboard_step actor s (s\<lparr>ds_answer := Some (ds_live s)\<rparr>)"
| listed: "ds_asked s \<Longrightarrow> ds_answer s = Some vs \<Longrightarrow> dashboard_step actor s (s\<lparr>ds_page := sessions_answered actor (Inr vs) (ds_page s),
    ds_asked := False, ds_answer := None, ds_listed := (if dashboard_active actor (ds_page s) then Some vs else ds_listed s)\<rparr>)"
| list_failed: "ds_asked s \<Longrightarrow> dashboard_step actor s (s\<lparr>ds_page := sessions_answered actor (Inl e) (ds_page s),
    ds_asked := False, ds_answer := None\<rparr>)"
| events: "ds_eventsAsked s \<Longrightarrow> dashboard_step actor s (s\<lparr>ds_page := events_answered actor a (ds_page s), ds_eventsAsked := False\<rparr>)"
| revoke: "revocation_start actor (P_session (sess_id v)) (ds_page s) = Some d \<Longrightarrow>
    dashboard_step actor s (s\<lparr>ds_page := d, ds_revoking := v # ds_revoking s\<rparr>)"
| revoke_all: "revocation_start actor P_all (ds_page s) = Some d \<Longrightarrow>
    dashboard_step actor s (s\<lparr>ds_page := d, ds_revokingAll := Suc (ds_revokingAll s)\<rparr>)"
| carried_out: "v \<in> set (ds_revoking s) \<Longrightarrow> dashboard_step actor s (s\<lparr>ds_gone := insert (sess_id v) (ds_gone s),
    ds_live := filter (\<lambda>w. sess_id w \<noteq> sess_id v) (ds_live s)\<rparr>)"
| server_changes: "\<forall>v \<in> set vs. sess_id v \<notin> ds_gone s \<Longrightarrow> dashboard_step actor s (s\<lparr>ds_live := vs\<rparr>)"
| acknowledged: "v \<in> set (ds_revoking s) \<Longrightarrow> sess_id v \<in> ds_gone s \<Longrightarrow> dashboard_step actor s
    (revocation_answered actor (session_revoked actor v (ds_page s)) (s\<lparr>ds_revoking := remove1 v (ds_revoking s),
      ds_acknowledged := (if dashboard_active actor (ds_page s) \<and> \<not> sess_current v
        then insert (sess_id v) (ds_acknowledged s) else ds_acknowledged s)\<rparr>))"
| revoke_failed: "v \<in> set (ds_revoking s) \<Longrightarrow> dashboard_step actor s
    (s\<lparr>ds_page := revocation_finally actor (ds_page s), ds_revoking := remove1 v (ds_revoking s)\<rparr>)"
| all_acknowledged: "0 < ds_revokingAll s \<Longrightarrow> dashboard_step actor s
    (revocation_answered actor (all_revoked actor (ds_page s)) (s\<lparr>ds_revokingAll := ds_revokingAll s - 1\<rparr>))"
| all_failed: "0 < ds_revokingAll s \<Longrightarrow> dashboard_step actor s
    (s\<lparr>ds_page := revocation_finally actor (ds_page s), ds_revokingAll := ds_revokingAll s - 1\<rparr>)"
| reloaded: "0 < ds_reloading s \<Longrightarrow> sd_loading (ds_page s) = None \<Longrightarrow> dashboard_step actor s
    (s\<lparr>ds_page := revocation_finally actor (ds_page s), ds_reloading := ds_reloading s - 1\<rparr>)"
| switched: "dashboard_step actor s (s\<lparr>ds_page := (ds_page s)\<lparr>sd_user := u\<rparr>\<rparr>)"
| left: "dashboard_step actor s (s\<lparr>ds_page := (ds_page s)\<lparr>sd_mounted := False\<rparr>\<rparr>)"

definition dashboard_opened :: "string \<Rightarrow> session_info list \<Rightarrow> dashboard_system" where
  "dashboard_opened actor live = loaded_page (dashboard_load actor (dashboard_initial actor))
     \<lparr>ds_page = dashboard_initial actor, ds_live = live, ds_gone = {}, ds_asked = False, ds_answer = None, ds_eventsAsked = False,
      ds_revoking = [], ds_revokingAll = 0, ds_reloading = 0, ds_listed = None, ds_acknowledged = {}\<rparr>"

inductive dashboard_reachable :: "string \<Rightarrow> dashboard_system \<Rightarrow> bool" for actor where
  opened: "dashboard_reachable actor (dashboard_opened actor live)"
| step: "dashboard_reachable actor s \<Longrightarrow> dashboard_step actor s t \<Longrightarrow> dashboard_reachable actor t"

definition shown_sessions :: "dashboard_system \<Rightarrow> session_info list option" where
  "shown_sessions s = rs_data (sd_sessions (ds_page s))"

definition without :: "string set \<Rightarrow> session_info list \<Rightarrow> session_info list" where
  "without gone = filter (\<lambda>v. sess_id v \<notin> gone)"

definition requests_out :: "dashboard_system \<Rightarrow> nat" where
  "requests_out s = (if ds_asked s then 1 else 0) + (if ds_eventsAsked s then 1 else 0)"

definition revocations_out :: "dashboard_system \<Rightarrow> nat" where
  "revocations_out s = length (ds_revoking s) + ds_revokingAll s + ds_reloading s"

text \<open>
  The guards of \<open>refresh\<close>, \<open>load\<close>, \<open>revoke\<close> and \<open>revokeAll\<close> keep the answers of a load and of a revocation apart:
  at most one revocation runs, and no load is under way until it has been acknowledged.
\<close>

definition dashboard_ok :: "dashboard_system \<Rightarrow> bool" where
  "dashboard_ok s \<longleftrightarrow>
     sd_loading (ds_page s) = (if requests_out s = 0 then None else Some (requests_out s))
     \<and> revocations_out s = (if sd_inFlight (ds_page s) then 1 else 0)
     \<and> (ds_revoking s \<noteq> [] \<longrightarrow> \<not> ds_asked s)
     \<and> (\<not> ds_asked s \<longrightarrow> ds_answer s = None)
     \<and> ds_acknowledged s \<subseteq> ds_gone s \<and> (\<forall>v \<in> set (ds_live s). sess_id v \<notin> ds_gone s)
     \<and> (\<forall>vs. ds_answer s = Some vs \<longrightarrow> (\<forall>v \<in> set vs. sess_id v \<notin> ds_acknowledged s))
     \<and> shown_sessions s = map_option (without (ds_acknowledged s)) (ds_listed s)"

lemmas dashboard_defs = dashboard_load_def resource_loading_def sessions_answered_def events_answered_def one_answered_def
  resource_answer_def revocation_start_def revocation_finally_def session_revoked_def all_revoked_def remove_session_def
  dashboard_refresh_def loaded_page_def revocation_answered_def

lemma without_fresh: "\<forall>v \<in> set vs. sess_id v \<notin> gone \<Longrightarrow> without gone vs = vs"
  by (simp add: without_def filter_id_conv)

lemma without_insert: "without (insert i gone) = (\<lambda>vs. filter (\<lambda>v. sess_id v \<noteq> i) (without gone vs))"
  by (rule ext) (auto simp: without_def intro: filter_cong)

lemma dashboard_opened_ok: "dashboard_ok (dashboard_opened actor live)"
  by (simp add: dashboard_ok_def dashboard_opened_def dashboard_defs dashboard_initial_def dashboard_active_def currentActor_def
      requests_out_def revocations_out_def shown_sessions_def)

lemma dashboard_step_ok: "dashboard_step actor s t \<Longrightarrow> dashboard_ok s \<Longrightarrow> dashboard_ok t"
proof (induction rule: dashboard_step.induct)
  case (refresh s)
  then show ?case
    by (auto simp: dashboard_ok_def dashboard_defs requests_out_def revocations_out_def shown_sessions_def split: if_splits)
next
  case (served s)
  then show ?case by (auto simp: dashboard_ok_def requests_out_def revocations_out_def shown_sessions_def)
next
  case (listed s vs)
  then show ?case
    by (auto simp: dashboard_ok_def dashboard_defs requests_out_def revocations_out_def shown_sessions_def without_fresh split: if_splits)
next
  case (list_failed s e)
  then show ?case
    by (auto simp: dashboard_ok_def dashboard_defs requests_out_def revocations_out_def shown_sessions_def split: if_splits)
next
  case (events s a)
  then show ?case
    by (auto simp: dashboard_ok_def dashboard_defs requests_out_def revocations_out_def shown_sessions_def split: if_splits sum.splits)
next
  case (revoke v s d)
  then show ?case
    by (auto simp: dashboard_ok_def dashboard_defs requests_out_def revocations_out_def shown_sessions_def split: if_splits)
next
  case (revoke_all s d)
  then show ?case
    by (auto simp: dashboard_ok_def dashboard_defs requests_out_def revocations_out_def shown_sessions_def split: if_splits)
next
  case (acknowledged v s)
  then have l: "ds_revoking s = [v]" "ds_revokingAll s = 0" "ds_reloading s = 0" "sd_inFlight (ds_page s)" "\<not> ds_asked s" "ds_answer s = None"
    by (cases "ds_revoking s"; auto simp: dashboard_ok_def revocations_out_def split: if_splits)+
  with acknowledged show ?case
    by (auto simp: dashboard_ok_def dashboard_defs requests_out_def revocations_out_def shown_sessions_def dashboard_active_def
        without_insert option.map_comp comp_def split: if_splits)
next
  case (revoke_failed v s)
  then have l: "ds_revoking s = [v]" "ds_revokingAll s = 0" "ds_reloading s = 0" "sd_inFlight (ds_page s)"
    by (cases "ds_revoking s"; auto simp: dashboard_ok_def revocations_out_def split: if_splits)+
  with revoke_failed show ?case
    by (auto simp: dashboard_ok_def dashboard_defs requests_out_def revocations_out_def shown_sessions_def split: if_splits)
qed (auto simp: dashboard_ok_def dashboard_defs requests_out_def revocations_out_def shown_sessions_def length_remove1 split: if_splits)

text \<open>
  Property C33: the list of devices follows the server. In every interleaving of loads, answers, failures,
  revocations, changes of the signed-in user and leaving the page, the sessions shown are the last list that
  arrived for this user on the open page without the sessions whose revocation was acknowledged on it: nothing
  disappears before the server's acknowledgement, no acknowledged session is shown again by an answer that was
  computed before its revocation, and an answer for a user who is gone adds nothing.
\<close>
theorem shown_sessions_follow_the_server:
  assumes "dashboard_reachable actor s"
  shows "shown_sessions s = map_option (without (ds_acknowledged s)) (ds_listed s)
    \<and> (\<forall>vs. shown_sessions s = Some vs \<longrightarrow> (\<forall>v \<in> set vs. sess_id v \<notin> ds_acknowledged s))"
proof -
  from assms have "dashboard_ok s"
    by (induction rule: dashboard_reachable.induct) (auto intro: dashboard_opened_ok dashboard_step_ok)
  then show ?thesis by (auto simp: dashboard_ok_def without_def)
qed

definition sample_session :: "string \<Rightarrow> session_info" where
  "sample_session i = \<lparr>sess_id = i, sess_deviceLabel = '''', sess_userAgentSummary = '''', sess_createdAt = '''', sess_lastSeenAt = '''',
     sess_expiresAt = '''', sess_current = False\<rparr>"

definition two_sessions :: "session_info list" where
  "two_sessions = [sample_session ''s1'', sample_session ''s2'']"

theorem shown_sessions_follow_the_server_witness:
  "\<exists>s. dashboard_reachable ''u1'' s \<and> ds_acknowledged s = {''s1''} \<and> ds_listed s = Some two_sessions
     \<and> shown_sessions s = Some [sample_session ''s2'']"
proof -
  define v where "v = sample_session ''s1''"
  define s0 where "s0 = dashboard_opened ''u1'' two_sessions"
  define s1 where "s1 = s0\<lparr>ds_answer := Some (ds_live s0)\<rparr>"
  define s2 where "s2 = s1\<lparr>ds_page := sessions_answered ''u1'' (Inr two_sessions) (ds_page s1), ds_asked := False, ds_answer := None,
    ds_listed := (if dashboard_active ''u1'' (ds_page s1) then Some two_sessions else ds_listed s1)\<rparr>"
  define s3 where "s3 = s2\<lparr>ds_page := events_answered ''u1'' (Inr []) (ds_page s2), ds_eventsAsked := False\<rparr>"
  define d where "d = (ds_page s3)\<lparr>sd_inFlight := True, sd_pendingId := P_session (sess_id v)\<rparr>"
  define s4 where "s4 = s3\<lparr>ds_page := d, ds_revoking := v # ds_revoking s3\<rparr>"
  define s5 where "s5 = s4\<lparr>ds_gone := insert (sess_id v) (ds_gone s4), ds_live := filter (\<lambda>w. sess_id w \<noteq> sess_id v) (ds_live s4)\<rparr>"
  define s6 where "s6 = revocation_answered ''u1'' (session_revoked ''u1'' v (ds_page s5)) (s5\<lparr>ds_revoking := remove1 v (ds_revoking s5),
      ds_acknowledged := (if dashboard_active ''u1'' (ds_page s5) \<and> \<not> sess_current v
        then insert (sess_id v) (ds_acknowledged s5) else ds_acknowledged s5)\<rparr>)"
  note eval = s0_def s1_def s2_def s3_def d_def s4_def s5_def dashboard_opened_def dashboard_defs dashboard_initial_def
    dashboard_active_def currentActor_def
  have "dashboard_reachable ''u1'' s0" unfolding s0_def by (rule dashboard_reachable.opened)
  moreover have "dashboard_step ''u1'' s0 s1" unfolding s1_def by (rule dashboard_step.served) (simp_all add: eval)
  moreover have "dashboard_step ''u1'' s1 s2" unfolding s2_def by (rule dashboard_step.listed) (simp_all add: eval)
  moreover have "dashboard_step ''u1'' s2 s3" unfolding s3_def by (rule dashboard_step.events) (simp add: eval)
  moreover have "dashboard_step ''u1'' s3 s4" unfolding s4_def by (rule dashboard_step.revoke) (simp add: eval)
  moreover have "dashboard_step ''u1'' s4 s5" unfolding s5_def by (rule dashboard_step.carried_out) (simp add: s4_def)
  moreover have "dashboard_step ''u1'' s5 s6" unfolding s6_def by (rule dashboard_step.acknowledged) (simp_all add: s5_def s4_def)
  ultimately have r: "dashboard_reachable ''u1'' s6" by (meson dashboard_reachable.step)
  have "ds_acknowledged s6 = {''s1''} \<and> ds_listed s6 = Some two_sessions"
    by (simp add: s6_def eval v_def sample_session_def)
  with shown_sessions_follow_the_server [OF r] r show ?thesis
    by (intro exI [of _ s6]) (simp add: without_def two_sessions_def sample_session_def)
qed

end
