(* ===== verification/Observability.thy ===== *)
theory Observability
  imports Prelude
begin

section \<open>Error and performance reports\<close>

text \<open>
  Models \<open>observability/errorReporter.ts\<close> and \<open>observability/performanceReporter.ts\<close>. Each global regular
  expression is its matcher at one position, and \<open>replace_matches\<close> is \<open>String.replace\<close> over all
  positions from the left. White space is that of ASCII. A transport is a name.
\<close>

subsection \<open>Redaction\<close>

definition secret_words :: "string list" where
  "secret_words = [''password'', ''secret'', ''token'', ''authorization'', ''cookie'']"

definition secret_value :: "char \<Rightarrow> bool" where
  "secret_value c \<longleftrightarrow> \<not> is_space c \<and> c \<noteq> CHR '','' \<and> c \<noteq> CHR '';''"

definition secret_at :: "string \<Rightarrow> (nat \<times> nat) option" where
  \<comment> \<open>\<open>(word)(\s*[=:]\s*)([^\s,;]+)\<close>: the lengths of the first two groups together and of the match\<close>
  "secret_at s = (case find (\<lambda>w. to_lower (take (length w) s) = w) secret_words of
     None \<Rightarrow> None
   | Some w \<Rightarrow>
       let r = drop (length w) s; a = length (takeWhile is_space r)
       in (case drop a r of
           [] \<Rightarrow> None
         | c # t \<Rightarrow>
             if c \<noteq> CHR ''='' \<and> c \<noteq> CHR '':'' then None
             else let b = length (takeWhile is_space t); v = length (takeWhile secret_value (drop b t));
                      k = length w + a + 1 + b
               in if v = 0 then None else Some (k, k + v)))"

definition bearer_char :: "char \<Rightarrow> bool" where
  "bearer_char c \<longleftrightarrow> is_digit c \<or> CHR ''a'' \<le> lower_char c \<and> lower_char c \<le> CHR ''z'' \<or> c \<in> set ''._~+/-''"

definition bearer_at :: "string \<Rightarrow> nat option" where
  "bearer_at s = (if to_lower (take 6 s) \<noteq> ''bearer'' then None
     else let r = drop 6 s; a = length (takeWhile is_space r); t = drop a r; b = length (takeWhile bearer_char t);
              e = length (takeWhile ((=) CHR ''='') (drop b t))
       in if a = 0 \<or> b = 0 then None else Some (6 + a + b + e))"

definition is_letter :: "char \<Rightarrow> bool" where
  "is_letter c \<longleftrightarrow> CHR ''a'' \<le> lower_char c \<and> lower_char c \<le> CHR ''z''"

definition local_char :: "char \<Rightarrow> bool" where
  "local_char c \<longleftrightarrow> is_letter c \<or> is_digit c \<or> c \<in> set ''._%+-''"

definition domain_char :: "char \<Rightarrow> bool" where
  "domain_char c \<longleftrightarrow> is_letter c \<or> is_digit c \<or> c \<in> set ''.-''"

fun domain_end :: "nat \<Rightarrow> string \<Rightarrow> nat option" where
  \<comment> \<open>the longest domain before a dot and two or more letters; the first argument is the last place to try\<close>
  "domain_end 0 d = None"
| "domain_end (Suc i) d = (let n = length (takeWhile is_letter (drop (i + 2) d))
     in if drop (i + 1) d \<noteq> [] \<and> hd (drop (i + 1) d) = CHR ''.'' \<and> 2 \<le> n then Some (i + 2 + n) else domain_end i d)"

definition email_at :: "string \<Rightarrow> nat option" where
  "email_at s = (let n = length (takeWhile local_char s); r = drop n s
     in if n = 0 \<or> r = [] \<or> hd r \<noteq> CHR ''@'' then None
        else let d = takeWhile domain_char (tl r)
          in map_option (\<lambda>e. n + 1 + e) (domain_end (length d) d))"

function replace_matches :: "(string \<Rightarrow> (string \<times> nat) option) \<Rightarrow> string \<Rightarrow> string" where
  \<comment> \<open>the matcher gives the text to put and the length of the match\<close>
  "replace_matches m [] = []"
| "replace_matches m (c # cs) = (case m (c # cs) of
     None \<Rightarrow> c # replace_matches m cs
   | Some (t, n) \<Rightarrow> t @ replace_matches m (drop (n - 1) cs))"
  by pat_completeness auto
termination
  by (relation "measure (length \<circ> snd)") auto

definition redact_secrets :: "string \<Rightarrow> string" where
  "redact_secrets = replace_matches (\<lambda>s. map_option (\<lambda>(k, n). (take k s @ ''[REDACTED]'', n)) (secret_at s))"

definition redact_bearer :: "string \<Rightarrow> string" where
  "redact_bearer = replace_matches (\<lambda>s. map_option (Pair ''Bearer [REDACTED]'') (bearer_at s))"

definition redact_emails :: "string \<Rightarrow> string" where
  "redact_emails = replace_matches (\<lambda>s. map_option (Pair ''[REDACTED_EMAIL]'') (email_at s))"

fun take_units :: "nat \<Rightarrow> string \<Rightarrow> string" where
  \<comment> \<open>\<open>slice(0, n)\<close> in UTF-16 units\<close>
  "take_units n [] = []"
| "take_units n (c # cs) = (if unit_of c \<le> n then c # take_units (n - unit_of c) cs else [])"

definition sanitize :: "string \<Rightarrow> string" where
  "sanitize s = take_units 500 (redact_emails (redact_bearer (redact_secrets s)))"

subsection \<open>Reports\<close>

record frontend_error_event =
  fe_message :: string
  fe_source :: string
  fe_release :: string
  fe_requestId :: "string option"

record error_reporter =
  er_lastRequestId :: "string option"
  er_transport :: string
  er_sent :: "(string \<times> frontend_error_event) list" \<comment> \<open>what each transport was handed\<close>

definition request_id_ok :: "string \<Rightarrow> bool" where
  "request_id_ok v \<longleftrightarrow> v \<noteq> '''' \<and> length v \<le> 80 \<and> (\<forall>c \<in> set v. is_letter c \<or> is_digit c \<or> c \<in> set ''._:-'')"

definition observeRequestId :: "json option \<Rightarrow> error_reporter \<Rightarrow> error_reporter" where
  "observeRequestId v s = (case v of
     Some (JStr i) \<Rightarrow> if request_id_ok i then s\<lparr>er_lastRequestId := Some i\<rparr> else s
   | _ \<Rightarrow> s)"

definition configureErrorTransport :: "string \<Rightarrow> error_reporter \<Rightarrow> error_reporter \<times> (error_reporter \<Rightarrow> error_reporter)" where
  \<comment> \<open>with the function that restores the previous transport\<close>
  "configureErrorTransport t s = (s\<lparr>er_transport := t\<rparr>, \<lambda>s'. s'\<lparr>er_transport := er_transport s\<rparr>)"

definition reportFrontendError :: "string option \<Rightarrow> string \<Rightarrow> string \<Rightarrow> error_reporter \<Rightarrow> error_reporter" where
  \<comment> \<open>the message is \<open>error.message\<close> or \<open>String(error)\<close>\<close>
  "reportFrontendError release message source s = s\<lparr>er_sent := er_sent s @ [(er_transport s,
     \<lparr>fe_message = sanitize message, fe_source = sanitize source,
      fe_release = (case release of Some r \<Rightarrow> r | None \<Rightarrow> ''development''), fe_requestId = er_lastRequestId s\<rparr>)]\<rparr>"

definition on_error :: "string option \<Rightarrow> string option \<Rightarrow> string \<Rightarrow> error_reporter \<Rightarrow> error_reporter" where
  \<comment> \<open>\<open>event.error ?? event.message\<close>\<close>
  "on_error release err message s = reportFrontendError release (case err of Some e \<Rightarrow> e | None \<Rightarrow> message) ''window.error'' s"

definition on_rejection :: "string option \<Rightarrow> string \<Rightarrow> error_reporter \<Rightarrow> error_reporter" where
  "on_rejection release reason s = reportFrontendError release reason ''window.unhandledrejection'' s"

datatype web_vital = CLS | INP | LCP

record web_vital_event =
  wv_name :: web_vital
  wv_value :: rat
  wv_release :: string
  wv_navigation :: string

definition reportWebVital :: "string option \<Rightarrow> string option \<Rightarrow> web_vital \<Rightarrow> jsnum \<Rightarrow> web_vital_event option" where
  "reportWebVital release navigation name value = (case value of
     Num r \<Rightarrow> if r < 0 then None
       else Some \<lparr>wv_name = name, wv_value = of_int \<lfloor>r * 1000 + 1 / 2\<rfloor> / 1000,
         wv_release = (case release of Some v \<Rightarrow> v | None \<Rightarrow> ''development''),
         wv_navigation = (case navigation of Some v \<Rightarrow> v | None \<Rightarrow> ''unknown'')\<rparr>
   | _ \<Rightarrow> None)"

definition observe_event :: "rat \<Rightarrow> (web_vital \<times> jsnum) option" where
  "observe_event duration = (if 0 < duration then Some (INP, Num duration) else None)"

definition observe_shift :: "rat \<Rightarrow> bool \<Rightarrow> rat \<Rightarrow> rat \<times> (web_vital \<times> jsnum) option" where
  \<comment> \<open>the sum so far, and what is reported\<close>
  "observe_shift shift hadRecentInput cls = (if hadRecentInput then (cls, None) else (cls + shift, Some (CLS, Num (cls + shift))))"

subsection \<open>What is sent\<close>

lemma take_units_length: "js_length (take_units n s) \<le> n"
  by (induction n s rule: take_units.induct) auto

lemma sanitized_length: "js_length (sanitize s) \<le> 500"
  unfolding sanitize_def by (rule take_units_length)

lemma vital_is_rounded:
  assumes "reportWebVital release navigation name value = Some e"
  shows "\<exists>r. value = Num r \<and> 0 \<le> r \<and> \<bar>wv_value e - r\<bar> \<le> 1 / 2000"
proof -
  from assms obtain r where r: "value = Num r" "0 \<le> r" "wv_value e = of_int \<lfloor>r * 1000 + 1 / 2\<rfloor> / 1000"
    by (auto simp: reportWebVital_def not_less split: jsnum.splits if_splits)
  have "of_int \<lfloor>r * 1000 + 1 / 2\<rfloor> \<le> r * 1000 + 1 / 2" "r * 1000 + 1 / 2 < of_int \<lfloor>r * 1000 + 1 / 2\<rfloor> + 1"
    by (rule of_int_floor_le, rule floor_correct [THEN conjunct2, simplified])
  with r show ?thesis by (intro exI [of _ r]) (simp add: abs_if field_simps)
qed

text \<open>
  The order of the three replacements lets the value of an \<open>Authorization\<close> header through: the first one
  takes the word \<open>Bearer\<close> for the secret, and the token that follows no longer stands after \<open>Bearer\<close>.
\<close>

lemma authorization_header_keeps_its_token:
  "redact_bearer (redact_secrets ''Bearer a.b'') = ''Bearer [REDACTED]''"
  "redact_bearer (redact_secrets ''Authorization: Bearer a'') = ''Authorization: [REDACTED] a''"
  by code_simp+

end
