(* ===== verification/Accounts.thy ===== *)
theory Accounts
  imports People Web Navigation ApiErrors ApiClient Gaming
begin

section \<open>Accounts: sign-in, profile, users and employees\<close>

text \<open>
  Models \<open>users/userPresentation.model.ts\<close>, \<open>employees/employeePresentation.model.ts\<close>,
  \<open>profile/profilePresentation.model.ts\<close> and the handlers of \<open>pages/LoginPage.tsx\<close>,
  \<open>pages/ActivatePage.tsx\<close>, \<open>pages/UserManagementPage.tsx\<close>, \<open>pages/EmployeesPage.tsx\<close>,
  \<open>profile/ProfilePasswordCard.tsx\<close>, \<open>profile/ProfilePersonalCard.tsx\<close> and \<open>profile/ProfileAvatarEditor.tsx\<close>.
  A confirmed action reads the signed-in user again; \<open>live\<close> is that user.
\<close>

subsection \<open>Messages\<close>

definition employeeTexts :: "(string \<times> string) list" where
  "employeeTexts =
    [(''Email is already in use'', sr ''Email adresa je ve~q zauzeta.''),
     (''Employee not found'', sr ''Zaposleni nije prona~den.''),
     (''User not found'', sr ''Nalog nije prona~den.''),
     (''Employee is inactive'', ''Nalog zaposlenog je neaktivan.''),
     (''Location access changed; refresh before saving'', sr ''Dodela lokacije je promenjena. Pregledajte osve~zene podatke pre nove potvrde.''),
     (''User management is not permitted'', ''Nemate dozvolu za upravljanje zaposlenima.''),
     (''You cannot deactivate your own account'', sr ''Sopstveni nalog ne mo~zete deaktivirati.''),
     (''The requested user cannot be deactivated'', ''Nemate dozvolu za deaktivaciju ovog naloga.''),
     (''User is not active'', ''Nalog nije aktivan.''),
     (''Access is denied'', ''Nemate dozvolu za ovu akciju.''),
     (''Authentication is required'', ''Potrebno je da se ponovo prijavite.'')]"

definition employeeError :: "string + cause \<Rightarrow> string \<Rightarrow> string" where
  \<comment> \<open>the left side is a text, or the message of an \<open>Error\<close> that is no axios error\<close>
  "employeeError e fallback = replace_texts employeeTexts (case e of Inl m \<Rightarrow> m | Inr c \<Rightarrow> apiErrorMessage c fallback)"

definition userTexts :: "(string \<times> string) list" where
  "userTexts =
    [(''upravljanje zaposlenima'', ''upravljanje korisnicima''),
     (''Email is already used by an active account'', sr ''Email adresu ve~q koristi drugi nalog. Vra~qanje nije mogu~qe.''),
     (''Deleted user not found'', sr ''Obrisani nalog nije prona~den.''),
     (''Deleted user access is not permitted'', ''Nemate dozvolu za pregled obrisanih naloga.''),
     (''The requested role cannot be created'', ''Nemate dozvolu za kreiranje izabrane uloge.'')]"

definition userError :: "string + cause \<Rightarrow> string \<Rightarrow> string" where
  "userError e fallback = replace_texts userTexts (employeeError e fallback)"

definition profileTexts :: "(string \<times> string) list" where
  "profileTexts =
    [(''Current password is incorrect'', ''Trenutna lozinka nije ispravna.''),
     (''New password must differ from the current password'', ''Nova lozinka mora da se razlikuje od trenutne.''),
     (''Document must be non-empty and within the configured size limit'', sr ''Slika mora da sadr~zi podatke i da bude u okviru maksimalne veli~cine koju dozvoljava server.''),
     (''Unsupported document format'', sr ''Format slike nije podr~zan. Izaberite PNG ili JPEG.''),
     (''File content does not match its MIME type'', sr ''Sadr~zaj slike ne odgovara izabranom formatu.''),
     (''Document quota exceeded'', sr ''Dostignut je dozvoljeni broj dokumenata za ovaj nalog.''),
     (''Access is denied'', ''Nemate dozvolu za ovu izmenu.''),
     (''User not found'', sr ''Korisni~cki nalog nije dostupan.'')]"

definition profileError :: "cause \<Rightarrow> string \<Rightarrow> string" where
  "profileError e fallback = replace_texts profileTexts (apiErrorMessage e fallback)"

subsection \<open>Who may act on whom\<close>

definition canControlUser :: "auth_user \<Rightarrow> user_response \<Rightarrow> bool" where
  "canControlUser actor target \<longleftrightarrow> user_id actor \<noteq> ur_id target
     \<and> (if user_role actor = OWNER then ur_role target \<noteq> OWNER else user_role actor = ADMIN \<and> ur_role target = EMPLOYEE)"

definition is_deleted :: "user_response \<Rightarrow> bool" where
  "is_deleted target \<longleftrightarrow> truthy (ur_deletedAt target)"

datatype user_action = Deactivate | Remove | Restore

fun allowedUserAction :: "auth_user \<Rightarrow> user_response \<Rightarrow> user_action \<Rightarrow> bool" where
  \<comment> \<open>the three flags of \<open>allowedUserActions\<close>\<close>
  "allowedUserAction actor target Deactivate \<longleftrightarrow> canControlUser actor target \<and> \<not> is_deleted target \<and> ur_active target
     \<and> hasCapability (Some actor) USER_DEACTIVATE"
| "allowedUserAction actor target Remove \<longleftrightarrow> canControlUser actor target \<and> \<not> is_deleted target \<and> hasCapability (Some actor) USER_DELETE"
| "allowedUserAction actor target Restore \<longleftrightarrow> canControlUser actor target \<and> is_deleted target \<and> hasCapability (Some actor) USER_RESTORE"

fun action_permission :: "user_action \<Rightarrow> permission" where
  "action_permission Deactivate = USER_DEACTIVATE"
| "action_permission Remove = USER_DELETE"
| "action_permission Restore = USER_RESTORE"

fun action_request :: "user_action \<Rightarrow> user_response \<Rightarrow> string \<Rightarrow> http_request" where
  "action_request Deactivate target reason = userApi_deactivate (ur_id target)"
| "action_request Remove target reason = userApi_remove (ur_id target) reason"
| "action_request Restore target reason = userApi_restore (ur_id target)"

subsection \<open>The list of users\<close>

record user_url =
  uu_page :: string
  uu_size :: string
  uu_active :: string
  uu_deleted :: string
  uu_role :: string
  uu_sort :: string
  uu_direction :: string
  uu_search :: string
  uu_focus :: string

definition users_deleted :: "auth_user \<Rightarrow> user_url \<Rightarrow> bool" where
  "users_deleted actor u \<longleftrightarrow> uu_deleted u = ''true'' \<and> hasCapability (Some actor) USER_RESTORE"

definition users_page :: "(string \<Rightarrow> jsnum) \<Rightarrow> string \<Rightarrow> int" where
  "users_page to_number v = (case to_number v of
     Num r \<Rightarrow> if is_safe_integer (Num r) \<and> 0 \<le> r then \<lfloor>r\<rfloor> else 0 | _ \<Rightarrow> 0)"

definition users_size :: "(string \<Rightarrow> jsnum) \<Rightarrow> string \<Rightarrow> nat" where
  "users_size to_number v = (case find (\<lambda>n. to_number v = Num (of_nat n)) [10, 20, 50, 100] of Some n \<Rightarrow> n | None \<Rightarrow> 10)"

definition users_active :: "string \<Rightarrow> bool option" where
  "users_active v = (if v = ''true'' then Some True else if v = ''false'' then Some False else None)"

definition sort_fields :: "bool \<Rightarrow> string list" where
  "sort_fields deleted = [''name'', ''email'', ''role'', ''active'', ''createdAt''] @ (if deleted then [''deletedAt''] else [])"

definition users_sort :: "bool \<Rightarrow> string \<Rightarrow> string" where
  "users_sort deleted v = (let fs = map trim (split_on CHR '','' v)
     in if length fs \<le> 3 \<and> 0 < length fs \<and> distinct fs \<and> set fs \<subseteq> set (sort_fields deleted)
        then join_with '','' fs else ''createdAt'')"

definition upper_text :: "string \<Rightarrow> string" where
  \<comment> \<open>\<open>toUpperCase\<close> of the ASCII letters\<close>
  "upper_text s = map upper_char s"

definition users_direction :: "string \<Rightarrow> string \<Rightarrow> string" where
  "users_direction sorting v = (let ds = map (upper_text \<circ> trim) (split_on CHR '','' v)
     in if (length ds = 1 \<or> length ds = length (split_on CHR '','' sorting)) \<and> set ds \<subseteq> {''ASC'', ''DESC''}
        then join_with '','' ds else ''DESC'')"

definition eligible_ids :: "auth_user \<Rightarrow> user_response list \<Rightarrow> string list" where
  "eligible_ids actor users = map ur_id (filter (\<lambda>u. allowedUserAction actor u Deactivate) users)"

definition keep_eligible :: "auth_user \<Rightarrow> user_response list \<Rightarrow> string list \<Rightarrow> string list" where
  \<comment> \<open>the selection after the page was read again\<close>
  "keep_eligible actor users selected = filter (\<lambda>i. i \<in> set (eligible_ids actor users)) selected"

definition clamp_page :: "int \<Rightarrow> nat \<Rightarrow> int option" where
  \<comment> \<open>the page to go to instead\<close>
  "clamp_page page totalPages = (if int (max 1 totalPages) \<le> page then Some (max 0 (int totalPages - 1)) else None)"

record user_workspace =
  uw_selected :: "string list"
  uw_busy :: string
  uw_inFlight :: bool
  uw_mounted :: bool
  uw_bulk :: "bulk_operation_response option"

definition still_current :: "auth_user \<Rightarrow> auth_user option \<Rightarrow> permission \<Rightarrow> user_workspace \<Rightarrow> bool" where
  "still_current actor live p w \<longleftrightarrow> uw_mounted w \<and> (case live of
     Some u \<Rightarrow> user_id u = user_id actor \<and> user_role u = user_role actor \<and> hasCapability live p | None \<Rightarrow> False)"

definition action_asks :: "auth_user \<Rightarrow> user_response \<Rightarrow> user_action \<Rightarrow> user_workspace \<Rightarrow> bool" where
  "action_asks actor target a w \<longleftrightarrow> allowedUserAction actor target a \<and> \<not> uw_inFlight w"

definition action_confirmed ::
  "auth_user \<Rightarrow> auth_user option \<Rightarrow> user_response \<Rightarrow> user_action \<Rightarrow> string \<Rightarrow> user_workspace \<Rightarrow> user_workspace \<times> (string + http_request)" where
  "action_confirmed actor live target a reason w =
     (if uw_inFlight w \<or> \<not> still_current actor live (action_permission a) w
        \<or> \<not> (case live of Some u \<Rightarrow> allowedUserAction u target a | None \<Rightarrow> False)
      then (w, Inl ''Akcija nije dostupna sa trenutnim dozvolama.'')
      else (w\<lparr>uw_inFlight := True, uw_busy := ur_id target\<rparr>, Inr (action_request a target reason)))"

definition workspace_finally :: "user_workspace \<Rightarrow> user_workspace" where
  "workspace_finally w = w\<lparr>uw_inFlight := False, uw_busy := (if uw_mounted w then '''' else uw_busy w)\<rparr>"

definition action_succeeded :: "auth_user \<Rightarrow> auth_user option \<Rightarrow> user_response \<Rightarrow> user_action \<Rightarrow> string \<Rightarrow> user_workspace \<Rightarrow> user_workspace \<times> bool" where
  \<comment> \<open>the flag is whether the details are closed; the list is read again before the \<open>finally\<close>\<close>
  "action_succeeded actor live target a focus w =
     (if \<not> still_current actor live USER_LIST w then (workspace_finally w, False)
      else (w\<lparr>uw_selected := filter (\<lambda>i. i \<noteq> ur_id target) (uw_selected w)\<rparr>, a \<noteq> Deactivate \<and> focus = ur_id target))"

definition bulk_ids :: "auth_user \<Rightarrow> user_response list \<Rightarrow> string list \<Rightarrow> string list" where
  "bulk_ids actor users selected = map ur_id (filter (\<lambda>u. ur_id u \<in> set selected \<and> allowedUserAction actor u Deactivate) users)"

definition bulk_asks :: "auth_user \<Rightarrow> bool \<Rightarrow> string list \<Rightarrow> user_workspace \<Rightarrow> bool" where
  "bulk_asks actor deleted ids w \<longleftrightarrow> hasCapability (Some actor) USER_DEACTIVATE \<and> \<not> deleted \<and> ids \<noteq> [] \<and> \<not> uw_inFlight w"

definition bulk_confirmed ::
  "auth_user \<Rightarrow> auth_user option \<Rightarrow> user_response list \<Rightarrow> string list \<Rightarrow> user_workspace \<Rightarrow> user_workspace \<times> (string + http_request)" where
  "bulk_confirmed actor live users ids w =
     (if uw_inFlight w \<or> \<not> still_current actor live USER_DEACTIVATE w \<or> live = None
        \<or> list_ex (\<lambda>i. case find (\<lambda>u. ur_id u = i) users of None \<Rightarrow> True | Some t \<Rightarrow> \<not> allowedUserAction (the live) t Deactivate) ids
      then (w, Inl (sr ''Izbor sadr~zi naloge nad kojima akcija vi~se nije dostupna.''))
      else (w\<lparr>uw_inFlight := True, uw_busy := ''bulk''\<rparr>, Inr (userApi_bulkDeactivate ids)))"

definition bulk_succeeded :: "auth_user \<Rightarrow> auth_user option \<Rightarrow> bulk_operation_response \<Rightarrow> user_workspace \<Rightarrow> user_workspace" where
  "bulk_succeeded actor live response w =
     (if \<not> still_current actor live USER_LIST w then workspace_finally w
      else w\<lparr>uw_bulk := Some response, uw_selected := []\<rparr>)"

definition action_failed :: "auth_user \<Rightarrow> auth_user option \<Rightarrow> user_workspace \<Rightarrow> user_workspace \<times> bool" where
  \<comment> \<open>the flag is whether the list is read again before the \<open>finally\<close>\<close>
  "action_failed actor live w =
     (if still_current actor live USER_LIST w then (w, True) else (workspace_finally w, False))"

subsection \<open>Employees\<close>

record employee_url =
  eu_page :: string
  eu_size :: string
  eu_active :: string
  eu_search :: string
  eu_sort :: string
  eu_direction :: string
  eu_focus :: string

definition employees_sort :: "string \<Rightarrow> string" where
  "employees_sort v = (if List.member [''name'', ''email'', ''createdAt'', ''active'', ''role''] v then v else ''createdAt'')"

definition employees_direction :: "string \<Rightarrow> string" where
  "employees_direction v = (if v = ''ASC'' then ''ASC'' else ''DESC'')"

definition search_text :: "string \<Rightarrow> string option" where
  "search_text v = (if trim v = '''' then None else Some (trim v))"

definition employee_filters :: "employee_url \<Rightarrow> user_filters" where
  "employee_filters u = \<lparr>uf_role = Some ''EMPLOYEE'', uf_active = users_active (eu_active u), uf_search = search_text (eu_search u),
     uf_sort = Some (employees_sort (eu_sort u)), uf_direction = Some (employees_direction (eu_direction u))\<rparr>"

definition page_filters :: "auth_user \<Rightarrow> user_url \<Rightarrow> user_filters" where
  "page_filters actor u = (let sorting = users_sort (users_deleted actor u) (uu_sort u)
     in \<lparr>uf_role = (if List.member [''OWNER'', ''ADMIN'', ''EMPLOYEE'', ''CUSTOMER''] (uu_role u) then Some (uu_role u) else None),
         uf_active = users_active (uu_active u), uf_search = search_text (uu_search u),
         uf_sort = Some sorting, uf_direction = Some (users_direction sorting (uu_direction u))\<rparr>)"

definition employee_eligible :: "auth_user \<Rightarrow> user_response \<Rightarrow> bool" where
  "employee_eligible actor u \<longleftrightarrow> ur_active u \<and> ur_id u \<noteq> user_id actor \<and> ur_role u = EMPLOYEE"

definition employee_current :: "auth_user \<Rightarrow> auth_user option \<Rightarrow> permission \<Rightarrow> bool \<Rightarrow> bool" where
  "employee_current actor live p mounted \<longleftrightarrow> mounted
     \<and> (case live of Some u \<Rightarrow> user_id u = user_id actor \<and> hasCapability live p | None \<Rightarrow> False)"

record employee_workspace =
  ew_selected :: "string list"
  ew_busy :: string
  ew_inFlight :: bool
  ew_mounted :: bool
  ew_bulk :: "bulk_operation_response option"
  ew_created :: "user_response option"

definition deactivate_asks :: "auth_user \<Rightarrow> user_response \<Rightarrow> employee_workspace \<Rightarrow> bool" where
  "deactivate_asks actor e w \<longleftrightarrow> hasCapability (Some actor) USER_DEACTIVATE \<and> ur_active e \<and> ur_id e \<noteq> user_id actor \<and> \<not> ew_inFlight w"

definition employee_remove_asks :: "auth_user \<Rightarrow> user_response \<Rightarrow> employee_workspace \<Rightarrow> bool" where
  "employee_remove_asks actor e w \<longleftrightarrow> hasCapability (Some actor) USER_DELETE \<and> ur_id e \<noteq> user_id actor \<and> \<not> ew_inFlight w"

definition employee_bulk_ids :: "auth_user \<Rightarrow> user_response list \<Rightarrow> string list \<Rightarrow> string list" where
  "employee_bulk_ids actor es selected = map ur_id (filter (\<lambda>u. ur_id u \<in> set selected \<and> employee_eligible actor u) es)"

definition deactivate_confirmed ::
  "auth_user \<Rightarrow> auth_user option \<Rightarrow> user_response \<Rightarrow> employee_workspace \<Rightarrow> employee_workspace \<times> (string + http_request)" where
  "deactivate_confirmed actor live e w =
     (if ew_inFlight w \<or> \<not> employee_current actor live USER_DEACTIVATE (ew_mounted w)
      then (w, Inl ''Deaktivacija nije dostupna sa trenutnim dozvolama.'')
      else (w\<lparr>ew_inFlight := True, ew_busy := ur_id e\<rparr>, Inr (userApi_deactivate (ur_id e))))"

definition employee_remove_confirmed ::
  "auth_user \<Rightarrow> auth_user option \<Rightarrow> user_response \<Rightarrow> string \<Rightarrow> employee_workspace \<Rightarrow> employee_workspace \<times> (string + http_request)" where
  "employee_remove_confirmed actor live e reason w =
     (if ew_inFlight w \<or> \<not> employee_current actor live USER_DELETE (ew_mounted w)
      then (w, Inl ''Brisanje nije dostupno sa trenutnim dozvolama.'')
      else (w\<lparr>ew_inFlight := True, ew_busy := ur_id e\<rparr>, Inr (userApi_remove (ur_id e) reason)))"

definition employee_bulk_confirmed ::
  "auth_user \<Rightarrow> auth_user option \<Rightarrow> string list \<Rightarrow> employee_workspace \<Rightarrow> employee_workspace \<times> (string + http_request)" where
  "employee_bulk_confirmed actor live ids w =
     (if ew_inFlight w \<or> \<not> employee_current actor live USER_DEACTIVATE (ew_mounted w)
      then (w, Inl ''Grupna deaktivacija nije dostupna sa trenutnim dozvolama.'')
      else (w\<lparr>ew_inFlight := True, ew_busy := ''bulk''\<rparr>, Inr (userApi_bulkDeactivate ids)))"

definition employee_finally :: "employee_workspace \<Rightarrow> employee_workspace" where
  "employee_finally w = w\<lparr>ew_inFlight := False, ew_busy := (if ew_mounted w then '''' else ew_busy w)\<rparr>"

definition forget_created :: "(string \<Rightarrow> bool) \<Rightarrow> employee_workspace \<Rightarrow> employee_workspace" where
  "forget_created gone w = (case ew_created w of
     Some c \<Rightarrow> if gone (ur_id c) then w\<lparr>ew_created := None\<rparr> else w | None \<Rightarrow> w)"

definition deactivate_succeeded :: "auth_user \<Rightarrow> auth_user option \<Rightarrow> user_response \<Rightarrow> employee_workspace \<Rightarrow> employee_workspace" where
  "deactivate_succeeded actor live e w =
     (if \<not> employee_current actor live USER_LIST (ew_mounted w) then employee_finally w
      else forget_created (\<lambda>i. i = ur_id e) w)"

definition employee_removed :: "auth_user \<Rightarrow> auth_user option \<Rightarrow> user_response \<Rightarrow> string \<Rightarrow> employee_workspace \<Rightarrow> employee_workspace \<times> bool" where
  \<comment> \<open>the flag is whether the profile is closed\<close>
  "employee_removed actor live e focus w =
     (if \<not> employee_current actor live USER_LIST (ew_mounted w) then (employee_finally w, False)
      else (let w = forget_created (\<lambda>i. i = ur_id e) w
            in (w\<lparr>ew_selected := filter (\<lambda>i. i \<noteq> ur_id e) (ew_selected w)\<rparr>, focus = ur_id e)))"

definition employee_bulk_succeeded ::
  "auth_user \<Rightarrow> auth_user option \<Rightarrow> string list \<Rightarrow> bulk_operation_response \<Rightarrow> employee_workspace \<Rightarrow> employee_workspace" where
  "employee_bulk_succeeded actor live ids response w =
     (if \<not> employee_current actor live USER_LIST (ew_mounted w) then employee_finally w
      else forget_created (\<lambda>i. i \<in> set ids) (w\<lparr>ew_bulk := Some response, ew_selected := []\<rparr>))"

subsection \<open>The profile\<close>

definition nameError :: "string \<Rightarrow> string" where
  "nameError name = (let v = trim name in
     if v = '''' then ''Unesite ime i prezime.''
     else if js_length v < 2 then ''Ime mora imati najmanje 2 karaktera.''
     else if 120 < js_length v then sr ''Ime mo~ze imati najvi~se 120 karaktera.'' else '''')"

record password_fields =
  pf_current :: string
  pf_next :: string
  pf_confirmation :: string

definition passwordErrors :: "string \<Rightarrow> string \<Rightarrow> string \<Rightarrow> password_fields" where
  "passwordErrors current new confirmation = \<lparr>
     pf_current = (if trim current = '''' then ''Unesite trenutnu lozinku.'' else ''''),
     pf_next = (if trim new = '''' then ''Unesite novu lozinku.''
       else if js_length new < 8 then ''Nova lozinka mora imati najmanje 8 karaktera.''
       else if 100 < js_length new then sr ''Nova lozinka mo~ze imati najvi~se 100 karaktera.''
       else if current \<noteq> '''' \<and> new = current then ''Nova lozinka mora da se razlikuje od trenutne.'' else ''''),
     pf_confirmation = (if confirmation = '''' then ''Potvrdite novu lozinku.''
       else if confirmation \<noteq> new then ''Lozinke se ne poklapaju.'' else '''')\<rparr>"

definition repeats :: "string \<Rightarrow> bool" where
  \<comment> \<open>\<open>/^(.)\1+$/\<close>: one UTF-16 unit that is no line terminator, twice or more\<close>
  "repeats s \<longleftrightarrow> list_ex (\<lambda>k. let p = take k s in js_length p = 1 \<and> js_length s \<noteq> 1
     \<and> length s mod k = 0 \<and> s = concat (replicate (length s div k) p)
     \<and> p \<notin> {[char_of (10::nat)], [char_of (13::nat)], map char_of [226, 128, 168 :: nat], map char_of [226, 128, 169 :: nat]}) [1, 2, 3]"

definition common_start :: "string \<Rightarrow> bool" where
  "common_start s \<longleftrightarrow> list_ex (\<lambda>p. starts_with p (to_lower s))
     [''password'', ''lozinka'', ''qwerty'', ''123456'', ''abcdefgh'']"

record password_strength =
  ps_level :: nat
  ps_label :: string
  ps_tone :: string

record char_classes =
  \<comment> \<open>whether a text has a \<open>\p{Ll}\<close>, a \<open>\p{Lu}\<close>, a \<open>\p{N}\<close>, or a character of none of letters, numbers, space\<close>
  cc_lower :: "string \<Rightarrow> bool"
  cc_upper :: "string \<Rightarrow> bool"
  cc_number :: "string \<Rightarrow> bool"
  cc_other :: "string \<Rightarrow> bool"

definition variety :: "char_classes \<Rightarrow> string \<Rightarrow> nat" where
  "variety cc s = of_bool (cc_lower cc s) + of_bool (cc_upper cc s) + of_bool (cc_number cc s) + of_bool (cc_other cc s)"

definition passwordStrength :: "char_classes \<Rightarrow> string \<Rightarrow> password_strength" where
  "passwordStrength cc password = (let n = js_length password; v = variety cc password in
     if password = '''' then \<lparr>ps_level = 0, ps_label = sr ''Ja~cina lozinke'', ps_tone = ''empty''\<rparr>
     else if n < 8 \<or> repeats password \<or> common_start password then \<lparr>ps_level = 1, ps_label = ''Slaba'', ps_tone = ''weak''\<rparr>
     else if 16 \<le> n \<and> 2 \<le> v \<or> 12 \<le> n \<and> 3 \<le> v then \<lparr>ps_level = 4, ps_label = ''Jaka'', ps_tone = ''strong''\<rparr>
     else if 12 \<le> n \<or> 10 \<le> n \<and> 2 \<le> v then \<lparr>ps_level = 3, ps_label = ''Dobra'', ps_tone = ''good''\<rparr>
     else \<lparr>ps_level = 2, ps_label = ''Osrednja'', ps_tone = ''fair''\<rparr>)"

record password_card =
  pc_fields :: password_fields
  pc_visible :: "bool \<times> bool \<times> bool"
  pc_touched :: "bool \<times> bool \<times> bool"
  pc_busy :: bool
  pc_error :: string
  pc_inFlight :: bool
  pc_mounted :: bool

definition password_card_errors :: "password_card \<Rightarrow> password_fields" where
  "password_card_errors c = passwordErrors (pf_current (pc_fields c)) (pf_next (pc_fields c)) (pf_confirmation (pc_fields c))"

definition password_valid :: "password_card \<Rightarrow> bool" where
  "password_valid c \<longleftrightarrow> password_card_errors c = \<lparr>pf_current = '''', pf_next = '''', pf_confirmation = ''''\<rparr>"

definition password_dirty :: "password_card \<Rightarrow> bool" where
  "password_dirty c \<longleftrightarrow> pf_current (pc_fields c) \<noteq> '''' \<or> pf_next (pc_fields c) \<noteq> '''' \<or> pf_confirmation (pc_fields c) \<noteq> ''''"

definition password_clear :: "password_card \<Rightarrow> password_card" where
  "password_clear c = c\<lparr>pc_fields := \<lparr>pf_current = '''', pf_next = '''', pf_confirmation = ''''\<rparr>,
     pc_touched := (False, False, False), pc_visible := (False, False, False)\<rparr>"

definition password_submit :: "bool \<Rightarrow> password_card \<Rightarrow> password_card \<times> http_request option" where
  "password_submit canUpdate c = (let t = c\<lparr>pc_touched := (True, True, True)\<rparr> in
     if \<not> canUpdate \<or> pc_inFlight c \<or> \<not> password_valid c then (t, None)
     else (t\<lparr>pc_inFlight := True, pc_busy := True, pc_error := ''''\<rparr>,
           Some (userApi_changePassword (pf_current (pc_fields c)) (pf_next (pc_fields c)))))"

definition password_finally :: "password_card \<Rightarrow> password_card" where
  "password_finally c = c\<lparr>pc_inFlight := False, pc_busy := (if pc_mounted c then False else pc_busy c)\<rparr>"

definition password_changed :: "password_card \<Rightarrow> password_card \<times> bool" where
  \<comment> \<open>the flag is whether \<open>onChanged\<close> runs\<close>
  "password_changed c = (password_finally (if pc_mounted c then password_clear c else c), pc_mounted c)"

definition password_failed :: "cause \<Rightarrow> password_card \<Rightarrow> password_card" where
  "password_failed e c = password_finally (if \<not> pc_mounted c then c
     else (password_clear c)\<lparr>pc_error :=
       (if is_axios e \<and> cause_response e = None
        then sr ''Nije mogu~qe potvrditi ishod promene lozinke. Proverite pristup nalogu pre ponovnog poku~saja.''
        else profileError e (sr ''Lozinku nije mogu~qe promeniti.''))\<rparr>)"

record name_card =
  nc_name :: string
  nc_previous :: string
  nc_touched :: bool
  nc_busy :: bool
  nc_error :: string
  nc_inFlight :: bool
  nc_mounted :: bool

definition name_dirty :: "string \<Rightarrow> name_card \<Rightarrow> bool" where
  "name_dirty current c \<longleftrightarrow> trim (nc_name c) \<noteq> trim current"

definition name_changed_outside :: "string \<Rightarrow> name_card \<Rightarrow> name_card" where
  \<comment> \<open>the effect that runs when the profile's name is \<open>current\<close> now\<close>
  "name_changed_outside current c =
     c\<lparr>nc_name := (if trim (nc_name c) = trim (nc_previous c) then current else nc_name c), nc_previous := current\<rparr>"

definition name_submit :: "bool \<Rightarrow> string \<Rightarrow> name_card \<Rightarrow> name_card \<times> http_request option" where
  "name_submit canUpdate current c = (let t = c\<lparr>nc_touched := True\<rparr> in
     if \<not> canUpdate \<or> \<not> name_dirty current c \<or> nc_inFlight c \<or> nameError (nc_name c) \<noteq> '''' then (t, None)
     else (t\<lparr>nc_inFlight := True, nc_busy := True, nc_error := ''''\<rparr>, Some (userApi_updateMe (trim (nc_name c)))))"

definition name_finally :: "name_card \<Rightarrow> name_card" where
  "name_finally c = c\<lparr>nc_inFlight := False, nc_busy := (if nc_mounted c then False else nc_busy c)\<rparr>"

definition name_saved :: "user_response \<Rightarrow> name_card \<Rightarrow> name_card" where
  "name_saved u c = name_finally (if nc_mounted c then c\<lparr>nc_name := ur_name u, nc_touched := False\<rparr> else c)"

definition name_failed :: "cause \<Rightarrow> name_card \<Rightarrow> name_card" where
  "name_failed e c = name_finally (if nc_mounted c
     then c\<lparr>nc_error := profileError e (sr ''Li~cne podatke nije mogu~qe sa~cuvati.'')\<rparr> else c)"

record avatar_editor =
  av_file :: "(string \<times> nat) option" \<comment> \<open>the MIME type and size of the chosen file\<close>
  av_previewReady :: bool
  av_busy :: bool
  av_error :: string
  av_inFlight :: bool
  av_mounted :: bool

definition avatar_choose :: "bool \<Rightarrow> (string \<times> nat) option \<Rightarrow> avatar_editor \<Rightarrow> avatar_editor" where
  "avatar_choose canUpdate new a = (case new of None \<Rightarrow> a
   | Some (mime, bytes) \<Rightarrow>
       if \<not> canUpdate \<or> av_inFlight a then a
       else if \<not> List.member [''image/png'', ''image/jpeg''] mime then a\<lparr>av_error := ''Izaberite PNG ili JPEG sliku.''\<rparr>
       else if bytes = 0 then a\<lparr>av_error := ''Izabrana slika je prazna.''\<rparr>
       else a\<lparr>av_error := '''', av_previewReady := False, av_file := new\<rparr>)"

definition avatar_close :: "avatar_editor \<Rightarrow> avatar_editor" where
  "avatar_close a = (if av_inFlight a then a else a\<lparr>av_file := None, av_error := ''''\<rparr>)"

definition avatar_upload :: "bool \<Rightarrow> json \<Rightarrow> avatar_editor \<Rightarrow> avatar_editor \<times> http_request option" where
  "avatar_upload canUpdate contents a =
     (if \<not> canUpdate \<or> av_file a = None \<or> \<not> av_previewReady a \<or> av_inFlight a then (a, None)
      else (a\<lparr>av_inFlight := True, av_busy := True, av_error := ''''\<rparr>, Some (userApi_uploadAvatar contents)))"

definition avatar_finally :: "avatar_editor \<Rightarrow> avatar_editor" where
  "avatar_finally a = a\<lparr>av_inFlight := False, av_busy := (if av_mounted a then False else av_busy a)\<rparr>"

definition avatar_saved :: "avatar_editor \<Rightarrow> avatar_editor" where
  "avatar_saved a = avatar_finally (if av_mounted a then a\<lparr>av_file := None\<rparr> else a)"

definition avatar_failed :: "cause \<Rightarrow> avatar_editor \<Rightarrow> avatar_editor" where
  "avatar_failed e a = avatar_finally (if av_mounted a
     then a\<lparr>av_error := profileError e (sr ''Otpremanje avatara nije potvr~deno. Poku~sajte ponovo kada proverite prikaz svog naloga.'')\<rparr>
     else a)"

subsection \<open>Signing in\<close>

record login_page =
  lp_submitting :: bool
  lp_error :: "string option"
  lp_fieldErrors :: "(string \<times> string) list"

definition login_submit :: "(string \<Rightarrow> bool) \<Rightarrow> login_request \<Rightarrow> login_page \<Rightarrow> login_page \<times> http_request option" where
  "login_submit is_email r p =
     (if lp_submitting p then (p, None)
      else case loginSchema is_email r of
        None \<Rightarrow> (p, None)
      | Some v \<Rightarrow> (p\<lparr>lp_submitting := True, lp_error := None, lp_fieldErrors := []\<rparr>, Some (authApi_login v)))"

definition login_address :: "string option \<Rightarrow> auth_user \<Rightarrow> flags \<Rightarrow> string" where
  "login_address from_page user fl = (case from_page of
     Some f \<Rightarrow> if starts_with ''/'' f \<and> \<not> starts_with ''//'' f \<and> \<not> starts_with ''/login'' f \<and> f \<noteq> ''/'' then f
               else homeForUser user fl
   | None \<Rightarrow> homeForUser user fl)"

definition login_answered ::
  "auth_response \<Rightarrow> auth_state \<Rightarrow> auth_state \<times> auth_effect list" where
  "login_answered r st = setSession (resp_token r) (resp_user r) st"

definition login_bootstrapped ::
  "feature_flag_state list option \<Rightarrow> string option \<Rightarrow> auth_response \<Rightarrow> feature_store \<Rightarrow> login_page \<Rightarrow> feature_store \<times> login_page \<times> string" where
  \<comment> \<open>None: the bootstrap request failed; the last component is the address\<close>
  "login_bootstrapped values from_page r fs p =
     (let fs' = (case values of Some vs \<Rightarrow> feature_apply vs fs | None \<Rightarrow> feature_reset fs)
      in (fs', p\<lparr>lp_submitting := False\<rparr>, login_address from_page (resp_user r) (store_flags fs')))"

definition login_failed :: "cause \<Rightarrow> login_page \<Rightarrow> login_page" where
  "login_failed e p = p\<lparr>lp_submitting := False, lp_fieldErrors := fst (snd (applyApiFieldErrors e)),
     lp_error := Some (apiErrorMessage e ''Prijava trenutno nije dostupna.'')\<rparr>"

definition activation_input :: "string \<Rightarrow> string" where
  \<comment> \<open>what the field of the code keeps of what is typed\<close>
  "activation_input v = take 4 (map upper_char (filter is_alnum v))"

definition activation_submit ::
  "(string \<Rightarrow> bool) \<Rightarrow> activate_customer_request \<Rightarrow> string \<Rightarrow> login_page \<Rightarrow> login_page \<times> http_request option" where
  "activation_submit is_email r confirmPassword p =
     (if lp_submitting p then (p, None)
      else case activationFormSchema is_email r confirmPassword of
        None \<Rightarrow> (p, None)
      | Some v \<Rightarrow> (p\<lparr>lp_submitting := True, lp_error := None, lp_fieldErrors := []\<rparr>,
                   Some (authApi_activate (v\<lparr>act_email := trim (act_email v)\<rparr>))))"

definition activation_failed :: "cause \<Rightarrow> login_page \<Rightarrow> login_page" where
  "activation_failed e p = p\<lparr>lp_submitting := False, lp_fieldErrors := fst (snd (applyApiFieldErrors e)),
     lp_error := Some (apiErrorMessage e ''Aktivacija trenutno nije dostupna.'')\<rparr>"

subsection \<open>What the pages guarantee\<close>

lemma action_request_sent:
  "snd (action_confirmed actor live target a reason w) = Inr q \<longleftrightarrow>
     \<not> uw_inFlight w \<and> still_current actor live (action_permission a) w
     \<and> (\<exists>u. live = Some u \<and> allowedUserAction u target a) \<and> q = action_request a target reason"
  by (auto simp: action_confirmed_def split: option.splits)

lemma allowed_control: "allowedUserAction u target a \<Longrightarrow> canControlUser u target"
  by (cases a) auto

lemma homes: "homeForRole r \<in> {''/home'', ''/dashboard''}"
  by (simp add: homeForRole_def)

fun all_addresses :: "nav_item list \<Rightarrow> string list" where
  "all_addresses [] = []"
| "all_addresses (NavItem l t c f d ch # vs) = t # (case ch of None \<Rightarrow> [] | Some cs \<Rightarrow> all_addresses cs) @ all_addresses vs"

definition inside :: "string \<Rightarrow> bool" where
  "inside a \<longleftrightarrow> starts_with ''/'' a \<and> \<not> starts_with ''//'' a \<and> \<not> starts_with ''/login'' a"

lemma permitted_addresses:
  "x \<in> set (permittedItems u fl items) \<Longrightarrow> nav_to x \<in> set (all_addresses items)"
proof (induction u fl items arbitrary: x rule: permittedItems.induct)
  case (2 user fl l t c f d ch vs)
  then show ?case
    by (cases ch; cases "permittedItems user fl (the ch)") (auto split: if_splits)
qed simp

lemma inside_addresses:
  "list_all inside (all_addresses (primaryItems u))"
  "list_all inside (all_addresses (toolItems @ managementItems @ equipmentItems))"
  by (simp_all add: primaryItems_def customer_def employee_def management_def toolItems_def managementItems_def
      equipmentItems_def item_def described_def flagged_def with_to_def inside_def starts_with_def)

lemma home_inside: "inside (homeForUser u fl)"
proof -
  have p: "inside (nav_to x)" if "x \<in> set (permittedItems u fl (primaryItems u))" for x
    using permitted_addresses [OF that] inside_addresses(1) [of u] by (auto simp: list_all_iff)
  have h: "inside (nav_to x)" if "x \<in> set (permittedItems u fl (toolItems @ managementItems @ equipmentItems))" for x
    using permitted_addresses [OF that] inside_addresses(2) by (auto simp: list_all_iff)
  have m: "inside (nav_to x)" if "x \<in> set (concat (map snd (navigationFor u fl)))" for x
  proof -
    from that have "x \<in> set (navigationItems u fl)" by (auto simp: navigationFor_def Let_def split: if_splits)
    then have "x \<in> set (permittedItems u fl (primaryItems u))" by (simp add: navigationItems_def)
    then show ?thesis by (rule p)
  qed
  have i: "inside ''/dashboard''" "inside ''/profile''" "inside ''/unauthorized''"
    by (simp_all add: inside_def starts_with_def)
  have f: "inside (nav_to x)" if "find P (concat (map snd (navigationFor u fl))) = Some x" for P x
    using that by (intro m) (metis find_Some_iff nth_mem)
  show ?thesis unfolding homeForUser_def Let_def
  proof (rule first_choice)
    show "inside (nav_to v)" if "concat (map snd (navigationFor u fl)) = v # vs" for v vs
      by (rule m) (simp only: that list.set_intros)
    show "inside (nav_to v)"
      if "permittedItems u fl (toolItems @ managementItems @ equipmentItems) = v # vs" for v vs
      by (rule h) (simp only: that list.set_intros)
  qed (rule f i, assumption?)+
qed

lemma guarded_inside:
  "list_all (\<lambda>r. case snd r of Guarded ps \<Rightarrow> (\<forall>rest. inside (fst r @ rest) \<and> fst r @ rest \<noteq> ''/'') | Public \<Rightarrow> True) AppRoutes"
  by (simp add: AppRoutes_def inside_def starts_with_def)

lemma inside_path: "inside a \<Longrightarrow> path_of a \<noteq> ''/login''"
proof
  assume "inside a" "path_of a = ''/login''"
  then have "a = ''/login'' @ dropWhile (\<lambda>c. c \<noteq> CHR ''?'') a" by (metis path_of_def takeWhile_dropWhile_id)
  then have "starts_with ''/login'' a" by (metis starts_with_def length_append append_eq_conv_conj)
  with \<open>inside a\<close> show False by (simp add: inside_def)
qed

subsection \<open>Properties\<close>

text \<open>
  Property C30: a confirmed action on an account sends a request only for another account: the live
  user may be an owner, and the target is then no owner, or an administrator, and the target is then
  an employee; the live user has the capability of the action, is still the user who opened the page,
  and no other action runs.
\<close>

theorem account_actions_respect_roles:
  assumes "action_confirmed actor (Some live) target a reason w = (w', Inr q)"
  shows "user_id live \<noteq> ur_id target \<and> user_id live = user_id actor \<and> \<not> uw_inFlight w \<and> uw_inFlight w'
    \<and> hasCapability (Some live) (action_permission a)
    \<and> (user_role live, ur_role target) \<in> {OWNER} \<times> {ADMIN, EMPLOYEE, CUSTOMER} \<union> {(ADMIN, EMPLOYEE)}"
proof -
  have "snd (action_confirmed actor (Some live) target a reason w) = Inr q" by (simp add: assms)
  then have s: "\<not> uw_inFlight w" "still_current actor (Some live) (action_permission a) w"
    "allowedUserAction live target a" unfolding action_request_sent by auto
  moreover have "uw_inFlight w'" using assms by (auto simp: action_confirmed_def split: if_splits option.splits)
  moreover have "ur_role target \<in> {OWNER, ADMIN, EMPLOYEE, CUSTOMER}" by (cases "ur_role target") auto
  ultimately show ?thesis
    using allowed_control [OF s(3)] by (auto simp: still_current_def canControlUser_def split: if_splits)
qed

definition sample_target :: user_response where
  "sample_target = \<lparr>ur_id = ''t'', ur_name = ''Ana'', ur_email = ''a@b.rs'', ur_role = EMPLOYEE, ur_active = True,
     ur_avatarUrl = None, ur_createdAt = '''', ur_updatedAt = '''', ur_version = 0, ur_permissions = [],
     ur_deletedAt = None, ur_deletedBy = None, ur_deletionReason = None\<rparr>"

definition sample_admin :: auth_user where
  "sample_admin = \<lparr>user_id = ''a'', user_name = ''Admin'', user_email = ''x@b.rs'', user_role = ADMIN, user_active = True,
     user_avatarUrl = None, user_permissions = Some [USER_LIST, USER_DEACTIVATE]\<rparr>"

definition sample_workspace :: user_workspace where
  "sample_workspace = \<lparr>uw_selected = [], uw_busy = '''', uw_inFlight = False, uw_mounted = True, uw_bulk = None\<rparr>"

lemmas account_samples = sample_target_def sample_admin_def sample_workspace_def

theorem account_actions_respect_roles_witness:
  "user_id sample_admin \<noteq> ur_id sample_target \<and> user_id sample_admin = user_id sample_admin
    \<and> \<not> uw_inFlight sample_workspace \<and> uw_inFlight (sample_workspace\<lparr>uw_inFlight := True, uw_busy := ''t''\<rparr>)
    \<and> hasCapability (Some sample_admin) (action_permission Deactivate)
    \<and> (user_role sample_admin, ur_role sample_target) \<in> {OWNER} \<times> {ADMIN, EMPLOYEE, CUSTOMER} \<union> {(ADMIN, EMPLOYEE)}"
  by (rule account_actions_respect_roles [where q = "userApi_deactivate ''t''" and reason = "''''"])
    (simp add: account_samples action_confirmed_def still_current_def hasCapability_def grants_def canControlUser_def is_deleted_def truthy_def)



lemma password_request_is_valid:
  "snd (password_submit ok c) = Some q \<Longrightarrow> ok \<and> \<not> pc_inFlight c
     \<and> 8 \<le> js_length (pf_next (pc_fields c)) \<and> js_length (pf_next (pc_fields c)) \<le> 100
     \<and> pf_next (pc_fields c) \<noteq> pf_current (pc_fields c) \<and> pf_confirmation (pc_fields c) = pf_next (pc_fields c)"
  by (auto simp: password_submit_def password_valid_def password_card_errors_def passwordErrors_def Let_def split: if_splits)

lemma outside_name_keeps_an_edit:
  "name_dirty (nc_previous c) c \<Longrightarrow> nc_name (name_changed_outside current c) = nc_name c"
  by (simp add: name_dirty_def name_changed_outside_def)

end
