(* ===== verification/Dashboard.thy ===== *)
theory Dashboard
  imports Waitlist Gaming ApiErrors Navigation "HOL-Library.Multiset"
begin

section \<open>The dashboards\<close>

text \<open>
  Models \<open>types/dashboard.types.ts\<close>, \<open>api/dashboardApi.ts\<close>, \<open>dashboard/presentation.ts\<close>, the handlers of
  \<open>pages/DashboardPage.tsx\<close>, what \<open>dashboard/EmployeeDashboard.tsx\<close> offers and
  \<open>dashboard/customer/CustomerHomeComponents.model.ts\<close>. \<open>platform\<close> is the reading and formatting of dates;
  \<open>collate\<close> stands for \<open>localeCompare(...) <= 0\<close>. The widgets keep their order through every save and move,
  and the customer's activities are the latest ones.
\<close>

subsection \<open>Types\<close>

record dashboard_summary =
  ds_totalRevenueCompleted :: rat
  ds_completedOrdersCount :: nat
  ds_reservationsByStatus :: "reservation_status \<Rightarrow> nat"

record dashboard_appointment =
  da_id :: string
  da_customerName :: string
  da_serviceName :: string
  da_startTime :: string
  da_endTime :: string
  da_status :: reservation_status
  da_version :: int
  da_allowedActions :: "reservation_status list"

record dashboard_today_order =
  dt_id :: string
  dt_status :: order_status
  dt_totalPrice :: rat
  dt_createdAt :: string
  dt_version :: int
  dt_allowedActions :: "order_status list"

datatype attention_priority = AP_LOW | AP_NORMAL | AP_HIGH

record attention_notification =
  an_id :: string
  an_priority :: attention_priority
  an_title :: string
  an_body :: string
  an_createdAt :: string

record dashboard_today =
  td_date :: string
  td_timezone :: string
  td_workingDayStart :: "string option"
  td_workingDayEnd :: "string option"
  td_appointments :: "dashboard_appointment list"
  td_gaps :: "(string \<times> string) list"
  td_unclaimedOrders :: "dashboard_today_order list"
  td_assignedOrders :: "dashboard_today_order list"
  td_attentionNotifications :: "attention_notification list"

record dashboard_metric =
  dm_current :: rat
  dm_previous :: rat
  dm_absoluteChange :: rat
  dm_percentChange :: "rat option"

record dashboard_trend_bucket =
  db_date :: string
  db_completedRevenue :: rat
  db_completedOrders :: nat
  db_reservations :: nat

record dashboard_trends =
  tr_from :: string
  tr_to :: string
  tr_previousFrom :: string
  tr_previousTo :: string
  tr_timezone :: string
  tr_revenue :: dashboard_metric
  tr_completedOrders :: dashboard_metric
  tr_reservations :: dashboard_metric
  tr_reservationsByStatus :: "reservation_status \<Rightarrow> nat"
  tr_buckets :: "dashboard_trend_bucket list"

record dashboard_workload_item =
  wi_employeeId :: string
  wi_employeeName :: string
  wi_reservationCount :: nat
  wi_reservedMinutes :: nat
  wi_capacityMinutes :: nat
  wi_utilizationPercent :: "rat option"

record dashboard_workload =
  dw_from :: string
  dw_to :: string
  dw_timezone :: string
  dw_capacityDefinition :: string
  dw_employees :: "dashboard_workload_item list"

record dashboard_widget_preference =
  wp_widgetKey :: string
  wp_position :: int
  wp_visible :: bool
  wp_threshold :: "jsnum option"

datatype severity = Info | Warning | Critical

record dashboard_attention_item =
  ai_key :: string
  ai_label :: string
  ai_detail :: string
  ai_count :: int
  ai_severity :: severity
  ai_url :: string

record dashboard_attention =
  at_date :: string
  at_timezone :: string
  at_workloadThresholdPercent :: rat
  at_items :: "dashboard_attention_item list"

subsection \<open>Requests\<close>

definition period_params :: "string \<Rightarrow> string \<Rightarrow> (string \<times> json option) list" where
  "period_params from_day to_day = [(''from'', Some (JStr from_day)), (''to'', Some (JStr to_day))]"

definition dashboardApi_attention :: http_request where
  "dashboardApi_attention = api_get ''/dashboard/attention'' []"

definition dashboardApi_summary :: "string \<Rightarrow> string \<Rightarrow> http_request" where
  "dashboardApi_summary from_day to_day = api_get ''/dashboard/summary'' (period_params from_day to_day)"

definition dashboardApi_today :: http_request where
  "dashboardApi_today = api_get ''/dashboard/today'' []"

definition dashboardApi_trends :: "string \<Rightarrow> string \<Rightarrow> http_request" where
  "dashboardApi_trends from_day to_day = api_get ''/dashboard/trends'' (period_params from_day to_day)"

definition dashboardApi_workload :: "string \<Rightarrow> string \<Rightarrow> string option \<Rightarrow> http_request" where
  "dashboardApi_workload from_day to_day employeeId =
     api_get ''/dashboard/workload'' (period_params from_day to_day @ [(''employeeId'', jstr_opt employeeId)])"

definition dashboardApi_preferences :: http_request where
  "dashboardApi_preferences = api_get ''/dashboard/widget-preferences'' []"

definition widget_json :: "dashboard_widget_preference \<Rightarrow> json" where
  "widget_json w = JObj [(''widgetKey'', JStr (wp_widgetKey w)), (''position'', jint (wp_position w)),
     (''visible'', JBool (wp_visible w)), (''threshold'', case wp_threshold w of Some n \<Rightarrow> JNum n | None \<Rightarrow> JNull)]"

definition dashboardApi_savePreferences :: "dashboard_widget_preference list \<Rightarrow> http_request" where
  "dashboardApi_savePreferences items = api_send PUT ''/dashboard/widget-preferences'' (Some (JArr (map widget_json items)))"

datatype export_view = Current_view | Raw_view

definition dashboardApi_export :: "string \<Rightarrow> string \<Rightarrow> export_view \<Rightarrow> string option \<Rightarrow> http_request" where
  "dashboardApi_export from_day to_day view employeeId = api_get ''/dashboard/export'' (period_params from_day to_day
     @ [(''view'', Some (JStr (case view of Current_view \<Rightarrow> ''current'' | Raw_view \<Rightarrow> ''raw''))), (''employeeId'', jstr_opt employeeId)])"

subsection \<open>Widgets\<close>

definition widget_defaults :: "dashboard_widget_preference list" where
  "widget_defaults =
    [\<lparr>wp_widgetKey = ''trends'', wp_position = 0, wp_visible = True, wp_threshold = None\<rparr>,
     \<lparr>wp_widgetKey = ''statuses'', wp_position = 1, wp_visible = True, wp_threshold = None\<rparr>,
     \<lparr>wp_widgetKey = ''workload'', wp_position = 2, wp_visible = True, wp_threshold = Some (Num 80)\<rparr>]"

definition widget_rank :: "string \<Rightarrow> nat" where
  \<comment> \<open>the order of \<open>localeCompare\<close> on the three keys\<close>
  "widget_rank k = (if k = ''statuses'' then 0 else if k = ''trends'' then 1 else 2)"

definition widget_le :: "dashboard_widget_preference \<Rightarrow> dashboard_widget_preference \<Rightarrow> bool" where
  "widget_le a b \<longleftrightarrow> wp_position a < wp_position b
     \<or> wp_position a = wp_position b \<and> widget_rank (wp_widgetKey a) \<le> widget_rank (wp_widgetKey b)"

definition number_positions :: "dashboard_widget_preference list \<Rightarrow> dashboard_widget_preference list" where
  "number_positions xs = map (\<lambda>(i, w). w\<lparr>wp_position := int i\<rparr>) (enumerate 0 xs)"

definition normalizePreferences :: "dashboard_widget_preference list \<Rightarrow> dashboard_widget_preference list" where
  "normalizePreferences items = number_positions (sort_by widget_le
     (map (\<lambda>d. case find (\<lambda>i. wp_widgetKey i = wp_widgetKey d) items of Some i \<Rightarrow> i | None \<Rightarrow> d) widget_defaults))"

definition moveWidget :: "string \<Rightarrow> int \<Rightarrow> dashboard_widget_preference list \<Rightarrow> dashboard_widget_preference list" where
  "moveWidget key direction items = (let ordered = normalizePreferences items
     in case find_index (\<lambda>w. wp_widgetKey w = key) ordered of
       None \<Rightarrow> ordered
     | Some i \<Rightarrow> (let j = int i + direction in
         if j < 0 \<or> int (length ordered) \<le> j then ordered
         else number_positions (ordered[i := ordered ! nat j, nat j := ordered ! i])))"

definition set_visible :: "string \<Rightarrow> bool \<Rightarrow> dashboard_widget_preference list \<Rightarrow> dashboard_widget_preference list" where
  "set_visible key b = map (\<lambda>w. if wp_widgetKey w = key then w\<lparr>wp_visible := b\<rparr> else w)"

definition set_threshold :: "(string \<Rightarrow> jsnum) \<Rightarrow> string \<Rightarrow> string \<Rightarrow> dashboard_widget_preference list \<Rightarrow> dashboard_widget_preference list" where
  "set_threshold to_number key v = map (\<lambda>w. if wp_widgetKey w = key
     then w\<lparr>wp_threshold := (if v = '''' then None else Some (to_number v))\<rparr> else w)"

definition bad_threshold :: "dashboard_widget_preference \<Rightarrow> bool" where
  "bad_threshold w \<longleftrightarrow> (case wp_threshold w of None \<Rightarrow> False
     | Some (Num r) \<Rightarrow> r < 0 \<or> 100 < r | Some _ \<Rightarrow> True)"

definition workloadThreshold :: "dashboard_widget_preference list \<Rightarrow> jsnum" where
  "workloadThreshold ps = (case find (\<lambda>w. wp_widgetKey w = ''workload'') ps of
     Some w \<Rightarrow> (case wp_threshold w of Some t \<Rightarrow> t | None \<Rightarrow> Num 80) | None \<Rightarrow> Num 80)"

definition visibleWidgets :: "dashboard_widget_preference list \<Rightarrow> dashboard_widget_preference list" where
  "visibleWidgets ps = filter wp_visible (normalizePreferences ps)"

subsection \<open>Presentation\<close>

fun orderLabels :: "order_status \<Rightarrow> string" where
  "orderLabels O_CREATED = ''Primljena''"
| "orderLabels O_IN_PROGRESS = ''U pripremi''"
| "orderLabels O_READY = ''Spremna za preuzimanje''"
| "orderLabels O_COMPLETED = sr ''Zavr~sena''"
| "orderLabels O_CANCELLED = ''Otkazana''"

fun orderTones :: "order_status \<Rightarrow> status_tone" where
  "orderTones O_CREATED = T_warning"
| "orderTones O_IN_PROGRESS = T_info"
| "orderTones O_READY = T_success"
| "orderTones O_COMPLETED = T_neutral"
| "orderTones O_CANCELLED = T_danger"

fun roleLabels :: "role \<Rightarrow> string" where
  "roleLabels OWNER = ''Vlasnik''"
| "roleLabels ADMIN = ''Administrator''"
| "roleLabels EMPLOYEE = ''Zaposleni''"
| "roleLabels CUSTOMER = ''Klijent''"

definition dashboardActionLabels :: "string \<Rightarrow> string option" where
  "dashboardActionLabels = map_of [(''CONFIRMED'', ''Potvrdi''), (''REJECTED'', ''Odbij''), (''CANCELLED'', sr ''Otka~zi''),
     (''COMPLETED'', sr ''Zavr~si''), (''IN_PROGRESS'', ''Preuzmi''), (''READY'', sr ''Ozna~ci spremno'')]"

definition detail_separator :: string where
  \<comment> \<open>a middle dot between spaces\<close>
  "detail_separator = '' '' @ map char_of [194, 183 :: nat] @ '' ''"

fun last_index_of :: "string \<Rightarrow> string \<Rightarrow> nat option" where
  "last_index_of p [] = (if p = [] then Some 0 else None)"
| "last_index_of p (c # cs) = (case last_index_of p cs of
     Some i \<Rightarrow> Some (Suc i) | None \<Rightarrow> if starts_with p (c # cs) then Some 0 else None)"

definition instant_shape :: "string \<Rightarrow> bool" where
  \<comment> \<open>\<open>/^\d{4}-\d{2}-\d{2}T/\<close>\<close>
  "instant_shape s \<longleftrightarrow> (do {
     (_, r) \<leftarrow> take_digits 4 s; r \<leftarrow> lit CHR ''-'' r;
     (_, r) \<leftarrow> take_digits 2 r; r \<leftarrow> lit CHR ''-'' r;
     (_, r) \<leftarrow> take_digits 2 r; lit CHR ''T'' r }) \<noteq> None"

definition formatAttentionDetail :: "platform \<Rightarrow> dashboard_attention_item \<Rightarrow> string" where
  "formatAttentionDetail P i = (let d = ai_detail i in
     if \<not> starts_with ''next-'' (ai_key i) then d
     else case last_index_of detail_separator d of
       None \<Rightarrow> d
     | Some k \<Rightarrow> (let instant = drop (k + length detail_separator) d in
         if \<not> instant_shape instant then d
         else case formatBusinessDateTime P instant False ''sr-RS'' of
           None \<Rightarrow> d | Some t \<Rightarrow> take k d @ detail_separator @ t))"

fun severity_order :: "severity \<Rightarrow> nat" where
  "severity_order Critical = 0"
| "severity_order Warning = 1"
| "severity_order Info = 2"

definition operationalItems :: "auth_user option \<Rightarrow> dashboard_attention option \<Rightarrow> dashboard_attention_item list" where
  "operationalItems user attention = filter
     (\<lambda>i. hasCapability user (if starts_with ''/orders'' (ai_url i) then ORDER_READ_ALL else RESERVATION_READ_ALL))
     (case attention of Some a \<Rightarrow> at_items a | None \<Rightarrow> [])"

definition flaggedItems :: "auth_user option \<Rightarrow> dashboard_attention option \<Rightarrow> dashboard_attention_item list" where
  "flaggedItems user attention = sort_by (\<lambda>a b. severity_order (ai_severity a) \<le> severity_order (ai_severity b))
     (filter (\<lambda>i. 0 < ai_count i) (operationalItems user attention))"

definition attention_count :: "string \<Rightarrow> dashboard_attention option \<Rightarrow> int option" where
  "attention_count key attention = Option.bind attention
     (\<lambda>a. map_option ai_count (find (\<lambda>i. ai_key i = key) (at_items a)))"

definition employee_appointments :: "platform \<Rightarrow> dashboard_today \<Rightarrow> dashboard_appointment list" where
  \<comment> \<open>for start times that can be read\<close>
  "employee_appointments P t = sort_by (\<lambda>a b. the (parse P (da_startTime a)) \<le> the (parse P (da_startTime b))) (td_appointments t)"

definition employee_notifications :: "dashboard_today \<Rightarrow> attention_notification list" where
  "employee_notifications t = sort_by (\<lambda>a b. an_priority a = AP_HIGH \<or> an_priority b \<noteq> AP_HIGH) (td_attentionNotifications t)"

definition highPriority :: "dashboard_today \<Rightarrow> bool" where
  "highPriority t \<longleftrightarrow> list_ex (\<lambda>n. an_priority n = AP_HIGH) (td_attentionNotifications t)"

definition appointment_offers :: "auth_user option \<Rightarrow> dashboard_appointment \<Rightarrow> reservation_status list" where
  "appointment_offers user a = (if hasCapability user RESERVATION_CHANGE_STATUS then da_allowedActions a else [])"

definition order_offers :: "auth_user option \<Rightarrow> dashboard_today_order \<Rightarrow> order_status list" where
  "order_offers user r = (if hasCapability user ORDER_CHANGE_STATUS then dt_allowedActions r else [])"

subsection \<open>The management and the employee page\<close>

fun text_less :: "string \<Rightarrow> string \<Rightarrow> bool" where
  \<comment> \<open>\<open><\<close> of the dates of the form, which are ASCII texts\<close>
  "text_less xs [] \<longleftrightarrow> False"
| "text_less [] (y # ys) \<longleftrightarrow> True"
| "text_less (x # xs) (y # ys) \<longleftrightarrow> (of_char x :: nat) < of_char y \<or> x = y \<and> text_less xs ys"

record dashboard_page =
  dp_view :: string
  dp_from :: string
  dp_to :: string
  dp_employeeId :: string
  dp_trends :: "dashboard_trends option"
  dp_workload :: "dashboard_workload option"
  dp_employeeOptions :: "dashboard_workload_item list"
  dp_today :: "dashboard_today option"
  dp_attention :: "dashboard_attention option"
  dp_preferences :: "dashboard_widget_preference list"
  dp_loading :: bool
  dp_error :: string
  dp_saving :: bool
  dp_actionBusy :: bool
  dp_inFlight :: bool
  dp_reservationAction :: "(string \<times> int \<times> reservation_status) option"

definition sees_summary :: "auth_user option \<Rightarrow> bool" where
  "sees_summary user \<longleftrightarrow> hasCapability user DASHBOARD_SUMMARY"

definition sees_operations :: "auth_user option \<Rightarrow> bool" where
  "sees_operations user \<longleftrightarrow> hasCapability user DASHBOARD_OPERATIONAL"

definition gaming_workday :: "auth_user option \<Rightarrow> bool" where
  \<comment> \<open>whether \<open>DashboardPage\<close> shows the gaming workspace instead\<close>
  "gaming_workday user \<longleftrightarrow> (case user of Some u \<Rightarrow> user_role u = EMPLOYEE \<and> hasCapability user GAMING_SESSION_READ | None \<Rightarrow> False)"

definition page_initial :: "string \<Rightarrow> string \<Rightarrow> dashboard_page" where
  "page_initial from_day to_day = \<lparr>dp_view = ''operations'', dp_from = from_day, dp_to = to_day, dp_employeeId = '''',
     dp_trends = None, dp_workload = None, dp_employeeOptions = [], dp_today = None, dp_attention = None,
     dp_preferences = widget_defaults, dp_loading = True, dp_error = '''', dp_saving = False, dp_actionBusy = False,
     dp_inFlight = False, dp_reservationAction = None\<rparr>"

definition overview_request :: "auth_user option \<Rightarrow> http_request" where
  "overview_request user = (if sees_summary user then dashboardApi_attention else dashboardApi_today)"

definition page_opened :: "auth_user option \<Rightarrow> string \<times> string \<Rightarrow> dashboard_page \<Rightarrow> dashboard_page \<times> http_request list" where
  "page_opened user month p = (if \<not> sees_summary user \<and> \<not> sees_operations user then (p\<lparr>dp_loading := False\<rparr>, [])
     else (p\<lparr>dp_loading := True, dp_error := ''''\<rparr>, overview_request user
       # (if sees_summary user then [dashboardApi_trends (fst month) (snd month)] else [])))"

definition attention_loaded :: "dashboard_attention \<Rightarrow> dashboard_page \<Rightarrow> dashboard_page" where
  "attention_loaded a p = p\<lparr>dp_attention := Some a, dp_loading := False\<rparr>"

definition today_loaded :: "dashboard_today \<Rightarrow> dashboard_page \<Rightarrow> dashboard_page" where
  "today_loaded t p = p\<lparr>dp_today := Some t, dp_loading := False\<rparr>"

definition overview_failed :: "cause \<Rightarrow> dashboard_page \<Rightarrow> dashboard_page" where
  "overview_failed e p = p\<lparr>dp_error := apiErrorMessage e ''Pregled nije dostupan.'', dp_loading := False\<rparr>"

definition trends_loaded :: "cause + dashboard_trends \<Rightarrow> dashboard_page \<Rightarrow> dashboard_page" where
  "trends_loaded r p = (case r of Inr t \<Rightarrow> p\<lparr>dp_trends := Some t\<rparr>
     | Inl e \<Rightarrow> p\<lparr>dp_error := apiErrorMessage e ''Analitika nije dostupna. Operativni pregled ostaje dostupan.''\<rparr>)"

definition page_polled :: "auth_user option \<Rightarrow> bool \<Rightarrow> http_request option" where
  \<comment> \<open>every 30 seconds; \<open>hidden\<close> is the visibility of the document\<close>
  "page_polled user hidden = (if (\<not> sees_summary user \<and> \<not> sees_operations user) \<or> hidden then None else Some (overview_request user))"

definition poll_answered :: "cause + dashboard_attention + dashboard_today \<Rightarrow> dashboard_page \<Rightarrow> dashboard_page" where
  "poll_answered r p = (case r of
     Inr (Inl a) \<Rightarrow> p\<lparr>dp_attention := Some a\<rparr> | Inr (Inr t) \<Rightarrow> p\<lparr>dp_today := Some t\<rparr>
   | Inl e \<Rightarrow> p\<lparr>dp_error := apiErrorMessage e (sr ''Operativne podatke nije mogu~qe osve~ziti.'')\<rparr>)"

definition analytics_opened :: "auth_user option \<Rightarrow> string \<times> string \<Rightarrow> dashboard_page \<Rightarrow> http_request list" where
  "analytics_opened user month p = (if \<not> sees_summary user \<or> dp_view p \<noteq> ''analytics'' then []
     else [dashboardApi_workload (fst month) (snd month) None, dashboardApi_preferences])"

definition preferences_read :: "dashboard_widget_preference list option \<Rightarrow> dashboard_page \<Rightarrow> dashboard_page" where
  \<comment> \<open>a failure is ignored\<close>
  "preferences_read r p = (case r of Some ps \<Rightarrow> p\<lparr>dp_preferences := normalizePreferences ps\<rparr> | None \<Rightarrow> p)"

definition period_submit :: "dashboard_page \<Rightarrow> dashboard_page \<times> http_request list" where
  "period_submit p = (if text_less (dp_to p) (dp_from p)
     then (p\<lparr>dp_error := sr ''Po~cetni datum ne sme biti posle zavr~snog.''\<rparr>, [])
     else (p\<lparr>dp_loading := True, dp_error := ''''\<rparr>,
       [dashboardApi_trends (dp_from p) (dp_to p),
        dashboardApi_workload (dp_from p) (dp_to p) (if dp_employeeId p = '''' then None else Some (dp_employeeId p))]))"

definition workload_shown :: "string \<Rightarrow> dashboard_workload \<Rightarrow> dashboard_page \<Rightarrow> dashboard_page" where
  \<comment> \<open>the employee asked for was \<open>employeeId\<close>\<close>
  "workload_shown employeeId w p = p\<lparr>dp_workload := Some w,
     dp_employeeOptions := (if employeeId = '''' then dw_employees w else dp_employeeOptions p)\<rparr>"

definition period_answered ::
  "string \<Rightarrow> cause + dashboard_trends \<Rightarrow> cause + dashboard_workload \<Rightarrow> dashboard_page \<Rightarrow> dashboard_page" where
  "period_answered employeeId t w p =
     (let q = (case t of Inr v \<Rightarrow> p\<lparr>dp_trends := Some v\<rparr>
                | Inl e \<Rightarrow> p\<lparr>dp_error := apiErrorMessage e (sr ''Poslovni rezultati nisu osve~zeni.'')\<rparr>);
          r = (case w of Inr v \<Rightarrow> workload_shown employeeId v q
                | Inl e \<Rightarrow> q\<lparr>dp_error := apiErrorMessage e (sr ''Optere~qenje nije osve~zeno.'')\<rparr>)
      in r\<lparr>dp_loading := False\<rparr>)"

definition retryInitial :: "auth_user option \<Rightarrow> dashboard_page \<Rightarrow> dashboard_page \<times> http_request option" where
  "retryInitial user p = (let q = p\<lparr>dp_loading := True, dp_error := ''''\<rparr>
     in if sees_summary user then (q, Some dashboardApi_attention)
        else if sees_operations user then (q, Some dashboardApi_today) else (q\<lparr>dp_loading := False\<rparr>, None))"

definition retry_answered :: "auth_user option \<Rightarrow> cause + dashboard_attention + dashboard_today \<Rightarrow> dashboard_page \<Rightarrow> dashboard_page \<times> http_request list" where
  \<comment> \<open>with the requests that follow, besides the count of today's reservations\<close>
  "retry_answered user r p = (case r of
     Inl e \<Rightarrow> (p\<lparr>dp_error := apiErrorMessage e (sr ''Dashboard nije mogu~qe u~citati.''), dp_loading := False\<rparr>, [])
   | Inr (Inr t) \<Rightarrow> (today_loaded t p, [])
   | Inr (Inl a) \<Rightarrow> (attention_loaded a p, dashboardApi_trends (dp_from p) (dp_to p)
       # (if dp_view p = ''analytics''
          then [dashboardApi_workload (dp_from p) (dp_to p) (if dp_employeeId p = '''' then None else Some (dp_employeeId p))] else [])))"

definition csv_name :: "export_view \<Rightarrow> dashboard_page \<Rightarrow> string" where
  "csv_name view p = ''dashboard-'' @ dp_from p @ ''-'' @ dp_to p @ ''-''
     @ (case view of Current_view \<Rightarrow> ''current'' | Raw_view \<Rightarrow> ''raw'') @ ''.csv''"

definition preferences_save :: "dashboard_page \<Rightarrow> dashboard_page \<times> http_request option" where
  "preferences_save p = (if dp_saving p then (p, None)
     else if list_ex bad_threshold (dp_preferences p)
     then (p\<lparr>dp_error := sr ''Prag upozorenja mora biti izme~du 0 i 100.''\<rparr>, None)
     else (p\<lparr>dp_saving := True\<rparr>, Some (dashboardApi_savePreferences (normalizePreferences (dp_preferences p)))))"

definition preferences_stored :: "cause + dashboard_widget_preference list \<Rightarrow> dashboard_page \<Rightarrow> dashboard_page" where
  "preferences_stored r p = (case r of
     Inr ps \<Rightarrow> p\<lparr>dp_preferences := normalizePreferences ps, dp_saving := False\<rparr>
   | Inl e \<Rightarrow> p\<lparr>dp_error := apiErrorMessage e (sr ''Raspored widgeta nije mogu~qe sa~cuvati.''), dp_saving := False\<rparr>)"

subsection \<open>Actions of the working day\<close>

definition today_refresh :: "dashboard_page \<Rightarrow> dashboard_page" where
  "today_refresh p = p\<lparr>dp_loading := True\<rparr>"

definition today_refreshed :: "cause + dashboard_today \<Rightarrow> dashboard_page \<Rightarrow> dashboard_page" where
  "today_refreshed r p = (case r of
     Inr t \<Rightarrow> p\<lparr>dp_today := Some t, dp_error := '''', dp_loading := False\<rparr>
   | Inl e \<Rightarrow> p\<lparr>dp_error := apiErrorMessage e (sr ''Radni dan nije mogu~qe osve~ziti.''), dp_loading := False\<rparr>)"

definition workday_start :: "http_request \<Rightarrow> dashboard_page \<Rightarrow> dashboard_page \<times> http_request option" where
  "workday_start rq p = (if dp_inFlight p then (p, None)
     else (p\<lparr>dp_inFlight := True, dp_actionBusy := True\<rparr>, Some rq))"

definition changeAppointment ::
  "string \<Rightarrow> int \<Rightarrow> reservation_status \<Rightarrow> string option \<Rightarrow> dashboard_page \<Rightarrow> dashboard_page \<times> http_request option" where
  "changeAppointment i version status reason = workday_start (reservationApi_changeStatus i version status reason)"

definition changeOrder :: "string \<Rightarrow> int \<Rightarrow> order_status \<Rightarrow> dashboard_page \<Rightarrow> dashboard_page \<times> http_request option" where
  "changeOrder i version status = workday_start (orderApi_changeStatus i version status)"

definition workday_finally :: "dashboard_page \<Rightarrow> dashboard_page" where
  "workday_finally p = p\<lparr>dp_inFlight := False, dp_actionBusy := False\<rparr>"

definition appointment_changed :: "dashboard_page \<Rightarrow> dashboard_page" where
  \<comment> \<open>the dialog closes and the day is read again; \<open>workday_finally\<close> follows its answer\<close>
  "appointment_changed p = today_refresh (p\<lparr>dp_reservationAction := None\<rparr>)"

definition order_changed :: "dashboard_page \<Rightarrow> dashboard_page" where
  "order_changed p = today_refresh p"

definition appointment_failed :: "cause \<Rightarrow> dashboard_page \<Rightarrow> dashboard_page" where
  "appointment_failed e p = workday_finally (p\<lparr>dp_error := apiErrorMessage e (sr ''Termin nije mogu~qe a~zurirati.'')\<rparr>)"

definition order_failed :: "cause \<Rightarrow> dashboard_page \<Rightarrow> dashboard_page" where
  "order_failed e p = workday_finally (p\<lparr>dp_error := apiErrorMessage e (sr ''Narud~zbinu nije mogu~qe a~zurirati.'')\<rparr>)"

definition onAppointmentAction ::
  "dashboard_appointment \<Rightarrow> reservation_status \<Rightarrow> dashboard_page \<Rightarrow> dashboard_page \<times> http_request option" where
  \<comment> \<open>cancelling and rejecting ask for a reason first\<close>
  "onAppointmentAction a status p = (if status = R_CANCELLED \<or> status = R_REJECTED
     then (p\<lparr>dp_reservationAction := Some (da_id a, da_version a, status)\<rparr>, None)
     else changeAppointment (da_id a) (da_version a) status None p)"

definition appointment_confirmed :: "string \<Rightarrow> dashboard_page \<Rightarrow> dashboard_page \<times> http_request option" where
  "appointment_confirmed reason p = (case dp_reservationAction p of
     Some (i, v, s) \<Rightarrow> if reason = '''' then (p, None) else changeAppointment i v s (Some reason) p
   | None \<Rightarrow> (p, None))"

subsection \<open>The customer's home\<close>

definition homeCountdown :: "jsnum \<Rightarrow> string" where
  "homeCountdown seconds = (case seconds of
     Num r \<Rightarrow> (let v = max 0 \<lceil>r\<rceil> in pad_num 2 (v div 3600) @ '':'' @ pad_num 2 (v mod 3600 div 60) @ '':'' @ pad_num 2 (v mod 60))
   | _ \<Rightarrow> ''-'')"

definition parsed_at_most :: "platform \<Rightarrow> string \<Rightarrow> int \<Rightarrow> bool" where
  "parsed_at_most P v now \<longleftrightarrow> (case parse P v of Some t \<Rightarrow> t \<le> now | None \<Rightarrow> False)"

definition parsed_after :: "platform \<Rightarrow> string \<Rightarrow> int \<Rightarrow> bool" where
  "parsed_after P v now \<longleftrightarrow> (case parse P v of Some t \<Rightarrow> now < t | None \<Rightarrow> False)"

definition sessionState :: "platform \<Rightarrow> gaming_session_visit \<Rightarrow> int \<Rightarrow> bool \<Rightarrow> string \<times> status_tone" where
  "sessionState P v now synchronized = (case gv_status v of
     G_EXPIRED \<Rightarrow> (''Istekla'', T_warning)
   | G_TERMINATED \<Rightarrow> (sr ''Zavr~sena'', T_neutral)
   | G_ACTIVE \<Rightarrow> if synchronized \<and> parsed_at_most P (gv_endsAt v) now then (''Vreme isteklo'', T_warning) else (''Aktivna'', T_info))"

definition sessionHref :: "string \<Rightarrow> string" where
  "sessionHref i = ''/home?sessionId='' @ encodeURIComponent i"

definition reservationHref :: "string \<Rightarrow> string" where
  "reservationHref i = ''/my-reservations?reservationId='' @ encodeURIComponent i"

definition waitlistHref :: "waitlist_entry \<Rightarrow> string" where
  "waitlistHref e = (case wle_offerId e of
     Some i \<Rightarrow> if i = '''' then ''/my-reservations?section=waitlist''
               else ''/my-reservations?section=waitlist&waitlistOffer='' @ encodeURIComponent i
   | None \<Rightarrow> ''/my-reservations?section=waitlist'')"

definition validOffer :: "platform \<Rightarrow> waitlist_entry \<Rightarrow> int \<Rightarrow> bool \<Rightarrow> bool" where
  "validOffer P e now synchronized \<longleftrightarrow> synchronized \<and> wle_status e = WL_OFFERED
     \<and> (wle_offerStatus e = None \<or> wle_offerStatus e = Some WO_OFFERED)
     \<and> truthy (wle_offerId e) \<and> truthy (wle_offerExpiresAt e)
     \<and> parsed_after P (the (wle_offerExpiresAt e)) now \<and> parsed_after P (wle_desiredStart e) now"

record customer_activity =
  ca_key :: string
  ca_title :: string
  ca_detail :: string
  ca_occurredAt :: string
  ca_to :: string
  ca_icon :: string
  ca_iconKind :: "string option"
  ca_sessionId :: "string option"
  ca_status :: "(string \<times> status_tone) option"

definition session_activity :: "string \<Rightarrow> string \<Rightarrow> string \<Rightarrow> gaming_session_visit \<Rightarrow> customer_activity" where
  "session_activity key title moment v = \<lparr>ca_key = key @ gv_id v, ca_title = title, ca_detail = gv_resourceName v, ca_occurredAt = moment,
     ca_to = sessionHref (gv_id v), ca_icon = ''/gaming-sessions'', ca_iconKind = Some ''gamepad'', ca_sessionId = Some (gv_id v),
     ca_status = None\<rparr>"

definition visit_activities :: "gaming_session_visit \<Rightarrow> customer_activity list" where
  "visit_activities v = session_activity ''session-start-'' ''Pokrenuta gaming sesija'' (gv_startedAt v) v
     # (if gv_status v \<noteq> G_ACTIVE \<and> truthy (gv_endedAt v)
        then [session_activity ''session-end-'' (if gv_status v = G_EXPIRED then ''Istekla gaming sesija'' else sr ''Zavr~sena gaming sesija'')
                (the (gv_endedAt v)) v] else [])"

definition reservation_activity :: "reservation \<Rightarrow> customer_activity" where
  "reservation_activity v = \<lparr>ca_key = ''reservation-created-'' @ r_id v, ca_title = ''Kreirana rezervacija'',
     ca_detail = (case r_serviceName v of Some n \<Rightarrow> if n = '''' then ''Rezervacija'' else n | None \<Rightarrow> ''Rezervacija''),
     ca_occurredAt = r_createdAt v, ca_to = reservationHref (r_id v), ca_icon = ''/my-reservations'', ca_iconKind = None, ca_sessionId = None,
     ca_status = Some (reservationLabels (r_status v), reservationTones (r_status v))\<rparr>"

definition order_activity :: "order \<Rightarrow> customer_activity" where
  "order_activity v = \<lparr>ca_key = ''order-created-'' @ ord_id v, ca_title = sr ''Kreirana narud~zbina'',
     ca_detail = show_nat (length (ord_items v)) @ '' stavki'', ca_occurredAt = ord_createdAt v, ca_to = ''/my-orders'', ca_icon = ''/my-orders'',
     ca_iconKind = Some ''cart'', ca_sessionId = None, ca_status = Some (orderLabels (ord_status v), orderTones (ord_status v))\<rparr>"

definition activity_events :: "platform \<Rightarrow> gaming_session_visit list \<Rightarrow> reservation list \<Rightarrow> order list \<Rightarrow> customer_activity list" where
  "activity_events P visits reservations orders = filter (\<lambda>e. parse P (ca_occurredAt e) \<noteq> None)
     (concat (map visit_activities visits) @ map reservation_activity reservations @ map order_activity orders)"

definition activity_le :: "platform \<Rightarrow> (string \<Rightarrow> string \<Rightarrow> bool) \<Rightarrow> customer_activity \<Rightarrow> customer_activity \<Rightarrow> bool" where
  "activity_le P collate a b = (let s = the (parse P (ca_occurredAt a)); t = the (parse P (ca_occurredAt b))
     in t < s \<or> t = s \<and> collate (ca_key a) (ca_key b))"

definition customerActivities ::
  "platform \<Rightarrow> (string \<Rightarrow> string \<Rightarrow> bool) \<Rightarrow> gaming_session_visit list \<Rightarrow> reservation list \<Rightarrow> order list \<Rightarrow> customer_activity list" where
  "customerActivities P collate visits reservations orders =
     take 6 (sort_by (activity_le P collate) (activity_events P visits reservations orders))"

subsection \<open>The order of the widgets\<close>

definition widget_keys :: "string list" where
  "widget_keys = map wp_widgetKey widget_defaults"

definition ordered_widgets :: "dashboard_widget_preference list \<Rightarrow> bool" where
  "ordered_widgets ws \<longleftrightarrow> map wp_position ws = [0, 1, 2] \<and> distinct (map wp_widgetKey ws)
     \<and> set (map wp_widgetKey ws) = set widget_keys"

lemma widget_keys_simp: "widget_keys = [''trends'', ''statuses'', ''workload'']"
  by (simp add: widget_keys_def widget_defaults_def)

lemma number_positions_simps [simp]:
  "map wp_widgetKey (number_positions ws) = map wp_widgetKey ws"
  "map wp_position (number_positions ws) = map int [0..<length ws]"
  "length (number_positions ws) = length ws"
  by (auto simp: number_positions_def map_map comp_def case_prod_beta intro!: nth_equalityI simp flip: map_map
      simp: nth_enumerate_eq)

lemma sort_by_keys:
  "distinct (map f (sort_by le xs)) \<longleftrightarrow> distinct (map f xs)"
proof -
  have ins: "distinct (map f (insert_by le x ys)) \<longleftrightarrow> f x \<notin> f ` set ys \<and> distinct (map f ys)" for x ys
    by (induction ys) auto
  show ?thesis
  proof (induction xs)
    case (Cons x xs)
    then show ?case using set_sort_by [of le xs] by (simp add: sort_by_def ins)
  qed (simp add: sort_by_def)
qed

lemma merged_keys:
  "map wp_widgetKey (map (\<lambda>d. case find (\<lambda>i. wp_widgetKey i = wp_widgetKey d) items of Some i \<Rightarrow> i | None \<Rightarrow> d) ds)
    = map wp_widgetKey ds"
  by (induction ds) (auto split: option.split dest: find_SomeD)

lemma normalize_ordered: "ordered_widgets (normalizePreferences items)"
proof -
  let ?m = "map (\<lambda>d. case find (\<lambda>i. wp_widgetKey i = wp_widgetKey d) items of Some i \<Rightarrow> i | None \<Rightarrow> d) widget_defaults"
  have k: "map wp_widgetKey ?m = widget_keys" unfolding merged_keys by (simp add: widget_keys_def)
  have "distinct (map wp_widgetKey (sort_by widget_le ?m))" unfolding sort_by_keys k by (simp add: widget_keys_simp)
  moreover have "set (map wp_widgetKey (sort_by widget_le ?m)) = set widget_keys"
    unfolding k [symmetric] by (simp only: set_map set_sort_by)
  moreover have "length ?m = 3" by (simp add: widget_defaults_def)
  ultimately show ?thesis
    by (simp add: ordered_widgets_def normalizePreferences_def upt_rec numeral_3_eq_3 del: set_map)
qed

lemma same_position: "wp_position w = i \<Longrightarrow> w\<lparr>wp_position := i\<rparr> = w"
  by (cases w) simp

lemma ordered_length: "ordered_widgets ws \<Longrightarrow> length ws = 3"
  by (metis ordered_widgets_def length_map length_Cons list.size(3) numeral_3_eq_3)

lemma ordered_position: "ordered_widgets ws \<Longrightarrow> i < 3 \<Longrightarrow> wp_position (ws ! i) = int i"
proof -
  assume o: "ordered_widgets ws" and i: "i < 3"
  have "wp_position (ws ! i) = map wp_position ws ! i" using i ordered_length [OF o] by simp
  also have "\<dots> = [0, 1, 2] ! i" using o by (simp add: ordered_widgets_def)
  also have "\<dots> = int i" using i by (auto simp: numeral_3_eq_3 less_Suc_eq)
  finally show ?thesis .
qed

lemma nth_number_positions:
  "i < length ws \<Longrightarrow> number_positions ws ! i = (ws ! i)\<lparr>wp_position := int i\<rparr>"
  by (simp add: number_positions_def nth_enumerate_eq)

lemma number_ordered: "ordered_widgets ws \<Longrightarrow> number_positions ws = ws"
  by (rule nth_equalityI) (simp_all add: nth_number_positions ordered_length ordered_position same_position)

lemma merged_widgets:
  assumes "ordered_widgets ws"
  shows "set (map (\<lambda>d. case find (\<lambda>i. wp_widgetKey i = wp_widgetKey d) ws of Some i \<Rightarrow> i | None \<Rightarrow> d) widget_defaults) = set ws"
proof -
  let ?f = "\<lambda>d. case find (\<lambda>i. wp_widgetKey i = wp_widgetKey d) ws of Some i \<Rightarrow> i | None \<Rightarrow> d"
  have keys: "wp_widgetKey ` set ws = wp_widgetKey ` set widget_defaults" and d: "inj_on wp_widgetKey (set ws)"
    using assms by (auto simp: ordered_widgets_def widget_keys_def distinct_map)
  have f: "?f d \<in> set ws \<and> wp_widgetKey (?f d) = wp_widgetKey d" if "d \<in> set widget_defaults" for d
  proof -
    from that keys have "wp_widgetKey d \<in> wp_widgetKey ` set ws" by simp
    then have "find (\<lambda>i. wp_widgetKey i = wp_widgetKey d) ws \<noteq> None" by (auto simp: find_None_iff)
    then obtain i where i: "find (\<lambda>i. wp_widgetKey i = wp_widgetKey d) ws = Some i" by blast
    with find_SomeD [OF i] show ?thesis by simp
  qed
  have "w \<in> ?f ` set widget_defaults" if w: "w \<in> set ws" for w
  proof -
    from w keys obtain d where e: "d \<in> set widget_defaults" "wp_widgetKey d = wp_widgetKey w" by (metis imageE imageI)
    with f [OF e(1)] w d have "?f d = w" by (metis inj_onD)
    with e(1) show ?thesis by blast
  qed
  with f show ?thesis by auto
qed

lemma normalize_fixed:
  assumes "ordered_widgets ws"
  shows "normalizePreferences ws = ws"
proof -
  let ?m = "map (\<lambda>d. case find (\<lambda>i. wp_widgetKey i = wp_widgetKey d) ws of Some i \<Rightarrow> i | None \<Rightarrow> d) widget_defaults"
  let ?s = "sort_by widget_le ?m"
  have set: "set ?s = set ws" using merged_widgets [OF assms] by simp
  have pos: "map wp_position ws = [0, 1, 2]" using assms by (simp add: ordered_widgets_def)
  then have d: "distinct (map wp_position ws)" by simp
  then have inj: "inj_on wp_position (set ws)" by (simp add: distinct_map)
  have "distinct (map wp_widgetKey ?m)" unfolding merged_keys by (simp add: widget_defaults_def)
  then have "distinct ?s" by (simp only: distinct_map distinct_sort_by)
  then have "distinct (map wp_position ?s)" using inj by (simp only: distinct_map set)
  moreover have "sorted (map wp_position ?s)"
    by (rule sorted_sort_by) (auto simp: widget_le_def)
  moreover have "set (map wp_position ?s) = set (map wp_position ws)" by (simp only: set_map set)
  moreover have "sorted (map wp_position ws)" using pos by simp
  ultimately have "map wp_position ?s = map wp_position ws" using d by (intro sorted_distinct_set_unique)
  moreover have "inj_on wp_position (set ?s \<union> set ws)" using inj by (simp only: set Un_absorb)
  ultimately have "?s = ws" by (rule map_inj_on)
  then show ?thesis by (simp add: normalizePreferences_def number_ordered [OF assms])
qed

lemma swap_ordered:
  assumes "ordered_widgets ws" and "i < 3" and "j < 3"
  shows "ordered_widgets (number_positions (ws[i := ws ! j, j := ws ! i]))"
proof -
  have l: "length ws = 3" by (rule ordered_length [OF assms(1)])
  let ?k = "map wp_widgetKey ws"
  have k: "map wp_widgetKey (ws[i := ws ! j, j := ws ! i]) = ?k[i := ?k ! j, j := ?k ! i]"
    using assms(2,3) l by (simp add: map_update)
  have "distinct (?k[i := ?k ! j, j := ?k ! i]) = distinct ?k" "set (?k[i := ?k ! j, j := ?k ! i]) = set ?k"
    using assms(2,3) l by (simp_all only: distinct_swap set_swap length_map)
  with assms(1) l show ?thesis
    by (simp add: ordered_widgets_def k upt_rec numeral_3_eq_3 del: set_map)
qed

lemma find_index_key:
  assumes "distinct (map f xs)" and "i < length xs" and "f (xs ! i) = k"
  shows "find_index (\<lambda>x. f x = k) xs = Some i"
proof -
  have "find_index (\<lambda>x. f x = k) xs \<noteq> None" using assms(2,3) nth_mem unfolding find_index_None_iff by blast
  then obtain j where j: "find_index (\<lambda>x. f x = k) xs = Some j" by blast
  from find_index_SomeD [OF j] have "j < length xs" "f (xs ! j) = k" by auto
  with assms have "i = j" by (metis length_map nth_map nth_eq_iff_index_eq)
  with j show ?thesis by simp
qed

lemma moveWidget_ordered:
  assumes ws: "ordered_widgets ws" and i: "i < 3" "wp_widgetKey (ws ! i) = key" and j: "int i + d = int j" "j < 3"
  shows "moveWidget key d ws = number_positions (ws[i := ws ! j, j := ws ! i])"
proof -
  have l: "length ws = 3" by (rule ordered_length [OF ws])
  have "find_index (\<lambda>w. wp_widgetKey w = key) ws = Some i"
    using ws i l by (intro find_index_key) (simp_all add: ordered_widgets_def)
  with j l show ?thesis by (simp add: moveWidget_def normalize_fixed [OF ws] Let_def)
qed

lemma moveWidget_normalized: "moveWidget key d (normalizePreferences items) = moveWidget key d items"
  by (simp add: moveWidget_def normalize_fixed [OF normalize_ordered])

lemma swap_back:
  assumes ws: "ordered_widgets ws" and i: "i < 3" and j: "j < 3"
  defines "vs \<equiv> number_positions (ws[i := ws ! j, j := ws ! i])"
  shows "number_positions (vs[j := vs ! i, i := vs ! j]) = ws"
proof (rule nth_equalityI)
  have l: "length ws = 3" "length vs = 3" by (simp_all add: vs_def ordered_length [OF ws])
  then show "length (number_positions (vs[j := vs ! i, i := vs ! j])) = length ws" by simp
  fix n assume "n < length (number_positions (vs[j := vs ! i, i := vs ! j]))"
  with l have n: "n < 3" by simp
  have v: "vs ! m = (ws[i := ws ! j, j := ws ! i] ! m)\<lparr>wp_position := int m\<rparr>" if "m < 3" for m
    using that l by (simp add: vs_def nth_number_positions)
  have p: "(ws ! n)\<lparr>wp_position := int n\<rparr> = ws ! n" by (rule same_position [OF ordered_position [OF ws n]])
  show "number_positions (vs[j := vs ! i, i := vs ! j]) ! n = ws ! n"
    using n i j l p by (auto simp: nth_number_positions v nth_list_update)
qed

subsection \<open>Properties\<close>

text \<open>
  Property C34: moving a widget up and then down again (or down and up) leaves the layout as it was, whatever
  preferences the server sent: unknown, missing and repeated widgets, gaps and ties of positions included.
\<close>
theorem widget_moves_undo:
  assumes "find_index (\<lambda>w. wp_widgetKey w = key) (normalizePreferences items) = Some i"
    and "0 \<le> int i + d" and "int i + d < 3"
  shows "moveWidget key (- d) (moveWidget key d items) = normalizePreferences items"
proof -
  let ?ws = "normalizePreferences items"
  have ws: "ordered_widgets ?ws" by (rule normalize_ordered)
  obtain j where j: "int i + d = int j" "j < 3" using assms(2,3) by (metis nat_0_le of_nat_less_iff of_nat_numeral)
  from find_index_SomeD [OF assms(1)] ordered_length [OF ws] have i: "i < 3" "wp_widgetKey (?ws ! i) = key" by auto
  let ?vs = "number_positions (?ws[i := ?ws ! j, j := ?ws ! i])"
  have vs: "ordered_widgets ?vs" by (rule swap_ordered [OF ws i(1) j(2)])
  have m: "moveWidget key d items = ?vs"
    using moveWidget_ordered [OF ws i j] by (simp only: moveWidget_normalized)
  have "wp_widgetKey (?vs ! j) = key" using i j(2) ordered_length [OF ws] by (simp add: nth_number_positions)
  then have "moveWidget key (- d) ?vs = number_positions (?vs[j := ?vs ! i, i := ?vs ! j])"
    using j i(1) by (intro moveWidget_ordered [OF vs]) simp_all
  then show ?thesis unfolding m by (simp only: swap_back [OF ws i(1) j(2)])
qed

theorem widget_moves_undo_witness:
  "moveWidget ''trends'' (- 1) (moveWidget ''trends'' 1 []) = normalizePreferences []"
proof -
  have "find_index (\<lambda>w. wp_widgetKey w = ''trends'') (normalizePreferences []) = Some 0"
    by (simp add: normalizePreferences_def widget_defaults_def sort_by_def widget_le_def number_positions_def)
  then show ?thesis by (rule widget_moves_undo) simp_all
qed

lemma shown_items_are_permitted:
  "i \<in> set (flaggedItems user att) \<Longrightarrow> 0 < ai_count i
     \<and> (starts_with ''/orders'' (ai_url i) \<and> hasCapability user ORDER_READ_ALL \<or> hasCapability user RESERVATION_READ_ALL)"
  by (auto simp: flaggedItems_def operationalItems_def split: if_splits)

lemma one_change_at_a_time:
  "snd (workday_start rq p) \<noteq> None \<longleftrightarrow> \<not> dp_inFlight p"
  by (simp add: workday_start_def)

lemma saved_thresholds_are_percentages:
  "snd (preferences_save p) \<noteq> None \<Longrightarrow> w \<in> set (dp_preferences p) \<Longrightarrow> wp_threshold w = Some t \<Longrightarrow> \<exists>r. t = Num r \<and> 0 \<le> r \<and> r \<le> 100"
  by (auto simp: preferences_save_def bad_threshold_def list_ex_iff split: if_splits jsnum.splits)

lemma mset_sort_by: "mset (sort_by le xs) = mset xs"
proof -
  have "mset (insert_by le x ys) = add_mset x (mset ys)" for x ys by (induction ys) auto
  then show ?thesis unfolding sort_by_def by (induction xs) auto
qed

definition history_moments :: "gaming_session_visit list \<Rightarrow> reservation list \<Rightarrow> order list \<Rightarrow> (string \<times> string) multiset" where
  \<comment> \<open>what happened to a customer: each visit that began, each that ended, each reservation and each order, with its
    key and its moment\<close>
  "history_moments vs rs ords =
     {# (''session-start-'' @ gv_id v, gv_startedAt v). v \<in># mset vs #}
     + {# (''session-end-'' @ gv_id v, the (gv_endedAt v)) | v \<in># mset vs.
          gv_status v \<noteq> G_ACTIVE \<and> gv_endedAt v \<noteq> None \<and> gv_endedAt v \<noteq> Some '''' #}
     + {# (''reservation-created-'' @ r_id v, r_createdAt v). v \<in># mset rs #}
     + {# (''order-created-'' @ ord_id v, ord_createdAt v). v \<in># mset ords #}"

abbreviation activity_moment :: "customer_activity \<Rightarrow> string \<times> string" where
  "activity_moment e \<equiv> (ca_key e, ca_occurredAt e)"

lemma visits_moments: "mset (map activity_moment (concat (map visit_activities vs)))
   = {# (''session-start-'' @ gv_id v, gv_startedAt v). v \<in># mset vs #}
     + {# (''session-end-'' @ gv_id v, the (gv_endedAt v)) | v \<in># mset vs.
          gv_status v \<noteq> G_ACTIVE \<and> gv_endedAt v \<noteq> None \<and> gv_endedAt v \<noteq> Some '''' #}"
  by (induction vs) (auto simp: visit_activities_def session_activity_def truthy_def split: option.splits)

lemma events_moments: "mset (map activity_moment (activity_events P vs rs ords))
   = filter_mset (\<lambda>m. parse P (snd m) \<noteq> None) (history_moments vs rs ords)"
proof -
  have f: "mset (map activity_moment (filter (\<lambda>e. parse P (ca_occurredAt e) \<noteq> None) es))
     = filter_mset (\<lambda>m. parse P (snd m) \<noteq> None) (mset (map activity_moment es))" for es
    by (induction es) auto
  have "mset (map activity_moment (map reservation_activity rs)) = {# (''reservation-created-'' @ r_id v, r_createdAt v). v \<in># mset rs #}"
    "mset (map activity_moment (map order_activity ords)) = {# (''order-created-'' @ ord_id v, ord_createdAt v). v \<in># mset ords #}"
    by (simp_all add: reservation_activity_def order_activity_def comp_def)
  then show ?thesis
    unfolding activity_events_def f history_moments_def map_append mset_append visits_moments by (simp add: add.assoc)
qed

lemma sorted_wrt_sort_by:
  assumes "\<And>x y. le x y \<or> le y x" and "\<And>x y z. le x y \<Longrightarrow> le y z \<Longrightarrow> le x z"
  shows "sorted_wrt le (sort_by le xs)"
proof -
  have "sorted_wrt le (insert_by le x ys)" if "sorted_wrt le ys" for x ys
    using that
  proof (induction ys)
    case (Cons y ys)
    show ?case
    proof (cases "le x y")
      case True
      with Cons.prems assms(2) show ?thesis by auto
    next
      case False
      with assms(1) have "le y x" by blast
      with False Cons show ?thesis by auto
    qed
  qed simp
  then show ?thesis unfolding sort_by_def by (induction xs) auto
qed

text \<open>
  Property C35: the activities on the customer's home are the latest ones. Together with the ones left out they
  are, each once, exactly the beginnings and ends of visits, the reservations and the orders whose moment is a
  readable date, from the latest to the earliest and, at the same moment, in the order of their keys; at most six
  are shown, and none is left out unless six are. The hypotheses say that the locale's comparison is a total order
  of texts up to equality.
\<close>
theorem shown_activities_are_the_latest:
  assumes "\<And>a b. collate a b \<or> collate b a" and "\<And>a b c. collate a b \<Longrightarrow> collate b c \<Longrightarrow> collate a c"
  shows "\<exists>left_out. let shown = customerActivities P collate vs rs ords in
    mset (map activity_moment (shown @ left_out)) = filter_mset (\<lambda>m. parse P (snd m) \<noteq> None) (history_moments vs rs ords)
    \<and> sorted_wrt (\<lambda>a b. the (parse P (ca_occurredAt b)) < the (parse P (ca_occurredAt a))
        \<or> the (parse P (ca_occurredAt b)) = the (parse P (ca_occurredAt a)) \<and> collate (ca_key a) (ca_key b)) (shown @ left_out)
    \<and> length shown \<le> 6 \<and> (left_out = [] \<or> length shown = 6)"
proof -
  let ?s = "sort_by (activity_le P collate) (activity_events P vs rs ords)"
  have "sorted_wrt (activity_le P collate) ?s"
  proof (rule sorted_wrt_sort_by)
    show "activity_le P collate x y \<or> activity_le P collate y x" for x y
      using assms(1) [of "ca_key x" "ca_key y"] by (auto simp: activity_le_def Let_def)
    show "activity_le P collate x z" if "activity_le P collate x y" "activity_le P collate y z" for x y z
      using that assms(2) [of "ca_key x" "ca_key y" "ca_key z"] by (auto simp: activity_le_def Let_def)
  qed
  moreover have "mset (map activity_moment ?s) = filter_mset (\<lambda>m. parse P (snd m) \<noteq> None) (history_moments vs rs ords)"
    by (simp only: mset_map mset_sort_by flip: events_moments)
  moreover have "activity_le P collate = (\<lambda>a b. the (parse P (ca_occurredAt b)) < the (parse P (ca_occurredAt a))
      \<or> the (parse P (ca_occurredAt b)) = the (parse P (ca_occurredAt a)) \<and> collate (ca_key a) (ca_key b))"
    by (intro ext) (simp add: activity_le_def Let_def)
  moreover have "length (take 6 ?s) \<le> 6 \<and> (drop 6 ?s = [] \<or> length (take 6 ?s) = 6)" by auto
  ultimately show ?thesis
    unfolding customerActivities_def Let_def by (intro exI [of _ "drop 6 ?s"]) (simp only: append_take_drop_id simp_thms)
qed

definition plain_platform :: platform where
  "plain_platform = \<lparr>pf_parse = (\<lambda>t. None), pf_offset = (\<lambda>t. 3600000), pf_dateTime = (\<lambda>l s t. ''''), pf_time = (\<lambda>t. '''')\<rparr>"

definition ended_visit :: gaming_session_visit where
  "ended_visit = \<lparr>gv_billingMode = None, gv_billedSeconds = None, gv_id = ''v1'', gv_resourceId = ''r'', gv_resourceName = ''PC 1'',
     gv_locationId = ''l'', gv_startedAt = toISOString 0, gv_endsAt = '''', gv_endedAt = Some ''later'', gv_status = G_EXPIRED,
     gv_serverTime = '''', gv_remainingSeconds = 0\<rparr>"

theorem shown_activities_are_the_latest_witness:
  "\<exists>left_out. let shown = customerActivities plain_platform (\<le>) [ended_visit] [] [] in
    mset (map activity_moment (shown @ left_out)) = {# (''session-start-v1'', toISOString 0) #}
    \<and> sorted_wrt (\<lambda>a b. the (parse plain_platform (ca_occurredAt b)) < the (parse plain_platform (ca_occurredAt a))
        \<or> the (parse plain_platform (ca_occurredAt b)) = the (parse plain_platform (ca_occurredAt a)) \<and> ca_key a \<le> ca_key b)
        (shown @ left_out)
    \<and> length shown \<le> 6 \<and> (left_out = [] \<or> length shown = 6)"
proof -
  have "parse_iso ''later'' = None" by code_simp
  then have "parse plain_platform ''later'' = None" by (simp add: date_parse_def plain_platform_def)
  moreover have "four_digit (day_of 0)" by (simp add: four_digit_def day_of_def)
  note date_parse_toISOString [OF this]
  ultimately have p: "parse plain_platform (toISOString 0) \<noteq> None" "parse plain_platform ''later'' = None" by simp_all
  have "filter_mset (\<lambda>m. parse plain_platform (snd m) \<noteq> None) (history_moments [ended_visit] [] [])
     = {# (''session-start-v1'', toISOString 0) #}"
    using p by (simp add: history_moments_def ended_visit_def)
  with shown_activities_are_the_latest [of "(\<le>)" plain_platform "[ended_visit]" "[]" "[]", OF linear order_trans]
  show ?thesis by simp
qed

end
