(* ===== verification/CatalogPages.thy ===== *)
theory CatalogPages
  imports People Gaming ApiErrors
begin

section \<open>The catalog and customer pages\<close>

text \<open>
  Models \<open>catalog/catalogSchema.ts\<close>, the form of \<open>catalog/CatalogFormDialog.tsx\<close> and the handlers of
  \<open>pages/CatalogPage.tsx\<close> and \<open>pages/CustomersPage.tsx\<close>. \<open>to_number\<close> is JavaScript's \<open>Number(...)\<close>.
  Once the server has confirmed the item of the form, the form only sends its image: the last part shows that
  an item is created or changed at most once, however often the image has to be sent again.
\<close>

subsection \<open>The schema\<close>

definition two_decimals :: "rat \<Rightarrow> bool" where
  "two_decimals r \<longleftrightarrow> r * 100 = of_int \<lfloor>r * 100\<rfloor>"

definition catalogItemSchema :: "catalog_item_input \<Rightarrow> catalog_item_input option" where
  \<comment> \<open>the parsed input, or None where the schema reports an issue\<close>
  "catalogItemSchema v = (let name = trim (cin_name v) in
     if 1 \<le> js_length name \<and> js_length name \<le> 150
       \<and> (case cin_description v of Some d \<Rightarrow> js_length d \<le> 2000 | None \<Rightarrow> True)
       \<and> 0 < cin_price v \<and> cin_price v \<le> 999999999999 / 100 \<and> two_decimals (cin_price v)
       \<and> (case cin_durationMinutes v of Some m \<Rightarrow> 0 < m | None \<Rightarrow> True)
       \<and> (cin_type v = SERVICE \<longrightarrow> cin_durationMinutes v \<noteq> None)
       \<and> (cin_type v = PRODUCT \<longrightarrow> cin_durationMinutes v = None \<and> cin_requiresResource v \<noteq> Some True)
     then Some (v\<lparr>cin_name := name\<rparr>) else None)"

subsection \<open>The form\<close>

record catalog_form =
  fm_form :: catalog_item_input
  fm_persisted :: "catalog_item option"
  fm_image :: "json option" \<comment> \<open>the chosen file\<close>
  fm_imageIssue :: string \<comment> \<open>\<open>errors.image\<close>\<close>
  fm_error :: string
  fm_imageError :: string
  fm_busy :: bool
  fm_inFlight :: bool
  fm_closed :: bool

definition initial_input :: "catalog_item option \<Rightarrow> item_type \<Rightarrow> catalog_item_input" where
  "initial_input item initialType = (case item of
     Some i \<Rightarrow> \<lparr>cin_name = ci_name i, cin_description = Some (case ci_description i of Some d \<Rightarrow> d | None \<Rightarrow> ''''), cin_type = ci_type i,
       cin_price = ci_price i, cin_durationMinutes = ci_durationMinutes i,
       cin_requiresResource = Some (ci_requiresResource i = Some True)\<rparr>
   | None \<Rightarrow> \<lparr>cin_name = '''', cin_description = Some '''', cin_type = initialType, cin_price = 0, cin_durationMinutes = None,
       cin_requiresResource = Some False\<rparr>)"

definition form_open :: "catalog_item option \<Rightarrow> item_type \<Rightarrow> bool \<Rightarrow> catalog_form" where
  "form_open item initialType imageOnly = \<lparr>fm_form = initial_input item initialType,
     fm_persisted = (if imageOnly then item else None), fm_image = None, fm_imageIssue = '''', fm_error = '''', fm_imageError = '''',
     fm_busy = False, fm_inFlight = False, fm_closed = False\<rparr>"

definition form_dirty :: "catalog_item option \<Rightarrow> item_type \<Rightarrow> catalog_form \<Rightarrow> bool" where
  "form_dirty item initialType f \<longleftrightarrow> fm_image f \<noteq> None \<or> fm_persisted f = None \<and> fm_form f \<noteq> initial_input item initialType"

definition form_frozen :: "catalog_form \<Rightarrow> bool" where
  "form_frozen f \<longleftrightarrow> fm_busy f \<or> fm_persisted f \<noteq> None"

datatype dialog_close = Close_ignored | Close_now | Close_asks

definition form_closes :: "catalog_item option \<Rightarrow> item_type \<Rightarrow> catalog_form \<Rightarrow> dialog_close" where
  "form_closes item initialType f =
     (if fm_inFlight f then Close_ignored else if form_dirty item initialType f then Close_asks else Close_now)"

definition image_issue :: "nat option \<Rightarrow> (nat \<Rightarrow> string) \<Rightarrow> string \<Rightarrow> nat \<Rightarrow> string" where
  \<comment> \<open>\<open>megabytes\<close> formats the limit\<close>
  "image_issue maxImageBytes megabytes mime bytes =
     (if \<not> List.member [''image/png'', ''image/jpeg''] mime then ''Izaberite sliku u PNG ili JPEG formatu.''
      else if bytes = 0 then ''Izabrani fajl je prazan.''
      else case maxImageBytes of
        Some m \<Rightarrow> if m \<noteq> 0 \<and> m < bytes then sr ''Slika mo~ze imati najvi~se '' @ megabytes m @ '' MB.'' else ''''
      | None \<Rightarrow> '''')"

definition chooseImage :: "string \<Rightarrow> json \<Rightarrow> catalog_form \<Rightarrow> catalog_form" where
  \<comment> \<open>the issue of the file, and the file\<close>
  "chooseImage issue file f = (if issue \<noteq> '''' then f\<lparr>fm_imageIssue := issue, fm_image := None\<rparr>
     else f\<lparr>fm_imageIssue := '''', fm_image := Some file, fm_imageError := ''''\<rparr>)"

definition removeChosenImage :: "catalog_form \<Rightarrow> catalog_form" where
  "removeChosenImage f = f\<lparr>fm_image := None, fm_imageError := '''', fm_imageIssue := ''''\<rparr>"

definition choose_type :: "item_type \<Rightarrow> catalog_form \<Rightarrow> catalog_form" where
  "choose_type t f = (if form_frozen f then f else f\<lparr>fm_form := (fm_form f)\<lparr>cin_type := t,
     cin_durationMinutes := (if t = PRODUCT then None else cin_durationMinutes (fm_form f)),
     cin_requiresResource := Some (t = SERVICE \<and> cin_requiresResource (fm_form f) = Some True)\<rparr>\<rparr>)"

datatype form_request = Create_item catalog_item_input | Update_item string catalog_item_update | Upload_image catalog_item json

definition update_of :: "catalog_item_input \<Rightarrow> int \<Rightarrow> catalog_item_update" where
  "update_of r version = \<lparr>cu_name = Some (cin_name r), cu_description = cin_description r, cu_type = Some (cin_type r),
     cu_price = Some (cin_price r), cu_durationMinutes = cin_durationMinutes r, cu_requiresResource = cin_requiresResource r,
     cu_version = version\<rparr>"

fun form_http :: "form_request \<Rightarrow> http_request" where
  "form_http (Create_item r) = catalogApi_create r"
| "form_http (Update_item i r) = catalogApi_update i r"
| "form_http (Upload_image i file) = catalogApi_uploadImage i file"

definition form_finally :: "catalog_form \<Rightarrow> catalog_form" where
  "form_finally f = f\<lparr>fm_inFlight := False, fm_busy := False\<rparr>"

definition form_finish :: "catalog_form \<Rightarrow> catalog_form" where
  "form_finish f = form_finally (f\<lparr>fm_closed := True\<rparr>)"

definition form_submit :: "catalog_item option \<Rightarrow> bool \<Rightarrow> catalog_form \<Rightarrow> catalog_form \<times> form_request option" where
  \<comment> \<open>up to the first await; without a request the form is done\<close>
  "form_submit item imageOnly f =
     (if fm_inFlight f then (f, None)
      else if imageOnly \<and> fm_image f = None then (f\<lparr>fm_imageIssue := ''Izaberite sliku za slanje.''\<rparr>, None)
      else let g = f\<lparr>fm_inFlight := True, fm_busy := True, fm_error := '''', fm_imageError := ''''\<rparr> in
        case fm_persisted f of
          Some saved \<Rightarrow> if fm_imageIssue f \<noteq> '''' then (f, None)
            else (case fm_image f of Some file \<Rightarrow> (g, Some (Upload_image saved file)) | None \<Rightarrow> (form_finish g, None))
        | None \<Rightarrow> (case catalogItemSchema (fm_form f) of
            None \<Rightarrow> (f, None)
          | Some r \<Rightarrow> if fm_imageIssue f \<noteq> '''' then (f, None)
              else (g, Some (case item of Some i \<Rightarrow> Update_item (ci_id i) (update_of r (ci_version i)) | None \<Rightarrow> Create_item r))))"

definition item_saved :: "catalog_item \<Rightarrow> catalog_form \<Rightarrow> catalog_form \<times> form_request option" where
  \<comment> \<open>the item was created or changed; the chosen image follows\<close>
  "item_saved saved f = (let g = f\<lparr>fm_persisted := Some saved\<rparr> in case fm_image f of
     Some file \<Rightarrow> (g, Some (Upload_image saved file)) | None \<Rightarrow> (form_finish g, None))"

definition image_saved :: "catalog_item \<Rightarrow> catalog_form \<Rightarrow> catalog_form" where
  "image_saved saved f = form_finish (f\<lparr>fm_persisted := Some saved\<rparr>)"

definition form_failed :: "cause \<Rightarrow> catalog_form \<Rightarrow> catalog_form" where
  "form_failed e f = form_finally (if fm_persisted f \<noteq> None
     then f\<lparr>fm_imageError := apiErrorMessage e (sr ''Slanje slike nije potvr~deno.'')\<rparr>
     else f\<lparr>fm_error := apiErrorMessage e (sr ''Stavku nije mogu~qe sa~cuvati.'')\<rparr>)"

definition refreshVersion :: "catalog_form \<Rightarrow> catalog_form \<times> http_request option" where
  "refreshVersion f = (case fm_persisted f of
     Some i \<Rightarrow> if fm_inFlight f then (f, None) else (f\<lparr>fm_inFlight := True, fm_busy := True\<rparr>, Some (catalogApi_get (ci_id i)))
   | None \<Rightarrow> (f, None))"

definition version_refreshed :: "cause + catalog_item \<Rightarrow> catalog_form \<Rightarrow> catalog_form" where
  "version_refreshed r f = form_finally (case r of
     Inr i \<Rightarrow> f\<lparr>fm_persisted := Some i,
       fm_imageError := sr ''Verzija je osve~zena. Proverite trenutnu sliku pre ponovnog slanja izabranog fajla.''\<rparr>
   | Inl e \<Rightarrow> f\<lparr>fm_imageError := apiErrorMessage e (sr ''Verziju stavke nije mogu~qe osve~ziti.'')\<rparr>)"

subsection \<open>An item is saved once\<close>

text \<open>
  The dialog with the requests it has sent. Nothing here keeps two requests from being on their way at once: every
  submission adds its own, and any of them may be answered next.
\<close>

record form_run =
  fr_form :: catalog_form
  fr_pending :: "form_request list" \<comment> \<open>the requests on their way\<close>
  fr_reads :: nat \<comment> \<open>calls of \<open>refreshVersion\<close> that wait for their answer\<close>
  fr_saves :: nat \<comment> \<open>creations and changes the server confirmed\<close>

fun saves_item :: "form_request \<Rightarrow> bool" where
  "saves_item (Upload_image i file) = False"
| "saves_item _ = True"

inductive form_step :: "catalog_item option \<Rightarrow> bool \<Rightarrow> form_run \<Rightarrow> form_run \<Rightarrow> bool" for item imageOnly where
  submitted: "\<not> fm_closed (fr_form r) \<Longrightarrow> form_submit item imageOnly (fr_form r) = (g, Some rq) \<Longrightarrow>
    form_step item imageOnly r (r\<lparr>fr_form := g, fr_pending := rq # fr_pending r\<rparr>)"
| declined: "\<not> fm_closed (fr_form r) \<Longrightarrow> form_submit item imageOnly (fr_form r) = (g, None) \<Longrightarrow>
    form_step item imageOnly r (r\<lparr>fr_form := g\<rparr>)"
| saved: "rq \<in> set (fr_pending r) \<Longrightarrow> saves_item rq \<Longrightarrow> item_saved i (fr_form r) = (g, rq') \<Longrightarrow>
    form_step item imageOnly r (r\<lparr>fr_form := g,
      fr_pending := (case rq' of Some upload \<Rightarrow> [upload] | None \<Rightarrow> []) @ remove1 rq (fr_pending r), fr_saves := Suc (fr_saves r)\<rparr>)"
| uploaded: "Upload_image i' file \<in> set (fr_pending r) \<Longrightarrow> form_step item imageOnly r
    (r\<lparr>fr_form := image_saved i (fr_form r), fr_pending := remove1 (Upload_image i' file) (fr_pending r)\<rparr>)"
| failed: "rq \<in> set (fr_pending r) \<Longrightarrow>
    form_step item imageOnly r (r\<lparr>fr_form := form_failed e (fr_form r), fr_pending := remove1 rq (fr_pending r)\<rparr>)"
| reading: "refreshVersion (fr_form r) = (g, Some q) \<Longrightarrow>
    form_step item imageOnly r (r\<lparr>fr_form := g, fr_reads := Suc (fr_reads r)\<rparr>)"
| read: "0 < fr_reads r \<Longrightarrow>
    form_step item imageOnly r (r\<lparr>fr_form := version_refreshed a (fr_form r), fr_reads := fr_reads r - 1\<rparr>)"
| typed: "\<not> form_frozen (fr_form r) \<Longrightarrow> form_step item imageOnly r (r\<lparr>fr_form := (fr_form r)\<lparr>fm_form := v\<rparr>\<rparr>)"
| chosen: "form_step item imageOnly r (r\<lparr>fr_form := chooseImage issue file (fr_form r)\<rparr>)"
| removed: "form_step item imageOnly r (r\<lparr>fr_form := removeChosenImage (fr_form r)\<rparr>)"

definition form_opened :: "catalog_item option \<Rightarrow> item_type \<Rightarrow> bool \<Rightarrow> form_run" where
  "form_opened item initialType imageOnly =
     \<lparr>fr_form = form_open item initialType imageOnly, fr_pending = [], fr_reads = 0, fr_saves = 0\<rparr>"

inductive form_reachable :: "catalog_item option \<Rightarrow> item_type \<Rightarrow> bool \<Rightarrow> form_run \<Rightarrow> bool" for item initialType imageOnly where
  opened: "form_reachable item initialType imageOnly (form_opened item initialType imageOnly)"
| step: "form_reachable item initialType imageOnly r \<Longrightarrow> form_step item imageOnly r r' \<Longrightarrow>
    form_reachable item initialType imageOnly r'"

definition saving_requests :: "form_run \<Rightarrow> form_request list" where
  \<comment> \<open>the requests on their way that create or change the item\<close>
  "saving_requests r = filter saves_item (fr_pending r)"

definition form_ok :: "form_run \<Rightarrow> bool" where
  "form_ok r \<longleftrightarrow> length (fr_pending r) + fr_reads r \<le> 1
     \<and> (0 < length (fr_pending r) + fr_reads r \<longrightarrow> fm_inFlight (fr_form r))
     \<and> fr_saves r \<le> 1 \<and> (fr_saves r = 1 \<longrightarrow> fm_persisted (fr_form r) \<noteq> None)
     \<and> (0 < fr_reads r \<longrightarrow> fm_persisted (fr_form r) \<noteq> None)
     \<and> (saving_requests r \<noteq> [] \<longrightarrow> fm_persisted (fr_form r) = None)"

lemma only_request: "form_ok r \<Longrightarrow> rq \<in> set (fr_pending r) \<Longrightarrow> fr_pending r = [rq] \<and> fr_reads r = 0"
  by (cases "fr_pending r") (auto simp: form_ok_def)

lemma form_submit_request:
  "form_submit item imageOnly f = (g, Some rq) \<Longrightarrow> \<not> fm_inFlight f \<and> fm_inFlight g \<and> fm_persisted g = fm_persisted f
     \<and> (saves_item rq \<longrightarrow> fm_persisted f = None)"
  by (auto simp: form_submit_def Let_def split: if_splits option.splits)

lemma form_submit_none:
  "form_submit item imageOnly f = (g, None) \<Longrightarrow> fm_persisted g = fm_persisted f \<and> (fm_inFlight f \<longrightarrow> fm_inFlight g)"
  by (auto simp: form_submit_def form_finish_def form_finally_def Let_def split: if_splits option.splits)

lemma item_saved_request:
  "item_saved i f = (g, q) \<Longrightarrow> fm_persisted g = Some i \<and> (q \<noteq> None \<longrightarrow> fm_inFlight g = fm_inFlight f)
     \<and> (\<forall>rq. q = Some rq \<longrightarrow> \<not> saves_item rq)"
  by (auto simp: item_saved_def form_finish_def form_finally_def Let_def split: option.splits)

lemmas form_answers = image_saved_def form_failed_def form_finish_def form_finally_def version_refreshed_def chooseImage_def
  removeChosenImage_def form_frozen_def refreshVersion_def

lemma form_step_ok:
  assumes "form_step item imageOnly r r'" and "form_ok r"
  shows "form_ok r'"
  using assms
proof cases
  case (submitted g rq)
  with form_submit_request [OF submitted(3)] assms(2) show ?thesis by (auto simp: form_ok_def saving_requests_def)
next
  case (declined g)
  with form_submit_none [OF declined(3)] assms(2) show ?thesis by (auto simp: form_ok_def saving_requests_def)
next
  case (saved rq i g rq')
  with item_saved_request [OF saved(4)] only_request [OF assms(2) saved(2)] assms(2) show ?thesis
    by (cases rq') (auto simp: form_ok_def saving_requests_def)
next
  case (uploaded i' chosen_file i)
  with only_request [OF assms(2) uploaded(2)] assms(2) show ?thesis
    by (auto simp: form_ok_def saving_requests_def form_answers)
next
  case (failed rq e)
  with only_request [OF assms(2) failed(2)] assms(2) show ?thesis
    by (auto simp: form_ok_def saving_requests_def form_answers)
next
  case (read a)
  then have "fr_reads r = 1" "fr_pending r = []" using assms(2) by (cases "fr_pending r"; auto simp: form_ok_def)+
  with read assms(2) show ?thesis
    by (auto simp: form_ok_def saving_requests_def form_answers split: sum.splits)
qed (auto simp: form_ok_def saving_requests_def form_answers split: if_splits option.splits sum.splits)

subsection \<open>The list of the catalog\<close>

record catalog_url =
  cg_page :: string
  cg_size :: string
  cg_type :: string
  cg_active :: string
  cg_deleted :: string
  cg_search :: string
  cg_minPrice :: string
  cg_maxPrice :: string
  cg_sort :: string
  cg_direction :: string

record catalog_permissions =
  cp_manage :: bool
  cp_remove :: bool
  cp_restore :: bool
  cp_order :: bool

definition catalog_permissions_of :: "auth_user option \<Rightarrow> catalog_permissions" where
  "catalog_permissions_of user = \<lparr>cp_manage = hasCapability user CATALOG_MANAGE, cp_remove = hasCapability user CATALOG_DELETE,
     cp_restore = hasCapability user CATALOG_RESTORE, cp_order = hasCapability user ORDER_CREATE\<rparr>"

definition catalog_page_number :: "(string \<Rightarrow> jsnum) \<Rightarrow> string \<Rightarrow> nat" where
  "catalog_page_number to_number v = (case to_number v of
     Num r \<Rightarrow> if r \<le> 2147483647 then nat \<lfloor>r\<rfloor> else 0 | _ \<Rightarrow> 0)"

definition catalog_size :: "(string \<Rightarrow> jsnum) \<Rightarrow> string \<Rightarrow> nat" where
  "catalog_size to_number v = (case find (\<lambda>n. to_number v = Num (of_nat n)) [9, 24, 48, 10, 20, 50, 100] of Some n \<Rightarrow> n | None \<Rightarrow> 10)"

definition catalog_active :: "catalog_permissions \<Rightarrow> string \<Rightarrow> bool option" where
  "catalog_active p v = (if cp_manage p \<and> v = ''true'' then Some True else if cp_manage p \<and> v = ''false'' then Some False else None)"

definition price_bound :: "(string \<Rightarrow> jsnum) \<Rightarrow> string \<Rightarrow> jsnum option" where
  "price_bound to_number v = (if v = '''' then None else Some (to_number v))"

definition bad_price :: "jsnum option \<Rightarrow> bool" where
  "bad_price v \<longleftrightarrow> (case v of None \<Rightarrow> False | Some (Num r) \<Rightarrow> r < 0 | Some _ \<Rightarrow> True)"

definition priceError :: "jsnum option \<Rightarrow> jsnum option \<Rightarrow> string" where
  "priceError lo hi = (if bad_price lo \<or> bad_price hi then ''Cena mora biti validan broj koji nije negativan.''
     else case (lo, hi) of
       (Some (Num a), Some (Num b)) \<Rightarrow> if b < a then sr ''Minimalna cena ne mo~ze biti ve~qa od maksimalne.'' else ''''
     | _ \<Rightarrow> '''')"

definition known_price :: "jsnum option \<Rightarrow> rat option" where
  "known_price v = (case v of Some (Num r) \<Rightarrow> Some r | _ \<Rightarrow> None)"

definition catalog_page_filters :: "(string \<Rightarrow> jsnum) \<Rightarrow> catalog_permissions \<Rightarrow> string \<Rightarrow> catalog_url \<Rightarrow> catalog_filters" where
  \<comment> \<open>\<open>search\<close> is the text the delayed effect has taken over; the bounds are used without a price error only\<close>
  "catalog_page_filters to_number p search u = \<lparr>cf_page = catalog_page_number to_number (cg_page u), cf_size = catalog_size to_number (cg_size u),
     cf_type = Some (if cg_type u = ''PRODUCT'' then PRODUCT else SERVICE), cf_active = catalog_active p (cg_active u),
     cf_search = (if search = '''' then None else Some search),
     cf_minPrice = known_price (price_bound to_number (cg_minPrice u)), cf_maxPrice = known_price (price_bound to_number (cg_maxPrice u)),
     cf_sort = Some (if List.member [''name'', ''price'', ''createdAt'', ''type''] (cg_sort u) then cg_sort u else ''name''),
     cf_direction = Some (if cg_direction u = ''DESC'' then ''DESC'' else ''ASC'')\<rparr>"

definition catalog_list_request :: "(string \<Rightarrow> jsnum) \<Rightarrow> auth_user option \<Rightarrow> string \<Rightarrow> catalog_url \<Rightarrow> http_request option" where
  "catalog_list_request to_number user search u = (let p = catalog_permissions_of user; f = catalog_page_filters to_number p search u in
     if \<not> hasCapability user CATALOG_READ \<or> search \<noteq> trim (cg_search u)
       \<or> priceError (price_bound to_number (cg_minPrice u)) (price_bound to_number (cg_maxPrice u)) \<noteq> '''' then None
     else if cp_restore p \<and> cg_deleted u = ''true'' then Some (catalogApi_deleted (cf_page f) (cf_size f) (Some f))
     else Some (catalogApi_list f))"

definition last_page :: "nat \<Rightarrow> nat \<Rightarrow> nat option" where
  \<comment> \<open>the page to go to instead\<close>
  "last_page page totalPages = (if totalPages - 1 < page then Some (totalPages - 1) else None)"

subsection \<open>Actions on the catalog\<close>

datatype catalog_action = K_DETAILS | K_EDIT | K_IMAGE | K_ACTIVATE | K_DEACTIVATE | K_DELETE | K_RESTORE

record catalog_workspace =
  cw_chosen :: "catalog_item option"
  cw_form :: "(catalog_item option \<times> bool) option"
  cw_selected :: "string list"
  cw_busyId :: string
  cw_inFlight :: bool
  cw_bulkPending :: bool
  cw_summary :: string
  cw_failures :: "(string \<times> string \<times> string) list"

definition catalog_busy :: "catalog_workspace \<Rightarrow> bool" where
  "catalog_busy w \<longleftrightarrow> cw_busyId w \<noteq> '''' \<or> cw_bulkPending w"

definition item_deleted :: "catalog_item \<Rightarrow> bool" where
  "item_deleted i \<longleftrightarrow> truthy (ci_deletedAt i)"

fun catalog_permits :: "catalog_permissions \<Rightarrow> catalog_item \<Rightarrow> catalog_action \<Rightarrow> bool" where
  "catalog_permits p i K_DETAILS \<longleftrightarrow> True"
| "catalog_permits p i K_DELETE \<longleftrightarrow> cp_remove p \<and> \<not> item_deleted i"
| "catalog_permits p i K_RESTORE \<longleftrightarrow> cp_restore p \<and> item_deleted i"
| "catalog_permits p i k \<longleftrightarrow> cp_manage p \<and> \<not> item_deleted i"

datatype catalog_asks = Nothing_asked | Details_shown | Form_opened | Confirmation_asked

definition catalog_act :: "catalog_permissions \<Rightarrow> catalog_item \<Rightarrow> catalog_action \<Rightarrow> catalog_workspace \<Rightarrow> catalog_workspace \<times> catalog_asks" where
  "catalog_act p i k w =
     (if k = K_DETAILS then (w\<lparr>cw_chosen := Some i\<rparr>, Details_shown)
      else if catalog_busy w \<or> cw_inFlight w \<or> \<not> catalog_permits p i k then (w, Nothing_asked)
      else if k = K_EDIT \<or> k = K_IMAGE then (w\<lparr>cw_form := Some (Some i, k = K_IMAGE)\<rparr>, Form_opened)
      else (w, Confirmation_asked))"

fun catalog_request :: "catalog_item \<Rightarrow> catalog_action \<Rightarrow> string \<Rightarrow> http_request" where
  "catalog_request i K_DELETE reason = catalogApi_remove (ci_id i) reason"
| "catalog_request i K_RESTORE reason = catalogApi_restore (ci_id i)"
| "catalog_request i K_ACTIVATE reason = catalogApi_activate i"
| "catalog_request i k reason = catalogApi_deactivate i"

definition catalog_confirmed :: "catalog_item \<Rightarrow> catalog_action \<Rightarrow> string \<Rightarrow> catalog_workspace \<Rightarrow> catalog_workspace \<times> (string + http_request)" where
  "catalog_confirmed i k reason w =
     (if cw_inFlight w then (w, Inl (sr ''Sa~cekajte zavr~setak prethodne akcije.''))
      else (w\<lparr>cw_inFlight := True, cw_busyId := ci_id i\<rparr>, Inr (catalog_request i k reason)))"

definition catalog_finally :: "catalog_workspace \<Rightarrow> catalog_workspace" where
  "catalog_finally w = w\<lparr>cw_inFlight := False, cw_busyId := ''''\<rparr>"

definition remember :: "catalog_item \<Rightarrow> catalog_workspace \<Rightarrow> catalog_workspace" where
  "remember i w = (case cw_chosen w of
     Some c \<Rightarrow> if ci_id c = ci_id i then w\<lparr>cw_chosen := Some i\<rparr> else w | None \<Rightarrow> w)"

definition forget_item :: "string \<Rightarrow> catalog_workspace \<Rightarrow> catalog_workspace" where
  "forget_item i w = (case cw_chosen w of
     Some c \<Rightarrow> if ci_id c = i then w\<lparr>cw_chosen := None\<rparr> else w | None \<Rightarrow> w)"

definition catalog_succeeded :: "catalog_item \<Rightarrow> catalog_item option \<Rightarrow> catalog_workspace \<Rightarrow> catalog_workspace" where
  \<comment> \<open>the item the server answered, None for a deletion\<close>
  "catalog_succeeded i answer w = (let v = (case answer of Some a \<Rightarrow> remember a w | None \<Rightarrow> forget_item (ci_id i) w)
     in catalog_finally (v\<lparr>cw_selected := filter (\<lambda>s. s \<noteq> ci_id i) (cw_selected v)\<rparr>))"

definition visibleSelected :: "catalog_item list \<Rightarrow> string list \<Rightarrow> catalog_item list" where
  "visibleSelected content selected = filter (\<lambda>i. ci_id i \<in> set selected \<and> \<not> item_deleted i) content"

definition catalog_openBulk ::
  "catalog_permissions \<Rightarrow> bool \<Rightarrow> catalog_item list \<Rightarrow> catalog_workspace \<Rightarrow> (bulk_item list \<times> (string \<times> string) list) option" where
  \<comment> \<open>the items and their names that the confirmation keeps\<close>
  "catalog_openBulk p showDeleted content w = (let vs = visibleSelected content (cw_selected w) in
     if \<not> cp_manage p \<or> showDeleted \<or> catalog_busy w \<or> vs = [] then None
     else Some (map (\<lambda>i. \<lparr>bi_id = ci_id i, bi_version = ci_version i\<rparr>) vs, map (\<lambda>i. (ci_id i, ci_name i)) vs))"

definition catalog_bulk_start :: "bool \<Rightarrow> bulk_item list \<Rightarrow> catalog_workspace \<Rightarrow> catalog_workspace \<times> http_request" where
  "catalog_bulk_start activate items w = (w\<lparr>cw_bulkPending := True\<rparr>, catalogApi_bulkActivation activate items)"

definition catalog_bulk_succeeded :: "(string \<times> string) list \<Rightarrow> bulk_operation_response \<Rightarrow> catalog_workspace \<Rightarrow> catalog_workspace" where
  "catalog_bulk_succeeded names r w = w\<lparr>cw_bulkPending := False, cw_selected := [],
     cw_summary := show_nat (br_succeeded r) @ sr '' uspe~sno, '' @ show_nat (br_failed r) @ sr '' neuspe~sno od '' @ show_nat (br_requested r) @ '' stavki.'',
     cw_failures := map (\<lambda>b. (bo_id b, case map_of (rev names) (bo_id b) of Some n \<Rightarrow> n | None \<Rightarrow> bo_id b, bo_message b))
       (filter (\<lambda>b. \<not> bo_success b) (br_outcomes r))\<rparr>"

definition catalog_metrics :: "bool \<Rightarrow> catalog_statistics option \<Rightarrow> (string \<times> nat option) list" where
  "catalog_metrics manage stats = (let administrative = (case stats of Some s \<Rightarrow> cst_administrative s | None \<Rightarrow> False);
       value = (\<lambda>f. Option.bind stats f) in
     if manage \<and> administrative \<or> manage \<and> stats = None then
       [(''Ukupno usluga'', value (Some \<circ> cst_serviceCount)), (''Aktivne usluge'', value (Some \<circ> cst_activeServiceCount)),
        (''Proizvodi'', value (Some \<circ> cst_productCount)), (''Neaktivne stavke'', value cst_inactiveCount)]
     else [(''Dostupne usluge'', value (Some \<circ> cst_serviceCount)), (''Dostupni proizvodi'', value (Some \<circ> cst_productCount))])"

subsection \<open>Customers\<close>

record customers_page =
  cm_editing :: "customer_list_item option"
  cm_deactivating :: "customer_list_item option"
  cm_session :: "customer_list_item option"
  cm_busy :: bool
  cm_startBusy :: bool
  cm_error :: string
  cm_deactivationError :: string
  cm_inFlight :: bool
  cm_startInFlight :: bool

definition customers_page_number :: "(string \<Rightarrow> jsnum) \<Rightarrow> string \<Rightarrow> nat" where
  "customers_page_number to_number v = (case to_number v of Num r \<Rightarrow> nat (trunc r) | _ \<Rightarrow> 0)"

definition customers_list_request :: "(string \<Rightarrow> jsnum) \<Rightarrow> auth_user option \<Rightarrow> string \<Rightarrow> string \<Rightarrow> string \<Rightarrow> string \<Rightarrow> string \<Rightarrow> http_request option" where
  \<comment> \<open>\<open>search\<close> is what the delayed effect has taken over of \<open>typed\<close>\<close>
  "customers_list_request to_number user search typed active page sz =
     (if \<not> hasCapability user CUSTOMER_READ \<or> search \<noteq> typed then None
      else Some (customerApi_list (if trim search = '''' then None else Some (trim search))
        (if active = '''' then None else Some (active = ''true'')) (customers_page_number to_number page)
        (case find (\<lambda>n. to_number sz = Num (of_nat n)) [10, 20, 50, 100] of Some n \<Rightarrow> n | None \<Rightarrow> 10)))"

definition customer_edit :: "auth_user option \<Rightarrow> customer_list_item \<Rightarrow> customers_page \<Rightarrow> customers_page" where
  "customer_edit user c p = (if hasCapability user CUSTOMER_UPDATE_LIMITED then p\<lparr>cm_editing := Some c\<rparr> else p)"

definition customer_deactivate :: "auth_user option \<Rightarrow> customer_list_item \<Rightarrow> customers_page \<Rightarrow> customers_page" where
  "customer_deactivate user c p = (if \<not> hasCapability user CUSTOMER_DEACTIVATE \<or> \<not> cli_active c then p
     else p\<lparr>cm_deactivationError := '''', cm_deactivating := Some c\<rparr>)"

datatype start_plan = Start_ignored | Check_visits http_request | Start_now

definition customer_start :: "auth_user option \<Rightarrow> customer_list_item \<Rightarrow> customers_page \<Rightarrow> customers_page \<times> start_plan" where
  "customer_start user c p =
     (if \<not> hasCapability user GAMING_SESSION_START \<or> \<not> cli_active c \<or> cm_startInFlight p then (p, Start_ignored)
      else let q = p\<lparr>cm_startInFlight := True, cm_startBusy := True, cm_error := ''''\<rparr> in
        if hasCapability user GAMING_SESSION_READ then (q, Check_visits (gamingSessionApi_customerVisits (cli_id c)))
        else (q\<lparr>cm_session := Some c, cm_startInFlight := False, cm_startBusy := False\<rparr>, Start_now))"

definition visits_checked :: "customer_list_item \<Rightarrow> cause + gaming_session_visit list \<Rightarrow> customers_page \<Rightarrow> customers_page" where
  "visits_checked c r p = (let q = (case r of
       Inr vs \<Rightarrow> if list_ex (\<lambda>v. gv_status v = G_ACTIVE) vs
         then p\<lparr>cm_error := sr ''Klijent ve~q ima aktivnu gaming sesiju. Otvorite njegov profil za pregled.''\<rparr>
         else p\<lparr>cm_session := Some c\<rparr>
     | Inl e \<Rightarrow> p\<lparr>cm_error := apiErrorMessage e (sr ''Gaming sesije klijenta nije mogu~qe proveriti.'')\<rparr>)
     in q\<lparr>cm_startInFlight := False, cm_startBusy := False\<rparr>)"

definition deactivateCustomer :: "auth_user option \<Rightarrow> customers_page \<Rightarrow> customers_page \<times> http_request option" where
  "deactivateCustomer user p = (case cm_deactivating p of None \<Rightarrow> (p, None)
   | Some c \<Rightarrow> if \<not> hasCapability user CUSTOMER_DEACTIVATE \<or> \<not> cli_active c \<or> cm_inFlight p then (p, None)
       else (p\<lparr>cm_inFlight := True, cm_busy := True, cm_deactivationError := ''''\<rparr>, Some (customerApi_deactivate (cli_id c))))"

definition customer_deactivated :: "cause option \<Rightarrow> customers_page \<Rightarrow> customers_page" where
  "customer_deactivated failure p = (case failure of
     None \<Rightarrow> p\<lparr>cm_deactivating := None, cm_inFlight := False, cm_busy := False\<rparr>
   | Some e \<Rightarrow> p\<lparr>cm_deactivationError := apiErrorMessage e (sr ''Klijenta nije mogu~qe deaktivirati.''), cm_inFlight := False, cm_busy := False\<rparr>)"

subsection \<open>Properties\<close>

lemma form_reachable_ok: "form_reachable item initialType imageOnly r \<Longrightarrow> form_ok r"
proof (induction rule: form_reachable.induct)
  case opened
  show ?case by (simp add: form_ok_def form_opened_def form_open_def saving_requests_def)
next
  case (step r r')
  from step.hyps(2) step.IH show ?case by (rule form_step_ok)
qed

text \<open>
  Property C36: the dialog of the catalog creates or changes the item once. However often and however fast it is
  submitted, whatever is typed, chosen or read again in between, and in whatever order the answers arrive, the
  requests on their way that create or change the item and the ones the server has confirmed are together at most
  one: a second click sends no second creation, and sending an image again never repeats the creation.
\<close>
theorem item_is_saved_once:
  assumes "form_reachable item initialType imageOnly r"
  shows "length (saving_requests r) + fr_saves r \<le> 1"
proof -
  have "form_ok r" using assms by (rule form_reachable_ok)
  moreover have "length (saving_requests r) \<le> length (fr_pending r)" by (simp add: saving_requests_def)
  ultimately have "length (saving_requests r) \<le> 1" "saving_requests r = [] \<or> fr_saves r = 0" "fr_saves r \<le> 1"
    by (auto simp: form_ok_def)
  then show ?thesis by auto
qed

definition sample_input :: catalog_item_input where
  "sample_input = \<lparr>cin_name = ''Sok'', cin_description = None, cin_type = PRODUCT, cin_price = 5 / 2, cin_durationMinutes = None,
     cin_requiresResource = None\<rparr>"

definition sample_saved :: catalog_item where
  "sample_saved = \<lparr>ci_id = ''p'', ci_name = ''Sok'', ci_description = None, ci_type = PRODUCT, ci_price = 5 / 2, ci_durationMinutes = None,
     ci_requiresResource = None, ci_active = True, ci_imageUrl = None, ci_createdAt = '''', ci_updatedAt = '''', ci_version = 0,
     ci_deletedAt = None, ci_deletedBy = None, ci_deletionReason = None\<rparr>"

theorem item_is_saved_once_witness:
  "\<exists>r r'. form_reachable None PRODUCT False r \<and> saving_requests r = [Create_item sample_input]
     \<and> form_reachable None PRODUCT False r' \<and> fr_saves r' = 1 \<and> saving_requests r' = []"
proof -
  define r0 where "r0 = form_opened None PRODUCT False"
  define r1 where "r1 = r0\<lparr>fr_form := (fr_form r0)\<lparr>fm_form := sample_input\<rparr>\<rparr>"
  have r1: "form_reachable None PRODUCT False r1" unfolding r1_def r0_def
    by (intro form_reachable.step [OF form_reachable.opened] form_step.typed) (simp add: form_frozen_def form_opened_def form_open_def)
  obtain g where g: "form_submit None False (fr_form r1) = (g, Some (Create_item sample_input))"
    by (simp add: r1_def r0_def form_opened_def form_submit_def form_open_def catalogItemSchema_def sample_input_def two_decimals_def
        trim_def is_space_def unit_of_def)
  define r2 where "r2 = r1\<lparr>fr_form := g, fr_pending := Create_item sample_input # fr_pending r1\<rparr>"
  obtain h q where h: "item_saved sample_saved g = (h, q)" by (metis surj_pair)
  have "form_step None False r1 r2" unfolding r2_def
    using g by (intro form_step.submitted) (simp_all add: r1_def r0_def form_opened_def form_open_def)
  with r1 have r2: "form_reachable None PRODUCT False r2" by (rule form_reachable.step)
  let ?r3 = "r2\<lparr>fr_form := h, fr_pending := (case q of Some upload \<Rightarrow> [upload] | None \<Rightarrow> []) @ remove1 (Create_item sample_input) (fr_pending r2),
     fr_saves := Suc (fr_saves r2)\<rparr>"
  have "form_step None False r2 ?r3"
    by (rule form_step.saved [where i = sample_saved]) (simp_all add: r2_def h)
  with r2 have r3: "form_reachable None PRODUCT False ?r3" by (rule form_reachable.step)
  have "fr_pending r1 = []" "fr_saves r2 = 0" by (simp_all add: r2_def r1_def r0_def form_opened_def)
  then have "saving_requests r2 = [Create_item sample_input]" "fr_saves ?r3 = 1"
    by (simp_all add: saving_requests_def r2_def)
  moreover from this item_is_saved_once [OF r3] have "saving_requests ?r3 = []" by simp
  ultimately show ?thesis using r2 r3 by blast
qed

lemma accepted_items_are_sound: "catalogItemSchema v = Some w \<Longrightarrow> 0 < cin_price w \<and> two_decimals (cin_price w)
   \<and> (cin_type w = SERVICE \<longleftrightarrow> cin_durationMinutes w \<noteq> None)"
  by (cases "cin_type v") (auto simp: catalogItemSchema_def Let_def split: if_splits)

lemma catalog_acts_once: "snd (catalog_confirmed i k reason w) = Inr q \<Longrightarrow> \<not> cw_inFlight w"
  by (auto simp: catalog_confirmed_def split: if_splits)

end
