(* ===== verification/OrderPages.thy ===== *)
theory OrderPages
  imports Cart Dashboard
begin

section \<open>The order pages\<close>

text \<open>
  Models the handlers of \<open>pages/OrdersPage.tsx\<close>, \<open>order/useOrderActionConfirmation.tsx\<close> and
  \<open>pages/MyOrdersPage.tsx\<close>. A bulk action of the staff page sends exactly the selected orders, each shown,
  and permitted for the new status; the customer's page builds on the cart of theory \<open>Cart\<close>.
\<close>

subsection \<open>The staff page: filters\<close>

record orders_url =
  ou_page :: string
  ou_size :: string
  ou_status :: string
  ou_handledBy :: string
  ou_from :: string
  ou_to :: string
  ou_search :: string
  ou_sort :: string
  ou_direction :: string
  ou_focus :: string

definition hex_char :: "char \<Rightarrow> bool" where
  "hex_char c \<longleftrightarrow> is_digit c \<or> CHR ''a'' \<le> c \<and> c \<le> CHR ''f''"

definition is_uuid :: "string \<Rightarrow> bool" where
  "is_uuid s \<longleftrightarrow> (let parts = split_on CHR ''-'' (to_lower s)
     in map length parts = [8, 4, 4, 4, 12] \<and> list_all (list_all hex_char) parts)"

definition orders_dateError :: "platform \<Rightarrow> orders_url \<Rightarrow> string" where
  "orders_dateError P u = (if \<not> validOrderDate P (ou_from u) \<or> \<not> validOrderDate P (ou_to u) then ''Unesite ispravne datume perioda.''
     else if ou_from u \<noteq> '''' \<and> ou_to u \<noteq> '''' \<and> text_less (ou_to u) (ou_from u)
     then sr ''Datum po~cetka ne mo~ze biti posle datuma zavr~setka.'' else '''')"

definition orders_filterError :: "platform \<Rightarrow> orders_url \<Rightarrow> string" where
  "orders_filterError P u = (if orders_dateError P u \<noteq> '''' then orders_dateError P u
     else if ou_handledBy u \<noteq> '''' \<and> \<not> is_uuid (ou_handledBy u) then ''Izabrani zaposleni nije ispravan.''
     else if 200 < js_length (ou_search u) then sr ''Pretraga mo~ze imati najvi~se 200 znakova.'' else '''')"

definition orders_page_number :: "string \<Rightarrow> nat" where
  "orders_page_number v = (if v \<noteq> '''' \<and> list_all is_digit v then min (read_nat v) 2147483647 else 0)"

definition order_status_of :: "string \<Rightarrow> order_status option" where
  "order_status_of v = find (\<lambda>s. order_status_text s = v) [O_CREATED, O_IN_PROGRESS, O_READY, O_COMPLETED, O_CANCELLED]"

definition non_empty :: "string \<Rightarrow> string option" where
  "non_empty v = (if v = '''' then None else Some v)"

definition page_size_of :: "(string \<Rightarrow> jsnum) \<Rightarrow> string \<Rightarrow> nat" where
  "page_size_of to_number v = (case find (\<lambda>n. to_number v = Num (of_nat n)) [10, 20, 50, 100] of Some n \<Rightarrow> n | None \<Rightarrow> 10)"

definition orders_page_filters :: "(string \<Rightarrow> jsnum) \<Rightarrow> string \<Rightarrow> orders_url \<Rightarrow> order_filters" where
  \<comment> \<open>\<open>search\<close> is what the delayed effect has taken over\<close>
  "orders_page_filters to_number search u = \<lparr>of_page = orders_page_number (ou_page u), of_size = page_size_of to_number (ou_size u),
     of_status = order_status_of (ou_status u), of_handledBy = non_empty (ou_handledBy u), of_from = non_empty (ou_from u),
     of_to = non_empty (ou_to u), of_search = non_empty (trim search),
     of_sort = Some (if List.member [''createdAt'', ''updatedAt'', ''status'', ''totalPrice''] (ou_sort u) then ou_sort u else ''createdAt''),
     of_direction = Some (if ou_direction u = ''ASC'' then ''ASC'' else ''DESC'')\<rparr>"

definition orders_list_request :: "platform \<Rightarrow> (string \<Rightarrow> jsnum) \<Rightarrow> auth_user option \<Rightarrow> string \<Rightarrow> orders_url \<Rightarrow> http_request option" where
  "orders_list_request P to_number user search u =
     (if hasCapability user ORDER_READ_ALL \<and> orders_filterError P u = '''' \<and> search = ou_search u
      then Some (orderApi_list (orders_page_filters to_number search u)) else None)"

definition orders_statistics_request :: "platform \<Rightarrow> auth_user option \<Rightarrow> orders_url \<Rightarrow> http_request option" where
  "orders_statistics_request P user u =
     (if hasCapability user ORDER_READ_ALL \<and> orders_dateError P u = '''' \<and> (ou_handledBy u = '''' \<or> is_uuid (ou_handledBy u))
      then Some (orderApi_statistics (non_empty (ou_from u)) (non_empty (ou_to u)) (non_empty (ou_handledBy u))) else None)"

definition orders_detail_id :: "orders_url \<Rightarrow> string" where
  "orders_detail_id u = (if is_uuid (ou_focus u) then ou_focus u else '''')"

subsection \<open>The staff page: actions\<close>

record orders_workspace =
  ow_selected :: "string set"
  ow_bulkResult :: "bulk_operation_response option"
  ow_inFlight :: bool
  ow_transition :: bool \<comment> \<open>\<open>transition.isPending\<close>\<close>
  ow_bulk :: bool \<comment> \<open>\<open>bulk.isPending\<close>\<close>

definition plain_order :: "managed_order \<Rightarrow> order" where
  \<comment> \<open>what the rules of a status change read of it\<close>
  "plain_order m = \<lparr>ord_id = mo_id m, ord_customerId = mo_customerId m, ord_handledBy = mo_handledBy m, ord_status = mo_status m,
     ord_totalPrice = mo_totalPrice m, ord_items = map order_item.truncate (mo_items m), ord_createdAt = mo_createdAt m,
     ord_updatedAt = mo_updatedAt m, ord_version = mo_version m\<rparr>"

definition orders_busy :: "orders_workspace \<Rightarrow> bool" where
  "orders_busy w \<longleftrightarrow> ow_transition w \<or> ow_bulk w"

datatype action_plan = Commit_now | Confirm_first | Not_offered

definition confirmation_request :: "order_status \<Rightarrow> action_plan" where
  "confirmation_request s = (if s = O_IN_PROGRESS \<or> s = O_READY then Commit_now else Confirm_first)"

definition statusAction :: "auth_user option \<Rightarrow> managed_order \<Rightarrow> order_status \<Rightarrow> orders_workspace \<Rightarrow> action_plan" where
  "statusAction user m s w = (if orders_busy w \<or> \<not> canChangeOrder (plain_order m) s user then Not_offered else confirmation_request s)"

definition transition_start ::
  "auth_user option \<Rightarrow> managed_order \<Rightarrow> order_status \<Rightarrow> orders_workspace \<Rightarrow> orders_workspace \<times> (string + http_request)" where
  "transition_start user m s w =
     (if ow_inFlight w then (w, Inl (sr ''Sa~cekajte zavr~setak trenutne akcije.''))
      else if \<not> canChangeOrder (plain_order m) s user then (w, Inl ''Ova akcija nije dostupna.'')
      else (w\<lparr>ow_inFlight := True, ow_transition := True\<rparr>, Inr (orderApi_changeStatus (mo_id m) (mo_version m) s)))"

definition orders_answered :: "orders_workspace \<Rightarrow> orders_workspace" where
  \<comment> \<open>the \<open>finally\<close> of the two mutation functions\<close>
  "orders_answered w = w\<lparr>ow_inFlight := False\<rparr>"

definition transition_settled :: "orders_workspace \<Rightarrow> orders_workspace" where
  \<comment> \<open>after the callbacks and, on success, the new read of the list\<close>
  "transition_settled w = w\<lparr>ow_transition := False\<rparr>"

definition managed_item :: "managed_order_item list \<Rightarrow> order_item \<Rightarrow> managed_order_item" where
  "managed_item known i = (let k = find (\<lambda>v. oi_productId v = oi_productId i) known
     in order_item.extend i \<lparr>mi_productName = Option.bind k mi_productName, mi_productImageUrl = Option.bind k mi_productImageUrl\<rparr>)"

definition updated_detail :: "auth_user option \<Rightarrow> managed_order \<Rightarrow> order \<Rightarrow> managed_order option \<Rightarrow> managed_order" where
  \<comment> \<open>the cached detail, when there is one, with the fields of the answer\<close>
  "updated_detail user m updated current = (let base = (case current of Some c \<Rightarrow> c | None \<Rightarrow> m) in
     \<lparr>mo_id = ord_id updated, mo_customerId = ord_customerId updated, mo_handledBy = ord_handledBy updated, mo_status = ord_status updated,
      mo_totalPrice = ord_totalPrice updated, mo_items = map (managed_item (mo_items base)) (ord_items updated),
      mo_createdAt = ord_createdAt updated, mo_updatedAt = ord_updatedAt updated, mo_version = ord_version updated,
      mo_customerName = mo_customerName base,
      mo_handledByName = (case user of Some u \<Rightarrow> if ord_handledBy updated = Some (user_id u) then Some (user_name u) else mo_handledByName base
        | None \<Rightarrow> mo_handledByName base)\<rparr>)"

definition cached_detail :: "managed_order \<Rightarrow> managed_order option \<Rightarrow> managed_order" where
  "cached_detail m current = (case current of Some c \<Rightarrow> if mo_version c \<le> mo_version m then m else c | None \<Rightarrow> m)"

definition selectedOrders :: "managed_order list \<Rightarrow> orders_workspace \<Rightarrow> managed_order list" where
  "selectedOrders shown w = filter (\<lambda>m. mo_id m \<in> ow_selected w) shown"

definition mayBulk :: "auth_user option \<Rightarrow> bool \<Rightarrow> managed_order list \<Rightarrow> order_status \<Rightarrow> orders_workspace \<Rightarrow> bool" where
  \<comment> \<open>\<open>quiet\<close>: nothing is fetched, and there is no error and no pending search\<close>
  "mayBulk user quiet shown s w \<longleftrightarrow> \<not> orders_busy w \<and> quiet \<and> selectedOrders shown w \<noteq> []
     \<and> length (selectedOrders shown w) = card (ow_selected w)
     \<and> list_all (\<lambda>m. canChangeOrder (plain_order m) s user) (selectedOrders shown w)"

definition bulkAction :: "auth_user option \<Rightarrow> bool \<Rightarrow> managed_order list \<Rightarrow> order_status \<Rightarrow> orders_workspace \<Rightarrow> bulk_item list option" where
  \<comment> \<open>the items that the confirmation keeps\<close>
  "bulkAction user quiet shown s w = (if \<not> mayBulk user quiet shown s w then None
     else Some (map (\<lambda>m. \<lparr>bi_id = mo_id m, bi_version = mo_version m\<rparr>) (selectedOrders shown w)))"

definition bulk_start :: "order_status \<Rightarrow> bulk_item list \<Rightarrow> orders_workspace \<Rightarrow> orders_workspace \<times> (string + http_request)" where
  "bulk_start s items w = (if ow_inFlight w then (w, Inl (sr ''Sa~cekajte zavr~setak trenutne akcije.''))
     else (w\<lparr>ow_bulkResult := None, ow_inFlight := True, ow_bulk := True\<rparr>, Inr (orderApi_bulkStatus s items)))"

definition orders_bulk_succeeded :: "bulk_operation_response \<Rightarrow> orders_workspace \<Rightarrow> orders_workspace" where
  "orders_bulk_succeeded response w = (orders_answered w)\<lparr>ow_bulkResult := Some response, ow_selected := {}\<rparr>"

definition bulk_settled :: "orders_workspace \<Rightarrow> orders_workspace" where
  "bulk_settled w = w\<lparr>ow_bulk := False\<rparr>"

definition setFilter :: "orders_workspace \<Rightarrow> orders_workspace option" where
  \<comment> \<open>None: ignored; otherwise the address gets the changes, page 0 and no focus\<close>
  "setFilter w = (if orders_busy w then None else Some (w\<lparr>ow_selected := {}, ow_bulkResult := None\<rparr>))"

subsection \<open>The customer's page\<close>

definition my_page :: "(string \<Rightarrow> jsnum) \<Rightarrow> string option \<Rightarrow> nat" where
  "my_page to_number v = (case to_number (case v of Some t \<Rightarrow> t | None \<Rightarrow> ''1'') of
     Num r \<Rightarrow> if is_safe_integer (Num r) \<and> 0 < r then nat \<lfloor>r\<rfloor> - 1 else 0 | _ \<Rightarrow> 0)"

definition my_section :: "(string \<Rightarrow> string option) \<Rightarrow> string" where
  "my_section get = (if get ''section'' = Some ''shop'' then ''shop''
     else if get ''section'' = Some ''history'' \<or> truthy (get ''orderId'') \<or> get ''status'' \<noteq> None then ''history'' else ''shop'')"

definition price_text_ok :: "(string \<Rightarrow> jsnum) \<Rightarrow> string \<Rightarrow> bool" where
  "price_text_ok to_number v \<longleftrightarrow> v = '''' \<or> (case to_number v of Num r \<Rightarrow> 0 \<le> r | _ \<Rightarrow> False)"

definition num_le :: "jsnum \<Rightarrow> jsnum \<Rightarrow> bool" where
  \<comment> \<open>for two finite numbers\<close>
  "num_le a b \<longleftrightarrow> (case (a, b) of (Num x, Num y) \<Rightarrow> x \<le> y | _ \<Rightarrow> False)"

definition pricesValid :: "(string \<Rightarrow> jsnum) \<Rightarrow> string \<Rightarrow> string \<Rightarrow> bool" where
  "pricesValid to_number lo hi \<longleftrightarrow> price_text_ok to_number lo \<and> price_text_ok to_number hi
     \<and> (lo = '''' \<or> hi = '''' \<or> num_le (to_number lo) (to_number hi))"

datatype product_sort = NAME_ASC | NAME_DESC | PRICE_ASC | PRICE_DESC

fun productSorts :: "product_sort \<Rightarrow> string \<times> string" where
  "productSorts NAME_ASC = (''name'', ''ASC'')"
| "productSorts NAME_DESC = (''name'', ''DESC'')"
| "productSorts PRICE_ASC = (''price'', ''ASC'')"
| "productSorts PRICE_DESC = (''price'', ''DESC'')"

definition price_of_text :: "(string \<Rightarrow> jsnum) \<Rightarrow> string \<Rightarrow> rat option" where
  "price_of_text to_number v = (if v = '''' then None else case to_number v of Num r \<Rightarrow> Some r | _ \<Rightarrow> None)"

definition product_filters ::
  "(string \<Rightarrow> jsnum) \<Rightarrow> string \<Rightarrow> string \<Rightarrow> string \<Rightarrow> product_sort \<Rightarrow> nat \<Rightarrow> nat \<Rightarrow> catalog_filters option" where
  \<comment> \<open>what the delayed effect asks for; None while the prices are not valid\<close>
  "product_filters to_number search lo hi s page sz = (if \<not> pricesValid to_number lo hi then None
     else Some \<lparr>cf_page = page, cf_size = sz, cf_type = Some PRODUCT, cf_active = Some True, cf_search = Some (trim search),
       cf_minPrice = price_of_text to_number lo, cf_maxPrice = price_of_text to_number hi,
       cf_sort = Some (fst (productSorts s)), cf_direction = Some (snd (productSorts s))\<rparr>)"

record my_orders =
  my_checkout :: "cart_line list option"
  my_cartOpen :: bool
  my_checkoutError :: string
  my_cancelling :: string
  my_message :: string
  my_warning :: string
  my_stored :: "string option" \<comment> \<open>the product chosen in the catalog\<close>
  my_consumed :: string

definition quantityCount :: "cart \<Rightarrow> int" where
  "quantityCount c = sum_list (map snd (cs_quantities (ct_state c)))"

definition cartLocked :: "cart \<Rightarrow> my_orders \<Rightarrow> bool" where
  "cartLocked c m \<longleftrightarrow> my_checkout m \<noteq> None \<or> ct_submitting c"

definition leaving_guarded :: "cart \<Rightarrow> my_orders \<Rightarrow> bool" where
  "leaving_guarded c m \<longleftrightarrow> my_checkout m \<noteq> None \<or> ct_submitting c \<or> cs_attempt (ct_state c) \<noteq> None"

definition linked_product :: "string option \<Rightarrow> my_orders \<Rightarrow> string option" where
  "linked_product param m = (case param of Some p \<Rightarrow> Some p | None \<Rightarrow> my_stored m)"

definition consume_selection ::
  "auth_user option \<Rightarrow> string option \<Rightarrow> catalog_item option \<Rightarrow> cart \<Rightarrow> my_orders \<Rightarrow> cart \<times> my_orders" where
  \<comment> \<open>\<open>product\<close> is the answer for the linked product; a stored selection is removed from the browser as well\<close>
  "consume_selection user param product c m =
     (case (linked_product param m, product) of
       (Some linked, Some p) \<Rightarrow>
         if linked = '''' \<or> \<not> hasCapability user ORDER_CREATE \<or> \<not> hasCapability user CATALOG_READ \<or> \<not> cs_ready (ct_state c)
           \<or> cs_attempt (ct_state c) \<noteq> None \<or> my_consumed m = linked then (c, m)
         else if \<not> sellable p then (c, m\<lparr>my_warning := sr ''Izabrani proizvod nije dostupan za naru~civanje.''\<rparr>)
         else (cart_add (hasCapability user CATALOG_READ) p True c, m\<lparr>my_consumed := linked, my_stored := None\<rparr>)
     | _ \<Rightarrow> (c, m))"

definition history_effect :: "string \<Rightarrow> order list option \<Rightarrow> string option \<Rightarrow> string option" where
  \<comment> \<open>the order that is selected then\<close>
  "history_effect section orders selected = (case orders of
     Some (ordr # _) \<Rightarrow> if section = ''history'' \<and> \<not> truthy selected then Some (ord_id ordr) else None | _ \<Rightarrow> None)"

definition my_page_effect :: "nat \<Rightarrow> nat option \<Rightarrow> nat option" where
  \<comment> \<open>the page of the address, which counts from 1\<close>
  "my_page_effect page totalPages = (case totalPages of
     Some t \<Rightarrow> if 0 < page \<and> max 1 t \<le> page then Some (max 1 t) else None | None \<Rightarrow> None)"

definition canCancel :: "auth_user \<Rightarrow> order \<Rightarrow> bool" where
  "canCancel user ordr \<longleftrightarrow> ord_customerId ordr = user_id user \<and> ord_status ordr = O_CREATED \<and> hasCapability (Some user) ORDER_CHANGE_STATUS"

definition openCheckout :: "auth_user \<Rightarrow> string list \<Rightarrow> cart_line list \<Rightarrow> cart \<Rightarrow> my_orders \<Rightarrow> my_orders" where
  \<comment> \<open>\<open>ids\<close> and \<open>lines\<close> are those of the cart\<close>
  "openCheckout user ids lines c m =
     (if \<not> hasCapability (Some user) ORDER_CREATE \<or> \<not> cs_ready (ct_state c) \<or> ct_submitting c \<or> ids = []
        \<or> cs_attempt (ct_state c) = None \<and> cart_unresolved ids lines \<noteq> [] then m
      else m\<lparr>my_cartOpen := False, my_checkoutError := '''', my_checkout := Some lines\<rparr>)"

definition closeCheckout :: "cart \<Rightarrow> my_orders \<Rightarrow> my_orders" where
  "closeCheckout c m = (if \<not> ct_submitting c \<and> cs_attempt (ct_state c) = None then m\<lparr>my_checkout := None, my_checkoutError := ''''\<rparr> else m)"

definition my_submit :: "cart \<Rightarrow> my_orders \<Rightarrow> cart_line list option" where
  \<comment> \<open>the lines that \<open>cart.send\<close> is called with\<close>
  "my_submit c m = (if ct_submitting c then None else my_checkout m)"

definition my_submitted :: "(rat \<Rightarrow> string) \<Rightarrow> auth_user option \<Rightarrow> auth_user \<Rightarrow> cause + order option \<Rightarrow> my_orders \<Rightarrow> my_orders \<times> string option" where
  \<comment> \<open>with the order to show; \<open>money\<close> formats the amount\<close>
  "my_submitted money live user r m = (case r of
     Inl e \<Rightarrow> (m\<lparr>my_checkoutError := orderErrorMessage e (sr ''Narud~zbinu nije mogu~qe poslati.'')\<rparr>, None)
   | Inr None \<Rightarrow> (m, None)
   | Inr (Some ordr) \<Rightarrow> if map_option user_id live \<noteq> Some (user_id user) then (m, None)
       else (m\<lparr>my_message := sr ''Narud~zbina je uspe~sno poslata. Potvr~deno ukupno: '' @ money (ord_totalPrice ordr) @ ''.'',
               my_checkout := None, my_cartOpen := False, my_checkoutError := ''''\<rparr>, Some (ord_id ordr)))"

definition cancel_asks :: "auth_user \<Rightarrow> order \<Rightarrow> my_orders \<Rightarrow> bool" where
  "cancel_asks user ordr m \<longleftrightarrow> canCancel user ordr \<and> my_cancelling m = ''''"

definition cancel_confirmed :: "bool \<Rightarrow> auth_user option \<Rightarrow> auth_user \<Rightarrow> order \<Rightarrow> my_orders \<Rightarrow> my_orders \<times> (string + http_request)" where
  \<comment> \<open>\<open>conflict\<close>: this confirmation has met a conflict before\<close>
  "cancel_confirmed conflict live user ordr m =
     (if conflict then (m, Inl (sr ''Narud~zbina je promenjena. Zatvorite potvrdu i pregledajte osve~zen status pre nove akcije.''))
      else if map_option user_id live \<noteq> Some (user_id user) \<or> \<not> hasCapability live ORDER_CHANGE_STATUS \<or> ord_customerId ordr \<noteq> user_id user
      then (m, Inl ''Otkazivanje nije dostupno sa trenutnim dozvolama.'')
      else (m\<lparr>my_cancelling := ord_id ordr\<rparr>, Inr (orderApi_changeStatus (ord_id ordr) (ord_version ordr) O_CANCELLED)))"

definition cancel_settled :: "auth_user option \<Rightarrow> auth_user \<Rightarrow> cause option \<Rightarrow> my_orders \<Rightarrow> my_orders \<times> bool" where
  \<comment> \<open>the flag is the new value of \<open>conflict\<close>\<close>
  "cancel_settled live user failure m = (case failure of
     None \<Rightarrow> (m\<lparr>my_cancelling := '''', my_message := (if map_option user_id live = Some (user_id user)
       then sr ''Narud~zbina je otkazana.'' else my_message m)\<rparr>, False)
   | Some e \<Rightarrow> (m\<lparr>my_cancelling := ''''\<rparr>, isConflictResponse e))"

definition clearCart_asks :: "string list \<Rightarrow> cart \<Rightarrow> my_orders \<Rightarrow> bool" where
  "clearCart_asks ids c m \<longleftrightarrow> \<not> cartLocked c m \<and> cs_attempt (ct_state c) = None \<and> ids \<noteq> []"

subsection \<open>Properties\<close>

lemma selected_ids: "mo_id ` set (selectedOrders shown w) = ow_selected w \<inter> mo_id ` set shown"
  by (auto simp: selectedOrders_def)

text \<open>
  Property C37: a bulk action sends exactly the selection. When the staff page offers it, every selected order is
  among the orders shown, each goes out once with the version that is shown, and each one's status may be changed
  by the user to the new one; an order that was selected on another page stops the action.
\<close>
theorem bulk_action_covers_the_selection:
  assumes "bulkAction user quiet shown s w = Some items" and "distinct (map mo_id shown)" and "finite (ow_selected w)"
  shows "set (map bi_id items) = ow_selected w \<and> distinct (map bi_id items)
    \<and> set items \<subseteq> {\<lparr>bi_id = mo_id m, bi_version = mo_version m\<rparr> | m. m \<in> set shown \<and> canChangeOrder (plain_order m) s user}"
proof -
  let ?sel = "selectedOrders shown w"
  from assms(1) have m: "mayBulk user quiet shown s w" and i: "items = map (\<lambda>m. \<lparr>bi_id = mo_id m, bi_version = mo_version m\<rparr>) ?sel"
    by (simp_all add: bulkAction_def split: if_splits)
  have ids: "map bi_id items = map mo_id ?sel" by (simp add: i)
  have d: "distinct (map mo_id ?sel)" using assms(2) by (simp add: selectedOrders_def distinct_map_filter)
  have "card (set (map mo_id ?sel)) = card (ow_selected w)"
    using m distinct_card [OF d] by (simp add: mayBulk_def)
  moreover have "set (map mo_id ?sel) \<subseteq> ow_selected w" by (auto simp: selectedOrders_def)
  ultimately have "set (map mo_id ?sel) = ow_selected w" using assms(3) card_subset_eq by metis
  moreover have "set items \<subseteq> {\<lparr>bi_id = mo_id m, bi_version = mo_version m\<rparr> | m. m \<in> set shown \<and> canChangeOrder (plain_order m) s user}"
    using m by (auto simp: i mayBulk_def list_all_iff selectedOrders_def)
  ultimately show ?thesis using d by (simp only: ids simp_thms)
qed

definition sample_managed :: managed_order where
  "sample_managed = \<lparr>mo_id = ''o1'', mo_customerId = ''c'', mo_handledBy = None, mo_status = O_CREATED, mo_totalPrice = 1, mo_items = [],
     mo_createdAt = '''', mo_updatedAt = '''', mo_version = 4, mo_customerName = None, mo_handledByName = None\<rparr>"

definition sample_selection :: orders_workspace where
  "sample_selection = \<lparr>ow_selected = {''o1''}, ow_bulkResult = None, ow_inFlight = False, ow_transition = False, ow_bulk = False\<rparr>"

definition sample_owner :: auth_user where
  "sample_owner = \<lparr>user_id = ''u'', user_name = ''Vlasnik'', user_email = ''v@b.rs'', user_role = OWNER, user_active = True,
     user_avatarUrl = None, user_permissions = None\<rparr>"

theorem bulk_action_covers_the_selection_witness:
  "set (map bi_id [\<lparr>bi_id = ''o1'', bi_version = 4\<rparr>]) = ow_selected sample_selection \<and> distinct (map bi_id [\<lparr>bi_id = ''o1'', bi_version = 4\<rparr>])
    \<and> set [\<lparr>bi_id = ''o1'', bi_version = 4\<rparr>] \<subseteq> {\<lparr>bi_id = mo_id m, bi_version = mo_version m\<rparr> | m.
        m \<in> set [sample_managed] \<and> canChangeOrder (plain_order m) O_IN_PROGRESS (Some sample_owner)}"
  by (rule bulk_action_covers_the_selection [where w = sample_selection and quiet = True])
    (simp_all add: sample_managed_def sample_selection_def sample_owner_def bulkAction_def mayBulk_def selectedOrders_def
      orders_busy_def plain_order_def canChangeOrder_def hasCapability_def grants_def profile_def)

lemma conflicting_cancel_is_not_repeated:
  "snd (cancel_settled live user (Some e) m) \<Longrightarrow>
   snd (cancel_confirmed (snd (cancel_settled live user (Some e) m)) live' user ordr m') \<noteq> Inr q"
  by (simp add: cancel_settled_def cancel_confirmed_def)

lemma checkout_stays_with_an_attempt:
  "cs_attempt (ct_state c) \<noteq> None \<Longrightarrow> closeCheckout c m = m \<and> leaving_guarded c m"
  by (auto simp: closeCheckout_def leaving_guarded_def)

lemma cached_detail_is_no_older: "mo_version m \<le> mo_version (cached_detail m current)"
  by (simp add: cached_detail_def split: option.splits)

end
