(* ===== verification/ReservationPages.thy ===== *)
theory ReservationPages
  imports Booking Dashboard OrderPages
begin

section \<open>The reservation pages\<close>

text \<open>
  Models the handlers of \<open>pages/ReservationsPage.tsx\<close>, \<open>reservations/ReservationDetailsDrawer.tsx\<close>,
  \<open>reservations/ReservationEditForm.tsx\<close>, \<open>reservations/ReservationRowActions.tsx\<close>,
  \<open>components/ui/ConfirmDialog.tsx\<close> and \<open>pages/CustomerHomePage.tsx\<close>. A list of reservations can be
  acted on in bulk only where the server permits each one; the dialog that asks for a reason sends it once; the
  home page asks the server again once for each deadline that it sees pass.
\<close>

subsection \<open>The staff page: filters\<close>

record reservations_url =
  rvu_create :: string
  rvu_scope :: string
  rvu_resourceId :: string
  rvu_locationId :: string
  rvu_customerId :: string
  rvu_page :: string
  rvu_size :: string
  rvu_status :: string
  rvu_employeeId :: string
  rvu_from :: string
  rvu_to :: string
  rvu_sort :: string
  rvu_direction :: string
  rvu_reservationId :: string
  rvu_search :: string

definition reservation_defaults :: "auth_user option \<Rightarrow> reservations_url" where
  "reservation_defaults actor = \<lparr>rvu_create = '''', rvu_scope = (if map_option user_role actor = Some EMPLOYEE then ''MANAGEABLE'' else ''ALL''),
     rvu_resourceId = '''', rvu_locationId = '''', rvu_customerId = '''', rvu_page = ''0'', rvu_size = ''10'', rvu_status = '''',
     rvu_employeeId = '''', rvu_from = '''', rvu_to = '''', rvu_sort = ''startTime'', rvu_direction = ''ASC'', rvu_reservationId = '''',
     rvu_search = ''''\<rparr>"

definition reservation_scope_of :: "reservations_url \<Rightarrow> reservation_scope" where
  "reservation_scope_of u = (if rvu_scope u = ''MANAGEABLE'' then MANAGEABLE else ALL_SCOPE)"

definition more_filters_open :: "reservations_url \<Rightarrow> bool" where
  "more_filters_open u \<longleftrightarrow> rvu_employeeId u \<noteq> '''' \<or> rvu_customerId u \<noteq> '''' \<or> rvu_sort u \<noteq> ''startTime'' \<or> rvu_direction u \<noteq> ''ASC''"

definition reservation_page_number :: "(string \<Rightarrow> jsnum) \<Rightarrow> string \<Rightarrow> nat" where
  "reservation_page_number to_number v = (case to_number v of
     Num r \<Rightarrow> if is_safe_integer (Num r) \<and> 0 \<le> r then nat \<lfloor>r\<rfloor> else 0 | _ \<Rightarrow> 0)"

definition reservation_status_of :: "string \<Rightarrow> reservation_status option" where
  "reservation_status_of v = find (\<lambda>s. reservation_status_text s = v) [R_PENDING, R_CONFIRMED, R_REJECTED, R_CANCELLED, R_COMPLETED]"

definition reservation_page_filters :: "(string \<Rightarrow> jsnum) \<Rightarrow> string \<Rightarrow> reservations_url \<Rightarrow> reservation_filters" where
  \<comment> \<open>\<open>search\<close> is what the delayed effect has taken over\<close>
  "reservation_page_filters to_number search u = \<lparr>rf_page = reservation_page_number to_number (rvu_page u),
     rf_size = page_size_of to_number (rvu_size u), rf_status = reservation_status_of (rvu_status u),
     rf_employeeId = non_empty (rvu_employeeId u), rf_customerId = non_empty (rvu_customerId u),
     rf_resourceId = non_empty (rvu_resourceId u), rf_locationId = non_empty (rvu_locationId u), rf_areaId = None,
     rf_scope = Some (reservation_scope_of u), rf_from = non_empty (rvu_from u), rf_to = non_empty (rvu_to u),
     rf_sort = Some (if List.member [''startTime'', ''endTime'', ''status'', ''createdAt''] (rvu_sort u) then rvu_sort u else ''startTime''),
     rf_direction = Some (if rvu_direction u = ''DESC'' then ''DESC'' else ''ASC''), rf_search = non_empty search, rf_upcoming = None\<rparr>"

definition reservations_request :: "(string \<Rightarrow> jsnum) \<Rightarrow> string \<Rightarrow> reservations_url \<Rightarrow> http_request option" where
  "reservations_request to_number search u =
     (if search = trim (rvu_search u) then Some (reservationApi_list (reservation_page_filters to_number search u)) else None)"

definition reservations_summary_request :: "(string \<Rightarrow> jsnum) \<Rightarrow> string \<Rightarrow> reservations_url \<Rightarrow> http_request" where
  "reservations_summary_request to_number search u = reservationApi_summary (reservation_page_filters to_number search u)"

definition is_employee :: "auth_user option \<Rightarrow> bool" where
  "is_employee actor \<longleftrightarrow> map_option user_role actor = Some EMPLOYEE"

definition scopedResources ::
  "auth_user option \<Rightarrow> reservation_scope \<Rightarrow> management_scope option \<Rightarrow> booking_resource list \<Rightarrow> booking_resource list" where
  "scopedResources actor scope managed resources = filter (\<lambda>r. scope \<noteq> MANAGEABLE \<or> \<not> is_employee actor
     \<or> (case managed of Some m \<Rightarrow> ms_allResources m \<or> List.member (ms_resourceIds m) (bkr_id r) | None \<Rightarrow> False)) resources"

record 'a reading =
  rq_data :: "'a option"
  rq_fetching :: bool
  rq_error :: bool

definition read_answer :: "'a reading \<Rightarrow> bool" where
  \<comment> \<open>an answer that is neither being read again nor followed by an error\<close>
  "read_answer q \<longleftrightarrow> rq_data q \<noteq> None \<and> \<not> rq_fetching q \<and> \<not> rq_error q"

definition resource_effect ::
  "auth_user option \<Rightarrow> bool \<Rightarrow> booking_resource list reading \<Rightarrow> management_scope reading \<Rightarrow> reservations_url \<Rightarrow> reservations_url" where
  \<comment> \<open>a resource that the list no longer offers leaves the address\<close>
  "resource_effect actor bulkPending resources managed u =
     (let scope = reservation_scope_of u in
      if \<not> read_answer resources \<or> rvu_resourceId u = '''' \<or> bulkPending
         \<or> scope = MANAGEABLE \<and> is_employee actor \<and> \<not> read_answer managed then u
      else if list_ex (\<lambda>r. bkr_id r = rvu_resourceId u \<and> (rvu_locationId u = '''' \<or> bkr_locationId r = rvu_locationId u))
          (scopedResources actor scope (rq_data managed) (the (rq_data resources))) then u
      else u\<lparr>rvu_resourceId := '''', rvu_page := ''0''\<rparr>)"

definition reservation_page_effect :: "nat \<Rightarrow> nat option \<Rightarrow> bool \<Rightarrow> reservations_url \<Rightarrow> reservations_url" where
  \<comment> \<open>\<open>quiet\<close>: an answer without an error or a read or an action under way\<close>
  "reservation_page_effect page totalPages quiet u = (case totalPages of
     Some n \<Rightarrow> if quiet \<and> max 1 n \<le> page then u\<lparr>rvu_page := show_nat (n - 1)\<rparr> else u | None \<Rightarrow> u)"

subsection \<open>The staff page: the selection and its bulk actions\<close>

record reservations_workspace =
  rw_selected :: "string set"
  rw_summary :: string
  rw_bulk :: bool \<comment> \<open>\<open>bulk.isPending\<close>\<close>
  rw_cancelOpen :: bool
  rw_createOpen :: bool
  rw_moreFilters :: bool
  rw_detail :: "(string \<times> reservation_detail_action option) option"
  rw_session :: "reservation option"

definition reservation_rows :: "reservation page_response reading \<Rightarrow> reservation list" where
  "reservation_rows q = (if rq_error q then [] else case rq_data q of Some p \<Rightarrow> pg_content p | None \<Rightarrow> [])"

definition row_permits :: "reservation_status \<Rightarrow> reservation \<Rightarrow> bool" where
  "row_permits s r \<longleftrightarrow> r_readOnly r \<noteq> Some True \<and> (case r_allowedActions r of Some xs \<Rightarrow> List.member xs s | None \<Rightarrow> False)"

definition selectable_rows :: "reservation list \<Rightarrow> reservation list" where
  "selectable_rows rows = filter (\<lambda>r. r_readOnly r \<noteq> Some True \<and> r_allowedActions r \<noteq> None \<and> r_allowedActions r \<noteq> Some []) rows"

definition selected_rows :: "reservation list \<Rightarrow> reservations_workspace \<Rightarrow> reservation list" where
  "selected_rows rows w = filter (\<lambda>r. r_id r \<in> rw_selected w) rows"

definition mayBulkReservations :: "reservation page_response reading \<Rightarrow> reservation_status \<Rightarrow> reservations_workspace \<Rightarrow> bool" where
  "mayBulkReservations q s w \<longleftrightarrow> (let items = selected_rows (reservation_rows q) w in
     \<not> rq_error q \<and> \<not> rq_fetching q \<and> items \<noteq> [] \<and> length items = card (rw_selected w) \<and> list_all (row_permits s) items)"

definition bulk_refusal :: string where
  "bulk_refusal = sr ''Izbor vi~se ne dozvoljava ovu grupnu akciju. Osve~zite rezervacije.''"

definition reservations_bulk_start ::
  "reservation page_response reading \<Rightarrow> reservation_status \<Rightarrow> string option \<Rightarrow> reservations_workspace
   \<Rightarrow> reservations_workspace \<times> (cause + http_request)" where
  "reservations_bulk_start q s reason w = (let items = selected_rows (reservation_rows q) w in
     (w\<lparr>rw_bulk := True\<rparr>,
      if rq_error q \<or> length items \<noteq> card (rw_selected w) \<or> items = [] \<or> \<not> list_all (row_permits s) items
      then Inl (PlainError bulk_refusal)
      else Inr (reservationApi_bulkStatus s (map (\<lambda>r. \<lparr>bi_id = r_id r, bi_version = r_version r\<rparr>) items) reason)))"

definition reservations_bulk_succeeded :: "bulk_operation_response \<Rightarrow> reservations_workspace \<Rightarrow> reservations_workspace" where
  "reservations_bulk_succeeded a w = w\<lparr>rw_summary := show_nat (br_succeeded a) @ sr '' uspe~sno, '' @ show_nat (br_failed a) @ sr '' neuspe~sno.'',
     rw_selected := {}\<rparr>"

definition reservations_bulk_settled :: "reservations_workspace \<Rightarrow> reservations_workspace" where
  \<comment> \<open>after the list was read again, also when the action failed\<close>
  "reservations_bulk_settled w = w\<lparr>rw_bulk := False\<rparr>"

definition bulk_error_text :: "cause \<Rightarrow> string" where
  "bulk_error_text e = apiErrorMessage e (sr ''Operaciju nad rezervacijama nije mogu~qe izvr~siti.'')"

definition cancel_selected ::
  "reservation page_response reading \<Rightarrow> string option \<Rightarrow> reservations_workspace \<Rightarrow> (reservations_workspace \<times> (cause + http_request)) option" where
  \<comment> \<open>the confirmation of the dialog; None: nothing is sent\<close>
  "cancel_selected q reason w = (if reason = None \<or> reason = Some '''' \<or> \<not> mayBulkReservations q R_CANCELLED w then None
     else Some (reservations_bulk_start q R_CANCELLED reason w))"

definition changeFilters :: "(reservations_url \<Rightarrow> reservations_url) \<Rightarrow> bool \<Rightarrow> reservations_url \<times> reservations_workspace
    \<Rightarrow> reservations_url \<times> reservations_workspace" where
  \<comment> \<open>\<open>locationChanged\<close>: the changes name the location\<close>
  "changeFilters changes locationChanged = (\<lambda>(u, w). if rw_bulk w then (u, w)
     else (let u1 = (changes u)\<lparr>rvu_page := ''0''\<rparr> in
       (if locationChanged then u1\<lparr>rvu_resourceId := ''''\<rparr> else u1, w\<lparr>rw_selected := {}\<rparr>)))"

definition toggle_reservation :: "string \<Rightarrow> reservations_workspace \<Rightarrow> reservations_workspace" where
  "toggle_reservation i w = w\<lparr>rw_selected := (if i \<in> rw_selected w then rw_selected w - {i} else insert i (rw_selected w))\<rparr>"

definition row_selectable :: "reservation page_response reading \<Rightarrow> reservation \<Rightarrow> reservations_workspace \<Rightarrow> bool" where
  "row_selectable q r w \<longleftrightarrow> \<not> rw_bulk w \<and> \<not> rq_fetching q \<and> r_allowedActions r \<noteq> None \<and> r_allowedActions r \<noteq> Some [] \<and> r_readOnly r \<noteq> Some True"

definition select_page :: "bool \<Rightarrow> reservation list \<Rightarrow> reservations_workspace \<Rightarrow> reservations_workspace" where
  "select_page checked rows w = w\<lparr>rw_selected := (if checked then set (map r_id (selectable_rows rows)) else {})\<rparr>"

definition page_selected :: "reservation list \<Rightarrow> reservations_workspace \<Rightarrow> bool" where
  "page_selected rows w \<longleftrightarrow> selectable_rows rows \<noteq> [] \<and> list_all (\<lambda>r. r_id r \<in> rw_selected w) (selectable_rows rows)"

definition page_indeterminate :: "reservation list \<Rightarrow> reservations_workspace \<Rightarrow> bool" where
  "page_indeterminate rows w \<longleftrightarrow> 0 < card (rw_selected w) \<and> \<not> list_all (\<lambda>r. r_id r \<in> rw_selected w) (selectable_rows rows)"

definition openDetails :: "reservation \<Rightarrow> reservation_detail_action option \<Rightarrow> reservations_url \<times> reservations_workspace
    \<Rightarrow> reservations_url \<times> reservations_workspace" where
  "openDetails r a = (\<lambda>(u, w). (u\<lparr>rvu_reservationId := r_id r\<rparr>, w\<lparr>rw_detail := Some (r_id r, a)\<rparr>))"

definition initial_detail_action :: "reservations_url \<Rightarrow> reservations_workspace \<Rightarrow> reservation_detail_action option" where
  "initial_detail_action u w = (case rw_detail w of
     Some (i, a) \<Rightarrow> if i = rvu_reservationId u then a else None | None \<Rightarrow> None)"

definition closeDetails :: "reservations_url \<times> reservations_workspace \<Rightarrow> reservations_url \<times> reservations_workspace" where
  "closeDetails = (\<lambda>(u, w). (u\<lparr>rvu_reservationId := ''''\<rparr>, w\<lparr>rw_detail := None\<rparr>))"

definition reservation_created :: "string \<Rightarrow> string option \<Rightarrow> reservations_url \<times> reservations_workspace \<Rightarrow> reservations_url \<times> reservations_workspace" where
  "reservation_created i notice = (\<lambda>(u, w). (u\<lparr>rvu_create := '''', rvu_reservationId := i\<rparr>,
     w\<lparr>rw_createOpen := False, rw_summary := (case notice of Some t \<Rightarrow> t | None \<Rightarrow> ''Rezervacija je kreirana.''), rw_detail := None\<rparr>))"

definition create_shown :: "reservations_url \<Rightarrow> reservations_workspace \<Rightarrow> bool" where
  "create_shown u w \<longleftrightarrow> rw_createOpen w \<or> rvu_create u = ''true''"

definition offers_computer :: "auth_user option \<Rightarrow> booking_resource list option \<Rightarrow> reservation \<Rightarrow> bool" where
  "offers_computer actor resources r \<longleftrightarrow> hasCapability actor GAMING_SESSION_START \<and> r_readOnly r \<noteq> Some True
     \<and> truthy (r_customerId r) \<and> truthy (r_resourceId r) \<and> List.member [R_PENDING, R_CONFIRMED] (r_status r)
     \<and> (case resources of Some xs \<Rightarrow> list_ex (\<lambda>x. Some (bkr_id x) = r_resourceId r \<and> bkr_type x = GAMING_PC) xs | None \<Rightarrow> False)"

subsection \<open>The confirmation dialog\<close>

record confirm_props =
  cp_loading :: bool
  cp_disabled :: bool
  cp_reasonRequired :: bool
  cp_autoClose :: bool

record confirm_dialog =
  cd_reason :: string
  cd_pending :: bool
  cd_failure :: string
  cd_submitting :: bool

definition confirm_open :: "string \<Rightarrow> confirm_dialog" where
  "confirm_open initialReason = \<lparr>cd_reason = initialReason, cd_pending = False, cd_failure = '''', cd_submitting = False\<rparr>"

definition confirm_busy :: "confirm_props \<Rightarrow> confirm_dialog \<Rightarrow> bool" where
  "confirm_busy p d \<longleftrightarrow> cp_loading p \<or> cd_pending d"

definition confirm_invalid :: "confirm_props \<Rightarrow> confirm_dialog \<Rightarrow> bool" where
  "confirm_invalid p d \<longleftrightarrow> cp_reasonRequired p \<and> trim (cd_reason d) = ''''"

definition confirm_may_close :: "confirm_props \<Rightarrow> confirm_dialog \<Rightarrow> bool" where
  "confirm_may_close p d \<longleftrightarrow> \<not> confirm_busy p d \<and> \<not> cd_submitting d"

definition confirm_submit :: "confirm_props \<Rightarrow> confirm_dialog \<Rightarrow> (confirm_dialog \<times> string option) option" where
  \<comment> \<open>None: ignored; otherwise with the reason that \<open>onConfirm\<close> is called with\<close>
  "confirm_submit p d = (if cd_submitting d \<or> confirm_busy p d \<or> cp_disabled p \<or> confirm_invalid p d then None
     else Some (d\<lparr>cd_submitting := True, cd_pending := True, cd_failure := ''''\<rparr>, non_empty (trim (cd_reason d))))"

definition confirm_answered :: "(cause \<Rightarrow> string) option \<Rightarrow> string \<Rightarrow> confirm_props \<Rightarrow> cause option \<Rightarrow> confirm_dialog \<Rightarrow> confirm_dialog \<times> bool" where
  \<comment> \<open>the flag: \<open>onClose\<close> is called\<close>
  "confirm_answered formatError errorMessage p failure d = (let d1 = d\<lparr>cd_submitting := False, cd_pending := False\<rparr> in
     case failure of None \<Rightarrow> (d1, cp_autoClose p)
     | Some e \<Rightarrow> (d1\<lparr>cd_failure := (case formatError of Some f \<Rightarrow> f e | None \<Rightarrow> apiErrorMessage e errorMessage)\<rparr>, False))"

subsection \<open>The details of a reservation\<close>

record detail_drawer =
  dw_action :: "reservation_status option"
  dw_editId :: "string option"
  dw_editBusy :: bool
  dw_requested :: "reservation_detail_action option"
  dw_choice :: "(string \<times> string) option" \<comment> \<open>the reservation and the resource chosen for it\<close>
  dw_transition :: bool
  dw_assign :: bool
  dw_focus :: bool \<comment> \<open>the section of the assignment gets the focus\<close>

definition drawer_open :: "reservation_detail_action option \<Rightarrow> detail_drawer" where
  "drawer_open initial = \<lparr>dw_action = None, dw_editId = None, dw_editBusy = False, dw_requested = initial, dw_choice = None,
     dw_transition = False, dw_assign = False, dw_focus = False\<rparr>"

definition drawer_value :: "reservation_detail reading \<Rightarrow> reservation_detail option" where
  "drawer_value q = (if rq_error q then None else rq_data q)"

definition transition_refusal :: string where
  "transition_refusal = sr ''Ovla~s~qenje za ovu akciju vi~se nije dostupno.''"

definition drawer_transition :: "reservation_detail reading \<Rightarrow> reservation_status \<Rightarrow> string option \<Rightarrow> detail_drawer
    \<Rightarrow> detail_drawer \<times> (cause + http_request)" where
  "drawer_transition q s note d = (d\<lparr>dw_transition := True\<rparr>, case drawer_value q of
     Some v \<Rightarrow> if List.member (rd_allowedActions v) s then Inr (reservationApi_changeStatus (rd_id v) (rd_version v) s note)
       else Inl (PlainError transition_refusal)
   | None \<Rightarrow> Inl (PlainError transition_refusal))"

definition drawer_transition_succeeded :: "detail_drawer \<Rightarrow> detail_drawer" where
  "drawer_transition_succeeded d = d\<lparr>dw_action := None\<rparr>"

definition drawer_transition_settled :: "detail_drawer \<Rightarrow> detail_drawer" where
  \<comment> \<open>after the new reads of either callback\<close>
  "drawer_transition_settled d = d\<lparr>dw_transition := False\<rparr>"

definition requested_effect :: "reservation_detail reading \<Rightarrow> detail_drawer \<Rightarrow> detail_drawer" where
  "requested_effect q d = (case (dw_requested d, drawer_value q) of
     (Some a, Some v) \<Rightarrow>
       if rq_fetching q then d
       else (let d1 = (if rd_readOnly v = Some True then d
           else case a of
               EDIT \<Rightarrow> if rd_canEdit v = Some True then d\<lparr>dw_editId := Some (rd_id v)\<rparr> else d
             | ASSIGN_RESOURCE \<Rightarrow> if rd_canAssignResource v = Some True then d\<lparr>dw_focus := True\<rparr> else d
             | Status_action s \<Rightarrow> if List.member (rd_allowedActions v) s then d\<lparr>dw_action := Some s\<rparr> else d)
         in d1\<lparr>dw_requested := None\<rparr>)
   | _ \<Rightarrow> d)"

definition chosen_resource :: "string option \<Rightarrow> detail_drawer \<Rightarrow> string" where
  "chosen_resource reservationId d = (case dw_choice d of
     Some (i, r) \<Rightarrow> if Some i = reservationId then r else '''' | None \<Rightarrow> '''')"

definition assign_options_request :: "reservation_detail reading \<Rightarrow> http_request option" where
  "assign_options_request q = (case drawer_value q of
     Some v \<Rightarrow> if truthy (rd_serviceId v) \<and> rd_resourceRequired v = Some True \<and> rd_canAssignResource v = Some True
       then Some (resourceApi_bookingOptions (the (rd_serviceId v)) None None (Some (rd_startTime v)) (Some (rd_endTime v)) None) else None
   | None \<Rightarrow> None)"

definition may_assign :: "booking_options reading \<Rightarrow> string \<Rightarrow> bool" where
  "may_assign q resourceId \<longleftrightarrow> \<not> rq_fetching q
     \<and> (case rq_data q of Some opts \<Rightarrow> list_ex (\<lambda>r. bkr_id r = resourceId \<and> bkr_available r) (bopt_resources opts) | None \<Rightarrow> False)"

definition assign_start :: "reservation_detail \<Rightarrow> string \<Rightarrow> detail_drawer \<Rightarrow> detail_drawer \<times> http_request" where
  "assign_start v resourceId d = (d\<lparr>dw_assign := True\<rparr>, reservationApi_assignResource (rd_id v) (rd_version v) resourceId)"

definition assign_succeeded :: "detail_drawer \<Rightarrow> detail_drawer" where
  "assign_succeeded d = d\<lparr>dw_choice := None\<rparr>"

definition assign_settled :: "detail_drawer \<Rightarrow> detail_drawer" where
  "assign_settled d = d\<lparr>dw_assign := False\<rparr>"

definition drawer_busy :: "detail_drawer \<Rightarrow> bool" where
  "drawer_busy d \<longleftrightarrow> dw_transition d \<or> dw_assign d \<or> dw_editBusy d"

datatype action_click = Sends_now | Opens_dialog reservation_status

definition action_clicked :: "reservation_status \<Rightarrow> action_click" where
  "action_clicked s = (if s = R_CONFIRMED then Sends_now else Opens_dialog s)"

definition action_needs_reason :: "reservation_status \<Rightarrow> bool" where
  "action_needs_reason s \<longleftrightarrow> s = R_REJECTED \<or> s = R_CANCELLED"

definition drawer_confirm :: "reservation_detail reading \<Rightarrow> string option \<Rightarrow> detail_drawer \<Rightarrow> (detail_drawer \<times> (cause + http_request)) option" where
  "drawer_confirm q note d = (case (dw_action d, drawer_value q) of
     (Some s, Some v) \<Rightarrow> if List.member (rd_allowedActions v) s then Some (drawer_transition q s note d) else None
   | _ \<Rightarrow> None)"

subsection \<open>Moving a reservation\<close>

record edit_form =
  ef_start :: string
  ef_resourceId :: string
  ef_note :: string

definition edit_open :: "platform \<Rightarrow> reservation_detail \<Rightarrow> edit_form option" where
  \<comment> \<open>None: the stored start is not an instant\<close>
  "edit_open P v = map_option (\<lambda>s. \<lparr>ef_start = s, ef_resourceId = (case rd_resourceId v of Some r \<Rightarrow> r | None \<Rightarrow> ''''),
     ef_note = (case rd_note v of Some n \<Rightarrow> n | None \<Rightarrow> '''')\<rparr>) (businessInstantToLocal P (rd_startTime v))"

definition edit_instant :: "platform \<Rightarrow> reservation_detail \<Rightarrow> edit_form \<Rightarrow> string" where
  "edit_instant P v f = (case businessInstantToLocal P (rd_startTime v) of
     None \<Rightarrow> ''''
   | Some l \<Rightarrow> if l = ef_start f then rd_startTime v
       else (case businessLocalToInstant P (ef_start f) of Inr i \<Rightarrow> i | Inl _ \<Rightarrow> ''''))"

definition edit_options_request :: "platform \<Rightarrow> reservation_detail \<Rightarrow> edit_form \<Rightarrow> http_request option" where
  "edit_options_request P v f = (let i = edit_instant P v f in
     if i = '''' then None else Some (reservationApi_resourceOptions (rd_id v) (Some i)))"

definition edit_maySave :: "platform \<Rightarrow> ms \<Rightarrow> reservation_detail \<Rightarrow> booking_options reading \<Rightarrow> edit_form \<Rightarrow> bool" where
  "edit_maySave P now v q f \<longleftrightarrow> edit_instant P v f \<noteq> '''' \<and> parsed_after P (edit_instant P v f) now \<and> \<not> rq_fetching q \<and> \<not> rq_error q
     \<and> (ef_resourceId f = '''' \<or> (case rq_data q of
          Some opts \<Rightarrow> list_ex (\<lambda>r. bkr_id r = ef_resourceId f \<and> bkr_available r) (bopt_resources opts) | None \<Rightarrow> False))
     \<and> (rd_resourceRequired v \<noteq> Some True \<or> ef_resourceId f \<noteq> '''')"

definition edit_submit :: "platform \<Rightarrow> ms \<Rightarrow> bool \<Rightarrow> reservation_detail \<Rightarrow> booking_options reading \<Rightarrow> edit_form \<Rightarrow> http_request option" where
  "edit_submit P now saving v q f = (if edit_maySave P now v q f \<and> \<not> saving
     then Some (reservationApi_update (rd_id v) \<lparr>update_reservation_input.ur_version = rd_version v, ur_startTime = Some (edit_instant P v f),
       ur_resourceId = non_empty (ef_resourceId f), ur_note = Some (ef_note f), ur_durationMinutes = None\<rparr>)
     else None)"

subsection \<open>The menu of a row\<close>

datatype menu_key = Key_down | Key_up | Key_home | Key_end

definition menu_next :: "menu_key \<Rightarrow> nat option \<Rightarrow> nat \<Rightarrow> nat option" where
  \<comment> \<open>the item that gets the focus; \<open>items.indexOf\<close> of an element that is no item is -1\<close>
  "menu_next k current n = (if n = 0 then None else Some (case k of
     Key_home \<Rightarrow> 0 | Key_end \<Rightarrow> n - 1
   | Key_down \<Rightarrow> (case current of Some i \<Rightarrow> (i + 1 + n) mod n | None \<Rightarrow> n mod n)
   | Key_up \<Rightarrow> (case current of Some i \<Rightarrow> nat ((int i - 1 + int n) mod int n) | None \<Rightarrow> nat ((int n - 2) mod int n))))"

record menu_position =
  mp_top :: real
  mp_left :: real
  mp_height :: real

definition locate_menu :: "real \<Rightarrow> real \<Rightarrow> real \<Rightarrow> real \<Rightarrow> real \<Rightarrow> real \<Rightarrow> menu_position" where
  \<comment> \<open>\<open>right\<close>, \<open>top\<close> and \<open>bottom\<close> of the button, the height of the menu's content, the size of the window\<close>
  "locate_menu right tp bottom scrollHeight innerWidth innerHeight =
     (let height = min (min scrollHeight 320) (innerHeight - 24); below = innerHeight - bottom - 12 in
      \<lparr>mp_top = (if height \<le> below then bottom + 6 else max 12 (tp - height - 6)),
       mp_left = max 12 (min (right - 240) (innerWidth - 252)), mp_height = height\<rparr>)"

definition row_menu :: "reservation_detail reading \<Rightarrow> reservation_detail_action option list" where
  \<comment> \<open>None is the item that opens the details\<close>
  "row_menu q = None # (case (if \<not> rq_error q \<and> \<not> rq_fetching q then rq_data q else None) of
     Some v \<Rightarrow> if rd_readOnly v = Some True then []
       else (if rd_canEdit v = Some True then [Some EDIT] else [])
         @ (if rd_canAssignResource v = Some True \<and> rd_resourceRequired v = Some True \<and> \<not> truthy (rd_resourceId v) then [Some ASSIGN_RESOURCE] else [])
         @ map (Some \<circ> Status_action) (rd_allowedActions v)
   | None \<Rightarrow> [])"

subsection \<open>The customer's home page\<close>

datatype home_query =
    HQ_visits | HQ_recentVisits | HQ_reservations | HQ_summary | HQ_recentReservations | HQ_orders | HQ_activeOrders order_status | HQ_queue

definition home_reservation_filters :: "nat \<Rightarrow> bool option \<Rightarrow> string \<Rightarrow> string \<Rightarrow> reservation_filters" where
  "home_reservation_filters sz upcoming sorted_by direction = \<lparr>rf_page = 0, rf_size = sz, rf_status = None, rf_employeeId = None,
     rf_customerId = None, rf_resourceId = None, rf_locationId = None, rf_areaId = None, rf_scope = None, rf_from = None, rf_to = None,
     rf_sort = Some sorted_by, rf_direction = Some direction, rf_search = None, rf_upcoming = upcoming\<rparr>"

definition home_order_filters :: "nat \<Rightarrow> order_status option \<Rightarrow> order_filters" where
  "home_order_filters sz s = \<lparr>of_page = 0, of_size = sz, of_status = s, of_handledBy = None, of_from = None, of_to = None,
     of_search = None, of_sort = Some ''createdAt'', of_direction = Some ''DESC''\<rparr>"

fun home_request :: "home_query \<Rightarrow> http_request" where
  "home_request HQ_visits = gamingSessionApi_mine"
| "home_request HQ_recentVisits = gamingSessionApi_myHistory 0 10"
| "home_request HQ_reservations = reservationApi_mine (home_reservation_filters 3 (Some True) ''startTime'' ''ASC'')"
| "home_request HQ_summary = reservationApi_mineSummary"
| "home_request HQ_recentReservations = reservationApi_mine (home_reservation_filters 6 None ''createdAt'' ''DESC'')"
| "home_request HQ_orders = orderApi_mine (home_order_filters 6 None)"
| "home_request (HQ_activeOrders s) = orderApi_mine (home_order_filters 3 (Some s))"
| "home_request HQ_queue = waitlistApi_mine"

definition home_canReserve :: "auth_user option \<Rightarrow> bool" where
  "home_canReserve user \<longleftrightarrow> map_option user_role user = Some CUSTOMER \<and> hasCapability user RESERVATION_READ_OWN"

definition home_canOrder :: "auth_user option \<Rightarrow> bool" where
  "home_canOrder user \<longleftrightarrow> map_option user_role user = Some CUSTOMER \<and> hasCapability user ORDER_READ_OWN"

definition home_canCreateReservation :: "auth_user option \<Rightarrow> bool" where
  "home_canCreateReservation user \<longleftrightarrow> home_canReserve user \<and> hasCapability user RESERVATION_CREATE"

definition home_available :: "auth_user option \<Rightarrow> bool" where
  "home_available user \<longleftrightarrow> map_option user_role user = Some CUSTOMER \<and> (home_canReserve user \<or> home_canOrder user)"

definition history_expanded :: "string \<Rightarrow> bool" where
  "history_expanded hash_part \<longleftrightarrow> List.member [''#gaming-history'', ''#activities''] hash_part"

definition selected_session :: "auth_user option \<Rightarrow> string option \<Rightarrow> string option" where
  "selected_session user param = (if home_canReserve user then param else None)"

definition home_enabled :: "auth_user option \<Rightarrow> bool \<Rightarrow> string option \<Rightarrow> home_query \<Rightarrow> bool" where
  "home_enabled user expanded session q \<longleftrightarrow> (case q of
     HQ_visits \<Rightarrow> home_canReserve user | HQ_reservations \<Rightarrow> home_canReserve user | HQ_summary \<Rightarrow> home_canReserve user
   | HQ_queue \<Rightarrow> home_canReserve user
   | HQ_recentVisits \<Rightarrow> home_canReserve user \<and> (expanded \<or> truthy session)
   | HQ_recentReservations \<Rightarrow> home_canReserve user \<and> expanded
   | HQ_orders \<Rightarrow> home_canOrder user \<and> expanded
   | HQ_activeOrders s \<Rightarrow> home_canOrder user \<and> List.member [O_CREATED, O_IN_PROGRESS, O_READY] s)"

definition refreshActiveOrders :: "bool \<Rightarrow> home_query list" where
  "refreshActiveOrders expanded = map HQ_activeOrders [O_CREATED, O_IN_PROGRESS, O_READY] @ (if expanded then [HQ_orders] else [])"

definition home_refresh :: "auth_user option \<Rightarrow> bool \<Rightarrow> home_query list" where
  "home_refresh user expanded = (if home_canReserve user
       then [HQ_visits, HQ_reservations, HQ_summary] @ (if expanded then [HQ_recentReservations, HQ_recentVisits] else []) @ [HQ_queue] else [])
     @ (if home_canOrder user then refreshActiveOrders expanded else [])"

definition active_order_le :: "(string \<Rightarrow> string \<Rightarrow> bool) \<Rightarrow> order \<Rightarrow> order \<Rightarrow> bool" where
  \<comment> \<open>orders that are ready come first, then the latest\<close>
  "active_order_le collate a b \<longleftrightarrow> (if (ord_status a = O_READY) \<noteq> (ord_status b = O_READY) then ord_status a = O_READY
     else collate (ord_createdAt b) (ord_createdAt a))"

definition activeOrders :: "(string \<Rightarrow> string \<Rightarrow> bool) \<Rightarrow> order page_response option list \<Rightarrow> order list" where
  "activeOrders collate pages = sort_by (active_order_le collate)
     (concat (map (\<lambda>p. case p of Some a \<Rightarrow> pg_content a | None \<Rightarrow> []) pages))"

record clock_source =
  ck_time :: "string option"
  ck_received :: int

definition clock_sources :: "gaming_session_visit list reading \<Rightarrow> int \<Rightarrow> waitlist_entry list reading \<Rightarrow> int \<Rightarrow> my_reservation_summary reading \<Rightarrow> int
    \<Rightarrow> clock_source list" where
  "clock_sources visits tv queue tq summary ts =
     [\<lparr>ck_time = (if rq_error visits then None else case rq_data visits of Some (v # _) \<Rightarrow> Some (gv_serverTime v) | _ \<Rightarrow> None), ck_received = tv\<rparr>,
      \<lparr>ck_time = (if rq_error queue then None else case rq_data queue of Some (e # _) \<Rightarrow> wle_serverTime e | _ \<Rightarrow> None), ck_received = tq\<rparr>,
      \<lparr>ck_time = (if rq_error summary then None else map_option mrs_serverTime (rq_data summary)), ck_received = ts\<rparr>]"

definition home_serverTime :: "platform \<Rightarrow> clock_source list \<Rightarrow> string option" where
  \<comment> \<open>the server's time in the latest answer\<close>
  "home_serverTime P sources =
     (case sort_by (\<lambda>a b. ck_received b \<le> ck_received a)
         (filter (\<lambda>c. truthy (ck_time c) \<and> parse P (the (ck_time c)) \<noteq> None) sources) of
        c # _ \<Rightarrow> ck_time c | [] \<Rightarrow> None)"

definition active_visits :: "gaming_session_visit list reading \<Rightarrow> gaming_session_visit list" where
  "active_visits q = (if rq_error q then [] else case rq_data q of Some vs \<Rightarrow> filter (\<lambda>v. gv_status v = G_ACTIVE) vs | None \<Rightarrow> [])"

definition waiting_entries :: "waitlist_entry list reading \<Rightarrow> waitlist_entry list" where
  "waiting_entries q = (case rq_data q of Some es \<Rightarrow> filter (\<lambda>e. wle_status e = WL_WAITING \<or> wle_status e = WL_OFFERED) es | None \<Rightarrow> [])"

definition currentSession :: "string option \<Rightarrow> gaming_session_visit list option \<Rightarrow> gaming_session_visit list option \<Rightarrow> gaming_session_visit option" where
  "currentSession selected visits recent = (let look = (\<lambda>vs. Option.bind vs (find (\<lambda>v. Some (gv_id v) = selected)))
     in case look visits of Some v \<Rightarrow> Some v | None \<Rightarrow> look recent)"

record home_seen =
  hs_sessions :: "string set" \<comment> \<open>\<open>endedSessions\<close>\<close>
  hs_offers :: "string set" \<comment> \<open>\<open>expiredOffers\<close>\<close>

definition recheck_once :: "('a \<Rightarrow> bool) \<Rightarrow> ('a \<Rightarrow> string) \<Rightarrow> 'a list \<Rightarrow> string set \<Rightarrow> string set \<times> bool" where
  \<comment> \<open>the shared shape of the two effects; the flag: the list is read again\<close>
  "recheck_once due key xs seen = (let found = filter (\<lambda>x. due x \<and> key x \<notin> seen) xs in
     if found = [] then (seen, False) else (seen \<union> set (map key found), True))"

definition session_key :: "gaming_session_visit \<Rightarrow> string" where
  "session_key v = gv_id v @ '':'' @ gv_endsAt v"

definition offer_key :: "waitlist_entry \<Rightarrow> string" where
  "offer_key e = (case wle_offerId e of Some i \<Rightarrow> i | None \<Rightarrow> '''')"

definition offer_due :: "platform \<Rightarrow> ms \<Rightarrow> waitlist_entry \<Rightarrow> bool" where
  "offer_due P now e \<longleftrightarrow> wle_status e = WL_OFFERED \<and> wle_offerStatus e \<noteq> Some WO_EXPIRED \<and> truthy (wle_offerId e) \<and> truthy (wle_offerExpiresAt e)
     \<and> (parsed_at_most P (the (wle_offerExpiresAt e)) now \<or> parsed_at_most P (wle_desiredStart e) now)"

definition sessions_effect :: "platform \<Rightarrow> bool \<Rightarrow> ms \<Rightarrow> gaming_session_visit list reading \<Rightarrow> home_seen \<Rightarrow> home_seen \<times> bool" where
  "sessions_effect P synchronized now q s = (if \<not> synchronized \<or> rq_error q then (s, False)
     else (let r = recheck_once (\<lambda>v. parsed_at_most P (gv_endsAt v) now) session_key (active_visits q) (hs_sessions s)
       in (s\<lparr>hs_sessions := fst r\<rparr>, snd r)))"

definition offers_effect :: "platform \<Rightarrow> bool \<Rightarrow> ms \<Rightarrow> waitlist_entry list reading \<Rightarrow> home_seen \<Rightarrow> home_seen \<times> bool" where
  "offers_effect P synchronized now q s = (if \<not> synchronized \<or> rq_error q then (s, False)
     else (let r = recheck_once (offer_due P now) offer_key (waiting_entries q) (hs_offers s)
       in (s\<lparr>hs_offers := fst r\<rparr>, snd r)))"

definition closeSession :: "search_params \<Rightarrow> search_params" where
  "closeSession params = params_delete ''sessionId'' params"

subsection \<open>Properties\<close>

datatype home_event =
    Visits_read bool ms "gaming_session_visit list reading"
  | Queue_read bool ms "waitlist_entry list reading"

fun home_event_step :: "platform \<Rightarrow> home_event \<Rightarrow> home_seen \<Rightarrow> home_seen \<times> bool" where
  "home_event_step P (Visits_read synchronized now q) s = sessions_effect P synchronized now q s"
| "home_event_step P (Queue_read synchronized now q) s = offers_effect P synchronized now q s"

fun home_rechecks :: "platform \<Rightarrow> home_event list \<Rightarrow> home_seen \<Rightarrow> nat" where
  \<comment> \<open>how often the two effects read a list again\<close>
  "home_rechecks P [] s = 0"
| "home_rechecks P (e # es) s = (let r = home_event_step P e s in (if snd r then 1 else 0) + home_rechecks P es (fst r))"

fun event_deadlines :: "home_event \<Rightarrow> (bool \<times> string) set" where
  "event_deadlines (Visits_read _ _ q) = (\<lambda>v. (True, session_key v)) ` set (active_visits q)"
| "event_deadlines (Queue_read _ _ q) = (\<lambda>e. (False, offer_key e)) ` set (waiting_entries q)"

definition seen_deadlines :: "home_seen \<Rightarrow> (bool \<times> string) set" where
  "seen_deadlines s = Pair True ` hs_sessions s \<union> Pair False ` hs_offers s"

lemma recheck_once_new:
  assumes "recheck_once due key xs seen = (seen', again)"
  shows "seen \<subseteq> seen' \<and> seen' \<subseteq> seen \<union> key ` set xs \<and> (again \<longrightarrow> seen' \<noteq> seen) \<and> (\<forall>x\<in>set xs. due x \<longrightarrow> key x \<in> seen')"
proof -
  define found where "found = filter (\<lambda>x. due x \<and> key x \<notin> seen) xs"
  have new: "again \<Longrightarrow> \<exists>x. x \<in> set found"
    using assms by (cases found) (auto simp: recheck_once_def Let_def found_def)
  have "seen' = seen \<union> key ` set found"
    using assms by (auto simp: recheck_once_def Let_def found_def filter_empty_conv split: if_splits)
  moreover have "\<forall>x\<in>set found. key x \<notin> seen" "\<forall>x\<in>set xs. due x \<longrightarrow> key x \<in> seen \<or> x \<in> set found" "set found \<subseteq> set xs"
    by (auto simp: found_def)
  ultimately show ?thesis using new by blast
qed

lemma home_step_new:
  assumes "home_event_step P e s = (s', again)"
  shows "seen_deadlines s \<subseteq> seen_deadlines s' \<and> seen_deadlines s' \<subseteq> seen_deadlines s \<union> event_deadlines e
    \<and> (again \<longrightarrow> seen_deadlines s' \<noteq> seen_deadlines s)"
proof (cases e)
  case (Visits_read synchronized now q)
  obtain s1 b where r: "recheck_once (\<lambda>v. parsed_at_most P (gv_endsAt v) now) session_key (active_visits q) (hs_sessions s) = (s1, b)"
    by (cases "recheck_once (\<lambda>v. parsed_at_most P (gv_endsAt v) now) session_key (active_visits q) (hs_sessions s)")
  show ?thesis using assms recheck_once_new [OF r] r
    by (auto simp: Visits_read sessions_effect_def seen_deadlines_def inj_image_eq_iff image_Un split: if_splits)
next
  case (Queue_read synchronized now q)
  obtain s1 b where r: "recheck_once (offer_due P now) offer_key (waiting_entries q) (hs_offers s) = (s1, b)"
    by (cases "recheck_once (offer_due P now) offer_key (waiting_entries q) (hs_offers s)")
  show ?thesis using assms recheck_once_new [OF r] r
    by (auto simp: Queue_read offers_effect_def seen_deadlines_def split: if_splits)
qed

lemma finite_deadlines: "finite (event_deadlines e)"
  by (cases e) auto

text \<open>
  Property C39: the home page does not storm the server when deadlines pass. Whatever the page reads and whenever its
  clock ticks, the two effects read the lists again at most once for each distinct end of a session and each offer
  that the answers have shown and that was not rechecked before.
\<close>
theorem deadlines_are_rechecked_once:
  "home_rechecks P es s \<le> card (\<Union> (event_deadlines ` set es) - seen_deadlines s)"
proof (induction es arbitrary: s)
  case (Cons e es)
  obtain s' again where r: "home_event_step P e s = (s', again)" by (cases "home_event_step P e s")
  let ?U = "\<Union> (event_deadlines ` set es)" and ?V = "\<Union> (event_deadlines ` set (e # es))"
  note n = home_step_new [OF r]
  have fin: "finite (?V - seen_deadlines s)" by (simp add: finite_deadlines)
  have sub: "?U - seen_deadlines s' \<subseteq> ?V - seen_deadlines s" using n by auto
  show ?case
  proof (cases again)
    case True
    then obtain x where x: "x \<in> seen_deadlines s'" "x \<notin> seen_deadlines s" using n by blast
    then have "x \<in> ?V - seen_deadlines s" "x \<notin> ?U - seen_deadlines s'" using n by auto
    with sub have "?U - seen_deadlines s' \<subset> ?V - seen_deadlines s" by blast
    from psubset_card_mono [OF fin this] show ?thesis using Cons.IH [of s'] True by (simp add: r)
  next
    case False
    then show ?thesis using Cons.IH [of s'] card_mono [OF fin sub] by (simp add: r)
  qed
qed simp

lemma due_sessions_are_rechecked:
  assumes "sessions_effect P True now q s = (s', again)" and "\<not> rq_error q" and "v \<in> set (active_visits q)" and "parsed_at_most P (gv_endsAt v) now"
  shows "session_key v \<in> hs_sessions s'"
proof -
  obtain s1 b where r: "recheck_once (\<lambda>v. parsed_at_most P (gv_endsAt v) now) session_key (active_visits q) (hs_sessions s) = (s1, b)"
    by (cases "recheck_once (\<lambda>v. parsed_at_most P (gv_endsAt v) now) session_key (active_visits q) (hs_sessions s)")
  show ?thesis using assms recheck_once_new [OF r] by (auto simp: sessions_effect_def r)
qed

lemma bulk_refusal_is_lost:
  "bulk_error_text (PlainError bulk_refusal) = bulk_error_text OtherCause"
  by (simp add: bulk_error_text_def apiErrorMessage_def is_axios_def)

lemma reservation_bulk_covers_the_selection:
  assumes "snd (reservations_bulk_start q s reason w) = Inr req" and "distinct (map r_id (reservation_rows q))" and "finite (rw_selected w)"
  shows "\<exists>items. req = reservationApi_bulkStatus s (map (\<lambda>r. \<lparr>bi_id = r_id r, bi_version = r_version r\<rparr>) items) reason
    \<and> r_id ` set items = rw_selected w \<and> list_all (row_permits s) items"
proof -
  let ?items = "selected_rows (reservation_rows q) w"
  have n: "length ?items = card (rw_selected w)" and p: "list_all (row_permits s) ?items"
    and req: "req = reservationApi_bulkStatus s (map (\<lambda>r. \<lparr>bi_id = r_id r, bi_version = r_version r\<rparr>) ?items) reason"
    using assms(1) by (simp_all add: reservations_bulk_start_def Let_def split: if_splits)
  have d: "distinct (map r_id ?items)" using assms(2) by (simp add: selected_rows_def distinct_map_filter)
  have "card (r_id ` set ?items) = card (rw_selected w)" using distinct_card [OF d] n by simp
  moreover have "r_id ` set ?items \<subseteq> rw_selected w" by (auto simp: selected_rows_def)
  ultimately have "r_id ` set ?items = rw_selected w" using assms(3) card_subset_eq by metis
  with req p show ?thesis by blast
qed

lemma menu_keeps_to_its_items: "menu_next k current n = Some i \<Longrightarrow> i < n"
  by (cases k) (auto simp: menu_next_def nat_less_iff split: if_splits option.splits)

lemma menu_wraps: "menu_next Key_home None (Suc n) = menu_next Key_down (Some n) (Suc n) \<and> menu_next Key_end None (Suc n) = menu_next Key_up (Some 0) (Suc n)"
proof -
  have "Suc (Suc (n + n)) = 2 * Suc n" by simp
  then have "Suc (Suc (n + n)) mod Suc n = 0" by (metis mod_mult_self2_is_0)
  then show ?thesis by (simp add: menu_next_def)
qed

lemma menu_stays_in_the_window:
  "264 \<le> innerWidth \<Longrightarrow> 12 \<le> mp_left (locate_menu right tp bottom h innerWidth innerHeight)
    \<and> mp_left (locate_menu right tp bottom h innerWidth innerHeight) + 240 \<le> innerWidth - 12"
  by (auto simp: locate_menu_def Let_def)

lemma confirmation_is_sent_once:
  "confirm_submit p d = Some (d', reason) \<Longrightarrow> confirm_submit p' d' = None \<and> \<not> confirm_may_close p' d'"
  by (auto simp: confirm_submit_def confirm_may_close_def confirm_busy_def split: if_splits)

lemma required_reason_is_sent:
  "confirm_submit p d = Some (d', reason) \<Longrightarrow> cp_reasonRequired p \<Longrightarrow> reason = Some (trim (cd_reason d)) \<and> trim (cd_reason d) \<noteq> ''''"
  by (auto simp: confirm_submit_def confirm_invalid_def non_empty_def split: if_splits)

lemma drawer_sends_permitted_actions:
  "snd (drawer_transition q s note d) = Inr req \<Longrightarrow>
   \<exists>v. rq_data q = Some v \<and> \<not> rq_error q \<and> s \<in> set (rd_allowedActions v) \<and> req = reservationApi_changeStatus (rd_id v) (rd_version v) s note"
  by (auto simp: drawer_transition_def drawer_value_def split: if_splits option.splits)

lemma requested_action_is_permitted:
  "dw_action (requested_effect q d) = Some s \<Longrightarrow> dw_action d = None \<Longrightarrow>
   \<exists>v. drawer_value q = Some v \<and> rd_readOnly v \<noteq> Some True \<and> s \<in> set (rd_allowedActions v)"
  by (auto simp: requested_effect_def Let_def split: if_splits option.splits reservation_detail_action.splits)

end
