(* ===== verification/Timeline.thy ===== *)
theory Timeline
  imports Weekly Resources Gaming
begin

section \<open>The day's timeline and the slots of the week\<close>

text \<open>
  Models \<open>calendar/CalendarTimeline.tsx\<close>: the bounds of the day that is shown, the rows of the resources
  with their lanes, the hours outside working time and the positions on the track; and, of
  \<open>calendar/CalendarWeek.tsx\<close>, which slots of the week a reservation can be created in. \<open>collate a b\<close> is
  \<open>a.localeCompare(b)\<close>. None stands for an instant of the server that cannot be read, where the code
  goes on with NaN.
\<close>

subsection \<open>The context of a day\<close>

record time_text =
  tt_startTime :: string
  tt_endTime :: string

record calendar_location =
  cl_id :: string
  cl_name :: string
  cl_windows :: "time_text list"

record calendar_area =
  cla_id :: string
  cla_locationId :: string
  cla_locationName :: string
  cla_name :: string
  cla_active :: bool
  cla_displayOrder :: int

record calendar_resource =
  clr_id :: string
  clr_code :: string
  clr_name :: string
  clr_type :: resource_type
  clr_locationId :: string
  clr_locationName :: string
  clr_areaId :: string
  clr_areaName :: string
  clr_canManage :: bool
  clr_currentRestriction :: "string option"

datatype occupancy_kind = OCC_RESERVATION | OCC_SESSION

record occupancy = time_text +
  occ_resourceId :: string
  occ_kind :: occupancy_kind

datatype block_kind = BLK_RESERVATION | BLK_TIME_OFF

record employee_block = time_text +
  eb_kind :: block_kind

record calendar_context =
  cc_timezone :: string
  cc_serverTime :: string
  cc_rangeStart :: string
  cc_rangeEnd :: string
  cc_occupiedStations :: nat
  cc_locations :: "calendar_location list"
  cc_areas :: "calendar_area list"
  cc_resources :: "calendar_resource list"
  cc_occupancy :: "occupancy list"
  cc_employeeBlocks :: "employee_block list"

fun resourceTypes :: "resource_type \<Rightarrow> string" where
  "resourceTypes GAMING_PC = sr ''Gaming ra~cunar''"
| "resourceTypes PLAYSTATION = ''PlayStation''"
| "resourceTypes SIMULATOR = ''Simulator''"
| "resourceTypes VIP_ROOM = ''VIP prostorija''"
| "resourceTypes OTHER_RESOURCE = ''Drugi resurs''"

definition restrictionLabel :: "string \<Rightarrow> string" where
  "restrictionLabel reason = (if reason = ''STATION_CLIENT_OFFLINE'' then ''Gaming Client nije povezan.''
     else if reason = ''STATION_LOCK_PENDING'' then sr ''Zaklju~cavanje stanice ~ceka bezbednu potvrdu.''
     else bookingConflictReason (Some reason))"

subsection \<open>Ranges and lanes\<close>

record time_range_ms =
  trm_start :: ms
  trm_end :: ms

definition covers :: "ms \<Rightarrow> time_range_ms \<Rightarrow> bool" where
  "covers t r \<longleftrightarrow> trm_start r \<le> t \<and> t < trm_end r"

fun closed_from :: "ms \<Rightarrow> ms \<Rightarrow> ms \<Rightarrow> time_range_ms list \<Rightarrow> time_range_ms list" where
  \<comment> \<open>the loop over the sorted windows, with its \<open>cursor\<close>\<close>
  "closed_from from to cursor [] = (if cursor < to then [\<lparr>trm_start = cursor, trm_end = to\<rparr>] else [])"
| "closed_from from to cursor (w # ws) =
     (if trm_end w \<le> from \<or> to \<le> trm_start w then closed_from from to cursor ws
      else (if cursor < trm_start w then [\<lparr>trm_start = cursor, trm_end = min (trm_start w) to\<rparr>] else [])
        @ closed_from from to (max cursor (trm_end w)) ws)"

definition closedRanges :: "ms \<Rightarrow> ms \<Rightarrow> time_range_ms list \<Rightarrow> time_range_ms list" where
  "closedRanges from to windows = closed_from from to from (sort_by (\<lambda>a b. trm_start a \<le> trm_start b) windows)"

record track_event = time_range_ms +
  te_key :: string
  te_lane :: nat
  te_reservation :: "calendar_reservation option"

definition track_le :: "(string \<Rightarrow> string \<Rightarrow> int) \<Rightarrow> track_event \<Rightarrow> track_event \<Rightarrow> bool" where
  "track_le collate a b = (if trm_start a \<noteq> trm_start b then trm_start a < trm_start b
     else if trm_end a \<noteq> trm_end b then trm_end a < trm_end b else collate (te_key a) (te_key b) \<le> 0)"

fun assign_lanes :: "ms list \<Rightarrow> track_event list \<Rightarrow> track_event list" where
  "assign_lanes ends [] = []"
| "assign_lanes ends (e # es) = (let lane = first_free ends (trm_start e)
     in e\<lparr>te_lane := lane\<rparr> # assign_lanes (put_end lane (trm_end e) ends) es)"

definition event_lanes :: "(string \<Rightarrow> string \<Rightarrow> int) \<Rightarrow> track_event list \<Rightarrow> track_event list" where
  "event_lanes collate events = assign_lanes [] (sort_by (track_le collate) events)"

definition lane_count :: "track_event list \<Rightarrow> nat" where
  "lane_count row = foldl (\<lambda>v e. max v (te_lane e + 1)) 1 row"

subsection \<open>The model of the timeline\<close>

definition text_range :: "platform \<Rightarrow> string \<Rightarrow> string \<Rightarrow> time_range_ms option" where
  "text_range P s e = (case (parse P s, parse P e) of
     (Some a, Some b) \<Rightarrow> Some \<lparr>trm_start = a, trm_end = b\<rparr> | _ \<Rightarrow> None)"

definition windows_of :: "platform \<Rightarrow> calendar_location list \<Rightarrow> time_range_ms list option" where
  "windows_of P locations = those (map (\<lambda>w. text_range P (tt_startTime w) (tt_endTime w)) (concat (map cl_windows locations)))"

definition clip_range :: "ms \<Rightarrow> ms \<Rightarrow> time_range_ms \<Rightarrow> time_range_ms" where
  "clip_range dayStart dayEnd r = \<lparr>trm_start = max dayStart (trm_start r), trm_end = min dayEnd (trm_end r)\<rparr>"

definition hour :: int where
  "hour = 3600000"

definition track_from :: "ms \<Rightarrow> ms \<Rightarrow> time_range_ms list \<Rightarrow> ms" where
  "track_from dayStart dayEnd bounds = (if bounds = [] then dayStart
     else max dayStart (foldl (\<lambda>v r. min v (trm_start r)) dayEnd bounds div hour * hour))"

definition track_to :: "ms \<Rightarrow> ms \<Rightarrow> time_range_ms list \<Rightarrow> ms" where
  "track_to dayStart dayEnd bounds = (if bounds = [] then dayEnd
     else min dayEnd (- (- foldl (\<lambda>v r. max v (trm_end r)) dayStart bounds div hour) * hour))"

record timeline =
  tl_from :: ms
  tl_to :: ms
  tl_ticks :: "ms list"
  tl_windows :: "(string \<times> time_range_ms list) list" \<comment> \<open>\<open>hours\<close>, by location\<close>
  tl_visible :: "(calendar_reservation \<times> time_range_ms) list"
  tl_occupancy :: "(occupancy \<times> time_range_ms) list"

definition timeline_ticks :: "ms \<Rightarrow> ms \<Rightarrow> ms list" where
  "timeline_ticks from to = map (\<lambda>i. from + int i * hour) [0..<nat ((to - from) div hour + 1)]"

definition timeline_model :: "platform \<Rightarrow> calendar_context \<Rightarrow> calendar_reservation list \<Rightarrow> timeline option" where
  "timeline_model P context events = do {
     dayStart \<leftarrow> parse P (cc_rangeStart context);
     dayEnd \<leftarrow> parse P (cc_rangeEnd context);
     let shown = List.map_filter (\<lambda>e. map_option (Pair e) (text_range P (cal_startTime e) (cal_endTime e))) events;
     let visible = filter (\<lambda>(e, r). trm_start r < dayEnd \<and> dayStart < trm_end r) shown;
     windows \<leftarrow> windows_of P (cc_locations context);
     busy \<leftarrow> those (map (\<lambda>i. map_option (Pair i) (text_range P (tt_startTime i) (tt_endTime i))) (cc_occupancy context));
     hours \<leftarrow> those (map (\<lambda>l. map_option (Pair (cl_id l)) (windows_of P [l])) (cc_locations context));
     let bounds = windows @ map (clip_range dayStart dayEnd \<circ> snd) visible @ map (clip_range dayStart dayEnd \<circ> snd) busy;
     let from = track_from dayStart dayEnd bounds;
     let to = track_to dayStart dayEnd bounds;
     Some \<lparr>tl_from = from, tl_to = max to (from + hour), tl_ticks = timeline_ticks from to, tl_windows = hours,
           tl_visible = visible, tl_occupancy = busy\<rparr> }"

definition track_of :: "string \<Rightarrow> calendar_reservation option \<Rightarrow> time_range_ms \<Rightarrow> track_event" where
  "track_of key r t = \<lparr>trm_start = trm_start t, trm_end = trm_end t, te_key = key, te_lane = 0, te_reservation = r\<rparr>"

definition unassigned :: "timeline \<Rightarrow> calendar_reservation list" where
  "unassigned m = map fst (filter (\<lambda>(e, r). \<not> truthy (cal_resourceId e)) (tl_visible m))"

definition timeline_row :: "(string \<Rightarrow> string \<Rightarrow> int) \<Rightarrow> timeline \<Rightarrow> string \<Rightarrow> track_event list" where
  \<comment> \<open>\<open>byResource.get(id) ?? []\<close>\<close>
  "timeline_row collate m i = event_lanes collate
     (map (\<lambda>(e, r). track_of (cal_id e) (Some e) r) (filter (\<lambda>(e, r). truthy (cal_resourceId e) \<and> cal_resourceId e = Some i) (tl_visible m))
      @ map (\<lambda>(k, r). track_of (''session:'' @ tt_startTime k) None r)
          (filter (\<lambda>(k, r). occ_resourceId k = i \<and> occ_kind k = OCC_SESSION) (tl_occupancy m)))"

definition busy_ranges :: "timeline \<Rightarrow> string \<Rightarrow> time_range_ms list" where
  "busy_ranges m i = map snd (filter (\<lambda>(k, r). occ_resourceId k = i \<and> occ_kind k = OCC_RESERVATION) (tl_occupancy m))"

definition area_resources :: "calendar_context \<Rightarrow> string \<Rightarrow> calendar_resource list" where
  "area_resources context i = filter (\<lambda>r. clr_areaId r = i) (cc_resources context)"

definition timeline_closed :: "timeline \<Rightarrow> calendar_resource \<Rightarrow> time_range_ms list" where
  \<comment> \<open>a later location with the same id replaces an earlier one\<close>
  "timeline_closed m r = closedRanges (tl_from m) (tl_to m)
     (case map_of (rev (tl_windows m)) (clr_locationId r) of Some ws \<Rightarrow> ws | None \<Rightarrow> [])"

definition track_percent :: "timeline \<Rightarrow> ms \<Rightarrow> rat" where
  "track_percent m t = of_int (t - tl_from m) / of_int (tl_to m - tl_from m) * 100"

definition track_position :: "timeline \<Rightarrow> time_range_ms \<Rightarrow> rat \<times> rat" where
  \<comment> \<open>the left edge and the width in percent\<close>
  "track_position m r = (track_percent m (min (tl_to m) (max (trm_start r) (tl_from m))),
     of_int (max 0 (min (trm_end r) (tl_to m) - max (trm_start r) (tl_from m))) / of_int (tl_to m - tl_from m) * 100)"

definition showNow :: "timeline \<Rightarrow> ms \<Rightarrow> bool" where
  "showNow m now \<longleftrightarrow> tl_from m \<le> now \<and> now < tl_to m"

definition toggle_area :: "string \<Rightarrow> string set \<Rightarrow> string set" where
  "toggle_area i collapsed = (if i \<in> collapsed then collapsed - {i} else insert i collapsed)"

subsection \<open>Creating from a slot of the week\<close>

definition le_ms :: "ms option \<Rightarrow> ms option \<Rightarrow> bool" where
  "le_ms a b = (case (a, b) of (Some x, Some y) \<Rightarrow> x \<le> y | _ \<Rightarrow> False)"

definition window_holds :: "platform \<Rightarrow> ms \<Rightarrow> time_text \<Rightarrow> bool" where
  "window_holds P t w \<longleftrightarrow> le_ms (parse P (tt_startTime w)) (Some t) \<and> le_ms (Some (t + quarterHour)) (parse P (tt_endTime w))"

definition overlaps_quarter :: "platform \<Rightarrow> ms \<Rightarrow> 'a time_text_scheme \<Rightarrow> bool" where
  "overlaps_quarter P t b \<longleftrightarrow> lt_ms (parse P (tt_startTime b)) (Some (t + quarterHour)) \<and> lt_ms (Some t) (parse P (tt_endTime b))"

definition slot_open :: "platform \<Rightarrow> calendar_context \<Rightarrow> ms \<Rightarrow> bool" where
  "slot_open P c t \<longleftrightarrow> list_ex (window_holds P t) (concat (map cl_windows (cc_locations c)))"

definition slot_blocked :: "platform \<Rightarrow> calendar_context \<Rightarrow> ms \<Rightarrow> bool" where
  "slot_blocked P c t \<longleftrightarrow> list_ex (overlaps_quarter P t) (cc_employeeBlocks c)"

definition resource_taken :: "platform \<Rightarrow> calendar_context \<Rightarrow> ms \<Rightarrow> calendar_resource \<Rightarrow> bool" where
  "resource_taken P c t r \<longleftrightarrow> \<not> clr_canManage r
     \<or> \<not> (case find (\<lambda>l. cl_id l = clr_locationId r) (cc_locations c) of
          Some l \<Rightarrow> list_ex (window_holds P t) (cl_windows l) | None \<Rightarrow> False)
     \<or> list_ex (\<lambda>i. occ_resourceId i = clr_id r \<and> overlaps_quarter P t i) (cc_occupancy c)"

definition slot_taken :: "platform \<Rightarrow> calendar_context \<Rightarrow> ms \<Rightarrow> bool" where
  "slot_taken P c t \<longleftrightarrow> cc_resources c \<noteq> [] \<and> list_all (resource_taken P c t) (cc_resources c)"

definition slot_canCreate :: "platform \<Rightarrow> bool \<Rightarrow> calendar_context option \<Rightarrow> week_slot option \<Rightarrow> ms \<Rightarrow> bool" where
  \<comment> \<open>\<open>offered\<close>: the page passes \<open>onCreate\<close>; no slot: the hour does not exist on the day\<close>
  "slot_canCreate P offered context slot now \<longleftrightarrow> offered \<and> (case (context, slot) of
     (Some c, Some s) \<Rightarrow> slot_open P c (ws_instant s) \<and> \<not> slot_blocked P c (ws_instant s) \<and> \<not> slot_taken P c (ws_instant s) \<and> now < ws_instant s
   | _ \<Rightarrow> False)"

subsection \<open>Properties\<close>

lemma closed_from_covers:
  assumes "sorted (map trm_start ws)" and "fr \<le> cursor"
  shows "list_ex (covers t) (closed_from fr to cursor ws) \<longleftrightarrow> cursor \<le> t \<and> t < to \<and> \<not> list_ex (covers t) ws"
  using assms
proof (induction ws arbitrary: cursor)
  case Nil
  then show ?case by (auto simp: covers_def)
next
  case (Cons w ws)
  have later: "\<forall>v\<in>set ws. trm_start w \<le> trm_start v" and srt: "sorted (map trm_start ws)" using Cons.prems(1) by auto
  show ?case
  proof (cases "trm_end w \<le> fr \<or> to \<le> trm_start w")
    case True
    then have out: "cursor \<le> t \<and> t < to \<Longrightarrow> \<not> covers t w" using Cons.prems(2) by (auto simp: covers_def)
    show ?thesis using Cons.IH [OF srt Cons.prems(2)] True out by auto
  next
    case False
    have rest: "list_ex (covers t) (closed_from fr to (max cursor (trm_end w)) ws) \<longleftrightarrow>
        max cursor (trm_end w) \<le> t \<and> t < to \<and> \<not> list_ex (covers t) ws"
      using Cons.IH [OF srt, of "max cursor (trm_end w)"] Cons.prems(2) by simp
    have gap: "list_ex (covers t) (if cursor < trm_start w then [\<lparr>trm_start = cursor, trm_end = min (trm_start w) to\<rparr>] else [])
        \<longleftrightarrow> cursor \<le> t \<and> t < trm_start w" using False by (auto simp: covers_def)
    have early: "t < trm_start w \<Longrightarrow> \<not> list_ex (covers t) ws" using later by (auto simp: covers_def list_ex_iff)
    have step: "closed_from fr to cursor (w # ws) =
        (if cursor < trm_start w then [\<lparr>trm_start = cursor, trm_end = min (trm_start w) to\<rparr>] else [])
          @ closed_from fr to (max cursor (trm_end w)) ws" using False by simp
    have both: "list_ex (covers t) (closed_from fr to cursor (w # ws)) \<longleftrightarrow>
        cursor \<le> t \<and> t < trm_start w \<or> max cursor (trm_end w) \<le> t \<and> t < to \<and> \<not> list_ex (covers t) ws"
      unfolding step list_ex_append gap rest ..
    have w: "list_ex (covers t) (w # ws) \<longleftrightarrow> trm_start w \<le> t \<and> t < trm_end w \<or> list_ex (covers t) ws"
      by (simp add: covers_def)
    show ?thesis unfolding both w using early False by (auto simp: not_le not_less)
  qed
qed

lemma sorted_by_start: "sorted (map trm_start (sort_by (\<lambda>a b. trm_start a \<le> trm_start b) ws))"
  by (rule sorted_sort_by) auto

text \<open>
  Property C40: what the timeline marks as unavailable is exactly what lies outside the working hours. Whatever
  windows the server sends, in whatever order, overlapping or beyond the day that is shown, an instant lies in one of the
  marked ranges exactly when it lies on the track and in no window.
\<close>
theorem closed_hours_are_exact:
  "list_ex (covers t) (closedRanges from to windows) \<longleftrightarrow> from \<le> t \<and> t < to \<and> \<not> list_ex (covers t) windows"
proof -
  have "list_ex (covers t) (sort_by (\<lambda>a b. trm_start a \<le> trm_start b) windows) \<longleftrightarrow> list_ex (covers t) windows"
    by (simp add: list_ex_iff)
  then show ?thesis using closed_from_covers [OF sorted_by_start order_refl] by (simp add: closedRanges_def)
qed

definition lane_free :: "track_event \<Rightarrow> track_event \<Rightarrow> bool" where
  "lane_free a b \<longleftrightarrow> te_lane a \<noteq> te_lane b \<or> trm_end a \<le> trm_start b"

lemma assign_lanes_starts: "e \<in> set (assign_lanes ends es) \<Longrightarrow> \<exists>x\<in>set es. trm_start e = trm_start x"
  by (induction es arbitrary: ends) (auto simp: Let_def)

lemma lanes_follow_ends:
  assumes "sorted (map trm_start es)" and "e \<in> set (assign_lanes ends es)" and "te_lane e < length ends"
  shows "ends ! te_lane e \<le> trm_start e"
  using assms
proof (induction es arbitrary: ends)
  case (Cons x xs)
  let ?l = "first_free ends (trm_start x)"
  note ff = first_free_props [of ends "trm_start x"]
  show ?case
  proof (cases "e = x\<lparr>te_lane := ?l\<rparr>")
    case True
    then show ?thesis using Cons.prems(3) ff by simp
  next
    case False
    have e: "e \<in> set (assign_lanes (put_end ?l (trm_end x) ends) xs)" using Cons.prems(2) False by (auto simp: Let_def)
    have later: "trm_start x \<le> trm_start e"
      using Cons.prems(1) e by (auto simp: Let_def dest!: assign_lanes_starts)
    show ?thesis
    proof (cases "te_lane e = ?l")
      case True
      then show ?thesis using Cons.prems(3) ff later by fastforce
    next
      case other: False
      have "te_lane e < length (put_end ?l (trm_end x) ends)" using Cons.prems(3) by (simp add: put_end_def)
      from Cons.IH [OF _ e this] Cons.prems(1) put_end_nth [OF this ff(1)] other show ?thesis by simp
    qed
  qed
qed simp

text \<open>
  Two entries of a row that share a lane never overlap: the earlier one has ended when the later one begins.
\<close>
lemma lanes_do_not_overlap:
  assumes "sorted (map trm_start es)"
  shows "sorted_wrt lane_free (assign_lanes ends es)"
  using assms
proof (induction es arbitrary: ends)
  case (Cons x xs)
  let ?l = "first_free ends (trm_start x)"
  note ff = first_free_props [of ends "trm_start x"]
  have "lane_free (x\<lparr>te_lane := ?l\<rparr>) e" if e: "e \<in> set (assign_lanes (put_end ?l (trm_end x) ends) xs)" for e
  proof (cases "te_lane e = ?l")
    case True
    have "?l < length (put_end ?l (trm_end x) ends)" using ff(1) by (simp add: put_end_def)
    with lanes_follow_ends [OF _ e] Cons.prems put_end_nth [OF this ff(1)] True show ?thesis by (simp add: lane_free_def)
  qed (simp add: lane_free_def)
  then show ?case using Cons by (simp add: Let_def)
qed simp

lemma row_lanes_do_not_overlap: "sorted_wrt lane_free (event_lanes collate events)"
proof -
  have "sorted (map trm_start (sort_by (track_le collate) events))"
    by (rule sorted_sort_by) (auto simp: track_le_def split: if_splits)
  then show ?thesis unfolding event_lanes_def by (rule lanes_do_not_overlap)
qed

lemma lanes_fit_the_row: "e \<in> set row \<Longrightarrow> te_lane e < lane_count row"
proof -
  have "n \<le> foldl (\<lambda>v e. max v (te_lane e + 1)) n xs \<and> (\<forall>e\<in>set xs. te_lane e < foldl (\<lambda>v e. max v (te_lane e + 1)) n xs)" for n xs
  proof (induction xs arbitrary: n)
    case (Cons x xs)
    from Cons.IH [of "max n (te_lane x + 1)"] show ?case by auto
  qed simp
  from this [of 1 row] show "e \<in> set row \<Longrightarrow> te_lane e < lane_count row" by (simp add: lane_count_def)
qed

lemma shares_of_a_track:
  fixes a w n :: int
  assumes "0 \<le> a" and "0 \<le> w" and "a + w \<le> n" and "0 < n"
  shows "0 \<le> of_int a / of_int n * (100 :: rat) \<and> 0 \<le> of_int w / of_int n * (100 :: rat)
    \<and> of_int a / of_int n * 100 + of_int w / of_int n * 100 \<le> (100 :: rat)"
proof -
  have "of_int (a + w) / of_int n \<le> (1 :: rat)" using assms(3,4) by (simp add: divide_le_eq del: of_int_add)
  moreover have "of_int a / of_int n * 100 + of_int w / of_int n * 100 = (of_int (a + w) / of_int n * 100 :: rat)"
    by (simp add: add_divide_distrib distrib_right)
  ultimately have "of_int a / of_int n * 100 + of_int w / of_int n * 100 \<le> (100 :: rat)" by linarith
  with assms show ?thesis by (intro conjI) (simp_all only: zero_le_divide_iff zero_le_mult_iff of_int_0_le_iff, simp_all)
qed

lemma positions_stay_on_the_track:
  assumes "tl_from m < tl_to m" and "trm_start r \<le> trm_end r"
  shows "0 \<le> fst (track_position m r) \<and> 0 \<le> snd (track_position m r) \<and> fst (track_position m r) + snd (track_position m r) \<le> 100"
  unfolding track_position_def track_percent_def fst_conv snd_conv
  by (rule shares_of_a_track) (use assms in auto)

lemma offered_slots_are_usable:
  assumes "slot_canCreate P offered (Some c) (Some s) now"
  shows "now < ws_instant s \<and> slot_open P c (ws_instant s) \<and> list_all (\<lambda>b. \<not> overlaps_quarter P (ws_instant s) b) (cc_employeeBlocks c)
    \<and> (cc_resources c \<noteq> [] \<longrightarrow> (\<exists>r\<in>set (cc_resources c). clr_canManage r
        \<and> \<not> list_ex (\<lambda>i. occ_resourceId i = clr_id r \<and> overlaps_quarter P (ws_instant s) i) (cc_occupancy c)))"
  using assms by (auto simp: slot_canCreate_def slot_blocked_def slot_taken_def resource_taken_def list_ex_iff list_all_iff)

end
