(* ===== verification/CalendarPages.thy ===== *)
theory CalendarPages
  imports Timeline ReservationPages Waitlist
begin

section \<open>The calendar page and the customer's reservations\<close>

text \<open>
  Models the handlers of \<open>pages/CalendarPage.tsx\<close> and \<open>pages/MyReservationsPage.tsx\<close> with the cards of
  \<open>reservations/customer/CustomerReservationCard.tsx\<close> and \<open>reservations/customer/CustomerWaitlist.tsx\<close>. The
  addresses are records or search parameters; a None of the date functions is a thrown \<open>RangeError\<close>.
\<close>

subsection \<open>The calendar page\<close>

record calendar_url =
  cu_scope :: string
  cu_customerId :: string
  cu_locationId :: string
  cu_areaId :: string
  cu_view :: string
  cu_date :: string
  cu_employeeId :: string
  cu_status :: string
  cu_resourceId :: string
  cu_reservationId :: string

fun view_name :: "calendar_view \<Rightarrow> string" where
  "view_name V_day = ''day''"
| "view_name V_week = ''week''"
| "view_name V_month = ''month''"
| "view_name V_list = ''list''"

definition calendar_defaults :: "auth_user option \<Rightarrow> bool \<Rightarrow> string \<Rightarrow> calendar_url" where
  \<comment> \<open>\<open>narrow\<close>: the window is at most 800 pixels wide\<close>
  "calendar_defaults actor narrow today = \<lparr>cu_scope = (if is_employee actor then ''MANAGEABLE'' else ''ALL''), cu_customerId = '''',
     cu_locationId = '''', cu_areaId = '''', cu_view = (if narrow then ''list'' else ''day''), cu_date = today, cu_employeeId = '''',
     cu_status = '''', cu_resourceId = '''', cu_reservationId = ''''\<rparr>"

definition calendar_scope :: "calendar_url \<Rightarrow> reservation_scope" where
  "calendar_scope u = (if cu_scope u = ''MANAGEABLE'' then MANAGEABLE else ALL_SCOPE)"

definition calendar_view_of :: "calendar_url \<Rightarrow> calendar_view" where
  "calendar_view_of u = (case find (\<lambda>v. view_name v = cu_view u) [V_day, V_week, V_month, V_list] of Some v \<Rightarrow> v | None \<Rightarrow> V_day)"

definition calendar_anchor :: "platform \<Rightarrow> string \<Rightarrow> calendar_url \<Rightarrow> string" where
  "calendar_anchor P fallback u = (if validDate P (cu_date u) then cu_date u else fallback)"

definition calendar_canCreate :: "auth_user option \<Rightarrow> bool" where
  "calendar_canCreate actor \<longleftrightarrow> map_option user_role actor \<noteq> Some CUSTOMER \<and> hasCapability actor RESERVATION_CREATE"

definition managed_resource :: "management_scope option \<Rightarrow> string \<Rightarrow> bool" where
  "managed_resource managed i \<longleftrightarrow> (case managed of Some m \<Rightarrow> ms_allResources m \<or> List.member (ms_resourceIds m) i | None \<Rightarrow> False)"

definition calendar_resourceOptions ::
  "auth_user option \<Rightarrow> management_scope option \<Rightarrow> calendar_url \<Rightarrow> booking_resource list option \<Rightarrow> booking_resource list" where
  "calendar_resourceOptions actor managed u inventory = (case inventory of None \<Rightarrow> [] | Some rs \<Rightarrow>
     filter (\<lambda>r. (cu_locationId u = '''' \<or> bkr_locationId r = cu_locationId u)
       \<and> (cu_areaId u = '''' \<or> bkr_areaId r = Some (cu_areaId u))
       \<and> (\<not> is_employee actor \<or> calendar_scope u \<noteq> MANAGEABLE \<or> managed_resource managed (bkr_id r))) rs)"

definition calendar_between :: "calendar_url \<Rightarrow> string \<Rightarrow> string \<Rightarrow> http_request" where
  \<comment> \<open>\<open>reservationApi.calendar({...filters, status, from, to})\<close>\<close>
  "calendar_between u from to = reservationApi_calendar (non_empty (cu_employeeId u)) from to (Some (calendar_scope u))
     (non_empty (cu_resourceId u)) (non_empty (cu_locationId u)) (non_empty (cu_areaId u)) (non_empty (cu_customerId u))
     (reservation_status_of (cu_status u))"

definition calendar_request :: "platform \<Rightarrow> calendar_view \<Rightarrow> string \<Rightarrow> calendar_url \<Rightarrow> http_request option" where
  "calendar_request P view anchor u = do {
     range \<leftarrow> rangeFor P view anchor;
     to \<leftarrow> (if view = V_day then addDays P (dr_to range) 1 else Some (dr_to range));
     Some (calendar_between u (dr_from range) to) }"

definition context_request :: "calendar_url \<Rightarrow> string \<Rightarrow> http_request" where
  "context_request u date = reservationApi_calendarContext date (Some (calendar_scope u)) (non_empty (cu_locationId u))
     (non_empty (cu_areaId u)) (non_empty (cu_resourceId u)) (non_empty (cu_employeeId u))"

definition week_requests :: "platform \<Rightarrow> calendar_view \<Rightarrow> string \<Rightarrow> calendar_url \<Rightarrow> http_request list option" where
  "week_requests P view anchor u = do {
     range \<leftarrow> rangeFor P view anchor;
     Some (if view = V_week then map (context_request u) (dr_days range) else []) }"

definition calendar_summary_request :: "calendar_url \<Rightarrow> http_request" where
  "calendar_summary_request u = reservationApi_summary \<lparr>rf_page = 0, rf_size = 0, rf_status = None,
     rf_employeeId = non_empty (cu_employeeId u), rf_customerId = non_empty (cu_customerId u), rf_resourceId = non_empty (cu_resourceId u),
     rf_locationId = non_empty (cu_locationId u), rf_areaId = non_empty (cu_areaId u), rf_scope = Some (calendar_scope u), rf_from = None,
     rf_to = None, rf_sort = None, rf_direction = None, rf_search = None, rf_upcoming = None\<rparr>"

definition mini_request :: "platform \<Rightarrow> bool \<Rightarrow> string \<Rightarrow> calendar_url \<Rightarrow> http_request option option" where
  "mini_request P contextOpen month u = do {
     days \<leftarrow> monthDays P month;
     Some (if contextOpen then Some (calendar_between u (hd days) (days ! 41)) else None) }"

definition calendar_events ::
  "platform \<Rightarrow> calendar_view \<Rightarrow> date_range \<Rightarrow> calendar_context option \<Rightarrow> calendar_reservation list reading \<Rightarrow> calendar_reservation list option" where
  "calendar_events P view period context q = do {
     limits \<leftarrow> (case (view, context) of
         (V_day, Some c) \<Rightarrow> Some (parse P (cc_rangeStart c), parse P (cc_rangeEnd c))
       | _ \<Rightarrow> do {
           s \<leftarrow> from_sum (businessLocalToInstant P (dr_from period @ ''T00:00''));
           after \<leftarrow> addDays P (dr_to period) 1;
           e \<leftarrow> from_sum (businessLocalToInstant P (after @ ''T00:00''));
           Some (parse P s, parse P e) });
     Some (if rq_error q then [] else filter (\<lambda>i. lt_ms (parse P (cal_startTime i)) (snd limits) \<and> lt_ms (fst limits) (parse P (cal_endTime i)))
       (case rq_data q of Some xs \<Rightarrow> xs | None \<Rightarrow> [])) }"

definition areaNames :: "booking_resource list option \<Rightarrow> calendar_context option \<Rightarrow> string \<Rightarrow> string option" where
  \<comment> \<open>of two entries with one id the later counts\<close>
  "areaNames inventory context = map_of (rev (
     List.map_filter (\<lambda>r. if truthy (bkr_areaName r) then Some (bkr_id r, the (bkr_areaName r)) else None) (case inventory of Some rs \<Rightarrow> rs | None \<Rightarrow> [])
     @ (case context of Some c \<Rightarrow> map (\<lambda>r. (clr_id r, clr_areaName r)) (cc_resources c) | None \<Rightarrow> [])))"

definition changeScope :: "management_scope option \<Rightarrow> reservation_scope \<Rightarrow> calendar_url \<Rightarrow> calendar_url" where
  "changeScope managed next_scope u = (let u1 = u\<lparr>cu_scope := scope_text next_scope\<rparr> in
     if next_scope = MANAGEABLE \<and> cu_resourceId u \<noteq> '''' \<and> \<not> managed_resource managed (cu_resourceId u) then u1\<lparr>cu_resourceId := ''''\<rparr> else u1)"

definition calendar_move :: "platform \<Rightarrow> calendar_view \<Rightarrow> string \<Rightarrow> int \<Rightarrow> calendar_url \<Rightarrow> calendar_url option" where
  "calendar_move P view anchor direction u = do {
     date \<leftarrow> (if view = V_month then addMonths P anchor direction else addDays P anchor (direction * (if view = V_day then 1 else 7)));
     Some (u\<lparr>cu_date := date\<rparr>) }"

definition selectDate :: "platform \<Rightarrow> string \<Rightarrow> calendar_url \<Rightarrow> calendar_url" where
  "selectDate P date u = (if validDate P date then u\<lparr>cu_date := date\<rparr> else u)"

definition choose_location :: "string \<Rightarrow> calendar_url \<Rightarrow> calendar_url" where
  "choose_location l u = u\<lparr>cu_locationId := l, cu_areaId := '''', cu_resourceId := ''''\<rparr>"

definition choose_area :: "string \<Rightarrow> calendar_url \<Rightarrow> calendar_url" where
  "choose_area a u = u\<lparr>cu_areaId := a, cu_resourceId := ''''\<rparr>"

record calendar_page =
  cpg_createOpen :: bool
  cpg_createStart :: "string option"
  cpg_message :: string

definition openCreate :: "string option \<Rightarrow> calendar_page \<Rightarrow> calendar_page" where
  \<comment> \<open>with the start of a slot of the week, or without from the button\<close>
  "openCreate start p = p\<lparr>cpg_createStart := start, cpg_createOpen := True\<rparr>"

definition calendar_created :: "string \<Rightarrow> string option \<Rightarrow> calendar_page \<times> calendar_url \<Rightarrow> calendar_page \<times> calendar_url" where
  "calendar_created i summary = (\<lambda>(p, u). (p\<lparr>cpg_createOpen := False, cpg_message := or_text summary ''Rezervacija je kreirana.''\<rparr>,
     u\<lparr>cu_reservationId := i\<rparr>))"

subsection \<open>The customer's reservations: the address\<close>

definition mine_canRead :: "auth_user option \<Rightarrow> bool" where
  "mine_canRead user \<longleftrightarrow> map_option user_role user = Some CUSTOMER \<and> hasCapability user RESERVATION_READ_OWN"

definition mine_canCreate :: "auth_user option \<Rightarrow> bool" where
  "mine_canCreate user \<longleftrightarrow> mine_canRead user \<and> hasCapability user RESERVATION_CREATE"

definition or_param :: "string option \<Rightarrow> string option \<Rightarrow> string option" where
  \<comment> \<open>\<open>a ?? b\<close>\<close>
  "or_param a b = (case a of Some x \<Rightarrow> Some x | None \<Rightarrow> b)"

definition mine_filter :: "search_params \<Rightarrow> string" where
  "mine_filter ps = (let raw = or_text (or_param (map_of ps ''filter'') (map_of ps ''status'')) ''UPCOMING''
     in if List.member [''ALL'', ''UPCOMING'', ''PENDING'', ''COMPLETED'', ''CANCELLED'', ''REJECTED'', ''CONFIRMED''] raw then raw else ''ALL'')"

definition mine_listDate :: "search_params \<Rightarrow> string" where
  "mine_listDate ps = (let d = or_text (map_of ps ''date'') '''' in if date_shape d then d else '''')"

definition mine_page :: "(string \<Rightarrow> jsnum) \<Rightarrow> search_params \<Rightarrow> nat" where
  "mine_page to_number ps = (case to_number (or_text (map_of ps ''page'') ''1'') of
     Num r \<Rightarrow> if is_safe_integer (Num r) \<and> 0 < r then nat \<lfloor>r\<rfloor> - 1 else 0 | _ \<Rightarrow> 0)"

definition mine_size :: "(string \<Rightarrow> jsnum) \<Rightarrow> search_params \<Rightarrow> nat" where
  \<comment> \<open>\<open>Number(null)\<close> is 0, as \<open>Number('')\<close> is\<close>
  "mine_size to_number ps = page_size_of to_number (or_text (map_of ps ''size'') '''')"

definition mine_direction :: "search_params \<Rightarrow> string" where
  "mine_direction ps = (if map_of ps ''sort'' = Some ''latest'' then ''DESC'' else ''ASC'')"

definition mine_waitlist_section :: "search_params \<Rightarrow> bool" where
  "mine_waitlist_section ps \<longleftrightarrow> map_of ps ''section'' = Some ''waitlist''
     \<or> map_of ps ''waitlistOffer'' \<noteq> None \<and> map_of ps ''section'' \<noteq> Some ''reservations''"

definition mine_request :: "(string \<Rightarrow> jsnum) \<Rightarrow> auth_user option \<Rightarrow> search_params \<Rightarrow> http_request option" where
  "mine_request to_number user ps = (if \<not> mine_canRead user then None else
     Some (reservationApi_mine \<lparr>rf_page = mine_page to_number ps, rf_size = mine_size to_number ps,
       rf_status = (if mine_filter ps = ''ALL'' \<or> mine_filter ps = ''UPCOMING'' then None else reservation_status_of (mine_filter ps)),
       rf_employeeId = None, rf_customerId = None, rf_resourceId = None, rf_locationId = None, rf_areaId = None, rf_scope = None,
       rf_from = non_empty (mine_listDate ps), rf_to = non_empty (mine_listDate ps), rf_sort = Some ''startTime'',
       rf_direction = Some (mine_direction ps), rf_search = None,
       rf_upcoming = (if mine_filter ps = ''UPCOMING'' then Some True else None)\<rparr>))"

definition changeParams :: "(string \<times> string option) list \<Rightarrow> search_params \<Rightarrow> search_params" where
  "changeParams changes ps = fold (\<lambda>(k, v) qs. if truthy v then params_set k (the v) qs else params_delete k qs) changes ps"

definition mine_page_effect :: "nat \<Rightarrow> nat option \<Rightarrow> bool \<Rightarrow> search_params \<Rightarrow> search_params" where
  "mine_page_effect page totalPages failed ps = (case totalPages of
     Some n \<Rightarrow> if failed \<or> page < max 1 n then ps else params_set ''page'' (show_nat (max 1 n)) ps | None \<Rightarrow> ps)"

subsection \<open>The customer's reservations: booking\<close>

record my_reservations =
  myr_booking :: "booking_prefill option"
  myr_closing :: bool \<comment> \<open>\<open>closingBooking\<close>\<close>
  myr_action :: bool \<comment> \<open>\<open>actionRef\<close>\<close>
  myr_pending :: string \<comment> \<open>\<open>waitlistPending\<close>\<close>
  myr_error :: string
  myr_detail :: "reservation_detail_action option"
  myr_expired :: "string set"
  myr_focused :: string

definition empty_prefill :: booking_prefill where
  "empty_prefill = \<lparr>pf_serviceId = None, pf_resourceId = None, pf_locationId = None, pf_areaId = None, pf_employeeId = None\<rparr>"

definition param_prefill :: "string \<Rightarrow> search_params \<Rightarrow> booking_prefill" where
  "param_prefill service ps = \<lparr>pf_serviceId = Some (or_text (map_of ps ''serviceId'') service),
     pf_resourceId = Some (or_text (map_of ps ''resourceId'') ''''), pf_locationId = Some (or_text (map_of ps ''locationId'') ''''),
     pf_areaId = Some (or_text (map_of ps ''areaId'') ''''), pf_employeeId = None\<rparr>"

definition booking_requested :: "search_params \<Rightarrow> bool" where
  "booking_requested ps \<longleftrightarrow> truthy (map_of ps ''serviceId'') \<or> truthy (map_of ps ''resourceId'') \<or> map_of ps ''booking'' = Some ''new''"

definition my_reservations_open :: "string \<Rightarrow> search_params \<Rightarrow> my_reservations" where
  \<comment> \<open>\<open>selection\<close>: the service chosen in the catalog, or ''''\<close>
  "my_reservations_open selection ps = \<lparr>myr_booking = (if booking_requested ps \<or> selection \<noteq> '''' then Some (param_prefill selection ps) else None),
     myr_closing = False, myr_action = False, myr_pending = '''', myr_error = '''', myr_detail = None, myr_expired = {}, myr_focused = ''''\<rparr>"

definition booking_keys :: "string list" where
  "booking_keys = [''booking'', ''serviceId'', ''resourceId'', ''locationId'', ''areaId'']"

definition clearBookingParams :: "search_params \<Rightarrow> search_params" where
  "clearBookingParams ps = changeParams (map (\<lambda>k. (k, None)) booking_keys) ps"

definition closeBooking :: "my_reservations \<times> search_params \<Rightarrow> my_reservations \<times> search_params" where
  "closeBooking = (\<lambda>(m, ps). (m\<lparr>myr_closing := True, myr_booking := None\<rparr>, clearBookingParams ps))"

definition openBooking :: "auth_user option \<Rightarrow> booking_prefill \<Rightarrow> my_reservations \<times> search_params \<Rightarrow> my_reservations \<times> search_params" where
  "openBooking user p = (\<lambda>(m, ps). if \<not> mine_canCreate user then (m, ps)
     else (m\<lparr>myr_closing := False, myr_booking := Some p, myr_error := ''''\<rparr>,
       changeParams [(''booking'', Some ''new''), (''serviceId'', pf_serviceId p), (''resourceId'', pf_resourceId p),
         (''locationId'', pf_locationId p), (''areaId'', pf_areaId p)] ps))"

definition booking_effect :: "auth_user option \<Rightarrow> search_params \<Rightarrow> my_reservations \<Rightarrow> my_reservations" where
  \<comment> \<open>with the address of this rendering, which may be older than the state\<close>
  "booking_effect user ps m = (let m1 = (if booking_requested ps then m else m\<lparr>myr_closing := False\<rparr>)
     in if mine_canCreate user \<and> myr_booking m1 = None \<and> \<not> myr_closing m1 \<and> booking_requested ps
        then m1\<lparr>myr_booking := Some (param_prefill '''' ps)\<rparr> else m1)"

definition booking_shown :: "auth_user option \<Rightarrow> my_reservations \<Rightarrow> bool" where
  "booking_shown user m \<longleftrightarrow> myr_booking m \<noteq> None \<and> mine_canCreate user"

definition reservation_changes :: "(string \<times> string option) list" where
  "reservation_changes = [(''filter'', None), (''status'', None), (''page'', None), (''date'', None), (''section'', Some ''reservations'')]"

definition booking_created :: "string option \<Rightarrow> my_reservations \<times> search_params \<Rightarrow> my_reservations \<times> search_params" where
  "booking_created i = (\<lambda>(m, ps).
     if truthy i then (m\<lparr>myr_closing := True, myr_booking := None, myr_detail := None\<rparr>,
       changeParams (reservation_changes @ (''reservationId'', i) # map (\<lambda>k. (k, None)) booking_keys) ps)
     else (m, changeParams reservation_changes ps))"

definition booking_waitlisted :: "my_reservations \<times> search_params \<Rightarrow> my_reservations \<times> search_params" where
  "booking_waitlisted = (\<lambda>(m, ps). (m\<lparr>myr_closing := True, myr_booking := None\<rparr>,
     changeParams ((''section'', Some ''waitlist'') # map (\<lambda>k. (k, None)) booking_keys) ps))"

definition openMyDetails :: "string \<Rightarrow> reservation_detail_action option \<Rightarrow> my_reservations \<times> search_params \<Rightarrow> my_reservations \<times> search_params" where
  "openMyDetails i a = (\<lambda>(m, ps). (m\<lparr>myr_detail := a\<rparr>, changeParams [(''reservationId'', Some i)] ps))"

definition closeMyDetails :: "my_reservations \<times> search_params \<Rightarrow> my_reservations \<times> search_params" where
  "closeMyDetails = (\<lambda>(m, ps). (m\<lparr>myr_detail := None\<rparr>, changeParams [(''reservationId'', None)] ps))"

subsection \<open>The customer's reservations: offers\<close>

definition mine_serverTime :: "waitlist_entry list \<Rightarrow> my_reservation_summary option \<Rightarrow> string option" where
  "mine_serverTime entries summary = or_param (case entries of e # _ \<Rightarrow> wle_serverTime e | [] \<Rightarrow> None) (map_option mrs_serverTime summary)"

definition activeOffers :: "platform \<Rightarrow> string option \<Rightarrow> ms \<Rightarrow> waitlist_entry list \<Rightarrow> nat" where
  "activeOffers P serverTime now entries = length (filter (\<lambda>e. wle_status e = WL_OFFERED \<and> wle_offerStatus e \<noteq> Some WO_EXPIRED
     \<and> truthy (wle_offerExpiresAt e) \<and> truthy serverTime \<and> parsed_after P (the (wle_offerExpiresAt e)) now
     \<and> parsed_after P (wle_desiredStart e) now) entries)"

definition mine_offers_effect :: "platform \<Rightarrow> string option \<Rightarrow> ms \<Rightarrow> waitlist_entry list \<Rightarrow> my_reservations \<Rightarrow> my_reservations \<times> bool" where
  "mine_offers_effect P serverTime now entries m = (if \<not> truthy serverTime then (m, False)
     else (let r = recheck_once (\<lambda>e. wle_status e = WL_OFFERED \<and> wle_offerStatus e \<noteq> Some WO_EXPIRED \<and> truthy (wle_offerId e)
         \<and> truthy (wle_offerExpiresAt e) \<and> parsed_at_most P (the (wle_offerExpiresAt e)) now) offer_key entries (myr_expired m)
       in (m\<lparr>myr_expired := fst r\<rparr>, snd r)))"

definition accept_start ::
  "platform \<Rightarrow> string option \<Rightarrow> ms \<Rightarrow> bool \<Rightarrow> waitlist_entry \<Rightarrow> my_reservations \<Rightarrow> (my_reservations \<times> http_request) option" where
  \<comment> \<open>\<open>failed\<close>: the list shows an error; None: nothing is sent\<close>
  "accept_start P serverTime now failed e m =
     (if \<not> truthy (wle_offerId e) \<or> \<not> truthy serverTime \<or> \<not> truthy (wle_offerExpiresAt e)
        \<or> parsed_at_most P (the (wle_offerExpiresAt e)) now \<or> parsed_at_most P (wle_desiredStart e) now \<or> myr_action m \<or> failed then None
      else Some (m\<lparr>myr_action := True, myr_pending := wle_id e, myr_error := ''''\<rparr>, waitlistApi_accept (the (wle_offerId e))))"

definition accept_refusal :: cause where
  "accept_refusal = PlainError (sr ''Rezervacija nije potvr~dena.'')"

definition accept_result :: "cause + waitlist_entry \<Rightarrow> cause + string" where
  "accept_result r = (case r of Inl c \<Rightarrow> Inl c
     | Inr a \<Rightarrow> if wle_status a = WL_ACCEPTED \<and> truthy (wle_reservationId a) then Inr (the (wle_reservationId a)) else Inl accept_refusal)"

definition accept_answered :: "cause + waitlist_entry \<Rightarrow> my_reservations \<times> search_params \<Rightarrow> my_reservations \<times> search_params" where
  "accept_answered r = (\<lambda>(m, ps). case accept_result r of
     Inr i \<Rightarrow> (m\<lparr>myr_detail := None\<rparr>, changeParams [(''reservationId'', Some i), (''filter'', None), (''status'', None), (''page'', None),
       (''date'', None), (''section'', Some ''reservations''), (''waitlistOffer'', None)] ps)
   | Inl c \<Rightarrow> (m\<lparr>myr_error := customerReservationError c (sr ''Ponuda je istekla ili je termin zauzet. Rezervacija nije potvr~dena.'')\<rparr>, ps))"

definition mine_cancel_start :: "waitlist_entry \<Rightarrow> my_reservations \<Rightarrow> (my_reservations \<times> http_request) option" where
  "mine_cancel_start e m = (if myr_action m then None
     else Some (m\<lparr>myr_action := True, myr_pending := wle_id e, myr_error := ''''\<rparr>, waitlistApi_cancel e))"

definition mine_cancel_answered :: "cause option \<Rightarrow> my_reservations \<Rightarrow> my_reservations" where
  "mine_cancel_answered failure m = (case failure of None \<Rightarrow> m
     | Some c \<Rightarrow> m\<lparr>myr_error := customerReservationError c (sr ''Prijavu nije mogu~qe otkazati.'')\<rparr>)"

definition mine_finally :: "my_reservations \<Rightarrow> my_reservations" where
  \<comment> \<open>after the list was read again\<close>
  "mine_finally m = m\<lparr>myr_action := False, myr_pending := ''''\<rparr>"

subsection \<open>The cards\<close>

definition card_editable :: "bool \<Rightarrow> reservation \<Rightarrow> bool" where
  "card_editable canChange r \<longleftrightarrow> r_canEdit r = Some True \<and> r_readOnly r \<noteq> Some True \<and> canChange"

definition card_cancellable :: "bool \<Rightarrow> reservation \<Rightarrow> bool" where
  "card_cancellable canChange r \<longleftrightarrow> row_permits R_CANCELLED r \<and> canChange"

definition card_rebookable :: "bool \<Rightarrow> reservation \<Rightarrow> bool" where
  "card_rebookable canCreate r \<longleftrightarrow> canCreate \<and> List.member [R_COMPLETED, R_CANCELLED, R_REJECTED] (r_status r)"

definition rebook_prefill :: "reservation \<Rightarrow> booking_prefill" where
  "rebook_prefill r = \<lparr>pf_serviceId = Some (r_serviceId r), pf_resourceId = r_resourceId r, pf_locationId = r_locationId r, pf_areaId = None,
     pf_employeeId = Some (r_employeeId r)\<rparr>"

definition entry_expired :: "platform \<Rightarrow> ms \<Rightarrow> bool \<Rightarrow> waitlist_entry \<Rightarrow> bool" where
  "entry_expired P now synchronized e \<longleftrightarrow> wle_offerStatus e = Some WO_EXPIRED
     \<or> synchronized \<and> (truthy (wle_offerExpiresAt e) \<and> parsed_at_most P (the (wle_offerExpiresAt e)) now \<or> parsed_at_most P (wle_desiredStart e) now)"

definition entry_active :: "platform \<Rightarrow> ms \<Rightarrow> bool \<Rightarrow> waitlist_entry \<Rightarrow> bool" where
  "entry_active P now synchronized e \<longleftrightarrow> wle_status e = WL_OFFERED \<and> \<not> entry_expired P now synchronized e \<and> synchronized
     \<and> truthy (wle_offerExpiresAt e) \<and> parsed_after P (wle_desiredStart e) now"

definition entry_seconds :: "platform \<Rightarrow> ms \<Rightarrow> bool \<Rightarrow> waitlist_entry \<Rightarrow> int option" where
  \<comment> \<open>None: the time is being synchronized; an unreadable end of the offer does not count down\<close>
  "entry_seconds P now synchronized e = (if \<not> synchronized \<or> \<not> truthy (wle_offerExpiresAt e) then None
     else map_option (\<lambda>t. max 0 (- ((now - t) div 1000))) (parse P (the (wle_offerExpiresAt e))))"

definition entry_label :: "platform \<Rightarrow> ms \<Rightarrow> bool \<Rightarrow> waitlist_entry \<Rightarrow> string" where
  "entry_label P now synchronized e = (case wle_status e of
     WL_WAITING \<Rightarrow> sr ''~Ceka termin'' | WL_ACCEPTED \<Rightarrow> sr ''Prihva~qeno'' | WL_CANCELLED \<Rightarrow> ''Otkazano''
   | WL_OFFERED \<Rightarrow> if entry_expired P now synchronized e then ''Ponuda istekla''
       else if entry_active P now synchronized e then sr ''Ponuda ~ceka odgovor'' else ''Provera ponude'')"

definition accept_enabled :: "platform \<Rightarrow> ms \<Rightarrow> bool \<Rightarrow> bool \<Rightarrow> my_reservations \<Rightarrow> waitlist_entry \<Rightarrow> bool" where
  "accept_enabled P now synchronized failed m e \<longleftrightarrow> wle_status e = WL_OFFERED \<and> entry_active P now synchronized e \<and> myr_pending m = '''' \<and> \<not> failed"

subsection \<open>Properties\<close>

lemma cleared_address_requests_nothing: "\<not> booking_requested (clearBookingParams ps)"
  by (simp add: booking_requested_def clearBookingParams_def changeParams_def booking_keys_def truthy_def)

text \<open>
  A form that was closed, completed or left for the waiting list stays closed while the renderings still see the
  old address: the effect opens it again only after an address without a request has been seen.
\<close>
lemma closed_form_stays_closed:
  assumes "myr_closing m" and "myr_booking m = None" and "list_all booking_requested pss"
  shows "myr_booking (fold (booking_effect user) pss m) = None \<and> myr_closing (fold (booking_effect user) pss m)"
  using assms by (induction pss arbitrary: m) (auto simp: booking_effect_def Let_def)

lemma closing_ways:
  "myr_closing (fst (closeBooking (m, ps))) \<and> myr_booking (fst (closeBooking (m, ps))) = None"
  "truthy i \<Longrightarrow> myr_closing (fst (booking_created i (m, ps))) \<and> myr_booking (fst (booking_created i (m, ps))) = None"
  "myr_closing (fst (booking_waitlisted (m, ps))) \<and> myr_booking (fst (booking_waitlisted (m, ps))) = None"
  by (simp_all add: closeBooking_def booking_created_def booking_waitlisted_def)

lemma expired_offers_are_not_accepted:
  assumes "accept_start P serverTime now failed e m = Some (m', req)"
  shows "req = waitlistApi_accept (the (wle_offerId e)) \<and> \<not> myr_action m \<and> myr_action m'
    \<and> (wle_offerStatus e \<noteq> Some WO_EXPIRED \<longrightarrow> \<not> entry_expired P now True e)"
  using assms by (auto simp: accept_start_def entry_expired_def split: if_splits)

lemma offered_acceptance_is_sent:
  assumes "accept_enabled P now (truthy serverTime) failed m e" and "\<not> myr_action m" and "truthy (wle_offerId e)"
  shows "accept_start P serverTime now failed e m \<noteq> None"
  using assms by (auto simp: accept_enabled_def entry_active_def entry_expired_def accept_start_def)

lemma one_waitlist_action_at_a_time:
  "accept_start P serverTime now failed e m = Some (m', req) \<Longrightarrow> mine_cancel_start e' m' = None \<and> accept_start P st now' failed' e' m' = None"
  "mine_cancel_start e m = Some (m', req) \<Longrightarrow> mine_cancel_start e' m' = None \<and> accept_start P st now' failed' e' m' = None"
  by (auto simp: accept_start_def mine_cancel_start_def split: if_splits)

lemma counted_offers_are_active:
  "activeOffers P serverTime now entries \<le> length (filter (entry_active P now (truthy serverTime)) entries)"
proof -
  have parsed: "parsed_after P v now \<Longrightarrow> \<not> parsed_at_most P v now" for v
    by (auto simp: parsed_after_def parsed_at_most_def split: option.splits)
  have "filter (\<lambda>e. wle_status e = WL_OFFERED \<and> wle_offerStatus e \<noteq> Some WO_EXPIRED
     \<and> truthy (wle_offerExpiresAt e) \<and> truthy serverTime \<and> parsed_after P (the (wle_offerExpiresAt e)) now
     \<and> parsed_after P (wle_desiredStart e) now) entries =
     filter (\<lambda>e. parsed_after P (the (wle_offerExpiresAt e)) now \<and> wle_offerStatus e \<noteq> Some WO_EXPIRED)
       (filter (entry_active P now (truthy serverTime)) entries)"
    unfolding filter_filter by (rule filter_cong [OF refl]) (auto simp: entry_active_def entry_expired_def parsed)
  then show ?thesis by (simp only: activeOffers_def length_filter_le)
qed

lemma scope_keeps_a_managed_resource:
  "cu_resourceId (changeScope managed MANAGEABLE u) \<noteq> '''' \<Longrightarrow> managed_resource managed (cu_resourceId (changeScope managed MANAGEABLE u))"
  by (auto simp: changeScope_def Let_def)

lemma selected_date_is_valid: "validDate P (cu_date u) \<Longrightarrow> validDate P (cu_date (selectDate P date u))"
  by (simp add: selectDate_def)

lemma anchor_is_valid: "validDate P fallback \<Longrightarrow> validDate P (calendar_anchor P fallback u)"
  by (simp add: calendar_anchor_def)

end
