(* ===== verification/GamingPages.thy ===== *)
theory GamingPages
  imports OrderPages
begin

section \<open>The gaming workspace\<close>

text \<open>
  Models the handlers of \<open>gaming/GamingOperationsWorkspace.tsx\<close>, the actions and warnings of
  \<open>gaming/GamingStationViews.tsx\<close>, the dialogs that assign a computer, record a payment and prepare a station
  (\<open>gaming/StartSessionDialog.tsx\<close>, \<open>GamingExtensionDialog.tsx\<close>, \<open>RecordTimeDialog.tsx\<close>, \<open>GamingTimePanel.tsx\<close>,
  \<open>StationFinanceActions.tsx\<close>), \<open>gaming/GamingOverview.tsx\<close> and \<open>settings/GamingTimeSettings.tsx\<close>. The dialogs
  send their operations through the financial command of theory \<open>Idempotency\<close>. \<open>lower\<close> is
  \<open>toLocaleLowerCase('sr')\<close> and \<open>collate a b\<close> the numeric \<open>localeCompare\<close>.
\<close>

subsection \<open>The board: filters, order and pages\<close>

record gaming_url =
  gu_search :: string
  gu_locationId :: string
  gu_status :: string
  gu_attention :: string
  gu_expiring :: string
  gu_ready :: string
  gu_sessions :: string
  gu_offline :: string
  gu_sort :: string
  gu_stationId :: string
  gu_stationPage :: string
  gu_sessionPage :: string
  gu_stationSize :: string
  gu_sessionSize :: string
  gu_view :: string

definition gaming_defaults :: gaming_url where
  "gaming_defaults = \<lparr>gu_search = '''', gu_locationId = '''', gu_status = '''', gu_attention = '''', gu_expiring = '''', gu_ready = '''',
     gu_sessions = '''', gu_offline = '''', gu_sort = ''attention'', gu_stationId = '''', gu_stationPage = ''1'', gu_sessionPage = ''1'',
     gu_stationSize = ''10'', gu_sessionSize = ''10'', gu_view = ''cards''\<rparr>"

fun board_status_name :: "gaming_station_board_status \<Rightarrow> string" where
  "board_status_name B_WAITING_FOR_LOGIN = ''WAITING_FOR_LOGIN''"
| "board_status_name B_CLIENT_ERROR = ''CLIENT_ERROR''"
| "board_status_name B_PREPARATION_REQUIRED = ''PREPARATION_REQUIRED''"
| "board_status_name B_TRANSFER_PENDING = ''TRANSFER_PENDING''"
| "board_status_name B_AVAILABLE = ''AVAILABLE''"
| "board_status_name B_ACTIVE = ''ACTIVE''"
| "board_status_name B_MAINTENANCE = ''MAINTENANCE''"
| "board_status_name B_RETIRED = ''RETIRED''"
| "board_status_name B_OFFLINE = ''OFFLINE''"
| "board_status_name B_EXPIRED = ''EXPIRED''"
| "board_status_name B_LOCK_PENDING = ''LOCK_PENDING''"

definition station_text :: "gaming_station_card \<Rightarrow> string" where
  "station_text s = st_resourceName s @ '' '' @ st_resourceCode s @ '' '' @ (case st_customerDisplayName s of Some n \<Rightarrow> n | None \<Rightarrow> '''')
     @ '' '' @ (case st_applicationProfileName s of Some n \<Rightarrow> n | None \<Rightarrow> '''')"

definition station_offline :: "gaming_station_card \<Rightarrow> bool" where
  "station_offline s \<longleftrightarrow> st_staleHeartbeat s \<or> st_status s = B_OFFLINE"

definition station_ready :: "gaming_station_card \<Rightarrow> bool" where
  "station_ready s \<longleftrightarrow> List.member (st_allowedActions s) START"

definition board_matches :: "platform \<Rightarrow> (string \<Rightarrow> string) \<Rightarrow> ms \<Rightarrow> gaming_url \<Rightarrow> gaming_station_card \<Rightarrow> bool" where
  "board_matches P lower now u s \<longleftrightarrow> (let search = lower (trim (gu_search u)) in
     (search = '''' \<or> str_includes search (lower (station_text s)))
     \<and> (gu_locationId u = '''' \<or> st_locationId s = gu_locationId u)
     \<and> (gu_status u = '''' \<or> board_status_name (st_status s) = gu_status u)
     \<and> (gu_stationId u = '''' \<or> st_resourceId s = gu_stationId u)
     \<and> (gu_ready u \<noteq> ''true'' \<or> station_ready s)
     \<and> (gu_sessions u \<noteq> ''true'' \<or> truthy (st_sessionId s))
     \<and> (gu_offline u \<noteq> ''true'' \<or> station_offline s)
     \<and> (gu_attention u \<noteq> ''true'' \<or> needsAttention s)
     \<and> (gu_expiring u \<noteq> ''true'' \<or> isExpiringStation P s now))"

definition end_sign :: "platform \<Rightarrow> gaming_station_card \<Rightarrow> gaming_station_card \<Rightarrow> int" where
  \<comment> \<open>the sign of the difference of two ends; no end is Infinity, and a NaN (or \<open>Infinity - Infinity\<close>) decides nothing\<close>
  "end_sign P a b = (case (truthy (st_endsAt a), truthy (st_endsAt b)) of
     (True, True) \<Rightarrow> (case (parse P (the (st_endsAt a)), parse P (the (st_endsAt b))) of (Some x, Some y) \<Rightarrow> sgn (x - y) | _ \<Rightarrow> 0)
   | (True, False) \<Rightarrow> if parse P (the (st_endsAt a)) = None then 0 else -1
   | (False, True) \<Rightarrow> if parse P (the (st_endsAt b)) = None then 0 else 1
   | (False, False) \<Rightarrow> 0)"

definition station_le :: "platform \<Rightarrow> (string \<Rightarrow> string \<Rightarrow> int) \<Rightarrow> gaming_url \<Rightarrow> gaming_station_card \<Rightarrow> gaming_station_card \<Rightarrow> bool" where
  "station_le P collate u a b = (let d = (if gu_sort u = ''attention'' then of_bool (needsAttention b) - of_bool (needsAttention a)
       else if gu_sort u = ''expiry'' then end_sign P a b else 0)
     in if d \<noteq> (0 :: int) then d < 0 else collate (st_resourceName a) (st_resourceName b) \<le> 0)"

definition board_filtered ::
  "platform \<Rightarrow> (string \<Rightarrow> string) \<Rightarrow> (string \<Rightarrow> string \<Rightarrow> int) \<Rightarrow> ms \<Rightarrow> gaming_url \<Rightarrow> gaming_station_card list \<Rightarrow> gaming_station_card list" where
  "board_filtered P lower collate now u stations = sort_by (station_le P collate u) (filter (board_matches P lower now u) stations)"

definition board_sessions :: "gaming_station_card list \<Rightarrow> gaming_station_card list" where
  "board_sessions filtered = filter (\<lambda>s. truthy (st_sessionId s)) filtered"

definition board_pages :: "nat \<Rightarrow> nat \<Rightarrow> nat" where
  \<comment> \<open>\<open>Math.ceil(total / pageSize)\<close>\<close>
  "board_pages n m = (m + n - 1) div n"

definition board_page :: "(string \<Rightarrow> jsnum) \<Rightarrow> string \<Rightarrow> nat \<Rightarrow> nat \<Rightarrow> nat" where
  "board_page to_number text n m = min (nat (readGamingPage to_number text)) (board_pages n m - 1)"

definition page_rows :: "nat \<Rightarrow> nat \<Rightarrow> 'a list \<Rightarrow> 'a list" where
  "page_rows n page xs = take n (drop (page * n) xs)"

definition board_effect :: "bool \<Rightarrow> nat \<Rightarrow> nat \<Rightarrow> gaming_url \<Rightarrow> gaming_url" where
  \<comment> \<open>\<open>answered\<close>: the board has been read without an error\<close>
  "board_effect answered stationPage sessionPage u = (if \<not> answered then u
     else u\<lparr>gu_stationPage := show_nat (stationPage + 1), gu_sessionPage := show_nat (sessionPage + 1)\<rparr>)"

definition setFilters :: "(gaming_url \<Rightarrow> gaming_url) \<Rightarrow> gaming_url \<Rightarrow> gaming_url" where
  "setFilters changes u = (changes u)\<lparr>gu_stationPage := ''1'', gu_sessionPage := ''1''\<rparr>"

definition primaryFilter :: "string \<Rightarrow> gaming_url \<Rightarrow> gaming_url" where
  "primaryFilter f = setFilters (\<lambda>u. u\<lparr>gu_attention := '''', gu_expiring := '''', gu_offline := '''',
     gu_status := (if f = ''MAINTENANCE'' \<or> f = ''RETIRED'' then f else ''''), gu_ready := (if f = ''ready'' then ''true'' else ''''),
     gu_sessions := (if f = ''sessions'' then ''true'' else ''''), gu_stationId := ''''\<rparr>)"

datatype alert_filter = A_offline | A_attention | A_expiring

definition alertFilter :: "alert_filter \<Rightarrow> gaming_url \<Rightarrow> gaming_url" where
  "alertFilter f = setFilters (\<lambda>u. u\<lparr>gu_search := '''', gu_locationId := '''', gu_status := '''', gu_ready := '''', gu_sessions := '''',
     gu_stationId := '''', gu_offline := (if f = A_offline then ''true'' else ''''), gu_attention := (if f = A_attention then ''true'' else ''''),
     gu_expiring := (if f = A_expiring then ''true'' else '''')\<rparr>)"

definition primary_shown :: "gaming_url \<Rightarrow> string" where
  "primary_shown u = (if gu_status u \<noteq> '''' then gu_status u else if gu_ready u = ''true'' then ''ready''
     else if gu_sessions u = ''true'' then ''sessions'' else ''all'')"

record board_counts =
  bc_ready :: nat
  bc_active :: nat
  bc_attention :: nat
  bc_offline :: nat
  bc_expiring :: nat

definition counts_of :: "platform \<Rightarrow> ms \<Rightarrow> gaming_station_card list \<Rightarrow> board_counts" where
  "counts_of P now stations = \<lparr>bc_ready = length (filter station_ready stations), bc_active = length (filter (\<lambda>s. truthy (st_sessionId s)) stations),
     bc_attention = length (filter needsAttention stations), bc_offline = length (filter station_offline stations),
     bc_expiring = length (filter (\<lambda>s. isExpiringStation P s now) stations)\<rparr>"

definition board_locations :: "gaming_station_card list \<Rightarrow> (string, string) dict" where
  "board_locations stations = dict_of (map (\<lambda>s. (st_locationId s, case st_locationName s of Some n \<Rightarrow> n | None \<Rightarrow> ''Lokacija'')) stations)"

definition board_disabled :: "platform \<Rightarrow> ms \<Rightarrow> bool \<Rightarrow> bool \<Rightarrow> gaming_operations_board option \<Rightarrow> gaming_commands \<Rightarrow> bool" where
  "board_disabled P now failed visible board c \<longleftrightarrow> gc_busy c \<or> gc_hasPending c \<or> failed
     \<or> gamingBoardStale P (map_option gb_serverTime board) now \<or> \<not> visible"

definition extend_clicked :: "gaming_station_card \<Rightarrow> int \<Rightarrow> gaming_commands \<Rightarrow> gaming_commands" where
  "extend_clicked s minutes c = c\<lparr>gc_minutes := minutes, gc_customStation := Some s\<rparr>"

definition end_confirmed ::
  "string \<Rightarrow> string option \<Rightarrow> gaming_commands \<Rightarrow> gaming_commands \<times> (string \<times> terminate_request) option" where
  "end_confirmed generated reason c = (case (gc_endStation c, reason) of
     (Some s, Some t) \<Rightarrow> if gc_hasPending c \<or> t = '''' then (c, None) else terminate_start generated s t c
   | _ \<Rightarrow> (c, None))"

definition end_dismissed :: "gaming_commands \<Rightarrow> gaming_commands" where
  "end_dismissed c = (if gc_busy c \<or> gc_hasPending c then c else c\<lparr>gc_endStation := None\<rparr>)"

subsection \<open>The actions and warnings of a station\<close>

datatype actions_variant = In_card | In_table | In_panel

datatype station_button =
    Btn_cancel_assignment | Btn_assign | Btn_extend int | Btn_end | Btn_force_lock | Btn_confirm_lock | Btn_add_time | Btn_history

definition station_buttons :: "auth_user option \<Rightarrow> gaming_station_card \<Rightarrow> actions_variant \<Rightarrow> station_button list" where
  "station_buttons actor s variant = (let permit = permitsStationAction actor s;
       extra = (if permit EXTEND then [Btn_extend 60, Btn_add_time] else []) @ (if hasCapability actor GAMING_SESSION_READ then [Btn_history] else [])
     in (if permit CANCEL_ASSIGNMENT \<and> truthy (st_assignmentId s) then [Btn_cancel_assignment] else [])
       @ (if permit START then [Btn_assign] else [])
       @ (if permit EXTEND then [Btn_extend 30] else [])
       @ (if permit TERMINATE then [Btn_end] else [])
       @ (if variant = In_card then []
          else (if permit FORCE_LOCK then [Btn_force_lock] else []) @ (if permit CONFIRM_LOCKED then [Btn_confirm_lock] else []) @ extra))"

definition command_unconfirmed :: "gaming_station_card \<Rightarrow> bool" where
  "command_unconfirmed s \<longleftrightarrow> (case st_commandSequence s of Some n \<Rightarrow> n \<noteq> 0 \<and> \<not> truthy (st_commandAcknowledgedAt s) | None \<Rightarrow> False)"

definition recovery_warning :: "bool \<Rightarrow> gaming_station_card \<Rightarrow> bool" where
  "recovery_warning in_card s \<longleftrightarrow> (in_card \<or> truthy (st_sessionId s)) \<and> (st_status s = B_LOCK_PENDING \<or> st_status s = B_EXPIRED)"

definition heartbeat_warning :: "bool \<Rightarrow> gaming_station_card \<Rightarrow> string" where
  "heartbeat_warning in_card s = (if in_card
     then (if truthy (st_sessionId s) then sr ''Sesija na serveru; heartbeat zastareo. Proverite ra~cunar.'' else sr ''Heartbeat zastareo. Proverite ra~cunar.'')
     else (if truthy (st_sessionId s) then sr ''Sesija je aktivna na serveru. Proverite vezu i lokalno stanje ra~cunara.''
       else sr ''Heartbeat je zastareo. Proverite vezu i lokalno stanje ra~cunara.''))"

definition tile_expiring :: "gaming_station_card \<Rightarrow> rat option \<Rightarrow> bool" where
  "tile_expiring s seconds \<longleftrightarrow> truthy (st_sessionId s) \<and> (case seconds of Some v \<Rightarrow> v \<le> 600 | None \<Rightarrow> False)"

definition connectionLabel :: "gaming_station_card \<Rightarrow> string" where
  "connectionLabel s = (case snd (stationConnection s) of T_success \<Rightarrow> ''Povezan'' | T_danger \<Rightarrow> ''Veza nepoznata'' | _ \<Rightarrow> fst (stationConnection s))"

subsection \<open>Operations that carry a key\<close>

datatype gaming_operation =
    Op_assign string string "string option"
  | Op_grant string time_grant
  | Op_prepare string string bool string
  | Op_cancel string

definition prepare_body :: "string \<Rightarrow> bool \<Rightarrow> string \<Rightarrow> json" where
  "prepare_body session verified reason =
     JObj [(''sessionId'', JStr session), (''isolatedProfileVerified'', JBool verified), (''reason'', JStr reason)]"

definition operation_request :: "gaming_operation \<Rightarrow> string \<Rightarrow> http_request" where
  "operation_request oper key = (case oper of
     Op_assign cust resource reservation \<Rightarrow> gamingTimeApi_assign cust resource reservation key
   | Op_grant cust g \<Rightarrow> gamingTimeApi_grant cust g key
   | Op_prepare resource session verified reason \<Rightarrow> gamingBillingApi_prepare resource (prepare_body session verified reason) key
   | Op_cancel assignment \<Rightarrow> gamingTimeApi_cancel assignment key)"

definition run_operation :: "string \<Rightarrow> gaming_operation option \<Rightarrow> gaming_operation fin_command \<Rightarrow> gaming_operation fin_command \<times> http_request option" where
  \<comment> \<open>the handler of a form: None is a form that is not complete\<close>
  "run_operation generated operation c = (case operation of
     None \<Rightarrow> (c, None)
   | Some op \<Rightarrow> let r = fin_start generated op c in (fst r, map_option (\<lambda>(k, sent). operation_request sent k) (snd r)))"

definition retry_operation :: "string \<Rightarrow> gaming_operation fin_command \<Rightarrow> gaming_operation fin_command \<times> http_request option" where
  "retry_operation generated c = run_operation generated (fc_previous c) c"

record start_dialog =
  sd_selected :: "string option"
  sd_resourceId :: string
  sd_creating :: bool

definition start_open :: "gaming_station_card option \<Rightarrow> string option \<Rightarrow> (string \<times> string) option \<Rightarrow> start_dialog" where
  \<comment> \<open>the station, the customer, and the id and resource of a reservation\<close>
  "start_open station chosen reservation = \<lparr>sd_selected = chosen,
     sd_resourceId = (case station of Some s \<Rightarrow> st_resourceId s | None \<Rightarrow> (case reservation of Some (i, r) \<Rightarrow> r | None \<Rightarrow> '''')), sd_creating = False\<rparr>"

definition start_options :: "gaming_operations_board option \<Rightarrow> gaming_station_card list" where
  "start_options board = (case board of Some b \<Rightarrow> filter station_ready (gb_stations b) | None \<Rightarrow> [])"

definition start_operation :: "(string \<times> string) option \<Rightarrow> start_dialog \<Rightarrow> gaming_operation option" where
  "start_operation reservation d = (case sd_selected d of
     Some c \<Rightarrow> if sd_resourceId d = '''' then None else Some (Op_assign c (sd_resourceId d) (map_option fst reservation))
   | None \<Rightarrow> None)"

definition start_enabled :: "rat option \<Rightarrow> gaming_operation fin_command \<Rightarrow> start_dialog \<Rightarrow> bool" where
  \<comment> \<open>the balance of the account that was read\<close>
  "start_enabled balance c d \<longleftrightarrow> \<not> fin_locked c \<and> sd_selected d \<noteq> None \<and> sd_resourceId d \<noteq> ''''
     \<and> (case balance of Some b \<Rightarrow> 0 < b | None \<Rightarrow> False)"

definition customer_created :: "string \<Rightarrow> start_dialog \<Rightarrow> start_dialog" where
  "customer_created c d = d\<lparr>sd_selected := Some c, sd_creating := False\<rparr>"

definition grant_operation :: "purchase_model \<Rightarrow> gaming_operation option" where
  \<comment> \<open>the three forms that record a payment\<close>
  "grant_operation m = (if purchase_valid m then map_option (\<lambda>c. Op_grant c (purchase_grant m)) (pm_customerId m) else None)"

definition balance_after :: "purchase_model \<Rightarrow> rat \<Rightarrow> rat" where
  "balance_after m balance = balance + (if validMinutes (pm_minutes m) then (case pm_minutes m of Num r \<Rightarrow> r * 60 | _ \<Rightarrow> 0) else 0)"

definition prepare_operation :: "string \<Rightarrow> string option \<Rightarrow> bool \<Rightarrow> string \<Rightarrow> gaming_operation option" where
  "prepare_operation resource session verified reason = (if truthy session \<and> verified
     then Some (Op_prepare resource (the session) verified reason) else None)"

definition cancel_assignment_operation :: "gaming_station_card \<Rightarrow> gaming_operation option" where
  "cancel_assignment_operation s = (if truthy (st_assignmentId s) then map_option Op_cancel (st_assignmentId s) else None)"

definition finish_offered :: "auth_user option \<Rightarrow> string \<Rightarrow> gaming_session option \<Rightarrow> gaming_operation fin_command \<Rightarrow> bool" where
  "finish_offered actor customerId active c \<longleftrightarrow> \<not> hasCapability actor GAMING_PAYMENT_RECORD \<and> active \<noteq> None
     \<and> map_option user_id actor = Some customerId \<and> \<not> fin_locked c"

definition finish_request :: "gaming_session option \<Rightarrow> http_request option" where
  "finish_request active = map_option (\<lambda>s. gamingSessionApi_finish (gs_id s)) active"

subsection \<open>The overview and the price\<close>

definition overview_expiring :: "platform \<Rightarrow> ms \<Rightarrow> gaming_station_card \<Rightarrow> bool" where
  "overview_expiring P now s \<longleftrightarrow> truthy (st_sessionId s) \<and> truthy (st_endsAt s)
     \<and> (case parse P (the (st_endsAt s)) of Some t \<Rightarrow> t - now \<le> 600000 | None \<Rightarrow> False)"

definition actionable :: "platform \<Rightarrow> ms \<Rightarrow> gaming_station_card list \<Rightarrow> gaming_station_card list" where
  "actionable P now stations = (let attention = filter needsAttention stations in
     take 6 (attention @ filter (\<lambda>s. \<not> List.member attention s) (filter (overview_expiring P now) stations)))"

definition overview_label :: "platform \<Rightarrow> ms \<Rightarrow> gaming_station_card \<Rightarrow> string option" where
  \<comment> \<open>None shows NaN\<close>
  "overview_label P now s = (if needsAttention s then Some (if st_staleHeartbeat s then ''Veza zastarela''
       else if command_unconfirmed s then sr ''Komanda ~ceka potvrdu'' else stationLabels (st_status s))
     else map_option (\<lambda>t. sr ''Jo~s '' @ remaining (of_int (t - now) / 1000)) (parse P (case st_endsAt s of Some t \<Rightarrow> t | None \<Rightarrow> '''')))"

definition health_label :: "string \<Rightarrow> string" where
  "health_label v = (if v = ''UP'' then ''U redu'' else if v = ''DEGRADED'' then ''Potrebna provera'' else sr ''Nije potvr~deno'')"

record payment =
  pay_kind :: string
  pay_amount :: string
  pay_method :: string
  pay_reference :: "string option"
  pay_seconds :: rat
  pay_reason :: "string option"

definition payment_kind :: "bool \<Rightarrow> string \<Rightarrow> string" where
  \<comment> \<open>\<open>archive\<close>: the list of historical transactions\<close>
  "payment_kind archive k = (if archive then ''Istorijska transakcija ('' @ k @ '')''
     else if k = ''TIME_GRANT'' then ''Uplata'' else if k = ''TIME_REFUND'' then sr ''Povra~qaj'' else ''Uplata vremena'')"

definition payment_text :: "bool \<Rightarrow> string \<Rightarrow> payment \<Rightarrow> string" where
  \<comment> \<open>with the formatted time; the dot between the parts is U+00B7\<close>
  "payment_text archive time p = (let dot = '' '' @ [CHR 0xC2, CHR 0xB7] @ '' '' in
     time @ dot @ payment_kind archive (pay_kind p) @ dot @ pay_amount p @ '' RSD''
     @ (if pay_method p = ''CASH'' then dot @ ''Gotovina'' else if pay_method p = ''EXTERNAL_POS'' then dot @ ''Spoljni POS'' else '''')
     @ (if truthy (pay_reference p) then dot @ the (pay_reference p) else '''')
     @ (if pay_seconds p \<noteq> 0 then dot @ remaining (pay_seconds p) else '''')
     @ (if truthy (pay_reason p) then dot @ the (pay_reason p) else ''''))"

record price_settings =
  prs_draft :: "string option"
  prs_saving :: bool

definition price_value :: "gaming_time_price option \<Rightarrow> price_settings \<Rightarrow> string" where
  "price_value price s = (case prs_draft s of Some v \<Rightarrow> v
     | None \<Rightarrow> (case Option.bind price gp_pricePerMinute of Some v \<Rightarrow> v | None \<Rightarrow> ''''))"

definition price_shape :: "string \<Rightarrow> bool" where
  "price_shape v \<longleftrightarrow> (let whole = takeWhile is_digit v; rest = dropWhile is_digit v in
     1 \<le> length whole \<and> length whole \<le> 10
     \<and> (rest = '''' \<or> (hd rest = CHR ''.'' \<and> list_all is_digit (tl rest) \<and> 1 \<le> length (tl rest) \<and> length (tl rest) \<le> 2)))"

definition price_valid :: "(string \<Rightarrow> jsnum) \<Rightarrow> string \<Rightarrow> bool" where
  "price_valid to_number v \<longleftrightarrow> price_shape v \<and> (case to_number v of Num r \<Rightarrow> 0 < r | _ \<Rightarrow> False)"

definition price_submit :: "(string \<Rightarrow> jsnum) \<Rightarrow> gaming_time_price option \<Rightarrow> price_settings \<Rightarrow> price_settings \<times> http_request option" where
  "price_submit to_number price s = (case price of
     Some p \<Rightarrow> if price_valid to_number (price_value price s)
       then (s\<lparr>prs_saving := True\<rparr>, Some (gamingTimeApi_savePrice \<lparr>gp_pricePerMinute = Some (price_value price s), gp_version = gp_version p\<rparr>))
       else (s, None)
   | None \<Rightarrow> (s, None))"

definition price_saved :: "bool \<Rightarrow> price_settings \<Rightarrow> price_settings" where
  "price_saved ok s = (if ok then s\<lparr>prs_draft := None, prs_saving := False\<rparr> else s\<lparr>prs_saving := False\<rparr>)"

subsection \<open>Properties\<close>

lemma page_rows_concat: "0 < n \<Longrightarrow> concat (map (\<lambda>p. page_rows n p xs) [0..<k]) = take (k * n) xs"
proof (induction k)
  case (Suc k)
  have "take (Suc k * n) xs = take (k * n) xs @ take n (drop (k * n) xs)" using take_add [of "k * n" n xs] by (simp add: add.commute)
  with Suc show ?case by (simp add: page_rows_def)
qed simp

lemma board_pages_enough: "0 < n \<Longrightarrow> m \<le> board_pages n m * n"
proof -
  assume n: "0 < n"
  have "(m + n - 1) div n * n + (m + n - 1) mod n = m + n - 1" by simp
  moreover have "(m + n - 1) mod n < n" using n by simp
  ultimately show ?thesis unfolding board_pages_def by linarith
qed

lemma pages_show_each_station_once:
  "0 < n \<Longrightarrow> concat (map (\<lambda>p. page_rows n p xs) [0..<board_pages n (length xs)]) = xs"
  by (simp add: page_rows_concat board_pages_enough)

lemma shown_page_is_not_empty:
  assumes "0 < n" and "xs \<noteq> []"
  shows "page_rows n (board_page to_number text n (length xs)) xs \<noteq> []"
proof -
  let ?m = "length xs" and ?p = "board_page to_number text n (length xs)"
  have "1 \<le> board_pages n ?m" using assms board_pages_enough [of n ?m] by (cases "board_pages n ?m") auto
  then have "?p + 1 \<le> board_pages n ?m" by (simp add: board_page_def)
  then have "?p * n + n \<le> board_pages n ?m * n" using mult_le_mono1 [of "?p + 1" "board_pages n ?m" n] by simp
  moreover have "board_pages n ?m * n \<le> ?m + n - 1" unfolding board_pages_def using div_times_less_eq_dividend by blast
  ultimately have "?p * n < ?m" using assms by linarith
  then show ?thesis using assms by (simp add: page_rows_def)
qed

lemma buttons_are_permitted:
  "Btn_end \<in> set (station_buttons actor s v) \<Longrightarrow> permitsStationAction actor s TERMINATE"
  "Btn_assign \<in> set (station_buttons actor s v) \<Longrightarrow> permitsStationAction actor s START"
  "Btn_force_lock \<in> set (station_buttons actor s v) \<Longrightarrow> permitsStationAction actor s FORCE_LOCK"
  "Btn_extend n \<in> set (station_buttons actor s v) \<Longrightarrow> permitsStationAction actor s EXTEND"
  by (auto simp: station_buttons_def Let_def split: if_splits)

lemma operations_are_determined_by_the_request:
  "operation_request op k = operation_request op' k' \<Longrightarrow> k = k'"
  by (cases op; cases op') (auto simp: operation_request_def with_key_def api_send_def gamingTimeApi_assign_def gamingTimeApi_grant_def
    gamingBillingApi_prepare_def gamingTimeApi_cancel_def)

lemma retry_repeats_the_operation:
  assumes "fc_previous c = Some op" and "km_pendingKey (fc_key c) = Some k" and "\<not> fc_gate c"
  shows "snd (retry_operation generated c) = Some (operation_request op k)"
  using assms by (auto simp: retry_operation_def run_operation_def fin_start_def Let_def km_begin_def km_pendingKey_def split: prod.splits option.splits if_splits)

end
