(* ===== verification/Spec2Isabelle.thy ===== *)
theory Spec2Isabelle
  imports Navigation Weekly Gaming Sse Cart Booking Waitlist Reports AuditLog StationPages Notifications Sessions Observability Accounts Dashboard CatalogPages OrderPages ReservationPages Timeline CalendarPages GamingPages
begin

text \<open>
  \<^bold>\<open>The G-Manager web client.\<close> G-Manager runs a gaming centre: stations, reservations, a waiting list, orders, staff
  and reports. This development models the TypeScript client of the repository,
  \<open>src/frontend/g-manager/src\<close>; all file names below are relative to that directory.

  \<^bold>\<open>How the program is put together.\<close> Pages (\<open>pages/\<close>) read lists through React Query and send commands through
  the modules of \<open>api/\<close>. All of these share one axios instance, whose interceptors add the token, refresh
  it once for all requests that meet a 401, and turn errors into causes. Commands that create something (orders,
  reservations, gaming sessions, purchases, waiting-list entries) carry an idempotency key that a key manager keeps while the outcome of an
  attempt is not known. Drafts and the cart are stored encrypted on the device. Times are entered as wall-clock
  texts of the business zone and sent as instants. What a user may see or do is decided by capabilities.

  \<^bold>\<open>How the code is modelled.\<close> A TypeScript type is a record or datatype with the source's fields under a prefix
  (\<open>r_status\<close> of \<open>Reservation\<close>); a union of literals is a datatype with a function to the wire name. A pure
  function is an executable definition of the same name. A hook or page is a record of its state and refs with one
  function per handler. An asynchronous handler is cut at each \<open>await\<close>: one function up to the request (\<open>..._start\<close>),
  one for each way it goes on (\<open>..._succeeded\<close>, \<open>..._failed\<close>, \<open>..._settled\<close>, \<open>..._finally\<close>), so that every interleaving of
  requests, answers and clicks is a sequence of steps. A thrown error is the \<open>Inl\<close> of a sum or None. A call of the
  server is the request record of theory \<open>Http\<close> that it builds; what the server answers is an argument.

  \<^bold>\<open>The theories.\<close>
  \<^item> \<open>Prelude\<close>, \<open>Web\<close>, \<open>Http\<close>, \<open>ApiErrors\<close>: JavaScript's strings, dictionaries, stable sorting, numbers and JSON; URI
    encoding; requests; server errors and the texts shown for them (\<open>api/errorMessage.ts\<close>, \<open>api/client.ts\<close>,
    \<open>order\<close> and booking messages).
  \<^item> \<open>Auth\<close>, \<open>Navigation\<close>: capabilities and the store of the session (\<open>auth/\<close>), menus, route guards and home
    pages (\<open>layout/navigation.ts\<close>, \<open>App.tsx\<close>). Lemmas: every entry of a menu opens.
  \<^item> \<open>ApiClient\<close>: interceptors and the refresh of the token as a step relation. Lemmas: one refresh at a time, every
    waiting request goes on with its outcome, a session ends for three reasons only, every call comes back to its caller.
  \<^item> \<open>Idempotency\<close>: the key manager and the hook of financial commands (\<open>api/idempotency.ts\<close>). With a server that keeps its
    contract on keys (\<open>answer_possible\<close>) a command takes effect once. The locale
    \<open>key_manager_spec\<close> states what a key manager promises, \<open>idempotent_sender\<close> what a system that sends keyed requests must
    keep so that a key determines its request. They are interpreted here and, for the senders, in \<open>Cart\<close>, \<open>Booking\<close>,
    \<open>Gaming\<close> and \<open>Waitlist\<close>; their properties are the facts of these interpretations.
  \<^item> \<open>JsDate\<close>, \<open>DateTime\<close>, \<open>Calendar\<close>, \<open>Weekly\<close>, \<open>Timeline\<close>, \<open>CalendarPages\<close>: ECMAScript's calendar, business time
    (\<open>reservations/dateTime.ts\<close>, \<open>dashboard/dateRange.ts\<close>), the calendar's days, months and lanes (\<open>calendar/\<close>), the timeline
    with its working windows, and the page of the calendar. Lemmas: conversions are sound and complete, valid dates are
    calendar days, overlapping events have their own lanes, closed hours are exact.
  \<^item> \<open>ClientStorage\<close>: the IndexedDB store of cached reads and encrypted drafts (\<open>pwa/\<close>). The locale \<open>draft_store\<close> is the abstract
    store, a map from user and form to a versioned value, which the records refine for the values that JSON can carry
    (\<open>storable\<close>).
  \<^item> \<open>Sse\<close>, \<open>Notifications\<close>: the reader of the event stream with its reconnecting loop, the notification centre and its settings.
  \<^item> \<open>Orders\<close>, \<open>Cart\<close>, \<open>OrderPages\<close>, \<open>CatalogPages\<close>: orders and catalog, the customer's cart, the pages that act on them.
  \<^item> \<open>Reservations\<close>, \<open>Booking\<close>, \<open>Waitlist\<close>, \<open>ReservationPages\<close>: the types and requests of reservations, the booking hooks of
    customer and staff, the waiting list, the pages, dialogs and the customer's home.
  \<^item> \<open>Gaming\<close>, \<open>GamingPages\<close>, \<open>Resources\<close>, \<open>Stations\<close>, \<open>StationPages\<close>: gaming sessions and prices, locations and floor plans, the client
    stations, their packages, dialogs and pages.
  \<^item> \<open>People\<close>, \<open>Accounts\<close>, \<open>Sessions\<close>: users and customers, sign-in, activation and profile, users and employees, the list of sessions.
  \<^item> \<open>Settings\<close>, \<open>Hooks\<close>, \<open>Reports\<close>, \<open>AuditLog\<close>, \<open>Dashboard\<close>, \<open>Observability\<close>: working hours and time off, shared hooks (list state in
    the address, unsaved work, clock, search, saved views), reports, the comparison of audit snapshots, dashboards,
    redacted error reports.

  \<^bold>\<open>What the properties show.\<close> A key determines its request (C2, C7, C10, C27), also over failed and repeated attempts,
  and a command takes effect once (C18); an item of the catalog is created once (C36); stored drafts and carts come back as
  they were (C8, C15, C17, C20) and stay well-formed (C11); refreshes and reconnects are bounded and live (C1, C13, C14, C23,
  C39); what is shown does not depend on chunks, as long as no CR follows a CR (C4), or on interleavings (C33); actions are
  sent only when permitted and exactly for what was chosen (C12, C30, C37), and a sign-in leads back to the page asked for
  (C31); numbers, dates and layouts are exact.

  \<^bold>\<open>Parameters and hypotheses.\<close> The following are arguments of the definitions that use them: Intl's formatting, collation and
  the zone's offset, and \<open>Date.parse\<close> outside the ISO format (record \<open>platform\<close>); AES-GCM and key generation
  (\<open>crypto_ok\<close>: what was encrypted with a key decrypts with it, and \<open>JSON.parse\<close> gives back what \<open>JSON.stringify\<close> was given
  where all numbers are finite doubles and the names of an object are distinct and no array indices); \<open>crypto.randomUUID\<close> (fresh keys are not among those sent);
  \<open>JSON.parse\<close> of a stored text; \<open>Number(text)\<close> (\<open>to_number\<close>); the URL parser, \<open>fetch\<close> and SHA-256 of the package
  download; zod's test of an email address; Unicode classes and word boundaries of regular expressions. Completeness of the conversion to instants
  assumes that around the instant the zone has two offsets only, less than a day and constant within the minute. The paged reads assume that the pages cut one list.

  \<^bold>\<open>Bounds and fuel.\<close> \<open>businessLocalToInstant\<close> makes at most four attempts, as the code does, and C6 shows that four are
  enough. The audit comparison stops at depth 25 and after 2000 places, as the code does, and reports that it stopped. Paged reads take the number of
  pages as fuel and are shown to end with it. Strings are lists of UTF-8 bytes; \<open>js_length\<close> counts UTF-16 units, and \<open>trim\<close> and
  lower case act on ASCII. The server of C18 may lose answers and fail in any way, but executes a key once, and a refusal
  of a key it has not executed leaves nothing behind. Numbers that the code keeps as integers are \<open>int\<close> or \<open>nat\<close>, and fractional ones \<open>rat\<close> or \<open>real\<close>;
  they agree with IEEE doubles below \<open>2 ^ 53\<close>, and where the code tests for a safe integer so does the model.

  \<^bold>\<open>Not modelled.\<close> JSX and styles: what a view only shows, its focus and its scrolling. The dialogs that only collect fields for modelled
  requests, the AI assistant's panel, document downloads and the feature-flag page. React Query's cache and
  polling: a read is its request, when it is enabled, and its answer. The Spring server (Java) and the station client (C#) are other programs; what
  the web client relies on of them is a hypothesis. Tests, load tests and deployment files hold no logic of the client.
\<close>

end
